(* ===== verification/Prelude.thy ===== *)
theory Prelude
  imports Main "HOL-Library.Word" "HOL-Library.List_Lexorder" "HOL-Library.Char_ord"
begin

text \<open>
  Shared vocabulary of the development: the machine integers of the source as words, the
  checked and saturating operations of Rust's standard library on them, \<open>Result\<close> and
  \<open>Option\<close> combinators, and lemmas on them that the components share. The \<open>str\<close> methods are in
  \<open>Rust_Str\<close>; ordered maps, the validation idioms of the code base and the invariant principle for
  runs of a state machine are in \<open>Gates\<close>.

  Conventions. \<open>u8\<close>, \<open>u32\<close>, \<open>u64\<close> and \<open>u128\<close> are words, on which \<open>+\<close>, \<open>-\<close> and \<open>*\<close>
  wrap as in a release build; \<open>i32\<close> and \<open>i64\<close> are \<open>int\<close> with their range written out where
  the code depends on it; \<open>usize\<close> values only count elements of vectors in memory and are
  \<open>nat\<close>. A string is the list of its bytes. A panic is the value \<open>None\<close>.
\<close>

named_theorems sat_simps \<open>unsigned value of the saturating and checked operations\<close>
named_theorems gate_simps \<open>definitions of the reason gates\<close>
named_theorems f64_simps \<open>comparison and arithmetic on binary64 values\<close>

type_synonym u8 = "8 word"
type_synonym u32 = "32 word"
type_synonym u64 = "64 word"
type_synonym u128 = "128 word"
type_synonym i32 = int
type_synonym i64 = int

subsection \<open>Result and Option\<close>

type_synonym ('e, 'a) result = "'e + 'a"

abbreviation Ok :: "'a \<Rightarrow> ('e, 'a) result" where
  "Ok \<equiv> Inr"

abbreviation Err :: "'e \<Rightarrow> ('e, 'a) result" where
  "Err \<equiv> Inl"

text \<open>The \<open>?\<close> operator: stop at the first error.\<close>

fun rbind :: "('e, 'a) result \<Rightarrow> ('a \<Rightarrow> ('e, 'b) result) \<Rightarrow> ('e, 'b) result" where
  "rbind (Inl e) f = Inl e"
| "rbind (Inr x) f = f x"

lemma rbind_Ok_iff [simp]: "rbind r f = Ok y \<longleftrightarrow> (\<exists>x. r = Ok x \<and> f x = Ok y)"
  by (cases r) auto

fun ok_or :: "'e \<Rightarrow> 'a option \<Rightarrow> ('e, 'a) result" where
  "ok_or e None = Err e"
| "ok_or e (Some x) = Ok x"

lemma ok_or_Ok_iff [simp]: "ok_or e x = Ok y \<longleftrightarrow> x = Some y"
  by (cases x) auto

fun unwrap_or :: "'a \<Rightarrow> 'a option \<Rightarrow> 'a" where
  "unwrap_or d None = d"
| "unwrap_or d (Some x) = x"

fun is_some_and :: "('a \<Rightarrow> bool) \<Rightarrow> 'a option \<Rightarrow> bool" where
  "is_some_and p None = False"
| "is_some_and p (Some x) = p x"

fun is_none_or :: "('a \<Rightarrow> bool) \<Rightarrow> 'a option \<Rightarrow> bool" where
  "is_none_or p None = True"
| "is_none_or p (Some x) = p x"

lemma is_some_and_iff: "is_some_and p x \<longleftrightarrow> (\<exists>y. x = Some y \<and> p y)"
  by (cases x) auto

lemma is_none_or_iff: "is_none_or p x \<longleftrightarrow> (\<forall>y. x = Some y \<longrightarrow> p y)"
  by (cases x) auto

fun opt_filter :: "('a \<Rightarrow> bool) \<Rightarrow> 'a option \<Rightarrow> 'a option" where
  "opt_filter p None = None"
| "opt_filter p (Some x) = (if p x then Some x else None)"

fun opt_or :: "'a option \<Rightarrow> 'a option \<Rightarrow> 'a option" where
  "opt_or None y = y"
| "opt_or (Some x) y = Some x"

subsection \<open>Checked and saturating arithmetic\<close>

definition sat_add :: "'a::len word \<Rightarrow> 'a word \<Rightarrow> 'a word" where
  "sat_add a b = (if unat a + unat b < 2 ^ LENGTH('a) then a + b else - 1)"

definition sat_sub :: "'a::len word \<Rightarrow> 'a word \<Rightarrow> 'a word" where
  "sat_sub a b = (if a < b then 0 else a - b)"

definition sat_mul :: "'a::len word \<Rightarrow> 'a word \<Rightarrow> 'a word" where
  "sat_mul a b = (if unat a * unat b < 2 ^ LENGTH('a) then a * b else - 1)"

definition checked_add :: "'a::len word \<Rightarrow> 'a word \<Rightarrow> 'a word option" where
  "checked_add a b = (if unat a + unat b < 2 ^ LENGTH('a) then Some (a + b) else None)"

definition checked_sub :: "'a::len word \<Rightarrow> 'a word \<Rightarrow> 'a word option" where
  "checked_sub a b = (if a < b then None else Some (a - b))"

definition checked_mul :: "'a::len word \<Rightarrow> 'a word \<Rightarrow> 'a word option" where
  "checked_mul a b = (if unat a * unat b < 2 ^ LENGTH('a) then Some (a * b) else None)"

lemma unat_max_word: "unat (- 1 :: 'a::len word) = 2 ^ LENGTH('a) - 1"
  by (simp add: unsigned_minus_1_eq_mask mask_eq_exp_minus_1)

lemma unat_sat_add [sat_simps]:
  "unat (sat_add a (b :: 'a::len word)) = min (unat a + unat b) (2 ^ LENGTH('a) - 1)"
  by (auto simp: sat_add_def unat_max_word unat_word_ariths min_def)

lemma unat_sat_sub [sat_simps]: "unat (sat_sub a b) = unat a - unat b"
  by (auto simp: sat_sub_def word_less_nat_alt unat_sub_if')

lemma unat_sat_mul [sat_simps]:
  "unat (sat_mul a (b :: 'a::len word)) = min (unat a * unat b) (2 ^ LENGTH('a) - 1)"
proof (cases "unat a * unat b < 2 ^ LENGTH('a)")
  case True
  then show ?thesis by (simp add: sat_mul_def unat_word_ariths)
next
  case False
  then show ?thesis by (simp add: sat_mul_def unat_max_word)
qed

lemma checked_add_Some [sat_simps]:
  "checked_add a (b :: 'a::len word) = Some c \<longleftrightarrow> unat c = unat a + unat b"
proof
  assume "checked_add a b = Some c"
  then show "unat c = unat a + unat b"
    by (auto simp: checked_add_def unat_word_ariths split: if_splits)
next
  assume eq: "unat c = unat a + unat b"
  have "unat c < 2 ^ LENGTH('a)" by (rule unsigned_less)
  with eq show "checked_add a b = Some c"
    by (auto simp: checked_add_def word_unat_eq_iff unat_word_ariths)
qed

lemma checked_sub_Some [sat_simps]:
  "checked_sub a b = Some c \<longleftrightarrow> unat b \<le> unat a \<and> unat c = unat a - unat b"
  by (auto simp: checked_sub_def word_less_nat_alt word_unat_eq_iff unat_sub_if')

lemma checked_mul_Some [sat_simps]:
  "checked_mul a (b :: 'a::len word) = Some c \<longleftrightarrow> unat c = unat a * unat b"
proof
  assume "checked_mul a b = Some c"
  then show "unat c = unat a * unat b"
    by (auto simp: checked_mul_def unat_word_ariths split: if_splits)
next
  assume eq: "unat c = unat a * unat b"
  have "unat c < 2 ^ LENGTH('a)" by (rule unsigned_less)
  with eq show "checked_mul a b = Some c"
    by (auto simp: checked_mul_def word_unat_eq_iff unat_word_ariths)
qed

lemma unat_ucast_up:
  assumes "LENGTH('a::len) \<le> LENGTH('b::len)"
  shows "unat (ucast (w :: 'a word) :: 'b word) = unat w"
proof -
  have "unat w < 2 ^ LENGTH('a)" by (rule unsigned_less)
  also have "\<dots> \<le> 2 ^ LENGTH('b)" using assms by (intro power_increasing) auto
  finally show ?thesis by (simp add: unsigned_ucast_eq take_bit_nat_eq_self)
qed

text \<open>\<open>Ord::clamp\<close> asserts that its bounds are ordered and panics otherwise.\<close>

definition clamp :: "'a::linorder \<Rightarrow> 'a \<Rightarrow> 'a \<Rightarrow> 'a option" where
  "clamp x lo hi = (if lo \<le> hi then Some (if x < lo then lo else if hi < x then hi else x) else None)"

lemma clamp_Some_bounds: "clamp x lo hi = Some y \<Longrightarrow> lo \<le> y \<and> y \<le> hi"
  by (auto simp: clamp_def split: if_splits)

lemma clamp_in_range: "lo \<le> x \<Longrightarrow> x \<le> hi \<Longrightarrow> clamp x lo hi = Some x"
  by (auto simp: clamp_def)

lemma clamp_defined: "lo \<le> hi \<Longrightarrow> \<exists>y. clamp x lo hi = Some y"
  by (simp add: clamp_def)

text \<open>Signed 64-bit arithmetic on \<open>int\<close>, with the range written out.\<close>

definition i64_min :: int where
  "i64_min = - (2 ^ 63)"

definition i64_max :: int where
  "i64_max = 2 ^ 63 - 1"

definition in_i64 :: "int \<Rightarrow> bool" where
  "in_i64 x \<longleftrightarrow> i64_min \<le> x \<and> x \<le> i64_max"

definition i64_sat_sub :: "i64 \<Rightarrow> i64 \<Rightarrow> i64" where
  "i64_sat_sub a b = max i64_min (min i64_max (a - b))"

definition i64_checked_sub :: "i64 \<Rightarrow> i64 \<Rightarrow> i64 option" where
  "i64_checked_sub a b = (if in_i64 (a - b) then Some (a - b) else None)"

end
