(* ===== verification/Rust_Str.thy ===== *)
theory Rust_Str
  imports Prelude
begin

text \<open>
  The part of Rust's \<open>str\<close> API the crates use, on byte strings. Whitespace is the ASCII part
  of \<open>char::is_whitespace\<close> (the bytes 9 to 13 and 32): kernel files and executable names are
  ASCII, and a multi-byte whitespace character is left in place by this model. Integer
  parsing follows \<open>FromStr\<close>: an optional sign, at least one digit, no other byte, and an
  error when the value does not fit the type.
\<close>

subsection \<open>Characters\<close>

definition is_ws :: "char \<Rightarrow> bool" where
  "is_ws c \<longleftrightarrow> (let n = of_char c :: nat in (9 \<le> n \<and> n \<le> 13) \<or> n = 32)"

definition is_ascii_digit :: "char \<Rightarrow> bool" where
  "is_ascii_digit c \<longleftrightarrow> (let n = of_char c :: nat in 48 \<le> n \<and> n \<le> 57)"

definition is_ascii_upper :: "char \<Rightarrow> bool" where
  "is_ascii_upper c \<longleftrightarrow> (let n = of_char c :: nat in 65 \<le> n \<and> n \<le> 90)"

definition is_ascii_lower :: "char \<Rightarrow> bool" where
  "is_ascii_lower c \<longleftrightarrow> (let n = of_char c :: nat in 97 \<le> n \<and> n \<le> 122)"

definition is_ascii_alnum :: "char \<Rightarrow> bool" where
  "is_ascii_alnum c \<longleftrightarrow> is_ascii_digit c \<or> is_ascii_upper c \<or> is_ascii_lower c"

definition is_ascii_hexdigit :: "char \<Rightarrow> bool" where
  "is_ascii_hexdigit c \<longleftrightarrow> (let n = of_char c :: nat in
     is_ascii_digit c \<or> (65 \<le> n \<and> n \<le> 70) \<or> (97 \<le> n \<and> n \<le> 102))"

definition ascii_lower :: "char \<Rightarrow> char" where
  "ascii_lower c = (if is_ascii_upper c then char_of (of_char c + 32 :: nat) else c)"

definition to_ascii_lowercase :: "string \<Rightarrow> string" where
  "to_ascii_lowercase s = map ascii_lower s"

definition eq_ignore_ascii_case :: "string \<Rightarrow> string \<Rightarrow> bool" where
  "eq_ignore_ascii_case a b \<longleftrightarrow> to_ascii_lowercase a = to_ascii_lowercase b"

lemma ascii_lower_idem [simp]: "ascii_lower (ascii_lower c) = ascii_lower c"
  by (auto simp: ascii_lower_def is_ascii_upper_def Let_def)

lemma to_ascii_lowercase_idem [simp]:
  "to_ascii_lowercase (to_ascii_lowercase s) = to_ascii_lowercase s"
  by (simp add: to_ascii_lowercase_def)

lemma to_ascii_lowercase_Nil_iff [simp]: "to_ascii_lowercase s = [] \<longleftrightarrow> s = []"
  by (simp add: to_ascii_lowercase_def)

subsection \<open>Prefixes, suffixes, substrings\<close>

fun strip_prefix :: "string \<Rightarrow> string \<Rightarrow> string option" where
  "strip_prefix [] s = Some s"
| "strip_prefix (c # p) [] = None"
| "strip_prefix (c # p) (d # s) = (if c = d then strip_prefix p s else None)"

definition starts_with :: "string \<Rightarrow> string \<Rightarrow> bool" where
  "starts_with s p \<longleftrightarrow> strip_prefix p s \<noteq> None"

definition strip_suffix :: "string \<Rightarrow> string \<Rightarrow> string option" where
  "strip_suffix p s = map_option rev (strip_prefix (rev p) (rev s))"

definition ends_with :: "string \<Rightarrow> string \<Rightarrow> bool" where
  "ends_with s p \<longleftrightarrow> strip_suffix p s \<noteq> None"

fun str_contains :: "string \<Rightarrow> string \<Rightarrow> bool" where
  "str_contains [] n = (n = [])"
| "str_contains (c # s) n = (starts_with (c # s) n \<or> str_contains s n)"

lemma strip_prefix_Some_iff: "strip_prefix p s = Some r \<longleftrightarrow> s = p @ r"
  by (induction p s rule: strip_prefix.induct) auto

lemma strip_prefix_append [simp]: "strip_prefix p (p @ r) = Some r"
  by (simp add: strip_prefix_Some_iff)

lemma starts_with_iff: "starts_with s p \<longleftrightarrow> (\<exists>r. s = p @ r)"
  by (auto simp: starts_with_def strip_prefix_Some_iff)

lemma strip_suffix_Some_iff: "strip_suffix p s = Some r \<longleftrightarrow> s = r @ p"
  by (auto simp: strip_suffix_def strip_prefix_Some_iff)
    (metis rev_append rev_rev_ident)

lemma ends_with_iff: "ends_with s p \<longleftrightarrow> (\<exists>r. s = r @ p)"
  by (auto simp: ends_with_def strip_suffix_Some_iff)

lemma str_contains_iff: "str_contains s n \<longleftrightarrow> (\<exists>a b. s = a @ n @ b)"
proof (induction s)
  case Nil
  then show ?case by auto
next
  case (Cons c s)
  show ?case
  proof
    assume "str_contains (c # s) n"
    then show "\<exists>a b. c # s = a @ n @ b"
      using Cons.IH by (auto simp: starts_with_iff) (metis append_Cons append_Nil)+
  next
    assume "\<exists>a b. c # s = a @ n @ b"
    then obtain a b where ab: "c # s = a @ n @ b" by blast
    show "str_contains (c # s) n"
    proof (cases a)
      case Nil
      with ab have "starts_with (c # s) n" by (auto simp: starts_with_iff)
      then show ?thesis by simp
    next
      case (Cons x a')
      with ab have "s = a' @ n @ b" by simp
      with Cons.IH show ?thesis by auto
    qed
  qed
qed

subsection \<open>Trimming and splitting\<close>

definition trim_end_ws :: "string \<Rightarrow> string" where
  "trim_end_ws s = rev (dropWhile is_ws (rev s))"

definition trim :: "string \<Rightarrow> string" where
  "trim s = trim_end_ws (dropWhile is_ws s)"

text \<open>\<open>trim_end_matches(p)\<close> removes the suffix \<open>p\<close> as often as it occurs.\<close>

function trim_end_matches :: "string \<Rightarrow> string \<Rightarrow> string" where
  "trim_end_matches p s =
     (case strip_suffix p s of
        None \<Rightarrow> s
      | Some r \<Rightarrow> if p = [] then s else trim_end_matches p r)"
  by pat_completeness auto
termination
  by (relation "measure (\<lambda>(p, s). length s)") (auto simp: strip_suffix_Some_iff)

declare trim_end_matches.simps [simp del]

text \<open>\<open>trim_start_matches(p)\<close>, and \<open>trim_matches\<close> with a set of characters.\<close>

function trim_start_matches :: "string \<Rightarrow> string \<Rightarrow> string" where
  "trim_start_matches p s =
     (case strip_prefix p s of
        None \<Rightarrow> s
      | Some r \<Rightarrow> if p = [] then s else trim_start_matches p r)"
  by pat_completeness auto
termination
  by (relation "measure (\<lambda>(p, s). length s)") (auto simp: strip_prefix_Some_iff)

declare trim_start_matches.simps [simp del]

definition trim_chars :: "char set \<Rightarrow> string \<Rightarrow> string" where
  "trim_chars cs s = rev (dropWhile (\<lambda>c. c \<in> cs) (rev (dropWhile (\<lambda>c. c \<in> cs) s)))"

lemma trim_chars_id: "s = [] \<or> (hd s \<notin> cs \<and> last s \<notin> cs) \<Longrightarrow> trim_chars cs s = s"
proof (cases "s = []")
  case False
  assume "s = [] \<or> (hd s \<notin> cs \<and> last s \<notin> cs)"
  with False have f: "hd s \<notin> cs" and l: "hd (rev s) \<notin> cs" by (auto simp: hd_rev)
  have "dropWhile (\<lambda>c. c \<in> cs) s = s" using f False by (cases s) auto
  moreover have "dropWhile (\<lambda>c. c \<in> cs) (rev s) = rev s"
    using l False by (metis dropWhile_eq_self_iff)
  ultimately show ?thesis by (simp add: trim_chars_def)
qed (simp add: trim_chars_def)

lemma trim_end_matches_no_suffix: "p \<noteq> [] \<Longrightarrow> \<not> ends_with (trim_end_matches p s) p"
proof (induction p s rule: trim_end_matches.induct)
  case (1 p s)
  show ?case
  proof (cases "strip_suffix p s")
    case None
    then show ?thesis by (simp add: trim_end_matches.simps [of p s] ends_with_def)
  next
    case (Some r)
    with "1.prems" "1.IH" show ?thesis by (simp add: trim_end_matches.simps [of p s])
  qed
qed

text \<open>\<open>split(c)\<close> with a separator character: always at least one piece.\<close>

fun split_on :: "char \<Rightarrow> string \<Rightarrow> string list" where
  "split_on c [] = [[]]"
| "split_on c (x # xs) =
     (if x = c then [] # split_on c xs
      else (case split_on c xs of [] \<Rightarrow> [[x]] | p # ps \<Rightarrow> (x # p) # ps))"

lemma split_on_not_Nil [simp]: "split_on c s \<noteq> []"
  by (induction s) (auto split: list.splits)

lemma split_on_no_sep: "p \<in> set (split_on c s) \<Longrightarrow> c \<notin> set p"
proof (induction s arbitrary: p)
  case Nil
  then show ?case by simp
next
  case (Cons x xs)
  then show ?case by (cases "split_on c xs") (auto split: if_splits)
qed

fun join :: "string \<Rightarrow> string list \<Rightarrow> string" where
  "join sep [] = []"
| "join sep [p] = p"
| "join sep (p # q # ps) = p @ sep @ join sep (q # ps)"

lemma split_on_append:
  "c \<notin> set p \<Longrightarrow> split_on c (p @ c # s) = p # split_on c s"
  by (induction p) auto

lemma split_on_no_occurrence: "c \<notin> set p \<Longrightarrow> split_on c p = [p]"
  by (induction p) auto

lemma split_on_join:
  assumes "ps \<noteq> []" and "\<forall>p \<in> set ps. c \<notin> set p"
  shows "split_on c (join [c] ps) = ps"
  using assms
proof (induction ps rule: induct_list012)
  case (3 x y zs)
  then show ?case by (simp add: split_on_append)
qed (simp_all add: split_on_no_occurrence)

text \<open>\<open>split_whitespace\<close>: the maximal runs of non-whitespace bytes.\<close>

fun split_ws_from :: "string \<Rightarrow> string \<Rightarrow> string list" where
  "split_ws_from cur [] = (if cur = [] then [] else [rev cur])"
| "split_ws_from cur (c # s) =
     (if is_ws c
      then (if cur = [] then split_ws_from [] s else rev cur # split_ws_from [] s)
      else split_ws_from (c # cur) s)"

definition split_whitespace :: "string \<Rightarrow> string list" where
  "split_whitespace s = split_ws_from [] s"

lemma split_ws_from_token:
  "\<forall>c \<in> set t. \<not> is_ws c \<Longrightarrow> is_ws w \<Longrightarrow> rev cur @ t \<noteq> [] \<Longrightarrow>
   split_ws_from cur (t @ w # s) = (rev cur @ t) # split_ws_from [] s"
  by (induction t arbitrary: cur) auto

lemma split_ws_from_last:
  "\<forall>c \<in> set t. \<not> is_ws c \<Longrightarrow> rev cur @ t \<noteq> [] \<Longrightarrow> split_ws_from cur t = [rev cur @ t]"
  by (induction t arbitrary: cur) auto

definition ws_token :: "string \<Rightarrow> bool" where
  "ws_token t \<longleftrightarrow> t \<noteq> [] \<and> (\<forall>c \<in> set t. \<not> is_ws c)"

lemma is_ws_space [simp]: "is_ws CHR '' ''"
  by (simp add: is_ws_def)

lemma split_whitespace_join:
  "\<forall>t \<in> set ts. ws_token t \<Longrightarrow> split_whitespace (join '' '' ts) = ts"
  unfolding split_whitespace_def ws_token_def
proof (induction ts rule: induct_list012)
  case (2 x)
  then show ?case using split_ws_from_last [of x "[]"] by simp
next
  case (3 x y zs)
  then show ?case using split_ws_from_token [of x "CHR '' ''" "[]" "join '' '' (y # zs)"] by simp
qed simp

lemma split_ws_from_tokens:
  "\<forall>c \<in> set cur. \<not> is_ws c \<Longrightarrow> t \<in> set (split_ws_from cur s) \<Longrightarrow> ws_token t"
proof (induction s arbitrary: cur)
  case Nil
  then show ?case by (auto simp: ws_token_def split: if_splits)
next
  case (Cons c s)
  show ?case
  proof (cases "is_ws c")
    case True
    with Cons.prems(2) have "(cur \<noteq> [] \<and> t = rev cur) \<or> t \<in> set (split_ws_from [] s)"
      by (auto split: if_splits)
    then show ?thesis
      using Cons.prems(1) Cons.IH [of "[]"] by (auto simp: ws_token_def)
  next
    case False
    with Cons.prems Cons.IH [of "c # cur"] show ?thesis by simp
  qed
qed

lemma split_whitespace_tokens: "t \<in> set (split_whitespace s) \<Longrightarrow> ws_token t"
  by (simp add: split_whitespace_def split_ws_from_tokens [of "[]"])

text \<open>\<open>split_once\<close> at a character and at a substring: the first occurrence counts.\<close>

fun split_once :: "char \<Rightarrow> string \<Rightarrow> (string \<times> string) option" where
  "split_once c [] = None"
| "split_once c (x # xs) =
     (if x = c then Some ([], xs) else map_option (\<lambda>(a, b). (x # a, b)) (split_once c xs))"

fun split_once_str :: "string \<Rightarrow> string \<Rightarrow> (string \<times> string) option" where
  "split_once_str n [] = (if n = [] then Some ([], []) else None)"
| "split_once_str n (x # xs) =
     (case strip_prefix n (x # xs) of
        Some r \<Rightarrow> Some ([], r)
      | None \<Rightarrow> map_option (\<lambda>(a, b). (x # a, b)) (split_once_str n xs))"

lemma split_once_Some: "split_once c s = Some (a, b) \<longleftrightarrow> s = a @ c # b \<and> c \<notin> set a"
proof (induction s arbitrary: a)
  case Nil
  then show ?case by simp
next
  case (Cons x xs)
  then show ?case by (cases a) auto
qed

lemma split_once_str_Some: "split_once_str n s = Some (a, b) \<Longrightarrow> s = a @ n @ b"
proof (induction s arbitrary: a)
  case Nil
  then show ?case by (simp split: if_splits)
next
  case (Cons x xs)
  show ?case
  proof (cases "strip_prefix n (x # xs)")
    case None
    with Cons.prems obtain a' where "split_once_str n xs = Some (a', b)" and "a = x # a'"
      by auto
    with Cons.IH show ?thesis by simp
  next
    case (Some r)
    then have "x # xs = n @ r" by (simp only: strip_prefix_Some_iff)
    moreover from Some Cons.prems have "a = []" and "b = r" by simp_all
    ultimately show ?thesis by simp
  qed
qed

text \<open>\<open>lines()\<close>: split at line feeds, drop a final empty piece, drop one carriage return before a line feed.\<close>

definition strip_cr :: "string \<Rightarrow> string" where
  "strip_cr l = (case strip_suffix [char_of (13 :: nat)] l of None \<Rightarrow> l | Some r \<Rightarrow> r)"

definition lines :: "string \<Rightarrow> string list" where
  "lines s = (let ps = split_on (char_of (10 :: nat)) s
     in map strip_cr (butlast ps) @ (if last ps = [] then [] else [last ps]))"

subsection \<open>Integers: printing and parsing\<close>

definition digit_char :: "nat \<Rightarrow> char" where
  "digit_char d = char_of (48 + d)"

definition digit_val :: "char \<Rightarrow> nat" where
  "digit_val c = of_char c - 48"

fun show_nat :: "nat \<Rightarrow> string" where
  "show_nat n = (if n < 10 then [digit_char n] else show_nat (n div 10) @ [digit_char (n mod 10)])"

declare show_nat.simps [simp del]

fun digits_value :: "nat \<Rightarrow> string \<Rightarrow> nat" where
  "digits_value acc [] = acc"
| "digits_value acc (c # s) = digits_value (acc * 10 + digit_val c) s"

definition parse_digits :: "string \<Rightarrow> nat option" where
  "parse_digits s = (if s \<noteq> [] \<and> list_all is_ascii_digit s then Some (digits_value 0 s) else None)"

text \<open>\<open>str::parse\<close> for an unsigned type of the given width.\<close>

definition strip_plus :: "string \<Rightarrow> string" where
  "strip_plus s = (case strip_prefix ''+'' s of None \<Rightarrow> s | Some r \<Rightarrow> r)"

definition parse_uint :: "string \<Rightarrow> 'a::len word option" where
  "parse_uint s = (case parse_digits (strip_plus s) of
      None \<Rightarrow> None
    | Some n \<Rightarrow> if n < 2 ^ LENGTH('a) then Some (of_nat n) else None)"

definition parse_u64 :: "string \<Rightarrow> u64 option" where
  "parse_u64 s = parse_uint s"

definition parse_u32 :: "string \<Rightarrow> u32 option" where
  "parse_u32 s = parse_uint s"

definition parse_u8 :: "string \<Rightarrow> u8 option" where
  "parse_u8 s = parse_uint s"

text \<open>\<open>from_str_radix(.., 16)\<close>.\<close>

definition hex_val :: "char \<Rightarrow> nat" where
  "hex_val c = (if is_ascii_digit c then digit_val c
     else if is_ascii_upper c then of_char c - 55 else of_char c - 87)"

definition parse_hex :: "string \<Rightarrow> 'a::len word option" where
  "parse_hex s = (let ds = strip_plus s in
     if ds \<noteq> [] \<and> list_all is_ascii_hexdigit ds
     then (let n = foldl (\<lambda>acc c. acc * 16 + hex_val c) 0 ds in
           if n < 2 ^ LENGTH('a) then Some (of_nat n) else None)
     else None)"

text \<open>\<open>str::parse\<close> for a signed type of \<open>w\<close> bits: one leading sign of either kind.\<close>

definition parse_sint :: "nat \<Rightarrow> string \<Rightarrow> int option" where
  "parse_sint w s = (let v = (case strip_prefix ''-'' s of
        Some r \<Rightarrow> map_option (\<lambda>n. - int n) (parse_digits r)
      | None \<Rightarrow> map_option int (parse_digits (strip_plus s)))
    in opt_filter (\<lambda>i. - (2 ^ (w - 1)) \<le> i \<and> i < 2 ^ (w - 1)) v)"

lemma is_ascii_digit_digit_char: "d < 10 \<Longrightarrow> is_ascii_digit (digit_char d)"
  by (simp add: is_ascii_digit_def digit_char_def Let_def)

lemma digit_val_digit_char: "d < 10 \<Longrightarrow> digit_val (digit_char d) = d"
  by (simp add: digit_val_def digit_char_def)

lemma digits_value_append:
  "digits_value acc (s @ t) = digits_value (digits_value acc s) t"
  by (induction s arbitrary: acc) auto

lemma show_nat_not_Nil [simp]: "show_nat n \<noteq> []"
  by (subst show_nat.simps) simp

lemma show_nat_digits: "list_all is_ascii_digit (show_nat n)"
proof (induction n rule: show_nat.induct)
  case (1 n)
  show ?case
    by (cases "n < 10")
      (use 1 in \<open>simp_all add: show_nat.simps [of n] is_ascii_digit_digit_char\<close>)
qed

lemma digits_value_show_nat: "digits_value 0 (show_nat n) = n"
proof (induction n rule: show_nat.induct)
  case (1 n)
  show ?case
    by (cases "n < 10")
      (use 1 in \<open>simp_all add: show_nat.simps [of n] digits_value_append digit_val_digit_char\<close>)
qed

lemma parse_digits_show_nat [simp]: "parse_digits (show_nat n) = Some n"
  by (simp add: parse_digits_def show_nat_digits digits_value_show_nat)

lemma digit_not_special:
  "is_ascii_digit c \<Longrightarrow> \<not> is_ws c \<and> c \<noteq> CHR ''+'' \<and> c \<noteq> CHR ''-'' \<and> c \<noteq> CHR '':'' \<and> c \<noteq> CHR ''=''"
  by (auto simp: is_ascii_digit_def is_ws_def Let_def)

lemma show_nat_chars:
  "c \<in> set (show_nat n) \<Longrightarrow>
     \<not> is_ws c \<and> c \<noteq> CHR ''+'' \<and> c \<noteq> CHR ''-'' \<and> c \<noteq> CHR '':'' \<and> c \<noteq> CHR ''=''"
  using show_nat_digits [of n] by (auto simp: list_all_iff dest: digit_not_special)

lemma strip_plus_show_nat [simp]: "strip_plus (show_nat n) = show_nat n"
  using show_nat_chars [of _ n]
  by (cases "show_nat n") (auto simp: strip_plus_def split: option.splits)

lemma parse_uint_show [simp]: "parse_uint (show_nat (unat w)) = Some w"
proof -
  have "unat w < 2 ^ LENGTH('a)" by (rule unsigned_less)
  then show ?thesis by (simp add: parse_uint_def)
qed

lemma parse_u64_show [simp]: "parse_u64 (show_nat (unat w)) = Some w"
  by (simp add: parse_u64_def)

lemma ws_token_show_nat [simp]: "ws_token (show_nat n)"
  by (auto simp: ws_token_def dest: show_nat_chars)

text \<open>The message of the \<open>ParseIntError\<close> a failed parse returns: digits are read from the left,
  and the first byte that is no digit or that makes the value exceed the type decides.\<close>

definition err_empty :: string where
  "err_empty = ''cannot parse integer from empty string''"

definition err_digit :: string where
  "err_digit = ''invalid digit found in string''"

definition err_large :: string where
  "err_large = ''number too large to fit in target type''"

definition err_small :: string where
  "err_small = ''number too small to fit in target type''"

fun scan_digits :: "string \<Rightarrow> nat \<Rightarrow> nat \<Rightarrow> string \<Rightarrow> (string, nat) result" where
  "scan_digits over bound acc [] = Ok acc"
| "scan_digits over bound acc (c # s) =
     (if \<not> is_ascii_digit c then Err err_digit
      else if bound < acc * 10 + digit_val c then Err over
      else scan_digits over bound (acc * 10 + digit_val c) s)"

definition scan_number :: "string \<Rightarrow> nat \<Rightarrow> string \<Rightarrow> (string, nat) result" where
  "scan_number over bound s = (if s = [] then Err err_digit else scan_digits over bound 0 s)"

definition parse_unsigned :: "string \<Rightarrow> (string, 'a::len word) result" where
  "parse_unsigned s = (if s = [] then Err err_empty
     else map_sum id of_nat (scan_number err_large (2 ^ LENGTH('a) - 1) (strip_plus s)))"

definition parse_signed :: "nat \<Rightarrow> string \<Rightarrow> (string, int) result" where
  "parse_signed w s = (if s = [] then Err err_empty
     else case strip_prefix ''-'' s of
        Some r \<Rightarrow> map_sum id (\<lambda>n. - int n) (scan_number err_small (2 ^ (w - 1)) r)
      | None \<Rightarrow> map_sum id int (scan_number err_large (2 ^ (w - 1) - 1) (strip_plus s)))"

lemma digits_value_mono: "acc \<le> digits_value acc s"
proof (induction s arbitrary: acc)
  case (Cons c s)
  have "acc \<le> acc * 10 + digit_val c" by simp
  also have "\<dots> \<le> digits_value (acc * 10 + digit_val c) s" by (rule Cons.IH)
  finally show ?case by simp
qed simp

lemma scan_digits_Ok_iff:
  "acc \<le> bound \<Longrightarrow> scan_digits over bound acc s = Ok n \<longleftrightarrow>
     list_all is_ascii_digit s \<and> digits_value acc s = n \<and> n \<le> bound"
proof (induction s arbitrary: acc)
  case (Cons c s)
  show ?case
  proof (cases "bound < acc * 10 + digit_val c")
    case True
    then show ?thesis using digits_value_mono [of "acc * 10 + digit_val c" s] by auto
  next
    case False
    then show ?thesis using Cons.IH [of "acc * 10 + digit_val c"] by simp
  qed
qed auto

lemma scan_number_Ok_iff:
  "scan_number over bound s = Ok n \<longleftrightarrow> parse_digits s = Some n \<and> n \<le> bound"
  by (auto simp: scan_number_def parse_digits_def scan_digits_Ok_iff)

text \<open>The two readings of \<open>FromStr\<close> agree: the result-valued one and the option-valued one.\<close>

lemma map_sum_Ok_iff: "map_sum id f r = Ok w \<longleftrightarrow> (\<exists>n. r = Ok n \<and> w = f n)"
  by (cases r) auto

lemma parse_unsigned_Ok_iff: "parse_unsigned s = Ok w \<longleftrightarrow> parse_uint s = Some (w :: 'a::len word)"
proof (cases "s = []")
  case True
  then show ?thesis by (simp add: parse_unsigned_def parse_uint_def strip_plus_def parse_digits_def)
next
  case False
  define b where "b = (2::nat) ^ LENGTH('a)"
  have "0 < b" by (simp add: b_def)
  then have b: "n \<le> b - 1 \<longleftrightarrow> n < b" for n by linarith
  have "parse_unsigned s = Ok w \<longleftrightarrow>
      (\<exists>n. parse_digits (strip_plus s) = Some n \<and> n \<le> b - 1 \<and> w = of_nat n)"
    using False unfolding parse_unsigned_def b_def [symmetric]
    by (auto simp: map_sum_Ok_iff scan_number_Ok_iff)
  also have "\<dots> \<longleftrightarrow> parse_uint s = Some w"
    unfolding parse_uint_def b_def [symmetric] b by (auto split: option.split)
  finally show ?thesis .
qed

lemma parse_unsigned_show [simp]: "parse_unsigned (show_nat (unat w)) = Ok w"
  by (simp add: parse_unsigned_Ok_iff)

end
