(* ===== verification/Float64.thy ===== *)
theory Float64
  imports Complex_Main Rust_Str
begin

text \<open>
  Rust's \<open>f64\<close> (IEEE 754 binary64). A value is a rational, a signed infinity or NaN;
  the sign of zero is not kept, because no operation the crates use on these values (ordered
  comparisons, \<open>max\<close>, \<open>min\<close>, sums, products and quotients by a nonzero divisor) can tell
  the two zeros apart. The result of an operation and of a decimal literal is the exact
  rational rounded to nearest, ties to even, to 53 significant bits with exponents from
  -1022 to 1023, and to an infinity on overflow. Everything here evaluates.
\<close>

datatype f64 = NaN | Inf bool | Fin rat

subsection \<open>Rounding\<close>

definition pow2 :: "int \<Rightarrow> rat" where
  "pow2 e = (if 0 \<le> e then 2 ^ nat e else 1 / 2 ^ nat (- e))"

function bit_length :: "int \<Rightarrow> int" where
  "bit_length n = (if n \<le> 0 then 0 else 1 + bit_length (n div 2))"
  by pat_completeness auto
termination
  by (relation "measure nat") auto

declare bit_length.simps [simp del]

text \<open>The exponent \<open>e\<close> with \<open>2 ^ e \<le> x < 2 ^ (e + 1)\<close> of a positive rational.\<close>

definition ilog2 :: "rat \<Rightarrow> int" where
  "ilog2 x = (case quotient_of x of (n, d) \<Rightarrow>
     let k = bit_length n - bit_length d
     in if pow2 k \<le> x then k else k - 1)"

definition round_even :: "rat \<Rightarrow> int" where
  "round_even x = (let f = \<lfloor>x\<rfloor>; r = x - of_int f
     in if r < 1 / 2 then f else if 1 / 2 < r then f + 1 else if even f then f else f + 1)"

text \<open>The spacing of the binary64 grid around a positive rational, and the grid point nearest
  to it (with no upper limit on the exponent).\<close>

definition quantum :: "rat \<Rightarrow> rat" where
  "quantum x = pow2 (max (ilog2 x) (- 1022) - 52)"

definition rnd_pos :: "rat \<Rightarrow> rat" where
  "rnd_pos x = of_int (round_even (x / quantum x)) * quantum x"

definition rnd :: "rat \<Rightarrow> f64" where
  "rnd x = (if x = 0 then Fin 0
     else let y = rnd_pos \<bar>x\<bar>
          in if 2 ^ 1024 \<le> y then Inf (x < 0) else Fin (if x < 0 then - y else y))"

lemma pow2_pos [simp]: "0 < pow2 e"
  by (simp add: pow2_def)

lemma pow2_powi: "pow2 e = 2 powi e"
  by (simp add: pow2_def power_int_def field_simps)

lemma pow2_add: "pow2 (a + b) = pow2 a * pow2 b"
  by (simp add: pow2_powi power_int_add)

lemma pow2_mono: "a \<le> b \<Longrightarrow> pow2 a \<le> pow2 b"
  by (simp add: pow2_powi power_int_increasing)

lemma pow2_nonneg_int: "0 \<le> e \<Longrightarrow> pow2 e = of_int (2 ^ nat e)"
  by (simp add: pow2_def)

lemma pow2_nat_diff: "pow2 (int a - int b) = 2 ^ a / 2 ^ b"
  by (simp add: pow2_powi power_int_diff)

lemma pow2_split: "q \<le> e \<Longrightarrow> pow2 e = of_int (2 ^ nat (e - q)) * pow2 q"
  using pow2_add [of "e - q" q] pow2_nonneg_int [of "e - q"] by simp

lemma of_int_pow2_le: "2 ^ k \<le> n \<Longrightarrow> (2::rat) ^ k \<le> of_int n"
  using of_int_le_iff [of "2 ^ k" n, where 'a = rat] by simp

lemma of_int_less_pow2: "n < 2 ^ k \<Longrightarrow> of_int n < (2::rat) ^ k"
  using of_int_less_iff [of n "2 ^ k", where 'a = rat] by simp

lemma nat_one_plus: "nat (1 + int k) = Suc k"
  by (simp add: nat_add_distrib)

lemma bit_length_nonneg: "0 \<le> bit_length n"
  by (induction n rule: bit_length.induct) (simp add: bit_length.simps)

lemma bit_length_pos: "0 < n \<Longrightarrow> 0 < bit_length n"
  using bit_length_nonneg [of "n div 2"] by (simp add: bit_length.simps [of n])

lemma bit_length_bounds:
  "0 < n \<Longrightarrow> 2 ^ nat (bit_length n - 1) \<le> n \<and> n < 2 ^ nat (bit_length n)"
proof (induction n rule: bit_length.induct)
  case (1 n)
  show ?case
  proof (cases "n div 2 = 0")
    case True
    with "1.prems" have "n = 1" by arith
    then show ?thesis by (simp add: bit_length.simps)
  next
    case False
    with "1.prems" have h: "0 < n div 2" by simp
    with "1.IH" "1.prems" have IH: "2 ^ nat (bit_length (n div 2) - 1) \<le> n div 2"
      "n div 2 < 2 ^ nat (bit_length (n div 2))" by auto
    from bit_length_pos [OF h] obtain k where k: "bit_length (n div 2) = int (Suc k)"
      by (metis Suc_pred nat_0_less_mult_iff pos_int_cases)
    have "2 ^ Suc k \<le> n" and "n < 2 ^ Suc (Suc k)" using IH k by (auto simp: nat_one_plus)
    then show ?thesis using "1.prems" k by (simp add: bit_length.simps [of n] nat_add_distrib)
  qed
qed

lemma ilog2_bounds:
  assumes "0 < x"
  shows "pow2 (ilog2 x) \<le> x" and "x < pow2 (ilog2 x + 1)"
proof -
  obtain n d where nd: "quotient_of x = (n, d)" by (cases "quotient_of x")
  have d: "0 < d" using nd by (rule quotient_of_denom_pos)
  have x: "x = of_int n / of_int d" using nd by (rule quotient_of_div)
  with assms d have n: "0 < n" by (simp add: zero_less_divide_iff)
  obtain bn where bn: "bit_length n = int (Suc bn)"
    using bit_length_pos [OF n] by (metis Suc_pred pos_int_cases)
  obtain bd where bd: "bit_length d = int (Suc bd)"
    using bit_length_pos [OF d] by (metis Suc_pred pos_int_cases)
  have nq: "(2::rat) ^ bn \<le> of_int n" "of_int n < (2::rat) ^ Suc bn"
    using bit_length_bounds [OF n] bn of_int_pow2_le [of bn n] of_int_less_pow2 [of n "Suc bn"]
    by (simp_all add: nat_one_plus)
  have dq: "(2::rat) ^ bd \<le> of_int d" "of_int d < (2::rat) ^ Suc bd"
    using bit_length_bounds [OF d] bd of_int_pow2_le [of bd d] of_int_less_pow2 [of d "Suc bd"]
    by (simp_all add: nat_one_plus)
  let ?k = "bit_length n - bit_length d"
  have "x < 2 ^ Suc bn / 2 ^ bd"
    unfolding x using nq dq d n by (intro frac_less) auto
  also have "\<dots> = pow2 (?k + 1)"
    using pow2_nat_diff [of "Suc bn" bd] bn bd by (simp add: algebra_simps)
  finally have up: "x < pow2 (?k + 1)" .
  have "pow2 (?k - 1) = 2 ^ bn / 2 ^ Suc bd"
    using pow2_nat_diff [of bn "Suc bd"] bn bd by (simp add: algebra_simps)
  also have "\<dots> \<le> x"
    unfolding x using nq dq d n by (intro frac_le) auto
  finally have lo: "pow2 (?k - 1) \<le> x" .
  have eq: "ilog2 x = (if pow2 ?k \<le> x then ?k else ?k - 1)"
    by (simp add: ilog2_def nd Let_def)
  show "pow2 (ilog2 x) \<le> x" and "x < pow2 (ilog2 x + 1)"
    using lo up by (auto simp: eq)
qed

lemma ilog2_mono:
  assumes "0 < x" and "x \<le> y"
  shows "ilog2 x \<le> ilog2 y"
proof (rule ccontr)
  assume "\<not> ilog2 x \<le> ilog2 y"
  then have "pow2 (ilog2 y + 1) \<le> pow2 (ilog2 x)" by (intro pow2_mono) simp
  with ilog2_bounds(2) [of y] ilog2_bounds(1) [of x] assms show False by simp
qed

lemma round_even_mono: "x \<le> y \<Longrightarrow> round_even x \<le> round_even y"
proof -
  assume le: "x \<le> y"
  have fl: "\<lfloor>x\<rfloor> \<le> \<lfloor>y\<rfloor>" using le by (rule floor_mono)
  show ?thesis
  proof (cases "\<lfloor>x\<rfloor> = \<lfloor>y\<rfloor>")
    case True
    with le show ?thesis by (auto simp: round_even_def Let_def)
  next
    case False
    with fl have "\<lfloor>x\<rfloor> + 1 \<le> \<lfloor>y\<rfloor>" by simp
    moreover have "round_even x \<le> \<lfloor>x\<rfloor> + 1" by (simp add: round_even_def Let_def)
    moreover have "\<lfloor>y\<rfloor> \<le> round_even y" by (simp add: round_even_def Let_def)
    ultimately show ?thesis by simp
  qed
qed

lemma round_even_of_int [simp]: "round_even (of_int i) = i"
  by (simp add: round_even_def)

lemma quantum_pos [simp]: "0 < quantum x"
  by (simp add: quantum_def)

lemma rnd_pos_nonneg: "0 \<le> x \<Longrightarrow> 0 \<le> rnd_pos x"
  using round_even_mono [of 0 "x / quantum x"] round_even_of_int [of 0] quantum_pos [of x]
  by (simp add: rnd_pos_def del: quantum_pos round_even_of_int)

text \<open>A power of two on the grid bounds the rounded value of everything on its side.\<close>

lemma rnd_pos_le_pow2:
  assumes x: "0 < x" and le: "x \<le> pow2 e" and e: "max (ilog2 x) (- 1022) - 52 \<le> e"
  shows "rnd_pos x \<le> pow2 e"
proof -
  let ?q = "max (ilog2 x) (- 1022) - 52"
  have pe: "pow2 e = of_int (2 ^ nat (e - ?q)) * pow2 ?q"
    using e by (rule pow2_split)
  have "x / pow2 ?q \<le> of_int (2 ^ nat (e - ?q))"
    using le by (simp add: pe pos_divide_le_eq)
  then have "round_even (x / pow2 ?q) \<le> 2 ^ nat (e - ?q)"
    using round_even_mono [of "x / pow2 ?q" "of_int (2 ^ nat (e - ?q))"]
    by (simp del: of_int_power of_int_numeral)
  then have "(of_int (round_even (x / pow2 ?q)) :: rat) \<le> of_int (2 ^ nat (e - ?q))"
    by (simp only: of_int_le_iff)
  then show ?thesis
    by (simp add: rnd_pos_def quantum_def pe)
qed

lemma rnd_pos_ge_pow2:
  assumes x: "0 < x" and le: "pow2 e \<le> x" and e: "max (ilog2 x) (- 1022) - 52 \<le> e"
  shows "pow2 e \<le> rnd_pos x"
proof -
  let ?q = "max (ilog2 x) (- 1022) - 52"
  have pe: "pow2 e = of_int (2 ^ nat (e - ?q)) * pow2 ?q"
    using e by (rule pow2_split)
  have "of_int (2 ^ nat (e - ?q)) \<le> x / pow2 ?q"
    using le by (simp add: pe pos_le_divide_eq)
  then have "2 ^ nat (e - ?q) \<le> round_even (x / pow2 ?q)"
    using round_even_mono [of "of_int (2 ^ nat (e - ?q))" "x / pow2 ?q"]
    by (simp del: of_int_power of_int_numeral)
  then have "(of_int (2 ^ nat (e - ?q)) :: rat) \<le> of_int (round_even (x / pow2 ?q))"
    by (simp only: of_int_le_iff)
  then show ?thesis
    by (simp add: rnd_pos_def quantum_def pe)
qed

lemma rnd_pos_mono:
  assumes "0 < x" and "x \<le> y"
  shows "rnd_pos x \<le> rnd_pos y"
proof (cases "max (ilog2 x) (- 1022) = max (ilog2 y) (- 1022)")
  case True
  then have q: "quantum x = quantum y" by (simp add: quantum_def)
  have "round_even (x / quantum y) \<le> round_even (y / quantum y)"
    using assms by (intro round_even_mono divide_right_mono) (auto intro: less_imp_le)
  then show ?thesis by (simp add: rnd_pos_def q mult_right_mono less_imp_le)
next
  case False
  from assms have le: "ilog2 x \<le> ilog2 y" by (rule ilog2_mono)
  let ?e = "max (ilog2 x) (- 1022) + 1"
  have y: "?e \<le> ilog2 y" using False le by auto
  have "x \<le> pow2 (ilog2 x + 1)" using ilog2_bounds(2) [OF assms(1)] by simp
  also have "\<dots> \<le> pow2 ?e" by (rule pow2_mono) simp
  finally have "rnd_pos x \<le> pow2 ?e" using assms by (intro rnd_pos_le_pow2) auto
  also have "\<dots> \<le> pow2 (ilog2 y)" using y by (rule pow2_mono)
  also have "\<dots> \<le> rnd_pos y"
    using assms y ilog2_bounds(1) [of y] by (intro rnd_pos_ge_pow2) auto
  finally show ?thesis .
qed

text \<open>Below \<open>2 ^ 1023\<close> nothing overflows, and rounding keeps signs and order.\<close>

lemma ilog2_less: "0 < x \<Longrightarrow> x < pow2 e \<Longrightarrow> ilog2 x < e"
  using ilog2_bounds(1) [of x] pow2_mono [of e "ilog2 x"] by (cases "ilog2 x < e") auto

lemma rnd_pos_bound:
  assumes "0 < x" and "x < pow2 e" and "- 1022 < e"
  shows "rnd_pos x \<le> pow2 e"
  using ilog2_less [OF assms(1,2)] assms by (intro rnd_pos_le_pow2) auto

lemma rnd_zero [simp]: "rnd 0 = Fin 0"
  by (simp add: rnd_def)

lemma rnd_finite:
  assumes "0 \<le> x" and "x < 2 ^ 1023"
  shows "\<exists>y. rnd x = Fin y \<and> 0 \<le> y"
proof (cases "x = 0")
  case True
  then show ?thesis by simp
next
  case False
  with assms have pos: "0 < x" by simp
  have "rnd_pos x \<le> pow2 1023" using pos assms by (intro rnd_pos_bound) (simp_all add: pow2_def)
  also have "\<dots> < 2 ^ 1024" by (simp add: pow2_def)
  finally have "rnd_pos x < 2 ^ 1024" .
  with pos rnd_pos_nonneg [of x] show ?thesis by (simp add: rnd_def Let_def)
qed

lemma rnd_finite_mono:
  assumes "0 \<le> x" and "x \<le> y" and "y < 2 ^ 1023"
  shows "\<exists>a b. rnd x = Fin a \<and> rnd y = Fin b \<and> 0 \<le> a \<and> a \<le> b"
proof -
  from assms have "x < 2 ^ 1023" by simp
  with assms obtain a b where ab: "rnd x = Fin a" "rnd y = Fin b" "0 \<le> a" "0 \<le> b"
    using rnd_finite [of x] rnd_finite [of y] by auto
  show ?thesis
  proof (cases "x = 0")
    case True
    with ab show ?thesis by simp
  next
    case False
    with assms have x: "0 < x" and y: "0 < y" by auto
    from x assms(2) have "rnd_pos x \<le> rnd_pos y" by (rule rnd_pos_mono)
    with ab x y have "a \<le> b" by (auto simp: rnd_def Let_def split: if_splits)
    with ab show ?thesis by blast
  qed
qed

text \<open>Integers of at most 53 bits are represented exactly.\<close>

lemma rnd_of_int_exact:
  assumes "0 \<le> n" and "n < 2 ^ 53"
  shows "rnd (of_int n) = Fin (of_int n)"
proof (cases "n = 0")
  case False
  let ?x = "of_int n :: rat" and ?e = "ilog2 (of_int n)"
  from False assms have pos: "0 < ?x" and one: "1 \<le> ?x" by auto
  have "(of_int n :: rat) < of_int (2 ^ 53)" using assms(2) by (simp only: of_int_less_iff)
  then have hi: "?e < 53" using pos by (intro ilog2_less) (simp_all add: pow2_def)
  have lo: "0 \<le> ?e"
  proof (rule ccontr)
    assume "\<not> 0 \<le> ?e"
    then have "pow2 (?e + 1) \<le> pow2 0" by (intro pow2_mono) simp
    with ilog2_bounds(2) [OF pos] one show False by (simp add: pow2_def)
  qed
  have q: "quantum ?x = pow2 (?e - 52)" using lo by (simp add: quantum_def max_def)
  have inv: "pow2 (52 - ?e) * pow2 (?e - 52) = 1" using pow2_add [of "52 - ?e" "?e - 52"] by (simp add: pow2_def)
  have nz: "pow2 (?e - 52) \<noteq> 0" by (rule less_imp_neq [OF pow2_pos, symmetric])
  have "?x = (?x * pow2 (52 - ?e)) * pow2 (?e - 52)" by (simp only: mult.assoc inv mult_1_right)
  then have "?x / pow2 (?e - 52) = ?x * pow2 (52 - ?e)" by (simp only: nonzero_divide_eq_eq [OF nz])
  also have "\<dots> = of_int (n * 2 ^ nat (52 - ?e))" using hi by (simp add: pow2_nonneg_int)
  finally have "rnd_pos ?x = of_int (n * 2 ^ nat (52 - ?e)) * pow2 (?e - 52)"
    by (simp only: rnd_pos_def q round_even_of_int)
  also have "\<dots> = ?x * (pow2 (52 - ?e) * pow2 (?e - 52))" using hi by (simp add: pow2_nonneg_int)
  finally have v: "rnd_pos ?x = ?x" by (simp only: inv mult_1_right)
  have "?x < 2 ^ 1024" using \<open>?x < of_int (2 ^ 53)\<close> by simp
  then show ?thesis using pos v by (simp add: rnd_def)
qed simp

lemma rnd_bound:
  assumes "0 \<le> x" and "x \<le> 2 ^ k" and "k < 1022"
  shows "\<exists>y. rnd x = Fin y \<and> 0 \<le> y \<and> y \<le> 2 ^ Suc k"
proof (cases "x = 0")
  case True
  then show ?thesis by simp
next
  case False
  with assms have pos: "0 < x" by simp
  have pk: "pow2 (int k + 1) = 2 ^ Suc k" by (simp add: pow2_def nat_add_distrib)
  have "x < 2 ^ Suc k" using assms(2) pos by simp
  then have le: "rnd_pos x \<le> 2 ^ Suc k"
    using rnd_pos_bound [OF pos, of "int k + 1"] by (simp add: pk)
  also have "(2::rat) ^ Suc k < 2 ^ 1024" using assms(3) by (intro power_strict_increasing) auto
  finally show ?thesis using pos le rnd_pos_nonneg [of x] by (simp add: rnd_def Let_def)
qed

text \<open>The value of a literal from its binary exponent and its 53-bit significand.\<close>

lemma ilog2_eqI:
  assumes "pow2 e \<le> x" and "x < pow2 (e + 1)"
  shows "ilog2 x = e"
proof -
  have pos: "0 < x" using pow2_pos [of e] assms(1) by (rule less_le_trans)
  have "pow2 (e + 1) \<le> pow2 (ilog2 x)" if "e < ilog2 x" using that by (intro pow2_mono) simp
  moreover have "pow2 (ilog2 x + 1) \<le> pow2 e" if "ilog2 x < e" using that by (intro pow2_mono) simp
  ultimately show ?thesis using ilog2_bounds [OF pos] assms by (cases "ilog2 x" e rule: linorder_cases) auto
qed

lemma round_even_nearest:
  assumes "\<bar>x - of_int m\<bar> < 1 / 2"
  shows "round_even x = m"
proof (cases "of_int m \<le> x")
  case True
  with assms have "\<lfloor>x\<rfloor> = m" by (intro floor_unique) auto
  with True assms show ?thesis by (simp add: round_even_def)
next
  case False
  with assms have f: "\<lfloor>x\<rfloor> = m - 1" by (intro floor_unique) auto
  with False assms have "1 / 2 < x - of_int \<lfloor>x\<rfloor>" by simp
  with f show ?thesis by (simp add: round_even_def Let_def)
qed

lemma rnd_litI:
  assumes "pow2 e \<le> x" and "x < pow2 (e + 1)" and "- 1022 \<le> e" and "e \<le> 1022"
    and "\<bar>x / pow2 (e - 52) - of_int m\<bar> < 1 / 2"
  shows "rnd x = Fin (of_int m * pow2 (e - 52))"
proof -
  have pos: "0 < x" using pow2_pos [of e] assms(1) by (rule less_le_trans)
  have q: "quantum x = pow2 (e - 52)"
    using ilog2_eqI [OF assms(1,2)] assms(3) by (simp add: quantum_def max_def)
  have v: "rnd_pos x = of_int m * pow2 (e - 52)"
    using round_even_nearest [OF assms(5)] by (simp add: rnd_pos_def q)
  have "rnd_pos x \<le> pow2 1023"
    using pos assms(2,4) pow2_mono [of "e + 1" 1023] by (intro rnd_pos_bound) auto
  also have "\<dots> < 2 ^ 1024" by (simp add: pow2_def)
  finally show ?thesis using pos v by (simp add: rnd_def)
qed

subsection \<open>Comparisons\<close>

fun is_finite :: "f64 \<Rightarrow> bool" where
  "is_finite (Fin x) = True"
| "is_finite _ = False"

fun f64_le :: "f64 \<Rightarrow> f64 \<Rightarrow> bool" where
  "f64_le NaN _ = False"
| "f64_le _ NaN = False"
| "f64_le (Fin a) (Fin b) = (a \<le> b)"
| "f64_le (Fin _) (Inf s) = (\<not> s)"
| "f64_le (Inf s) (Fin _) = s"
| "f64_le (Inf s) (Inf t) = (s \<or> \<not> t)"

fun f64_lt :: "f64 \<Rightarrow> f64 \<Rightarrow> bool" where
  "f64_lt NaN _ = False"
| "f64_lt _ NaN = False"
| "f64_lt (Fin a) (Fin b) = (a < b)"
| "f64_lt (Fin _) (Inf s) = (\<not> s)"
| "f64_lt (Inf s) (Fin _) = s"
| "f64_lt (Inf s) (Inf t) = (s \<and> \<not> t)"

abbreviation f64_ge :: "f64 \<Rightarrow> f64 \<Rightarrow> bool" where
  "f64_ge a b \<equiv> f64_le b a"

abbreviation f64_gt :: "f64 \<Rightarrow> f64 \<Rightarrow> bool" where
  "f64_gt a b \<equiv> f64_lt b a"

text \<open>\<open>f64::max\<close> and \<open>f64::min\<close> return the other argument when one is NaN.\<close>

definition f64_max :: "f64 \<Rightarrow> f64 \<Rightarrow> f64" where
  "f64_max a b = (if a = NaN then b else if b = NaN then a else if f64_lt a b then b else a)"

definition f64_min :: "f64 \<Rightarrow> f64 \<Rightarrow> f64" where
  "f64_min a b = (if a = NaN then b else if b = NaN then a else if f64_lt b a then b else a)"

lemma f64_le_trans: "f64_le a b \<Longrightarrow> f64_le b c \<Longrightarrow> f64_le a c"
  by (cases a; cases b; cases c) auto

lemma f64_lt_le_trans: "f64_lt a b \<Longrightarrow> f64_le b c \<Longrightarrow> f64_lt a c"
  by (cases a; cases b; cases c) auto

lemma f64_le_lt_trans: "f64_le a b \<Longrightarrow> f64_lt b c \<Longrightarrow> f64_lt a c"
  by (cases a; cases b; cases c) auto

lemma f64_lt_imp_le: "f64_lt a b \<Longrightarrow> f64_le a b"
  by (cases a; cases b) auto

lemma f64_not_le: "a \<noteq> NaN \<Longrightarrow> b \<noteq> NaN \<Longrightarrow> \<not> f64_le a b \<longleftrightarrow> f64_lt b a"
  by (cases a; cases b) auto

lemma f64_le_refl: "f64_le a a \<longleftrightarrow> a \<noteq> NaN"
  by (cases a) auto

lemma f64_le_not_NaN: "f64_le a b \<Longrightarrow> a \<noteq> NaN \<and> b \<noteq> NaN"
  by (cases a; cases b) auto

lemma is_finite_iff: "is_finite a \<longleftrightarrow> (\<exists>x. a = Fin x)"
  by (cases a) auto

subsection \<open>Arithmetic and conversions\<close>

fun f64_add :: "f64 \<Rightarrow> f64 \<Rightarrow> f64" where
  "f64_add NaN _ = NaN"
| "f64_add _ NaN = NaN"
| "f64_add (Fin a) (Fin b) = rnd (a + b)"
| "f64_add (Fin _) (Inf s) = Inf s"
| "f64_add (Inf s) (Fin _) = Inf s"
| "f64_add (Inf s) (Inf t) = (if s = t then Inf s else NaN)"

fun f64_mul :: "f64 \<Rightarrow> f64 \<Rightarrow> f64" where
  "f64_mul NaN _ = NaN"
| "f64_mul _ NaN = NaN"
| "f64_mul (Fin a) (Fin b) = rnd (a * b)"
| "f64_mul (Fin a) (Inf s) = (if a = 0 then NaN else Inf (s \<noteq> (a < 0)))"
| "f64_mul (Inf s) (Fin a) = (if a = 0 then NaN else Inf (s \<noteq> (a < 0)))"
| "f64_mul (Inf s) (Inf t) = Inf (s \<noteq> t)"

text \<open>A zero divisor counts as positive zero.\<close>

fun f64_div :: "f64 \<Rightarrow> f64 \<Rightarrow> f64" where
  "f64_div NaN _ = NaN"
| "f64_div _ NaN = NaN"
| "f64_div (Fin a) (Fin b) =
     (if b = 0 then (if a = 0 then NaN else Inf (a < 0)) else rnd (a / b))"
| "f64_div (Fin _) (Inf _) = Fin 0"
| "f64_div (Inf s) (Fin b) = Inf (s \<noteq> (b < 0))"
| "f64_div (Inf _) (Inf _) = NaN"

text \<open>\<open>as f64\<close> rounds; \<open>f64::from\<close> of an 8- or 32-bit integer is exact.\<close>

definition f64_of_nat :: "nat \<Rightarrow> f64" where
  "f64_of_nat n = rnd (of_nat n)"

definition f64_of_u64 :: "u64 \<Rightarrow> f64" where
  "f64_of_u64 w = f64_of_nat (unat w)"

definition f64_of_u8 :: "u8 \<Rightarrow> f64" where
  "f64_of_u8 w = Fin (of_nat (unat w))"

definition f64_of_u32 :: "u32 \<Rightarrow> f64" where
  "f64_of_u32 w = Fin (of_nat (unat w))"

definition f64_of_i64 :: "i64 \<Rightarrow> f64" where
  "f64_of_i64 i = rnd (of_int i)"

text \<open>A decimal literal of the source.\<close>

abbreviation lit :: "rat \<Rightarrow> f64" where
  "lit x \<equiv> rnd x"

text \<open>The decimal literals of the sources.\<close>

lemma lit_0_95: "lit (19 / 20) = Fin (4278419646001971 / 4503599627370496)"
  using rnd_litI [of "- 1" "19 / 20" 8556839292003942] by (simp add: pow2_def)

lemma lit_0_65: "lit (13 / 20) = Fin (5854679515581645 / 9007199254740992)"
  using rnd_litI [of "- 1" "13 / 20" 5854679515581645] by (simp add: pow2_def)

lemma lit_0_2: "lit (1 / 5) = Fin (3602879701896397 / 18014398509481984)"
  using rnd_litI [of "- 3" "1 / 5" 7205759403792794] by (simp add: pow2_def)

lemma lit_0_8: "lit (4 / 5) = Fin (3602879701896397 / 4503599627370496)"
  using rnd_litI [of "- 1" "4 / 5" 7205759403792794] by (simp add: pow2_def)

lemma lit_0_98: "lit (49 / 50) = Fin (2206763817411543 / 2251799813685248)"
  using rnd_litI [of "- 1" "49 / 50" 8827055269646172] by (simp add: pow2_def)

lemma lit_0_9: "lit (9 / 10) = Fin (8106479329266893 / 9007199254740992)"
  using rnd_litI [of "- 1" "9 / 10" 8106479329266893] by (simp add: pow2_def)

lemma lit_0_88: "lit (22 / 25) = Fin (7926335344172073 / 9007199254740992)"
  using rnd_litI [of "- 1" "22 / 25" 7926335344172073] by (simp add: pow2_def)

lemma lit_0_85: "lit (17 / 20) = Fin (7656119366529843 / 9007199254740992)"
  using rnd_litI [of "- 1" "17 / 20" 7656119366529843] by (simp add: pow2_def)

lemma lit_0_75: "lit (3 / 4) = Fin (3 / 4)"
  using rnd_litI [of "- 1" "3 / 4" 6755399441055744] by (simp add: pow2_def)

lemma lit_0_92: "lit (23 / 25) = Fin (8286623314361713 / 9007199254740992)"
  using rnd_litI [of "- 1" "23 / 25" 8286623314361713] by (simp add: pow2_def)

lemma lit_0_82: "lit (41 / 50) = Fin (7385903388887613 / 9007199254740992)"
  using rnd_litI [of "- 1" "41 / 50" 7385903388887613] by (simp add: pow2_def)

lemma lit_0_5: "lit (1 / 2) = Fin (1 / 2)"
  using rnd_litI [of "- 1" "1 / 2" 4503599627370496] by (simp add: pow2_def)

lemma lit_0_25: "lit (1 / 4) = Fin (1 / 4)"
  using rnd_litI [of "- 2" "1 / 4" 4503599627370496] by (simp add: pow2_def)

lemma lit_1: "lit 1 = Fin 1"
  using rnd_litI [of 0 "1" 4503599627370496] by (simp add: pow2_def)

lemma lit_0_4: "lit (2 / 5) = Fin (3602879701896397 / 9007199254740992)"
  using rnd_litI [of "- 2" "2 / 5" 7205759403792794] by (simp add: pow2_def)

lemmas lit_simps = lit_0_95 lit_0_65 lit_0_2 lit_0_8 lit_0_98 lit_0_9 lit_0_88 lit_0_85 lit_0_75 lit_0_92 lit_0_82 lit_0_5 lit_0_25 lit_1 lit_0_4

lemma f64_of_u64_finite: "\<exists>y. f64_of_u64 w = Fin y \<and> 0 \<le> y"
proof -
  have "unat w < 2 ^ 64" using unsigned_less [of w] by simp
  then have "(of_nat (unat w) :: rat) < of_nat (2 ^ 64)" by (simp only: of_nat_less_iff)
  also have "\<dots> < 2 ^ 1023" by simp
  finally have "(of_nat (unat w) :: rat) < 2 ^ 1023" .
  then show ?thesis unfolding f64_of_u64_def f64_of_nat_def by (rule rnd_finite [OF of_nat_0_le_iff])
qed

text \<open>Nonnegative values below a power of two: closed under the operations, with a doubled bound.\<close>

definition f64_within :: "nat \<Rightarrow> f64 \<Rightarrow> bool" where
  "f64_within k v \<longleftrightarrow> (\<exists>y. v = Fin y \<and> 0 \<le> y \<and> y \<le> 2 ^ k)"

lemma f64_within_Fin [simp]: "f64_within k (Fin y) \<longleftrightarrow> 0 \<le> y \<and> y \<le> 2 ^ k"
  by (simp add: f64_within_def)

lemma f64_within_mono:
  assumes "f64_within j v" and "j \<le> k"
  shows "f64_within k v"
proof -
  from assms(1) obtain y where y: "v = Fin y" "0 \<le> y" "y \<le> 2 ^ j" by (auto simp: f64_within_def)
  have "(2::rat) ^ j \<le> 2 ^ k" using assms(2) by (rule power_increasing) simp
  with y(3) have "y \<le> 2 ^ k" by (rule order_trans)
  with y show ?thesis by (simp add: f64_within_def)
qed

lemma f64_of_u64_within: "f64_within 65 (f64_of_u64 w)"
proof -
  have "unat w < 2 ^ 64" using unsigned_less [of w] by simp
  then have "unat w \<le> 2 ^ 64" by (rule less_imp_le)
  then have "(of_nat (unat w) :: rat) \<le> of_nat (2 ^ 64)" by (simp only: of_nat_le_iff)
  then show ?thesis
    using rnd_bound [OF of_nat_0_le_iff, of "unat w" 64] by (simp add: f64_of_u64_def f64_of_nat_def f64_within_def)
qed

lemma f64_of_u32_within: "f64_within 32 (f64_of_u32 w)"
proof -
  have "unat w < 2 ^ 32" using unsigned_less [of w] by simp
  then have "unat w \<le> 2 ^ 32" by (rule less_imp_le)
  then have "(of_nat (unat w) :: rat) \<le> of_nat (2 ^ 32)" by (simp only: of_nat_le_iff)
  then show ?thesis using of_nat_0_le_iff [of "unat w", where ?'a = rat]
    by (simp add: f64_of_u32_def f64_within_def)
qed

lemma f64_mul_within:
  assumes "f64_within j a" and "f64_within k b" and "j + k < 1022"
  shows "f64_within (Suc (j + k)) (f64_mul a b)"
proof -
  from assms obtain x y where xy: "a = Fin x" "b = Fin y" "0 \<le> x" "0 \<le> y" "x \<le> 2 ^ j" "y \<le> 2 ^ k"
    by (auto simp: f64_within_def)
  have "x * y \<le> 2 ^ j * 2 ^ k" using xy by (intro mult_mono) auto
  then show ?thesis using xy assms(3) rnd_bound [of "x * y" "j + k"]
    by (simp add: f64_within_def power_add)
qed

lemma f64_div_within:
  assumes "f64_within j a" and "b = Fin y" and "1 \<le> y * 2 ^ k" and "j + k < 1022"
  shows "f64_within (Suc (j + k)) (f64_div a b)"
proof -
  from assms obtain x where x: "a = Fin x" "0 \<le> x" "x \<le> 2 ^ j" by (auto simp: f64_within_def)
  have "0 < y * 2 ^ k" using assms(3) by linarith
  then have y: "0 < y" by (simp add: zero_less_mult_iff)
  have "x \<le> 2 ^ j * (y * 2 ^ k)"
    using x mult_mono [of x "2 ^ j" 1 "y * 2 ^ k"] assms(3) by simp
  then have "x / y \<le> 2 ^ (j + k)" using y by (simp add: pos_divide_le_eq power_add ac_simps)
  then show ?thesis using x y assms(2,4) rnd_bound [of "x / y" "j + k"] by (simp add: f64_within_def)
qed

lemma f64_add_within:
  assumes "f64_within j a" and "f64_within k b" and "max j k < 1020"
  shows "f64_within (max j k + 2) (f64_add a b)"
proof -
  from assms f64_within_mono [of j a "max j k"] f64_within_mono [of k b "max j k"]
  obtain x y where xy: "a = Fin x" "b = Fin y" "0 \<le> x" "0 \<le> y" "x \<le> 2 ^ max j k" "y \<le> 2 ^ max j k"
    unfolding f64_within_def by auto
  then have "x + y \<le> 2 ^ Suc (max j k)" by simp
  then show ?thesis using xy assms(3) rnd_bound [of "x + y" "Suc (max j k)"]
    by (simp add: f64_within_def)
qed

lemma f64_min_1_within: "f64_within k a \<Longrightarrow> f64_within 0 (f64_min a (Fin 1))"
  by (auto simp: f64_within_def f64_min_def)

lemma f64_max_within: "f64_within k a \<Longrightarrow> f64_within k b \<Longrightarrow> f64_within k (f64_max a b)"
  by (auto simp: f64_max_def)

lemma f64_of_u64_ge_1:
  assumes "w \<noteq> 0"
  shows "\<exists>y. f64_of_u64 w = Fin y \<and> 1 \<le> y"
proof -
  have "1 \<le> unat w" using assms by (simp add: Suc_le_eq unat_gt_0)
  then have "(of_nat 1 :: rat) \<le> of_nat (unat w)" by (simp only: of_nat_le_iff)
  then have one: "(1::rat) \<le> of_nat (unat w)" by simp
  have "unat w < 2 ^ 64" using unsigned_less [of w] by simp
  then have "(of_nat (unat w) :: rat) < of_nat (2 ^ 64)" by (simp only: of_nat_less_iff)
  then have "(of_nat (unat w) :: rat) < 2 ^ 1023" by simp
  from rnd_finite_mono [OF _ one this] show ?thesis
    by (auto simp: f64_of_u64_def f64_of_nat_def lit_1)
qed

text \<open>\<open>format!("{:.2}", x)\<close>: two decimals of the exact value, ties to even.\<close>

definition pad2 :: "nat \<Rightarrow> string" where
  "pad2 n = (if n < 10 then CHR ''0'' # show_nat n else show_nat n)"

fun fmt2 :: "f64 \<Rightarrow> string" where
  "fmt2 NaN = ''NaN''"
| "fmt2 (Inf s) = (if s then ''-inf'' else ''inf'')"
| "fmt2 (Fin x) = (let c = nat (round_even (\<bar>x\<bar> * 100))
     in (if x < 0 then ''-'' else []) @ show_nat (c div 100) @ ''.'' @ pad2 (c mod 100))"

text \<open>Subtraction, \<open>f64::clamp\<close> and the order of \<open>total_cmp\<close> (zeroes of either sign are one
  value here, and NaN counts as positive).\<close>

fun f64_neg :: "f64 \<Rightarrow> f64" where
  "f64_neg NaN = NaN"
| "f64_neg (Inf s) = Inf (\<not> s)"
| "f64_neg (Fin x) = Fin (- x)"

definition f64_sub :: "f64 \<Rightarrow> f64 \<Rightarrow> f64" where
  "f64_sub a b = f64_add a (f64_neg b)"

definition f64_clamp :: "f64 \<Rightarrow> f64 \<Rightarrow> f64 \<Rightarrow> f64" where
  "f64_clamp x lo hi = (let y = (if f64_lt x lo then lo else x) in if f64_gt y hi then hi else y)"

fun f64_total_key :: "f64 \<Rightarrow> int \<times> rat" where
  "f64_total_key (Inf s) = (if s then (- 1, 0) else (1, 0))"
| "f64_total_key (Fin x) = (0, x)"
| "f64_total_key NaN = (2, 0)"

text \<open>\<open>format!("{:.n}", x)\<close>.\<close>

definition fmt_fixed :: "nat \<Rightarrow> f64 \<Rightarrow> string" where
  "fmt_fixed d v = (case v of NaN \<Rightarrow> ''NaN'' | Inf s \<Rightarrow> (if s then ''-inf'' else ''inf'')
    | Fin x \<Rightarrow> (let c = nat (round_even (\<bar>x\<bar> * 10 ^ d)); frac = show_nat (c mod 10 ^ d)
        in (if x < 0 then ''-'' else []) @ show_nat (c div 10 ^ d) @ ''.'' @
           replicate (d - length frac) CHR ''0'' @ frac))"

end
