(* ===== verification/Gates.thy ===== *)
theory Gates
  imports Rust_Str
begin

text \<open>
  The control idioms the crates share. A validator runs a sequence of checks and returns the
  error of the first one that fails (\<open>first_error\<close>). A planner collects the reason code of
  every check that fires and acts only when there is none (\<open>fired\<close>, the locale
  \<open>reason_gate\<close>). A component with state is stepped by a sequence of calls (the locale
  \<open>stepped\<close>: an invariant kept by every call holds after every run). Ordered maps are
  association lists sorted by key, as a \<open>BTreeMap\<close> iterates.
\<close>

subsection \<open>First failing check\<close>

fun first_error :: "(bool \<times> 'e) list \<Rightarrow> ('e, unit) result" where
  "first_error [] = Ok ()"
| "first_error ((b, e) # cs) = (if b then Err e else first_error cs)"

lemma first_error_Ok_iff: "first_error cs = Ok () \<longleftrightarrow> (\<forall>(b, e) \<in> set cs. \<not> b)"
  by (induction cs rule: first_error.induct) auto

lemma first_error_append:
  "first_error (cs @ ds) = (case first_error cs of Inl e \<Rightarrow> Err e | Inr _ \<Rightarrow> first_error ds)"
  by (induction cs rule: first_error.induct) auto

lemma first_error_Err:
  "first_error cs = Err e \<longleftrightarrow>
     (\<exists>pre post. cs = pre @ (True, e) # post \<and> first_error pre = Ok ())"
proof (induction cs rule: first_error.induct)
  case 1
  then show ?case by simp
next
  case (2 b e' cs)
  show ?case
  proof (cases b)
    case True
    then show ?thesis by (auto simp: Cons_eq_append_conv)
  next
    case False
    with 2 have "first_error cs = Err e \<longleftrightarrow>
        (\<exists>pre post. cs = pre @ (True, e) # post \<and> first_error pre = Ok ())" by simp
    moreover have "(\<exists>pre post. (b, e') # cs = pre @ (True, e) # post \<and> first_error pre = Ok ()) \<longleftrightarrow>
        (\<exists>pre post. cs = pre @ (True, e) # post \<and> first_error pre = Ok ())"
      using False by (auto simp: Cons_eq_append_conv) (metis first_error.simps(2))
    ultimately show ?thesis using False by simp
  qed
qed

subsection \<open>Reason gates\<close>

definition fired :: "(bool \<times> string) list \<Rightarrow> string list" where
  "fired cs = map snd (filter fst cs)"

lemma fired_simps [simp]:
  "fired [] = []"
  "fired ((b, r) # cs) = (if b then r # fired cs else fired cs)"
  by (simp_all add: fired_def)

lemma fired_append [simp]: "fired (cs @ ds) = fired cs @ fired ds"
  by (simp add: fired_def)

lemma fired_Nil_iff: "fired cs = [] \<longleftrightarrow> (\<forall>(b, r) \<in> set cs. \<not> b)"
  by (auto simp: fired_def filter_empty_conv)

lemma in_set_fired: "r \<in> set (fired cs) \<longleftrightarrow> (True, r) \<in> set cs"
  by (force simp: fired_def)

text \<open>
  The contract of a gated decision: the reasons it reports are those of the checks that fire
  (up to order and repetition), and it is allowed exactly when there is no reason.
\<close>

locale reason_gate =
  fixes checks :: "'i \<Rightarrow> (bool \<times> string) list"
    and reasons :: "'d \<Rightarrow> string list"
    and allowed :: "'d \<Rightarrow> bool"
    and decide :: "'i \<Rightarrow> 'd"
  assumes reasons_set: "set (reasons (decide i)) = set (fired (checks i))"
    and allowed_iff: "allowed (decide i) \<longleftrightarrow> reasons (decide i) = []"
begin

lemma allowed_iff_no_check: "allowed (decide i) \<longleftrightarrow> (\<forall>(b, r) \<in> set (checks i). \<not> b)"
proof -
  have "reasons (decide i) = [] \<longleftrightarrow> fired (checks i) = []"
    using reasons_set [of i] by (metis set_empty)
  then show ?thesis by (simp add: allowed_iff fired_Nil_iff)
qed

lemma check_blocks: "(True, r) \<in> set (checks i) \<Longrightarrow> \<not> allowed (decide i)"
  by (auto simp: allowed_iff_no_check)

lemma check_reported: "(True, r) \<in> set (checks i) \<longleftrightarrow> r \<in> set (reasons (decide i))"
  by (simp add: reasons_set in_set_fired)

end

subsection \<open>Stepped components\<close>

fun run_steps :: "('s \<Rightarrow> 'i \<Rightarrow> 's) \<Rightarrow> 's \<Rightarrow> 'i list \<Rightarrow> 's" where
  "run_steps step s [] = s"
| "run_steps step s (i # is) = run_steps step (step s i) is"

lemma run_steps_append: "run_steps step s (xs @ ys) = run_steps step (run_steps step s xs) ys"
  by (induction xs arbitrary: s) auto

locale stepped =
  fixes step :: "'s \<Rightarrow> 'i \<Rightarrow> 's"
    and inv :: "'s \<Rightarrow> bool"
  assumes step_inv: "inv s \<Longrightarrow> inv (step s i)"
begin

lemma run_inv: "inv s \<Longrightarrow> inv (run_steps step s is)"
  by (induction "is" arbitrary: s) (auto intro: step_inv)

end

subsection \<open>Ordered maps\<close>

fun bt_insert :: "'k::linorder \<Rightarrow> 'v \<Rightarrow> ('k \<times> 'v) list \<Rightarrow> ('k \<times> 'v) list" where
  "bt_insert k v [] = [(k, v)]"
| "bt_insert k v ((j, w) # m) =
     (if k < j then (k, v) # (j, w) # m
      else if k = j then (k, v) # m
      else (j, w) # bt_insert k v m)"

definition bt_values :: "('k \<times> 'v) list \<Rightarrow> 'v list" where
  "bt_values m = map snd m"

definition bt_wf :: "('k::linorder \<times> 'v) list \<Rightarrow> bool" where
  "bt_wf m \<longleftrightarrow> sorted_wrt (<) (map fst m)"

lemma bt_insert_keys: "fst ` set (bt_insert k v m) = insert k (fst ` set m)"
  by (induction k v m rule: bt_insert.induct) auto

lemma bt_wf_Nil [simp]: "bt_wf []"
  by (simp add: bt_wf_def)

lemma bt_wf_Cons: "bt_wf ((j, w) # m) \<longleftrightarrow> bt_wf m \<and> (\<forall>x \<in> fst ` set m. j < x)"
  by (auto simp: bt_wf_def)

lemma bt_wf_insert [simp]: "bt_wf m \<Longrightarrow> bt_wf (bt_insert k v m)"
proof (induction k v m rule: bt_insert.induct)
  case (2 k v j w m)
  then show ?case by (auto simp: bt_wf_Cons bt_insert_keys)
qed (simp add: bt_wf_def)

lemma map_of_bt_insert:
  "bt_wf m \<Longrightarrow> map_of (bt_insert k v m) = (map_of m)(k \<mapsto> v)"
proof (induction k v m rule: bt_insert.induct)
  case (2 k v j w m)
  then have m: "bt_wf m" by (simp add: bt_wf_Cons)
  show ?case
  proof (cases k j rule: linorder_cases)
    case greater
    with 2 m show ?thesis by (auto simp: fun_eq_iff)
  qed (auto simp: fun_eq_iff)
qed simp

lemma bt_values_iff: "bt_wf m \<Longrightarrow> v \<in> set (bt_values m) \<longleftrightarrow> (\<exists>k. map_of m k = Some v)"
proof -
  assume "bt_wf m"
  then have "distinct (map fst m)"
    unfolding bt_wf_def by (simp add: strict_sorted_iff)
  then show ?thesis by (force simp: bt_values_def)
qed

end
