(* ===== verification/Config.thy ===== *)
theory Config
  imports Float64 Gates
begin

text \<open>
  \<open>crates/common/src/config.rs\<close>: the configuration records and \<open>Config::validate\<close>, the
  gate every configuration passes before the daemon starts. The checks are listed in the
  order of the source, each as its failing condition with the field and message it reports;
  \<open>validate\<close> returns the first that fires. Reading the file, decoding it and hashing it are
  parameters (\<open>toml\<close>, \<open>sha2\<close> and the file system are not part of the repository).
\<close>

subsection \<open>Records\<close>

record cgroups_config =
  cg_enabled :: bool
  cg_dry_run :: bool
  cg_allow_move :: bool
  cg_rollback_on_exit :: bool
  cg_recover_unclean_session :: bool
  cg_foreground_min_percent :: u8
  cg_foreground_max_percent :: u8
  cg_background_high_min_percent :: u8
  cg_background_high_max_percent :: u8
  cg_minimum_headroom_percent :: u8
  cg_allowed_identities :: "string list"

record classification_config =
  cls_interval_ms :: u64
  cls_minimum_confidence :: f64
  cls_confirmation_samples :: u32
  cls_browser_heavy_process_count :: nat
  cls_browser_heavy_memory_percent :: f64
  cls_virtualization_memory_percent :: f64
  cls_gaming_background_memory_percent :: f64
  cls_protected_executables :: "string list"
  cls_critical_executables :: "string list"
  cls_game_executables :: "string list"

record telemetry_config =
  tel_process_sample_interval_ms :: u64
  tel_smaps_rollup_interval_ms :: u64
  tel_smaps_rollup_budget :: nat
  tel_retention_days :: u64
  tel_retention_interval_ms :: u64
  tel_sqlite_batch_size :: nat

record general_config =
  gen_mode :: string
  gen_sample_interval_ms :: u64
  gen_database_path :: string
  gen_allow_automatic_actions :: bool

record safety_config =
  saf_max_cpu_overhead_percent :: f64
  saf_max_io_write_mib_per_second :: u64
  saf_rollback_on_daemon_exit :: bool
  saf_rollback_on_error :: bool
  saf_protect_foreground :: bool

record pressure_config =
  prs_watch_available_percent :: u8
  prs_pressure_available_percent :: u8
  prs_critical_available_percent :: u8
  prs_emergency_available_percent :: u8
  prs_psi_some_avg10_threshold :: f64
  prs_psi_full_avg10_threshold :: f64
  prs_emergency_psi_full_avg10_threshold :: f64
  prs_major_fault_rate_threshold :: f64
  prs_swap_in_rate_threshold :: f64
  prs_swap_out_rate_threshold :: f64
  prs_state_hold_seconds :: u64
  prs_recovery_hold_seconds :: u64

record policy_config =
  pol_enabled :: bool
  pol_evaluation_interval_ms :: u64
  pol_decision_heartbeat_seconds :: u64

record compression_config =
  cmp_backend :: string
  cmp_preferred_low_latency :: string
  cmp_preferred_capacity :: string
  cmp_enabled :: bool
  cmp_active_profile :: string
  cmp_dry_run :: bool
  cmp_allow_runtime_reconfigure :: bool
  cmp_allow_persistent_reconfigure :: bool
  cmp_max_zram_percent_ram :: u8
  cmp_safe_headroom_percent :: u8
  cmp_benchmark_enabled :: bool
  cmp_benchmark_max_bytes :: u64
  cmp_max_cpu_overhead_percent :: f64
  cmp_min_capacity_gain_percent :: f64

record tiering_config =
  tier_enabled :: bool
  tier_dry_run :: bool
  tier_preferred_backend :: string
  tier_allow_runtime_reconfigure :: bool
  tier_allow_persistent_reconfigure :: bool
  tier_allow_swapfile_create :: bool
  tier_supported_storage_profiles :: "string list"
  tier_max_swapfile_percent_disk :: u8
  tier_min_free_disk_gib :: u64
  tier_max_write_mib_per_second :: u64
  tier_daily_write_budget_gib :: u64
  tier_benchmark_enabled :: bool
  tier_benchmark_max_bytes :: u64
  tier_zswap_pool_min_percent :: u8
  tier_zswap_pool_max_percent :: u8
  tier_allow_shrinker :: bool
  tier_rated_tbw :: "f64 option"
  tier_comparison_enabled :: bool
  tier_comparison_max_latency_regression_percent :: u8
  tier_comparison_min_useful_benefit_percent :: u8
  tier_comparison_accepted_confidence :: "string option"

record ksm_config =
  kcf_enabled :: bool
  kcf_live_apply :: bool
  kcf_profiles :: "string list"
  kcf_min_observation_seconds :: u64
  kcf_min_mergeable_bytes :: u64
  kcf_max_cpu_overhead_percent :: f64
  kcf_min_process_profit_bytes :: i64
  kcf_min_system_profit_bytes :: i64
  kcf_max_cow_events_per_second :: u64
  kcf_inefficiency_windows :: u32
  kcf_cooldown_seconds :: u64
  kcf_scanner_pages_to_scan_min :: u64
  kcf_scanner_pages_to_scan_max :: u64
  kcf_scanner_sleep_millisecs_min :: u64
  kcf_validation_max_seconds :: u64
  kcf_validation_max_bytes :: u64

record damon_config =
  dmn_enabled :: bool
  dmn_mode :: string
  dmn_allow_monitor_session :: bool
  dmn_preferred_operation :: string
  dmn_sample_us :: u64
  dmn_aggr_us :: u64
  dmn_update_us :: u64
  dmn_min_regions :: u32
  dmn_max_regions :: u32
  dmn_max_cpu_overhead_percent :: f64
  dmn_max_session_seconds :: u64
  dmn_max_samples_per_session :: u64
  dmn_retention_days :: u64
  dmn_export_max_bytes :: u64
  dmn_max_action_time_ms :: u64
  dmn_max_action_bytes :: u64

record damos_config =
  dms_enabled :: bool
  dms_live_apply :: bool
  dms_min_complete_cold_windows :: u32
  dms_refault_window_seconds :: u64
  dms_blacklist_seconds :: u64
  dms_max_total_applied_bytes :: u64
  dms_apply_interval_us :: u64

record gaming_config =
  gam_auto_detect :: bool
  gam_protect_gamescope :: bool
  gam_protect_steam :: bool
  gam_background_reclaim :: bool

record config =
  general :: general_config
  cgroups :: cgroups_config
  telemetry :: telemetry_config
  classification :: classification_config
  safety :: safety_config
  pressure :: pressure_config
  policy :: policy_config
  compression :: compression_config
  tiering :: tiering_config
  ksm :: ksm_config
  damon :: damon_config
  damos :: damos_config
  gaming :: gaming_config

record loaded_config =
  lc_config :: config
  lc_sha256 :: string
  lc_path :: string

text \<open>The I/O, TOML and UTF-8 errors carry the text of the foreign error value.\<close>

datatype config_error =
    ConfigRead string string
  | ConfigParse string string
  | ConfigUtf8 string string
  | Validation string string

type_synonym config_check = "bool \<times> config_error"

subsection \<open>Validation\<close>

definition percentage_ok :: "f64 \<Rightarrow> bool" where
  "percentage_ok v \<longleftrightarrow> is_finite v \<and> f64_le (Fin 0) v \<and> f64_le v (Fin 100)"

definition validate_percentage :: "string \<Rightarrow> f64 \<Rightarrow> config_check" where
  "validate_percentage field v =
     (\<not> percentage_ok v, Validation field ''must be between 0 and 100 inclusive'')"

definition lowercase_sha256 :: "string \<Rightarrow> bool" where
  "lowercase_sha256 s \<longleftrightarrow> length s = 64 \<and> list_all (\<lambda>b. is_ascii_hexdigit b \<and> \<not> is_ascii_upper b) s"

definition checks_general :: "config \<Rightarrow> config_check list" where
  "checks_general c =
    [(gen_mode (general c) \<noteq> ''observe'',
        Validation ''general.mode'' ''must be exactly `observe` during Phase 3''),
     (gen_allow_automatic_actions (general c),
        Validation ''general.allow_automatic_actions'' ''must be false during Phase 3''),
     validate_percentage ''cgroups.foreground_min_percent''
       (f64_of_u8 (cg_foreground_min_percent (cgroups c))),
     validate_percentage ''cgroups.foreground_max_percent''
       (f64_of_u8 (cg_foreground_max_percent (cgroups c))),
     validate_percentage ''cgroups.background_high_min_percent''
       (f64_of_u8 (cg_background_high_min_percent (cgroups c))),
     validate_percentage ''cgroups.background_high_max_percent''
       (f64_of_u8 (cg_background_high_max_percent (cgroups c))),
     validate_percentage ''cgroups.minimum_headroom_percent''
       (f64_of_u8 (cg_minimum_headroom_percent (cgroups c))),
     (cg_foreground_min_percent (cgroups c) > cg_foreground_max_percent (cgroups c),
        Validation ''cgroups.foreground_min_percent''
          ''must not exceed cgroups.foreground_max_percent''),
     (cg_background_high_min_percent (cgroups c) > cg_background_high_max_percent (cgroups c),
        Validation ''cgroups.background_high_min_percent''
          ''must not exceed cgroups.background_high_max_percent''),
     (unat (cg_foreground_max_percent (cgroups c)) + unat (cg_minimum_headroom_percent (cgroups c)) > 100,
        Validation ''cgroups.minimum_headroom_percent''
          ''foreground maximum plus headroom must not exceed 100 percent''),
     (\<not> list_all lowercase_sha256 (cg_allowed_identities (cgroups c)),
        Validation ''cgroups.allowed_identities'' ''entries must be lowercase SHA-256 identities''),
     (gen_database_path (general c) = [],
        Validation ''general.database_path'' ''must not be empty'')]"

definition checks_comparison :: "config \<Rightarrow> config_check list" where
  "checks_comparison c = (let t = tiering c in
    [(tier_comparison_max_latency_regression_percent t > 100,
        Validation ''tiering.comparison_max_latency_regression_percent'' ''must be between 0 and 100''),
     (tier_comparison_min_useful_benefit_percent t > 100,
        Validation ''tiering.comparison_min_useful_benefit_percent'' ''must be between 0 and 100''),
     (is_some_and (\<lambda>s. s \<noteq> ''bounded-physical-device-attributed'' \<and> s \<noteq> ''physical-device-host-wide-noisy'')
        (tier_comparison_accepted_confidence t),
        Validation ''tiering.comparison_accepted_confidence'' ''unsupported confidence vocabulary''),
     (tier_comparison_enabled t \<and>
        (tier_comparison_max_latency_regression_percent t = 0 \<or>
         tier_comparison_min_useful_benefit_percent t = 0 \<or>
         tier_comparison_accepted_confidence t = None),
        Validation ''tiering.comparison_enabled''
          ''enabled comparison requires non-zero bounds and accepted confidence'')])"

definition checks_telemetry :: "config \<Rightarrow> config_check list" where
  "checks_telemetry c = (let t = telemetry c in
    [(gen_sample_interval_ms (general c) < 100,
        Validation ''general.sample_interval_ms'' ''must be at least 100''),
     (tel_process_sample_interval_ms t < 1000,
        Validation ''telemetry.process_sample_interval_ms'' ''must be at least 1000''),
     (tel_smaps_rollup_interval_ms t < 5000,
        Validation ''telemetry.smaps_rollup_interval_ms'' ''must be at least 5000''),
     (tel_smaps_rollup_interval_ms t < tel_process_sample_interval_ms t,
        Validation ''telemetry.smaps_rollup_interval_ms''
          ''must not be shorter than telemetry.process_sample_interval_ms''),
     (tel_smaps_rollup_budget t > 10000,
        Validation ''telemetry.smaps_rollup_budget'' ''must not exceed 10000 processes''),
     (\<not> (1 \<le> tel_retention_days t \<and> tel_retention_days t \<le> 3650),
        Validation ''telemetry.retention_days'' ''must be between 1 and 3650''),
     (tel_retention_interval_ms t < 60000,
        Validation ''telemetry.retention_interval_ms'' ''must be at least 60000''),
     (\<not> (1 \<le> tel_sqlite_batch_size t \<and> tel_sqlite_batch_size t \<le> 10000),
        Validation ''telemetry.sqlite_batch_size'' ''must be between 1 and 10000'')])"

definition executable_name_ok :: "string \<Rightarrow> bool" where
  "executable_name_ok v \<longleftrightarrow>
     v \<noteq> [] \<and> length v \<le> 255 \<and> \<not> list_ex (\<lambda>c. c = CHR ''/'' \<or> c = char_of (92 :: nat)) v \<and>
     list_all (\<lambda>c. is_ascii_alnum c \<or> c \<in> set ''._+-'') v"

definition check_executables :: "string \<Rightarrow> string list \<Rightarrow> config_check" where
  "check_executables field vs =
     (\<not> list_all executable_name_ok vs,
      Validation field ''entries must be executable basenames without paths or patterns'')"

definition checks_classification :: "config \<Rightarrow> config_check list" where
  "checks_classification c = (let k = classification c in
    [(cls_interval_ms k < 1000,
        Validation ''classification.interval_ms'' ''must be at least 1000''),
     (cls_interval_ms k < tel_process_sample_interval_ms (telemetry c),
        Validation ''classification.interval_ms''
          ''must not be shorter than telemetry.process_sample_interval_ms''),
     (\<not> is_finite (cls_minimum_confidence k) \<or>
        \<not> (f64_le (Fin (1 / 2)) (cls_minimum_confidence k) \<and> f64_le (cls_minimum_confidence k) (Fin 1)),
        Validation ''classification.minimum_confidence'' ''must be between 0.5 and 1.0 inclusive''),
     (\<not> (1 \<le> cls_confirmation_samples k \<and> cls_confirmation_samples k \<le> 20),
        Validation ''classification.confirmation_samples'' ''must be between 1 and 20''),
     (\<not> (1 \<le> cls_browser_heavy_process_count k \<and> cls_browser_heavy_process_count k \<le> 10000),
        Validation ''classification.browser_heavy_process_count'' ''must be between 1 and 10000''),
     validate_percentage ''classification.browser_heavy_memory_percent''
       (cls_browser_heavy_memory_percent k),
     validate_percentage ''classification.virtualization_memory_percent''
       (cls_virtualization_memory_percent k),
     validate_percentage ''classification.gaming_background_memory_percent''
       (cls_gaming_background_memory_percent k),
     check_executables ''classification.protected_executables'' (cls_protected_executables k),
     check_executables ''classification.critical_executables'' (cls_critical_executables k),
     check_executables ''classification.game_executables'' (cls_game_executables k)])"

definition checks_pressure :: "config \<Rightarrow> config_check list" where
  "checks_pressure c = (let p = pressure c in
    [validate_percentage ''safety.max_cpu_overhead_percent'' (saf_max_cpu_overhead_percent (safety c)),
     validate_percentage ''pressure.watch_available_percent'' (f64_of_u8 (prs_watch_available_percent p)),
     validate_percentage ''pressure.pressure_available_percent''
       (f64_of_u8 (prs_pressure_available_percent p)),
     validate_percentage ''pressure.critical_available_percent''
       (f64_of_u8 (prs_critical_available_percent p)),
     validate_percentage ''pressure.emergency_available_percent''
       (f64_of_u8 (prs_emergency_available_percent p)),
     (\<not> (prs_watch_available_percent p > prs_pressure_available_percent p \<and>
         prs_pressure_available_percent p > prs_critical_available_percent p \<and>
         prs_critical_available_percent p > prs_emergency_available_percent p),
        Validation ''pressure.watch_available_percent''
          ''memory thresholds must satisfy watch > pressure > critical > emergency''),
     validate_percentage ''pressure.psi_some_avg10_threshold'' (prs_psi_some_avg10_threshold p),
     validate_percentage ''pressure.psi_full_avg10_threshold'' (prs_psi_full_avg10_threshold p),
     validate_percentage ''pressure.emergency_psi_full_avg10_threshold''
       (prs_emergency_psi_full_avg10_threshold p),
     (\<not> is_finite (prs_major_fault_rate_threshold p) \<or> f64_lt (prs_major_fault_rate_threshold p) (Fin 0),
        Validation ''pressure.major_fault_rate_threshold'' ''must be finite and non-negative''),
     (\<not> is_finite (prs_swap_in_rate_threshold p) \<or> f64_lt (prs_swap_in_rate_threshold p) (Fin 0),
        Validation ''pressure.swap_in_rate_threshold'' ''must be finite and non-negative''),
     (\<not> is_finite (prs_swap_out_rate_threshold p) \<or> f64_lt (prs_swap_out_rate_threshold p) (Fin 0),
        Validation ''pressure.swap_out_rate_threshold'' ''must be finite and non-negative''),
     (f64_le (prs_emergency_psi_full_avg10_threshold p) (prs_psi_full_avg10_threshold p),
        Validation ''pressure.emergency_psi_full_avg10_threshold''
          ''must exceed pressure.psi_full_avg10_threshold''),
     (pol_evaluation_interval_ms (policy c) < 1000,
        Validation ''policy.evaluation_interval_ms'' ''must be at least 1000''),
     (pol_decision_heartbeat_seconds (policy c) = 0,
        Validation ''policy.decision_heartbeat_seconds'' ''must be greater than zero'')])"

definition checks_compression :: "config \<Rightarrow> config_check list" where
  "checks_compression c = (let k = compression c in
    [(cmp_backend k \<noteq> ''detect'',
        Validation ''compression.backend'' ''must be exactly `detect` during Phase 5''),
     (cmp_active_profile k \<notin> set [''safe'', ''gaming'', ''capacity''],
        Validation ''compression.active_profile'' ''must be safe, gaming, or capacity''),
     validate_percentage ''compression.max_zram_percent_ram'' (f64_of_u8 (cmp_max_zram_percent_ram k)),
     validate_percentage ''compression.safe_headroom_percent'' (f64_of_u8 (cmp_safe_headroom_percent k)),
     validate_percentage ''compression.max_cpu_overhead_percent'' (cmp_max_cpu_overhead_percent k),
     validate_percentage ''compression.min_capacity_gain_percent'' (cmp_min_capacity_gain_percent k),
     (cmp_max_zram_percent_ram k = 0,
        Validation ''compression.max_zram_percent_ram'' ''must be greater than zero''),
     (cmp_benchmark_max_bytes k = 0 \<or> cmp_benchmark_max_bytes k > 268435456,
        Validation ''compression.benchmark_max_bytes'' ''must be between 1 and 268435456 bytes'')])"

definition checks_tiering :: "config \<Rightarrow> config_check list" where
  "checks_tiering c = (let t = tiering c in
    [(tier_preferred_backend t \<notin> set [''detect'', ''zram'', ''zswap_storage_backed''],
        Validation ''tiering.preferred_backend'' ''must be detect, zram, or zswap_storage_backed''),
     (tier_supported_storage_profiles t = [] \<or>
        list_ex (\<lambda>p. p \<notin> set [''sata_ssd'', ''nvme_ssd'']) (tier_supported_storage_profiles t) \<or>
        length (remdups (tier_supported_storage_profiles t)) \<noteq> length (tier_supported_storage_profiles t),
        Validation ''tiering.supported_storage_profiles''
          ''must contain only explicitly supported sata_ssd or nvme_ssd profiles''),
     validate_percentage ''tiering.max_swapfile_percent_disk''
       (f64_of_u8 (tier_max_swapfile_percent_disk t)),
     validate_percentage ''tiering.zswap_pool_min_percent'' (f64_of_u8 (tier_zswap_pool_min_percent t)),
     validate_percentage ''tiering.zswap_pool_max_percent'' (f64_of_u8 (tier_zswap_pool_max_percent t)),
     (tier_max_swapfile_percent_disk t = 0,
        Validation ''tiering.max_swapfile_percent_disk'' ''must be greater than zero''),
     (tier_zswap_pool_min_percent t = 0 \<or> tier_zswap_pool_min_percent t > tier_zswap_pool_max_percent t,
        Validation ''tiering.zswap_pool_min_percent'' ''must be non-zero and not exceed the maximum''),
     (tier_max_write_mib_per_second t = 0 \<or>
        tier_max_write_mib_per_second t > saf_max_io_write_mib_per_second (safety c),
        Validation ''tiering.max_write_mib_per_second''
          ''must be non-zero and not exceed the global safety limit''),
     (tier_daily_write_budget_gib t = 0,
        Validation ''tiering.daily_write_budget_gib'' ''must be greater than zero''),
     (tier_benchmark_max_bytes t = 0 \<or> tier_benchmark_max_bytes t > 268435456,
        Validation ''tiering.benchmark_max_bytes'' ''must be between 1 and 268435456''),
     (is_some_and (\<lambda>v. \<not> is_finite v \<or> f64_le v (Fin 0)) (tier_rated_tbw t),
        Validation ''tiering.rated_tbw'' ''must be finite and positive when provided'')])"

definition checks_ksm :: "config \<Rightarrow> config_check list" where
  "checks_ksm c = (let k = ksm c in
    [(kcf_enabled k,
        Validation ''ksm.enabled'' ''must remain false in the current implementation''),
     (kcf_live_apply k,
        Validation ''ksm.live_apply'' ''normal runtime must remain plan-only''),
     (kcf_profiles k = [] \<or> list_ex (\<lambda>p. p \<notin> set [''vm'', ''browser'', ''electron'']) (kcf_profiles k),
        Validation ''ksm.profiles'' ''must contain only vm, browser, and electron''),
     (kcf_min_observation_seconds k = 0 \<or> kcf_min_mergeable_bytes k = 0 \<or>
        kcf_inefficiency_windows k = 0 \<or> kcf_cooldown_seconds k = 0 \<or>
        kcf_validation_max_seconds k = 0 \<or> kcf_validation_max_bytes k = 0,
        Validation ''ksm'' ''bounded values must be non-zero''),
     (\<not> is_finite (kcf_max_cpu_overhead_percent k) \<or> f64_le (kcf_max_cpu_overhead_percent k) (Fin 0) \<or>
        f64_gt (kcf_max_cpu_overhead_percent k) (saf_max_cpu_overhead_percent (safety c)),
        Validation ''ksm.max_cpu_overhead_percent''
          ''must be positive and at most the global safety ceiling''),
     (kcf_scanner_pages_to_scan_min k = 0 \<or>
        kcf_scanner_pages_to_scan_min k > kcf_scanner_pages_to_scan_max k \<or>
        kcf_scanner_sleep_millisecs_min k = 0,
        Validation ''ksm.scanner'' ''invalid scanner bounds'')])"

definition checks_damon :: "config \<Rightarrow> config_check list" where
  "checks_damon c = (let d = damon c; s = damos c in
    [(dmn_enabled d,
        Validation ''damon.enabled'' ''must remain false in the current implementation''),
     (dmn_mode d \<noteq> ''monitor_only'',
        Validation ''damon.mode'' ''must be exactly `monitor_only` in the current implementation''),
     (dmn_allow_monitor_session d,
        Validation ''damon.allow_monitor_session'' ''normal runtime must not start a monitoring session''),
     (dmn_preferred_operation d \<noteq> ''vaddr'',
        Validation ''damon.preferred_operation'' ''must be vaddr for Phase 7''),
     (dmn_sample_us d < 100 \<or> dmn_aggr_us d < dmn_sample_us d \<or> dmn_update_us d < dmn_aggr_us d,
        Validation ''damon.sample_us'' ''must satisfy 100 <= sample <= aggregation <= update''),
     (dmn_min_regions d = 0 \<or> dmn_min_regions d > dmn_max_regions d \<or> dmn_max_regions d > 100000,
        Validation ''damon.min_regions'' ''invalid region bounds''),
     (\<not> is_finite (dmn_max_cpu_overhead_percent d) \<or> f64_lt (dmn_max_cpu_overhead_percent d) (Fin 0) \<or>
        f64_gt (dmn_max_cpu_overhead_percent d) (saf_max_cpu_overhead_percent (safety c)),
        Validation ''damon.max_cpu_overhead_percent'' ''must not exceed the global safety ceiling''),
     (dmn_max_session_seconds d = 0 \<or> dmn_max_session_seconds d > 180 \<or>
        dmn_max_samples_per_session d = 0 \<or> dmn_retention_days d = 0 \<or> dmn_export_max_bytes d = 0,
        Validation ''damon.max_session_seconds''
          ''session, sample, retention, and export bounds must be non-zero and bounded''),
     (dms_enabled s \<or> dms_live_apply s,
        Validation ''damos.live_apply'' ''Phase 8 production DAMOS must remain disabled and plan-only''),
     (dms_min_complete_cold_windows s < 3 \<or> dms_refault_window_seconds s = 0 \<or>
        dms_blacklist_seconds s < dms_refault_window_seconds s \<or>
        dms_max_total_applied_bytes s = 0 \<or>
        dms_max_total_applied_bytes s > dmn_max_action_bytes d \<or>
        dms_apply_interval_us s = 0,
        Validation ''damos'' ''invalid cold evidence, cooldown, total ceiling, or apply interval'')])"

definition validate :: "config \<Rightarrow> (config_error, unit) result" where
  "validate c = first_error
     (checks_general c @ checks_comparison c @ checks_telemetry c @ checks_classification c @
      checks_pressure c @ checks_compression c @ checks_tiering c @ checks_ksm c @ checks_damon c)"

text \<open>\<open>toml\<close> is the TOML decoder, \<open>sha\<close> the hex SHA-256 digest and \<open>read_file\<close> the file
  system; \<open>utf8\<close> decodes the bytes read.\<close>

definition from_toml :: "(string \<Rightarrow> (string, config) result) \<Rightarrow> string \<Rightarrow> (config_error, config) result" where
  "from_toml toml input = (case toml input of
      Inl e \<Rightarrow> Err (ConfigParse ''<memory>'' e)
    | Inr c \<Rightarrow> rbind (validate c) (\<lambda>_. Ok c))"

definition load ::
  "(string \<Rightarrow> (string, string) result) \<Rightarrow> (string \<Rightarrow> (string, string) result) \<Rightarrow>
   (string \<Rightarrow> (string, config) result) \<Rightarrow> (string \<Rightarrow> string) \<Rightarrow> string \<Rightarrow>
   (config_error, loaded_config) result" where
  "load read_file utf8 toml sha path = (case read_file path of
      Inl e \<Rightarrow> Err (ConfigRead path e)
    | Inr bytes \<Rightarrow> (case utf8 bytes of
        Inl e \<Rightarrow> Err (ConfigUtf8 path e)
      | Inr text \<Rightarrow> (case toml text of
          Inl e \<Rightarrow> Err (ConfigParse path e)
        | Inr c \<Rightarrow> rbind (validate c)
            (\<lambda>_. Ok \<lparr>lc_config = c, lc_sha256 = sha bytes, lc_path = path\<rparr>))))"

lemmas check_defs = checks_general_def checks_comparison_def checks_telemetry_def
  checks_classification_def checks_pressure_def checks_compression_def checks_tiering_def
  checks_ksm_def checks_damon_def

subsection \<open>What a validated configuration guarantees\<close>

lemma validate_segments:
  assumes "validate c = Ok ()"
  shows "first_error (checks_general c) = Ok ()" "first_error (checks_comparison c) = Ok ()"
    "first_error (checks_telemetry c) = Ok ()" "first_error (checks_classification c) = Ok ()"
    "first_error (checks_pressure c) = Ok ()" "first_error (checks_compression c) = Ok ()"
    "first_error (checks_tiering c) = Ok ()" "first_error (checks_ksm c) = Ok ()"
    "first_error (checks_damon c) = Ok ()"
  using assms unfolding validate_def first_error_Ok_iff by auto

lemma percentage_ok_u8: "percentage_ok (f64_of_u8 w) \<longleftrightarrow> unat w \<le> 100"
proof -
  have "(of_nat (unat w) :: rat) \<le> 100 \<longleftrightarrow> unat w \<le> 100"
    using of_nat_le_iff [of "unat w" 100, where 'a = rat] by simp
  then show ?thesis by (simp add: percentage_ok_def f64_of_u8_def del: of_nat_unat ucast_id)
qed

text \<open>The bounds the actuator, the policy engine and the zram planner rely on.\<close>

definition cgroups_valid :: "cgroups_config \<Rightarrow> bool" where
  "cgroups_valid g \<longleftrightarrow>
     cg_foreground_min_percent g \<le> cg_foreground_max_percent g \<and>
     cg_background_high_min_percent g \<le> cg_background_high_max_percent g \<and>
     unat (cg_background_high_max_percent g) \<le> 100 \<and>
     unat (cg_foreground_max_percent g) + unat (cg_minimum_headroom_percent g) \<le> 100 \<and>
     list_all lowercase_sha256 (cg_allowed_identities g)"

definition pressure_valid :: "pressure_config \<Rightarrow> bool" where
  "pressure_valid p \<longleftrightarrow>
     prs_emergency_available_percent p < prs_critical_available_percent p \<and>
     prs_critical_available_percent p < prs_pressure_available_percent p \<and>
     prs_pressure_available_percent p < prs_watch_available_percent p \<and>
     unat (prs_watch_available_percent p) \<le> 100 \<and>
     percentage_ok (prs_psi_some_avg10_threshold p) \<and>
     percentage_ok (prs_psi_full_avg10_threshold p) \<and>
     percentage_ok (prs_emergency_psi_full_avg10_threshold p) \<and>
     f64_lt (prs_psi_full_avg10_threshold p) (prs_emergency_psi_full_avg10_threshold p)"

definition classification_valid :: "classification_config \<Rightarrow> bool" where
  "classification_valid k \<longleftrightarrow>
     f64_le (Fin (1 / 2)) (cls_minimum_confidence k) \<and> f64_le (cls_minimum_confidence k) (Fin 1) \<and>
     1 \<le> cls_confirmation_samples k \<and> cls_confirmation_samples k \<le> 20"

text \<open>Every kernel mechanism is off and the daemon only observes.\<close>

definition plan_only :: "config \<Rightarrow> bool" where
  "plan_only c \<longleftrightarrow> gen_mode (general c) = ''observe'' \<and> \<not> gen_allow_automatic_actions (general c) \<and>
     \<not> kcf_enabled (ksm c) \<and> \<not> kcf_live_apply (ksm c) \<and>
     \<not> dmn_enabled (damon c) \<and> \<not> dmn_allow_monitor_session (damon c) \<and> dmn_mode (damon c) = ''monitor_only'' \<and>
     \<not> dms_enabled (damos c) \<and> \<not> dms_live_apply (damos c)"

lemma percentage_ok_not_NaN: "percentage_ok v \<Longrightarrow> v \<noteq> NaN"
  by (auto simp: percentage_ok_def)

lemma validate_cgroups: "validate c = Ok () \<Longrightarrow> cgroups_valid (cgroups c)"
  by (drule validate_segments(1))
    (auto simp: checks_general_def validate_percentage_def percentage_ok_u8 cgroups_valid_def
      split: if_splits)

lemma validate_pressure: "validate c = Ok () \<Longrightarrow> pressure_valid (pressure c)"
  by (drule validate_segments(5))
    (auto simp: checks_pressure_def validate_percentage_def percentage_ok_u8 pressure_valid_def Let_def
      f64_not_le [symmetric] percentage_ok_not_NaN split: if_splits)

lemma validate_classification: "validate c = Ok () \<Longrightarrow> classification_valid (classification c)"
  by (drule validate_segments(4))
    (auto simp: checks_classification_def classification_valid_def Let_def split: if_splits)

lemma validate_plan_only: "validate c = Ok () \<Longrightarrow> plan_only c"
proof -
  assume v: "validate c = Ok ()"
  have "gen_mode (general c) = ''observe''" "\<not> gen_allow_automatic_actions (general c)"
    using validate_segments(1) [OF v] by (simp_all add: checks_general_def split: if_splits)
  moreover have "\<not> kcf_enabled (ksm c)" "\<not> kcf_live_apply (ksm c)"
    using validate_segments(8) [OF v] by (simp_all add: checks_ksm_def Let_def split: if_splits)
  moreover have "\<not> dmn_enabled (damon c)" "dmn_mode (damon c) = ''monitor_only''" "\<not> dmn_allow_monitor_session (damon c)"
    "\<not> dms_enabled (damos c)" "\<not> dms_live_apply (damos c)"
    using validate_segments(9) [OF v] by (simp_all add: checks_damon_def Let_def split: if_splits)
  ultimately show "plan_only c" by (simp add: plan_only_def)
qed

lemma load_Ok_iff:
  "load read_file utf8 toml sha path = Ok lc \<longleftrightarrow>
     (\<exists>bytes text. read_file path = Ok bytes \<and> utf8 bytes = Ok text \<and> toml text = Ok (lc_config lc) \<and>
        validate (lc_config lc) = Ok () \<and> lc_sha256 lc = sha bytes \<and> lc_path lc = path)"
  by (auto simp: load_def split: sum.splits)

text \<open>\<open>config/default.toml\<close>, the configuration the package installs.\<close>

definition default_config :: config where
  "default_config = \<lparr>
     general = \<lparr>gen_mode = ''observe'', gen_sample_interval_ms = 1000,
       gen_database_path = ''/var/lib/nemor/nemor.db'', gen_allow_automatic_actions = False\<rparr>,
     cgroups = \<lparr>cg_enabled = False, cg_dry_run = True, cg_allow_move = False,
       cg_rollback_on_exit = True, cg_recover_unclean_session = True,
       cg_foreground_min_percent = 5, cg_foreground_max_percent = 40,
       cg_background_high_min_percent = 20, cg_background_high_max_percent = 80,
       cg_minimum_headroom_percent = 10, cg_allowed_identities = []\<rparr>,
     telemetry = \<lparr>tel_process_sample_interval_ms = 5000, tel_smaps_rollup_interval_ms = 60000,
       tel_smaps_rollup_budget = 32, tel_retention_days = 7, tel_retention_interval_ms = 3600000,
       tel_sqlite_batch_size = 512\<rparr>,
     classification = \<lparr>cls_interval_ms = 5000, cls_minimum_confidence = lit (65 / 100),
       cls_confirmation_samples = 3, cls_browser_heavy_process_count = 8,
       cls_browser_heavy_memory_percent = Fin 15, cls_virtualization_memory_percent = Fin 10,
       cls_gaming_background_memory_percent = Fin 20, cls_protected_executables = [],
       cls_critical_executables = [], cls_game_executables = []\<rparr>,
     safety = \<lparr>saf_max_cpu_overhead_percent = Fin 5, saf_max_io_write_mib_per_second = 100,
       saf_rollback_on_daemon_exit = True, saf_rollback_on_error = True, saf_protect_foreground = True\<rparr>,
     pressure = \<lparr>prs_watch_available_percent = 20, prs_pressure_available_percent = 12,
       prs_critical_available_percent = 7, prs_emergency_available_percent = 3,
       prs_psi_some_avg10_threshold = Fin 10, prs_psi_full_avg10_threshold = Fin 2,
       prs_emergency_psi_full_avg10_threshold = Fin 10, prs_major_fault_rate_threshold = Fin 100,
       prs_swap_in_rate_threshold = Fin 128, prs_swap_out_rate_threshold = Fin 128,
       prs_state_hold_seconds = 10, prs_recovery_hold_seconds = 30\<rparr>,
     policy = \<lparr>pol_enabled = True, pol_evaluation_interval_ms = 5000, pol_decision_heartbeat_seconds = 300\<rparr>,
     compression = \<lparr>cmp_backend = ''detect'', cmp_preferred_low_latency = ''lz4'',
       cmp_preferred_capacity = ''zstd'', cmp_enabled = True, cmp_active_profile = ''safe'',
       cmp_dry_run = True, cmp_allow_runtime_reconfigure = False, cmp_allow_persistent_reconfigure = False,
       cmp_max_zram_percent_ram = 100, cmp_safe_headroom_percent = 15, cmp_benchmark_enabled = False,
       cmp_benchmark_max_bytes = 67108864, cmp_max_cpu_overhead_percent = Fin 2,
       cmp_min_capacity_gain_percent = Fin 10\<rparr>,
     tiering = \<lparr>tier_enabled = True, tier_dry_run = True, tier_preferred_backend = ''detect'',
       tier_allow_runtime_reconfigure = False, tier_allow_persistent_reconfigure = False,
       tier_allow_swapfile_create = False, tier_supported_storage_profiles = [''nvme_ssd'', ''sata_ssd''],
       tier_max_swapfile_percent_disk = 10, tier_min_free_disk_gib = 32, tier_max_write_mib_per_second = 100,
       tier_daily_write_budget_gib = 64, tier_benchmark_enabled = False, tier_benchmark_max_bytes = 67108864,
       tier_zswap_pool_min_percent = 5, tier_zswap_pool_max_percent = 20, tier_allow_shrinker = False,
       tier_rated_tbw = None, tier_comparison_enabled = False,
       tier_comparison_max_latency_regression_percent = 10,
       tier_comparison_min_useful_benefit_percent = 5,
       tier_comparison_accepted_confidence = Some ''bounded-physical-device-attributed''\<rparr>,
     ksm = \<lparr>kcf_enabled = False, kcf_live_apply = False, kcf_profiles = [''vm'', ''browser'', ''electron''],
       kcf_min_observation_seconds = 30, kcf_min_mergeable_bytes = 33554432,
       kcf_max_cpu_overhead_percent = lit (8 / 10), kcf_min_process_profit_bytes = 4096,
       kcf_min_system_profit_bytes = 4096, kcf_max_cow_events_per_second = 64, kcf_inefficiency_windows = 3,
       kcf_cooldown_seconds = 300, kcf_scanner_pages_to_scan_min = 50, kcf_scanner_pages_to_scan_max = 1000,
       kcf_scanner_sleep_millisecs_min = 10, kcf_validation_max_seconds = 120,
       kcf_validation_max_bytes = 268435456\<rparr>,
     damon = \<lparr>dmn_enabled = False, dmn_mode = ''monitor_only'', dmn_allow_monitor_session = False,
       dmn_preferred_operation = ''vaddr'', dmn_sample_us = 5000, dmn_aggr_us = 100000, dmn_update_us = 1000000,
       dmn_min_regions = 10, dmn_max_regions = 1000, dmn_max_cpu_overhead_percent = Fin 1,
       dmn_max_session_seconds = 120, dmn_max_samples_per_session = 100000, dmn_retention_days = 7,
       dmn_export_max_bytes = 67108864, dmn_max_action_time_ms = 5, dmn_max_action_bytes = 268435456\<rparr>,
     damos = \<lparr>dms_enabled = False, dms_live_apply = False, dms_min_complete_cold_windows = 3,
       dms_refault_window_seconds = 30, dms_blacklist_seconds = 300, dms_max_total_applied_bytes = 268435456,
       dms_apply_interval_us = 500000\<rparr>,
     gaming = \<lparr>gam_auto_detect = True, gam_protect_gamescope = True, gam_protect_steam = True,
       gam_background_reclaim = True\<rparr>\<rparr>"

lemma default_general: "first_error (checks_general default_config) = Ok ()"
  by (simp add: checks_general_def default_config_def validate_percentage_def percentage_ok_u8)

lemma default_pressure: "first_error (checks_pressure default_config) = Ok ()"
  by (simp add: checks_pressure_def default_config_def validate_percentage_def percentage_ok_u8
      percentage_ok_def [of "Fin _"])

lemma default_classification:
  "first_error (checks_comparison default_config @ checks_telemetry default_config @
     checks_classification default_config) = Ok ()"
  by (simp add: checks_comparison_def checks_telemetry_def checks_classification_def default_config_def
      validate_percentage_def check_executables_def percentage_ok_def lit_simps)

lemma default_rest:
  "first_error (checks_compression default_config @ checks_tiering default_config @
     checks_ksm default_config @ checks_damon default_config) = Ok ()"
  by (simp add: checks_compression_def checks_tiering_def checks_ksm_def checks_damon_def
      default_config_def validate_percentage_def percentage_ok_u8 percentage_ok_def [of "Fin _"] lit_simps)

lemma default_config_valid: "validate default_config = Ok ()"
  using default_general default_pressure default_classification default_rest
  by (simp add: validate_def first_error_append split: sum.splits)

text \<open>C30. Every configuration that loads is one that only observes: whatever the file system, the
  UTF-8 and TOML decoders and the digest return, a successful \<open>load\<close> yields a configuration in
  observe mode with automatic actions, KSM, DAMON and DAMOS off, and with the threshold and
  percentage orderings the other components rely on.\<close>

theorem loaded_config_is_plan_only:
  assumes "load read_file utf8 toml sha path = Ok lc"
  shows "plan_only (lc_config lc) \<and> cgroups_valid (cgroups (lc_config lc)) \<and>
    pressure_valid (pressure (lc_config lc)) \<and> classification_valid (classification (lc_config lc))"
proof -
  have "validate (lc_config lc) = Ok ()" using assms by (auto simp: load_Ok_iff)
  then show ?thesis
    by (simp add: validate_plan_only validate_cgroups validate_pressure validate_classification)
qed

theorem loaded_config_is_plan_only_witness:
  "plan_only (lc_config \<lparr> lc_config = default_config, lc_sha256 = ''ab'', lc_path = ''/etc/nemor.toml'' \<rparr>)"
proof -
  have "load (\<lambda>_. Ok ''bytes'') (\<lambda>b. Ok b) (\<lambda>_. Ok default_config) (\<lambda>_. ''ab'') ''/etc/nemor.toml'' =
      Ok \<lparr> lc_config = default_config, lc_sha256 = ''ab'', lc_path = ''/etc/nemor.toml'' \<rparr>"
    by (simp add: load_def default_config_valid)
  from loaded_config_is_plan_only [OF this] show ?thesis by blast
qed

text \<open>Validation accepts exactly the configurations none of whose checks fails, and otherwise
  reports the first failing check in the order of the checks.\<close>

theorem validate_first_failure:
  "validate c = Err e \<longleftrightarrow> (\<exists>pre post.
     checks_general c @ checks_comparison c @ checks_telemetry c @ checks_classification c @ checks_pressure c @
     checks_compression c @ checks_tiering c @ checks_ksm c @ checks_damon c = pre @ (True, e) # post \<and>
     list_all (\<lambda>(b, _). \<not> b) pre)"
  by (simp add: validate_def first_error_Err first_error_Ok_iff list_all_iff)

end
