(* ===== verification/Host.thy ===== *)
theory Host
  imports Rust_Str
begin

text \<open>
  What the crates see of the host: I/O errors, joined paths and a read-only view of the file
  system (\<open>host_files\<close>), a parameter of every inspection. Writing backends have their own
  operations. Also the standard library's \<open>Ordering\<close>, \<open>min_by\<close> and \<open>max_by\<close>.
\<close>

datatype io_error_kind = NotFound | PermissionDenied | ResourceBusy | OtherKind string

fun show_io_kind :: "io_error_kind \<Rightarrow> string" where
  "show_io_kind NotFound = ''entity not found''"
| "show_io_kind PermissionDenied = ''permission denied''"
| "show_io_kind ResourceBusy = ''resource busy''"
| "show_io_kind (OtherKind s) = s"

datatype io_error = IoError (io_kind: io_error_kind) (io_text: string)

text \<open>\<open>Path::join\<close>: an absolute second path replaces the first.\<close>

definition path_join :: "string \<Rightarrow> string \<Rightarrow> string" where
  "path_join base p = (if starts_with p ''/'' then p
     else if base = [] \<or> ends_with base ''/'' then base @ p else base @ ''/'' @ p)"

text \<open>The file system at the time of an inspection: file contents, directory entries (each of
  which may fail to be read), existence, and owner and mode of a file.\<close>

record host_files =
  hf_read_to_string :: "string \<Rightarrow> (io_error, string) result"
  hf_read_dir :: "string \<Rightarrow> (io_error, (io_error, string) result list) result"
  hf_exists :: "string \<Rightarrow> bool"
  hf_metadata :: "string \<Rightarrow> (u32 \<times> u32) option"

text \<open>The queries some inspections make in addition: whether a path is a directory or a file (links followed),
  whether it can be opened for writing, whether a directory entry itself is a directory, and
  the canonical form of a path.\<close>

record host_tree = host_files +
  ht_is_dir :: "string \<Rightarrow> (io_error, bool) result"
  ht_is_file :: "string \<Rightarrow> bool"
  ht_open_write :: "string \<Rightarrow> (io_error, unit) result"
  ht_entry_is_dir :: "string \<Rightarrow> bool"
  ht_canonicalize :: "string \<Rightarrow> (io_error, string) result"

text \<open>A path below an alternative root: \<open>root.join(absolute.trim_start_matches('/'))\<close>.\<close>

definition resolve :: "string \<Rightarrow> string \<Rightarrow> string" where
  "resolve base absolute = path_join base (dropWhile (\<lambda>c. c = CHR ''/'') absolute)"

text \<open>Equality of a path with \<open>/\<close>, which ignores repeated slashes and dots.\<close>

definition is_root_path :: "string \<Rightarrow> bool" where
  "is_root_path p \<longleftrightarrow> starts_with p ''/'' \<and> list_all (\<lambda>c. c = [] \<or> c = ''.'') (split_on CHR ''/'' p)"

subsection \<open>Ordering\<close>

datatype ordering = Less | Equal | Greater

definition cmp :: "'a::linorder \<Rightarrow> 'a \<Rightarrow> ordering" where
  "cmp a b = (if a < b then Less else if a = b then Equal else Greater)"

fun then_with :: "ordering \<Rightarrow> ordering \<Rightarrow> ordering" where
  "then_with Equal o2 = o2"
| "then_with o1 o2 = o1"

fun option_cmp :: "('a \<Rightarrow> 'a \<Rightarrow> ordering) \<Rightarrow> 'a option \<Rightarrow> 'a option \<Rightarrow> ordering" where
  "option_cmp c None None = Equal"
| "option_cmp c None (Some b) = Less"
| "option_cmp c (Some a) None = Greater"
| "option_cmp c (Some a) (Some b) = c a b"

text \<open>\<open>Iterator::min_by\<close> returns the first of the least elements, \<open>max_by\<close> the last of the
  greatest.\<close>

fun min_from :: "('a \<Rightarrow> 'a \<Rightarrow> ordering) \<Rightarrow> 'a \<Rightarrow> 'a list \<Rightarrow> 'a" where
  "min_from c x [] = x"
| "min_from c x (y # ys) = min_from c (if c x y = Greater then y else x) ys"

fun max_from :: "('a \<Rightarrow> 'a \<Rightarrow> ordering) \<Rightarrow> 'a \<Rightarrow> 'a list \<Rightarrow> 'a" where
  "max_from c x [] = x"
| "max_from c x (y # ys) = max_from c (if c x y = Greater then x else y) ys"

fun min_by :: "('a \<Rightarrow> 'a \<Rightarrow> ordering) \<Rightarrow> 'a list \<Rightarrow> 'a option" where
  "min_by c [] = None"
| "min_by c (x # xs) = Some (min_from c x xs)"

fun max_by :: "('a \<Rightarrow> 'a \<Rightarrow> ordering) \<Rightarrow> 'a list \<Rightarrow> 'a option" where
  "max_by c [] = None"
| "max_by c (x # xs) = Some (max_from c x xs)"

lemma cmp_simps [simp]: "cmp a b = Less \<longleftrightarrow> a < b" "cmp a b = Equal \<longleftrightarrow> a = b" "cmp a b = Greater \<longleftrightarrow> b < a"
  by (auto simp: cmp_def)

lemma then_with_Greater: "then_with a b = Greater \<longleftrightarrow> a = Greater \<or> (a = Equal \<and> b = Greater)"
  by (cases a) auto

text \<open>The contract of a comparison: on the elements in \<open>dom\<close>, not being greater is a transitive and
  total relation. Then the chosen element is extremal.\<close>

locale comparison =
  fixes c :: "'a \<Rightarrow> 'a \<Rightarrow> ordering"
    and dom :: "'a \<Rightarrow> bool"
  assumes le_trans: "dom x \<Longrightarrow> dom y \<Longrightarrow> dom z \<Longrightarrow> c x y \<noteq> Greater \<Longrightarrow> c y z \<noteq> Greater \<Longrightarrow> c x z \<noteq> Greater"
    and le_total: "dom x \<Longrightarrow> dom y \<Longrightarrow> c x y = Greater \<Longrightarrow> c y x \<noteq> Greater"
begin

lemma le_refl: "dom x \<Longrightarrow> c x x \<noteq> Greater"
  using le_total [of x x] by auto

lemma min_from_least:
  assumes "dom x" and "\<forall>y \<in> set xs. dom y"
  shows "min_from c x xs \<in> set (x # xs)" and "y \<in> set (x # xs) \<Longrightarrow> c (min_from c x xs) y \<noteq> Greater"
  using assms
proof (induction xs arbitrary: x y)
  case Nil
  { case 1 then show ?case by simp next case 2 then show ?case using le_refl by auto }
next
  case (Cons z xs)
  { case 1 then show ?case using Cons.IH(1) [of x] Cons.IH(1) [of z] by auto }
  { case 2
    let ?k = "if c x z = Greater then z else x"
    from 2 have d: "dom ?k" "\<forall>y \<in> set xs. dom y" "dom x" "dom z" by auto
    note l = Cons.IH(2) [OF _ d(1,2)]
    have "dom (min_from c ?k xs)" using Cons.IH(1) [OF d(1,2)] d by auto
    moreover have "c ?k x \<noteq> Greater" "c ?k z \<noteq> Greater"
      using le_total [OF d(3,4)] le_refl [OF d(3)] le_refl [OF d(4)] by auto
    ultimately have "c (min_from c ?k xs) x \<noteq> Greater" "c (min_from c ?k xs) z \<noteq> Greater"
      using le_trans [OF _ d(1) _ l [of ?k]] d by auto
    with l [of y] 2 show ?case by auto }
qed

lemma max_from_greatest:
  assumes "dom x" and "\<forall>y \<in> set xs. dom y"
  shows "max_from c x xs \<in> set (x # xs)" and "y \<in> set (x # xs) \<Longrightarrow> c y (max_from c x xs) \<noteq> Greater"
  using assms
proof (induction xs arbitrary: x y)
  case Nil
  { case 1 then show ?case by simp next case 2 then show ?case using le_refl by auto }
next
  case (Cons z xs)
  { case 1 then show ?case using Cons.IH(1) [of x] Cons.IH(1) [of z] by auto }
  { case 2
    let ?k = "if c x z = Greater then x else z"
    from 2 have d: "dom ?k" "\<forall>y \<in> set xs. dom y" "dom x" "dom z" by auto
    note l = Cons.IH(2) [OF _ d(1,2)]
    have "dom (max_from c ?k xs)" using Cons.IH(1) [OF d(1,2)] d by auto
    moreover have "c x ?k \<noteq> Greater" "c z ?k \<noteq> Greater"
      using le_total [OF d(3,4)] le_refl [OF d(3)] le_refl [OF d(4)] by auto
    ultimately have "c x (max_from c ?k xs) \<noteq> Greater" "c z (max_from c ?k xs) \<noteq> Greater"
      using le_trans [OF _ d(1) _ _ l [of ?k]] d by auto
    with l [of y] 2 show ?case by auto }
qed

lemma min_by_least:
  assumes "min_by c xs = Some m" and "\<forall>y \<in> set xs. dom y"
  shows "m \<in> set xs" and "y \<in> set xs \<Longrightarrow> c m y \<noteq> Greater"
  using assms min_from_least by (cases xs; auto)+

lemma max_by_greatest:
  assumes "max_by c xs = Some m" and "\<forall>y \<in> set xs. dom y"
  shows "m \<in> set xs" and "y \<in> set xs \<Longrightarrow> c y m \<noteq> Greater"
  using assms max_from_greatest by (cases xs; auto)+

end

lemma min_by_None [simp]: "min_by c xs = None \<longleftrightarrow> xs = []"
  by (cases xs) auto

lemma max_by_None [simp]: "max_by c xs = None \<longleftrightarrow> xs = []"
  by (cases xs) auto

end
