(* ===== verification/Telemetry.thy ===== *)
theory Telemetry
  imports Float64 Gates Host
begin

text \<open>
  The collector crate (\<open>crates/collector/src\<close>): the samples it hands to the other
  components, and the parsers and trackers that produce them. \<open>meminfo_parse\<close>,
  \<open>vmstat_parse\<close> and \<open>swap_parse\<close> are the \<open>parse\<close> functions of \<open>meminfo.rs\<close>, \<open>vmstat.rs\<close>
  and \<open>swap.rs\<close>; \<open>cpu_calculate\<close> and \<open>cpu_retain\<close> are \<open>ProcessCpuTracker\<close>; \<open>select_smaps\<close>
  is the rotating budget of \<open>process.rs\<close>. The parsers take the text; the files are read in
  \<open>Collector\<close> and \<open>Process_Scan\<close>.
\<close>

subsection \<open>Samples\<close>

record process_sample =
  ps_timestamp_ns :: i64
  ps_pid :: u32
  ps_executable :: "string option"
  ps_executable_name :: "string option"
  ps_parent_pid :: "u32 option"
  ps_process_group_id :: "i32 option"
  ps_session_id :: "i32 option"
  ps_tty_nr :: "i64 option"
  ps_foreground_process_group_id :: "i32 option"
  ps_start_time_ticks :: "u64 option"
  ps_cgroup_path :: "string option"
  ps_rss_bytes :: "u64 option"
  ps_pss_bytes :: "u64 option"
  ps_uss_bytes :: "u64 option"
  ps_swap_bytes :: "u64 option"
  ps_minor_faults :: "u64 option"
  ps_major_faults :: "u64 option"
  ps_cpu_percent :: "f64 option"
  ps_io_read_bytes :: "u64 option"
  ps_io_write_bytes :: "u64 option"

record psi_line =
  psl_avg10 :: f64
  psl_avg60 :: f64
  psl_avg300 :: f64
  psl_total_us :: u64

record psi_sample =
  psi_some :: "psi_line option"
  psi_full :: "psi_line option"

record swap_entry =
  se_path :: string
  se_kind :: string
  se_size_bytes :: u64
  se_used_bytes :: u64
  se_priority :: i32

datatype swap_configuration = SwapNone | Swapfile | Partition | SwapZram | Mixed

record swap_state =
  sw_entries :: "swap_entry list"
  sw_configuration :: swap_configuration

record zram_device =
  zd_name :: string
  zd_disk_size_bytes :: "u64 option"
  zd_algorithm :: "string option"
  zd_original_data_bytes :: "u64 option"
  zd_compressed_data_bytes :: "u64 option"
  zd_memory_used_bytes :: "u64 option"

record zram_state =
  zs_available :: bool
  zs_devices :: "zram_device list"

record zswap_state =
  zw_available :: bool
  zw_enabled :: "bool option"
  zw_stored_pages :: "u64 option"
  zw_pool_bytes :: "u64 option"

record system_sample =
  ss_timestamp_ns :: i64
  ss_mem_total_bytes :: u64
  ss_mem_available_bytes :: u64
  ss_anon_bytes :: "u64 option"
  ss_file_cache_bytes :: "u64 option"
  ss_slab_bytes :: "u64 option"
  ss_swap_used_bytes :: "u64 option"
  ss_swap_in_pages :: "u64 option"
  ss_swap_out_pages :: "u64 option"
  ss_major_faults :: "u64 option"
  ss_minor_faults :: "u64 option"
  ss_pgscan :: "u64 option"
  ss_pgsteal :: "u64 option"
  ss_workingset_refault :: "u64 option"
  ss_psi_memory :: "psi_sample option"
  ss_psi_cpu :: "psi_sample option"
  ss_psi_io :: "psi_sample option"
  ss_swap :: swap_state
  ss_zram :: zram_state
  ss_zswap :: zswap_state
  ss_capabilities_unavailable :: "string list"

datatype collector_error = CollectorRequiredRead string string io_error | CollectorInvalid string string | CollectorTimestamp

subsection \<open>\<open>/proc/meminfo\<close>\<close>

record mem_info =
  mi_mem_total_bytes :: u64
  mi_mem_available_bytes :: u64
  mi_anon_bytes :: "u64 option"
  mi_file_cache_bytes :: "u64 option"
  mi_slab_bytes :: "u64 option"
  mi_swap_total_bytes :: "u64 option"
  mi_swap_free_bytes :: "u64 option"
  mi_swap_used_bytes :: "u64 option"

definition meminfo_wanted :: "string list" where
  "meminfo_wanted = [''MemTotal'', ''MemAvailable'', ''AnonPages'', ''Cached'', ''Buffers'', ''Slab'',
     ''SwapTotal'', ''SwapFree'']"

definition meminfo_value :: "string \<Rightarrow> string \<Rightarrow> (collector_error, u64) result" where
  "meminfo_value key raw_value = (case split_whitespace raw_value of
      [kib_text, unit] \<Rightarrow>
        if unit \<noteq> ''kB''
        then Err (CollectorInvalid ''meminfo'' (''`'' @ key @ ''` must contain one value in kB''))
        else (case parse_unsigned kib_text of
           Inl error \<Rightarrow> Err (CollectorInvalid ''meminfo'' (''`'' @ key @ ''` has invalid value: '' @ error))
         | Inr kib \<Rightarrow> ok_or (CollectorInvalid ''meminfo'' (''`'' @ key @ ''` overflows bytes''))
             (checked_mul kib 1024))
    | _ \<Rightarrow> Err (CollectorInvalid ''meminfo'' (''`'' @ key @ ''` must contain one value in kB'')))"

fun meminfo_lines :: "(string \<rightharpoonup> u64) \<Rightarrow> string list \<Rightarrow> (collector_error, string \<rightharpoonup> u64) result" where
  "meminfo_lines vals [] = Ok vals"
| "meminfo_lines vals (line # ls) = (case split_once CHR '':'' line of
      None \<Rightarrow> meminfo_lines vals ls
    | Some (raw_key, raw_value) \<Rightarrow>
        (let key = trim raw_key
         in if key \<notin> set meminfo_wanted then meminfo_lines vals ls
            else rbind (meminfo_value key raw_value) (\<lambda>bytes. meminfo_lines (vals(key \<mapsto> bytes)) ls)))"

definition meminfo_required :: "(string \<rightharpoonup> u64) \<Rightarrow> string \<Rightarrow> (collector_error, u64) result" where
  "meminfo_required vals key =
     ok_or (CollectorInvalid ''meminfo'' (''required field `'' @ key @ ''` is missing'')) (vals key)"

definition meminfo_add_optional ::
  "(string \<rightharpoonup> u64) \<Rightarrow> string \<Rightarrow> string \<Rightarrow> (collector_error, u64 option) result" where
  "meminfo_add_optional vals left_key right_key = (case (vals left_key, vals right_key) of
      (None, None) \<Rightarrow> Ok None
    | (l, r) \<Rightarrow> map_sum id Some (ok_or (CollectorInvalid ''meminfo''
         (''`'' @ left_key @ ''` plus `'' @ right_key @ ''` overflows bytes''))
         (checked_add (unwrap_or 0 l) (unwrap_or 0 r))))"

definition meminfo_swap_used :: "u64 option \<Rightarrow> u64 option \<Rightarrow> (collector_error, u64 option) result" where
  "meminfo_swap_used swap_total swap_free = (case (swap_total, swap_free) of
      (Some t, Some f) \<Rightarrow> map_sum id Some
         (ok_or (CollectorInvalid ''meminfo'' ''`SwapFree` exceeds `SwapTotal`'') (checked_sub t f))
    | _ \<Rightarrow> Ok None)"

definition meminfo_parse :: "string \<Rightarrow> (collector_error, mem_info) result" where
  "meminfo_parse input =
     rbind (meminfo_lines (\<lambda>_. None) (lines input)) (\<lambda>vals.
     rbind (meminfo_swap_used (vals ''SwapTotal'') (vals ''SwapFree'')) (\<lambda>swap_used.
     rbind (meminfo_required vals ''MemTotal'') (\<lambda>mem_total.
     rbind (meminfo_required vals ''MemAvailable'') (\<lambda>available.
     rbind (meminfo_add_optional vals ''Cached'' ''Buffers'') (\<lambda>file_cache.
       Ok \<lparr> mi_mem_total_bytes = mem_total, mi_mem_available_bytes = available,
           mi_anon_bytes = vals ''AnonPages'', mi_file_cache_bytes = file_cache,
           mi_slab_bytes = vals ''Slab'', mi_swap_total_bytes = vals ''SwapTotal'',
           mi_swap_free_bytes = vals ''SwapFree'', mi_swap_used_bytes = swap_used \<rparr>)))))"

subsection \<open>\<open>/proc/vmstat\<close>\<close>

record vm_stat =
  vs_swap_in_pages :: "u64 option"
  vs_swap_out_pages :: "u64 option"
  vs_page_faults :: "u64 option"
  vs_major_faults :: "u64 option"
  vs_minor_faults :: "u64 option"
  vs_pgscan :: "u64 option"
  vs_pgsteal :: "u64 option"
  vs_workingset_refault :: "u64 option"

definition vm_stat_default :: vm_stat where
  "vm_stat_default = \<lparr> vs_swap_in_pages = None, vs_swap_out_pages = None, vs_page_faults = None,
     vs_major_faults = None, vs_minor_faults = None, vs_pgscan = None, vs_pgsteal = None,
     vs_workingset_refault = None \<rparr>"

definition key_family :: "string \<Rightarrow> string \<Rightarrow> bool" where
  "key_family base key \<longleftrightarrow> key = base \<or> starts_with key (base @ ''_'')"

definition vmstat_relevant :: "string \<Rightarrow> bool" where
  "vmstat_relevant key \<longleftrightarrow> key \<in> {''pswpin'', ''pswpout'', ''pgfault'', ''pgmajfault''} \<or>
     key_family ''pgscan'' key \<or> key_family ''pgsteal'' key \<or> key_family ''workingset_refault'' key"

definition checked_accumulate :: "u64 option \<Rightarrow> u64 \<Rightarrow> string \<Rightarrow> (collector_error, u64 option) result" where
  "checked_accumulate target v key = map_sum id Some
     (ok_or (CollectorInvalid ''vmstat'' (''aggregate including `'' @ key @ ''` overflows''))
       (checked_add (unwrap_or 0 target) v))"

definition vmstat_store :: "vm_stat \<Rightarrow> string \<Rightarrow> u64 \<Rightarrow> (collector_error, vm_stat) result" where
  "vmstat_store s key v =
     (if key = ''pswpin'' then Ok (s\<lparr> vs_swap_in_pages := Some v \<rparr>)
      else if key = ''pswpout'' then Ok (s\<lparr> vs_swap_out_pages := Some v \<rparr>)
      else if key = ''pgfault'' then Ok (s\<lparr> vs_page_faults := Some v \<rparr>)
      else if key = ''pgmajfault'' then Ok (s\<lparr> vs_major_faults := Some v \<rparr>)
      else if key_family ''pgscan'' key
      then rbind (checked_accumulate (vs_pgscan s) v key) (\<lambda>t. Ok (s\<lparr> vs_pgscan := t \<rparr>))
      else if key_family ''pgsteal'' key
      then rbind (checked_accumulate (vs_pgsteal s) v key) (\<lambda>t. Ok (s\<lparr> vs_pgsteal := t \<rparr>))
      else if key_family ''workingset_refault'' key
      then rbind (checked_accumulate (vs_workingset_refault s) v key)
             (\<lambda>t. Ok (s\<lparr> vs_workingset_refault := t \<rparr>))
      else Ok s)"

definition vmstat_line :: "vm_stat \<Rightarrow> string \<Rightarrow> (collector_error, vm_stat) result" where
  "vmstat_line s line = (case split_whitespace line of
      [] \<Rightarrow> Ok s
    | key # parts \<Rightarrow>
        if \<not> vmstat_relevant key then Ok s
        else (case parts of
           [] \<Rightarrow> Err (CollectorInvalid ''vmstat'' (''`'' @ key @ ''` has no counter''))
         | [raw] \<Rightarrow> (case parse_unsigned raw of
              Inl error \<Rightarrow> Err (CollectorInvalid ''vmstat'' (''`'' @ key @ ''` is invalid: '' @ error))
            | Inr v \<Rightarrow> vmstat_store s key v)
         | _ \<Rightarrow> Err (CollectorInvalid ''vmstat'' (''`'' @ key @ ''` contains trailing data''))))"

fun vmstat_lines :: "vm_stat \<Rightarrow> string list \<Rightarrow> (collector_error, vm_stat) result" where
  "vmstat_lines s [] = Ok s"
| "vmstat_lines s (l # ls) = rbind (vmstat_line s l) (\<lambda>s'. vmstat_lines s' ls)"

definition vmstat_parse :: "string \<Rightarrow> (collector_error, vm_stat) result" where
  "vmstat_parse input = rbind (vmstat_lines vm_stat_default (lines input)) (\<lambda>s.
     Ok (s\<lparr> vs_minor_faults := (case (vs_page_faults s, vs_major_faults s) of
        (Some all, Some major) \<Rightarrow> checked_sub all major
      | _ \<Rightarrow> None) \<rparr>))"

subsection \<open>\<open>/proc/swaps\<close>\<close>

definition swaps_error :: "nat \<Rightarrow> string \<Rightarrow> collector_error" where
  "swaps_error index msg = CollectorInvalid ''swaps'' (''line '' @ show_nat (index + 1) @ msg)"

definition swaps_parse_u64 :: "string \<Rightarrow> nat \<Rightarrow> (collector_error, u64) result" where
  "swaps_parse_u64 v index =
     map_sum (\<lambda>error. swaps_error index ('' has invalid size: '' @ error)) id (parse_unsigned v)"

definition kib_to_bytes :: "u64 \<Rightarrow> nat \<Rightarrow> (collector_error, u64) result" where
  "kib_to_bytes v index = ok_or (swaps_error index '' size overflows bytes'') (checked_mul v 1024)"

definition summarize :: "swap_entry list \<Rightarrow> swap_configuration" where
  "summarize es = (if es = [] then SwapNone else
     let has_zram = list_ex (\<lambda>e. str_contains (se_path e) ''/zram'') es;
         has_file = list_ex (\<lambda>e. \<not> str_contains (se_path e) ''/zram'' \<and>
                                  eq_ignore_ascii_case (se_kind e) ''file'') es;
         has_partition = list_ex (\<lambda>e. \<not> str_contains (se_path e) ''/zram'' \<and>
                                  \<not> eq_ignore_ascii_case (se_kind e) ''file'') es
     in case (has_file, has_partition, has_zram) of
          (True, False, False) \<Rightarrow> Swapfile
        | (False, True, False) \<Rightarrow> Partition
        | (False, False, True) \<Rightarrow> SwapZram
        | _ \<Rightarrow> Mixed)"

definition swap_line :: "nat \<Rightarrow> string \<Rightarrow> (collector_error, swap_entry option) result" where
  "swap_line index line =
     (if index = 0 \<and> str_contains (to_ascii_lowercase line) ''filename'' then Ok None
      else if trim line = [] then Ok None
      else (case split_whitespace line of
         [path, kind, size_text, used_text, priority_text] \<Rightarrow>
           rbind (swaps_parse_u64 size_text index) (\<lambda>size_kib.
           rbind (swaps_parse_u64 used_text index) (\<lambda>used_kib.
           rbind (map_sum (\<lambda>error. swaps_error index ('' has invalid priority: '' @ error)) id
                    (parse_signed 32 priority_text)) (\<lambda>priority.
           rbind (kib_to_bytes size_kib index) (\<lambda>size_bytes.
           rbind (kib_to_bytes used_kib index) (\<lambda>used_bytes.
             Ok (Some \<lparr> se_path = path, se_kind = kind, se_size_bytes = size_bytes,
                   se_used_bytes = used_bytes, se_priority = priority \<rparr>))))))
       | _ \<Rightarrow> Err (swaps_error index '' must contain five fields'')))"

fun swap_lines :: "nat \<Rightarrow> string list \<Rightarrow> (collector_error, swap_entry list) result" where
  "swap_lines index [] = Ok []"
| "swap_lines index (l # ls) =
     rbind (swap_line index l) (\<lambda>e.
     rbind (swap_lines (index + 1) ls) (\<lambda>es.
       Ok (case e of None \<Rightarrow> es | Some x \<Rightarrow> x # es)))"

definition swap_parse :: "string \<Rightarrow> (collector_error, swap_state) result" where
  "swap_parse input = rbind (swap_lines 0 (lines input)) (\<lambda>es.
     Ok \<lparr> sw_entries = es, sw_configuration = summarize es \<rparr>)"

subsection \<open>Process CPU tracker and \<open>smaps\<close> budget\<close>

record cpu_baseline =
  cb_start_time_ticks :: u64
  cb_process_ticks :: u64
  cb_system_ticks :: u64

type_synonym process_cpu_tracker = "u32 \<rightharpoonup> cpu_baseline"

definition cpu_calculate ::
  "process_cpu_tracker \<Rightarrow> u32 \<Rightarrow> u64 \<Rightarrow> u64 \<Rightarrow> u64 \<Rightarrow> u32 \<Rightarrow> f64 option \<times> process_cpu_tracker" where
  "cpu_calculate tracker pid start_time_ticks process_ticks system_ticks logical_cpus =
     (let current = \<lparr> cb_start_time_ticks = start_time_ticks, cb_process_ticks = process_ticks,
                      cb_system_ticks = system_ticks \<rparr>
      in (case tracker pid of
            None \<Rightarrow> None
          | Some previous \<Rightarrow>
              if cb_start_time_ticks previous \<noteq> start_time_ticks then None
              else (case checked_sub process_ticks (cb_process_ticks previous) of
                 None \<Rightarrow> None
               | Some process_delta \<Rightarrow>
                  (case checked_sub system_ticks (cb_system_ticks previous) of
                     None \<Rightarrow> None
                   | Some system_delta \<Rightarrow>
                       if system_delta = 0 then None
                       else Some (f64_mul (f64_mul
                              (f64_div (f64_of_u64 process_delta) (f64_of_u64 system_delta))
                              (f64_of_u32 logical_cpus)) (Fin 100)))),
          tracker(pid \<mapsto> current)))"

definition cpu_retain :: "process_cpu_tracker \<Rightarrow> u32 set \<Rightarrow> process_cpu_tracker" where
  "cpu_retain tracker live_pids = (\<lambda>pid. if pid \<in> live_pids then tracker pid else None)"

text \<open>The selected process ids in selection order, and the new cursor.\<close>

definition select_smaps :: "u32 list \<Rightarrow> bool \<Rightarrow> nat \<Rightarrow> nat \<Rightarrow> u32 list \<times> nat" where
  "select_smaps pids enabled budget cursor =
     (if \<not> enabled \<or> pids = [] \<or> budget = 0 then ([], cursor)
      else let count = min budget (length pids)
           in (map (\<lambda>offset. pids ! ((cursor + offset) mod length pids)) [0..<count],
               (cursor + count) mod length pids))"

subsection \<open>The parsers on what the kernel prints\<close>

abbreviation LF :: char where
  "LF \<equiv> char_of (10 :: nat)"

definition unlines :: "string list \<Rightarrow> string" where
  "unlines ls = concat (map (\<lambda>l. l @ [LF]) ls)"

definition is_line :: "string \<Rightarrow> bool" where
  "is_line l \<longleftrightarrow> LF \<notin> set l \<and> (l = [] \<or> \<not> is_ws (last l))"

lemma split_on_unlines: "\<forall>l \<in> set ls. LF \<notin> set l \<Longrightarrow> split_on LF (unlines ls) = ls @ [[]]"
  by (induction ls) (simp_all add: unlines_def split_on_append)

lemma strip_cr_line: "is_line l \<Longrightarrow> strip_cr l = l"
  by (auto simp: strip_cr_def is_line_def strip_suffix_Some_iff is_ws_def split: option.split)

lemma lines_unlines: "\<forall>l \<in> set ls. is_line l \<Longrightarrow> lines (unlines ls) = ls"
  by (auto simp: lines_def Let_def split_on_unlines is_line_def butlast_append
      intro: map_idI strip_cr_line [unfolded is_line_def])

lemma ws_token_no_LF: "ws_token t \<Longrightarrow> LF \<notin> set t"
  by (auto simp: ws_token_def is_ws_def Let_def)

lemma join_tokens_line:
  assumes "\<forall>t \<in> set ts. ws_token t"
  shows "is_line (join '' '' ts)"
proof -
  have "set (join '' '' ts) \<subseteq> (\<Union>t \<in> set ts. set t) \<union> {CHR '' ''}"
    by (induction ts rule: induct_list012) auto
  moreover have "LF \<noteq> CHR '' ''" by code_simp
  ultimately have "LF \<notin> set (join '' '' ts)" using assms ws_token_no_LF by blast
  moreover have "ts = [] \<or> (join '' '' ts \<noteq> [] \<and> last (join '' '' ts) = last (last ts))"
    using assms by (induction ts rule: induct_list012) (auto simp: ws_token_def)
  moreover have "ts \<noteq> [] \<longrightarrow> \<not> is_ws (last (last ts))"
    using assms by (metis last_in_set ws_token_def)
  ultimately show ?thesis by (cases "ts = []") (simp_all add: is_line_def)
qed

text \<open>The kernel's rendering of a swap area: five fields, sizes in KiB.\<close>

definition show_int :: "int \<Rightarrow> string" where
  "show_int i = (if i < 0 then CHR ''-'' # show_nat (nat (- i)) else show_nat (nat i))"

definition swap_entry_line :: "swap_entry \<Rightarrow> string" where
  "swap_entry_line e = join '' '' [se_path e, se_kind e, show_nat (unat (se_size_bytes e) div 1024),
     show_nat (unat (se_used_bytes e) div 1024), show_int (se_priority e)]"

definition swap_entry_ok :: "swap_entry \<Rightarrow> bool" where
  "swap_entry_ok e \<longleftrightarrow> ws_token (se_path e) \<and> ws_token (se_kind e) \<and>
     1024 dvd unat (se_size_bytes e) \<and> 1024 dvd unat (se_used_bytes e) \<and>
     - (2 ^ 31) \<le> se_priority e \<and> se_priority e < 2 ^ 31"

definition swaps_header :: string where
  "swaps_header = ''Filename Type Size Used Priority''"

lemma parse_signed_show_int:
  assumes "- (2 ^ (w - 1)) \<le> i" and "i < 2 ^ (w - 1)"
  shows "parse_signed w (show_int i) = Ok i"
proof (cases "i < 0")
  case True
  then show ?thesis using assms
    by (simp add: show_int_def parse_signed_def map_sum_Ok_iff scan_number_Ok_iff nat_le_iff)
next
  case False
  have "strip_prefix ''-'' (show_nat (nat i)) = None"
    using show_nat_chars [of _ "nat i"] by (cases "show_nat (nat i)") auto
  then show ?thesis using assms False
    by (simp add: show_int_def parse_signed_def map_sum_Ok_iff scan_number_Ok_iff nat_le_iff)
qed

lemma ws_token_show_int [simp]: "ws_token (show_int i)"
  using ws_token_show_nat [of "nat (- i)"] ws_token_show_nat [of "nat i"]
  by (auto simp: show_int_def ws_token_def is_ws_def)

lemma parse_kib: 
  assumes "1024 dvd unat (w :: u64)"
  shows "parse_unsigned (show_nat (unat w div 1024)) = Ok (w div 1024)"
    and "checked_mul (w div 1024) 1024 = Some w"
proof -
  have d: "unat (w div 1024) = unat w div 1024" by (simp add: unat_div)
  show "parse_unsigned (show_nat (unat w div 1024)) = Ok (w div 1024)"
    using parse_unsigned_show [of "w div 1024"] by (simp only: d)
  show "checked_mul (w div 1024) 1024 = Some w"
    using assms by (simp add: checked_mul_Some d)
qed

lemma trim_not_Nil: "\<not> is_ws c \<Longrightarrow> trim (c # s) \<noteq> []"
  by (simp add: trim_def trim_end_ws_def dropWhile_append)

lemma swap_entry_tokens:
  "swap_entry_ok e \<Longrightarrow> \<forall>t \<in> set [se_path e, se_kind e, show_nat (unat (se_size_bytes e) div 1024),
     show_nat (unat (se_used_bytes e) div 1024), show_int (se_priority e)]. ws_token t"
  by (simp add: swap_entry_ok_def)

lemma is_line_swap_entry: "swap_entry_ok e \<Longrightarrow> is_line (swap_entry_line e)"
  unfolding swap_entry_line_def by (rule join_tokens_line [OF swap_entry_tokens])

lemma swap_line_entry:
  assumes "swap_entry_ok e" and "index \<noteq> 0"
  shows "swap_line index (swap_entry_line e) = Ok (Some e)"
proof -
  note tokens = swap_entry_tokens [OF assms(1)]
  have "trim (swap_entry_line e) \<noteq> []"
    using assms by (cases "se_path e") (auto simp: swap_entry_line_def swap_entry_ok_def ws_token_def trim_not_Nil)
  then show ?thesis
    using assms split_whitespace_join [OF tokens] parse_kib [of "se_size_bytes e"] parse_kib [of "se_used_bytes e"]
    by (simp add: swap_line_def swap_entry_line_def swaps_parse_u64_def kib_to_bytes_def
        parse_signed_show_int swap_entry_ok_def)
qed

lemma swap_lines_entries:
  "\<forall>e \<in> set es. swap_entry_ok e \<Longrightarrow> index \<noteq> 0 \<Longrightarrow>
     swap_lines index (map swap_entry_line es) = Ok es"
  by (induction es arbitrary: index) (auto simp: swap_line_entry)

lemma swaps_header_line: "is_line swaps_header" and swap_line_header: "swap_line 0 swaps_header = Ok None"
  by (code_simp, code_simp)

text \<open>Reading \<open>/proc/swaps\<close> inverts the kernel's rendering: for every list of swap areas
  whose sizes are whole KiB and whose priorities are 32-bit, the parser returns exactly these
  areas, in order, with their configuration summary.\<close>

theorem swap_parse_roundtrip:
  assumes "\<forall>e \<in> set es. swap_entry_ok e"
  shows "swap_parse (unlines (swaps_header # map swap_entry_line es)) =
     Ok \<lparr> sw_entries = es, sw_configuration = summarize es \<rparr>"
proof -
  have "\<forall>l \<in> set (swaps_header # map swap_entry_line es). is_line l"
    using assms swaps_header_line by (simp add: is_line_swap_entry)
  then show ?thesis
    using assms by (simp add: swap_parse_def lines_unlines swap_line_header swap_lines_entries)
qed

theorem swap_parse_roundtrip_witness:
  "swap_parse (unlines (swaps_header # map swap_entry_line
       [\<lparr> se_path = ''/dev/zram0'', se_kind = ''partition'', se_size_bytes = 8192,
          se_used_bytes = 1024, se_priority = 100 \<rparr>])) =
     Ok \<lparr> sw_entries = [\<lparr> se_path = ''/dev/zram0'', se_kind = ''partition'', se_size_bytes = 8192,
          se_used_bytes = 1024, se_priority = 100 \<rparr>], sw_configuration = SwapZram \<rparr>"
proof -
  let ?e = "\<lparr> se_path = ''/dev/zram0'', se_kind = ''partition'', se_size_bytes = 8192,
     se_used_bytes = 1024, se_priority = 100 \<rparr> :: swap_entry"
  have "\<forall>e \<in> set [?e]. swap_entry_ok e" by (simp add: swap_entry_ok_def ws_token_def is_ws_def)
  moreover have "summarize [?e] = SwapZram" by code_simp
  ultimately show ?thesis using swap_parse_roundtrip [of "[?e]"] by simp
qed

text \<open>A parsed \<open>/proc/meminfo\<close> is consistent: when both swap fields are present, the used
  swap is reported and is the total less the free swap without wrap-around; a file whose free
  swap exceeds the total is refused.\<close>

theorem meminfo_swap_consistent:
  assumes "meminfo_parse input = Ok m" and "mi_swap_total_bytes m = Some t"
    and "mi_swap_free_bytes m = Some f"
  shows "\<exists>u. mi_swap_used_bytes m = Some u \<and> unat u + unat f = unat t"
proof -
  from assms have "meminfo_swap_used (Some t) (Some f) = Ok (mi_swap_used_bytes m)"
    by (auto simp: meminfo_parse_def)
  then show ?thesis by (auto simp: meminfo_swap_used_def map_sum_Ok_iff sat_simps)
qed

theorem meminfo_swap_consistent_witness:
  "\<exists>m u. meminfo_parse (unlines [''MemTotal: 8 kB'', ''MemAvailable: 4 kB'', ''SwapTotal: 4 kB'',
       ''SwapFree: 1 kB'']) = Ok m \<and> mi_swap_used_bytes m = Some u \<and> unat u + unat (1024 :: u64) = unat (4096 :: u64)"
proof -
  let ?in = "unlines [''MemTotal: 8 kB'', ''MemAvailable: 4 kB'', ''SwapTotal: 4 kB'', ''SwapFree: 1 kB'']"
  let ?m = "\<lparr> mi_mem_total_bytes = 8192, mi_mem_available_bytes = 4096, mi_anon_bytes = None,
     mi_file_cache_bytes = None, mi_slab_bytes = None, mi_swap_total_bytes = Some 4096,
     mi_swap_free_bytes = Some 1024, mi_swap_used_bytes = Some 3072 \<rparr> :: mem_info"
  have l: "lines ?in = [''MemTotal: 8 kB'', ''MemAvailable: 4 kB'', ''SwapTotal: 4 kB'', ''SwapFree: 1 kB'']"
    by code_simp
  have v: "meminfo_value ''MemTotal'' '' 8 kB'' = Ok 8192" "meminfo_value ''MemAvailable'' '' 4 kB'' = Ok 4096"
    "meminfo_value ''SwapTotal'' '' 4 kB'' = Ok 4096" "meminfo_value ''SwapFree'' '' 1 kB'' = Ok 1024"
    by (simp_all add: meminfo_value_def split_whitespace_def is_ws_def parse_unsigned_def strip_plus_def
        scan_number_def is_ascii_digit_def digit_val_def checked_mul_def)
  have "meminfo_parse ?in = Ok ?m"
    unfolding meminfo_parse_def l
    by (simp add: v meminfo_wanted_def trim_def trim_end_ws_def is_ws_def meminfo_required_def
        meminfo_add_optional_def meminfo_swap_used_def checked_sub_def)
  with meminfo_swap_consistent [of ?in ?m 4096 1024] show ?thesis by auto
qed

subsection \<open>CPU share and rotation\<close>

lemma cpu_calculate_tracker:
  "snd (cpu_calculate tr pid st pt sy n) =
     tr(pid \<mapsto> \<lparr> cb_start_time_ticks = st, cb_process_ticks = pt, cb_system_ticks = sy \<rparr>)"
  by (simp add: cpu_calculate_def Let_def)

text \<open>A CPU share is reported only against a baseline of the same process incarnation
  whose counters have not gone backwards, and it is then a finite nonnegative number (at most
  \<open>2 ^ 107\<close>, with no overflow to infinity and no NaN), whatever the counters.\<close>

theorem cpu_calculate_finite:
  assumes "fst (cpu_calculate tr pid st pt sy n) = Some v"
  shows "\<exists>b. tr pid = Some b \<and> cb_start_time_ticks b = st \<and> cb_process_ticks b \<le> pt \<and>
            cb_system_ticks b < sy \<and> f64_within 107 v"
proof -
  from assms obtain b p d where b: "tr pid = Some b" "cb_start_time_ticks b = st"
    and p: "checked_sub pt (cb_process_ticks b) = Some p"
    and d: "checked_sub sy (cb_system_ticks b) = Some d" "d \<noteq> 0"
    and v: "v = f64_mul (f64_mul (f64_div (f64_of_u64 p) (f64_of_u64 d)) (f64_of_u32 n)) (Fin 100)"
    unfolding cpu_calculate_def Let_def fst_conv
    by (simp split: option.splits if_split_asm)
  obtain y where y: "f64_of_u64 d = Fin y" "1 \<le> y" using f64_of_u64_ge_1 [OF d(2)] by blast
  have "f64_within 66 (f64_div (f64_of_u64 p) (f64_of_u64 d))"
    using f64_div_within [OF f64_of_u64_within y(1), of 0 p] y(2) by simp
  then have "f64_within 99 (f64_mul (f64_div (f64_of_u64 p) (f64_of_u64 d)) (f64_of_u32 n))"
    using f64_mul_within [OF _ f64_of_u32_within, of 66] by simp
  then have "f64_within 107 v"
    using f64_mul_within [of 99 _ 7 "Fin 100"] by (simp add: v f64_within_def)
  moreover have "cb_process_ticks b \<le> pt" using p by (simp add: checked_sub_Some word_le_nat_alt)
  moreover have "cb_system_ticks b < sy"
    using d unat_gt_0 [of d] by (simp add: checked_sub_Some word_less_nat_alt)
  ultimately show ?thesis using b by blast
qed

theorem cpu_calculate_finite_witness:
  "\<exists>v. fst (cpu_calculate [7 \<mapsto> \<lparr> cb_start_time_ticks = 5, cb_process_ticks = 10, cb_system_ticks = 100 \<rparr>]
        7 5 30 200 4) = Some v \<and> f64_within 107 v"
proof -
  let ?tr = "[7 \<mapsto> \<lparr> cb_start_time_ticks = 5, cb_process_ticks = 10, cb_system_ticks = 100 \<rparr>] :: process_cpu_tracker"
  have "\<exists>v. fst (cpu_calculate ?tr 7 5 30 200 4) = Some v"
    by (simp add: cpu_calculate_def checked_sub_def)
  with cpu_calculate_finite [of ?tr 7 5 30 200 4] show ?thesis by blast
qed

text \<open>Successive calls of \<open>select_smaps\<close> with one process list.\<close>

fun smaps_rounds :: "u32 list \<Rightarrow> nat \<Rightarrow> nat \<Rightarrow> nat \<Rightarrow> u32 list" where
  "smaps_rounds pids budget 0 cursor = []"
| "smaps_rounds pids budget (Suc k) cursor =
     (case select_smaps pids True budget cursor of
        (sel, cursor') \<Rightarrow> sel @ smaps_rounds pids budget k cursor')"

lemma smaps_rounds_covers:
  assumes "0 < budget" and "d < k * min budget (length pids)"
  shows "pids ! ((cursor + d) mod length pids) \<in> set (smaps_rounds pids budget k cursor)"
  using assms
proof (induction k arbitrary: cursor d)
  case (Suc k)
  let ?n = "length pids" and ?c = "min budget (length pids)"
  have ne: "pids \<noteq> []" using Suc.prems(2) by auto
  have sel: "select_smaps pids True budget cursor =
      (map (\<lambda>o'. pids ! ((cursor + o') mod ?n)) [0..<?c], (cursor + ?c) mod ?n)"
    using ne Suc.prems(1) by (simp add: select_smaps_def Let_def)
  show ?case
  proof (cases "d < ?c")
    case True
    then show ?thesis by (auto simp: sel)
  next
    case False
    then have "cursor + ?c + (d - ?c) = cursor + d" by linarith
    then have "((cursor + ?c) mod ?n + (d - ?c)) mod ?n = (cursor + d) mod ?n"
      by (simp only: mod_add_left_eq)
    moreover have "d - ?c < k * ?c" using Suc.prems(2) False by (simp only: mult_Suc not_less)
    ultimately show ?thesis
      using Suc.IH [of "d - ?c" "(cursor + ?c) mod ?n"] Suc.prems(1)
      by (simp add: sel del: Nat.add_diff_assoc)
  qed
qed simp

text \<open>The \<open>smaps\<close> budget rotates fairly: from any cursor, over \<open>k\<close> collection rounds of an
  unchanged process list, every process is selected as soon as \<open>k * budget\<close> reaches the number
  of processes.\<close>

theorem select_smaps_fair:
  assumes "0 < budget" and "length pids \<le> k * budget" and "p \<in> set pids"
  shows "p \<in> set (smaps_rounds pids budget k cursor)"
proof -
  let ?n = "length pids"
  from assms(3) obtain i where i: "i < ?n" "pids ! i = p" by (auto simp: in_set_conv_nth)
  then have n: "0 < ?n" by linarith
  define d where "d = (i + (?n - cursor mod ?n)) mod ?n"
  have "(cursor + d) mod ?n = (cursor mod ?n + (i + (?n - cursor mod ?n))) mod ?n"
    by (simp add: d_def mod_simps)
  also have "cursor mod ?n + (i + (?n - cursor mod ?n)) = i + ?n"
    using mod_less_divisor [OF n, of cursor] by linarith
  finally have idx: "(cursor + d) mod ?n = i" using i by simp
  have "?n \<le> k * min budget ?n"
  proof (cases "budget \<le> ?n")
    case False
    have "k \<noteq> 0" using assms(2) n by (cases k) auto
    with False show ?thesis by simp
  qed (use assms in simp)
  moreover have "d < ?n" unfolding d_def using n by (rule mod_less_divisor)
  ultimately have "d < k * min budget ?n" by linarith
  from smaps_rounds_covers [OF assms(1) this, of cursor] show ?thesis by (simp add: idx i)
qed

theorem select_smaps_fair_witness:
  "(30 :: u32) \<in> set (smaps_rounds [10, 20, 30] 2 2 1)"
  using select_smaps_fair [of 2 "[10, 20, 30]" 2 30 1] by simp

end
