(* ===== verification/Classifier.thy ===== *)
theory Classifier
  imports Config Telemetry
begin

text \<open>
  The classifier crate (\<open>crates/classifier/src\<close>): the data model of \<open>model.rs\<close>, the process
  rules of \<open>process.rs\<close>, the workload rules of \<open>workload.rs\<close>, the stabilizer of
  \<open>stabilize.rs\<close> and the \<open>Classifier\<close> of \<open>lib.rs\<close> that composes them. Hash maps are maps,
  hash sets are sets. The SHA-256 hex digest is a parameter (\<open>digest_hex\<close>): nothing here
  depends on its value.
\<close>

subsection \<open>Data model\<close>

datatype process_category =
  CatUnknown | CatSystem | CatCritical | CatDesktop | CatBrowser | CatDevelopment | CatGame
| CatVirtualization | CatBackground

datatype foreground_state = FgForeground | FgBackground | FgUnknown

datatype workload_class =
  WIdle | WDesktop | WBrowserHeavy | WDevelopment | WGaming | WGamingBackgroundHeavy
| WVirtualization | WMemoryPressure | WCriticalPressure

fun show_process_category :: "process_category \<Rightarrow> string" where
  "show_process_category CatUnknown = ''unknown''"
| "show_process_category CatSystem = ''system''"
| "show_process_category CatCritical = ''critical''"
| "show_process_category CatDesktop = ''desktop''"
| "show_process_category CatBrowser = ''browser''"
| "show_process_category CatDevelopment = ''development''"
| "show_process_category CatGame = ''game''"
| "show_process_category CatVirtualization = ''virtualization''"
| "show_process_category CatBackground = ''background''"

fun show_workload_class :: "workload_class \<Rightarrow> string" where
  "show_workload_class WIdle = ''idle''"
| "show_workload_class WDesktop = ''desktop''"
| "show_workload_class WBrowserHeavy = ''browser_heavy''"
| "show_workload_class WDevelopment = ''development''"
| "show_workload_class WGaming = ''gaming''"
| "show_workload_class WGamingBackgroundHeavy = ''gaming_background_heavy''"
| "show_workload_class WVirtualization = ''virtualization''"
| "show_workload_class WMemoryPressure = ''memory_pressure''"
| "show_workload_class WCriticalPressure = ''critical_pressure''"

record evidence =
  ev_code :: string
  ev_description :: string
  ev_observed :: string
  ev_threshold :: "string option"
  ev_contribution :: f64

record rejected_candidate =
  rc_candidate :: workload_class
  rc_confidence :: f64
  rc_reason :: string

record workload_explanation =
  we_rule_version :: string
  we_selected_class :: string
  we_confidence :: f64
  we_evidence :: "evidence list"
  we_rejected_candidates :: "rejected_candidate list"
  we_protection_reasons :: "string list"

record process_classification =
  pc_sample :: process_sample
  pc_executable :: string
  pc_command_signature :: string
  pc_application_name :: "string option"
  pc_category :: process_category
  pc_is_game :: bool
  pc_is_critical :: bool
  pc_protected :: bool
  pc_protected_game :: bool
  pc_cold_candidate :: bool
  pc_foreground :: foreground_state
  pc_foreground_confidence :: f64
  pc_confidence :: f64
  pc_reasons :: "string list"

record workload_decision =
  wd_class :: workload_class
  wd_confidence :: f64
  wd_explanation :: workload_explanation

datatype classification_outcome =
  Classified workload_decision
| OutcomeUnknown workload_explanation

fun outcome_class :: "classification_outcome \<Rightarrow> workload_class option" where
  "outcome_class (Classified d) = Some (wd_class d)"
| "outcome_class (OutcomeUnknown _) = None"

record workload_transition =
  wt_timestamp_ns :: i64
  wt_previous_class :: "workload_class option"
  wt_new_class :: workload_class
  wt_confidence :: f64
  wt_explanation :: workload_explanation

record classification_batch =
  bat_processes :: "process_classification list"
  bat_outcome :: classification_outcome
  bat_transition :: "workload_transition option"

definition RULE_VERSION :: string where
  "RULE_VERSION = ''heuristic-v1''"

subsection \<open>Names and paths\<close>

definition CRITICAL :: "string list" where
  "CRITICAL = [''init'', ''systemd'', ''dbus-daemon'', ''networkmanager'', ''pipewire'', ''wireplumber'',
     ''kwin_wayland'', ''gnome-shell'', ''sddm'', ''gdm'', ''gamescope'', ''easyanticheat'',
     ''easyanticheat_eos'', ''battleye'', ''beservice_x64'']"

definition SYSTEM :: "string list" where
  "SYSTEM = [''systemd-journald'', ''systemd-logind'', ''udevd'', ''kworker'']"

definition BACKGROUND :: "string list" where
  "BACKGROUND = [''tracker-miner-fs-3'', ''baloo_file'', ''updatedb'']"

definition contains_name :: "string list \<Rightarrow> string \<Rightarrow> bool" where
  "contains_name values name \<longleftrightarrow> list_ex (\<lambda>v. eq_ignore_ascii_case v name) values"

definition is_browser :: "string \<Rightarrow> bool" where
  "is_browser name \<longleftrightarrow> list_ex (\<lambda>family. name = family \<or> starts_with name (family @ ''-''))
     [''firefox'', ''chrome'', ''chromium'', ''google-chrome'', ''brave'', ''brave-browser'', ''vivaldi'',
      ''vivaldi-bin'', ''opera'', ''msedge'']"

definition is_development :: "string \<Rightarrow> bool" where
  "is_development name \<longleftrightarrow> name \<in> set [''code'', ''codium'', ''rustc'', ''cargo'', ''gcc'', ''g++'', ''clang'',
     ''clang++'', ''cmake'', ''ninja'', ''rust-analyzer'', ''clangd'', ''gdb'', ''lldb''] \<or>
     starts_with name ''idea'' \<or> starts_with name ''clion''"

definition is_virtualization :: "string \<Rightarrow> bool" where
  "is_virtualization name \<longleftrightarrow> starts_with name ''qemu-system'' \<or>
     name \<in> set [''virtualboxvm'', ''vmware-vmx'', ''vmware'']"

definition is_desktop :: "string \<Rightarrow> bool" where
  "is_desktop name \<longleftrightarrow>
     name \<in> set [''plasmashell'', ''konsole'', ''gnome-terminal-server'', ''dolphin'', ''nautilus'']"

definition is_steam :: "string \<Rightarrow> bool" where
  "is_steam name \<longleftrightarrow> name \<in> set [''steam'', ''steamwebhelper'', ''steam-runtime'']"

definition is_steam_helper :: "string \<Rightarrow> bool" where
  "is_steam_helper name \<longleftrightarrow> name \<in> set [''steam'', ''steamwebhelper'', ''steam-runtime'', ''pressure-vessel'']"

definition is_proton_or_wine :: "string \<Rightarrow> bool" where
  "is_proton_or_wine name \<longleftrightarrow> str_contains name ''proton'' \<or> starts_with name ''wine''"

definition is_known_helper :: "string \<Rightarrow> bool" where
  "is_known_helper name \<longleftrightarrow> is_steam_helper name \<or> is_proton_or_wine name \<or> name = ''gamescope''"

text \<open>\<open>Path::file_name\<close>: the last component unless it is the root or a parent reference; empty
  components and \<open>.\<close> do not count.\<close>

definition file_name :: "string \<Rightarrow> string option" where
  "file_name p = (let cs = filter (\<lambda>c. c \<noteq> [] \<and> c \<noteq> ''.'') (split_on CHR ''/'' p)
     in if cs = [] \<or> last cs = ''..'' then None else Some (last cs))"

definition normalized_name :: "process_sample \<Rightarrow> string" where
  "normalized_name sample = to_ascii_lowercase (trim_end_matches '' (deleted)''
     (unwrap_or [] (opt_or (Option.bind (ps_executable sample) file_name) (ps_executable_name sample))))"

text \<open>One component of a path pushed on, dropped from or ignored by the stack; \<open>..\<close> at the
  root fails.\<close>

fun path_push :: "string list option \<Rightarrow> string \<Rightarrow> string list option" where
  "path_push None part = None"
| "path_push (Some parts) part =
     (if part = [] \<or> part = ''.'' then Some parts
      else if part = ''..'' then (if parts = [] then None else Some (butlast parts))
      else Some (parts @ [part]))"

definition normalize_linux_executable_path :: "string \<Rightarrow> string option" where
  "normalize_linux_executable_path raw =
     (let r = trim_end_matches '' (deleted)'' (trim raw)
      in if \<not> starts_with r ''/'' \<or> char_of (0 :: nat) \<in> set r then None
         else case foldl path_push (Some []) (split_on CHR ''/'' r) of
            None \<Rightarrow> None
          | Some parts \<Rightarrow> if parts = [] then None else Some (CHR ''/'' # join ''/'' parts))"

definition is_safe_system_path :: "string \<Rightarrow> bool" where
  "is_safe_system_path path \<longleftrightarrow> list_ex (\<lambda>prefix. starts_with path prefix)
     [''/usr/'', ''/bin/'', ''/sbin/'', ''/opt/'', ''/nix/store/'', ''/snap/'']"

definition IDENTITY_FORMAT_VERSION :: string where
  "IDENTITY_FORMAT_VERSION = ''nemor-process-identity-v2''"

definition stable_identity :: "(string \<Rightarrow> string) \<Rightarrow> process_sample \<Rightarrow> string \<Rightarrow> string \<times> string" where
  "stable_identity digest_hex sample fallback_name =
     (let normalized_path = Option.bind (ps_executable sample) normalize_linux_executable_path;
          base = to_ascii_lowercase (unwrap_or fallback_name (opt_filter (\<lambda>v. v \<noteq> [])
            (map_option (\<lambda>path. last (split_on CHR ''/'' path)) normalized_path)));
          basename = (if base = [] then ''unknown'' else base);
          (display, kind, identity) = (case normalized_path of
             Some path \<Rightarrow> ((if is_safe_system_path path then path else ''private:'' @ basename), ''path'', path)
           | None \<Rightarrow> (basename, ''basename'', basename));
          nul = [char_of (0 :: nat)]
      in (display, digest_hex (IDENTITY_FORMAT_VERSION @ nul @ kind @ nul @ identity)))"

subsection \<open>Ancestry and foreground\<close>

text \<open>The loop of \<open>ancestor_names\<close>: at most \<open>n\<close> more steps up the parent map.\<close>

fun ancestors_loop ::
  "(u32 \<rightharpoonup> string) \<Rightarrow> (u32 \<rightharpoonup> u32) \<Rightarrow> nat \<Rightarrow> u32 \<Rightarrow> u32 set \<Rightarrow> string set \<Rightarrow> string set" where
  "ancestors_loop names parents 0 current seen acc = acc"
| "ancestors_loop names parents (Suc n) current seen acc =
     (if current \<in> seen then acc
      else case parents current of
         None \<Rightarrow> acc
       | Some parent \<Rightarrow> ancestors_loop names parents n parent (insert current seen)
           (case names parent of Some name \<Rightarrow> insert name acc | None \<Rightarrow> acc))"

definition ancestor_names :: "u32 \<Rightarrow> (u32 \<rightharpoonup> string) \<Rightarrow> (u32 \<rightharpoonup> u32) \<Rightarrow> string set" where
  "ancestor_names pid names parents = ancestors_loop names parents 16 pid {} {}"

definition foreground_state_of :: "process_sample \<Rightarrow> bool \<Rightarrow> foreground_state \<times> f64" where
  "foreground_state_of sample gamescope_game =
     (if gamescope_game then (FgForeground, lit (17 / 20))
      else case (ps_tty_nr sample, ps_process_group_id sample, ps_foreground_process_group_id sample) of
         (Some tty, Some grp, Some fg) \<Rightarrow>
           if tty > 0 \<and> fg > 0
           then (if grp = fg then (FgForeground, lit (49 / 50)) else (FgBackground, lit (19 / 20)))
           else (FgUnknown, Fin 0)
       | _ \<Rightarrow> (FgUnknown, Fin 0))"

subsection \<open>Process classification\<close>

definition steam_app_cgroup :: "process_sample \<Rightarrow> bool" where
  "steam_app_cgroup sample \<longleftrightarrow> (let cgroup = to_ascii_lowercase (unwrap_or [] (ps_cgroup_path sample))
     in str_contains cgroup ''steam_app_'' \<or>
        (str_contains cgroup ''/app-'' \<and> str_contains cgroup ''steam'' \<and> str_contains cgroup ''.scope''))"

text \<open>The game score and the reasons it rests on.\<close>

definition game_evidence ::
  "process_sample \<Rightarrow> classification_config \<Rightarrow> string \<Rightarrow> string set \<Rightarrow> f64 \<times> string list" where
  "game_evidence sample config name ancestors =
     (let browser = is_browser name;
          steam_cg = steam_app_cgroup sample;
          steam_context = (\<exists>v \<in> ancestors. is_steam v);
          gamescope_context = (''gamescope'' \<in> ancestors);
          c1 = contains_name (cls_game_executables config) name;
          c2 = (steam_cg \<and> \<not> browser);
          c3 = (steam_context \<and> \<not> browser \<and> \<not> is_steam_helper name);
          c4 = (is_proton_or_wine name \<and> steam_cg);
          c5 = (gamescope_context \<and> \<not> browser \<and> \<not> is_development name \<and> \<not> is_known_helper name);
          s1 = (if c1 then f64_max (Fin 0) (lit (19 / 20)) else Fin 0);
          s2 = (if c2 then f64_add s1 (lit (13 / 20)) else s1);
          s3 = (if c3 then f64_add s2 (lit (1 / 5)) else s2);
          s4 = (if c4 then f64_add s3 (lit (1 / 5)) else s3);
          s5 = (if c5 then f64_add s4 (lit (4 / 5)) else s4)
      in (f64_min s5 (Fin 1),
          fired [(c1, ''configured_game_executable''), (c2, ''steam_app_cgroup''), (c3, ''steam_ancestry''),
                 (c4, ''proton_wine_with_steam_context''), (c5, ''gamescope_ancestry'')]))"

definition is_critical_name :: "classification_config \<Rightarrow> string \<Rightarrow> bool" where
  "is_critical_name config name \<longleftrightarrow>
     contains_name (cls_critical_executables config) name \<or> name \<in> set CRITICAL"

definition category_of :: "string \<Rightarrow> bool \<Rightarrow> bool \<Rightarrow> f64 \<Rightarrow> process_category \<times> f64" where
  "category_of name critical is_game game_score =
     (if name = [] then (CatUnknown, Fin 0)
      else if critical then (CatCritical, lit (49 / 50))
      else if is_game then (CatGame, game_score)
      else if is_browser name then (CatBrowser, lit (9 / 10))
      else if is_development name then (CatDevelopment, lit (22 / 25))
      else if is_virtualization name then (CatVirtualization, lit (9 / 10))
      else if name \<in> set BACKGROUND then (CatBackground, lit (17 / 20))
      else if name \<in> set SYSTEM \<or> starts_with name ''kworker'' then (CatSystem, lit (9 / 10))
      else if is_desktop name then (CatDesktop, lit (17 / 20))
      else (CatUnknown, lit (1 / 4)))"

definition classify_one ::
  "(string \<Rightarrow> string) \<Rightarrow> process_sample \<Rightarrow> classification_config \<Rightarrow> (u32 \<rightharpoonup> string) \<Rightarrow> (u32 \<rightharpoonup> u32) \<Rightarrow>
     process_classification" where
  "classify_one digest_hex sample config names parents =
     (let name = normalized_name sample;
          ancestors = ancestor_names (ps_pid sample) names parents;
          known_identity = (name \<noteq> []);
          configured_protected = contains_name (cls_protected_executables config) name;
          critical = is_critical_name config name;
          (game_score, game_reasons) = game_evidence sample config name ancestors;
          is_game = (known_identity \<and> f64_ge game_score (cls_minimum_confidence config));
          (category0, confidence) = category_of name critical is_game game_score;
          below = (\<not> critical \<and> f64_lt confidence (cls_minimum_confidence config));
          category = (if below then CatUnknown else category0);
          (foreground, foreground_confidence) =
             foreground_state_of sample (''gamescope'' \<in> ancestors \<and> is_game);
          protected = (\<not> known_identity \<or> category = CatUnknown \<or> critical \<or> is_game \<or>
             configured_protected \<or> foreground = FgForeground);
          reasons0 = game_reasons @ fired
             [(below, ''below_minimum_process_confidence''),
              (\<not> known_identity, ''unknown_identity_protected''),
              (critical, ''critical_process_protected''),
              (configured_protected, ''configured_process_protected''),
              (foreground = FgForeground, ''foreground_process_protected''),
              (is_game, ''game_process_protected'')];
          reasons = (if reasons0 = [] then [''category_'' @ show_process_category category] else reasons0);
          cold_candidate = (category = CatBackground \<and> foreground = FgBackground \<and>
             f64_ge confidence (cls_minimum_confidence config) \<and> \<not> protected \<and> \<not> is_game \<and> \<not> critical);
          (persistent_name, command_signature) = stable_identity digest_hex sample name
      in \<lparr> pc_sample = sample, pc_executable = persistent_name, pc_command_signature = command_signature,
           pc_application_name = (if known_identity then Some persistent_name else None),
           pc_category = category, pc_is_game = is_game, pc_is_critical = critical,
           pc_protected = protected, pc_protected_game = is_game, pc_cold_candidate = cold_candidate,
           pc_foreground = foreground, pc_foreground_confidence = foreground_confidence,
           pc_confidence = confidence, pc_reasons = reasons \<rparr>)"

definition classify_all ::
  "(string \<Rightarrow> string) \<Rightarrow> process_sample list \<Rightarrow> classification_config \<Rightarrow> process_classification list" where
  "classify_all digest_hex samples config =
     (let names = map_of (rev (map (\<lambda>s. (ps_pid s, normalized_name s)) samples));
          parents = map_of (rev (List.map_filter (\<lambda>s. map_option (Pair (ps_pid s)) (ps_parent_pid s)) samples))
      in map (\<lambda>s. classify_one digest_hex s config names parents) samples)"

text \<open>A sample of process 1 of which nothing else is known.\<close>

definition blank_sample :: process_sample where
  "blank_sample = \<lparr> ps_timestamp_ns = 0, ps_pid = 1, ps_executable = None, ps_executable_name = None,
     ps_parent_pid = None, ps_process_group_id = None, ps_session_id = None, ps_tty_nr = None,
     ps_foreground_process_group_id = None, ps_start_time_ticks = None, ps_cgroup_path = None,
     ps_rss_bytes = None, ps_pss_bytes = None, ps_uss_bytes = None, ps_swap_bytes = None,
     ps_minor_faults = None, ps_major_faults = None, ps_cpu_percent = None, ps_io_read_bytes = None,
     ps_io_write_bytes = None \<rparr>"

subsection \<open>Ancestry\<close>

text \<open>The process \<open>k\<close> steps up the parent map.\<close>

fun up :: "(u32 \<rightharpoonup> u32) \<Rightarrow> nat \<Rightarrow> u32 \<Rightarrow> u32 option" where
  "up parents 0 pid = Some pid"
| "up parents (Suc k) pid = (case parents pid of None \<Rightarrow> None | Some p \<Rightarrow> up parents k p)"

definition names_above :: "(u32 \<rightharpoonup> string) \<Rightarrow> (u32 \<rightharpoonup> u32) \<Rightarrow> nat \<Rightarrow> u32 \<Rightarrow> string set" where
  "names_above names parents n pid =
     {m. \<exists>k < n. Option.bind (up parents (Suc k) pid) names = Some m}"

text \<open>What the loop knows of the processes it has seen: their parents were recorded, and are
  seen too or are the current process.\<close>

definition seen_closed ::
  "(u32 \<rightharpoonup> string) \<Rightarrow> (u32 \<rightharpoonup> u32) \<Rightarrow> u32 \<Rightarrow> u32 set \<Rightarrow> string set \<Rightarrow> bool" where
  "seen_closed names parents current seen acc \<longleftrightarrow>
     (\<forall>x \<in> seen. \<exists>p. parents x = Some p \<and> p \<in> insert current seen \<and> (\<forall>m. names p = Some m \<longrightarrow> m \<in> acc))"

lemma seen_closed_up:
  assumes "seen_closed names parents current seen acc" and "current \<in> seen"
  shows "x \<in> seen \<Longrightarrow> up parents (Suc k) x = Some q \<Longrightarrow> names q = Some m \<Longrightarrow> m \<in> acc"
proof (induction k arbitrary: x)
  case 0
  with assms show ?case by (fastforce simp: seen_closed_def)
next
  case (Suc k)
  then obtain p where "parents x = Some p" "p \<in> seen"
    using assms by (fastforce simp: seen_closed_def)
  with Suc show ?case by simp
qed

lemma names_above_Suc:
  "names_above names parents (Suc n) pid = (case parents pid of
      None \<Rightarrow> {}
    | Some p \<Rightarrow> {m. names p = Some m} \<union> names_above names parents n p)"
  by (auto simp: names_above_def Ex_less_Suc2 split: option.splits)

lemma ancestors_loop_eq:
  "seen_closed names parents current seen acc \<Longrightarrow>
     ancestors_loop names parents n current seen acc = acc \<union> names_above names parents n current"
proof (induction names parents n current seen acc rule: ancestors_loop.induct)
  case (1 names parents current seen acc)
  then show ?case by (simp add: names_above_def)
next
  case (2 names parents n current seen acc)
  show ?case
  proof (cases "current \<in> seen")
    case True
    have "names_above names parents (Suc n) current \<subseteq> acc"
      using seen_closed_up [OF 2(2) True True]
      by (auto simp: names_above_def bind_eq_Some_conv simp del: up.simps)
    with True show ?thesis by auto
  next
    case False
    show ?thesis
    proof (cases "parents current")
      case None
      with False show ?thesis by (simp add: names_above_Suc)
    next
      case (Some p)
      let ?acc = "case names p of Some name \<Rightarrow> insert name acc | None \<Rightarrow> acc"
      have "seen_closed names parents p (insert current seen) ?acc"
        using 2(2) Some unfolding seen_closed_def by (fastforce split: option.split)
      with 2(1) [OF False Some] False Some show ?thesis
        by (auto simp: names_above_Suc split: option.splits)
    qed
  qed
qed

text \<open>The ancestor walk finds exactly the names of the processes one to sixteen steps up
  the parent map, also when the map has cycles: stopping at an already seen process loses
  nothing.\<close>

theorem ancestor_names_exact:
  "ancestor_names pid names parents = names_above names parents 16 pid"
  unfolding ancestor_names_def by (simp add: ancestors_loop_eq seen_closed_def)

subsection \<open>Paths and identities\<close>

definition clean_part :: "string \<Rightarrow> bool" where
  "clean_part p \<longleftrightarrow> p \<noteq> [] \<and> p \<noteq> ''.'' \<and> p \<noteq> ''..'' \<and> CHR ''/'' \<notin> set p"

lemma path_push_None: "foldl path_push None ps = None"
  by (induction ps) auto

lemma path_push_clean:
  "foldl path_push (Some parts) ps = Some out \<Longrightarrow> \<forall>p \<in> set parts. clean_part p \<Longrightarrow>
     \<forall>p \<in> set ps. CHR ''/'' \<notin> set p \<Longrightarrow> \<forall>p \<in> set out. clean_part p"
proof (induction ps arbitrary: parts)
  case (Cons p ps)
  show ?case
  proof (cases "path_push (Some parts) p")
    case None
    with Cons.prems show ?thesis by (simp add: path_push_None del: path_push.simps)
  next
    case (Some parts')
    moreover have "p \<noteq> [] \<Longrightarrow> p \<noteq> ''.'' \<Longrightarrow> p \<noteq> ''..'' \<Longrightarrow> clean_part p"
      using Cons.prems(3) by (simp add: clean_part_def)
    ultimately have "\<forall>p \<in> set parts'. clean_part p"
      using Cons.prems(2) by (auto split: if_splits dest: in_set_butlastD)
    with Cons Some show ?thesis by (simp del: path_push.simps)
  qed
qed simp

lemma normalize_clean:
  assumes "normalize_linux_executable_path raw = Some p"
  shows "\<exists>parts. parts \<noteq> [] \<and> p = CHR ''/'' # join ''/'' parts \<and> (\<forall>q \<in> set parts. clean_part q)"
  using assms
  by (auto simp: normalize_linux_executable_path_def Let_def split: if_splits option.splits
      dest!: path_push_clean dest: split_on_no_sep)

lemma split_normalized:
  assumes "parts \<noteq> []" and "\<forall>q \<in> set parts. clean_part q"
  shows "split_on CHR ''/'' (CHR ''/'' # join ''/'' parts) = [] # parts"
  using assms split_on_join [of parts "CHR ''/''"] by (simp add: clean_part_def)

text \<open>A normalized executable path is absolute and has no empty, \<open>.\<close> or \<open>..\<close>
  component: splitting it at the slashes gives back an empty root and the clean components.\<close>

theorem normalize_path_clean:
  assumes "normalize_linux_executable_path raw = Some p"
  shows "\<exists>parts. parts \<noteq> [] \<and> split_on CHR ''/'' p = [] # parts \<and>
     list_all (\<lambda>q. q \<noteq> [] \<and> q \<noteq> ''.'' \<and> q \<noteq> ''..'') parts"
proof -
  obtain parts where parts: "parts \<noteq> []" "p = CHR ''/'' # join ''/'' parts" "\<forall>q \<in> set parts. clean_part q"
    using normalize_clean [OF assms] by blast
  with split_normalized [of parts] show ?thesis
    by (auto simp: list_all_iff clean_part_def)
qed

theorem normalize_path_clean_witness:
  "\<exists>parts. parts \<noteq> [] \<and> split_on CHR ''/'' ''/usr/bin/foo'' = [] # parts \<and>
     list_all (\<lambda>q. q \<noteq> [] \<and> q \<noteq> ''.'' \<and> q \<noteq> ''..'') parts"
proof -
  have "normalize_linux_executable_path '' /usr/lib/.././/bin/foo (deleted)'' = Some ''/usr/bin/foo''"
    by code_simp
  then show ?thesis by (rule normalize_path_clean)
qed

lemma ascii_lower_slash: "CHR ''/'' = ascii_lower c \<Longrightarrow> c = CHR ''/''"
proof -
  assume eq: "CHR ''/'' = ascii_lower c"
  show ?thesis
  proof (cases "is_ascii_upper c")
    case True
    then have "(of_char (ascii_lower c) :: nat) = of_char c + 32"
      by (simp add: ascii_lower_def is_ascii_upper_def Let_def)
    moreover have "(of_char CHR ''/'' :: nat) = 47" by simp
    ultimately have "(of_char c :: nat) + 32 = 47" by (simp only: eq)
    with True show ?thesis by (simp add: is_ascii_upper_def Let_def)
  qed (use eq in \<open>simp add: ascii_lower_def\<close>)
qed

text \<open>Executables outside the system directories are shown by their base name only: the
  display name of a process with a resolvable path is the path itself when it is under one of
  the system prefixes, and otherwise \<open>private:\<close> followed by the lower-case last component,
  which contains no slash, so no directory of a user is disclosed.\<close>

theorem stable_identity_private:
  assumes "ps_executable sample = Some raw" and "normalize_linux_executable_path raw = Some path"
    and "\<not> is_safe_system_path path"
  shows "\<exists>base. fst (stable_identity digest_hex sample fallback) = ''private:'' @ base \<and>
     base \<noteq> [] \<and> CHR ''/'' \<notin> set base"
proof -
  obtain parts where parts: "parts \<noteq> []" "path = CHR ''/'' # join ''/'' parts" "\<forall>q \<in> set parts. clean_part q"
    using normalize_clean [OF assms(2)] by blast
  have "split_on CHR ''/'' path = [] # parts"
    unfolding parts(2) by (rule split_normalized [OF parts(1,3)])
  then have last: "last (split_on CHR ''/'' path) = last parts" using parts(1) by simp
  have clean: "clean_part (last parts)" using parts by simp
  have "CHR ''/'' \<notin> set (to_ascii_lowercase (last parts))"
    using clean by (auto simp: to_ascii_lowercase_def clean_part_def dest: ascii_lower_slash)
  then show ?thesis
    using assms last clean by (simp add: stable_identity_def Let_def clean_part_def)
qed

theorem stable_identity_private_witness:
  "\<exists>base. fst (stable_identity (\<lambda>s. s) (blank_sample\<lparr> ps_executable := Some ''/home/u/Tool'' \<rparr>) ''x'') = ''private:'' @ base \<and>
     base \<noteq> [] \<and> CHR ''/'' \<notin> set base"
proof -
  have "normalize_linux_executable_path ''/home/u/Tool'' = Some ''/home/u/Tool''" by code_simp
  moreover have "\<not> is_safe_system_path ''/home/u/Tool''" by code_simp
  ultimately show ?thesis
    using stable_identity_private [of "blank_sample\<lparr> ps_executable := Some ''/home/u/Tool'' \<rparr>" "''/home/u/Tool''" "''/home/u/Tool''"]
    by simp
qed

subsection \<open>Cold candidates and confidences\<close>

lemma category_of_Background:
  "fst (category_of name critical is_game score) = CatBackground \<Longrightarrow>
     name \<in> set BACKGROUND \<and> \<not> critical \<and> \<not> is_game"
  by (auto simp: category_of_def split: if_splits)

lemma foreground_Background:
  "fst (foreground_state_of sample g) = FgBackground \<Longrightarrow>
     \<not> g \<and> (\<exists>tty grp fg. ps_tty_nr sample = Some tty \<and> ps_process_group_id sample = Some grp \<and>
       ps_foreground_process_group_id sample = Some fg \<and> 0 < tty \<and> 0 < fg \<and> grp \<noteq> fg)"
  by (auto simp: foreground_state_of_def split: if_splits option.splits)

text \<open>The fields of a classification, by the quantities they are computed from.\<close>

lemma classify_one_fields:
  fixes digest_hex sample config names parents
  defines "name \<equiv> normalized_name sample"
    and "ancestors \<equiv> ancestor_names (ps_pid sample) names parents"
    and "c \<equiv> classify_one digest_hex sample config names parents"
  defines "score \<equiv> fst (game_evidence sample config name ancestors)"
    and "critical \<equiv> is_critical_name config name"
  defines "game \<equiv> name \<noteq> [] \<and> f64_ge score (cls_minimum_confidence config)"
  shows "pc_sample c = sample"
    and "pc_is_game c = game" and "pc_is_critical c = critical"
    and "pc_confidence c = snd (category_of name critical game score)"
    and "pc_category c = (if \<not> critical \<and> f64_lt (pc_confidence c) (cls_minimum_confidence config)
           then CatUnknown else fst (category_of name critical game score))"
    and "pc_foreground c = fst (foreground_state_of sample (''gamescope'' \<in> ancestors \<and> game))"
    and "pc_protected c \<longleftrightarrow> name = [] \<or> pc_category c = CatUnknown \<or> critical \<or> game \<or>
           contains_name (cls_protected_executables config) name \<or> pc_foreground c = FgForeground"
    and "pc_cold_candidate c \<longleftrightarrow> pc_category c = CatBackground \<and> pc_foreground c = FgBackground \<and>
           f64_ge (pc_confidence c) (cls_minimum_confidence config) \<and> \<not> pc_protected c \<and> \<not> game \<and> \<not> critical"
  by (simp_all only: classify_one_def Let_def split_beta name_def ancestors_def c_def score_def
      critical_def game_def process_classification.select_convs not_not)

text \<open>C29. Only a positively identified background process can become a cold candidate: it is
  on the built-in background list, it runs on a terminal behind another foreground group, it is
  neither critical nor configured as critical or protected, no game, and not marked protected.\<close>

theorem cold_candidate_safe:
  assumes "pc_cold_candidate (classify_one digest_hex sample config names parents)"
  shows "normalized_name sample \<in> set BACKGROUND \<and>
     \<not> contains_name (cls_critical_executables config) (normalized_name sample) \<and>
     \<not> contains_name (cls_protected_executables config) (normalized_name sample) \<and>
     normalized_name sample \<notin> set CRITICAL \<and>
     \<not> pc_protected (classify_one digest_hex sample config names parents) \<and>
     \<not> pc_is_game (classify_one digest_hex sample config names parents) \<and>
     (\<exists>tty grp fg. ps_tty_nr sample = Some tty \<and> ps_process_group_id sample = Some grp \<and>
       ps_foreground_process_group_id sample = Some fg \<and> 0 < tty \<and> 0 < fg \<and> grp \<noteq> fg)"
proof -
  note f = classify_one_fields [of digest_hex sample config names parents]
  from assms have cat: "pc_category (classify_one digest_hex sample config names parents) = CatBackground"
    and fg: "pc_foreground (classify_one digest_hex sample config names parents) = FgBackground"
    and np: "\<not> pc_protected (classify_one digest_hex sample config names parents)"
    unfolding f(8) by blast+
  from cat have "normalized_name sample \<in> set BACKGROUND \<and> \<not> is_critical_name config (normalized_name sample)"
    unfolding f(5) by (auto split: if_splits dest: category_of_Background)
  moreover have "\<not> contains_name (cls_protected_executables config) (normalized_name sample)"
    and "\<not> pc_is_game (classify_one digest_hex sample config names parents)"
    using np unfolding f(7) f(2) by auto
  ultimately show ?thesis
    using foreground_Background [OF fg [unfolded f(6)]] np by (auto simp: is_critical_name_def)
qed

text \<open>A background indexer on a terminal.\<close>

definition updatedb_sample :: process_sample where
  "updatedb_sample = blank_sample\<lparr> ps_executable_name := Some ''updatedb'', ps_tty_nr := Some 1,
     ps_process_group_id := Some 5, ps_foreground_process_group_id := Some 6 \<rparr>"

theorem cold_candidate_safe_witness:
  "normalized_name updatedb_sample \<in> set BACKGROUND \<and>
   \<not> pc_protected (classify_one (\<lambda>s. s) updatedb_sample (classification default_config) Map.empty Map.empty)"
proof -
  let ?cfg = "classification default_config"
  have n: "normalized_name updatedb_sample = ''updatedb''" by code_simp
  have a: "ancestor_names (ps_pid updatedb_sample) Map.empty Map.empty = {}"
    by (simp add: ancestor_names_def numeral_eq_Suc)
  have cg: "\<not> steam_app_cgroup updatedb_sample" by code_simp
  have nb: "\<not> is_browser ''updatedb''" "\<not> is_proton_or_wine ''updatedb''" "\<not> is_development ''updatedb''"
    "\<not> is_virtualization ''updatedb''" by (code_simp, code_simp, code_simp, code_simp)
  have g: "game_evidence updatedb_sample ?cfg ''updatedb'' {} = (Fin 0, [])"
    using cg nb by (simp add: game_evidence_def f64_min_def contains_name_def default_config_def)
  have k: "\<not> is_critical_name ?cfg ''updatedb''"
    by (simp add: is_critical_name_def contains_name_def default_config_def CRITICAL_def)
  have c: "category_of ''updatedb'' False False (Fin 0) = (CatBackground, lit (17 / 20))"
    using nb by (simp add: category_of_def BACKGROUND_def)
  have fg: "foreground_state_of updatedb_sample False = (FgBackground, lit (19 / 20))"
    by (simp add: foreground_state_of_def updatedb_sample_def blank_sample_def)
  have m: "cls_minimum_confidence ?cfg = lit (13 / 20)" and p: "cls_protected_executables ?cfg = []"
    by (simp_all add: default_config_def)
  have "pc_cold_candidate (classify_one (\<lambda>s. s) updatedb_sample ?cfg Map.empty Map.empty)"
    by (simp add: classify_one_fields n a g k c fg m p lit_simps contains_name_def)
  from cold_candidate_safe [OF this] show ?thesis by blast
qed

text \<open>Confidences stay between 0 and 1, whatever the evidence adds up to.\<close>

lemma lit_within_0:
  "f64_within 0 (lit (19 / 20))" "f64_within 0 (lit (13 / 20))" "f64_within 0 (lit (1 / 5))"
  "f64_within 0 (lit (4 / 5))" "f64_within 0 (lit (49 / 50))" "f64_within 0 (lit (9 / 10))"
  "f64_within 0 (lit (22 / 25))" "f64_within 0 (lit (17 / 20))" "f64_within 0 (lit (1 / 4))"
  "f64_within 0 (lit (23 / 25))" "f64_within 0 (lit (41 / 50))" "f64_within 0 (lit (3 / 4))"
  "f64_within 0 (Fin 0)" "f64_within 0 (Fin 1)"
  by (simp_all add: lit_simps)

lemma add_if_within:
  assumes "f64_within j a" and "f64_within 0 b" and "j < 1020"
  shows "f64_within (j + 2) (if c then f64_add a b else a)"
  using f64_add_within [OF assms(1,2)] assms(3) f64_within_mono [OF assms(1), of "j + 2"] by simp

lemma game_score_within: "f64_within 0 (fst (game_evidence sample config name ancestors))"
proof -
  have s1: "f64_within 0 (if c then f64_max (Fin 0) (lit (19 / 20)) else Fin 0)" for c
    by (simp add: lit_within_0 f64_max_within)
  show ?thesis
    unfolding game_evidence_def Let_def fst_conv
    by (rule f64_min_1_within [of "0 + 2 + 2 + 2 + 2"], intro add_if_within s1 lit_within_0) simp_all
qed

lemma category_confidence_within:
  "f64_within 0 score \<Longrightarrow> f64_within 0 (snd (category_of name critical game score))"
  by (simp add: category_of_def lit_within_0)

lemma process_confidence_within:
  "f64_within 0 (pc_confidence (classify_one digest_hex sample config names parents))"
  unfolding classify_one_fields(4) by (intro category_confidence_within game_score_within)

end
