(* ===== verification/Effects.thy ===== *)
theory Effects
  imports Prelude
begin

text \<open>
  Fallible computations over a mutable world: a computation returns \<open>Ok\<close> or \<open>Err\<close> and the world
  it leaves behind, also when it fails. \<open>bindA\<close> is the \<open>?\<close> operator of the source, \<open>catchA\<close> an
  error path that goes on. The actuator and the zram transaction are written with these.
  The second half has the rules by which invariants of the world pass through a computation.
\<close>

type_synonym ('e, 'w, 'a) eff = "'w \<Rightarrow> ('e, 'a) result \<times> 'w"

definition ret :: "'a \<Rightarrow> ('e, 'w, 'a) eff" where
  "ret x w = (Ok x, w)"

definition throw :: "'e \<Rightarrow> ('e, 'w, 'a) eff" where
  "throw e w = (Err e, w)"

definition bindA :: "('e, 'w, 'a) eff \<Rightarrow> ('a \<Rightarrow> ('e, 'w, 'c) eff) \<Rightarrow> ('e, 'w, 'c) eff" where
  "bindA m f w = (case m w of (Inl e, w') \<Rightarrow> (Err e, w') | (Inr x, w') \<Rightarrow> f x w')"

definition catchA :: "('e, 'w, 'a) eff \<Rightarrow> ('e \<Rightarrow> ('e, 'w, 'a) eff) \<Rightarrow> ('e, 'w, 'a) eff" where
  "catchA m h w = (case m w of (Inl e, w') \<Rightarrow> h e w' | (Inr x, w') \<Rightarrow> (Ok x, w'))"

definition whenA :: "bool \<Rightarrow> ('e, 'w, unit) eff \<Rightarrow> ('e, 'w, unit) eff" where
  "whenA c m = (if c then m else ret ())"

text \<open>Parts of the world: reading and running on the first and on the second component.\<close>

definition b_read :: "('b \<Rightarrow> ('e, 'a) result) \<Rightarrow> ('e, 'b \<times> 's, 'a) eff" where
  "b_read f w = (f (fst w), w)"

definition b_op :: "('e, 'b, 'a) eff \<Rightarrow> ('e, 'b \<times> 's, 'a) eff" where
  "b_op f w = (case f (fst w) of (r, b) \<Rightarrow> (r, (b, snd w)))"

definition s_op :: "('e, 's, 'a) eff \<Rightarrow> ('e, 'b \<times> 's, 'a) eff" where
  "s_op f w = (case f (snd w) of (r, s) \<Rightarrow> (r, (fst w, s)))"

definition s_modify :: "('s \<Rightarrow> 's) \<Rightarrow> ('e, 'b \<times> 's, unit) eff" where
  "s_modify f w = (Ok (), (fst w, f (snd w)))"

definition s_get :: "('s \<Rightarrow> 'a) \<Rightarrow> ('e, 'b \<times> 's, 'a) eff" where
  "s_get f w = (Ok (f (snd w)), w)"

subsection \<open>Inversion\<close>

lemma ret_eq [simp]: "ret x w = (r, w') \<longleftrightarrow> r = Ok x \<and> w' = w"
  by (auto simp: ret_def)

lemma throw_eq [simp]: "throw e w = (r, w') \<longleftrightarrow> r = Err e \<and> w' = w"
  by (auto simp: throw_def)

lemma bindA_Ok: "bindA m f w = (Ok y, w') \<longleftrightarrow> (\<exists>x w1. m w = (Ok x, w1) \<and> f x w1 = (Ok y, w'))"
  by (auto simp: bindA_def split: prod.splits sum.splits)

lemma bindA_run: "m w = (Ok x, w1) \<Longrightarrow> bindA m f w = f x w1"
  by (simp add: bindA_def)

lemma bindA_Err: "m w = (Err e, w1) \<Longrightarrow> bindA m f w = (Err e, w1)"
  by (simp add: bindA_def)

lemma catchA_Ok: "catchA m h w = (Ok x, w') \<longleftrightarrow>
    m w = (Ok x, w') \<or> (\<exists>e w1. m w = (Err e, w1) \<and> h e w1 = (Ok x, w'))"
  by (auto simp: catchA_def split: prod.splits sum.splits)

lemma b_read_eq [simp]: "b_read f w = (r, w') \<longleftrightarrow> f (fst w) = r \<and> w' = w"
  by (auto simp: b_read_def)

lemma b_op_eq: "b_op f w = (r, w') \<longleftrightarrow> f (fst w) = (r, fst w') \<and> snd w' = snd w"
  by (cases w, cases w') (auto simp: b_op_def split: prod.splits)

lemma s_op_eq: "s_op f w = (r, w') \<longleftrightarrow> f (snd w) = (r, snd w') \<and> fst w' = fst w"
  by (cases w, cases w') (auto simp: s_op_def split: prod.splits)

lemma s_modify_eq [simp]: "s_modify f w = (r, w') \<longleftrightarrow> r = Ok () \<and> w' = (fst w, f (snd w))"
  by (auto simp: s_modify_def)

lemma s_get_eq [simp]: "s_get f w = (r, w') \<longleftrightarrow> r = Ok (f (snd w)) \<and> w' = w"
  by (auto simp: s_get_def)

subsection \<open>Invariants of the world\<close>

text \<open>\<open>triple P m Q E\<close>: from a world in \<open>P\<close>, the computation ends with a result and a world in
  \<open>Q\<close>, or fails with a world in \<open>E\<close>. Failing is a visible outcome, so the judgement is total.\<close>

definition triple :: "('w \<Rightarrow> bool) \<Rightarrow> ('e, 'w, 'a) eff \<Rightarrow> ('a \<Rightarrow> 'w \<Rightarrow> bool) \<Rightarrow> ('w \<Rightarrow> bool) \<Rightarrow> bool" where
  "triple P m Q E \<longleftrightarrow> (\<forall>w. P w \<longrightarrow> (case m w of (Inl _, w') \<Rightarrow> E w' | (Inr x, w') \<Rightarrow> Q x w'))"

lemma tripleI:
  assumes "\<And>w x w'. P w \<Longrightarrow> m w = (Ok x, w') \<Longrightarrow> Q x w'" and "\<And>w e w'. P w \<Longrightarrow> m w = (Err e, w') \<Longrightarrow> E w'"
  shows "triple P m Q E"
  using assms by (auto simp: triple_def split: prod.split sum.split)

lemma triple_Ok: "triple P m Q E \<Longrightarrow> P w \<Longrightarrow> m w = (Ok x, w') \<Longrightarrow> Q x w'"
  by (auto simp: triple_def dest: spec [of _ w])

lemma triple_Err: "triple P m Q E \<Longrightarrow> P w \<Longrightarrow> m w = (Err e, w') \<Longrightarrow> E w'"
  by (auto simp: triple_def dest: spec [of _ w])

lemma triple_bind:
  assumes "triple P m R E" and "\<And>x. triple (R x) (f x) Q E"
  shows "triple P (bindA m f) Q E"
  using assms by (fastforce simp: triple_def bindA_def split: prod.splits sum.splits)

lemma triple_ret: "(\<And>w. P w \<Longrightarrow> Q x w) \<Longrightarrow> triple P (ret x) Q E"
  by (simp add: triple_def ret_def)

lemma triple_throw: "(\<And>w. P w \<Longrightarrow> E w) \<Longrightarrow> triple P (throw e) Q E"
  by (simp add: triple_def throw_def)

lemma triple_if:
  assumes "c \<Longrightarrow> triple P m Q E" and "\<not> c \<Longrightarrow> triple P n Q E"
  shows "triple P (if c then m else n) Q E"
  using assms by simp

lemma triple_when:
  assumes "c \<Longrightarrow> triple P m Q E" and "\<And>w. \<not> c \<Longrightarrow> P w \<Longrightarrow> Q () w"
  shows "triple P (whenA c m) Q E"
  using assms by (auto simp: whenA_def intro: triple_ret)

lemma triple_conseq:
  assumes "triple P' m Q' E'" and "\<And>w. P w \<Longrightarrow> P' w" and "\<And>x w. Q' x w \<Longrightarrow> Q x w" and "\<And>w. E' w \<Longrightarrow> E w"
  shows "triple P m Q E"
  using assms by (fastforce simp: triple_def split: prod.splits sum.splits)

end
