(* ===== verification/Actuator.thy ===== *)
theory Actuator
  imports Classifier Effects Host
begin

text \<open>
  The cgroup actuator (\<open>crates/actuator/src/lib.rs\<close>). \<open>plan\<close> decides what to do with one
  process; \<open>apply_one\<close> carries a plan out against a backend and a snapshot store,
  \<open>rollback_one\<close> undoes it and \<open>recover\<close> undoes everything pending. The traits
  \<open>CgroupBackend\<close> and \<open>SnapshotStore\<close> are records of operations on an abstract state, and the
  operations above are defined for every such record, as the generic functions of the source
  are. \<open>MemorySnapshotStore\<close>, \<open>LinuxCgroupBackend\<close> and \<open>FakeCgroupBackend\<close> are the
  implementations. The Linux backend works on a file system given as another record of
  operations, since the kernel's cgroup file system is not part of the repository.
\<close>

subsection \<open>Data\<close>

definition FOREGROUND_GROUP :: string where
  "FOREGROUND_GROUP = ''nemor-foreground.slice''"

definition BACKGROUND_GROUP :: string where
  "BACKGROUND_GROUP = ''nemor-background.slice''"

record cgroup_capabilities =
  cap_cgroup_v2 :: bool
  cap_memory_controller :: bool
  cap_hierarchy :: string
  cap_writable :: bool
  cap_memory_low :: bool
  cap_memory_high :: bool
  cap_attach :: bool

definition mutation_ready :: "cgroup_capabilities \<Rightarrow> bool" where
  "mutation_ready c \<longleftrightarrow> cap_cgroup_v2 c \<and> cap_memory_controller c \<and> cap_writable c \<and>
     cap_memory_low c \<and> cap_memory_high c \<and> cap_attach c"

datatype backend_kind = LinuxCgroupfs | Simulated

record group_state =
  gs_name :: string
  gs_path :: string
  gs_owned_by_nemor :: bool
  gs_memory_low :: "u64 option"
  gs_memory_high :: "u64 option"
  gs_pids :: "u32 set"

record requested_properties =
  rp_memory_low :: "u64 option"
  rp_memory_high :: "u64 option"

record cgroup_plan =
  pl_process_catalog_id :: i64
  pl_identity :: string
  pl_pid :: u32
  pl_start_time_ticks :: u64
  pl_source_group :: string
  pl_target_group :: string
  pl_properties :: requested_properties
  pl_reason :: string
  pl_allowed :: bool
  pl_block_reasons :: "string list"
  pl_dry_run :: bool

record plan_input =
  pin_process_catalog_id :: i64
  pin_identity :: string
  pin_current_start_time_ticks :: "u64 option"
  pin_source_group :: string
  pin_classification :: process_classification
  pin_total_ram_bytes :: u64
  pin_protected_workload_bytes :: u64

record mutation_snapshot =
  sn_id :: u64
  sn_session_id :: i64
  sn_timestamp_ns :: i64
  sn_process_catalog_id :: i64
  sn_identity :: string
  sn_pid :: u32
  sn_start_time_ticks :: u64
  sn_original_group :: string
  sn_target_group :: string
  sn_original_properties :: requested_properties
  sn_requested_properties :: requested_properties
  sn_reason :: string
  sn_applied :: bool
  sn_verified :: bool
  sn_rolled_back :: bool
  sn_last_error :: "string option"

datatype actuator_error =
  Capability string
| Blocked string
| Backend string io_error
| Verification string
| Persistence string

fun show_actuator_error :: "actuator_error \<Rightarrow> string" where
  "show_actuator_error (Capability m) = ''cgroup capability unavailable: '' @ m"
| "show_actuator_error (Blocked m) = ''mutation is blocked: '' @ m"
| "show_actuator_error (Backend operation source) =
     ''backend operation `'' @ operation @ ''` failed: '' @ io_text source"
| "show_actuator_error (Verification m) = ''verification failed: '' @ m"
| "show_actuator_error (Persistence m) = ''snapshot persistence failed: '' @ m"

type_synonym 'a act_result = "(actuator_error, 'a) result"

subsection \<open>The two traits\<close>

record 'b cgroup_backend =
  be_kind :: "'b \<Rightarrow> backend_kind"
  be_capabilities :: "'b \<Rightarrow> cgroup_capabilities act_result"
  be_inspect_group :: "'b \<Rightarrow> string \<Rightarrow> group_state option act_result"
  be_create_managed_group :: "string \<Rightarrow> 'b \<Rightarrow> group_state act_result \<times> 'b"
  be_set_properties :: "string \<Rightarrow> requested_properties \<Rightarrow> 'b \<Rightarrow> unit act_result \<times> 'b"
  be_attach_pid :: "string \<Rightarrow> u32 \<Rightarrow> 'b \<Rightarrow> unit act_result \<times> 'b"
  be_process_start_time :: "'b \<Rightarrow> u32 \<Rightarrow> u64 option act_result"
  be_process_group :: "'b \<Rightarrow> u32 \<Rightarrow> string option act_result"
  be_cleanup_empty_owned_group :: "string \<Rightarrow> 'b \<Rightarrow> unit act_result \<times> 'b"

record 's snapshot_store =
  st_persist :: "mutation_snapshot \<Rightarrow> 's \<Rightarrow> u64 act_result \<times> 's"
  st_update :: "mutation_snapshot \<Rightarrow> 's \<Rightarrow> unit act_result \<times> 's"
  st_pending :: "'s \<Rightarrow> mutation_snapshot list act_result"
  st_record_managed_group :: "string \<Rightarrow> i64 \<Rightarrow> backend_kind \<Rightarrow> 's \<Rightarrow> unit act_result \<times> 's"
  st_remove_managed_group :: "string \<Rightarrow> 's \<Rightarrow> unit act_result \<times> 's"

subsection \<open>Limits and plan\<close>

definition percent :: "u64 \<Rightarrow> u8 \<Rightarrow> u64" where
  "percent total_bytes v = sat_mul total_bytes (ucast v) div 100"

definition memory_low_bytes :: "u64 \<Rightarrow> u64 \<Rightarrow> cgroups_config \<Rightarrow> u64 option" where
  "memory_low_bytes total_ram workload config =
     clamp (sat_add workload (percent total_ram (cg_minimum_headroom_percent config)))
       (percent total_ram (cg_foreground_min_percent config))
       (percent total_ram (cg_foreground_max_percent config))"

definition memory_high_bytes :: "u64 \<Rightarrow> u64 \<Rightarrow> cgroups_config \<Rightarrow> u64 option" where
  "memory_high_bytes total_ram protected_low config =
     clamp (sat_sub (sat_sub total_ram protected_low)
              (percent total_ram (cg_minimum_headroom_percent config)))
       (percent total_ram (cg_background_high_min_percent config))
       (percent total_ram (cg_background_high_max_percent config))"

definition protected_target :: "process_classification \<Rightarrow> bool" where
  "protected_target p \<longleftrightarrow> pc_is_game p \<or> pc_is_critical p \<or> pc_protected p \<or> pc_foreground p = FgForeground"

definition plan_blocks :: "plan_input \<Rightarrow> cgroups_config \<Rightarrow> (bool \<times> string) list" where
  "plan_blocks input config = (let process = pin_classification input in
     [(length (pin_identity input) \<noteq> 64, ''invalid_identity''),
      (pin_identity input \<notin> set (cg_allowed_identities config), ''identity_not_allow_listed''),
      (pin_current_start_time_ticks input \<noteq> Some (unwrap_or 0 (ps_start_time_ticks (pc_sample process))),
         ''pid_starttime_mismatch''),
      (pc_category process = CatUnknown, ''unknown_process''),
      (\<not> protected_target process \<and> pc_foreground process \<noteq> FgBackground, ''not_confirmed_background''),
      (\<not> cg_allow_move config, ''pid_migration_disabled'')])"

definition plan_dry_run :: "cgroups_config \<Rightarrow> string \<Rightarrow> bool" where
  "plan_dry_run config mode \<longleftrightarrow> mode = ''observe'' \<or> cg_dry_run config \<or> \<not> cg_enabled config"

text \<open>The target group, the properties and the reason; \<open>None\<close> when a \<open>clamp\<close> panics.\<close>

definition plan_target :: "plan_input \<Rightarrow> cgroups_config \<Rightarrow> (string \<times> requested_properties \<times> string) option" where
  "plan_target input config =
     Option.bind (memory_low_bytes (pin_total_ram_bytes input) (pin_protected_workload_bytes input) config)
       (\<lambda>low. if protected_target (pin_classification input)
         then Some (FOREGROUND_GROUP, \<lparr> rp_memory_low = Some low, rp_memory_high = None \<rparr>,
                    ''dynamic_foreground_protection'')
         else map_option (\<lambda>high. (BACKGROUND_GROUP, \<lparr> rp_memory_low = None, rp_memory_high = Some high \<rparr>,
                    ''conservative_background_soft_limit''))
                (memory_high_bytes (pin_total_ram_bytes input) low config))"

definition plan :: "plan_input \<Rightarrow> cgroups_config \<Rightarrow> string \<Rightarrow> cgroup_plan option" where
  "plan input config mode = map_option (\<lambda>(target_group, properties, reason).
     \<lparr> pl_process_catalog_id = pin_process_catalog_id input, pl_identity = pin_identity input,
       pl_pid = ps_pid (pc_sample (pin_classification input)),
       pl_start_time_ticks = unwrap_or 0 (ps_start_time_ticks (pc_sample (pin_classification input))),
       pl_source_group = pin_source_group input, pl_target_group = target_group,
       pl_properties = properties, pl_reason = reason,
       pl_allowed = (fired (plan_blocks input config) = []),
       pl_block_reasons = fired (plan_blocks input config),
       pl_dry_run = plan_dry_run config mode \<rparr>) (plan_target input config)"

definition is_managed_name :: "string \<Rightarrow> bool" where
  "is_managed_name name \<longleftrightarrow> name = FOREGROUND_GROUP \<or> name = BACKGROUND_GROUP \<or>
     ((starts_with name ''nemor-test-'' \<or> starts_with name ''nemor-validation-'') \<and>
      ends_with name ''.scope'' \<and>
      list_all (\<lambda>c. is_ascii_alnum c \<or> c \<in> set ''._-'') name)"

subsection \<open>Computations over a backend and a store\<close>

type_synonym ('w, 'a) act = "(actuator_error, 'w, 'a) eff"

subsection \<open>Rollback and recovery\<close>

text \<open>The effect of \<open>rollback_one\<close> on backend and store before the snapshot is marked.\<close>

definition rollback_placement ::
  "'b cgroup_backend \<Rightarrow> mutation_snapshot \<Rightarrow> ('b \<times> 's, unit) act" where
  "rollback_placement B sn =
     bindA (b_read (\<lambda>b. be_process_start_time B b (sn_pid sn))) (\<lambda>start.
     if start \<noteq> Some (sn_start_time_ticks sn) then ret ()
     else bindA (b_read (\<lambda>b. be_process_group B b (sn_pid sn))) (\<lambda>group.
       whenA (group \<noteq> None)
         (bindA (b_read (\<lambda>b. be_inspect_group B b (sn_original_group sn))) (\<lambda>original.
            if original = None
            then throw (Blocked ''original group disappeared; placement left untouched'')
            else b_op (be_attach_pid B (sn_original_group sn) (sn_pid sn))))))"

definition rollback_properties ::
  "'b cgroup_backend \<Rightarrow> 's snapshot_store \<Rightarrow> mutation_snapshot \<Rightarrow> ('b \<times> 's, unit) act" where
  "rollback_properties B S sn =
     bindA (b_read (\<lambda>b. be_inspect_group B b (sn_target_group sn))) (\<lambda>target.
     whenA (target \<noteq> None)
       (bindA (b_op (be_set_properties B (sn_target_group sn) (sn_original_properties sn))) (\<lambda>_.
        bindA (b_op (be_cleanup_empty_owned_group B (sn_target_group sn))) (\<lambda>_.
        bindA (b_read (\<lambda>b. be_inspect_group B b (sn_target_group sn))) (\<lambda>left.
        whenA (left = None) (s_op (st_remove_managed_group S (sn_target_group sn))))))))"

definition rollback_one ::
  "'b cgroup_backend \<Rightarrow> 's snapshot_store \<Rightarrow> mutation_snapshot \<Rightarrow> 'b \<times> 's \<Rightarrow>
     unit act_result \<times> ('b \<times> 's) \<times> mutation_snapshot" where
  "rollback_one B S sn w =
     (if sn_rolled_back sn then (Ok (), w, sn)
      else if \<not> is_managed_name (sn_target_group sn)
      then (Err (Blocked ''refusing rollback of non-Nemor group''), w, sn)
      else case bindA (rollback_placement B sn) (\<lambda>_. rollback_properties B S sn) w of
         (Inl e, w') \<Rightarrow> (Err e, w', sn)
       | (Inr _, w') \<Rightarrow>
          (let sn' = sn\<lparr> sn_rolled_back := True \<rparr>
           in case s_op (st_update S sn') w' of (r, w'') \<Rightarrow> (r, w'', sn')))"

definition rollback_act ::
  "'b cgroup_backend \<Rightarrow> 's snapshot_store \<Rightarrow> mutation_snapshot \<Rightarrow> ('b \<times> 's, unit) act" where
  "rollback_act B S sn w = (case rollback_one B S sn w of (r, w', _) \<Rightarrow> (r, w'))"

fun recover_list ::
  "'b cgroup_backend \<Rightarrow> 's snapshot_store \<Rightarrow> mutation_snapshot list \<Rightarrow> 'b \<times> 's \<Rightarrow>
     unit act_result list \<times> ('b \<times> 's)" where
  "recover_list B S [] w = ([], w)"
| "recover_list B S (sn # sns) w =
     (case rollback_act B S sn w of (r, w') \<Rightarrow>
        case recover_list B S sns w' of (rs, w'') \<Rightarrow> (r # rs, w''))"

definition recover ::
  "'b cgroup_backend \<Rightarrow> 's snapshot_store \<Rightarrow> 'b \<times> 's \<Rightarrow> unit act_result list \<times> ('b \<times> 's)" where
  "recover B S w = (case st_pending S (snd w) of
      Inr pending \<Rightarrow> recover_list B S pending w
    | Inl error \<Rightarrow> ([Err error], w))"

subsection \<open>Applying one plan\<close>

text \<open>The checks before anything is written; the result is the snapshot to persist.\<close>

definition apply_checks ::
  "'b cgroup_backend \<Rightarrow> i64 \<Rightarrow> i64 \<Rightarrow> cgroup_plan \<Rightarrow> ('b \<times> 's, mutation_snapshot) act" where
  "apply_checks B session_id timestamp_ns p =
     (if \<not> pl_allowed p then throw (Blocked (join '','' (pl_block_reasons p)))
      else if \<not> is_managed_name (pl_target_group p) then throw (Blocked ''target is not Nemor-owned'')
      else
       bindA (b_read (be_capabilities B)) (\<lambda>caps.
       if \<not> mutation_ready caps
       then throw (Capability ''complete writable cgroup v2 memory interface required'')
       else
       bindA (b_read (\<lambda>b. be_process_start_time B b (pl_pid p))) (\<lambda>start.
       if start \<noteq> Some (pl_start_time_ticks p) then throw (Blocked ''stale process identity'')
       else
       bindA (b_read (\<lambda>b. rbind (be_process_group B b (pl_pid p)) (ok_or (Blocked ''process terminated''))))
         (\<lambda>original_group.
       bindA (b_read (\<lambda>b. be_inspect_group B b (pl_target_group p))) (\<lambda>state.
         ret \<lparr> sn_id = 0, sn_session_id = session_id, sn_timestamp_ns = timestamp_ns,
               sn_process_catalog_id = pl_process_catalog_id p, sn_identity = pl_identity p,
               sn_pid = pl_pid p, sn_start_time_ticks = pl_start_time_ticks p,
               sn_original_group = original_group, sn_target_group = pl_target_group p,
               sn_original_properties = (case state of
                   None \<Rightarrow> \<lparr> rp_memory_low = None, rp_memory_high = None \<rparr>
                 | Some st \<Rightarrow> \<lparr> rp_memory_low = gs_memory_low st, rp_memory_high = gs_memory_high st \<rparr>),
               sn_requested_properties = pl_properties p, sn_reason = pl_reason p,
               sn_applied = False, sn_verified = False, sn_rolled_back = False, sn_last_error = None \<rparr>)))))"

text \<open>The three error paths that record the error, roll back and fail with it.\<close>

definition fail_rolled_back ::
  "'b cgroup_backend \<Rightarrow> 's snapshot_store \<Rightarrow> mutation_snapshot \<Rightarrow> actuator_error \<Rightarrow> ('b \<times> 's, 'a) act" where
  "fail_rolled_back B S sn e =
     (let sn' = sn\<lparr> sn_last_error := Some (show_actuator_error e) \<rparr> in
      bindA (s_op (st_update S sn')) (\<lambda>_.
      bindA (rollback_act B S sn') (\<lambda>_. throw e)))"

definition ensure_group ::
  "'b cgroup_backend \<Rightarrow> 's snapshot_store \<Rightarrow> i64 \<Rightarrow> string \<Rightarrow> ('b \<times> 's, unit) act" where
  "ensure_group B S session_id name =
     bindA (b_read (\<lambda>b. be_inspect_group B b name)) (\<lambda>state.
     whenA (state = None)
       (bindA (b_op (be_create_managed_group B name)) (\<lambda>_.
        \<lambda>w. s_op (st_record_managed_group S name session_id (be_kind B (fst w))) w)))"

definition apply_verify ::
  "'b cgroup_backend \<Rightarrow> 's snapshot_store \<Rightarrow> cgroup_plan \<Rightarrow> mutation_snapshot \<Rightarrow>
     ('b \<times> 's, mutation_snapshot option) act" where
  "apply_verify B S p sn =
     bindA (b_read (\<lambda>b. rbind (be_inspect_group B b (pl_target_group p))
                          (ok_or (Verification ''target disappeared'')))) (\<lambda>state.
     if pl_pid p \<notin> gs_pids state \<or> gs_memory_low state \<noteq> rp_memory_low (pl_properties p) \<or>
        gs_memory_high state \<noteq> rp_memory_high (pl_properties p)
     then fail_rolled_back B S sn (Verification ''readback differs from request'')
     else let sn' = sn\<lparr> sn_verified := True \<rparr>
          in bindA (s_op (st_update S sn')) (\<lambda>_. ret (Some sn')))"

definition apply_one ::
  "'b cgroup_backend \<Rightarrow> 's snapshot_store \<Rightarrow> i64 \<Rightarrow> i64 \<Rightarrow> cgroup_plan \<Rightarrow>
     ('b \<times> 's, mutation_snapshot option) act" where
  "apply_one B S session_id timestamp_ns p =
     (if pl_dry_run p then ret None
      else
       bindA (apply_checks B session_id timestamp_ns p) (\<lambda>sn0.
       bindA (s_op (st_persist S sn0)) (\<lambda>id.
       let sn = sn0\<lparr> sn_id := id \<rparr> in
       bindA (ensure_group B S session_id (pl_target_group p)) (\<lambda>_.
       bindA (catchA (b_op (be_set_properties B (pl_target_group p) (pl_properties p)))
                (fail_rolled_back B S sn)) (\<lambda>_.
       bindA (catchA (b_op (be_attach_pid B (pl_target_group p) (pl_pid p)))
                (fail_rolled_back B S sn)) (\<lambda>_.
       let sn1 = sn\<lparr> sn_applied := True \<rparr> in
       bindA (s_op (st_update S sn1)) (\<lambda>_. apply_verify B S p sn1)))))))"

subsection \<open>The in-memory snapshot store\<close>

record memory_snapshot_store =
  ms_next_id :: u64
  ms_snapshots :: "(u64 \<times> mutation_snapshot) list"
  ms_managed_groups :: "string set"

definition ms_persist :: "mutation_snapshot \<Rightarrow> memory_snapshot_store \<Rightarrow> u64 act_result \<times> memory_snapshot_store" where
  "ms_persist sn m = (let id = ms_next_id m + 1 in
     (Ok id, m\<lparr> ms_next_id := id, ms_snapshots := bt_insert id (sn\<lparr> sn_id := id \<rparr>) (ms_snapshots m) \<rparr>))"

definition ms_update :: "mutation_snapshot \<Rightarrow> memory_snapshot_store \<Rightarrow> unit act_result \<times> memory_snapshot_store" where
  "ms_update sn m = (if map_of (ms_snapshots m) (sn_id sn) = None
     then (Err (Persistence ''unknown snapshot''), m)
     else (Ok (), m\<lparr> ms_snapshots := bt_insert (sn_id sn) sn (ms_snapshots m) \<rparr>))"

definition ms_pending :: "memory_snapshot_store \<Rightarrow> mutation_snapshot list act_result" where
  "ms_pending m = Ok (filter (\<lambda>sn. sn_applied sn \<and> \<not> sn_rolled_back sn) (bt_values (ms_snapshots m)))"

definition ms_record_managed_group ::
  "string \<Rightarrow> i64 \<Rightarrow> backend_kind \<Rightarrow> memory_snapshot_store \<Rightarrow> unit act_result \<times> memory_snapshot_store" where
  "ms_record_managed_group name session_id kind m =
     (Ok (), m\<lparr> ms_managed_groups := insert name (ms_managed_groups m) \<rparr>)"

definition ms_remove_managed_group ::
  "string \<Rightarrow> memory_snapshot_store \<Rightarrow> unit act_result \<times> memory_snapshot_store" where
  "ms_remove_managed_group name m = (Ok (), m\<lparr> ms_managed_groups := ms_managed_groups m - {name} \<rparr>)"

definition memory_store :: "memory_snapshot_store snapshot_store" where
  "memory_store = \<lparr> st_persist = ms_persist, st_update = ms_update, st_pending = ms_pending,
     st_record_managed_group = ms_record_managed_group, st_remove_managed_group = ms_remove_managed_group \<rparr>"

definition memory_store_default :: memory_snapshot_store where
  "memory_store_default = \<lparr> ms_next_id = 0, ms_snapshots = [], ms_managed_groups = {} \<rparr>"

subsection \<open>Reasoning about computations\<close>

lemma fail_rolled_back_not_Ok [simp]: "fail_rolled_back B S sn e w \<noteq> (Ok y, w')"
  by (auto simp: fail_rolled_back_def Let_def bindA_Ok)

lemma apply_checks_world: "snd (apply_checks B sid ts p w) = w"
  by (simp add: apply_checks_def bindA_def b_read_def ret_def throw_def split: sum.splits)

text \<open>What a successful check phase establishes.\<close>

lemma apply_checks_Ok:
  assumes "apply_checks B sid ts p w = (Ok sn, w')"
  shows "w' = w" and "pl_allowed p" and "is_managed_name (pl_target_group p)"
    and "be_process_start_time B (fst w) (pl_pid p) = Ok (Some (pl_start_time_ticks p))"
    and "be_process_group B (fst w) (pl_pid p) = Ok (Some (sn_original_group sn))"
    and "sn_pid sn = pl_pid p" and "sn_start_time_ticks sn = pl_start_time_ticks p"
    and "sn_target_group sn = pl_target_group p" and "\<not> sn_rolled_back sn" and "\<not> sn_applied sn"
    and "\<exists>state. be_inspect_group B (fst w) (pl_target_group p) = Ok state \<and>
       sn_original_properties sn = (case state of
           None \<Rightarrow> \<lparr> rp_memory_low = None, rp_memory_high = None \<rparr>
         | Some st \<Rightarrow> \<lparr> rp_memory_low = gs_memory_low st, rp_memory_high = gs_memory_high st \<rparr>)"
    and "\<exists>caps. be_capabilities B (fst w) = Ok caps \<and> mutation_ready caps"
  using assms unfolding apply_checks_def by (auto simp: bindA_Ok split: if_splits)

lemma apply_one_Ok:
  assumes "apply_one B S sid ts p w = (Ok (Some sn), w')"
  obtains sn0 id w1 w2 w3 w4 w5 where
    "apply_checks B sid ts p w = (Ok sn0, w)" "st_persist S sn0 (snd w) = (Ok id, snd w1)" "fst w1 = fst w"
    "ensure_group B S sid (pl_target_group p) w1 = (Ok (), w2)"
    "b_op (be_set_properties B (pl_target_group p) (pl_properties p)) w2 = (Ok (), w3)"
    "b_op (be_attach_pid B (pl_target_group p) (pl_pid p)) w3 = (Ok (), w4)"
    "s_op (st_update S (sn0\<lparr> sn_id := id, sn_applied := True \<rparr>)) w4 = (Ok (), w5)"
    "apply_verify B S p (sn0\<lparr> sn_id := id, sn_applied := True \<rparr>) w5 = (Ok (Some sn), w')"
proof -
  have nd: "\<not> pl_dry_run p" using assms by (auto simp: apply_one_def)
  from assms obtain sn0 w0 where c: "apply_checks B sid ts p w = (Ok sn0, w0)"
    and rest: "bindA (s_op (st_persist S sn0)) (\<lambda>id. let sn = sn0\<lparr> sn_id := id \<rparr> in
       bindA (ensure_group B S sid (pl_target_group p)) (\<lambda>_.
       bindA (catchA (b_op (be_set_properties B (pl_target_group p) (pl_properties p)))
                (fail_rolled_back B S sn)) (\<lambda>_.
       bindA (catchA (b_op (be_attach_pid B (pl_target_group p) (pl_pid p)))
                (fail_rolled_back B S sn)) (\<lambda>_.
       let sn1 = sn\<lparr> sn_applied := True \<rparr> in
       bindA (s_op (st_update S sn1)) (\<lambda>_. apply_verify B S p sn1))))) w0 = (Ok (Some sn), w')"
    using nd unfolding apply_one_def by (auto simp: bindA_Ok)
  have w0: "w0 = w" using c by (rule apply_checks_Ok(1))
  from rest show ?thesis
    unfolding Let_def bindA_Ok catchA_Ok w0
    using c [unfolded w0] that by (auto simp: s_op_eq)
qed

subsection \<open>Limits never leave their bounds\<close>

lemma unat_percent: "unat (percent t v) = min (unat t * unat v) (2 ^ 64 - 1) div 100"
  by (simp add: percent_def unat_div unat_sat_mul unat_ucast_up)

lemma percent_mono: "v \<le> w \<Longrightarrow> percent t v \<le> percent t w"
  unfolding word_le_nat_alt unat_percent by (intro div_le_mono min.mono mult_le_mono2 order_refl)

lemma percent_le: "unat v \<le> 100 \<Longrightarrow> percent t v \<le> t"
proof -
  assume "unat v \<le> 100"
  then have "unat t * unat v \<le> unat t * 100" by (rule mult_le_mono2)
  then have "min (unat t * unat v) (2 ^ 64 - 1) div 100 \<le> unat t * 100 div 100"
    by (intro div_le_mono) (simp add: min.coboundedI1)
  then show ?thesis by (simp add: word_le_nat_alt unat_percent)
qed

lemma memory_low_bounds:
  assumes "cgroups_valid g"
  shows "\<exists>low. memory_low_bytes t workload g = Some low \<and>
     percent t (cg_foreground_min_percent g) \<le> low \<and> low \<le> percent t (cg_foreground_max_percent g) \<and> low \<le> t"
proof -
  have "percent t (cg_foreground_min_percent g) \<le> percent t (cg_foreground_max_percent g)"
    using assms by (intro percent_mono) (simp add: cgroups_valid_def)
  from clamp_defined [OF this] obtain low where low: "memory_low_bytes t workload g = Some low"
    unfolding memory_low_bytes_def by blast
  have "percent t (cg_foreground_max_percent g) \<le> t"
    using assms by (intro percent_le) (auto simp: cgroups_valid_def)
  with clamp_Some_bounds [OF low [unfolded memory_low_bytes_def]] low show ?thesis by auto
qed

lemma memory_high_bounds:
  assumes "cgroups_valid g"
  shows "\<exists>high. memory_high_bytes t low g = Some high \<and>
     percent t (cg_background_high_min_percent g) \<le> high \<and>
     high \<le> percent t (cg_background_high_max_percent g) \<and> high \<le> t"
proof -
  have "percent t (cg_background_high_min_percent g) \<le> percent t (cg_background_high_max_percent g)"
    using assms by (intro percent_mono) (simp add: cgroups_valid_def)
  from clamp_defined [OF this] obtain high where high: "memory_high_bytes t low g = Some high"
    unfolding memory_high_bytes_def by blast
  have "percent t (cg_background_high_max_percent g) \<le> t"
    using assms by (intro percent_le) (auto simp: cgroups_valid_def)
  with clamp_Some_bounds [OF high [unfolded memory_high_bytes_def]] high show ?thesis by auto
qed

text \<open>C34. Under a validated configuration planning never panics, whatever the process and the
  memory sizes, and the limit it requests respects the configured percentages of the total
  memory: a protected process gets only a \<open>memory.low\<close> guarantee in the foreground group, any
  other process only a \<open>memory.high\<close> limit in the background group.\<close>

theorem plan_total_and_bounded:
  assumes "validate c = Ok ()"
  shows "\<exists>p. plan input (cgroups c) mode = Some p \<and>
    (if protected_target (pin_classification input)
     then pl_target_group p = FOREGROUND_GROUP \<and> rp_memory_high (pl_properties p) = None \<and>
       (\<exists>low. rp_memory_low (pl_properties p) = Some low \<and>
          percent (pin_total_ram_bytes input) (cg_foreground_min_percent (cgroups c)) \<le> low \<and>
          low \<le> percent (pin_total_ram_bytes input) (cg_foreground_max_percent (cgroups c)) \<and>
          low \<le> pin_total_ram_bytes input)
     else pl_target_group p = BACKGROUND_GROUP \<and> rp_memory_low (pl_properties p) = None \<and>
       (\<exists>high. rp_memory_high (pl_properties p) = Some high \<and>
          percent (pin_total_ram_bytes input) (cg_background_high_min_percent (cgroups c)) \<le> high \<and>
          high \<le> percent (pin_total_ram_bytes input) (cg_background_high_max_percent (cgroups c)) \<and>
          high \<le> pin_total_ram_bytes input))"
proof -
  have g: "cgroups_valid (cgroups c)" using assms by (rule validate_cgroups)
  obtain low where low: "memory_low_bytes (pin_total_ram_bytes input) (pin_protected_workload_bytes input) (cgroups c) = Some low"
      "percent (pin_total_ram_bytes input) (cg_foreground_min_percent (cgroups c)) \<le> low"
      "low \<le> percent (pin_total_ram_bytes input) (cg_foreground_max_percent (cgroups c))"
      "low \<le> pin_total_ram_bytes input"
    using memory_low_bounds [OF g] by blast
  obtain high where high: "memory_high_bytes (pin_total_ram_bytes input) low (cgroups c) = Some high"
      "percent (pin_total_ram_bytes input) (cg_background_high_min_percent (cgroups c)) \<le> high"
      "high \<le> percent (pin_total_ram_bytes input) (cg_background_high_max_percent (cgroups c))"
      "high \<le> pin_total_ram_bytes input"
    using memory_high_bounds [OF g] by blast
  show ?thesis
    by (cases "protected_target (pin_classification input)")
      (simp_all add: plan_def plan_target_def low high)
qed

subsection \<open>The plan is a reason gate\<close>

text \<open>A plan that is allowed targets an allow-listed identity of an unchanged process.\<close>

lemma plan_fields:
  assumes "plan input config mode = Some p"
  shows "pl_allowed p \<longleftrightarrow> fired (plan_blocks input config) = []"
    and "pl_block_reasons p = fired (plan_blocks input config)"
    and "pl_dry_run p = plan_dry_run config mode"
    and "pl_pid p = ps_pid (pc_sample (pin_classification input))"
    and "pl_identity p = pin_identity input"
  using assms by (auto simp: plan_def)

text \<open>The reasons and the verdict of a plan, whether or not the limits are computable.\<close>

definition plan_verdict :: "plan_input \<times> cgroups_config \<Rightarrow> string list \<times> bool" where
  "plan_verdict i = (fired (plan_blocks (fst i) (snd i)), fired (plan_blocks (fst i) (snd i)) = [])"

interpretation plan_gate: reason_gate "\<lambda>i. plan_blocks (fst i) (snd i)" fst snd plan_verdict
  by unfold_locales (simp_all add: plan_verdict_def)

text \<open>A process is moved only when it is safe to: an allowed plan has a 64-character
  identity on the allow list, the process still has the start time it was classified with, its
  category is known, it is either protected or confirmed to be in the background, and moving is
  enabled. Otherwise every violated condition is among the reported reasons.\<close>

theorem plan_allowed_iff:
  assumes "plan input config mode = Some p"
  shows "pl_allowed p \<longleftrightarrow>
      length (pin_identity input) = 64 \<and> pin_identity input \<in> set (cg_allowed_identities config) \<and>
      pin_current_start_time_ticks input = Some (pl_start_time_ticks p) \<and>
      pc_category (pin_classification input) \<noteq> CatUnknown \<and>
      (protected_target (pin_classification input) \<or> pc_foreground (pin_classification input) = FgBackground) \<and>
      cg_allow_move config"
proof -
  have st: "pl_start_time_ticks p = unwrap_or 0 (ps_start_time_ticks (pc_sample (pin_classification input)))"
    using assms by (auto simp: plan_def)
  have "pl_allowed p \<longleftrightarrow> snd (plan_verdict (input, config))"
    by (simp add: plan_fields(1) [OF assms] plan_verdict_def)
  also have "\<dots> \<longleftrightarrow> (\<forall>(b, r) \<in> set (plan_blocks input config). \<not> b)"
    by (simp add: plan_gate.allowed_iff_no_check)
  also have "\<dots> \<longleftrightarrow> length (pin_identity input) = 64 \<and> pin_identity input \<in> set (cg_allowed_identities config) \<and>
      pin_current_start_time_ticks input = Some (pl_start_time_ticks p) \<and>
      pc_category (pin_classification input) \<noteq> CatUnknown \<and>
      (protected_target (pin_classification input) \<or> pc_foreground (pin_classification input) = FgBackground) \<and>
      cg_allow_move config"
    unfolding st plan_blocks_def Let_def list.set ball_simps split_conv by blast
  finally show ?thesis .
qed

subsection \<open>Guards, persistence before mutation, verified readback\<close>

lemma apply_one_dry_run: "pl_dry_run p \<Longrightarrow> apply_one B S sid ts p w = (Ok None, w)"
  by (simp add: apply_one_def ret_def)

lemma apply_one_checks_fail:
  "\<not> pl_dry_run p \<Longrightarrow> apply_checks B sid ts p w = (Err e, w') \<Longrightarrow> apply_one B S sid ts p w = (Err e, w)"
  using apply_checks_world [of B sid ts p w] by (simp add: apply_one_def bindA_def)

text \<open>C4. No backend is ever changed before its previous state is on record: whatever backend
  and store, if applying a plan changed the backend (whether or not it succeeded), then a
  snapshot of the process's current group and of the target group's current properties had
  been persisted first.\<close>

theorem persist_before_mutate:
  assumes "apply_one B S sid ts p w = (r, w')" and "fst w' \<noteq> fst w"
  shows "\<exists>sn id s1 state. st_persist S sn (snd w) = (Ok id, s1) \<and> sn_pid sn = pl_pid p \<and>
     be_process_group B (fst w) (pl_pid p) = Ok (Some (sn_original_group sn)) \<and>
     be_process_start_time B (fst w) (pl_pid p) = Ok (Some (sn_start_time_ticks sn)) \<and>
     be_inspect_group B (fst w) (pl_target_group p) = Ok state \<and>
     rp_memory_low (sn_original_properties sn) = Option.bind state gs_memory_low \<and>
     rp_memory_high (sn_original_properties sn) = Option.bind state gs_memory_high"
proof -
  have nd: "\<not> pl_dry_run p" using assms apply_one_dry_run [of p B S sid ts w] by auto
  obtain r1 where c: "apply_checks B sid ts p w = (r1, w)"
    using apply_checks_world [of B sid ts p w] by (cases "apply_checks B sid ts p w") simp
  show ?thesis
  proof (cases r1)
    case (Inl e)
    with c have "apply_checks B sid ts p w = (Err e, w)" by simp
    from apply_one_checks_fail [OF nd this, of S] assms show ?thesis by simp
  next
    case (Inr sn)
    note ok = apply_checks_Ok [OF c [unfolded Inr]]
    obtain r2 s1 where p: "st_persist S sn (snd w) = (r2, s1)" by (cases "st_persist S sn (snd w)")
    have "\<exists>id. r2 = Ok id"
    proof (cases r2)
      case (Inl e)
      then have "s_op (st_persist S sn) w = (Err e, (fst w, s1))" by (simp add: s_op_eq p)
      then have "apply_one B S sid ts p w = (Err e, (fst w, s1))"
        using nd c Inr by (simp add: apply_one_def bindA_run bindA_Err)
      with assms show ?thesis by auto
    qed simp
    with p ok show ?thesis by (fastforce split: option.splits)
  qed
qed

lemma apply_one_readback:
  assumes "apply_one B S sid ts p w = (Ok (Some sn), w')"
  shows "\<exists>state. be_inspect_group B (fst w') (pl_target_group p) = Ok (Some state) \<and>
     pl_pid p \<in> gs_pids state \<and> gs_memory_low state = rp_memory_low (pl_properties p) \<and>
     gs_memory_high state = rp_memory_high (pl_properties p) \<and>
     sn_applied sn \<and> sn_verified sn \<and> \<not> sn_rolled_back sn \<and>
     pl_allowed p \<and> is_managed_name (pl_target_group p)"
proof -
  obtain sn0 id w5 where c: "apply_checks B sid ts p w = (Ok sn0, w)"
    and v: "apply_verify B S p (sn0\<lparr> sn_id := id, sn_applied := True \<rparr>) w5 = (Ok (Some sn), w')"
    using apply_one_Ok [OF assms] by metis
  from v show ?thesis
    using apply_checks_Ok(2,3,9) [OF c]
    by (auto simp: apply_verify_def bindA_Ok Let_def s_op_eq split: if_splits)
qed

text \<open>A reported success is real: whatever backend and store, when applying a plan returns
  a snapshot, the backend's own readback shows the process in the target group with exactly the
  requested limits, the snapshot is marked applied and verified, and the plan was allowed and
  targets a group of the program's own namespace.\<close>

theorem apply_one_success_verified:
  assumes "apply_one B S sid ts p w = (Ok (Some sn), w')"
  shows "\<exists>state. be_inspect_group B (fst w') (pl_target_group p) = Ok (Some state) \<and>
     pl_pid p \<in> gs_pids state \<and> gs_memory_low state = rp_memory_low (pl_properties p) \<and>
     gs_memory_high state = rp_memory_high (pl_properties p) \<and>
     sn_applied sn \<and> sn_verified sn \<and> \<not> sn_rolled_back sn \<and>
     pl_allowed p \<and> is_managed_name (pl_target_group p)"
  using assms by (rule apply_one_readback)

subsection \<open>The contract of a snapshot store\<close>

text \<open>
  A store keeps a map from ids to snapshots (\<open>view\<close>). As long as it has room for an id,
  \<open>persist\<close> adds the snapshot under a fresh one; \<open>update\<close> replaces a known snapshot and refuses an
  unknown one; \<open>pending\<close> lists the snapshots that are applied and not rolled back; the managed
  groups do not touch the snapshots.
\<close>

definition is_pending :: "mutation_snapshot \<Rightarrow> bool" where
  "is_pending sn \<longleftrightarrow> sn_applied sn \<and> \<not> sn_rolled_back sn"

text \<open>A computation that leaves the snapshots of the store alone.\<close>

definition keeps :: "('s \<Rightarrow> 'v) \<Rightarrow> ('s \<Rightarrow> bool) \<Rightarrow> ('b \<times> 's, 'a) act \<Rightarrow> bool" where
  "keeps view good m \<longleftrightarrow> (\<forall>w. good (snd w) \<longrightarrow>
     good (snd (snd (m w))) \<and> view (snd (snd (m w))) = view (snd w))"

lemma keeps_run:
  "keeps view good m \<Longrightarrow> m w = (r, w') \<Longrightarrow> good (snd w) \<Longrightarrow> good (snd w') \<and> view (snd w') = view (snd w)"
  unfolding keeps_def by (metis snd_conv)

lemma keeps_intros:
  "keeps view good (ret x)" "keeps view good (throw e)" "keeps view good (b_read f)" "keeps view good (b_op g)"
  by (auto simp: keeps_def ret_def throw_def b_read_def b_op_def split: prod.splits)

lemma keeps_bind:
  fixes m :: "('b \<times> 's, 'a) act" and f :: "'a \<Rightarrow> ('b \<times> 's, 'c) act"
  assumes "keeps view good m" and "\<And>x. keeps view good (f x)"
  shows "keeps view good (bindA m f)"
  unfolding keeps_def
proof (intro allI impI)
  fix w :: "'b \<times> 's"
  assume i: "good (snd w)"
  obtain r w1 where m: "m w = (r, w1)" by (cases "m w")
  note k = keeps_run [OF assms(1) m i]
  show "good (snd (snd (bindA m f w))) \<and> view (snd (snd (bindA m f w))) = view (snd w)"
  proof (cases r)
    case (Inl e)
    then show ?thesis using k m by (simp add: bindA_def)
  next
    case (Inr x)
    obtain r2 w2 where f: "f x w1 = (r2, w2)" by (cases "f x w1")
    from keeps_run [OF assms(2) f] k show ?thesis using m Inr f by (simp add: bindA_def)
  qed
qed

lemma keeps_whenA: "keeps view good m \<Longrightarrow> keeps view good (whenA c m)"
  by (auto simp: whenA_def intro: keeps_intros)

locale snapshot_contract =
  fixes S :: "'s snapshot_store"
    and view :: "'s \<Rightarrow> u64 \<Rightarrow> mutation_snapshot option"
    and inv :: "'s \<Rightarrow> bool"
    and room :: "'s \<Rightarrow> bool"
  assumes persist: "inv s \<Longrightarrow> room s \<Longrightarrow> \<exists>id s'. st_persist S sn s = (Ok id, s') \<and> inv s' \<and>
      view s id = None \<and> view s' = (view s)(id \<mapsto> sn\<lparr> sn_id := id \<rparr>)"
    and update: "inv s \<Longrightarrow> view s (sn_id sn) \<noteq> None \<Longrightarrow>
      \<exists>s'. st_update S sn s = (Ok (), s') \<and> inv s' \<and> view s' = (view s)(sn_id sn \<mapsto> sn)"
    and pending: "inv s \<Longrightarrow> \<exists>xs. st_pending S s = Ok xs \<and> distinct (map sn_id xs) \<and>
      set xs = {sn. view s (sn_id sn) = Some sn \<and> is_pending sn}"
    and record_group: "inv s \<Longrightarrow> \<exists>s'. st_record_managed_group S n i k s = (Ok (), s') \<and> inv s' \<and> view s' = view s"
    and remove_group: "inv s \<Longrightarrow> \<exists>s'. st_remove_managed_group S n s = (Ok (), s') \<and> inv s' \<and> view s' = view s"
begin

lemma update_run:
  assumes "s_op (st_update S sn) w = (r, w')" and "inv (snd w)" and "view (snd w) (sn_id sn) \<noteq> None"
  shows "r = Ok () \<and> inv (snd w') \<and> view (snd w') = (view (snd w))(sn_id sn \<mapsto> sn) \<and> fst w' = fst w"
  using update [OF assms(2,3)] assms(1) by (auto simp: s_op_eq)

lemma ensure_group_run:
  assumes "ensure_group B S i n w = (r, w')" and "inv (snd w)"
  shows "inv (snd w') \<and> view (snd w') = view (snd w)"
proof -
  have "keeps view inv (\<lambda>w. s_op (st_record_managed_group S n i (be_kind B (fst w))) w)"
    unfolding keeps_def
  proof (intro allI impI)
    fix w :: "'a \<times> 's"
    assume "inv (snd w)"
    from record_group [OF this] show "inv (snd (snd (s_op (st_record_managed_group S n i (be_kind B (fst w))) w))) \<and>
        view (snd (snd (s_op (st_record_managed_group S n i (be_kind B (fst w))) w))) = view (snd w)"
      by (auto simp: s_op_def split: prod.split) (metis Pair_inject)+
  qed
  then have "keeps view inv (ensure_group B S i n)"
    unfolding ensure_group_def by (intro keeps_bind keeps_whenA keeps_intros)
  from keeps_run [OF this assms] show ?thesis .
qed

lemma rollback_store:
  assumes "bindA (rollback_placement B sn) (\<lambda>_. rollback_properties B S sn) w = (r, w')" and "inv (snd w)"
  shows "inv (snd w') \<and> view (snd w') = view (snd w)"
proof -
  have rem: "keeps view inv (s_op (st_remove_managed_group S n) :: ('a \<times> 's, unit) act)" for n
    unfolding keeps_def
  proof (intro allI impI)
    fix w :: "'a \<times> 's"
    assume "inv (snd w)"
    from remove_group [OF this] show "inv (snd (snd (s_op (st_remove_managed_group S n) w))) \<and>
        view (snd (snd (s_op (st_remove_managed_group S n) w))) = view (snd w)"
      by (auto simp: s_op_def split: prod.split) (metis Pair_inject)+
  qed
  have "keeps view inv (rollback_placement B sn :: ('a \<times> 's, unit) act)"
    unfolding rollback_placement_def by (auto intro!: keeps_bind keeps_whenA keeps_intros)
  moreover have "keeps view inv (rollback_properties B S sn)"
    unfolding rollback_properties_def by (intro keeps_bind keeps_whenA keeps_intros rem)
  ultimately have "keeps view inv (bindA (rollback_placement B sn) (\<lambda>_. rollback_properties B S sn))"
    by (intro keeps_bind)
  from keeps_run [OF this assms] show ?thesis .
qed

lemma rollback_one_run:
  assumes "rollback_one B S sn w = (r, w', sn')" and "inv (snd w)" and "view (snd w) (sn_id sn) = Some sn"
  shows "inv (snd w') \<and> (case r of Inl e \<Rightarrow> view (snd w') = view (snd w)
     | Inr _ \<Rightarrow> view (snd w') = (view (snd w))(sn_id sn \<mapsto> sn\<lparr> sn_rolled_back := True \<rparr>))"
proof (cases "sn_rolled_back sn")
  case True
  then have "sn\<lparr> sn_rolled_back := True \<rparr> = sn" by simp
  with True assms show ?thesis by (auto simp: rollback_one_def fun_upd_idem)
next
  case False
  show ?thesis
  proof (cases "is_managed_name (sn_target_group sn)")
    case m: True
    obtain q v where v: "bindA (rollback_placement B sn) (\<lambda>_. rollback_properties B S sn) w = (q, v)"
      by (cases "bindA (rollback_placement B sn) (\<lambda>_. rollback_properties B S sn) w")
    note st = rollback_store [OF v assms(2)]
    show ?thesis
    proof (cases q)
      case (Inl e)
      with v assms False m st show ?thesis by (auto simp: rollback_one_def)
    next
      case (Inr u)
      obtain r2 v2 where u2: "s_op (st_update S (sn\<lparr> sn_rolled_back := True \<rparr>)) v = (r2, v2)"
        by (cases "s_op (st_update S (sn\<lparr> sn_rolled_back := True \<rparr>)) v")
      have "view (snd v) (sn_id (sn\<lparr> sn_rolled_back := True \<rparr>)) \<noteq> None" using st assms by simp
      from update_run [OF u2 _ this] st Inr v u2 assms False m show ?thesis
        by (auto simp: rollback_one_def Let_def)
    qed
  qed (use assms False in \<open>auto simp: rollback_one_def\<close>)
qed

lemma recover_list_run:
  assumes "recover_list B S sns w = (rs, w')" and "inv (snd w)" and "distinct (map sn_id sns)"
    and "\<forall>sn \<in> set sns. view (snd w) (sn_id sn) = Some sn"
  shows "inv (snd w') \<and> length rs = length sns \<and>
    (\<forall>id. id \<notin> sn_id ` set sns \<longrightarrow> view (snd w') id = view (snd w) id) \<and>
    (list_all (\<lambda>r. r = Ok ()) rs \<longrightarrow>
      (\<forall>sn \<in> set sns. view (snd w') (sn_id sn) = Some (sn\<lparr> sn_rolled_back := True \<rparr>)))"
  using assms
proof (induction sns arbitrary: w rs)
  case (Cons sn sns)
  obtain r w1 sn1 where r: "rollback_one B S sn w = (r, w1, sn1)" by (cases "rollback_one B S sn w")
  obtain rs1 where rs: "recover_list B S sns w1 = (rs1, w')" "rs = r # rs1"
    using Cons.prems(1) r by (auto simp: rollback_act_def split: prod.splits)
  have run: "inv (snd w1)" "case r of Inl e \<Rightarrow> view (snd w1) = view (snd w)
     | Inr _ \<Rightarrow> view (snd w1) = (view (snd w))(sn_id sn \<mapsto> sn\<lparr> sn_rolled_back := True \<rparr>)"
    using rollback_one_run [OF r] Cons.prems by auto
  then have other: "view (snd w1) id = view (snd w) id" if "id \<noteq> sn_id sn" for id
    using that by (auto split: sum.splits)
  have "\<forall>x \<in> set sns. view (snd w1) (sn_id x) = Some x"
    using Cons.prems(3,4) other by (auto simp: image_iff)
  with Cons.IH [OF rs(1) run(1)] Cons.prems(3) other run(2) rs(2) show ?case
    by (auto split: sum.splits)
qed simp

lemma recover_clears:
  assumes "recover B S w = (rs, w')" and "inv (snd w)" and "list_all (\<lambda>r. r = Ok ()) rs"
  shows "st_pending S (snd w') = Ok []"
proof -
  obtain xs where xs: "st_pending S (snd w) = Ok xs" "distinct (map sn_id xs)"
    "set xs = {sn. view (snd w) (sn_id sn) = Some sn \<and> is_pending sn}"
    using pending [OF assms(2)] by blast
  have rl: "recover_list B S xs w = (rs, w')" using assms(1) xs(1) by (simp add: recover_def)
  have run: "inv (snd w')" "\<forall>id. id \<notin> sn_id ` set xs \<longrightarrow> view (snd w') id = view (snd w) id"
    "\<forall>sn \<in> set xs. view (snd w') (sn_id sn) = Some (sn\<lparr> sn_rolled_back := True \<rparr>)"
    using recover_list_run [OF rl assms(2) xs(2)] xs(3) assms(3) by auto
  obtain ys where ys: "st_pending S (snd w') = Ok ys"
    "set ys = {sn. view (snd w') (sn_id sn) = Some sn \<and> is_pending sn}"
    using pending [OF run(1)] by blast
  have "\<not> is_pending sn" if v: "view (snd w') (sn_id sn) = Some sn" for sn
  proof (cases "sn_id sn \<in> sn_id ` set xs")
    case True
    with run(3) v show ?thesis by (auto simp: is_pending_def)
  next
    case False
    with run(2) v have "view (snd w) (sn_id sn) = Some sn" by simp
    with False xs(3) show ?thesis by auto
  qed
  with ys have "set ys = {}" by auto
  with ys(1) show ?thesis by simp
qed

lemma apply_one_recorded:
  assumes "apply_one B S i t p w = (Ok (Some sn), w')" and "inv (snd w)" and "room (snd w)"
  shows "\<exists>xs. st_pending S (snd w') = Ok xs \<and> sn \<in> set xs"
proof -
  obtain sn0 id w1 w2 w3 w4 w5 where c: "apply_checks B i t p w = (Ok sn0, w)"
    and p: "st_persist S sn0 (snd w) = (Ok id, snd w1)"
    and e: "ensure_group B S i (pl_target_group p) w1 = (Ok (), w2)"
    and sp: "b_op (be_set_properties B (pl_target_group p) (pl_properties p)) w2 = (Ok (), w3)"
    and at: "b_op (be_attach_pid B (pl_target_group p) (pl_pid p)) w3 = (Ok (), w4)"
    and u: "s_op (st_update S (sn0\<lparr> sn_id := id, sn_applied := True \<rparr>)) w4 = (Ok (), w5)"
    and v: "apply_verify B S p (sn0\<lparr> sn_id := id, sn_applied := True \<rparr>) w5 = (Ok (Some sn), w')"
    using apply_one_Ok [OF assms(1)] by metis
  have w1: "inv (snd w1)" "view (snd w1) id \<noteq> None" using persist [OF assms(2,3), of sn0] p by auto
  then have w4: "inv (snd w4)" "view (snd w4) id \<noteq> None"
    using ensure_group_run [OF e] sp at by (simp_all add: b_op_eq)
  then have w5: "inv (snd w5)" "view (snd w5) id \<noteq> None" using update_run [OF u] by auto
  from v obtain u2: "s_op (st_update S sn) w5 = (Ok (), w')"
    and sn: "sn = sn0\<lparr> sn_id := id, sn_applied := True, sn_verified := True \<rparr>"
    by (auto simp: apply_verify_def bindA_Ok Let_def split: if_splits)
  from update_run [OF u2] w5 sn have w': "inv (snd w')" "view (snd w') (sn_id sn) = Some sn" by auto
  moreover have "is_pending sn" using apply_checks_Ok(9) [OF c] sn by (simp add: is_pending_def)
  ultimately show ?thesis using pending [OF w'(1)] by auto
qed

end

text \<open>The in-memory store keeps the contract while its counter has not reached its maximum.\<close>

definition ms_inv :: "memory_snapshot_store \<Rightarrow> bool" where
  "ms_inv m \<longleftrightarrow> bt_wf (ms_snapshots m) \<and> (\<forall>(k, sn) \<in> set (ms_snapshots m). sn_id sn = k \<and> k \<le> ms_next_id m)"

definition ms_view :: "memory_snapshot_store \<Rightarrow> u64 \<Rightarrow> mutation_snapshot option" where
  "ms_view m = map_of (ms_snapshots m)"

definition ms_room :: "memory_snapshot_store \<Rightarrow> bool" where
  "ms_room m \<longleftrightarrow> ms_next_id m < - 1"

lemma bt_insert_set: "x \<in> set (bt_insert k v m) \<Longrightarrow> x = (k, v) \<or> x \<in> set m"
  by (induction k v m rule: bt_insert.induct) (auto split: if_splits)

lemma ms_persist_law:
  assumes "ms_inv m" and "ms_room m"
  shows "\<exists>id m'. ms_persist sn m = (Ok id, m') \<and> ms_inv m' \<and> ms_view m id = None \<and>
     ms_view m' = (ms_view m)(id \<mapsto> sn\<lparr> sn_id := id \<rparr>)"
proof -
  let ?id = "ms_next_id m + 1"
  have lt: "ms_next_id m < ?id" using assms(2) by (simp add: ms_room_def word_less_nat_alt unat_word_ariths
        unat_max_word) 
  have fresh: "ms_view m ?id = None"
  proof (rule ccontr)
    assume "ms_view m ?id \<noteq> None"
    then have "?id \<le> ms_next_id m" using assms(1) by (auto simp: ms_view_def ms_inv_def dest!: map_of_SomeD)
    with lt show False by simp
  qed
  have "k \<le> ?id" if "(k, x) \<in> set (ms_snapshots m)" for k x
    using that assms(1) lt by (force simp: ms_inv_def intro: order_trans less_imp_le)
  with assms(1) fresh show ?thesis
    by (auto simp: ms_persist_def Let_def ms_inv_def ms_view_def map_of_bt_insert dest!: bt_insert_set)
qed

lemma ms_update_law:
  assumes "ms_inv m" and "ms_view m (sn_id sn) \<noteq> None"
  shows "\<exists>m'. ms_update sn m = (Ok (), m') \<and> ms_inv m' \<and> ms_view m' = (ms_view m)(sn_id sn \<mapsto> sn)"
proof -
  obtain x where x: "(sn_id sn, x) \<in> set (ms_snapshots m)"
    using assms(2) by (auto simp: ms_view_def dest: map_of_SomeD)
  with assms show ?thesis
    by (auto simp: ms_update_def ms_inv_def ms_view_def map_of_bt_insert dest!: bt_insert_set)
qed

lemma ms_pending_law:
  assumes "ms_inv m"
  shows "\<exists>xs. ms_pending m = Ok xs \<and> distinct (map sn_id xs) \<and>
     set xs = {sn. ms_view m (sn_id sn) = Some sn \<and> is_pending sn}"
proof -
  have wf: "bt_wf (ms_snapshots m)" using assms by (simp add: ms_inv_def)
  have ids: "map sn_id (bt_values (ms_snapshots m)) = map fst (ms_snapshots m)"
    using assms by (auto simp: bt_values_def ms_inv_def)
  have "distinct (map fst (ms_snapshots m))" using wf by (simp add: bt_wf_def strict_sorted_iff)
  then have "distinct (map sn_id (bt_values (ms_snapshots m)))" by (simp only: ids)
  moreover have "k = sn_id sn" if "map_of (ms_snapshots m) k = Some sn" for k sn
    using map_of_SomeD [OF that] assms by (auto simp: ms_inv_def)
  then have "sn \<in> set (bt_values (ms_snapshots m)) \<longleftrightarrow> ms_view m (sn_id sn) = Some sn" for sn
    unfolding bt_values_iff [OF wf] ms_view_def by blast
  ultimately show ?thesis
    by (auto simp: ms_pending_def is_pending_def distinct_map_filter)
qed

interpretation mem_store: snapshot_contract memory_store ms_view ms_inv ms_room
  by unfold_locales
    (simp_all add: memory_store_def ms_persist_law ms_update_law ms_pending_law ms_record_managed_group_def
      ms_remove_managed_group_def, simp_all add: ms_inv_def ms_view_def)

text \<open>Recovery completes: when every rollback of a recovery over the in-memory store
  reports success, no snapshot is pending any more, whatever the backend did.\<close>

theorem recover_leaves_nothing_pending:
  assumes "ms_inv m" and "recover B memory_store (b, m) = (rs, (b', m'))"
    and "list_all (\<lambda>r. r = Ok ()) rs"
  shows "ms_pending m' = Ok []"
  using mem_store.recover_clears [OF assms(2) _ assms(3)] assms(1) by (simp add: memory_store_def)

text \<open>A successful application can be undone: the snapshot it returns is pending in the
  store, so that a later recovery will roll it back.\<close>

theorem applied_snapshot_is_pending:
  assumes "ms_inv m" and "ms_room m"
    and "apply_one B memory_store sid ts p (b, m) = (Ok (Some sn), (b', m'))"
  shows "\<exists>xs. ms_pending m' = Ok xs \<and> sn \<in> set xs"
  using mem_store.apply_one_recorded [OF assms(3)] assms(1,2) by (simp add: memory_store_def)

subsection \<open>The simulated backend\<close>

datatype fake_failure = FailCreate | FailProperty | FailMove | FailVerify | FailRollback

record fake_backend =
  fk_capabilities :: cgroup_capabilities
  fk_groups :: "string \<rightharpoonup> group_state"
  fk_starts :: "u32 \<rightharpoonup> u64"
  fk_placements :: "u32 \<rightharpoonup> string"
  fk_operations :: "string list"
  fk_failure :: "fake_failure option"

definition fake_error :: "string \<Rightarrow> actuator_error" where
  "fake_error operation = Backend operation (IoError (OtherKind ''other error'') ''injected failure'')"

definition fk_log :: "string \<Rightarrow> fake_backend \<Rightarrow> fake_backend" where
  "fk_log op b = b\<lparr> fk_operations := fk_operations b @ [op] \<rparr>"

definition fk_inspect_group :: "fake_backend \<Rightarrow> string \<Rightarrow> group_state option act_result" where
  "fk_inspect_group b name = Ok (map_option
     (\<lambda>st. if fk_failure b = Some FailVerify then st\<lparr> gs_memory_high := None \<rparr> else st) (fk_groups b name))"

definition fk_create_managed_group :: "string \<Rightarrow> fake_backend \<Rightarrow> group_state act_result \<times> fake_backend" where
  "fk_create_managed_group name b0 = (let b = fk_log (''create:'' @ name) b0 in
     if fk_failure b = Some FailCreate then (Err (fake_error ''create managed group''), b)
     else if \<not> is_managed_name name then (Err (Blocked ''foreign group''), b)
     else let st = \<lparr> gs_name = name, gs_path = ''/fake/'' @ name, gs_owned_by_nemor = True,
                     gs_memory_low = None, gs_memory_high = None, gs_pids = {} \<rparr>
          in (Ok st, b\<lparr> fk_groups := (fk_groups b)(name \<mapsto> st) \<rparr>))"

definition fk_set_properties ::
  "string \<Rightarrow> requested_properties \<Rightarrow> fake_backend \<Rightarrow> unit act_result \<times> fake_backend" where
  "fk_set_properties name props b0 = (let b = fk_log (''properties:'' @ name) b0 in
     if fk_failure b = Some FailProperty then (Err (fake_error ''set properties''), b)
     else case fk_groups b name of
        None \<Rightarrow> (Err (fake_error ''set properties''), b)
      | Some st \<Rightarrow> (Ok (), b\<lparr> fk_groups := (fk_groups b)(name \<mapsto>
           st\<lparr> gs_memory_low := rp_memory_low props, gs_memory_high := rp_memory_high props \<rparr>) \<rparr>))"

definition update_group :: "string \<Rightarrow> (group_state \<Rightarrow> group_state) \<Rightarrow> fake_backend \<Rightarrow> fake_backend" where
  "update_group name f b = (case fk_groups b name of None \<Rightarrow> b
     | Some st \<Rightarrow> b\<lparr> fk_groups := (fk_groups b)(name \<mapsto> f st) \<rparr>)"

definition fk_attach_pid :: "string \<Rightarrow> u32 \<Rightarrow> fake_backend \<Rightarrow> unit act_result \<times> fake_backend" where
  "fk_attach_pid name pid b0 = (let b = fk_log (''attach:'' @ name @ '':'' @ show_nat (unat pid)) b0 in
     if fk_failure b = Some FailMove then (Err (fake_error ''attach PID''), b)
     else let b1 = b\<lparr> fk_placements := (fk_placements b)(pid \<mapsto> name) \<rparr>;
              b2 = (case fk_placements b pid of None \<Rightarrow> b1
                    | Some old \<Rightarrow> update_group old (\<lambda>g. g\<lparr> gs_pids := gs_pids g - {pid} \<rparr>) b1)
          in (Ok (), update_group name (\<lambda>g. g\<lparr> gs_pids := insert pid (gs_pids g) \<rparr>) b2))"

definition fk_cleanup_empty_owned_group :: "string \<Rightarrow> fake_backend \<Rightarrow> unit act_result \<times> fake_backend" where
  "fk_cleanup_empty_owned_group name b0 = (let b = fk_log (''cleanup:'' @ name) b0 in
     if fk_failure b = Some FailRollback then (Err (fake_error ''cleanup''), b)
     else if is_some_and (\<lambda>st. gs_owned_by_nemor st \<and> gs_pids st = {}) (fk_groups b name)
     then (Ok (), b\<lparr> fk_groups := (fk_groups b)(name := None) \<rparr>)
     else (Ok (), b))"

definition fake_cgroup_backend :: "fake_backend cgroup_backend" where
  "fake_cgroup_backend = \<lparr> be_kind = (\<lambda>b. Simulated), be_capabilities = (\<lambda>b. Ok (fk_capabilities b)),
     be_inspect_group = fk_inspect_group, be_create_managed_group = fk_create_managed_group,
     be_set_properties = fk_set_properties, be_attach_pid = fk_attach_pid,
     be_process_start_time = (\<lambda>b pid. Ok (fk_starts b pid)),
     be_process_group = (\<lambda>b pid. Ok (fk_placements b pid)),
     be_cleanup_empty_owned_group = fk_cleanup_empty_owned_group \<rparr>"

lemma fake_checks:
  assumes "fk_failure b = None" and "mutation_ready (fk_capabilities b)" and "fk_starts b (pl_pid p) = Some (pl_start_time_ticks p)"
    and "fk_placements b (pl_pid p) = Some og" and "pl_allowed p" and "is_managed_name (pl_target_group p)"
  shows "\<exists>sn. apply_checks fake_cgroup_backend sid ts p (b, m) = (Ok sn, (b, m)) \<and> sn_original_group sn = og \<and>
     sn_original_properties sn = (case fk_groups b (pl_target_group p) of
         None \<Rightarrow> \<lparr> rp_memory_low = None, rp_memory_high = None \<rparr>
       | Some st \<Rightarrow> \<lparr> rp_memory_low = gs_memory_low st, rp_memory_high = gs_memory_high st \<rparr>)"
  using assms
  by (simp add: apply_checks_def bindA_def b_read_def ret_def fake_cgroup_backend_def fk_inspect_group_def split: option.split)

text \<open>The target group as the application finds or creates it.\<close>

definition fake_target :: "fake_backend \<Rightarrow> string \<Rightarrow> group_state" where
  "fake_target b t = (case fk_groups b t of
      Some st \<Rightarrow> st
    | None \<Rightarrow> \<lparr> gs_name = t, gs_path = ''/fake/'' @ t, gs_owned_by_nemor = True,
        gs_memory_low = None, gs_memory_high = None, gs_pids = {} \<rparr>)"

definition with_limits :: "requested_properties \<Rightarrow> group_state \<Rightarrow> group_state" where
  "with_limits props st = st\<lparr> gs_memory_low := rp_memory_low props, gs_memory_high := rp_memory_high props \<rparr>"

definition limits_of :: "group_state \<Rightarrow> requested_properties" where
  "limits_of st = \<lparr> rp_memory_low = gs_memory_low st, rp_memory_high = gs_memory_high st \<rparr>"

lemma with_limits_simps [simp]:
  "gs_pids (with_limits props st) = gs_pids st" "gs_owned_by_nemor (with_limits props st) = gs_owned_by_nemor st"
  "gs_memory_low (with_limits props st) = rp_memory_low props" "gs_memory_high (with_limits props st) = rp_memory_high props"
  "with_limits (limits_of st) st = st" "with_limits q (with_limits props st) = with_limits q st"
  "with_limits props (st\<lparr> gs_pids := X \<rparr>) = (with_limits props st)\<lparr> gs_pids := X \<rparr>"
  by (simp_all add: with_limits_def limits_of_def)

text \<open>The fake backend after the mutations of a successful application.\<close>

lemma fake_mutations:
  assumes "fk_failure b = None" and "og \<noteq> t" and "is_managed_name t"
    and "fk_placements b pid = Some og" and "fk_groups b og = Some g"
  shows "\<exists>b1 b2 b3. (if fk_groups b t = None then \<exists>st. fk_create_managed_group t b = (Ok st, b1) else b1 = b) \<and>
     fk_set_properties t props b1 = (Ok (), b2) \<and>
     fk_attach_pid t pid b2 = (Ok (), b3) \<and> fk_failure b3 = None \<and> fk_starts b3 = fk_starts b \<and>
     fk_placements b3 = (fk_placements b)(pid \<mapsto> t) \<and>
     fk_groups b3 = (fk_groups b)(og \<mapsto> g\<lparr> gs_pids := gs_pids g - {pid} \<rparr>,
        t \<mapsto> (with_limits props (fake_target b t))\<lparr> gs_pids := insert pid (gs_pids (fake_target b t)) \<rparr>)"
proof -
  define b1 where "b1 = (if fk_groups b t = None then snd (fk_create_managed_group t b) else b)"
  have b1: "fk_groups b1 = (fk_groups b)(t \<mapsto> fake_target b t)" "fk_failure b1 = None" "fk_starts b1 = fk_starts b"
    "fk_placements b1 = fk_placements b"
    using assms(1,3) by (auto simp: b1_def fk_create_managed_group_def fk_log_def fake_target_def Let_def fun_upd_idem split: option.split)
  have "if fk_groups b t = None then \<exists>st. fk_create_managed_group t b = (Ok st, b1) else b1 = b"
    using assms(1,3) by (simp add: b1_def fk_create_managed_group_def fk_log_def Let_def)
  moreover have "\<exists>b2 b3. fk_set_properties t props b1 = (Ok (), b2) \<and>
     fk_attach_pid t pid b2 = (Ok (), b3) \<and> fk_failure b3 = None \<and> fk_starts b3 = fk_starts b \<and>
     fk_placements b3 = (fk_placements b)(pid \<mapsto> t) \<and>
     fk_groups b3 = (fk_groups b)(og \<mapsto> g\<lparr> gs_pids := gs_pids g - {pid} \<rparr>,
        t \<mapsto> (with_limits props (fake_target b t))\<lparr> gs_pids := insert pid (gs_pids (fake_target b t)) \<rparr>)"
    using assms(2,4,5) b1
    by (auto simp: fk_set_properties_def fk_attach_pid_def fk_log_def update_group_def Let_def with_limits_def fun_upd_twist)
  ultimately show ?thesis by blast
qed

text \<open>What the rollback leaves of the groups: cleanup drops an owned target group that has no members.\<close>

definition swept :: "(string \<rightharpoonup> group_state) \<Rightarrow> string \<Rightarrow> (string \<rightharpoonup> group_state)" where
  "swept groups t = (if is_some_and (\<lambda>st. gs_owned_by_nemor st \<and> gs_pids st = {}) (groups t) then groups(t := None) else groups)"

lemma fake_undo:
  assumes "fk_failure b3 = None" and "og \<noteq> t" and "pid \<in> gs_pids g" and "pid \<notin> gs_pids (fake_target b t)"
    and "fk_placements b3 = (fk_placements b)(pid \<mapsto> t)"
    and "fk_groups b3 = (fk_groups b)(og \<mapsto> g\<lparr> gs_pids := gs_pids g - {pid} \<rparr>,
      t \<mapsto> (with_limits props (fake_target b t))\<lparr> gs_pids := insert pid (gs_pids (fake_target b t)) \<rparr>)"
    and "fk_placements b pid = Some og" and "fk_groups b og = Some g"
  shows "\<exists>b4 b5 b6. fk_attach_pid og pid b3 = (Ok (), b4) \<and>
     fk_groups b4 t \<noteq> None \<and> fk_set_properties t (limits_of (fake_target b t)) b4 = (Ok (), b5) \<and>
     fk_cleanup_empty_owned_group t b5 = (Ok (), b6) \<and> fk_groups b6 = swept (fk_groups b) t \<and> fk_placements b6 = fk_placements b \<and>
     fk_failure b4 = None \<and> fk_failure b6 = None"
proof -
  let ?st = "fake_target b t"
  have pids: "insert pid (gs_pids g - {pid}) = gs_pids g" "gs_pids ?st - {pid} = gs_pids ?st" using assms(3,4) by auto
  obtain b4 where b4: "fk_attach_pid og pid b3 = (Ok (), b4)" "fk_failure b4 = None" "fk_placements b4 = fk_placements b"
    "fk_groups b4 = (fk_groups b)(og \<mapsto> g, t \<mapsto> with_limits props ?st)"
    using assms pids by (auto simp: fk_attach_pid_def fk_log_def update_group_def Let_def fun_upd_idem with_limits_def fun_eq_iff)
  then obtain b5 where b5: "fk_set_properties t (limits_of ?st) b4 = (Ok (), b5)" "fk_failure b5 = None" "fk_placements b5 = fk_placements b"
    "fk_groups b5 = (fk_groups b)(og \<mapsto> g, t \<mapsto> ?st)"
    by (simp add: fk_set_properties_def fk_log_def Let_def with_limits_def [symmetric])
  have og: "(fk_groups b)(og \<mapsto> g) = fk_groups b" using assms(8) by (rule fun_upd_idem)
  have "\<exists>b6. fk_cleanup_empty_owned_group t b5 = (Ok (), b6) \<and> fk_groups b6 = swept (fk_groups b) t \<and> fk_placements b6 = fk_placements b \<and>
      fk_failure b6 = None"
    using b5(2,3,4) unfolding og
    by (cases "fk_groups b t") (auto simp: fk_cleanup_empty_owned_group_def fk_log_def Let_def swept_def fake_target_def fun_upd_idem)
  then show ?thesis using b4 b5 by auto
qed

text \<open>The situation in which a plan can be carried out on the simulated backend: nothing is injected, the process is
  alive in a known group other than the target, and no dry run is asked for. The target group may exist.\<close>

definition fake_ready :: "fake_backend \<Rightarrow> memory_snapshot_store \<Rightarrow> cgroup_plan \<Rightarrow> string \<Rightarrow> group_state \<Rightarrow> bool" where
  "fake_ready b m p og g \<longleftrightarrow> fk_failure b = None \<and> mutation_ready (fk_capabilities b) \<and>
     fk_starts b (pl_pid p) = Some (pl_start_time_ticks p) \<and>
     fk_placements b (pl_pid p) = Some og \<and> fk_groups b og = Some g \<and> pl_pid p \<in> gs_pids g \<and>
     og \<noteq> pl_target_group p \<and> pl_pid p \<notin> gs_pids (fake_target b (pl_target_group p)) \<and> is_managed_name (pl_target_group p) \<and>
     pl_allowed p \<and> \<not> pl_dry_run p \<and> ms_inv m \<and> ms_room m"

lemma fake_apply_run:
  assumes "fake_ready b m p og g"
  shows "\<exists>sn b3 m4. apply_one fake_cgroup_backend memory_store sid ts p (b, m) = (Ok (Some sn), (b3, m4)) \<and>
     ms_inv m4 \<and> ms_view m4 (sn_id sn) \<noteq> None \<and>
     fk_failure b3 = None \<and> fk_starts b3 = fk_starts b \<and>
     fk_placements b3 = (fk_placements b)(pl_pid p \<mapsto> pl_target_group p) \<and>
     fk_groups b3 = (fk_groups b)(og \<mapsto> g\<lparr> gs_pids := gs_pids g - {pl_pid p} \<rparr>,
        pl_target_group p \<mapsto> (with_limits (pl_properties p) (fake_target b (pl_target_group p)))
          \<lparr> gs_pids := insert (pl_pid p) (gs_pids (fake_target b (pl_target_group p))) \<rparr>) \<and>
     sn_pid sn = pl_pid p \<and> sn_start_time_ticks sn = pl_start_time_ticks p \<and>
     sn_target_group sn = pl_target_group p \<and> sn_original_group sn = og \<and> \<not> sn_rolled_back sn \<and>
     sn_original_properties sn = limits_of (fake_target b (pl_target_group p))"
proof -
  let ?B = fake_cgroup_backend and ?t = "pl_target_group p" and ?pid = "pl_pid p"
  note rdy = assms [unfolded fake_ready_def]
  obtain sn0 where c: "apply_checks ?B sid ts p (b, m) = (Ok sn0, (b, m))" and og: "sn_original_group sn0 = og"
    and lim: "sn_original_properties sn0 = limits_of (fake_target b ?t)"
    using fake_checks [of b p og sid ts m] rdy by (auto simp: limits_of_def fake_target_def split: option.splits)
  note ok = apply_checks_Ok [OF c]
  obtain id m1 where per: "ms_persist sn0 m = (Ok id, m1)" "ms_inv m1" "ms_view m1 id \<noteq> None"
    using ms_persist_law [of m sn0] rdy by auto
  obtain b1 b2 b3 where mut: "if fk_groups b ?t = None then \<exists>st. fk_create_managed_group ?t b = (Ok st, b1) else b1 = b"
      "fk_set_properties ?t (pl_properties p) b1 = (Ok (), b2)" "fk_attach_pid ?t ?pid b2 = (Ok (), b3)"
    and b3: "fk_failure b3 = None" "fk_starts b3 = fk_starts b" "fk_placements b3 = (fk_placements b)(?pid \<mapsto> ?t)"
      "fk_groups b3 = (fk_groups b)(og \<mapsto> g\<lparr> gs_pids := gs_pids g - {?pid} \<rparr>,
        ?t \<mapsto> (with_limits (pl_properties p) (fake_target b ?t))\<lparr> gs_pids := insert ?pid (gs_pids (fake_target b ?t)) \<rparr>)"
    using fake_mutations [of b og ?t ?pid g "pl_properties p"] rdy by metis
  define m2 where "m2 = (if fk_groups b ?t = None then m1\<lparr> ms_managed_groups := insert ?t (ms_managed_groups m1) \<rparr> else m1)"
  have m2: "ms_inv m2" "ms_view m2 id \<noteq> None" using per by (auto simp: m2_def ms_inv_def ms_view_def)
  have ens: "ensure_group ?B memory_store sid ?t (b, m1) = (Ok (), (b1, m2))"
    using mut(1) rdy by (auto simp: ensure_group_def bindA_def b_read_def b_op_def s_op_def whenA_def ret_def memory_store_def
        fake_cgroup_backend_def fk_inspect_group_def ms_record_managed_group_def m2_def split: if_splits)
  define sn1 where "sn1 = sn0\<lparr> sn_id := id, sn_applied := True \<rparr>"
  obtain m3 where m3: "ms_update sn1 m2 = (Ok (), m3)" "ms_inv m3" "ms_view m3 id \<noteq> None"
    using ms_update_law [of m2 sn1] m2 by (auto simp: sn1_def)
  define sn where "sn = sn1\<lparr> sn_verified := True \<rparr>"
  obtain m4 where m4: "ms_update sn m3 = (Ok (), m4)" "ms_inv m4" "ms_view m4 id \<noteq> None"
    using ms_update_law [of m3 sn] m3 by (auto simp: sn_def sn1_def)
  have "apply_verify ?B memory_store p sn1 (b3, m3) = (Ok (Some sn), (b3, m4))"
    using b3 m4(1) by (simp add: apply_verify_def bindA_def b_read_def s_op_def ret_def memory_store_def fake_cgroup_backend_def
        fk_inspect_group_def Let_def sn_def)
  then have "apply_one ?B memory_store sid ts p (b, m) = (Ok (Some sn), (b3, m4))"
    using rdy c per(1) ens mut(2,3) m3(1)
    by (simp add: apply_one_def bindA_def s_op_def b_op_def catchA_def memory_store_def fake_cgroup_backend_def Let_def sn1_def)
  moreover have "sn_pid sn = ?pid" "sn_start_time_ticks sn = pl_start_time_ticks p" "sn_target_group sn = ?t"
    "sn_original_group sn = og" "\<not> sn_rolled_back sn" "sn_id sn = id" "sn_original_properties sn = limits_of (fake_target b ?t)"
    using ok og lim by (simp_all add: sn_def sn1_def)
  ultimately show ?thesis using b3 m4 by blast
qed

lemma fake_rollback_run:
  assumes "fake_ready b m p og g" and "ms_inv m4" and "ms_view m4 (sn_id sn) \<noteq> None"
    and "fk_failure b3 = None" and "fk_starts b3 = fk_starts b"
    and "fk_placements b3 = (fk_placements b)(pl_pid p \<mapsto> pl_target_group p)"
    and "fk_groups b3 = (fk_groups b)(og \<mapsto> g\<lparr> gs_pids := gs_pids g - {pl_pid p} \<rparr>,
        pl_target_group p \<mapsto> (with_limits (pl_properties p) (fake_target b (pl_target_group p)))
          \<lparr> gs_pids := insert (pl_pid p) (gs_pids (fake_target b (pl_target_group p))) \<rparr>)"
    and "sn_pid sn = pl_pid p" and "sn_start_time_ticks sn = pl_start_time_ticks p"
    and "sn_target_group sn = pl_target_group p" and "sn_original_group sn = og" and "\<not> sn_rolled_back sn"
    and "sn_original_properties sn = limits_of (fake_target b (pl_target_group p))"
  shows "\<exists>b6 m6. rollback_one fake_cgroup_backend memory_store sn (b3, m4) =
       (Ok (), (b6, m6), sn\<lparr> sn_rolled_back := True \<rparr>) \<and>
     fk_groups b6 = swept (fk_groups b) (pl_target_group p) \<and> fk_placements b6 = fk_placements b"
proof -
  let ?t = "pl_target_group p" and ?pid = "pl_pid p"
  note rdy = assms(1) [unfolded fake_ready_def]
  have ne: "og \<noteq> ?t" "?pid \<in> gs_pids g" "?pid \<notin> gs_pids (fake_target b ?t)" "fk_placements b ?pid = Some og" "fk_groups b og = Some g"
    using rdy by auto
  obtain b4 b5 b6 where un: "fk_attach_pid og ?pid b3 = (Ok (), b4)" "fk_groups b4 ?t \<noteq> None"
      "fk_set_properties ?t (sn_original_properties sn) b4 = (Ok (), b5)"
      "fk_cleanup_empty_owned_group ?t b5 = (Ok (), b6)" "fk_groups b6 = swept (fk_groups b) ?t" "fk_placements b6 = fk_placements b"
      "fk_failure b4 = None" "fk_failure b6 = None"
    using fake_undo [OF assms(4) ne(1-3) assms(6,7) ne(4,5)] unfolding assms(13) by blast
  define m5 where "m5 = (if fk_groups b6 ?t = None then m4\<lparr> ms_managed_groups := ms_managed_groups m4 - {?t} \<rparr> else m4)"
  have "ms_inv m5" "ms_view m5 (sn_id sn) \<noteq> None" using assms(2,3) by (auto simp: m5_def ms_inv_def ms_view_def)
  then obtain m6 where m6: "ms_update (sn\<lparr> sn_rolled_back := True \<rparr>) m5 = (Ok (), m6)"
    using ms_update_law [of m5 "sn\<lparr> sn_rolled_back := True \<rparr>"] by auto
  have pl: "rollback_placement fake_cgroup_backend sn (b3, m4) = (Ok (), (b4, m4))"
    using un(1) rdy assms(4-11) ne
    by (simp add: rollback_placement_def bindA_def b_op_def b_read_def whenA_def fake_cgroup_backend_def fk_inspect_group_def)
  have pr: "rollback_properties fake_cgroup_backend memory_store sn (b4, m4) = (Ok (), (b6, m5))"
    using un assms(10)
    by (auto simp: rollback_properties_def bindA_def b_op_def b_read_def s_op_def whenA_def ret_def memory_store_def fake_cgroup_backend_def
        fk_inspect_group_def ms_remove_managed_group_def m5_def)
  have "rollback_one fake_cgroup_backend memory_store sn (b3, m4) = (Ok (), (b6, m6), sn\<lparr> sn_rolled_back := True \<rparr>)"
    using pl pr m6 rdy assms(10,12) by (simp add: rollback_one_def bindA_def s_op_def memory_store_def Let_def)
  with un show ?thesis by blast
qed

text \<open>C5. Applying a plan and rolling it back is the identity on the simulated kernel state. Take an allowed plan
  that is no dry run, on a backend with complete capabilities and no injected failure, for a live process that is in an
  existing group other than the target. The target group may be new or exist already, with members or without. Then the
  application succeeds and moves the process, the rollback of its snapshot succeeds, and afterwards all groups with their
  limits and members and all placements are exactly what they were, but for one group: a target that existed, is Nemor's
  own and had no members is dropped as cleanup does.\<close>

theorem apply_rollback_roundtrip:
  assumes "fake_ready b m p og g"
  shows "\<exists>sn b' m' sn' b'' m''.
     apply_one fake_cgroup_backend memory_store sid ts p (b, m) = (Ok (Some sn), (b', m')) \<and>
     rollback_one fake_cgroup_backend memory_store sn (b', m') = (Ok (), (b'', m''), sn') \<and>
     fk_placements b' (pl_pid p) = Some (pl_target_group p) \<and>
     fk_groups b'' = swept (fk_groups b) (pl_target_group p) \<and> fk_placements b'' = fk_placements b"
proof -
  from fake_apply_run [OF assms, of sid ts] obtain sn b3 m4 where
    ap: "apply_one fake_cgroup_backend memory_store sid ts p (b, m) = (Ok (Some sn), (b3, m4))"
    and pl: "fk_placements b3 = (fk_placements b)(pl_pid p \<mapsto> pl_target_group p)"
    and rb: "\<exists>b6 m6. rollback_one fake_cgroup_backend memory_store sn (b3, m4) =
       (Ok (), (b6, m6), sn\<lparr> sn_rolled_back := True \<rparr>) \<and>
       fk_groups b6 = swept (fk_groups b) (pl_target_group p) \<and> fk_placements b6 = fk_placements b"
    using fake_rollback_run [OF assms] by metis
  have "fk_placements b3 (pl_pid p) = Some (pl_target_group p)" using pl by simp
  with ap rb show ?thesis by blast
qed

subsection \<open>Examples\<close>

definition example_backend :: fake_backend where
  "example_backend = \<lparr> fk_capabilities = \<lparr> cap_cgroup_v2 = True, cap_memory_controller = True,
       cap_hierarchy = ''/fake'', cap_writable = True, cap_memory_low = True, cap_memory_high = True,
       cap_attach = True \<rparr>,
     fk_groups = [''/user'' \<mapsto> \<lparr> gs_name = ''/user'', gs_path = ''/fake/user'', gs_owned_by_nemor = False,
       gs_memory_low = None, gs_memory_high = None, gs_pids = {7} \<rparr>],
     fk_starts = [7 \<mapsto> 100], fk_placements = [7 \<mapsto> ''/user''], fk_operations = [], fk_failure = None \<rparr>"

definition example_plan :: cgroup_plan where
  "example_plan = \<lparr> pl_process_catalog_id = 1, pl_identity = [], pl_pid = 7, pl_start_time_ticks = 100,
     pl_source_group = ''/user'', pl_target_group = BACKGROUND_GROUP,
     pl_properties = \<lparr> rp_memory_low = None, rp_memory_high = Some 4096 \<rparr>, pl_reason = [],
     pl_allowed = True, pl_block_reasons = [], pl_dry_run = False \<rparr>"

lemma example_ready:
  "fake_ready example_backend memory_store_default example_plan ''/user'' \<lparr> gs_name = ''/user'', gs_path = ''/fake/user'',
     gs_owned_by_nemor = False, gs_memory_low = None, gs_memory_high = None, gs_pids = {7} \<rparr>"
  by (simp add: fake_ready_def example_backend_def example_plan_def mutation_ready_def is_managed_name_def fake_target_def
      BACKGROUND_GROUP_def ms_inv_def ms_room_def memory_store_default_def word_neq_0_conv [symmetric])

text \<open>The same with another process in the target group already.\<close>

definition second_backend :: fake_backend where
  "second_backend = example_backend\<lparr> fk_groups := (fk_groups example_backend)(BACKGROUND_GROUP \<mapsto> \<lparr> gs_name = BACKGROUND_GROUP,
     gs_path = ''/fake/nemor-background.slice'', gs_owned_by_nemor = True, gs_memory_low = None, gs_memory_high = Some 100, gs_pids = {9} \<rparr>) \<rparr>"

lemma second_ready:
  "fake_ready second_backend memory_store_default example_plan ''/user'' \<lparr> gs_name = ''/user'', gs_path = ''/fake/user'',
     gs_owned_by_nemor = False, gs_memory_low = None, gs_memory_high = None, gs_pids = {7} \<rparr>"
  using example_ready by (simp add: fake_ready_def second_backend_def fake_target_def example_plan_def BACKGROUND_GROUP_def)

lemma example_apply:
  obtains sn b' m' where "apply_one fake_cgroup_backend memory_store 1 2 example_plan
      (example_backend, memory_store_default) = (Ok (Some sn), (b', m'))"
    and "fk_placements b' 7 = Some BACKGROUND_GROUP"
  using fake_apply_run [OF example_ready, of 1 2] by (auto simp: example_plan_def)

theorem apply_rollback_roundtrip_witness:
  "\<exists>sn b' m' sn' b'' m''. apply_one fake_cgroup_backend memory_store 1 2 example_plan
      (second_backend, memory_store_default) = (Ok (Some sn), (b', m')) \<and> fk_placements b' 7 = Some BACKGROUND_GROUP \<and>
     rollback_one fake_cgroup_backend memory_store sn (b', m') = (Ok (), (b'', m''), sn') \<and>
     fk_groups b'' = fk_groups second_backend \<and> fk_placements b'' = fk_placements second_backend"
proof -
  have "swept (fk_groups second_backend) (pl_target_group example_plan) = fk_groups second_backend"
    by (simp add: swept_def second_backend_def example_plan_def)
  with apply_rollback_roundtrip [OF second_ready, of 1 2] show ?thesis
    by (simp add: example_plan_def) blast
qed

theorem apply_one_success_verified_witness:
  "\<exists>sn w' state. apply_one fake_cgroup_backend memory_store 1 2 example_plan
      (example_backend, memory_store_default) = (Ok (Some sn), w') \<and>
     be_inspect_group fake_cgroup_backend (fst w') BACKGROUND_GROUP = Ok (Some state) \<and>
     7 \<in> gs_pids state \<and> gs_memory_high state = Some 4096"
proof -
  obtain sn b' m' where a: "apply_one fake_cgroup_backend memory_store 1 2 example_plan
      (example_backend, memory_store_default) = (Ok (Some sn), (b', m'))" by (rule example_apply)
  from apply_one_success_verified [OF a] a show ?thesis by (auto simp: example_plan_def)
qed

theorem persist_before_mutate_witness:
  "\<exists>sn id s1. st_persist memory_store sn memory_store_default = (Ok id, s1) \<and> sn_pid sn = 7 \<and>
     sn_original_group sn = ''/user''"
proof -
  obtain sn b' m' where a: "apply_one fake_cgroup_backend memory_store 1 2 example_plan
      (example_backend, memory_store_default) = (Ok (Some sn), (b', m'))"
    and p: "fk_placements b' 7 = Some BACKGROUND_GROUP" by (rule example_apply)
  have "fst (b', m') \<noteq> fst (example_backend, memory_store_default)"
    using p by (auto simp: example_backend_def BACKGROUND_GROUP_def)
  from persist_before_mutate [OF a this] obtain sn id s1 where
    "st_persist memory_store sn memory_store_default = (Ok id, s1)" "sn_pid sn = 7"
    "be_process_group fake_cgroup_backend example_backend 7 = Ok (Some (sn_original_group sn))"
    by (auto simp: example_plan_def)
  moreover have "be_process_group fake_cgroup_backend example_backend 7 = Ok (Some ''/user'')"
    by (simp add: fake_cgroup_backend_def example_backend_def)
  ultimately show ?thesis by auto
qed

theorem applied_snapshot_is_pending_witness:
  "\<exists>sn b' m' xs. apply_one fake_cgroup_backend memory_store 1 2 example_plan
      (example_backend, memory_store_default) = (Ok (Some sn), (b', m')) \<and> ms_pending m' = Ok xs \<and> sn \<in> set xs"
proof -
  obtain sn b' m' where a: "apply_one fake_cgroup_backend memory_store 1 2 example_plan
      (example_backend, memory_store_default) = (Ok (Some sn), (b', m'))" by (rule example_apply)
  have "ms_inv memory_store_default" "ms_room memory_store_default"
    using example_ready by (auto simp: fake_ready_def)
  from applied_snapshot_is_pending [OF this a] a show ?thesis by blast
qed

text \<open>A plan that must not be carried out changes nothing: when it is a dry run, is blocked,
  targets a group outside the program's namespace, names a process whose start time has changed,
  or meets a kernel without the complete writable interface, then applying it returns backend
  and store exactly as they were and never reports a mutation, for every backend and store.\<close>

theorem refused_plan_is_inert:
  assumes "pl_dry_run p \<or> \<not> pl_allowed p \<or> \<not> is_managed_name (pl_target_group p) \<or>
      be_process_start_time B (fst w) (pl_pid p) \<noteq> Ok (Some (pl_start_time_ticks p)) \<or>
      (\<nexists>caps. be_capabilities B (fst w) = Ok caps \<and> mutation_ready caps)"
  shows "snd (apply_one B S sid ts p w) = w \<and> (\<nexists>sn. fst (apply_one B S sid ts p w) = Ok (Some sn))"
proof (cases "pl_dry_run p")
  case True
  then show ?thesis by (simp add: apply_one_dry_run)
next
  case False
  obtain r where c: "apply_checks B sid ts p w = (r, w)"
    using apply_checks_world [of B sid ts p w] by (cases "apply_checks B sid ts p w") simp
  show ?thesis
  proof (cases r)
    case (Inl e)
    with c have "apply_checks B sid ts p w = (Err e, w)" by simp
    from apply_one_checks_fail [OF False this, of S] show ?thesis by simp
  next
    case (Inr sn)
    with c have "apply_checks B sid ts p w = (Ok sn, w)" by simp
    note ok = apply_checks_Ok [OF this]
    from assms False ok(2,3,4,12) show ?thesis by auto
  qed
qed

theorem refused_plan_is_inert_witness:
  "snd (apply_one fake_cgroup_backend memory_store 1 2 (example_plan\<lparr> pl_allowed := False \<rparr>)
      (example_backend, memory_store_default)) = (example_backend, memory_store_default)"
  using refused_plan_is_inert [of "example_plan\<lparr> pl_allowed := False \<rparr>" fake_cgroup_backend
      "(example_backend, memory_store_default)" memory_store 1 2] by simp

text \<open>A store with one pending snapshot, of a process that has exited since.\<close>

definition example_pending :: mutation_snapshot where
  "example_pending = \<lparr> sn_id = 1, sn_session_id = 1, sn_timestamp_ns = 2, sn_process_catalog_id = 1, sn_identity = [],
     sn_pid = 9, sn_start_time_ticks = 50, sn_original_group = ''/user'', sn_target_group = BACKGROUND_GROUP,
     sn_original_properties = \<lparr> rp_memory_low = None, rp_memory_high = None \<rparr>,
     sn_requested_properties = \<lparr> rp_memory_low = None, rp_memory_high = Some 4096 \<rparr>, sn_reason = [],
     sn_applied = True, sn_verified = True, sn_rolled_back = False, sn_last_error = None \<rparr>"

definition example_store :: memory_snapshot_store where
  "example_store = \<lparr> ms_next_id = 1, ms_snapshots = [(1, example_pending)], ms_managed_groups = {} \<rparr>"

theorem recover_leaves_nothing_pending_witness:
  "\<exists>m'. ms_pending example_store = Ok [example_pending] \<and>
     recover fake_cgroup_backend memory_store (example_backend, example_store) = ([Ok ()], (example_backend, m')) \<and>
     ms_pending m' = Ok []"
proof -
  have pend: "ms_pending example_store = Ok [example_pending]"
    by (simp add: ms_pending_def example_store_def bt_values_def example_pending_def)
  have i: "ms_inv example_store" by (simp add: ms_inv_def example_store_def bt_wf_def example_pending_def)
  obtain m' where m': "ms_update (example_pending\<lparr> sn_rolled_back := True \<rparr>) example_store = (Ok (), m')"
    using ms_update_law [OF i, of "example_pending\<lparr> sn_rolled_back := True \<rparr>"]
    by (auto simp: ms_view_def example_store_def example_pending_def)
  have mg: "is_managed_name BACKGROUND_GROUP" by (simp add: is_managed_name_def)
  have g: "fk_groups example_backend BACKGROUND_GROUP = None" "fk_starts example_backend 9 = None"
    by (simp_all add: example_backend_def BACKGROUND_GROUP_def)
  have f: "sn_target_group example_pending = BACKGROUND_GROUP" "sn_pid example_pending = 9"
    "\<not> sn_rolled_back example_pending" by (simp_all add: example_pending_def)
  have rec: "recover fake_cgroup_backend memory_store (example_backend, example_store) = ([Ok ()], (example_backend, m'))"
    using m' pend mg g f
    by (simp add: recover_def memory_store_def rollback_act_def rollback_one_def rollback_placement_def
        rollback_properties_def bindA_def b_read_def s_op_def whenA_def ret_def fake_cgroup_backend_def
        fk_inspect_group_def Let_def)
  show ?thesis using recover_leaves_nothing_pending [OF i rec] rec pend by simp
qed

theorem plan_total_and_bounded_witness:
  "\<exists>p. plan \<lparr> pin_process_catalog_id = 1, pin_identity = [], pin_current_start_time_ticks = None,
       pin_source_group = [], pin_classification = classify_one (\<lambda>s. s) blank_sample (classification default_config)
         Map.empty Map.empty, pin_total_ram_bytes = 8589934592, pin_protected_workload_bytes = 0 \<rparr>
     (cgroups default_config) ''observe'' = Some p"
  using plan_total_and_bounded [OF default_config_valid] by blast

definition example_input :: plan_input where
  "example_input = \<lparr> pin_process_catalog_id = 1, pin_identity = replicate 64 CHR ''a'',
     pin_current_start_time_ticks = Some 0, pin_source_group = ''/user'',
     pin_classification = \<lparr> pc_sample = blank_sample, pc_executable = ''updatedb'', pc_command_signature = [],
       pc_application_name = None, pc_category = CatBackground, pc_is_game = False, pc_is_critical = False,
       pc_protected = False, pc_protected_game = False, pc_cold_candidate = True, pc_foreground = FgBackground,
       pc_foreground_confidence = Fin 1, pc_confidence = Fin 1, pc_reasons = [] \<rparr>,
     pin_total_ram_bytes = 8589934592, pin_protected_workload_bytes = 0 \<rparr>"

definition example_cgroups :: cgroups_config where
  "example_cgroups = (cgroups default_config)\<lparr> cg_enabled := True, cg_dry_run := False, cg_allow_move := True,
     cg_allowed_identities := [replicate 64 CHR ''a''] \<rparr>"

theorem plan_allowed_iff_witness:
  "\<exists>p. plan example_input example_cgroups ''active'' = Some p \<and> pl_allowed p"
proof -
  have "cgroups_valid (cgroups default_config)" by (rule validate_cgroups [OF default_config_valid])
  then have "cgroups_valid example_cgroups"
    by (simp add: cgroups_valid_def example_cgroups_def lowercase_sha256_def is_ascii_hexdigit_def
        is_ascii_digit_def is_ascii_upper_def list_all_iff)
  note valid = this
  obtain low where low: "memory_low_bytes 8589934592 0 example_cgroups = Some low"
    using memory_low_bounds [OF valid] by blast
  obtain high where high: "memory_high_bytes 8589934592 low example_cgroups = Some high"
    using memory_high_bounds [OF valid] by blast
  obtain p where p: "plan example_input example_cgroups ''active'' = Some p"
    using low high by (simp add: plan_def plan_target_def example_input_def protected_target_def)
  then have "pl_start_time_ticks p = 0" by (auto simp: plan_def example_input_def blank_sample_def)
  then have "pl_allowed p"
    using plan_allowed_iff [OF p] by (simp add: example_input_def example_cgroups_def)
  with p show ?thesis by blast
qed

subsection \<open>The Linux backend\<close>

text \<open>The file operations the backend calls, on the state of a file system.\<close>

record 'f file_system =
  fs_read_to_string :: "'f \<Rightarrow> string \<Rightarrow> (io_error, string) result"
  fs_write :: "string \<Rightarrow> string \<Rightarrow> 'f \<Rightarrow> (io_error, unit) result \<times> 'f"
  fs_create_dir :: "string \<Rightarrow> 'f \<Rightarrow> (io_error, unit) result \<times> 'f"
  fs_remove_dir :: "string \<Rightarrow> 'f \<Rightarrow> (io_error, unit) result \<times> 'f"
  fs_exists :: "'f \<Rightarrow> string \<Rightarrow> bool"
  fs_is_file :: "'f \<Rightarrow> string \<Rightarrow> bool"
  fs_can_write :: "'f \<Rightarrow> string \<Rightarrow> bool"

definition group_path :: "string \<Rightarrow> string \<Rightarrow> string act_result" where
  "group_path base name = (if \<not> is_managed_name name
     then Err (Blocked ''group name is outside the Nemor namespace'') else Ok (path_join base name))"

definition inspect_path :: "string \<Rightarrow> string \<Rightarrow> (string \<times> bool) act_result" where
  "inspect_path base name = (if is_managed_name name then Ok (path_join base name, True)
     else case strip_prefix ''/'' name of
        None \<Rightarrow> Err (Blocked ''external group must be an absolute cgroup path'')
      | Some relative \<Rightarrow>
          if list_ex (\<lambda>c. c = [] \<or> c = ''.'' \<or> c = ''..'') (split_on CHR ''/'' relative)
          then Err (Blocked ''external group path is not normalized'')
          else Ok (path_join base relative, False))"

definition io_err :: "string \<Rightarrow> (io_error, 'a) result \<Rightarrow> 'a act_result" where
  "io_err operation r = map_sum (Backend operation) id r"

definition lx_op :: "string \<Rightarrow> ('f \<Rightarrow> (io_error, 'a) result \<times> 'f) \<Rightarrow> ('f, 'a) act" where
  "lx_op operation m f = (case m f of (r, f') \<Rightarrow> (io_err operation r, f'))"

definition lx_capabilities :: "'f file_system \<Rightarrow> string \<Rightarrow> 'f \<Rightarrow> cgroup_capabilities act_result" where
  "lx_capabilities F base f =
     rbind (io_err ''read cgroup.controllers'' (fs_read_to_string F f (path_join base ''cgroup.controllers'')))
       (\<lambda>controllers.
        let memory = (''memory'' \<in> set (split_whitespace controllers));
            probe = path_join base FOREGROUND_GROUP
        in Ok \<lparr> cap_cgroup_v2 = fs_is_file F f (path_join base ''cgroup.controllers''),
             cap_memory_controller = memory, cap_hierarchy = base,
             cap_writable = fs_can_write F f (path_join base ''cgroup.procs''),
             cap_memory_low = (memory \<and> (fs_exists F f (path_join probe ''memory.low'') \<or> \<not> fs_exists F f probe)),
             cap_memory_high = (memory \<and> (fs_exists F f (path_join probe ''memory.high'') \<or> \<not> fs_exists F f probe)),
             cap_attach = (fs_exists F f (path_join probe ''cgroup.procs'') \<or>
                           fs_exists F f (path_join base ''cgroup.procs'')) \<rparr>)"

definition lx_read_limit :: "'f file_system \<Rightarrow> 'f \<Rightarrow> string \<Rightarrow> string \<Rightarrow> u64 option" where
  "lx_read_limit F f path file = (case fs_read_to_string F f (path_join path file) of
      Inl _ \<Rightarrow> None
    | Inr text \<Rightarrow> parse_u64 (trim text))"

definition lx_inspect_group :: "'f file_system \<Rightarrow> string \<Rightarrow> 'f \<Rightarrow> string \<Rightarrow> group_state option act_result" where
  "lx_inspect_group F base f name =
     rbind (inspect_path base name) (\<lambda>(path, owned).
       if \<not> fs_exists F f path then Ok None
       else Ok (Some \<lparr> gs_name = name, gs_path = path, gs_owned_by_nemor = owned,
          gs_memory_low = lx_read_limit F f path ''memory.low'',
          gs_memory_high = lx_read_limit F f path ''memory.high'',
          gs_pids = set (List.map_filter parse_u32
             (lines (case fs_read_to_string F f (path_join path ''cgroup.procs'') of Inl _ \<Rightarrow> [] | Inr t \<Rightarrow> t))) \<rparr>))"

definition lx_create_managed_group :: "'f file_system \<Rightarrow> string \<Rightarrow> string \<Rightarrow> ('f, group_state) act" where
  "lx_create_managed_group F base name = (case group_path base name of
      Inl e \<Rightarrow> throw e
    | Inr path \<Rightarrow> bindA (lx_op ''create managed group'' (fs_create_dir F path)) (\<lambda>_.
        \<lambda>f. (rbind (lx_inspect_group F base f name) (ok_or (Verification ''created group is absent'')), f)))"

definition lx_write_limit :: "'f file_system \<Rightarrow> string \<Rightarrow> string \<Rightarrow> u64 option \<Rightarrow> ('f, unit) act" where
  "lx_write_limit F path file v = (case v of
      None \<Rightarrow> ret ()
    | Some x \<Rightarrow> lx_op (''write '' @ file) (fs_write F (path_join path file) (show_nat (unat x))))"

definition lx_set_properties :: "'f file_system \<Rightarrow> string \<Rightarrow> string \<Rightarrow> requested_properties \<Rightarrow> ('f, unit) act" where
  "lx_set_properties F base name props = (case group_path base name of
      Inl e \<Rightarrow> throw e
    | Inr path \<Rightarrow> bindA (lx_write_limit F path ''memory.low'' (rp_memory_low props))
        (\<lambda>_. lx_write_limit F path ''memory.high'' (rp_memory_high props)))"

definition lx_attach_pid :: "'f file_system \<Rightarrow> string \<Rightarrow> string \<Rightarrow> u32 \<Rightarrow> ('f, unit) act" where
  "lx_attach_pid F base name pid = (case
      (if is_managed_name name then group_path base name
       else case strip_prefix ''/'' name of
          None \<Rightarrow> Err (Blocked ''original group must be an absolute cgroup path'')
        | Some relative \<Rightarrow> Ok (path_join base relative)) of
      Inl e \<Rightarrow> throw e
    | Inr path \<Rightarrow> lx_op ''attach PID'' (fs_write F (path_join path ''cgroup.procs'') (show_nat (unat pid))))"

definition proc_path :: "u32 \<Rightarrow> string \<Rightarrow> string" where
  "proc_path pid file = ''/proc/'' @ show_nat (unat pid) @ ''/'' @ file"

text \<open>A process file that does not exist means that the process is gone.\<close>

definition lx_proc_file :: "'f file_system \<Rightarrow> 'f \<Rightarrow> string \<Rightarrow> string \<Rightarrow> string option act_result" where
  "lx_proc_file F f path operation = (case fs_read_to_string F f path of
      Inr text \<Rightarrow> Ok (Some text)
    | Inl e \<Rightarrow> if io_kind e = NotFound then Ok None else Err (Backend operation e))"

definition lx_process_start_time :: "'f file_system \<Rightarrow> 'f \<Rightarrow> u32 \<Rightarrow> u64 option act_result" where
  "lx_process_start_time F f pid =
     rbind (lx_proc_file F f (proc_path pid ''stat'') ''read process stat'') (\<lambda>text. case text of
        None \<Rightarrow> Ok None
      | Some stat \<Rightarrow>
          if CHR '')'' \<notin> set stat then Err (Verification ''invalid process stat'')
          else let fields = split_whitespace (rev (takeWhile (\<lambda>c. c \<noteq> CHR '')'') (rev stat)))
               in Ok (if 19 < length fields then parse_u64 (fields ! 19) else None))"

definition lx_process_group :: "'f file_system \<Rightarrow> 'f \<Rightarrow> u32 \<Rightarrow> string option act_result" where
  "lx_process_group F f pid =
     rbind (lx_proc_file F f (proc_path pid ''cgroup'') ''read process cgroup'') (\<lambda>text. Ok (case text of
        None \<Rightarrow> None
      | Some t \<Rightarrow> (case List.map_filter (strip_prefix ''0::'') (lines t) of [] \<Rightarrow> None | g # _ \<Rightarrow> Some g)))"

definition lx_cleanup_empty_owned_group :: "'f file_system \<Rightarrow> string \<Rightarrow> string \<Rightarrow> ('f, unit) act" where
  "lx_cleanup_empty_owned_group F base name f = (case lx_inspect_group F base f name of
      Inl e \<Rightarrow> (Err e, f)
    | Inr None \<Rightarrow> (Ok (), f)
    | Inr (Some st) \<Rightarrow>
        if \<not> gs_owned_by_nemor st \<or> gs_pids st \<noteq> {} then (Ok (), f)
        else lx_op ''remove empty managed group'' (fs_remove_dir F (gs_path st)) f)"

definition linux_backend :: "'f file_system \<Rightarrow> string \<Rightarrow> 'f cgroup_backend" where
  "linux_backend F base = \<lparr> be_kind = (\<lambda>_. LinuxCgroupfs), be_capabilities = lx_capabilities F base,
     be_inspect_group = lx_inspect_group F base, be_create_managed_group = lx_create_managed_group F base,
     be_set_properties = lx_set_properties F base, be_attach_pid = lx_attach_pid F base,
     be_process_start_time = lx_process_start_time F, be_process_group = lx_process_group F,
     be_cleanup_empty_owned_group = lx_cleanup_empty_owned_group F base \<rparr>"

text \<open>C36. On Linux a background plan is never verified. Such a plan requests no \<open>memory.low\<close>, the
  backend then writes none, but its readback parses whatever number the file holds and compares
  it with the absent request; cgroup v2 documents that \<open>memory.low\<close> of a group holds an amount,
  0 by default. So whenever that file is readable as a number, applying the plan does not
  succeed: it takes the rollback path.\<close>

theorem linux_background_plan_never_verified:
  assumes "rp_memory_low (pl_properties p) = None"
    and "apply_one (linux_backend F base) S sid ts p w = (r, w')"
    and "\<exists>text v. fs_read_to_string F (fst w') (path_join (path_join base (pl_target_group p)) ''memory.low'') = Ok text \<and>
           parse_u64 (trim text) = Some v"
  shows "\<nexists>sn. r = Ok (Some sn)"
proof
  assume "\<exists>sn. r = Ok (Some sn)"
  then obtain sn where "apply_one (linux_backend F base) S sid ts p w = (Ok (Some sn), w')" using assms(2) by auto
  from apply_one_readback [OF this] obtain st where
    st: "lx_inspect_group F base (fst w') (pl_target_group p) = Ok (Some st)" "gs_memory_low st = None"
    and m: "is_managed_name (pl_target_group p)"
    using assms(1) by (auto simp: linux_backend_def)
  then have "lx_read_limit F (fst w') (path_join base (pl_target_group p)) ''memory.low'' = None"
    by (auto simp: lx_inspect_group_def inspect_path_def split: if_splits)
  with assms(3) show False by (auto simp: lx_read_limit_def)
qed

text \<open>A file system of named files, in which a new control group has the kernel's default limits.\<close>

definition map_fs :: "(string \<rightharpoonup> string) file_system" where
  "map_fs = \<lparr>
     fs_read_to_string = (\<lambda>f p. ok_or (IoError NotFound ''No such file or directory'') (f p)),
     fs_write = (\<lambda>p text f. (Ok (), f(p \<mapsto> text))),
     fs_create_dir = (\<lambda>p f. (Ok (), f(p @ ''/memory.low'' \<mapsto> ''0'', p @ ''/memory.high'' \<mapsto> ''max'',
        p @ ''/cgroup.procs'' \<mapsto> []))),
     fs_remove_dir = (\<lambda>p f. (Ok (), \<lambda>q. if starts_with q (p @ ''/'') then None else f q)),
     fs_exists = (\<lambda>f p. f p \<noteq> None \<or> f (p @ ''/cgroup.procs'') \<noteq> None),
     fs_is_file = (\<lambda>f p. f p \<noteq> None),
     fs_can_write = (\<lambda>f p. f p \<noteq> None) \<rparr>"

definition example_low_path :: string where
  "example_low_path = path_join (path_join ''/sys/fs/cgroup'' BACKGROUND_GROUP) ''memory.low''"

theorem linux_background_plan_never_verified_witness:
  "\<nexists>sn. fst (apply_one (linux_backend map_fs ''/sys/fs/cgroup'') memory_store 1 2 example_plan
      ([example_low_path \<mapsto> ''0''], memory_store_default)) = Ok (Some sn)"
proof -
  let ?B = "linux_backend map_fs ''/sys/fs/cgroup''" and ?w = "([example_low_path \<mapsto> ''0''], memory_store_default)"
  have "example_low_path \<noteq> path_join ''/sys/fs/cgroup'' ''cgroup.controllers''"
    by (simp add: example_low_path_def path_join_def BACKGROUND_GROUP_def starts_with_def ends_with_def strip_suffix_def)
  then have "\<exists>e. apply_checks ?B 1 2 example_plan ?w = (Err e, ?w)"
    by (simp add: apply_checks_def bindA_def b_read_def throw_def linux_backend_def lx_capabilities_def
        map_fs_def io_err_def)
  then obtain e where c: "apply_checks ?B 1 2 example_plan ?w = (Err e, ?w)" by blast
  have "\<not> pl_dry_run example_plan" by (simp add: example_plan_def)
  from apply_one_checks_fail [OF this c, of memory_store]
  have a: "apply_one ?B memory_store 1 2 example_plan ?w = (Err e, ?w)" .
  have low: "rp_memory_low (pl_properties example_plan) = None" by (simp add: example_plan_def)
  have p: "parse_u64 (trim ''0'') = Some 0"
    by (simp add: parse_u64_def parse_uint_def trim_def trim_end_ws_def is_ws_def parse_digits_def strip_plus_def
        is_ascii_digit_def digit_val_def)
  have "fs_read_to_string map_fs (fst ?w)
      (path_join (path_join ''/sys/fs/cgroup'' (pl_target_group example_plan)) ''memory.low'') = Ok ''0''"
    by (simp add: map_fs_def example_low_path_def example_plan_def)
  with p have "\<nexists>sn. Err e = Ok (Some sn :: mutation_snapshot option)"
    by (intro linux_background_plan_never_verified [OF low a]) blast
  then show ?thesis by (simp add: a)
qed

end
