(* ===== verification/Workload.thy ===== *)
theory Workload
  imports Classifier
begin

text \<open>
  The workload rules of \<open>crates/classifier/src/workload.rs\<close>, the \<open>WorkloadStabilizer\<close> of
  \<open>stabilize.rs\<close> and the \<open>Classifier\<close> of \<open>lib.rs\<close>. The candidates are collected in the order
  of the source, one definition per rule; the selection takes the first class of the
  precedence list that has a candidate with enough confidence.
\<close>

subsection \<open>Candidates\<close>

record candidate =
  cand_class :: workload_class
  cand_confidence :: f64
  cand_evidence :: evidence

definition mk_candidate ::
  "workload_class \<Rightarrow> f64 \<Rightarrow> string \<Rightarrow> string \<Rightarrow> string option \<Rightarrow> candidate" where
  "mk_candidate class confidence code observed threshold =
     \<lparr> cand_class = class, cand_confidence = confidence,
       cand_evidence = \<lparr> ev_code = code,
         ev_description = ''deterministic evidence for '' @ show_workload_class class,
         ev_observed = observed, ev_threshold = threshold, ev_contribution = confidence \<rparr> \<rparr>"

definition percent_of_total :: "u64 \<Rightarrow> system_sample \<Rightarrow> f64" where
  "percent_of_total bytes sample =
     f64_mul (f64_div (f64_of_u64 bytes) (f64_of_u64 (ss_mem_total_bytes sample))) (Fin 100)"

definition memory_percent :: "system_sample option \<Rightarrow> f64 option" where
  "memory_percent system = Option.bind system (\<lambda>sample.
     if ss_mem_total_bytes sample > 0 then Some (percent_of_total (ss_mem_available_bytes sample) sample)
     else None)"

definition psi_some_avg10 :: "system_sample option \<Rightarrow> f64 option" where
  "psi_some_avg10 system = map_option psl_avg10 (Option.bind (Option.bind system ss_psi_memory) psi_some)"

definition psi_full_avg10 :: "system_sample option \<Rightarrow> f64 option" where
  "psi_full_avg10 system = map_option psl_avg10 (Option.bind (Option.bind system ss_psi_memory) psi_full)"

definition available_at_or_below :: "system_sample option \<Rightarrow> u8 \<Rightarrow> bool" where
  "available_at_or_below system threshold = is_some_and (\<lambda>sample.
     (ucast (ss_mem_available_bytes sample) :: u128) * 100
       \<le> (ucast (ss_mem_total_bytes sample) :: u128) * ucast threshold) system"

definition percent_text :: "f64 \<Rightarrow> string" where
  "percent_text v = fmt2 v @ ''% available''"

definition pressure_candidates :: "system_sample option \<Rightarrow> pressure_config \<Rightarrow> candidate list" where
  "pressure_candidates system pcfg =
     (let full = psi_full_avg10 system; some = psi_some_avg10 system; mem = memory_percent system in
      (if available_at_or_below system (prs_critical_available_percent pcfg) \<or>
          is_some_and (\<lambda>v. f64_ge v (prs_psi_full_avg10_threshold pcfg)) full
       then [mk_candidate WCriticalPressure (Fin 1) ''critical_memory_pressure''
               (unwrap_or (''PSI full '' @ fmt2 (unwrap_or (Fin 0) full)) (map_option percent_text mem))
               (Some (''<= '' @ show_nat (unat (prs_critical_available_percent pcfg)) @
                 ''% or PSI full >= '' @ fmt2 (prs_psi_full_avg10_threshold pcfg)))]
       else []) @
      (if available_at_or_below system (prs_pressure_available_percent pcfg) \<or>
          is_some_and (\<lambda>v. f64_ge v (prs_psi_some_avg10_threshold pcfg)) some
       then [mk_candidate WMemoryPressure (lit (23 / 25)) ''sustained_memory_pressure''
               (unwrap_or (''PSI some '' @ fmt2 (unwrap_or (Fin 0) some)) (map_option percent_text mem))
               (Some (''<= '' @ show_nat (unat (prs_pressure_available_percent pcfg)) @
                 ''% or PSI some >= '' @ fmt2 (prs_psi_some_avg10_threshold pcfg)))]
       else []))"

definition of_category :: "process_category \<Rightarrow> process_classification list \<Rightarrow> process_classification list" where
  "of_category cat ps = filter (\<lambda>p. pc_category p = cat) ps"

definition total_rss :: "process_classification list \<Rightarrow> u64" where
  "total_rss ps = sum_list (List.map_filter (\<lambda>p. ps_rss_bytes (pc_sample p)) ps)"

definition rss_percent :: "system_sample option \<Rightarrow> process_classification list \<Rightarrow> f64" where
  "rss_percent system ps = unwrap_or (Fin 0)
     (map_option (percent_of_total (total_rss ps)) (opt_filter (\<lambda>s. ss_mem_total_bytes s > 0) system))"

definition gaming_candidates ::
  "system_sample option \<Rightarrow> process_classification list \<Rightarrow> classification_config \<Rightarrow> candidate list" where
  "gaming_candidates system ps config =
     (let games = of_category CatGame ps;
          game_confidence = foldl f64_max (Fin 0) (map pc_confidence games);
          non_game_percent = rss_percent system (filter (\<lambda>p. pc_category p \<noteq> CatGame) ps)
      in if games = [] then [] else
         (if f64_ge non_game_percent (cls_gaming_background_memory_percent config)
          then [mk_candidate WGamingBackgroundHeavy (f64_max game_confidence (lit (4 / 5)))
                  ''game_with_heavy_background'' (fmt2 non_game_percent @ ''% non-game RSS'')
                  (Some (''>= '' @ fmt2 (cls_gaming_background_memory_percent config) @ ''%''))]
          else []) @
         [mk_candidate WGaming game_confidence ''protected_game_process''
            (show_nat (length games) @ '' game process(es)'')
            (Some ''at least one independently confirmed game'')])"

definition virtualization_candidates ::
  "system_sample option \<Rightarrow> process_classification list \<Rightarrow> classification_config \<Rightarrow> candidate list" where
  "virtualization_candidates system ps config =
     (let vms = of_category CatVirtualization ps; percent = rss_percent system vms
      in if vms \<noteq> [] \<and> f64_ge percent (cls_virtualization_memory_percent config)
         then [mk_candidate WVirtualization (lit (22 / 25)) ''virtual_machine_memory_share''
                 (fmt2 percent @ ''% VM RSS'')
                 (Some (''>= '' @ fmt2 (cls_virtualization_memory_percent config) @ ''%''))]
         else [])"

definition browser_candidates ::
  "system_sample option \<Rightarrow> process_classification list \<Rightarrow> classification_config \<Rightarrow> candidate list" where
  "browser_candidates system ps config =
     (let browsers = of_category CatBrowser ps; percent = rss_percent system browsers
      in if cls_browser_heavy_process_count config \<le> length browsers \<and>
            f64_ge percent (cls_browser_heavy_memory_percent config)
         then [mk_candidate WBrowserHeavy (lit (17 / 20)) ''browser_processes_and_memory''
                 (show_nat (length browsers) @ '' processes, '' @ fmt2 percent @ ''% RSS'')
                 (Some (''>= '' @ show_nat (cls_browser_heavy_process_count config) @
                   '' processes and >= '' @ fmt2 (cls_browser_heavy_memory_percent config) @ ''% RSS''))]
         else [])"

definition desktop_evidence :: "process_classification \<Rightarrow> bool" where
  "desktop_evidence p \<longleftrightarrow> pc_category p \<in> {CatDesktop, CatBrowser, CatDevelopment} \<or>
     (pc_foreground p = FgForeground \<and> pc_category p \<notin> {CatSystem, CatCritical, CatUnknown})"

definition idle_process :: "process_classification \<Rightarrow> bool" where
  "idle_process p \<longleftrightarrow> pc_category p \<in> {CatSystem, CatCritical, CatBackground} \<and>
     f64_le (unwrap_or (Fin 0) (ps_cpu_percent (pc_sample p))) (lit (1 / 2))"

definition activity_candidates :: "process_classification list \<Rightarrow> candidate list" where
  "activity_candidates ps =
     (let development = length (of_category CatDevelopment ps) in
      (if 2 \<le> development
       then [mk_candidate WDevelopment (lit (41 / 50)) ''development_toolset''
               (show_nat development @ '' development processes'')
               (Some ''>= 2 independent development tools'')]
       else []) @
      (if list_ex desktop_evidence ps
       then [mk_candidate WDesktop (lit (3 / 4)) ''interactive_desktop_process''
               ''interactive desktop evidence'' None]
       else []) @
      (if ps = [] \<or> (ps \<noteq> [] \<and> list_all idle_process ps)
       then [mk_candidate WIdle (lit (4 / 5)) ''demonstrated_inactivity'' ''no active user workload''
               (Some ''only idle system/background activity'')]
       else []))"

definition workload_candidates ::
  "system_sample option \<Rightarrow> process_classification list \<Rightarrow> classification_config \<Rightarrow> pressure_config \<Rightarrow>
     candidate list" where
  "workload_candidates system ps config pcfg =
     pressure_candidates system pcfg @ gaming_candidates system ps config @
     virtualization_candidates system ps config @ browser_candidates system ps config @
     activity_candidates ps"

subsection \<open>Selection\<close>

definition precedence :: "workload_class list" where
  "precedence = [WCriticalPressure, WMemoryPressure, WGamingBackgroundHeavy, WGaming, WVirtualization,
     WBrowserHeavy, WDevelopment, WDesktop, WIdle]"

fun find_map :: "('a \<Rightarrow> 'b option) \<Rightarrow> 'a list \<Rightarrow> 'b option" where
  "find_map f [] = None"
| "find_map f (x # xs) = (case f x of Some y \<Rightarrow> Some y | None \<Rightarrow> find_map f xs)"

definition select_candidate :: "candidate list \<Rightarrow> f64 \<Rightarrow> candidate option" where
  "select_candidate cs minimum = find_map (\<lambda>class.
     List.find (\<lambda>c. cand_class c = class \<and> f64_ge (cand_confidence c) minimum) cs) precedence"

definition rejected_candidates :: "candidate list \<Rightarrow> candidate option \<Rightarrow> f64 \<Rightarrow> rejected_candidate list" where
  "rejected_candidates cs selected minimum =
     map (\<lambda>c. \<lparr> rc_candidate = cand_class c, rc_confidence = cand_confidence c,
        rc_reason = (if f64_lt (cand_confidence c) minimum then ''below minimum confidence''
                     else ''lower deterministic precedence'') \<rparr>)
       (filter (\<lambda>c. is_none_or (\<lambda>s. cand_class s \<noteq> cand_class c) selected) cs)"

definition workload_classify ::
  "system_sample option \<Rightarrow> process_classification list \<Rightarrow> classification_config \<Rightarrow> pressure_config \<Rightarrow>
     classification_outcome" where
  "workload_classify system ps config pcfg =
     (let cs = workload_candidates system ps config pcfg;
          selected = select_candidate cs (cls_minimum_confidence config);
          protection_reasons = filter (\<lambda>r. str_contains r ''protected'') (concat (map pc_reasons ps));
          rejected = rejected_candidates cs selected (cls_minimum_confidence config)
      in case selected of
           Some s \<Rightarrow> Classified \<lparr> wd_class = cand_class s, wd_confidence = cand_confidence s,
             wd_explanation = \<lparr> we_rule_version = RULE_VERSION,
               we_selected_class = show_workload_class (cand_class s), we_confidence = cand_confidence s,
               we_evidence = [cand_evidence s], we_rejected_candidates = rejected,
               we_protection_reasons = protection_reasons \<rparr> \<rparr>
         | None \<Rightarrow> OutcomeUnknown \<lparr> we_rule_version = RULE_VERSION, we_selected_class = ''unknown'',
             we_confidence = Fin 0, we_evidence = [], we_rejected_candidates = rejected,
             we_protection_reasons = protection_reasons \<rparr>)"

subsection \<open>Stabilizer and classifier\<close>

record workload_stabilizer =
  stb_confirmation_samples :: u32
  stb_current :: "workload_class option"
  stb_pending :: "(workload_class \<times> u32) option"

definition stabilizer_new :: "u32 \<Rightarrow> workload_stabilizer" where
  "stabilizer_new n = \<lparr> stb_confirmation_samples = n, stb_current = None, stb_pending = None \<rparr>"

fun stabilizer_observe ::
  "workload_stabilizer \<Rightarrow> i64 \<Rightarrow> classification_outcome \<Rightarrow> workload_transition option \<times> workload_stabilizer" where
  "stabilizer_observe s timestamp_ns (OutcomeUnknown e) = (None, s\<lparr> stb_pending := None \<rparr>)"
| "stabilizer_observe s timestamp_ns (Classified d) =
     (if stb_current s = Some (wd_class d) then (None, s\<lparr> stb_pending := None \<rparr>)
      else let immediate = (wd_class d = WCriticalPressure);
               count = (case stb_pending s of
                  Some (class, count) \<Rightarrow> if class = wd_class d then sat_add count 1 else 1
                | None \<Rightarrow> 1)
           in if \<not> immediate \<and> count < stb_confirmation_samples s
              then (None, s\<lparr> stb_pending := Some (wd_class d, count) \<rparr>)
              else (Some \<lparr> wt_timestamp_ns = timestamp_ns, wt_previous_class = stb_current s,
                      wt_new_class = wd_class d, wt_confidence = wd_confidence d,
                      wt_explanation = wd_explanation d \<rparr>,
                    s\<lparr> stb_current := Some (wd_class d), stb_pending := None \<rparr>))"

record classifier =
  clf_classification :: classification_config
  clf_pressure :: pressure_config
  clf_stabilizer :: workload_stabilizer

definition classifier_new :: "classification_config \<Rightarrow> pressure_config \<Rightarrow> classifier" where
  "classifier_new ccfg pcfg = \<lparr> clf_classification = ccfg,
     clf_pressure = pcfg, clf_stabilizer = stabilizer_new (cls_confirmation_samples ccfg) \<rparr>"

definition classify_processes ::
  "(string \<Rightarrow> string) \<Rightarrow> classifier \<Rightarrow> process_sample list \<Rightarrow> process_classification list" where
  "classify_processes digest_hex c samples = classify_all digest_hex samples (clf_classification c)"

definition classifier_evaluate ::
  "classifier \<Rightarrow> i64 \<Rightarrow> system_sample option \<Rightarrow> process_classification list \<Rightarrow>
     (classification_outcome \<times> workload_transition option) \<times> classifier" where
  "classifier_evaluate c timestamp_ns system ps =
     (let out = workload_classify system ps (clf_classification c) (clf_pressure c);
          (transition, stabilizer) = stabilizer_observe (clf_stabilizer c) timestamp_ns out
      in ((out, transition), c\<lparr> clf_stabilizer := stabilizer \<rparr>))"

definition classify_preprocessed ::
  "classifier \<Rightarrow> i64 \<Rightarrow> system_sample option \<Rightarrow> process_classification list \<Rightarrow>
     classification_batch \<times> classifier" where
  "classify_preprocessed c timestamp_ns system ps =
     (case classifier_evaluate c timestamp_ns system ps of
        ((out, transition), c') \<Rightarrow>
          (\<lparr> bat_processes = ps, bat_outcome = out, bat_transition = transition \<rparr>, c'))"

definition classifier_classify ::
  "(string \<Rightarrow> string) \<Rightarrow> classifier \<Rightarrow> i64 \<Rightarrow> system_sample option \<Rightarrow> process_sample list \<Rightarrow>
     classification_batch \<times> classifier" where
  "classifier_classify digest_hex c timestamp_ns system samples =
     classify_preprocessed c timestamp_ns system (classify_processes digest_hex c samples)"

subsection \<open>Selection is by precedence\<close>

definition rank :: "workload_class \<Rightarrow> nat" where
  "rank class = length (takeWhile (\<lambda>x. x \<noteq> class) precedence)"

lemma precedence_complete [simp]: "w \<in> set precedence"
  by (cases w) (simp_all add: precedence_def)

lemma find_map_Some:
  "find_map f xs = Some y \<Longrightarrow> \<exists>pre x post. xs = pre @ x # post \<and> f x = Some y \<and> (\<forall>z \<in> set pre. f z = None)"
proof (induction xs)
  case (Cons x xs)
  show ?case
  proof (cases "f x")
    case None
    with Cons obtain pre z post where "xs = pre @ z # post" "f z = Some y" "\<forall>z \<in> set pre. f z = None" by auto
    with None show ?thesis by (intro exI [of _ "x # pre"]) auto
  next
    case (Some w)
    with Cons.prems show ?thesis by (intro exI [of _ "[]"]) auto
  qed
qed simp

lemma find_map_None: "find_map f xs = None \<longleftrightarrow> (\<forall>x \<in> set xs. f x = None)"
  by (induction xs) (auto split: option.splits)

lemma rank_le_prefix:
  assumes "precedence = pre @ x # post" and "class \<notin> set pre"
  shows "rank x \<le> rank class"
proof -
  have "distinct precedence" by (simp add: precedence_def)
  then have "distinct (pre @ x # post)" by (simp only: assms(1))
  then have "x \<notin> set pre" by simp
  then have "rank x = length pre" unfolding rank_def assms(1) by (subst takeWhile_append2) auto
  moreover have "length pre \<le> rank class"
    using assms(2) unfolding rank_def assms(1) by (subst takeWhile_append2) auto
  ultimately show ?thesis by simp
qed

lemma select_candidate_Some:
  assumes "select_candidate cs m = Some c"
  shows "c \<in> set cs \<and> f64_ge (cand_confidence c) m \<and>
     (\<forall>c' \<in> set cs. f64_ge (cand_confidence c') m \<longrightarrow> rank (cand_class c) \<le> rank (cand_class c'))"
proof -
  let ?f = "\<lambda>class. List.find (\<lambda>c. cand_class c = class \<and> f64_ge (cand_confidence c) m) cs"
  obtain pre x post where p: "precedence = pre @ x # post" "?f x = Some c" "\<forall>z \<in> set pre. ?f z = None"
    using find_map_Some [OF assms [unfolded select_candidate_def]] by blast
  have c: "c \<in> set cs" "cand_class c = x" "f64_ge (cand_confidence c) m"
    using p(2) by (auto simp: find_Some_iff)
  have "rank x \<le> rank (cand_class c')" if "c' \<in> set cs" "f64_ge (cand_confidence c') m" for c'
  proof (rule rank_le_prefix [OF p(1)])
    show "cand_class c' \<notin> set pre" using p(3) that by (auto simp: find_None_iff)
  qed
  with c show ?thesis by blast
qed

lemma select_candidate_None:
  "select_candidate cs m = None \<longleftrightarrow> (\<forall>c \<in> set cs. \<not> f64_ge (cand_confidence c) m)"
  by (auto simp: select_candidate_def find_map_None find_None_iff)

text \<open>The classified workload is the candidate of highest precedence among those that reach
  the minimum confidence; the outcome is unknown exactly when no candidate reaches it.\<close>

theorem workload_classify_selects:
  "case workload_classify system ps config pcfg of
     Classified d \<Rightarrow> \<exists>c \<in> set (workload_candidates system ps config pcfg).
       wd_class d = cand_class c \<and> wd_confidence d = cand_confidence c \<and>
       f64_ge (cand_confidence c) (cls_minimum_confidence config) \<and>
       (\<nexists>c'. c' \<in> set (workload_candidates system ps config pcfg) \<and>
          f64_ge (cand_confidence c') (cls_minimum_confidence config) \<and>
          rank (cand_class c') < rank (cand_class c))
   | OutcomeUnknown _ \<Rightarrow> \<nexists>c. c \<in> set (workload_candidates system ps config pcfg) \<and>
       f64_ge (cand_confidence c) (cls_minimum_confidence config)"
proof (cases "select_candidate (workload_candidates system ps config pcfg) (cls_minimum_confidence config)")
  case None
  then have "\<forall>c \<in> set (workload_candidates system ps config pcfg).
      \<not> f64_ge (cand_confidence c) (cls_minimum_confidence config)" by (simp only: select_candidate_None)
  then show ?thesis unfolding workload_classify_def Let_def None by auto
next
  case (Some c)
  from select_candidate_Some [OF Some] Some show ?thesis
    by (auto simp: workload_classify_def Let_def not_less intro!: bexI [of _ c])
qed

lemma available_at_or_below_iff:
  "available_at_or_below (Some s) t \<longleftrightarrow>
     unat (ss_mem_available_bytes s) * 100 \<le> unat (ss_mem_total_bytes s) * unat t"
proof -
  have "unat a < 2 ^ 64" for a :: u64 using unsigned_less [of a] by simp
  note lt = this [of "ss_mem_available_bytes s"] this [of "ss_mem_total_bytes s"]
  have t: "unat t < 256" using unsigned_less [of t] by simp
  have "unat (ss_mem_total_bytes s) * unat t < 2 ^ 64 * 256"
    using lt(2) t by (intro mult_strict_mono) auto
  then have "unat ((ucast (ss_mem_total_bytes s) :: u128) * ucast t) = unat (ss_mem_total_bytes s) * unat t"
    by (simp add: unat_word_ariths unat_ucast_up)
  moreover have "unat ((ucast (ss_mem_available_bytes s) :: u128) * 100) = unat (ss_mem_available_bytes s) * 100"
    using lt(1) by (simp add: unat_word_ariths unat_ucast_up)
  ultimately show ?thesis by (simp add: available_at_or_below_def word_le_nat_alt)
qed

text \<open>Critical memory pressure dominates: when the available memory is at most the
  configured critical percentage of the total, the workload is classified as critical
  pressure, whatever processes run, provided the minimum confidence is at most 1 (which a
  validated configuration guarantees).\<close>

theorem critical_pressure_dominates:
  assumes "unat (ss_mem_available_bytes s) * 100
       \<le> unat (ss_mem_total_bytes s) * unat (prs_critical_available_percent pcfg)"
    and "f64_le (cls_minimum_confidence config) (Fin 1)"
  shows "outcome_class (workload_classify (Some s) ps config pcfg) = Some WCriticalPressure"
proof -
  let ?cs = "workload_candidates (Some s) ps config pcfg"
  have "available_at_or_below (Some s) (prs_critical_available_percent pcfg)"
    using assms(1) by (simp add: available_at_or_below_iff)
  then have "\<exists>c \<in> set (pressure_candidates (Some s) pcfg). cand_class c = WCriticalPressure \<and> cand_confidence c = Fin 1"
    by (simp add: pressure_candidates_def Let_def mk_candidate_def)
  then obtain c where c: "c \<in> set ?cs" "cand_class c = WCriticalPressure" "cand_confidence c = Fin 1"
    unfolding workload_candidates_def by auto
  with assms(2) have "select_candidate ?cs (cls_minimum_confidence config) \<noteq> None"
    unfolding select_candidate_None by (metis c(3))
  then obtain d where d: "select_candidate ?cs (cls_minimum_confidence config) = Some d" by blast
  have "rank (cand_class d) \<le> rank (cand_class c)"
    using select_candidate_Some [OF d] c(1,3) assms(2) by simp
  then have "rank (cand_class d) \<le> rank WCriticalPressure" by (simp only: c(2))
  then have "cand_class d = WCriticalPressure"
    by (cases "cand_class d") (simp_all add: rank_def precedence_def)
  with d show ?thesis by (simp add: workload_classify_def Let_def)
qed

text \<open>A system sample of which only the memory sizes are known.\<close>

definition memory_sample :: "u64 \<Rightarrow> u64 \<Rightarrow> system_sample" where
  "memory_sample total_bytes available_bytes = \<lparr> ss_timestamp_ns = 0, ss_mem_total_bytes = total_bytes,
     ss_mem_available_bytes = available_bytes, ss_anon_bytes = None, ss_file_cache_bytes = None,
     ss_slab_bytes = None, ss_swap_used_bytes = None, ss_swap_in_pages = None, ss_swap_out_pages = None,
     ss_major_faults = None, ss_minor_faults = None, ss_pgscan = None, ss_pgsteal = None,
     ss_workingset_refault = None, ss_psi_memory = None, ss_psi_cpu = None, ss_psi_io = None,
     ss_swap = \<lparr> sw_entries = [], sw_configuration = SwapNone \<rparr>,
     ss_zram = \<lparr> zs_available = False, zs_devices = [] \<rparr>,
     ss_zswap = \<lparr> zw_available = False, zw_enabled = None, zw_stored_pages = None, zw_pool_bytes = None \<rparr>,
     ss_capabilities_unavailable = [] \<rparr>"

theorem critical_pressure_dominates_witness:
  "outcome_class (workload_classify (Some (memory_sample 1000 50)) [] (classification default_config)
     (pressure default_config)) = Some WCriticalPressure"
proof (rule critical_pressure_dominates)
  show "unat (ss_mem_available_bytes (memory_sample 1000 50)) * 100
     \<le> unat (ss_mem_total_bytes (memory_sample 1000 50)) * unat (prs_critical_available_percent (pressure default_config))"
    by (simp add: memory_sample_def default_config_def)
  show "f64_le (cls_minimum_confidence (classification default_config)) (Fin 1)"
    by (simp add: default_config_def lit_simps)
qed

subsection \<open>Confidences\<close>

lemma foldl_max_within:
  "f64_within 0 a \<Longrightarrow> \<forall>x \<in> set xs. f64_within 0 x \<Longrightarrow> f64_within 0 (foldl f64_max a xs)"
  by (induction xs arbitrary: a) (auto intro: f64_max_within)

lemma candidate_confidence_within:
  assumes "\<forall>p \<in> set ps. f64_within 0 (pc_confidence p)"
    and "c \<in> set (workload_candidates system ps config pcfg)"
  shows "f64_within 0 (cand_confidence c)"
proof -
  have g: "f64_within 0 (foldl f64_max (Fin 0) (map pc_confidence (of_category CatGame ps)))"
    using assms(1) by (intro foldl_max_within) (auto simp: of_category_def)
  from assms(2) consider "c \<in> set (pressure_candidates system pcfg)" | "c \<in> set (gaming_candidates system ps config)"
    | "c \<in> set (virtualization_candidates system ps config)" | "c \<in> set (browser_candidates system ps config)"
    | "c \<in> set (activity_candidates ps)" unfolding workload_candidates_def by auto
  then show ?thesis
  proof cases
    case 1
    then show ?thesis
      by (auto simp: pressure_candidates_def Let_def mk_candidate_def lit_within_0 split: if_split_asm)
  next
    case 2
    then show ?thesis using g f64_max_within [OF g lit_within_0(4)]
      by (auto simp: gaming_candidates_def Let_def mk_candidate_def split: if_split_asm)
  next
    case 3
    then show ?thesis
      by (auto simp: virtualization_candidates_def Let_def mk_candidate_def lit_within_0 split: if_split_asm)
  next
    case 4
    then show ?thesis
      by (auto simp: browser_candidates_def Let_def mk_candidate_def lit_within_0 split: if_split_asm)
  next
    case 5
    then show ?thesis
      by (auto simp: activity_candidates_def Let_def mk_candidate_def lit_within_0 split: if_split_asm)
  qed
qed

lemma decision_confidence_within:
  assumes "\<forall>p \<in> set ps. f64_within 0 (pc_confidence p)"
    and "workload_classify system ps config pcfg = Classified d"
  shows "f64_within 0 (wd_confidence d)"
proof -
  obtain c where "select_candidate (workload_candidates system ps config pcfg) (cls_minimum_confidence config) = Some c"
    and "wd_confidence d = cand_confidence c"
    using assms(2) by (auto simp: workload_classify_def Let_def split: option.splits)
  with candidate_confidence_within [OF assms(1)] select_candidate_Some show ?thesis by metis
qed

text \<open>The confidence of every decision the classifier returns on sampled processes is a
  finite number between 0 and 1, whatever the samples and the thresholds.\<close>

theorem classifier_confidence_bounded:
  assumes "bat_outcome (fst (classifier_classify digest_hex c t system samples)) = Classified d"
  shows "\<exists>y. wd_confidence d = Fin y \<and> 0 \<le> y \<and> y \<le> 1"
proof -
  let ?ps = "classify_processes digest_hex c samples"
  have "\<forall>p \<in> set ?ps. f64_within 0 (pc_confidence p)"
    by (auto simp: classify_processes_def classify_all_def Let_def process_confidence_within)
  moreover have "workload_classify system ?ps (clf_classification c) (clf_pressure c) = Classified d"
    using assms by (simp add: classifier_classify_def classify_preprocessed_def classifier_evaluate_def
        Let_def split_beta)
  ultimately have "f64_within 0 (wd_confidence d)" by (rule decision_confidence_within)
  then show ?thesis by (simp add: f64_within_def)
qed

subsection \<open>Stabilization\<close>

text \<open>The stabilizer with the outcomes it has seen, latest first.\<close>

definition stab_step ::
  "workload_stabilizer \<times> classification_outcome list \<Rightarrow> i64 \<times> classification_outcome \<Rightarrow>
     workload_stabilizer \<times> classification_outcome list" where
  "stab_step sh obs = (snd (stabilizer_observe (fst sh) (fst obs) (snd obs)), snd obs # snd sh)"

definition stab_inv :: "u32 \<Rightarrow> workload_stabilizer \<times> classification_outcome list \<Rightarrow> bool" where
  "stab_inv k sh \<longleftrightarrow> stb_confirmation_samples (fst sh) = k \<and>
     (case stb_pending (fst sh) of None \<Rightarrow> True
      | Some (w, n) \<Rightarrow> n < k \<and> unat n \<le> length (snd sh) \<and>
          (\<forall>u \<in> set (take (unat n) (snd sh)). outcome_class u = Some w))"

definition next_count :: "workload_stabilizer \<Rightarrow> workload_class \<Rightarrow> u32" where
  "next_count s w = (case stb_pending s of
      Some (v, n) \<Rightarrow> if v = w then sat_add n 1 else 1 | None \<Rightarrow> 1)"

lemma unat_sat_add_1: "n < k \<Longrightarrow> unat (sat_add n 1 :: u32) = Suc (unat n)"
proof -
  assume "n < k"
  then have "unat n < unat k" by (simp add: word_less_nat_alt)
  moreover have "unat k < 2 ^ 32" using unsigned_less [of k] by simp
  ultimately show ?thesis by (simp add: unat_sat_add)
qed

lemma next_count_recent:
  assumes "stab_inv k (s, h)" and "outcome_class u = Some w"
  shows "unat (next_count s w) \<le> length (u # h) \<and>
     (\<forall>v \<in> set (take (unat (next_count s w)) (u # h)). outcome_class v = Some w)"
proof (cases "stb_pending s")
  case None
  then show ?thesis using assms by (simp add: next_count_def)
next
  case (Some p)
  obtain v n where p: "p = (v, n)" by (cases p)
  show ?thesis
  proof (cases "v = w")
    case True
    with assms Some p have "unat (next_count s w) = Suc (unat n)"
      using unat_sat_add_1 [of n k] by (simp add: next_count_def stab_inv_def)
    with True assms Some p show ?thesis by (auto simp: stab_inv_def)
  next
    case False
    with assms Some p show ?thesis by (simp add: next_count_def)
  qed
qed

lemma stabilizer_observe_Classified:
  "stabilizer_observe s t (Classified d) =
     (if stb_current s = Some (wd_class d) then (None, s\<lparr> stb_pending := None \<rparr>)
      else if wd_class d \<noteq> WCriticalPressure \<and> next_count s (wd_class d) < stb_confirmation_samples s
      then (None, s\<lparr> stb_pending := Some (wd_class d, next_count s (wd_class d)) \<rparr>)
      else (Some \<lparr> wt_timestamp_ns = t, wt_previous_class = stb_current s, wt_new_class = wd_class d,
              wt_confidence = wd_confidence d, wt_explanation = wd_explanation d \<rparr>,
            s\<lparr> stb_current := Some (wd_class d), stb_pending := None \<rparr>))"
  by (simp add: next_count_def Let_def)

declare stabilizer_observe.simps(2) [simp del]

lemma stab_inv_step: "stab_inv k sh \<Longrightarrow> stab_inv k (stab_step sh obs)"
proof -
  assume inv: "stab_inv k sh"
  obtain s h t u where sh: "sh = (s, h)" "obs = (t, u)" by (cases sh, cases obs)
  show ?thesis
  proof (cases u)
    case (OutcomeUnknown e)
    with inv sh show ?thesis by (simp add: stab_inv_def stab_step_def)
  next
    case (Classified d)
    with inv sh next_count_recent [of k s h u "wd_class d"] show ?thesis
      by (simp add: stab_inv_def stab_step_def stabilizer_observe_Classified)
  qed
qed

interpretation stab: stepped stab_step "stab_inv k" for k
  by unfold_locales (rule stab_inv_step)

text \<open>C28. The stabilizer never reports a change of workload on a glitch: when it reports one
  after any sequence of observations, the new class is critical pressure (which is reported at
  once) or each of the last \<open>confirmation_samples\<close> observations, the current one included, was
  classified as that class.\<close>

theorem transition_needs_confirmation:
  assumes "stabilizer_observe (fst (run_steps stab_step (stabilizer_new k, []) obs)) t u = (Some tr, s')"
  shows "wt_new_class tr = WCriticalPressure \<or>
     (unat k \<le> Suc (length obs) \<and>
      (\<forall>v \<in> set (take (unat k) (u # snd (run_steps stab_step (stabilizer_new k, []) obs))).
         outcome_class v = Some (wt_new_class tr)))"
proof -
  let ?sh = "run_steps stab_step (stabilizer_new k, []) obs"
  have inv: "stab_inv k (fst ?sh, snd ?sh)"
    using stab.run_inv [of k "(stabilizer_new k, [])" obs] by (simp add: stab_inv_def stabilizer_new_def)
  have len: "length (snd (run_steps stab_step (s, h) obs)) = length obs + length h" for s h
    by (induction obs arbitrary: s h) (auto simp: stab_step_def)
  from assms obtain d where u: "u = Classified d" by (cases u) auto
  have tr: "wt_new_class tr = wd_class d" "wd_class d = WCriticalPressure \<or> \<not> next_count (fst ?sh) (wd_class d) < k"
    using assms inv unfolding u stabilizer_observe_Classified
    by (auto simp: stab_inv_def split: if_split_asm)
  show ?thesis
  proof (cases "wd_class d = WCriticalPressure")
    case False
    with tr have "unat k \<le> unat (next_count (fst ?sh) (wd_class d))" by (simp add: word_less_nat_alt)
    with next_count_recent [OF inv, of u "wd_class d"] tr u len [of "stabilizer_new k" "[]"]
    show ?thesis by (auto dest: set_take_subset_set_take [THEN subsetD])
  qed (use tr in simp)
qed

text \<open>A decision for a class, for the examples.\<close>

definition decision_of :: "workload_class \<Rightarrow> classification_outcome" where
  "decision_of w = Classified \<lparr> wd_class = w, wd_confidence = Fin 1, wd_explanation =
     \<lparr> we_rule_version = RULE_VERSION, we_selected_class = show_workload_class w, we_confidence = Fin 1,
       we_evidence = [], we_rejected_candidates = [], we_protection_reasons = [] \<rparr> \<rparr>"

lemma outcome_class_decision_of [simp]: "outcome_class (decision_of w) = Some w"
  by (simp add: decision_of_def)

theorem transition_needs_confirmation_witness:
  "\<exists>tr s'. stabilizer_observe (fst (run_steps stab_step (stabilizer_new 2, []) [(0, decision_of WGaming)]))
      1 (decision_of WGaming) = (Some tr, s') \<and> wt_new_class tr = WGaming \<and>
    list_all (\<lambda>v. outcome_class v = Some WGaming) (take (unat (2 :: u32)) (decision_of WGaming #
        snd (run_steps stab_step (stabilizer_new 2, []) [(0, decision_of WGaming)])))"
proof -
  let ?obs = "[(0 :: i64, decision_of WGaming)]"
  obtain tr s' where o: "stabilizer_observe (fst (run_steps stab_step (stabilizer_new 2, []) ?obs)) 1
      (decision_of WGaming) = (Some tr, s')" and tr: "wt_new_class tr = WGaming"
    by (simp add: stab_step_def decision_of_def stabilizer_observe_Classified stabilizer_new_def next_count_def
        sat_add_def)
  show ?thesis using transition_needs_confirmation [OF o] o tr by (auto simp: list_all_iff)
qed

text \<open>Observing one class \<open>j\<close> times in a row makes it current or counts to \<open>j\<close>.\<close>

definition counted :: "workload_class \<Rightarrow> nat \<Rightarrow> workload_stabilizer \<Rightarrow> bool" where
  "counted w j s \<longleftrightarrow> stb_current s = Some w \<or>
     (j < max 1 (unat (stb_confirmation_samples s)) \<and>
      (j = 0 \<or> (\<exists>n. stb_pending s = Some (w, n) \<and> j \<le> unat n \<and> n < stb_confirmation_samples s)))"

lemma counted_step:
  assumes "counted w j s" and "outcome_class u = Some w"
  shows "counted w (Suc j) (snd (stabilizer_observe s t u))"
proof -
  obtain d where u: "u = Classified d" "wd_class d = w" using assms(2) by (cases u) auto
  show ?thesis
  proof (cases "stb_current s = Some w")
    case True
    then show ?thesis by (simp add: u stabilizer_observe_Classified counted_def)
  next
    case False
    have "Suc j \<le> unat (next_count s w)"
    proof (cases "j = 0")
      case True
      show ?thesis
      proof (cases "stb_pending s = None \<or> fst (the (stb_pending s)) \<noteq> w")
        case False
        then show ?thesis using True by (auto simp: next_count_def unat_sat_add)
      qed (auto simp: True next_count_def split: option.split)
    next
      case nz: False
      with assms(1) False obtain n where "stb_pending s = Some (w, n)" "j \<le> unat n" "n < stb_confirmation_samples s"
        by (auto simp: counted_def)
      then show ?thesis using unat_sat_add_1 [of n] by (simp add: next_count_def)
    qed
    then show ?thesis using False
      by (auto simp: u stabilizer_observe_Classified counted_def word_less_nat_alt)
  qed
qed

lemma confirmation_samples_const [simp]:
  "stb_confirmation_samples (snd (stabilizer_observe s t u)) = stb_confirmation_samples s"
  by (cases u) (simp_all add: stabilizer_observe_Classified)

lemma counted_run:
  "counted w j s \<Longrightarrow> \<forall>x \<in> set obs. outcome_class (snd x) = Some w \<Longrightarrow>
     counted w (j + length obs) (fst (run_steps stab_step (s, h) obs))"
proof (induction obs arbitrary: j s h)
  case (Cons x obs)
  then have "counted w (Suc j) (fst (stab_step (s, h) x))"
    by (simp add: stab_step_def counted_step)
  with Cons show ?case using Cons.IH [of "Suc j"] by (cases "stab_step (s, h) x") simp
qed simp

lemma confirmation_samples_run:
  "stb_confirmation_samples (fst (run_steps stab_step sh obs)) = stb_confirmation_samples (fst sh)"
  by (induction obs arbitrary: sh) (simp_all add: stab_step_def)

text \<open>A persistent workload is adopted: from any state, after at least
  \<open>confirmation_samples\<close> (and at least one) consecutive observations of one class, that class is
  the current workload.\<close>

theorem persistent_class_adopted:
  assumes "\<forall>x \<in> set obs. outcome_class (snd x) = Some w"
    and "max 1 (unat (stb_confirmation_samples s)) \<le> length obs"
  shows "stb_current (fst (run_steps stab_step (s, h) obs)) = Some w"
proof -
  have "counted w 0 s" by (simp add: counted_def less_max_iff_disj)
  from counted_run [OF this assms(1), of h] assms(2) show ?thesis
    by (auto simp: counted_def confirmation_samples_run)
qed

theorem persistent_class_adopted_witness:
  "stb_current (fst (run_steps stab_step (stabilizer_new 2, []) [(0, decision_of WGaming), (1, decision_of WGaming)]))
     = Some WGaming"
  by (rule persistent_class_adopted) (simp_all add: stabilizer_new_def)

theorem classifier_confidence_bounded_witness:
  "\<exists>d y. bat_outcome (fst (classifier_classify (\<lambda>s. s) (classifier_new (classification default_config)
      (pressure default_config)) 0 (Some (memory_sample 1000 50)) [])) = Classified d \<and>
     wd_confidence d = Fin y \<and> 0 \<le> y \<and> y \<le> 1"
proof -
  let ?c = "classifier_new (classification default_config) (pressure default_config)"
  let ?b = "fst (classifier_classify (\<lambda>s. s) ?c 0 (Some (memory_sample 1000 50)) [])"
  have "bat_outcome ?b = workload_classify (Some (memory_sample 1000 50)) [] (classification default_config)
      (pressure default_config)"
    by (simp add: classifier_classify_def classify_preprocessed_def classifier_evaluate_def classifier_new_def
        classify_processes_def classify_all_def Let_def split_beta)
  moreover have "available_at_or_below (Some (memory_sample 1000 50)) (prs_critical_available_percent (pressure default_config))"
    by (simp add: available_at_or_below_iff memory_sample_def default_config_def)
  then have "select_candidate (workload_candidates (Some (memory_sample 1000 50)) [] (classification default_config)
      (pressure default_config)) (cls_minimum_confidence (classification default_config)) \<noteq> None"
    unfolding select_candidate_None workload_candidates_def pressure_candidates_def
    by (simp add: Let_def mk_candidate_def default_config_def lit_simps)
  ultimately obtain d where d: "bat_outcome ?b = Classified d"
    by (auto simp: workload_classify_def Let_def)
  with classifier_confidence_bounded [OF d] show ?thesis by blast
qed

end
