(* ===== verification/Policy.thy ===== *)
theory Policy
  imports Actuator Workload
begin

text \<open>
  The policy engine (\<open>crates/policy-engine/src\<close>): the pressure states of \<open>state.rs\<close>, the input
  validation and rate tracking of \<open>features.rs\<close>, the hysteresis state machine of
  \<open>transition.rs\<close>, the action planner of \<open>planner.rs\<close> and the engine of \<open>policy.rs\<close> that
  composes them.
\<close>

subsection \<open>States, actions, errors\<close>

datatype pressure_state = Normal | Watch | Pressure | Critical | Emergency | Stabilizing

text \<open>The derived order of the enumeration: declaration order.\<close>

fun state_rank :: "pressure_state \<Rightarrow> nat" where
  "state_rank Normal = 0"
| "state_rank Watch = 1"
| "state_rank Pressure = 2"
| "state_rank Critical = 3"
| "state_rank Emergency = 4"
| "state_rank Stabilizing = 5"

lemma state_rank_inj: "state_rank a = state_rank b \<longleftrightarrow> a = b"
  by (cases a; cases b) simp_all

instantiation pressure_state :: linorder
begin

definition less_eq_pressure_state :: "pressure_state \<Rightarrow> pressure_state \<Rightarrow> bool" where
  "less_eq_pressure_state a b \<longleftrightarrow> state_rank a \<le> state_rank b"

definition less_pressure_state :: "pressure_state \<Rightarrow> pressure_state \<Rightarrow> bool" where
  "less_pressure_state a b \<longleftrightarrow> state_rank a < state_rank b"

instance
  by standard (auto simp: less_eq_pressure_state_def less_pressure_state_def state_rank_inj)

end

lemmas state_order = less_eq_pressure_state_def less_pressure_state_def

record persistent_state =
  pst_current :: pressure_state
  pst_previous :: "pressure_state option"
  pst_entered_at_ns :: i64
  pst_candidate :: "pressure_state option"
  pst_candidate_since_ns :: "i64 option"
  pst_last_transition_ns :: "i64 option"
  pst_transition_reason :: string

definition conservative :: "i64 \<Rightarrow> persistent_state" where
  "conservative timestamp_ns = \<lparr> pst_current = Watch, pst_previous = None, pst_entered_at_ns = timestamp_ns,
     pst_candidate = None, pst_candidate_since_ns = None, pst_last_transition_ns = None,
     pst_transition_reason = ''restart_without_continuity'' \<rparr>"

datatype zram_profile_intent = IntentSafe | IntentGaming | IntentCapacity

datatype memory_backend_intent = IntentZram | IntentZswapNvme

datatype action_kind =
  NoAction
| PrepareForegroundProtection
| ProtectForeground
| ApplyBackgroundSoftLimit
| RollbackCgroupMeasures
| SelectZramProfile zram_profile_intent
| SelectMemoryBackend memory_backend_intent

fun debug_zram_intent :: "zram_profile_intent \<Rightarrow> string" where
  "debug_zram_intent IntentSafe = ''Safe''"
| "debug_zram_intent IntentGaming = ''Gaming''"
| "debug_zram_intent IntentCapacity = ''Capacity''"

fun debug_backend_intent :: "memory_backend_intent \<Rightarrow> string" where
  "debug_backend_intent IntentZram = ''Zram''"
| "debug_backend_intent IntentZswapNvme = ''ZswapNvme''"

text \<open>The derived \<open>Debug\<close> rendering of an action kind.\<close>

fun debug_action_kind :: "action_kind \<Rightarrow> string" where
  "debug_action_kind NoAction = ''NoAction''"
| "debug_action_kind PrepareForegroundProtection = ''PrepareForegroundProtection''"
| "debug_action_kind ProtectForeground = ''ProtectForeground''"
| "debug_action_kind ApplyBackgroundSoftLimit = ''ApplyBackgroundSoftLimit''"
| "debug_action_kind RollbackCgroupMeasures = ''RollbackCgroupMeasures''"
| "debug_action_kind (SelectZramProfile p) = ''SelectZramProfile { profile: '' @ debug_zram_intent p @ '' }''"
| "debug_action_kind (SelectMemoryBackend b) =
     ''SelectMemoryBackend { backend: '' @ debug_backend_intent b @ '' }''"

record planned_action =
  pa_kind :: action_kind
  pa_reason :: string
  pa_mutating :: bool
  pa_actuator_plan :: "cgroup_plan option"

record rejected_action =
  ra_requested :: string
  ra_reason_code :: string
  ra_explanation :: string

datatype policy_error = InvalidInput string string | TimeRegression | Serialization string

record policy_evidence =
  pe_signal :: string
  pe_value :: "f64 option"
  pe_threshold :: "f64 option"
  pe_relation :: string
  pe_available :: bool

record candidate_rejection =
  cr_candidate :: pressure_state
  cr_reason :: string

subsection \<open>Input and its validation\<close>

record policy_input =
  in_timestamp_ns :: i64
  in_ram_total_bytes :: u64
  in_mem_available_bytes :: u64
  in_available_percent :: f64
  in_swap_total_bytes :: "u64 option"
  in_swap_used_bytes :: "u64 option"
  in_swap_in_per_second :: "f64 option"
  in_swap_out_per_second :: "f64 option"
  in_major_faults_per_second :: "f64 option"
  in_pgscan_per_second :: "f64 option"
  in_pgsteal_per_second :: "f64 option"
  in_psi_memory_some_avg10 :: "f64 option"
  in_psi_memory_full_avg10 :: "f64 option"
  in_workload_class :: "workload_class option"
  in_workload_confidence :: "f64 option"
  in_gaming :: bool
  in_critical_processes :: nat
  in_protected_processes :: nat
  in_unknown_processes :: nat
  in_foreground :: foreground_state
  in_cgroup_capabilities :: "cgroup_capabilities option"
  in_actuator_available :: bool
  in_recent_safety_events :: nat
  in_recent_decisions :: nat

definition finite_range :: "f64 \<Rightarrow> f64 \<Rightarrow> f64 \<Rightarrow> bool" where
  "finite_range v lo hi \<longleftrightarrow> is_finite v \<and> f64_le lo v \<and> f64_le v hi"

definition rate_check :: "string \<Rightarrow> f64 option \<Rightarrow> bool \<times> policy_error" where
  "rate_check field v = (is_some_and (\<lambda>v. \<not> is_finite v \<or> f64_lt v (Fin 0)) v,
     InvalidInput field ''must be finite and non-negative'')"

definition range_check :: "string \<Rightarrow> f64 option \<Rightarrow> f64 \<Rightarrow> bool \<times> policy_error" where
  "range_check field v hi = (is_some_and (\<lambda>v. \<not> finite_range v (Fin 0) hi) v,
     InvalidInput field ''must be finite and in range'')"

definition input_checks :: "policy_input \<Rightarrow> (bool \<times> policy_error) list" where
  "input_checks i =
     [(in_timestamp_ns i < 0, InvalidInput ''timestamp_ns'' ''must be non-negative''),
      (in_ram_total_bytes i = 0, InvalidInput ''ram_total_bytes'' ''must be greater than zero''),
      (in_mem_available_bytes i > in_ram_total_bytes i,
         InvalidInput ''mem_available_bytes'' ''must not exceed total RAM''),
      range_check ''available_percent'' (Some (in_available_percent i)) (Fin 100),
      ((case (in_swap_total_bytes i, in_swap_used_bytes i) of
           (Some swap_total, Some used) \<Rightarrow> used > swap_total | _ \<Rightarrow> False),
         InvalidInput ''swap_used_bytes'' ''must not exceed swap total''),
      rate_check ''swap_in_per_second'' (in_swap_in_per_second i),
      rate_check ''swap_out_per_second'' (in_swap_out_per_second i),
      rate_check ''major_faults_per_second'' (in_major_faults_per_second i),
      rate_check ''pgscan_per_second'' (in_pgscan_per_second i),
      rate_check ''pgsteal_per_second'' (in_pgsteal_per_second i),
      range_check ''psi_memory_some_avg10'' (in_psi_memory_some_avg10 i) (Fin 100),
      range_check ''psi_memory_full_avg10'' (in_psi_memory_full_avg10 i) (Fin 100),
      range_check ''workload_confidence'' (in_workload_confidence i) (Fin 1)]"

definition validate_input :: "policy_input \<Rightarrow> (policy_error, unit) result" where
  "validate_input i = first_error (input_checks i)"

subsection \<open>Rates\<close>

record counter_sample =
  cs_timestamp_ns :: i64
  cs_swap_in :: "u64 option"
  cs_swap_out :: "u64 option"
  cs_major_faults :: "u64 option"
  cs_pgscan :: "u64 option"
  cs_pgsteal :: "u64 option"

record rate_features =
  rf_swap_in_per_second :: "f64 option"
  rf_swap_out_per_second :: "f64 option"
  rf_major_faults_per_second :: "f64 option"
  rf_pgscan_per_second :: "f64 option"
  rf_pgsteal_per_second :: "f64 option"

type_synonym rate_tracker = "counter_sample option"

definition rate :: "u64 option \<Rightarrow> u64 option \<Rightarrow> f64 option \<Rightarrow> f64 option" where
  "rate previous current seconds =
     Option.bind previous (\<lambda>p. Option.bind current (\<lambda>c. Option.bind seconds (\<lambda>s.
       map_option (\<lambda>delta. f64_div (f64_of_u64 delta) s) (checked_sub c p))))"

definition elapsed_seconds :: "counter_sample \<Rightarrow> counter_sample \<Rightarrow> f64 option" where
  "elapsed_seconds previous current =
     map_option (\<lambda>elapsed. f64_div (f64_of_i64 elapsed) (Fin 1000000000))
       (opt_filter (\<lambda>elapsed. elapsed > 0) (i64_checked_sub (cs_timestamp_ns current) (cs_timestamp_ns previous)))"

definition rates_default :: rate_features where
  "rates_default = \<lparr> rf_swap_in_per_second = None, rf_swap_out_per_second = None,
     rf_major_faults_per_second = None, rf_pgscan_per_second = None, rf_pgsteal_per_second = None \<rparr>"

definition rate_update :: "rate_tracker \<Rightarrow> counter_sample \<Rightarrow> rate_features \<times> rate_tracker" where
  "rate_update tracker current =
     ((case tracker of
         None \<Rightarrow> rates_default
       | Some previous \<Rightarrow> let seconds = elapsed_seconds previous current in
          \<lparr> rf_swap_in_per_second = rate (cs_swap_in previous) (cs_swap_in current) seconds,
            rf_swap_out_per_second = rate (cs_swap_out previous) (cs_swap_out current) seconds,
            rf_major_faults_per_second = rate (cs_major_faults previous) (cs_major_faults current) seconds,
            rf_pgscan_per_second = rate (cs_pgscan previous) (cs_pgscan current) seconds,
            rf_pgsteal_per_second = rate (cs_pgsteal previous) (cs_pgsteal current) seconds \<rparr>),
      Some current)"

subsection \<open>Transitions\<close>

definition at_least :: "f64 option \<Rightarrow> f64 \<Rightarrow> bool" where
  "at_least v threshold = is_some_and (\<lambda>v. f64_ge v threshold) v"

definition ev :: "string \<Rightarrow> f64 option \<Rightarrow> f64 option \<Rightarrow> policy_evidence" where
  "ev signal v threshold = \<lparr> pe_signal = signal, pe_value = v, pe_threshold = threshold,
     pe_relation = ''observed_against_configured_threshold'', pe_available = (v \<noteq> None) \<rparr>"

definition state_evidence :: "policy_input \<Rightarrow> pressure_config \<Rightarrow> policy_evidence list" where
  "state_evidence i c =
     [ev ''mem_available_percent'' (Some (in_available_percent i)) (Some (f64_of_u8 (prs_watch_available_percent c))),
      ev ''psi_memory_some_avg10'' (in_psi_memory_some_avg10 i) (Some (prs_psi_some_avg10_threshold c)),
      ev ''psi_memory_full_avg10'' (in_psi_memory_full_avg10 i) (Some (prs_psi_full_avg10_threshold c)),
      ev ''major_faults_per_second'' (in_major_faults_per_second i) (Some (prs_major_fault_rate_threshold c)),
      ev ''swap_in_per_second'' (in_swap_in_per_second i) (Some (prs_swap_in_rate_threshold c)),
      ev ''swap_out_per_second'' (in_swap_out_per_second i) (Some (prs_swap_out_rate_threshold c))]"

definition corroborating :: "policy_input \<Rightarrow> pressure_config \<Rightarrow> nat" where
  "corroborating i c = length (filter (\<lambda>b. b)
     [at_least (in_psi_memory_some_avg10 i) (prs_psi_some_avg10_threshold c),
      at_least (in_psi_memory_full_avg10 i) (prs_psi_full_avg10_threshold c),
      at_least (in_major_faults_per_second i) (prs_major_fault_rate_threshold c),
      at_least (in_swap_in_per_second i) (prs_swap_in_rate_threshold c),
      at_least (in_swap_out_per_second i) (prs_swap_out_rate_threshold c)])"

definition available_le :: "policy_input \<Rightarrow> u8 \<Rightarrow> bool" where
  "available_le i p = f64_le (in_available_percent i) (f64_of_u8 p)"

definition target :: "policy_input \<Rightarrow> pressure_config \<Rightarrow> pressure_state" where
  "target i c =
     (let n = corroborating i c;
          full_emergency = at_least (in_psi_memory_full_avg10 i) (prs_emergency_psi_full_avg10_threshold c)
      in if available_le i (prs_emergency_available_percent c) \<and> (full_emergency \<or> 2 \<le> n) then Emergency
         else if available_le i (prs_critical_available_percent c) \<and> 2 \<le> n then Critical
         else if available_le i (prs_pressure_available_percent c) \<and> 1 \<le> n then Pressure
         else if available_le i (prs_watch_available_percent c) \<or> 1 \<le> n then Watch
         else Normal)"

definition sufficient :: "policy_input \<Rightarrow> bool" where
  "sufficient i \<longleftrightarrow> in_psi_memory_some_avg10 i \<noteq> None \<or> in_psi_memory_full_avg10 i \<noteq> None \<or>
     in_major_faults_per_second i \<noteq> None \<or> in_swap_in_per_second i \<noteq> None \<or> in_swap_out_per_second i \<noteq> None"

definition target_state :: "policy_input \<Rightarrow> pressure_config \<Rightarrow> pressure_state \<times> policy_evidence list \<times> bool" where
  "target_state i c = (target i c, state_evidence i c, sufficient i)"

definition recovery_target :: "pressure_state \<Rightarrow> pressure_state \<Rightarrow> pressure_state" where
  "recovery_target current observed =
     (if current \<in> {Pressure, Critical, Emergency} \<and> observed < current then Stabilizing
      else if current = Stabilizing \<and> observed = Normal then Normal
      else if current = Stabilizing \<and> observed > Watch then observed
      else if current = Stabilizing then Stabilizing
      else observed)"

definition is_recovery :: "pressure_state \<Rightarrow> pressure_state \<Rightarrow> bool" where
  "is_recovery current desired \<longleftrightarrow>
     desired = Stabilizing \<or> (current = Stabilizing \<and> desired = Normal)"

definition seconds_ns :: "u64 \<Rightarrow> i64" where
  "seconds_ns seconds = (let ns = uint ((ucast seconds :: u128) * 1000000000)
     in if ns \<le> i64_max then ns else i64_max)"

record transition_result =
  tr_state :: persistent_state
  tr_changed :: bool
  tr_evidence :: "policy_evidence list"
  tr_rejected :: "candidate_rejection list"

definition transition :: "persistent_state \<Rightarrow> policy_input \<Rightarrow> pressure_config \<Rightarrow> transition_result" where
  "transition prev i c = (case target_state i c of (observed, evidence, suff) \<Rightarrow>
     if \<not> suff
     then \<lparr> tr_state = prev\<lparr> pst_candidate := None, pst_candidate_since_ns := None,
              pst_transition_reason := ''insufficient_or_unavailable_telemetry'' \<rparr>,
            tr_changed = False, tr_evidence = evidence, tr_rejected = [] \<rparr>
     else let desired = recovery_target (pst_current prev) observed in
     if desired = pst_current prev
     then \<lparr> tr_state = prev\<lparr> pst_candidate := None, pst_candidate_since_ns := None,
              pst_transition_reason := ''state_evidence_stable'' \<rparr>,
            tr_changed = False, tr_evidence = evidence, tr_rejected = [] \<rparr>
     else let immediate = (desired = Emergency \<and> available_le i (prs_emergency_available_percent c) \<and>
                at_least (in_psi_memory_full_avg10 i) (prs_emergency_psi_full_avg10_threshold c));
              hold_seconds = (if is_recovery (pst_current prev) desired
                then prs_recovery_hold_seconds c else prs_state_hold_seconds c);
              candidate_since = (if pst_candidate prev = Some desired
                then unwrap_or (in_timestamp_ns i) (pst_candidate_since_ns prev) else in_timestamp_ns i);
              elapsed = i64_sat_sub (in_timestamp_ns i) candidate_since;
              held = (elapsed \<ge> seconds_ns hold_seconds)
     in if immediate \<or> held
        then \<lparr> tr_state = prev\<lparr> pst_previous := Some (pst_current prev), pst_current := desired,
                 pst_entered_at_ns := in_timestamp_ns i, pst_last_transition_ns := Some (in_timestamp_ns i),
                 pst_candidate := None, pst_candidate_since_ns := None,
                 pst_transition_reason := (if immediate then ''immediate_multi_signal_emergency''
                   else ''candidate_hold_completed'') \<rparr>,
               tr_changed = True, tr_evidence = evidence, tr_rejected = [] \<rparr>
        else \<lparr> tr_state = prev\<lparr> pst_candidate := Some desired, pst_candidate_since_ns := Some candidate_since,
                 pst_transition_reason := ''hysteresis_hold_in_progress'' \<rparr>,
               tr_changed = False, tr_evidence = evidence,
               tr_rejected = [\<lparr> cr_candidate = desired,
                 cr_reason = ''hold requires '' @ show_nat (unat hold_seconds) @ ''s'' \<rparr>] \<rparr>)"

subsection \<open>Action planning\<close>

record action_plan =
  ap_planned :: "planned_action list"
  ap_rejected :: "rejected_action list"

definition action :: "action_kind \<Rightarrow> string \<Rightarrow> bool \<Rightarrow> planned_action" where
  "action kind reason mutating =
     \<lparr> pa_kind = kind, pa_reason = reason, pa_mutating = mutating, pa_actuator_plan = None \<rparr>"

definition zram_action :: "zram_profile_intent \<Rightarrow> string \<Rightarrow> planned_action" where
  "zram_action profile reason = action (SelectZramProfile profile) reason False"

definition tiering_action :: "memory_backend_intent \<Rightarrow> string \<Rightarrow> planned_action" where
  "tiering_action backend reason = action (SelectMemoryBackend backend) reason False"

definition reject_mutations ::
  "string \<Rightarrow> planned_action list \<Rightarrow> rejected_action list \<Rightarrow> planned_action list \<times> rejected_action list" where
  "reject_mutations code planned rejected =
     (filter (\<lambda>a. \<not> pa_mutating a) planned,
      rejected @ map (\<lambda>a. \<lparr> ra_requested = debug_action_kind (pa_kind a), ra_reason_code = code,
          ra_explanation = ''mutation stopped before the actuator apply boundary'' \<rparr>)
        (filter pa_mutating planned))"

text \<open>The code that rejects the mutations of a pressure state or of stabilization, if any.\<close>

definition pressure_veto :: "policy_input \<Rightarrow> bool \<Rightarrow> string option" where
  "pressure_veto i observe =
     (if in_recent_safety_events i > 0 then Some ''recent_cgroup_safety_event''
      else if \<not> is_some_and mutation_ready (in_cgroup_capabilities i) then Some ''cgroup_capability_unavailable''
      else if observe then Some ''observe_mode''
      else if \<not> in_actuator_available i then Some ''actuator_unavailable''
      else None)"

definition stabilizing_veto :: "policy_input \<Rightarrow> bool \<Rightarrow> string option" where
  "stabilizing_veto i observe =
     (if in_recent_safety_events i > 0 then Some ''recent_cgroup_safety_event''
      else if observe then Some ''observe_mode'' else None)"

definition apply_veto :: "string option \<Rightarrow> planned_action list \<Rightarrow> planned_action list \<times> rejected_action list" where
  "apply_veto veto planned = (case veto of None \<Rightarrow> (planned, []) | Some code \<Rightarrow> reject_mutations code planned [])"

definition proposed_actions :: "pressure_state \<Rightarrow> policy_input \<Rightarrow> planned_action list" where
  "proposed_actions s i =
     (if s = Normal then
        [action NoAction ''system_stable'' False,
         zram_action IntentSafe ''preserve_current_zram'',
         tiering_action IntentZram ''no_tiering_benchmark_evidence_preserves_zram'']
      else if s = Watch then
        [action PrepareForegroundProtection ''early_pressure_signals'' False,
         zram_action (if in_gaming i then IntentGaming else IntentSafe) ''analyze_zram_without_risky_change'',
         tiering_action IntentZram ''watch_state_preserves_current_backend'']
      else if s = Stabilizing then
        [action RollbackCgroupMeasures ''conservative_recovery_after_pressure'' True,
         zram_action IntentSafe ''hold_zram_configuration_during_stabilization'',
         tiering_action IntentZram ''stabilizing_preserves_low_write_backend'']
      else
        [action ProtectForeground ''preserve_confirmed_foreground_and_protected_workloads'' True,
         zram_action (if in_gaming i then IntentGaming else if s = Pressure then IntentCapacity else IntentSafe)
           (if s = Pressure then ''evaluate_capacity_without_bypassing_zram_guards''
            else ''critical_states_block_zram_reinitialization''),
         tiering_action (if in_gaming i \<or> s \<noteq> Pressure then IntentZram else IntentZswapNvme)
           ''tiering_intent_requires_backend_safety_validation'',
         action ApplyBackgroundSoftLimit ''limit_only_explicitly_allow_listed_background_workloads'' True])"

definition plan_actions :: "pressure_state \<Rightarrow> policy_input \<Rightarrow> bool \<Rightarrow> action_plan" where
  "plan_actions s i observe =
     (let veto = (if s \<in> {Pressure, Critical, Emergency} then pressure_veto i observe
                  else if s = Stabilizing then stabilizing_veto i observe else None);
          (planned, rejected) = apply_veto veto (proposed_actions s i)
      in \<lparr> ap_planned = planned,
           ap_rejected = rejected @ (if in_unknown_processes i > 0
             then [\<lparr> ra_requested = ''target_unknown_processes'', ra_reason_code = ''unknown_do_not_touch'',
                     ra_explanation = ''unknown processes are never background targets'' \<rparr>] else []) \<rparr>)"

definition validate_cgroup_plan :: "plan_input \<Rightarrow> cgroups_config \<Rightarrow> string \<Rightarrow> cgroup_plan option" where
  "validate_cgroup_plan input config mode = plan input config mode"

definition reject_unsupported :: "string \<Rightarrow> rejected_action" where
  "reject_unsupported name = \<lparr> ra_requested = name, ra_reason_code = ''unsupported_action'',
     ra_explanation = ''action is outside the Phase 4 allow-list'' \<rparr>"

subsection \<open>The engine\<close>

record policy_decision =
  pd_timestamp_ns :: i64
  pd_current_state :: pressure_state
  pd_previous_state :: "pressure_state option"
  pd_state_changed :: bool
  pd_state_since_ns :: i64
  pd_candidate_state :: "pressure_state option"
  pd_policy_name :: string
  pd_rule_version :: string
  pd_input_features :: policy_input
  pd_evidence :: "policy_evidence list"
  pd_rejected_candidates :: "candidate_rejection list"
  pd_planned_actions :: "planned_action list"
  pd_rejected_actions :: "rejected_action list"
  pd_expected_gain_bytes :: "u64 option"
  pd_expected_cost_score :: "f64 option"
  pd_dry_run :: bool
  pd_transition_reason :: string

record policy_engine =
  eng_config :: pressure_config
  eng_state :: persistent_state

definition engine_new :: "pressure_config \<Rightarrow> i64 \<Rightarrow> policy_engine" where
  "engine_new c timestamp_ns = \<lparr> eng_config = c, eng_state = conservative timestamp_ns \<rparr>"

definition evaluate :: "policy_engine \<Rightarrow> policy_input \<Rightarrow> bool \<Rightarrow> (policy_error, policy_decision) result \<times> policy_engine" where
  "evaluate e i observe = (case validate_input i of
      Inl err \<Rightarrow> (Err err, e)
    | Inr _ \<Rightarrow>
       if in_timestamp_ns i < pst_entered_at_ns (eng_state e) then (Err TimeRegression, e)
       else let t = transition (eng_state e) i (eng_config e);
                s = tr_state t;
                actions = plan_actions (pst_current s) i observe
            in (Ok \<lparr> pd_timestamp_ns = in_timestamp_ns i, pd_current_state = pst_current s,
                  pd_previous_state = pst_previous s, pd_state_changed = tr_changed t,
                  pd_state_since_ns = pst_entered_at_ns s, pd_candidate_state = pst_candidate s,
                  pd_policy_name = ''nemor-policy-v1'', pd_rule_version = ''pressure-rules-v1'',
                  pd_input_features = i, pd_evidence = tr_evidence t, pd_rejected_candidates = tr_rejected t,
                  pd_planned_actions = ap_planned actions, pd_rejected_actions = ap_rejected actions,
                  pd_expected_gain_bytes = None, pd_expected_cost_score = None, pd_dry_run = observe,
                  pd_transition_reason = pst_transition_reason s \<rparr>,
                e\<lparr> eng_state := s \<rparr>))"

record safety_event =
  sev_timestamp_ns :: i64
  sev_action_family :: "string option"
  sev_event_type :: string

record decision_history =
  hist_recent :: "policy_decision list"
  hist_safety_events :: "safety_event list"

definition history_limited :: "decision_history \<Rightarrow> nat \<Rightarrow> decision_history" where
  "history_limited h limit = h\<lparr> hist_recent := take (min limit 100) (hist_recent h),
     hist_safety_events := take (min limit 100) (hist_safety_events h) \<rparr>"

subsection \<open>Planned mutations\<close>

lemma apply_veto_planned:
  "fst (apply_veto veto ps) = (if veto = None then ps else filter (\<lambda>a. \<not> pa_mutating a) ps)"
  by (simp add: apply_veto_def reject_mutations_def split: option.split)

lemma plan_actions_planned:
  "ap_planned (plan_actions s i observe) = fst (apply_veto
     (if s \<in> {Pressure, Critical, Emergency} then pressure_veto i observe
      else if s = Stabilizing then stabilizing_veto i observe else None) (proposed_actions s i))"
  by (simp add: plan_actions_def Let_def split_beta)

lemma proposed_mutating:
  "(\<exists>a \<in> set (proposed_actions s i). pa_mutating a) \<longleftrightarrow> s \<in> {Pressure, Critical, Emergency, Stabilizing}"
  by (cases s) (auto simp: proposed_actions_def action_def zram_action_def tiering_action_def)

text \<open>The planner hands out a mutating action only when every guard is open: no recent safety
  event, not in observe mode, and, unless the action is the rollback of the stabilizing state,
  a complete writable cgroup interface and an available actuator; and only in a pressure state
  or while stabilizing. When all of this holds it does plan one.\<close>

theorem mutation_planned_iff:
  "(\<exists>a \<in> set (ap_planned (plan_actions s i observe)). pa_mutating a) \<longleftrightarrow>
     \<not> observe \<and> in_recent_safety_events i = 0 \<and>
     (s = Stabilizing \<or>
      (s \<in> {Pressure, Critical, Emergency} \<and> in_actuator_available i \<and>
       (\<exists>caps. in_cgroup_capabilities i = Some caps \<and> mutation_ready caps)))"
proof -
  have "(\<exists>a \<in> set (ap_planned (plan_actions s i observe)). pa_mutating a) \<longleftrightarrow>
      s \<in> {Pressure, Critical, Emergency, Stabilizing} \<and>
      (if s \<in> {Pressure, Critical, Emergency} then pressure_veto i observe
       else if s = Stabilizing then stabilizing_veto i observe else None) = None"
    unfolding plan_actions_planned apply_veto_planned using proposed_mutating [of s i] by auto
  then show ?thesis
    by (auto simp: pressure_veto_def stabilizing_veto_def is_some_and_iff split: if_splits)
qed

subsection \<open>Rates are accepted by validation\<close>

lemma rnd_pow2_m30: "rnd (1 / 1073741824) = Fin (1 / 1073741824)"
  using rnd_litI [of "- 30" "1 / 1073741824" 4503599627370496] by (simp add: pow2_def)

lemma elapsed_seconds_bound:
  assumes "elapsed_seconds p c = Some s"
  shows "\<exists>y. s = Fin y \<and> 1 \<le> y * 2 ^ 30"
proof -
  from assms obtain e where e: "i64_checked_sub (cs_timestamp_ns c) (cs_timestamp_ns p) = Some e" "0 < e"
    and s: "s = f64_div (f64_of_i64 e) (Fin 1000000000)"
    by (cases "i64_checked_sub (cs_timestamp_ns c) (cs_timestamp_ns p)")
      (auto simp: elapsed_seconds_def split: if_splits)
  have le: "e \<le> i64_max" using e(1) by (auto simp: i64_checked_sub_def in_i64_def split: if_splits)
  have "(1::rat) \<le> of_int e" using e(2) by simp
  moreover have "(of_int e :: rat) < 2 ^ 1023"
  proof -
    have "(of_int e :: rat) \<le> of_int (2 ^ 63 - 1)" using le by (simp only: of_int_le_iff i64_max_def)
    then show ?thesis by simp
  qed
  ultimately obtain x where x: "f64_of_i64 e = Fin x" "1 \<le> x"
    using rnd_finite_mono [of 1 "of_int e"] by (auto simp: f64_of_i64_def lit_1)
  have "x < 2 ^ 1000"
  proof -
    have "(of_int e :: rat) \<le> 2 ^ 63" using le by (simp add: i64_max_def)
    then have "x \<le> 2 ^ 64"
      using rnd_bound [of "of_int e" 63] e(2) x by (auto simp: f64_of_i64_def)
    then show ?thesis by simp
  qed
  then have "x / 1000000000 < 2 ^ 1023" by simp
  moreover have "1 / 1073741824 \<le> x / 1000000000" using x(2) by simp
  ultimately obtain y where "rnd (x / 1000000000) = Fin y" "1 / 1073741824 \<le> y"
    using rnd_finite_mono [of "1 / 1073741824" "x / 1000000000"] unfolding rnd_pow2_m30 by auto
  then show ?thesis using s x by (simp add: field_simps)
qed

lemma rate_within: "rate p c (elapsed_seconds a b) = Some v \<Longrightarrow> f64_within 96 v"
proof -
  assume r: "rate p c (elapsed_seconds a b) = Some v"
  then obtain s d where s: "elapsed_seconds a b = Some s" and v: "v = f64_div (f64_of_u64 d) s"
    by (auto simp: rate_def bind_eq_Some_conv)
  obtain y where "s = Fin y" "1 \<le> y * 2 ^ 30" using elapsed_seconds_bound [OF s] by blast
  from f64_div_within [OF f64_of_u64_within this, of d] show ?thesis by (simp add: v)
qed

lemma rate_check_within: "\<forall>v. r = Some v \<longrightarrow> f64_within k v \<Longrightarrow> \<not> fst (rate_check f r)"
  by (cases r) (auto simp: rate_check_def f64_within_def)

text \<open>The rates the tracker derives from kernel counters are always accepted by the input
  validation: whatever the previous and the current counters (reset, wrapped or absent) and
  their timestamps, each rate is absent or a finite nonnegative number, never NaN or infinite.\<close>

theorem tracked_rates_valid:
  "\<not> fst (rate_check field (rf_swap_in_per_second (fst (rate_update tracker current)))) \<and>
   \<not> fst (rate_check field (rf_swap_out_per_second (fst (rate_update tracker current)))) \<and>
   \<not> fst (rate_check field (rf_major_faults_per_second (fst (rate_update tracker current)))) \<and>
   \<not> fst (rate_check field (rf_pgscan_per_second (fst (rate_update tracker current)))) \<and>
   \<not> fst (rate_check field (rf_pgsteal_per_second (fst (rate_update tracker current))))"
proof (cases tracker)
  case None
  then show ?thesis by (simp add: rate_update_def rates_default_def rate_check_def)
next
  case (Some previous)
  have "\<not> fst (rate_check field (rate p c (elapsed_seconds previous current)))" for p c
    by (rule rate_check_within [of _ 96]) (simp add: rate_within)
  with Some show ?thesis by (simp add: rate_update_def Let_def)
qed

subsection \<open>Severity is monotone\<close>

text \<open>\<open>j\<close> shows at least the pressure of \<open>i\<close>: no more memory available, and every signal
  that \<open>i\<close>
  has is present and at least as high.\<close>

definition signal_le :: "f64 option \<Rightarrow> f64 option \<Rightarrow> bool" where
  "signal_le a b \<longleftrightarrow> (\<forall>v. a = Some v \<longrightarrow> (\<exists>w. b = Some w \<and> f64_le v w))"

definition no_better :: "policy_input \<Rightarrow> policy_input \<Rightarrow> bool" where
  "no_better i j \<longleftrightarrow> f64_le (in_available_percent j) (in_available_percent i) \<and>
     signal_le (in_psi_memory_some_avg10 i) (in_psi_memory_some_avg10 j) \<and>
     signal_le (in_psi_memory_full_avg10 i) (in_psi_memory_full_avg10 j) \<and>
     signal_le (in_major_faults_per_second i) (in_major_faults_per_second j) \<and>
     signal_le (in_swap_in_per_second i) (in_swap_in_per_second j) \<and>
     signal_le (in_swap_out_per_second i) (in_swap_out_per_second j)"

lemma at_least_mono: "signal_le a b \<Longrightarrow> at_least a t \<Longrightarrow> at_least b t"
  by (auto simp: signal_le_def at_least_def is_some_and_iff intro: f64_le_trans)

lemma available_mono: "no_better i j \<Longrightarrow> available_le i p \<Longrightarrow> available_le j p"
  by (auto simp: no_better_def available_le_def intro: f64_le_trans)

lemma length_filter_mono:
  "list_all2 (\<lambda>a b. a \<longrightarrow> b) xs ys \<Longrightarrow> length (filter (\<lambda>b. b) xs) \<le> length (filter (\<lambda>b. b) ys)"
  by (induction rule: list_all2_induct) auto

lemma corroborating_mono: "no_better i j \<Longrightarrow> corroborating i c \<le> corroborating j c"
  unfolding corroborating_def
  by (rule length_filter_mono) (auto simp: no_better_def dest: at_least_mono)

text \<open>More pressure never maps to a milder state: if memory is no more available and every
  signal is at least as high, the target state is at least as severe.\<close>

theorem target_monotone:
  assumes "no_better i j"
  shows "target i c \<le> target j c"
proof -
  note av = available_mono [OF assms]
  have n: "corroborating i c \<le> corroborating j c" using assms by (rule corroborating_mono)
  have full: "at_least (in_psi_memory_full_avg10 i) t \<Longrightarrow> at_least (in_psi_memory_full_avg10 j) t" for t
    using assms by (auto simp: no_better_def dest: at_least_mono)
  show ?thesis
    using av [of "prs_emergency_available_percent c"] av [of "prs_critical_available_percent c"]
      av [of "prs_pressure_available_percent c"] av [of "prs_watch_available_percent c"]
      full [of "prs_emergency_psi_full_avg10_threshold c"] n
    by (simp add: target_def Let_def state_order) linarith
qed

definition example_policy_input :: "f64 \<Rightarrow> f64 option \<Rightarrow> i64 \<Rightarrow> policy_input" where
  "example_policy_input available psi t = \<lparr> in_timestamp_ns = t, in_ram_total_bytes = 1000,
     in_mem_available_bytes = 10, in_available_percent = available, in_swap_total_bytes = None,
     in_swap_used_bytes = None, in_swap_in_per_second = None, in_swap_out_per_second = None,
     in_major_faults_per_second = None, in_pgscan_per_second = None, in_pgsteal_per_second = None,
     in_psi_memory_some_avg10 = psi, in_psi_memory_full_avg10 = psi, in_workload_class = None,
     in_workload_confidence = None, in_gaming = False, in_critical_processes = 0,
     in_protected_processes = 0, in_unknown_processes = 0, in_foreground = FgUnknown,
     in_cgroup_capabilities = None, in_actuator_available = False, in_recent_safety_events = 0,
     in_recent_decisions = 0 \<rparr>"

theorem target_monotone_witness:
  "target (example_policy_input (Fin 50) None 0) (pressure default_config)
     \<le> target (example_policy_input (Fin 1) (Some (Fin 20)) 0) (pressure default_config)"
  by (rule target_monotone) (simp add: no_better_def signal_le_def example_policy_input_def)

subsection \<open>The state machine\<close>

text \<open>The four outcomes of a transition.\<close>

definition desired_state :: "persistent_state \<Rightarrow> policy_input \<Rightarrow> pressure_config \<Rightarrow> pressure_state" where
  "desired_state s i c = recovery_target (pst_current s) (target i c)"

definition hold_ns :: "persistent_state \<Rightarrow> policy_input \<Rightarrow> pressure_config \<Rightarrow> i64" where
  "hold_ns s i c = seconds_ns (if is_recovery (pst_current s) (desired_state s i c)
     then prs_recovery_hold_seconds c else prs_state_hold_seconds c)"

definition since_ns :: "persistent_state \<Rightarrow> policy_input \<Rightarrow> pressure_config \<Rightarrow> i64" where
  "since_ns s i c = (if pst_candidate s = Some (desired_state s i c)
     then unwrap_or (in_timestamp_ns i) (pst_candidate_since_ns s) else in_timestamp_ns i)"

definition immediate_emergency :: "persistent_state \<Rightarrow> policy_input \<Rightarrow> pressure_config \<Rightarrow> bool" where
  "immediate_emergency s i c \<longleftrightarrow> desired_state s i c = Emergency \<and>
     available_le i (prs_emergency_available_percent c) \<and>
     at_least (in_psi_memory_full_avg10 i) (prs_emergency_psi_full_avg10_threshold c)"

definition moves :: "persistent_state \<Rightarrow> policy_input \<Rightarrow> pressure_config \<Rightarrow> bool" where
  "moves s i c \<longleftrightarrow> sufficient i \<and> desired_state s i c \<noteq> pst_current s \<and>
     (immediate_emergency s i c \<or> hold_ns s i c \<le> i64_sat_sub (in_timestamp_ns i) (since_ns s i c))"

lemma transition_fields:
  "tr_changed (transition s i c) \<longleftrightarrow> moves s i c"
  "pst_current (tr_state (transition s i c)) = (if moves s i c then desired_state s i c else pst_current s)"
  "pst_previous (tr_state (transition s i c)) = (if moves s i c then Some (pst_current s) else pst_previous s)"
  "pst_entered_at_ns (tr_state (transition s i c)) = (if moves s i c then in_timestamp_ns i else pst_entered_at_ns s)"
  "pst_last_transition_ns (tr_state (transition s i c)) =
     (if moves s i c then Some (in_timestamp_ns i) else pst_last_transition_ns s)"
  "pst_candidate (tr_state (transition s i c)) =
     (if sufficient i \<and> desired_state s i c \<noteq> pst_current s \<and> \<not> moves s i c then Some (desired_state s i c) else None)"
  "pst_candidate_since_ns (tr_state (transition s i c)) =
     (if sufficient i \<and> desired_state s i c \<noteq> pst_current s \<and> \<not> moves s i c then Some (since_ns s i c) else None)"
  by (simp_all add: transition_def target_state_def Let_def moves_def immediate_emergency_def hold_ns_def
      since_ns_def desired_state_def)

lemma evaluate_cases:
  obtains (invalid) e where "validate_input i = Err e" "evaluate eng i observe = (Err e, eng)"
  | (regression) "validate_input i = Ok ()" "in_timestamp_ns i < pst_entered_at_ns (eng_state eng)"
      "evaluate eng i observe = (Err TimeRegression, eng)"
  | (accepted) d where "validate_input i = Ok ()" "pst_entered_at_ns (eng_state eng) \<le> in_timestamp_ns i"
      "evaluate eng i observe =
         (Ok d, eng\<lparr> eng_state := tr_state (transition (eng_state eng) i (eng_config eng)) \<rparr>)"
      "pd_planned_actions d = ap_planned (plan_actions
         (pst_current (tr_state (transition (eng_state eng) i (eng_config eng)))) i observe)"
      "pd_state_changed d = tr_changed (transition (eng_state eng) i (eng_config eng))"
      "pd_current_state d = pst_current (tr_state (transition (eng_state eng) i (eng_config eng)))"
proof (cases "validate_input i")
  case (Inl e)
  then show ?thesis using invalid by (simp add: evaluate_def)
next
  case (Inr u)
  then show ?thesis using regression accepted
    by (cases "in_timestamp_ns i < pst_entered_at_ns (eng_state eng)") (auto simp: evaluate_def Let_def)
qed

text \<open>An evaluation is refused exactly when the input is invalid, with the error of the first
  failing check, or older than the current state; then the engine is unchanged. Otherwise a
  decision is returned.\<close>

theorem evaluate_errors:
  "(case fst (evaluate eng i observe) of
      Inl e \<Rightarrow> snd (evaluate eng i observe) = eng \<and>
        (if e = TimeRegression
         then validate_input i = Ok () \<and> in_timestamp_ns i < pst_entered_at_ns (eng_state eng)
         else validate_input i = Err e)
    | Inr d \<Rightarrow> validate_input i = Ok () \<and> pst_entered_at_ns (eng_state eng) \<le> in_timestamp_ns i)"
proof (cases rule: evaluate_cases [of i eng observe])
  case (invalid e)
  have "e \<noteq> TimeRegression"
    using invalid(1) unfolding validate_input_def first_error_Err
    by (auto simp: input_checks_def rate_check_def range_check_def Cons_eq_append_conv)
  with invalid show ?thesis by simp
qed simp_all

text \<open>Recovery is never abrupt: whenever an evaluation leaves a state of pressure (Pressure,
  Critical or Emergency), the new state is more severe or Stabilizing, and Stabilizing itself
  is left only for Normal or for a state of pressure.\<close>

theorem recovery_through_stabilizing:
  assumes "evaluate eng i observe = (Ok d, eng')"
    and "pst_current (eng_state eng') \<noteq> pst_current (eng_state eng)"
    and "pst_current (eng_state eng) \<in> {Pressure, Critical, Emergency, Stabilizing}"
  shows "(if pst_current (eng_state eng) = Stabilizing
      then pst_current (eng_state eng') \<in> {Normal, Pressure, Critical, Emergency}
      else pst_current (eng_state eng') > pst_current (eng_state eng))"
proof -
  let ?s = "eng_state eng" and ?c = "eng_config eng"
  have "eng_state eng' = tr_state (transition ?s i ?c)"
    by (rule evaluate_cases [of i eng observe]) (use assms(1) in auto)
  then have m: "moves ?s i ?c" and cur: "pst_current (eng_state eng') = recovery_target (pst_current ?s) (target i ?c)"
    using assms(2) by (auto simp: transition_fields desired_state_def split: if_splits)
  have "target i ?c \<noteq> Stabilizing" by (simp add: target_def Let_def)
  with assms(2,3) cur show ?thesis
    by (cases "pst_current ?s"; cases "target i ?c") (simp_all add: recovery_target_def state_order)
qed

lemma example_input_valid:
  "0 \<le> t \<Longrightarrow> validate_input (example_policy_input (Fin 50) (Some (Fin 0)) t) = Ok ()"
  by (simp add: validate_input_def input_checks_def example_policy_input_def range_check_def rate_check_def
      finite_range_def)

definition example_engine :: policy_engine where
  "example_engine = \<lparr> eng_config = pressure default_config, eng_state = (conservative 0)\<lparr> pst_current := Emergency,
     pst_previous := Some Critical, pst_last_transition_ns := Some 0,
     pst_candidate := Some Stabilizing, pst_candidate_since_ns := Some 0 \<rparr> \<rparr>"

lemma example_target:
  "target (example_policy_input (Fin 50) (Some (Fin 0)) t) (pressure default_config) = Normal"
  by (simp add: target_def corroborating_def at_least_def available_le_def example_policy_input_def
      default_config_def f64_of_u8_def)

lemma example_evaluate:
  obtains d eng' where "evaluate example_engine (example_policy_input (Fin 50) (Some (Fin 0)) 40000000000) True = (Ok d, eng')"
    and "pst_current (eng_state eng') = Stabilizing" and "pd_state_changed d"
proof (cases rule: evaluate_cases [of "example_policy_input (Fin 50) (Some (Fin 0)) 40000000000" example_engine True])
  case (invalid e)
  then show ?thesis by (simp add: example_input_valid)
next
  case regression
  then show ?thesis by (simp add: example_engine_def conservative_def example_policy_input_def)
next
  case (accepted d)
  have "moves (eng_state example_engine) (example_policy_input (Fin 50) (Some (Fin 0)) 40000000000) (pressure default_config)"
    by (simp add: moves_def sufficient_def desired_state_def example_target hold_ns_def since_ns_def
        example_engine_def conservative_def recovery_target_def state_order is_recovery_def)
      (simp add: example_policy_input_def default_config_def seconds_ns_def i64_sat_sub_def i64_max_def i64_min_def
        uint_nat Let_def)
  then have "tr_changed (transition (eng_state example_engine)
      (example_policy_input (Fin 50) (Some (Fin 0)) 40000000000) (eng_config example_engine))"
    and "pst_current (tr_state (transition (eng_state example_engine)
      (example_policy_input (Fin 50) (Some (Fin 0)) 40000000000) (eng_config example_engine))) = Stabilizing"
    by (simp_all add: transition_fields desired_state_def example_target example_engine_def conservative_def
        recovery_target_def state_order)
  then show ?thesis using accepted(3,5) that by simp
qed

theorem recovery_through_stabilizing_witness:
  "\<exists>d eng'. evaluate example_engine (example_policy_input (Fin 50) (Some (Fin 0)) 40000000000) True = (Ok d, eng') \<and>
     pst_current (eng_state eng') > Emergency"
proof -
  obtain d eng' where e: "evaluate example_engine (example_policy_input (Fin 50) (Some (Fin 0)) 40000000000) True = (Ok d, eng')"
    and c: "pst_current (eng_state eng') = Stabilizing" by (rule example_evaluate)
  have cur: "pst_current (eng_state example_engine) = Emergency" by (simp add: example_engine_def)
  from recovery_through_stabilizing [OF e] c cur e show ?thesis by auto
qed

text \<open>C27. A change of state is earned: the engine reports a change only when the evidence is
  sufficient and the new state is the one the evidence calls for, and then either it is an
  emergency confirmed by both the available memory and the full stall signal, or the same
  candidate has been pending for at least the configured hold time.\<close>

theorem state_change_needs_hold:
  assumes "evaluate eng i observe = (Ok d, eng')" and "pd_state_changed d"
  shows "sufficient i \<and> pst_current (eng_state eng') = desired_state (eng_state eng) i (eng_config eng) \<and>
    pst_current (eng_state eng') \<noteq> pst_current (eng_state eng) \<and>
    (immediate_emergency (eng_state eng) i (eng_config eng) \<or>
     (\<exists>since. (since = in_timestamp_ns i \<or>
        (pst_candidate (eng_state eng) = Some (pst_current (eng_state eng')) \<and>
         pst_candidate_since_ns (eng_state eng) = Some since)) \<and>
      hold_ns (eng_state eng) i (eng_config eng) \<le> i64_sat_sub (in_timestamp_ns i) since))"
proof -
  let ?s = "eng_state eng" and ?c = "eng_config eng"
  have s: "eng_state eng' = tr_state (transition ?s i ?c)" and "moves ?s i ?c"
    by (rule evaluate_cases [of i eng observe]; use assms in \<open>auto simp: transition_fields\<close>)+
  then have m: "moves ?s i ?c" and cur: "pst_current (eng_state eng') = desired_state ?s i ?c"
    by (simp_all add: transition_fields)
  have since: "since_ns ?s i ?c = in_timestamp_ns i \<or>
      (pst_candidate ?s = Some (desired_state ?s i ?c) \<and> pst_candidate_since_ns ?s = Some (since_ns ?s i ?c))"
    by (cases "pst_candidate_since_ns ?s") (auto simp: since_ns_def)
  show ?thesis using m since unfolding moves_def cur by auto
qed

theorem state_change_needs_hold_witness:
  "\<exists>d eng'. evaluate example_engine (example_policy_input (Fin 50) (Some (Fin 0)) 40000000000) True = (Ok d, eng') \<and>
     sufficient (example_policy_input (Fin 50) (Some (Fin 0)) 40000000000) \<and> pst_current (eng_state eng') \<noteq> Emergency"
proof -
  obtain d eng' where e: "evaluate example_engine (example_policy_input (Fin 50) (Some (Fin 0)) 40000000000) True = (Ok d, eng')"
    and ch: "pd_state_changed d" by (rule example_evaluate)
  have "pst_current (eng_state example_engine) = Emergency" by (simp add: example_engine_def)
  with state_change_needs_hold [OF e ch] e show ?thesis by auto
qed

subsection \<open>Runs of the engine\<close>

definition policy_step :: "policy_engine \<Rightarrow> policy_input \<times> bool \<Rightarrow> policy_engine" where
  "policy_step eng x = snd (evaluate eng (fst x) (snd x))"

text \<open>A candidate always has a start time and differs from the current state; the entry time is
  that of the last transition, which came from another state.\<close>

definition engine_inv :: "pressure_config \<Rightarrow> policy_engine \<Rightarrow> bool" where
  "engine_inv c eng \<longleftrightarrow> eng_config eng = c \<and>
     (pst_candidate (eng_state eng) = None \<longleftrightarrow> pst_candidate_since_ns (eng_state eng) = None) \<and>
     pst_candidate (eng_state eng) \<noteq> Some (pst_current (eng_state eng)) \<and>
     (case pst_last_transition_ns (eng_state eng) of
        None \<Rightarrow> pst_previous (eng_state eng) = None
      | Some t \<Rightarrow> t = pst_entered_at_ns (eng_state eng) \<and> 0 \<le> t \<and>
          pst_previous (eng_state eng) \<noteq> None \<and>
          pst_previous (eng_state eng) \<noteq> Some (pst_current (eng_state eng)))"

lemma validate_timestamp: "validate_input i = Ok () \<Longrightarrow> 0 \<le> in_timestamp_ns i"
  by (simp add: validate_input_def input_checks_def split: if_splits)

lemma policy_step_cases:
  "policy_step eng x = eng \<or>
   (validate_input (fst x) = Ok () \<and> pst_entered_at_ns (eng_state eng) \<le> in_timestamp_ns (fst x) \<and>
    policy_step eng x = eng\<lparr> eng_state := tr_state (transition (eng_state eng) (fst x) (eng_config eng)) \<rparr>)"
  by (rule evaluate_cases [of "fst x" eng "snd x"]) (auto simp: policy_step_def)

lemma engine_inv_step:
  assumes "engine_inv c eng"
  shows "engine_inv c (policy_step eng x)"
  using policy_step_cases [of eng x]
proof (elim disjE conjE)
  assume v: "validate_input (fst x) = Ok ()"
    and st: "policy_step eng x = eng\<lparr> eng_state := tr_state (transition (eng_state eng) (fst x) (eng_config eng)) \<rparr>"
  have m: "moves s i c' \<Longrightarrow> desired_state s i c' \<noteq> pst_current s" for s i c' by (simp add: moves_def)
  show ?thesis
    using assms validate_timestamp [OF v] m [of "eng_state eng" "fst x" c] unfolding st
    by (auto simp: engine_inv_def transition_fields split: option.splits)
qed (use assms in simp)

interpretation engine: stepped policy_step "engine_inv c" for c
  by unfold_locales (rule engine_inv_step)

text \<open>Every engine reached from a fresh one by any sequence of evaluations, accepted or
  refused, is consistent: a pending candidate has a start time and differs from the current
  state, and the entry time of the state is the time of the last transition, which came from a
  different state.\<close>

theorem engine_invariant:
  "engine_inv c (run_steps policy_step (engine_new c t0) xs)"
proof -
  have "engine_inv c (engine_new c t0)" by (simp add: engine_inv_def engine_new_def conservative_def)
  then show ?thesis by (rule engine.run_inv)
qed

text \<open>Missing telemetry never moves the state: an accepted input without any stall, fault or
  swap signal keeps the current state, however little memory it reports, plans for that state,
  and cancels a pending candidate.\<close>

theorem insufficient_telemetry_keeps_state:
  assumes "\<not> sufficient i" and "evaluate eng i observe = (Ok d, eng')"
  shows "pst_current (eng_state eng') = pst_current (eng_state eng) \<and> \<not> pd_state_changed d \<and>
     pst_candidate (eng_state eng') = None \<and>
     pd_planned_actions d = ap_planned (plan_actions (pst_current (eng_state eng)) i observe)"
  by (rule evaluate_cases [of i eng observe])
    (use assms in \<open>auto simp: transition_fields moves_def\<close>)

theorem insufficient_telemetry_keeps_state_witness:
  "\<exists>d eng'. evaluate (engine_new (pressure default_config) 0) (example_policy_input (Fin 1) None 5) True = (Ok d, eng') \<and>
     pst_current (eng_state eng') = Watch"
proof -
  let ?i = "example_policy_input (Fin 1) None 5"
  have v: "validate_input ?i = Ok ()"
    by (simp add: validate_input_def input_checks_def example_policy_input_def range_check_def rate_check_def
        finite_range_def)
  have "\<exists>d eng'. evaluate (engine_new (pressure default_config) 0) ?i True = (Ok d, eng')"
    by (rule evaluate_cases [of ?i "engine_new (pressure default_config) 0" True])
      (use v in \<open>auto simp: engine_new_def conservative_def example_policy_input_def\<close>)
  then obtain d eng' where e: "evaluate (engine_new (pressure default_config) 0) ?i True = (Ok d, eng')" by blast
  have "\<not> sufficient ?i" by (simp add: sufficient_def example_policy_input_def)
  from insufficient_telemetry_keeps_state [OF this e] e show ?thesis by (simp add: engine_new_def conservative_def)
qed

subsection \<open>A persistent demand is met\<close>

text \<open>Inputs that all call for one state while the engine is in another, in order of time.\<close>

fun demands :: "pressure_config \<Rightarrow> pressure_state \<Rightarrow> pressure_state \<Rightarrow> i64 \<Rightarrow> (policy_input \<times> bool) list \<Rightarrow> bool" where
  "demands c cur want t [] = True"
| "demands c cur want t (x # xs) = (validate_input (fst x) = Ok () \<and> sufficient (fst x) \<and>
     t \<le> in_timestamp_ns (fst x) \<and> in_timestamp_ns (fst x) \<le> i64_max \<and>
     recovery_target cur (target (fst x) c) = want \<and>
     demands c cur want (in_timestamp_ns (fst x)) xs)"

definition hold_for :: "pressure_config \<Rightarrow> pressure_state \<Rightarrow> pressure_state \<Rightarrow> i64" where
  "hold_for c cur want = seconds_ns (if is_recovery cur want then prs_recovery_hold_seconds c
     else prs_state_hold_seconds c)"

text \<open>The engine has been waiting for \<open>want\<close> since \<open>t0\<close> or longer.\<close>

definition waiting :: "pressure_config \<Rightarrow> pressure_state \<Rightarrow> pressure_state \<Rightarrow> i64 \<Rightarrow> policy_engine \<Rightarrow> bool" where
  "waiting c cur want t0 eng \<longleftrightarrow> eng_config eng = c \<and> pst_current (eng_state eng) = cur \<and>
     pst_candidate (eng_state eng) = Some want \<and> (\<exists>s \<le> t0. pst_candidate_since_ns (eng_state eng) = Some s) \<and>
     pst_entered_at_ns (eng_state eng) \<le> t0"

lemma hold_for_le: "hold_for c cur want \<le> i64_max"
  by (simp add: hold_for_def seconds_ns_def Let_def)

lemma i64_sat_sub_ge: "h \<le> i64_max \<Longrightarrow> h \<le> a - b \<Longrightarrow> h \<le> i64_sat_sub a b"
  by (simp add: i64_sat_sub_def)

text \<open>One evaluation that calls for \<open>want\<close>: the engine moves there, or it goes on waiting and less than
  the hold time has passed since \<open>t0\<close>.\<close>

lemma demand_step:
  assumes "eng_config eng = c" and "pst_current (eng_state eng) = cur" and "cur \<noteq> want"
    and "pst_entered_at_ns (eng_state eng) \<le> t0" and "t0 \<le> in_timestamp_ns (fst x)"
    and "validate_input (fst x) = Ok ()" and "sufficient (fst x)" and "recovery_target cur (target (fst x) c) = want"
    and "since_ns (eng_state eng) (fst x) c \<le> t0"
  shows "pst_current (eng_state (policy_step eng x)) = want \<or>
    waiting c cur want t0 (policy_step eng x) \<and> in_timestamp_ns (fst x) - t0 < hold_for c cur want"
proof -
  have st: "policy_step eng x = eng\<lparr> eng_state := tr_state (transition (eng_state eng) (fst x) c) \<rparr>"
    by (rule evaluate_cases [of "fst x" eng "snd x"]) (use assms in \<open>auto simp: policy_step_def\<close>)
  have d: "desired_state (eng_state eng) (fst x) c = want" using assms by (simp add: desired_state_def)
  have h: "hold_ns (eng_state eng) (fst x) c = hold_for c cur want" using assms d by (simp add: hold_ns_def hold_for_def)
  show ?thesis
  proof (cases "moves (eng_state eng) (fst x) c")
    case True
    then show ?thesis by (simp add: st transition_fields d)
  next
    case False
    then have "\<not> hold_for c cur want \<le> i64_sat_sub (in_timestamp_ns (fst x)) (since_ns (eng_state eng) (fst x) c)"
      using assms d h by (auto simp: moves_def)
    then have "in_timestamp_ns (fst x) - t0 < hold_for c cur want"
      using i64_sat_sub_ge [OF hold_for_le, of c cur want "in_timestamp_ns (fst x)" "since_ns (eng_state eng) (fst x) c"] assms(9)
      by linarith
    then show ?thesis using False assms d by (simp add: st transition_fields waiting_def)
  qed
qed

lemma waiting_met:
  assumes "waiting c cur want t0 eng" and "cur \<noteq> want" and "demands c cur want t0' xs" and "t0 \<le> t0'"
    and "xs \<noteq> []" and "hold_for c cur want \<le> in_timestamp_ns (fst (last xs)) - t0"
  shows "\<exists>k \<le> length xs. pst_current (eng_state (run_steps policy_step eng (take k xs))) = want"
  using assms
proof (induction xs arbitrary: eng t0')
  case (Cons x xs)
  have x: "validate_input (fst x) = Ok ()" "sufficient (fst x)" "t0' \<le> in_timestamp_ns (fst x)"
    "recovery_target cur (target (fst x) c) = want" "demands c cur want (in_timestamp_ns (fst x)) xs"
    using Cons.prems(3) by auto
  have w: "eng_config eng = c" "pst_current (eng_state eng) = cur" "pst_entered_at_ns (eng_state eng) \<le> t0"
    "since_ns (eng_state eng) (fst x) c \<le> t0"
    using Cons.prems(1) x(4) by (auto simp: waiting_def since_ns_def desired_state_def)
  have step: "pst_current (eng_state (policy_step eng x)) = want \<or>
      waiting c cur want t0 (policy_step eng x) \<and> in_timestamp_ns (fst x) - t0 < hold_for c cur want"
    using demand_step [OF w(1,2) Cons.prems(2) w(3) _ x(1,2,4) w(4)] x(3) Cons.prems(4) by simp
  show ?case
  proof (cases "pst_current (eng_state (policy_step eng x)) = want")
    case True
    then show ?thesis by (intro exI [of _ 1]) simp
  next
    case False
    with step have st: "waiting c cur want t0 (policy_step eng x)" "in_timestamp_ns (fst x) - t0 < hold_for c cur want" by auto
    with Cons.prems(6) have ne: "xs \<noteq> []" by auto
    with Cons.prems(6) have "hold_for c cur want \<le> in_timestamp_ns (fst (last xs)) - t0" by simp
    from Cons.IH [OF st(1) Cons.prems(2) x(5) _ ne this] x(3) Cons.prems(4)
    obtain k where "k \<le> length xs" "pst_current (eng_state (run_steps policy_step (policy_step eng x) (take k xs))) = want"
      by auto
    then show ?thesis by (intro exI [of _ "Suc k"]) simp
  qed
qed simp

text \<open>C26. A persistent demand is met: let all inputs of a sequence be valid, in time order and
  call for the state \<open>want\<close> from the current state, and let the last be at least the hold time
  after the first. Then the engine is in state \<open>want\<close> after one of these evaluations. It may have been waiting for
  any state before, this one or another; only the clock must not have gone back behind the start of that wait or the last
  change of state when the sequence begins.\<close>

theorem persistent_demand_met:
  assumes "eng_config eng = c" and "pst_current (eng_state eng) = cur" and "cur \<noteq> want"
    and "pst_entered_at_ns (eng_state eng) \<le> in_timestamp_ns (fst x)"
    and "\<forall>s. pst_candidate_since_ns (eng_state eng) = Some s \<longrightarrow> s \<le> in_timestamp_ns (fst x)"
    and "demands c cur want (in_timestamp_ns (fst x)) (x # xs)" and "xs \<noteq> []"
    and "hold_for c cur want \<le> in_timestamp_ns (fst (last xs)) - in_timestamp_ns (fst x)"
  shows "\<exists>k \<le> length (x # xs). pst_current (eng_state (run_steps policy_step eng (take k (x # xs)))) = want"
proof -
  have x: "validate_input (fst x) = Ok ()" "sufficient (fst x)" "recovery_target cur (target (fst x) c) = want"
    "demands c cur want (in_timestamp_ns (fst x)) xs" using assms(6) by auto
  have since: "since_ns (eng_state eng) (fst x) c \<le> in_timestamp_ns (fst x)"
    using assms(5) by (cases "pst_candidate_since_ns (eng_state eng)") (auto simp: since_ns_def)
  show ?thesis
  proof (cases "pst_current (eng_state (policy_step eng x)) = want")
    case True
    then show ?thesis by (intro exI [of _ 1]) simp
  next
    case False
    with demand_step [OF assms(1-4) order_refl x(1-3) since]
    have "waiting c cur want (in_timestamp_ns (fst x)) (policy_step eng x)" by simp
    from waiting_met [OF this assms(3) x(4) order_refl assms(7,8)]
    obtain k where "k \<le> length xs" "pst_current (eng_state (run_steps policy_step (policy_step eng x) (take k xs))) = want"
      by blast
    then show ?thesis by (intro exI [of _ "Suc k"]) simp
  qed
qed

text \<open>An engine in the middle of a wait for another state.\<close>

definition flapping_engine :: policy_engine where
  "flapping_engine = (engine_new (pressure default_config) 0)\<lparr> eng_state :=
     (conservative 0)\<lparr> pst_candidate := Some Pressure, pst_candidate_since_ns := Some 0 \<rparr> \<rparr>"

theorem persistent_demand_met_witness:
  "\<exists>k \<le> 2. pst_current (eng_state (run_steps policy_step flapping_engine
     (take k [(example_policy_input (Fin 50) (Some (Fin 0)) 0, True),
              (example_policy_input (Fin 50) (Some (Fin 0)) 10000000000, True)]))) = Normal"
proof -
  let ?c = "pressure default_config"
  let ?x = "(example_policy_input (Fin 50) (Some (Fin 0)) 0, True)"
    and ?y = "(example_policy_input (Fin 50) (Some (Fin 0)) 10000000000, True)"
  have ts: "in_timestamp_ns (example_policy_input a b t) = t" for a b t by (simp add: example_policy_input_def)
  have "recovery_target Watch Normal = Normal" by (simp add: recovery_target_def)
  moreover have "sufficient (example_policy_input (Fin 50) (Some (Fin 0)) t)" for t
    by (simp add: sufficient_def example_policy_input_def)
  ultimately have d: "demands ?c Watch Normal (in_timestamp_ns (fst ?x)) [?x, ?y]"
    by (simp add: ts example_input_valid example_target i64_max_def)
  have h: "hold_for ?c Watch Normal = 10000000000"
    by (simp add: hold_for_def is_recovery_def default_config_def seconds_ns_def i64_max_def uint_nat Let_def)
  have e: "eng_config flapping_engine = ?c" "pst_current (eng_state flapping_engine) = Watch"
    "pst_entered_at_ns (eng_state flapping_engine) \<le> in_timestamp_ns (fst ?x)"
    "\<forall>s. pst_candidate_since_ns (eng_state flapping_engine) = Some s \<longrightarrow> s \<le> in_timestamp_ns (fst ?x)"
    by (simp_all add: flapping_engine_def engine_new_def conservative_def ts)
  from persistent_demand_met [OF e(1,2) _ e(3,4) d] h show ?thesis by (simp add: ts numeral_2_eq_2)
qed

end
