(* ===== verification/Daemon.thy ===== *)
theory Daemon
  imports Policy
begin

text \<open>
  The sampling loop of the daemon (\<open>run_sampling_loop\<close> of \<open>crates/nemord/src/lib.rs\<close>) as a state
  machine: its state is the classifier, the policy engine, the rate tracker and the latest system sample, and each branch
  of the loop is a step. The clock comparisons that decide whether a classification or a policy evaluation is due are
  inputs of the step; the cgroup capabilities read at start and the counts read from the database are parameters. Logging
  is not modelled, and of the storage only the table of policy decisions: \<open>insert_policy_decision\<close>
  (\<open>crates/storage/src/lib.rs\<close>), which drops a decision that repeats the latest one within the heartbeat. A
  statement that fails ends the daemon and is no step.
\<close>

subsection \<open>The policy input\<close>

fun checked_sum :: "u64 list \<Rightarrow> u64 \<Rightarrow> u64 option" where
  "checked_sum [] acc = Some acc"
| "checked_sum (x # xs) acc = (case checked_add acc x of None \<Rightarrow> None | Some s \<Rightarrow> checked_sum xs s)"

definition daemon_foreground :: "process_classification list \<Rightarrow> foreground_state" where
  "daemon_foreground ps =
     (if list_ex (\<lambda>p. pc_foreground p = FgForeground) ps then FgForeground
      else if ps \<noteq> [] \<and> list_all (\<lambda>p. pc_foreground p = FgBackground) ps then FgBackground
      else FgUnknown)"

fun outcome_confidence :: "classification_outcome \<Rightarrow> f64 option" where
  "outcome_confidence (Classified d) = Some (wd_confidence d)"
| "outcome_confidence (OutcomeUnknown _) = None"

definition daemon_input ::
  "i64 \<Rightarrow> system_sample \<Rightarrow> process_classification list \<Rightarrow> classification_outcome \<Rightarrow> rate_features \<Rightarrow>
     cgroup_capabilities option \<Rightarrow> nat \<times> nat \<Rightarrow> policy_input" where
  "daemon_input timestamp_ns system classified out rates caps history =
     \<lparr> in_timestamp_ns = timestamp_ns, in_ram_total_bytes = ss_mem_total_bytes system,
       in_mem_available_bytes = ss_mem_available_bytes system,
       in_available_percent = f64_div (f64_mul (f64_of_u64 (ss_mem_available_bytes system)) (Fin 100))
         (f64_of_u64 (ss_mem_total_bytes system)),
       in_swap_total_bytes = checked_sum (map se_size_bytes (sw_entries (ss_swap system))) 0,
       in_swap_used_bytes = checked_sum (map se_used_bytes (sw_entries (ss_swap system))) 0,
       in_swap_in_per_second = rf_swap_in_per_second rates,
       in_swap_out_per_second = rf_swap_out_per_second rates,
       in_major_faults_per_second = rf_major_faults_per_second rates,
       in_pgscan_per_second = rf_pgscan_per_second rates,
       in_pgsteal_per_second = rf_pgsteal_per_second rates,
       in_psi_memory_some_avg10 = map_option psl_avg10 (Option.bind (ss_psi_memory system) psi_some),
       in_psi_memory_full_avg10 = map_option psl_avg10 (Option.bind (ss_psi_memory system) psi_full),
       in_workload_class = outcome_class out, in_workload_confidence = outcome_confidence out,
       in_gaming = list_ex pc_is_game classified,
       in_critical_processes = length (filter pc_is_critical classified),
       in_protected_processes = length (filter pc_protected classified),
       in_unknown_processes = length (filter (\<lambda>p. pc_category p = CatUnknown) classified),
       in_foreground = daemon_foreground classified, in_cgroup_capabilities = caps,
       in_actuator_available = is_some_and mutation_ready caps,
       in_recent_safety_events = snd history, in_recent_decisions = fst history \<rparr>"

subsection \<open>The loop as a state machine\<close>

record daemon_state =
  dm_classifier :: classifier
  dm_engine :: policy_engine
  dm_tracker :: rate_tracker
  dm_rates :: rate_features
  dm_system :: "system_sample option"
  dm_decisions :: "policy_decision list"

text \<open>The rows of the session in the table of policy decisions, newest first; the latest is the one with the largest
  time stamp, of several the one inserted last. A row keeps the state as a text that determines it and the actions as
  JSON, which gives back lists of planned and rejected actions as they were, so that a row is the decision itself here.
  The elapsed time saturates, as does the heartbeat.\<close>

fun latest_decision :: "policy_decision list \<Rightarrow> policy_decision option" where
  "latest_decision [] = None"
| "latest_decision (d # ds) = (case latest_decision ds of
      None \<Rightarrow> Some d
    | Some e \<Rightarrow> if pd_timestamp_ns d < pd_timestamp_ns e then Some e else Some d)"

definition repeats_decision :: "u64 \<Rightarrow> policy_decision \<Rightarrow> policy_decision \<Rightarrow> bool" where
  "repeats_decision heartbeat_seconds decision old \<longleftrightarrow> pd_current_state old = pd_current_state decision \<and>
     pd_planned_actions old = pd_planned_actions decision \<and> pd_rejected_actions old = pd_rejected_actions decision \<and>
     i64_sat_sub (pd_timestamp_ns decision) (pd_timestamp_ns old) < seconds_ns heartbeat_seconds"

definition insert_policy_decision :: "u64 \<Rightarrow> policy_decision \<Rightarrow> policy_decision list \<Rightarrow> policy_decision list" where
  "insert_policy_decision heartbeat_seconds decision rows =
     (if is_some_and (repeats_decision heartbeat_seconds decision) (latest_decision rows) then rows else decision # rows)"

definition daemon_init :: "config \<Rightarrow> daemon_state" where
  "daemon_init c = \<lparr> dm_classifier = classifier_new (classification c) (pressure c),
     dm_engine = engine_new (pressure c) 0, dm_tracker = None, dm_rates = rates_default,
     dm_system = None, dm_decisions = [] \<rparr>"

definition system_tick :: "daemon_state \<Rightarrow> system_sample \<Rightarrow> daemon_state" where
  "system_tick d sample = (case rate_update (dm_tracker d)
      \<lparr> cs_timestamp_ns = ss_timestamp_ns sample, cs_swap_in = ss_swap_in_pages sample,
        cs_swap_out = ss_swap_out_pages sample, cs_major_faults = ss_major_faults sample,
        cs_pgscan = ss_pgscan sample, cs_pgsteal = ss_pgsteal sample \<rparr> of
      (rates, tracker) \<Rightarrow> d\<lparr> dm_tracker := tracker, dm_rates := rates, dm_system := Some sample \<rparr>)"

text \<open>What a process tick gets from outside: the time, the samples, whether a classification and a
  policy evaluation are due, and the counts of recent decisions and safety events.\<close>

record process_event =
  pev_timestamp_ns :: i64
  pev_samples :: "process_sample list"
  pev_classification_due :: bool
  pev_policy_due :: bool
  pev_history :: "nat \<times> nat"

definition classify_tick ::
  "daemon_state \<Rightarrow> i64 \<Rightarrow> process_classification list \<Rightarrow> classification_outcome \<times> daemon_state" where
  "classify_tick d timestamp_ns classified =
     (if timestamp_ns < 0
      then (OutcomeUnknown \<lparr> we_rule_version = RULE_VERSION, we_selected_class = ''unknown'',
              we_confidence = Fin 0, we_evidence = [], we_rejected_candidates = [],
              we_protection_reasons = [''structural_classifier_error''] \<rparr>, d)
      else case classifier_evaluate (dm_classifier d) timestamp_ns (dm_system d) classified of
        ((out, _), c) \<Rightarrow> (out, d\<lparr> dm_classifier := c \<rparr>))"

definition policy_tick ::
  "daemon_state \<Rightarrow> process_event \<Rightarrow> process_classification list \<Rightarrow> classification_outcome \<Rightarrow>
     cgroup_capabilities option \<Rightarrow> u64 \<Rightarrow> daemon_state" where
  "policy_tick d pev classified out caps heartbeat_seconds = (case dm_system d of
      None \<Rightarrow> d
    | Some system \<Rightarrow>
       (case evaluate (dm_engine d) (daemon_input (pev_timestamp_ns pev) system classified out (dm_rates d) caps
            (pev_history pev)) True of
          (Inl _, eng) \<Rightarrow> d\<lparr> dm_engine := eng \<rparr>
        | (Inr decision, eng) \<Rightarrow> d\<lparr> dm_engine := eng,
            dm_decisions := insert_policy_decision heartbeat_seconds decision (dm_decisions d) \<rparr>))"

definition process_tick ::
  "(string \<Rightarrow> string) \<Rightarrow> config \<Rightarrow> cgroup_capabilities option \<Rightarrow> daemon_state \<Rightarrow> process_event \<Rightarrow> daemon_state" where
  "process_tick digest_hex c caps d pev =
     (let classified = classify_processes digest_hex (dm_classifier d) (pev_samples pev) in
      if \<not> pev_classification_due pev then d
      else case classify_tick d (pev_timestamp_ns pev) classified of
        (out, d1) \<Rightarrow>
          if pol_enabled (policy c) \<and> pev_policy_due pev
          then policy_tick d1 pev classified out caps (pol_decision_heartbeat_seconds (policy c)) else d1)"

inductive daemon_step ::
  "(string \<Rightarrow> string) \<Rightarrow> config \<Rightarrow> cgroup_capabilities option \<Rightarrow> daemon_state \<Rightarrow> daemon_state \<Rightarrow> bool"
  for digest_hex c caps where
  SystemTick: "daemon_step digest_hex c caps d (system_tick d sample)"
| SystemFailed: "daemon_step digest_hex c caps d d"
| ProcessTick: "daemon_step digest_hex c caps d (process_tick digest_hex c caps d pev)"

inductive_cases daemon_stepE: "daemon_step digest_hex c caps d d'"

inductive daemon_reachable ::
  "(string \<Rightarrow> string) \<Rightarrow> config \<Rightarrow> cgroup_capabilities option \<Rightarrow> daemon_state \<Rightarrow> bool"
  for digest_hex c caps where
  Start: "daemon_reachable digest_hex c caps (daemon_init c)"
| Step: "daemon_reachable digest_hex c caps d \<Longrightarrow> daemon_step digest_hex c caps d d' \<Longrightarrow>
    daemon_reachable digest_hex c caps d'"

subsection \<open>Nothing the daemon decides can be applied\<close>

text \<open>The daemon's own record of a decision: it is marked as a dry run and plans no mutation.\<close>

definition inert_decision :: "policy_decision \<Rightarrow> bool" where
  "inert_decision dec \<longleftrightarrow> pd_dry_run dec \<and> list_all (\<lambda>a. \<not> pa_mutating a) (pd_planned_actions dec)"

lemma observed_plan_inert: "list_all (\<lambda>a. \<not> pa_mutating a) (ap_planned (plan_actions s i True))"
proof -
  have "(if s \<in> {Pressure, Critical, Emergency} then pressure_veto i True
      else if s = Stabilizing then stabilizing_veto i True else None) = None \<Longrightarrow>
      \<forall>a \<in> set (proposed_actions s i). \<not> pa_mutating a"
    using proposed_mutating [of s i] by (auto simp: pressure_veto_def stabilizing_veto_def split: if_splits)
  then show ?thesis unfolding plan_actions_planned apply_veto_planned by (auto simp: list_all_iff)
qed

lemma evaluate_observed_inert: "evaluate e i True = (Ok dec, e') \<Longrightarrow> inert_decision dec"
  by (auto simp: evaluate_def Let_def inert_decision_def observed_plan_inert split: sum.splits if_splits)

definition rates_within :: "rate_features \<Rightarrow> bool" where
  "rates_within r \<longleftrightarrow> list_all (\<lambda>x. \<forall>v. x = Some v \<longrightarrow> f64_within 96 v)
     [rf_swap_in_per_second r, rf_swap_out_per_second r, rf_major_faults_per_second r,
      rf_pgscan_per_second r, rf_pgsteal_per_second r]"

lemma rate_update_within: "rates_within (fst (rate_update tracker current))"
  by (cases tracker) (simp_all add: rate_update_def rates_within_def rates_default_def Let_def rate_within)

text \<open>What every reachable state keeps: the decisions are inert and the latest rates are in range.\<close>

definition daemon_inv :: "daemon_state \<Rightarrow> bool" where
  "daemon_inv d \<longleftrightarrow> list_all inert_decision (dm_decisions d) \<and> rates_within (dm_rates d)"

lemma classify_tick_keeps:
  assumes "classify_tick d t classified = (out, d1)"
  shows "dm_decisions d1 = dm_decisions d" "dm_rates d1 = dm_rates d" "dm_system d1 = dm_system d"
    "dm_engine d1 = dm_engine d"
  using assms by (auto simp: classify_tick_def split: if_splits prod.splits)

lemma insert_policy_decision_cases:
  "insert_policy_decision h dec ds = dec # ds \<or>
   insert_policy_decision h dec ds = ds \<and> (\<exists>old. latest_decision ds = Some old \<and> repeats_decision h dec old)"
  by (auto simp: insert_policy_decision_def is_some_and_iff)

lemma policy_tick_inv: "daemon_inv d \<Longrightarrow> daemon_inv (policy_tick d pev classified out caps h)"
  by (auto simp: daemon_inv_def policy_tick_def insert_policy_decision_def evaluate_observed_inert split: option.split prod.split sum.split)

lemma process_tick_inv: "daemon_inv d \<Longrightarrow> daemon_inv (process_tick digest_hex c caps d pev)"
proof -
  assume d: "daemon_inv d"
  obtain out d1 where t: "classify_tick d (pev_timestamp_ns pev)
      (classify_processes digest_hex (dm_classifier d) (pev_samples pev)) = (out, d1)" by fastforce
  have "daemon_inv d1" using d by (simp add: daemon_inv_def classify_tick_keeps [OF t])
  then show ?thesis using d by (simp add: process_tick_def Let_def t policy_tick_inv)
qed

lemma system_tick_inv: "daemon_inv d \<Longrightarrow> daemon_inv (system_tick d sample)"
  by (auto simp: daemon_inv_def system_tick_def split: prod.split)
    (metis fst_conv rate_update_within)

lemma daemon_invariant: "daemon_reachable digest_hex c caps d \<Longrightarrow> daemon_inv d"
proof (induction rule: daemon_reachable.induct)
  case Start
  then show ?case by (simp add: daemon_inv_def daemon_init_def rates_within_def rates_default_def)
next
  case (Step d d')
  from Step.hyps(2) Step.IH show ?case
    by (cases rule: daemon_step.cases) (simp_all add: system_tick_inv process_tick_inv)
qed

text \<open>C1. The daemon never plans a change of the system: in every state the sampling loop can
  reach, whatever the samples, the capabilities of the host and the configuration, each policy
  decision it has recorded is a dry run whose planned actions are all non-mutating.\<close>

theorem daemon_decisions_inert:
  assumes "daemon_reachable digest_hex c caps d"
  shows "list_all (\<lambda>dec. pd_dry_run dec \<and> list_all (\<lambda>a. \<not> pa_mutating a) (pd_planned_actions dec)) (dm_decisions d)"
  using daemon_invariant [OF assms] by (simp add: daemon_inv_def inert_decision_def [abs_def])

subsection \<open>Every due evaluation is accepted\<close>

definition psi_in_range :: "psi_line option \<Rightarrow> bool" where
  "psi_in_range l = (case l of None \<Rightarrow> True | Some x \<Rightarrow> finite_range (psl_avg10 x) (Fin 0) (Fin 100))"

text \<open>What the kernel guarantees of a sample: memory totals below 64 TiB, no more available than
  there is, PSI averages that are percentages, and swap areas used at most to their size.\<close>

definition plausible_sample :: "system_sample \<Rightarrow> bool" where
  "plausible_sample s \<longleftrightarrow>
     0 < ss_mem_total_bytes s \<and> ss_mem_total_bytes s < 2 ^ 46 \<and>
     ss_mem_available_bytes s \<le> ss_mem_total_bytes s \<and>
     (case ss_psi_memory s of None \<Rightarrow> True | Some p \<Rightarrow> psi_in_range (psi_some p) \<and> psi_in_range (psi_full p)) \<and>
     list_all (\<lambda>e. se_used_bytes e \<le> se_size_bytes e) (sw_entries (ss_swap s))"

lemma checked_sum_mono:
  assumes "checked_sum (map se_used_bytes es) a = Some u" and "checked_sum (map se_size_bytes es) b = Some t"
    and "list_all (\<lambda>e. se_used_bytes e \<le> se_size_bytes e) es" and "a \<le> b"
  shows "u \<le> t"
  using assms
proof (induction es arbitrary: a b)
  case (Cons e es)
  obtain a' where a': "checked_add a (se_used_bytes e) = Some a'" "checked_sum (map se_used_bytes es) a' = Some u"
    using Cons.prems(1) by (auto split: option.splits)
  obtain b' where b': "checked_add b (se_size_bytes e) = Some b'" "checked_sum (map se_size_bytes es) b' = Some t"
    using Cons.prems(2) by (auto split: option.splits)
  have "unat a' = unat a + unat (se_used_bytes e)" "unat b' = unat b + unat (se_size_bytes e)"
    using a'(1) b'(1) by (auto simp: checked_add_Some)
  then have "a' \<le> b'" using Cons.prems(3,4) by (auto simp: word_le_nat_alt)
  then show ?case using Cons.IH a'(2) b'(2) Cons.prems(3) by auto
qed simp

lemma nat_percent_in_range:
  assumes "0 < t" and "t < (2 ^ 46 :: nat)" and "a \<le> t"
  shows "finite_range (f64_div (f64_mul (f64_of_nat a) (Fin 100)) (f64_of_nat t)) (Fin 0) (Fin 100)"
proof -
  have ex: "rnd (of_nat n) = Fin (of_nat n)" if "n < 2 ^ 53" for n
    using rnd_of_int_exact [of "int n"] that by simp
  have t: "f64_of_nat t = Fin (of_nat t)" using assms ex [of t] by (simp add: f64_of_nat_def)
  have a: "f64_mul (f64_of_nat a) (Fin 100) = Fin (of_nat a * 100)"
    using assms ex [of a] ex [of "a * 100"] by (simp add: f64_of_nat_def)
  let ?x = "of_nat a * 100 / (of_nat t :: rat)"
  have x: "0 \<le> ?x" "?x \<le> 100" using assms by (simp_all add: divide_le_eq)
  have "rnd 100 = Fin 100" using ex [of 100] by simp
  moreover have "(100 :: rat) < 2 ^ 1023" by simp
  ultimately obtain y where "rnd ?x = Fin y" "y \<le> 100" "0 \<le> y"
    using rnd_finite_mono [OF x] by auto
  then show ?thesis using assms(1) by (simp add: t a finite_range_def)
qed

lemma percent_in_range:
  assumes "0 < t" and "t < (2 ^ 46 :: u64)" and "a \<le> t"
  shows "finite_range (f64_div (f64_mul (f64_of_u64 a) (Fin 100)) (f64_of_u64 t)) (Fin 0) (Fin 100)"
  unfolding f64_of_u64_def
  by (rule nat_percent_in_range) (use assms in \<open>auto simp: word_less_nat_alt word_le_nat_alt\<close>)

lemma classify_tick_confidence:
  assumes "classify_tick d t (classify_processes digest_hex (dm_classifier d) samples) = (out, d1)"
    and "outcome_confidence out = Some v"
  shows "f64_within 0 v"
proof -
  let ?ps = "classify_processes digest_hex (dm_classifier d) samples"
  have w: "\<forall>p \<in> set ?ps. f64_within 0 (pc_confidence p)"
    by (auto simp: classify_processes_def classify_all_def Let_def process_confidence_within)
  obtain dec where "out = Classified dec" "v = wd_confidence dec" using assms(2) by (cases out) auto
  moreover from this assms(1) have "workload_classify (dm_system d) ?ps (clf_classification (dm_classifier d))
      (clf_pressure (dm_classifier d)) = Classified dec"
    by (auto simp: classify_tick_def classifier_evaluate_def Let_def split: if_splits prod.splits)
  ultimately show ?thesis using decision_confidence_within [OF w] by simp
qed

lemma daemon_input_valid:
  assumes "0 \<le> t" and "plausible_sample system" and "rates_within rates"
    and "\<forall>v. outcome_confidence out = Some v \<longrightarrow> f64_within 0 v"
  shows "validate_input (daemon_input t system classified out rates caps history) = Ok ()"
proof -
  let ?i = "daemon_input t system classified out rates caps history"
  have mem: "ss_mem_total_bytes system \<noteq> 0" "\<not> ss_mem_available_bytes system > ss_mem_total_bytes system"
    "finite_range (in_available_percent ?i) (Fin 0) (Fin 100)"
    using assms(2) by (auto simp: plausible_sample_def daemon_input_def intro: percent_in_range)
  have swap: "\<not> (case (in_swap_total_bytes ?i, in_swap_used_bytes ?i) of
      (Some swap_total, Some used) \<Rightarrow> used > swap_total | _ \<Rightarrow> False)"
    using assms(2) checked_sum_mono [of "sw_entries (ss_swap system)" 0 _ 0]
    by (auto simp: plausible_sample_def daemon_input_def not_less split: option.split)
  have r: "\<not> fst (rate_check f (in_swap_in_per_second ?i))" "\<not> fst (rate_check f (in_swap_out_per_second ?i))"
    "\<not> fst (rate_check f (in_major_faults_per_second ?i))" "\<not> fst (rate_check f (in_pgscan_per_second ?i))"
    "\<not> fst (rate_check f (in_pgsteal_per_second ?i))" for f
    using assms(3) by (simp_all add: daemon_input_def rates_within_def rate_check_within [of _ 96])
  have psi: "\<not> fst (range_check f (in_psi_memory_some_avg10 ?i) (Fin 100))"
    "\<not> fst (range_check f (in_psi_memory_full_avg10 ?i) (Fin 100))" for f
    using assms(2) by (auto simp: plausible_sample_def daemon_input_def range_check_def psi_in_range_def
        split: option.splits)
  have conf: "\<not> fst (range_check f (in_workload_confidence ?i) (Fin 1))" for f
    using assms(4) by (auto simp: daemon_input_def range_check_def finite_range_def f64_within_def
        is_some_and_iff)
  have "\<forall>x \<in> set (input_checks ?i). \<not> fst x"
    using r psi conf mem swap assms(1)
    by (simp add: input_checks_def range_check_def [of _ "Some _"] del: prod.case)
      (simp_all add: daemon_input_def)
  then show ?thesis by (auto simp: validate_input_def first_error_Ok_iff)
qed

text \<open>The daemon keeps deciding: in every reachable state whose latest sample is plausible (RAM below 64 TiB,
  percentages in range, swap areas not overfull), a process tick with a classification and a policy evaluation due, the
  policy enabled, comes to a decision in the state that the engine is then in, as long as the clock has not gone back
  before the last state change; the decision is recorded, or it repeats the latest recorded one within the heartbeat.
  Rates, confidences and percentages computed along the way are always accepted by the input validation, so no value of
  the samples can silence the policy engine.\<close>

theorem daemon_keeps_deciding:
  assumes "daemon_reachable digest_hex c caps d"
    and "dm_system d = Some system" and "plausible_sample system"
    and "pol_enabled (policy c)" and "pev_classification_due pev" and "pev_policy_due pev"
    and "0 \<le> pev_timestamp_ns pev"
    and "pst_entered_at_ns (eng_state (dm_engine d)) \<le> pev_timestamp_ns pev"
    and "d' = process_tick digest_hex c caps d pev"
  shows "\<exists>dec. pd_timestamp_ns dec = pev_timestamp_ns pev \<and> pd_current_state dec = pst_current (eng_state (dm_engine d')) \<and>
    (dm_decisions d' = dec # dm_decisions d \<or>
     dm_decisions d' = dm_decisions d \<and> (\<exists>old. latest_decision (dm_decisions d) = Some old \<and>
       repeats_decision (pol_decision_heartbeat_seconds (policy c)) dec old))"
proof -
  let ?ps = "classify_processes digest_hex (dm_classifier d) (pev_samples pev)"
  obtain out d1 where t: "classify_tick d (pev_timestamp_ns pev) ?ps = (out, d1)" by fastforce
  note kept = classify_tick_keeps [OF t]
  have "rates_within (dm_rates d)" using daemon_invariant [OF assms(1)] by (simp add: daemon_inv_def)
  then have v: "validate_input (daemon_input (pev_timestamp_ns pev) system ?ps out (dm_rates d) caps
      (pev_history pev)) = Ok ()" (is "validate_input ?i = _")
    using assms(3,7) classify_tick_confidence [OF t] by (intro daemon_input_valid) auto
  have ts: "in_timestamp_ns ?i = pev_timestamp_ns pev" by (simp add: daemon_input_def)
  obtain dec eng' where e: "evaluate (dm_engine d) ?i True = (Ok dec, eng')" "pd_timestamp_ns dec = pev_timestamp_ns pev"
    "pd_current_state dec = pst_current (eng_state eng')"
    using assms(8) by (simp add: evaluate_def v Let_def ts)
  then have "dm_engine d' = eng'" "dm_decisions d' = insert_policy_decision (pol_decision_heartbeat_seconds (policy c)) dec (dm_decisions d)"
    using assms(2,4,5,6,9) by (simp_all add: process_tick_def Let_def t policy_tick_def kept)
  then show ?thesis using e(2,3) insert_policy_decision_cases by metis
qed

subsection \<open>A run of the loop\<close>

definition example_event :: process_event where
  "example_event = \<lparr> pev_timestamp_ns = 5, pev_samples = [updatedb_sample], pev_classification_due = True,
     pev_policy_due = True, pev_history = (0, 0) \<rparr>"

definition example_daemon :: daemon_state where
  "example_daemon = system_tick (daemon_init default_config) (memory_sample 1000 50)"

lemma example_daemon_reachable: "daemon_reachable (\<lambda>s. s) default_config None example_daemon"
  unfolding example_daemon_def by (blast intro: daemon_reachable.intros daemon_step.intros)

lemma example_daemon_fields:
  "dm_system example_daemon = Some (memory_sample 1000 50)" "dm_decisions example_daemon = []"
  "pst_entered_at_ns (eng_state (dm_engine example_daemon)) = 0"
  by (simp_all add: example_daemon_def system_tick_def daemon_init_def engine_new_def conservative_def
      split: prod.split)

theorem daemon_keeps_deciding_witness:
  "\<exists>dec. dm_decisions (process_tick (\<lambda>s. s) default_config None example_daemon example_event) = [dec] \<and>
     pd_timestamp_ns dec = 5"
proof -
  have "plausible_sample (memory_sample 1000 50)" by (simp add: plausible_sample_def memory_sample_def)
  moreover have "pol_enabled (policy default_config)" by (simp add: default_config_def)
  ultimately show ?thesis
    using daemon_keeps_deciding [OF example_daemon_reachable example_daemon_fields(1), of example_event]
    by (auto simp: example_event_def example_daemon_fields)
qed

lemma example_process_tick_reachable:
  "daemon_reachable (\<lambda>s. s) default_config None (process_tick (\<lambda>s. s) default_config None example_daemon example_event)"
  by (blast intro: daemon_reachable.intros daemon_step.intros example_daemon_reachable)

theorem daemon_decisions_inert_witness:
  "list_all (\<lambda>dec. pd_dry_run dec \<and> list_all (\<lambda>a. \<not> pa_mutating a) (pd_planned_actions dec))
     (dm_decisions (process_tick (\<lambda>s. s) default_config None example_daemon example_event))"
  by (rule daemon_decisions_inert [OF example_process_tick_reachable])

end
