(* ===== verification/Collector.thy ===== *)
theory Collector
  imports Telemetry
begin

text \<open>
  The collection of a system sample (\<open>collector/src\<close>: \<open>source.rs\<close>, \<open>psi.rs\<close>, \<open>zram.rs\<close>, \<open>zswap.rs\<close>, \<open>error.rs\<close> and \<open>SystemCollector\<close>
  of \<open>system.rs\<close>) on top of the parsers of \<open>Telemetry\<close>. The trait \<open>TelemetrySource\<close> is a record of reads; a collection
  reads no path twice, so a source is a function of the path. \<open>str::parse::<f64>\<close> is \<open>parse_f64\<close>: the exact decimal
  value, rounded. What is shown: a sample that is returned at all has PSI averages that are finite
  percentages, and it lists exactly what it lacks.
\<close>

subsection \<open>Sources\<close>

record telemetry_source =
  ts_read_to_string :: "string \<Rightarrow> (io_error, string) result"
  ts_read_dir_names :: "string \<Rightarrow> (io_error, string list) result"
  ts_read_link :: "string \<Rightarrow> (io_error, string) result"

text \<open>Well-formed UTF-8, which \<open>OsString::into_string\<close> asks for.\<close>

definition byte_in :: "nat \<Rightarrow> nat \<Rightarrow> char \<Rightarrow> bool" where
  "byte_in lo hi c \<longleftrightarrow> lo \<le> of_char c \<and> of_char c \<le> hi"

abbreviation utf8_cont :: "char \<Rightarrow> bool" where
  "utf8_cont \<equiv> byte_in 128 191"

definition utf8_three :: "char \<Rightarrow> char \<Rightarrow> bool" where
  "utf8_three a b \<longleftrightarrow> (byte_in 224 224 a \<and> byte_in 160 191 b) \<or> (byte_in 225 236 a \<and> utf8_cont b) \<or>
     (byte_in 237 237 a \<and> byte_in 128 159 b) \<or> (byte_in 238 239 a \<and> utf8_cont b)"

definition utf8_four :: "char \<Rightarrow> char \<Rightarrow> bool" where
  "utf8_four a b \<longleftrightarrow> (byte_in 240 240 a \<and> byte_in 144 191 b) \<or> (byte_in 241 243 a \<and> utf8_cont b) \<or>
     (byte_in 244 244 a \<and> byte_in 128 143 b)"

fun utf8_valid :: "string \<Rightarrow> bool" where
  "utf8_valid [] = True"
| "utf8_valid [a] = byte_in 0 127 a"
| "utf8_valid [a, b] = (if byte_in 0 127 a then utf8_valid [b] else byte_in 194 223 a \<and> utf8_cont b)"
| "utf8_valid [a, b, c] = (if byte_in 0 127 a then utf8_valid [b, c]
     else if byte_in 194 223 a then utf8_cont b \<and> utf8_valid [c] else utf8_three a b \<and> utf8_cont c)"
| "utf8_valid (a # b # c # d # s) = (if byte_in 0 127 a then utf8_valid (b # c # d # s)
     else if byte_in 194 223 a then utf8_cont b \<and> utf8_valid (c # d # s)
     else if utf8_three a b then utf8_cont c \<and> utf8_valid (d # s)
     else utf8_four a b \<and> utf8_cont c \<and> utf8_cont d \<and> utf8_valid s)"

text \<open>\<open>FsSource\<close>: a file tree below a root; links are given by the text of their target.\<close>

definition fs_source ::
  "'x host_files_scheme \<Rightarrow> (string \<Rightarrow> (io_error, string) result) \<Rightarrow> string \<Rightarrow> telemetry_source" where
  "fs_source H link base = \<lparr>
     ts_read_to_string = (\<lambda>p. hf_read_to_string H (resolve base p)),
     ts_read_dir_names = (\<lambda>p. rbind (hf_read_dir H (resolve base p)) (\<lambda>es.
       Ok (sort (filter utf8_valid (List.map_filter (\<lambda>e. case e of Inl _ \<Rightarrow> None | Inr n \<Rightarrow> Some n) es))))),
     ts_read_link = (\<lambda>p. link (resolve base p)) \<rparr>"

definition fs_production :: "'x host_files_scheme \<Rightarrow> (string \<Rightarrow> (io_error, string) result) \<Rightarrow> telemetry_source" where
  "fs_production H link = fs_source H link ''/''"

definition read_optional :: "telemetry_source \<Rightarrow> string \<Rightarrow> (io_error, string option) result" where
  "read_optional S path = (case ts_read_to_string S path of
      Inr v \<Rightarrow> Ok (Some v)
    | Inl e \<Rightarrow> if io_kind e = NotFound then Ok None else Err e)"

definition required_read :: "string \<Rightarrow> string \<Rightarrow> (io_error, 'a) result \<Rightarrow> (collector_error, 'a) result" where
  "required_read metric path r = map_sum (CollectorRequiredRead metric path) id r"

lemma required_read_Ok [simp]: "required_read m p r = Ok x \<longleftrightarrow> r = Ok x"
  by (cases r) (auto simp: required_read_def)

subsection \<open>Decimal numbers\<close>

definition parse_exponent :: "string \<Rightarrow> int option" where
  "parse_exponent s = (case s of
      [] \<Rightarrow> None
    | c # r \<Rightarrow> if c = CHR ''-'' then map_option (\<lambda>n. - int n) (parse_digits r)
               else map_option int (parse_digits (if c = CHR ''+'' then r else s)))"

definition decimal_value :: "string \<Rightarrow> string \<Rightarrow> int \<Rightarrow> rat" where
  "decimal_value whole fraction e = of_nat (digits_value 0 (whole @ fraction)) * 10 powi (e - int (length fraction))"

text \<open>The fraction of a number and what follows it.\<close>

definition split_fraction :: "string \<Rightarrow> string \<times> string" where
  "split_fraction r = (case r of
      [] \<Rightarrow> ([], [])
    | c # t \<Rightarrow> if c = CHR ''.'' then (takeWhile is_ascii_digit t, dropWhile is_ascii_digit t) else ([], r))"

definition parse_number :: "string \<Rightarrow> rat option" where
  "parse_number s = (case split_fraction (dropWhile is_ascii_digit s) of
      (fraction, r) \<Rightarrow>
        let whole = takeWhile is_ascii_digit s
        in if whole = [] \<and> fraction = [] then None
           else case r of
               [] \<Rightarrow> Some (decimal_value whole fraction 0)
             | c # t \<Rightarrow> if c \<in> {CHR ''e'', CHR ''E''} then map_option (decimal_value whole fraction) (parse_exponent t) else None)"

definition parse_f64 :: "string \<Rightarrow> (string, f64) result" where
  "parse_f64 s = (case s of
      [] \<Rightarrow> Err ''cannot parse float from empty string''
    | c # r \<Rightarrow>
        let negative = (c = CHR ''-''); t = (if c \<in> {CHR ''-'', CHR ''+''} then r else s)
        in case parse_number t of
            Some q \<Rightarrow> Ok (rnd (if negative then - q else q))
          | None \<Rightarrow>
              let word = to_ascii_lowercase t
              in if word = ''nan'' then Ok NaN
                 else if word \<in> {''inf'', ''infinity''} then Ok (Inf negative)
                 else Err ''invalid float literal'')"

subsection \<open>Pressure stall information\<close>

definition psi_malformed :: "string \<Rightarrow> string \<Rightarrow> collector_error" where
  "psi_malformed resource msg = CollectorInvalid resource msg"

definition percentage :: "f64 \<Rightarrow> bool" where
  "percentage x \<longleftrightarrow> is_finite x \<and> f64_le (Fin 0) x \<and> f64_le x (Fin 100)"

definition parse_average :: "string \<Rightarrow> string \<Rightarrow> string \<Rightarrow> (collector_error, f64) result" where
  "parse_average resource key v = (case parse_f64 v of
      Inl e \<Rightarrow> Err (psi_malformed resource (''invalid `'' @ key @ ''`: '' @ e))
    | Inr p \<Rightarrow> if percentage p then Ok p
        else Err (psi_malformed resource (''`'' @ key @ ''` must be finite and between 0 and 100'')))"

record psi_fields =
  pf_avg10 :: "f64 option"
  pf_avg60 :: "f64 option"
  pf_avg300 :: "f64 option"
  pf_total :: "u64 option"

definition no_psi_fields :: psi_fields where
  "no_psi_fields = \<lparr> pf_avg10 = None, pf_avg60 = None, pf_avg300 = None, pf_total = None \<rparr>"

definition psi_token :: "string \<Rightarrow> psi_fields \<Rightarrow> string \<Rightarrow> (collector_error, psi_fields) result" where
  "psi_token resource a token = (case split_once CHR ''='' token of
      None \<Rightarrow> Err (psi_malformed resource (''invalid token `'' @ token @ ''`''))
    | Some (key, v) \<Rightarrow>
        if key = ''avg10'' then rbind (parse_average resource key v) (\<lambda>x. Ok (a\<lparr> pf_avg10 := Some x \<rparr>))
        else if key = ''avg60'' then rbind (parse_average resource key v) (\<lambda>x. Ok (a\<lparr> pf_avg60 := Some x \<rparr>))
        else if key = ''avg300'' then rbind (parse_average resource key v) (\<lambda>x. Ok (a\<lparr> pf_avg300 := Some x \<rparr>))
        else if key = ''total'' then (case parse_unsigned v of
            Inl e \<Rightarrow> Err (psi_malformed resource (''invalid `total`: '' @ e))
          | Inr n \<Rightarrow> Ok (a\<lparr> pf_total := Some n \<rparr>))
        else Ok a)"

fun psi_tokens :: "string \<Rightarrow> psi_fields \<Rightarrow> string list \<Rightarrow> (collector_error, psi_fields) result" where
  "psi_tokens resource a [] = Ok a"
| "psi_tokens resource a (t # ts) = rbind (psi_token resource a t) (\<lambda>b. psi_tokens resource b ts)"

definition psi_required :: "string \<Rightarrow> string \<Rightarrow> 'a option \<Rightarrow> (collector_error, 'a) result" where
  "psi_required resource key v = ok_or (psi_malformed resource (''required `'' @ key @ ''` is missing'')) v"

definition psi_parsed :: "string \<Rightarrow> psi_fields \<Rightarrow> (collector_error, psi_line) result" where
  "psi_parsed resource a =
     rbind (psi_required resource ''avg10'' (pf_avg10 a)) (\<lambda>avg10.
     rbind (psi_required resource ''avg60'' (pf_avg60 a)) (\<lambda>avg60.
     rbind (psi_required resource ''avg300'' (pf_avg300 a)) (\<lambda>avg300.
     rbind (psi_required resource ''total'' (pf_total a)) (\<lambda>t.
       Ok \<lparr> psl_avg10 = avg10, psl_avg60 = avg60, psl_avg300 = avg300, psl_total_us = t \<rparr>))))"

fun psi_lines :: "string \<Rightarrow> psi_sample \<Rightarrow> string list \<Rightarrow> (collector_error, psi_sample) result" where
  "psi_lines resource p [] = Ok p"
| "psi_lines resource p (line # ls) = (case split_whitespace line of
      [] \<Rightarrow> Err (psi_malformed resource ''empty line'')
    | kind # parts \<Rightarrow>
        if kind \<notin> {''some'', ''full''} then psi_lines resource p ls
        else rbind (psi_tokens resource no_psi_fields parts) (\<lambda>a.
             rbind (psi_parsed resource a) (\<lambda>l.
               psi_lines resource (if kind = ''some'' then p\<lparr> psi_some := Some l \<rparr> else p\<lparr> psi_full := Some l \<rparr>) ls)))"

definition psi_parse :: "string \<Rightarrow> string \<Rightarrow> (collector_error, psi_sample) result" where
  "psi_parse resource input =
     rbind (psi_lines resource \<lparr> psi_some = None, psi_full = None \<rparr> (filter (\<lambda>l. trim l \<noteq> []) (lines input))) (\<lambda>p.
     if psi_some p = None then Err (psi_malformed resource ''required `some` line is missing'') else Ok p)"

subsection \<open>zram and zswap\<close>

definition telemetry_u64 :: "string \<Rightarrow> string \<Rightarrow> string \<Rightarrow> (collector_error, u64) result" where
  "telemetry_u64 metric path v =
     map_sum (\<lambda>e. CollectorInvalid metric (''invalid value at `'' @ path @ ''`: '' @ e)) id (parse_unsigned (trim v))"

definition telemetry_optional_u64 :: "telemetry_source \<Rightarrow> string \<Rightarrow> (collector_error, u64 option) result" where
  "telemetry_optional_u64 S path = rbind (required_read ''zram'' path (read_optional S path)) (\<lambda>v. case v of
      None \<Rightarrow> Ok None
    | Some t \<Rightarrow> map_sum id Some (telemetry_u64 ''zram'' path t))"

fun first_bracketed :: "string list \<Rightarrow> string option" where
  "first_bracketed [] = None"
| "first_bracketed (t # ts) = (case Option.bind (strip_prefix ''['' t) (strip_suffix '']'') of
      Some a \<Rightarrow> Some a
    | None \<Rightarrow> first_bracketed ts)"

definition current_algorithm :: "string \<Rightarrow> string option" where
  "current_algorithm v = first_bracketed (split_whitespace v)"

record mm_values =
  mv_original_data_bytes :: "u64 option"
  mv_compressed_data_bytes :: "u64 option"
  mv_memory_used_bytes :: "u64 option"

fun mm_stat_values :: "string list \<Rightarrow> (collector_error, u64 list) result" where
  "mm_stat_values [] = Ok []"
| "mm_stat_values (t # ts) =
     rbind (map_sum (\<lambda>e. CollectorInvalid ''zram'' (''invalid mm_stat value: '' @ e)) id (parse_unsigned t)) (\<lambda>v.
     rbind (mm_stat_values ts) (\<lambda>vs. Ok (v # vs)))"

definition get_at :: "'a list \<Rightarrow> nat \<Rightarrow> 'a option" where
  "get_at xs i = (if i < length xs then Some (xs ! i) else None)"

definition telemetry_mm_stat :: "string \<Rightarrow> (collector_error, mm_values) result" where
  "telemetry_mm_stat input = rbind (mm_stat_values (split_whitespace input)) (\<lambda>vs.
     Ok \<lparr> mv_original_data_bytes = get_at vs 0, mv_compressed_data_bytes = get_at vs 1, mv_memory_used_bytes = get_at vs 2 \<rparr>)"

definition collect_device :: "telemetry_source \<Rightarrow> string \<Rightarrow> (collector_error, zram_device) result" where
  "collect_device S name = (let base = ''/sys/block/'' @ name in
     rbind (telemetry_optional_u64 S (base @ ''/disksize'')) (\<lambda>disk_size.
     rbind (required_read ''zram'' (base @ ''/comp_algorithm'') (read_optional S (base @ ''/comp_algorithm''))) (\<lambda>algorithm.
     rbind (required_read ''zram'' (base @ ''/mm_stat'') (read_optional S (base @ ''/mm_stat''))) (\<lambda>mm.
     rbind (case mm of
         Some v \<Rightarrow> telemetry_mm_stat v
       | None \<Rightarrow> Ok \<lparr> mv_original_data_bytes = None, mv_compressed_data_bytes = None, mv_memory_used_bytes = None \<rparr>) (\<lambda>m.
       Ok \<lparr> zd_name = name, zd_disk_size_bytes = disk_size, zd_algorithm = Option.bind algorithm current_algorithm,
            zd_original_data_bytes = mv_original_data_bytes m, zd_compressed_data_bytes = mv_compressed_data_bytes m,
            zd_memory_used_bytes = mv_memory_used_bytes m \<rparr>)))))"

fun collect_devices :: "telemetry_source \<Rightarrow> string list \<Rightarrow> (collector_error, zram_device list) result" where
  "collect_devices S [] = Ok []"
| "collect_devices S (n # ns) = rbind (collect_device S n) (\<lambda>d. rbind (collect_devices S ns) (\<lambda>ds. Ok (d # ds)))"

definition no_zram :: zram_state where
  "no_zram = \<lparr> zs_available = False, zs_devices = [] \<rparr>"

definition zram_collect :: "telemetry_source \<Rightarrow> (collector_error, zram_state) result" where
  "zram_collect S = (case ts_read_dir_names S ''/sys/block'' of
      Inl e \<Rightarrow> if io_kind e = NotFound then Ok no_zram else Err (CollectorRequiredRead ''zram'' ''/sys/block'' e)
    | Inr names \<Rightarrow> rbind (collect_devices S (filter (\<lambda>n. starts_with n ''zram'') names)) (\<lambda>ds.
        Ok \<lparr> zs_available = (ds \<noteq> []), zs_devices = ds \<rparr>))"

definition parse_enabled :: "string \<Rightarrow> bool option" where
  "parse_enabled v = (let w = to_ascii_lowercase (trim v) in
     if w \<in> {''y'', ''yes'', ''1'', ''true''} then Some True
     else if w \<in> {''n'', ''no'', ''0'', ''false''} then Some False else None)"

fun first_optional_u64 :: "telemetry_source \<Rightarrow> string list \<Rightarrow> (collector_error, u64 option) result" where
  "first_optional_u64 S [] = Ok None"
| "first_optional_u64 S (path # ps) = rbind (required_read ''zswap'' path (read_optional S path)) (\<lambda>v. case v of
      Some t \<Rightarrow> map_sum id Some (telemetry_u64 ''zswap'' path t)
    | None \<Rightarrow> first_optional_u64 S ps)"

definition no_zswap :: zswap_state where
  "no_zswap = \<lparr> zw_available = False, zw_enabled = None, zw_stored_pages = None, zw_pool_bytes = None \<rparr>"

definition zswap_collect :: "telemetry_source \<Rightarrow> (collector_error, zswap_state) result" where
  "zswap_collect S = (let path = ''/sys/module/zswap/parameters/enabled'' in
     rbind (required_read ''zswap'' path (read_optional S path)) (\<lambda>enabled_text. case enabled_text of
       None \<Rightarrow> Ok no_zswap
     | Some text \<Rightarrow>
         rbind (first_optional_u64 S [''/sys/kernel/debug/zswap/stored_pages'', ''/sys/kernel/mm/zswap/stored_pages'']) (\<lambda>stored.
         rbind (first_optional_u64 S [''/sys/kernel/debug/zswap/pool_total_size'', ''/sys/kernel/mm/zswap/pool_total_size'']) (\<lambda>pool.
           Ok \<lparr> zw_available = True, zw_enabled = parse_enabled text, zw_stored_pages = stored, zw_pool_bytes = pool \<rparr>))))"

subsection \<open>The system sample\<close>

definition swap_collect :: "telemetry_source \<Rightarrow> (collector_error, swap_state) result" where
  "swap_collect S = rbind (required_read ''swaps'' ''/proc/swaps'' (ts_read_to_string S ''/proc/swaps'')) swap_parse"

text \<open>The sample and the names it adds to the list of what is unavailable.\<close>

definition collect_psi :: "telemetry_source \<Rightarrow> string \<Rightarrow> string \<Rightarrow> psi_sample option \<times> string list" where
  "collect_psi S path metric = (case ts_read_to_string S path of
      Inl _ \<Rightarrow> (None, [metric])
    | Inr v \<Rightarrow> (case psi_parse metric v of Inl _ \<Rightarrow> (None, [metric]) | Inr p \<Rightarrow> (Some p, [])))"

definition zram_or_none :: "(collector_error, zram_state) result \<Rightarrow> zram_state \<times> string list" where
  "zram_or_none r = (case r of Inl _ \<Rightarrow> (no_zram, [''zram_statistics'']) | Inr z \<Rightarrow> (z, []))"

definition zswap_or_none :: "(collector_error, zswap_state) result \<Rightarrow> zswap_state \<times> string list" where
  "zswap_or_none r = (case r of Inl _ \<Rightarrow> (no_zswap, [''zswap_statistics'']) | Inr z \<Rightarrow> (z, []))"

definition sample_system :: "telemetry_source \<Rightarrow> i64 \<Rightarrow> (collector_error, system_sample) result" where
  "sample_system S timestamp_ns =
     rbind (required_read ''meminfo'' ''/proc/meminfo'' (ts_read_to_string S ''/proc/meminfo'')) (\<lambda>meminfo_text.
     rbind (required_read ''vmstat'' ''/proc/vmstat'' (ts_read_to_string S ''/proc/vmstat'')) (\<lambda>vmstat_text.
     rbind (meminfo_parse meminfo_text) (\<lambda>m.
     rbind (vmstat_parse vmstat_text) (\<lambda>v.
     rbind (swap_collect S) (\<lambda>swap.
       let (psi_memory, u1) = collect_psi S ''/proc/pressure/memory'' ''psi_memory'';
           (psi_cpu, u2) = collect_psi S ''/proc/pressure/cpu'' ''psi_cpu'';
           (psi_io, u3) = collect_psi S ''/proc/pressure/io'' ''psi_io'';
           (zram, u4) = zram_or_none (zram_collect S);
           u5 = (if \<not> zs_available zram then [''zram''] else []);
           (zswap, u6) = zswap_or_none (zswap_collect S);
           u7 = (if \<not> zw_available zswap then [''zswap'']
                 else if zw_stored_pages zswap = None \<or> zw_pool_bytes zswap = None then [''zswap_statistics''] else [])
       in Ok \<lparr> ss_timestamp_ns = timestamp_ns, ss_mem_total_bytes = mi_mem_total_bytes m,
            ss_mem_available_bytes = mi_mem_available_bytes m, ss_anon_bytes = mi_anon_bytes m,
            ss_file_cache_bytes = mi_file_cache_bytes m, ss_slab_bytes = mi_slab_bytes m,
            ss_swap_used_bytes = mi_swap_used_bytes m, ss_swap_in_pages = vs_swap_in_pages v,
            ss_swap_out_pages = vs_swap_out_pages v, ss_major_faults = vs_major_faults v,
            ss_minor_faults = vs_minor_faults v, ss_pgscan = vs_pgscan v, ss_pgsteal = vs_pgsteal v,
            ss_workingset_refault = vs_workingset_refault v, ss_psi_memory = psi_memory, ss_psi_cpu = psi_cpu,
            ss_psi_io = psi_io, ss_swap = swap, ss_zram = zram, ss_zswap = zswap,
            ss_capabilities_unavailable = remdups_adj (sort (u1 @ u2 @ u3 @ u4 @ u5 @ u6 @ u7)) \<rparr>)))))"

text \<open>The clock as nanoseconds since the epoch; \<open>None\<close> when it is before the epoch.\<close>

definition unix_timestamp_ns :: "nat option \<Rightarrow> (collector_error, i64) result" where
  "unix_timestamp_ns since_epoch = (case since_epoch of
      None \<Rightarrow> Err CollectorTimestamp
    | Some n \<Rightarrow> if int n \<le> i64_max then Ok (int n) else Err CollectorTimestamp)"

subsection \<open>What a sample guarantees\<close>

definition psi_line_ok :: "psi_line \<Rightarrow> bool" where
  "psi_line_ok l \<longleftrightarrow> percentage (psl_avg10 l) \<and> percentage (psl_avg60 l) \<and> percentage (psl_avg300 l)"

definition psi_sample_ok :: "psi_sample \<Rightarrow> bool" where
  "psi_sample_ok p \<longleftrightarrow> (\<forall>l. psi_some p = Some l \<or> psi_full p = Some l \<longrightarrow> psi_line_ok l)"

definition psi_fields_ok :: "psi_fields \<Rightarrow> bool" where
  "psi_fields_ok a \<longleftrightarrow> is_none_or percentage (pf_avg10 a) \<and> is_none_or percentage (pf_avg60 a) \<and> is_none_or percentage (pf_avg300 a)"

lemma parse_average_percentage: "parse_average r k v = Ok p \<Longrightarrow> percentage p"
  by (auto simp: parse_average_def split: sum.splits if_splits)

lemma psi_token_ok: "psi_token r a t = Ok b \<Longrightarrow> psi_fields_ok a \<Longrightarrow> psi_fields_ok b"
  by (auto simp: psi_token_def psi_fields_ok_def dest: parse_average_percentage split: option.splits prod.splits if_splits sum.splits)

lemma psi_tokens_ok: "psi_tokens r a ts = Ok b \<Longrightarrow> psi_fields_ok a \<Longrightarrow> psi_fields_ok b"
  by (induction ts arbitrary: a) (auto dest: psi_token_ok)

lemma psi_parsed_ok: "psi_parsed r a = Ok l \<Longrightarrow> psi_fields_ok a \<Longrightarrow> psi_line_ok l"
  by (auto simp: psi_parsed_def psi_required_def psi_fields_ok_def psi_line_ok_def)

lemma psi_lines_ok: "psi_lines r p ls = Ok q \<Longrightarrow> psi_sample_ok p \<Longrightarrow> psi_sample_ok q"
proof (induction ls arbitrary: p)
  case (Cons line ls)
  show ?case
  proof (cases "split_whitespace line")
    case Nil
    then show ?thesis using Cons.prems by simp
  next
    case (Cons kind parts)
    show ?thesis
    proof (cases "kind \<in> {''some'', ''full''}")
      case False
      then show ?thesis using Cons.prems Cons.IH Cons by simp
    next
      case True
      have "rbind (psi_tokens r no_psi_fields parts) (\<lambda>a. rbind (psi_parsed r a) (\<lambda>l.
          psi_lines r (if kind = ''some'' then p\<lparr> psi_some := Some l \<rparr> else p\<lparr> psi_full := Some l \<rparr>) ls)) = Ok q"
        using Cons.prems(1) by (simp only: psi_lines.simps Cons list.case True not_True_eq_False if_False)
      then obtain a l where a: "psi_tokens r no_psi_fields parts = Ok a" and l: "psi_parsed r a = Ok l"
        and q: "psi_lines r (if kind = ''some'' then p\<lparr> psi_some := Some l \<rparr> else p\<lparr> psi_full := Some l \<rparr>) ls = Ok q"
        unfolding rbind_Ok_iff by blast
      have "psi_line_ok l" using psi_parsed_ok [OF l psi_tokens_ok [OF a]] by (simp add: psi_fields_ok_def no_psi_fields_def)
      then have "psi_sample_ok (if b then p\<lparr> psi_some := Some l \<rparr> else p\<lparr> psi_full := Some l \<rparr>)" for b
        using Cons.prems(2) by (cases b) (auto simp: psi_sample_ok_def)
      then show ?thesis by (rule Cons.IH [OF q])
    qed
  qed
qed simp

lemma psi_parse_ok: "psi_parse r input = Ok p \<Longrightarrow> psi_sample_ok p \<and> psi_some p \<noteq> None"
  by (auto simp: psi_parse_def psi_sample_ok_def [of "\<lparr> psi_some = None, psi_full = None \<rparr>"] dest!: psi_lines_ok split: if_splits)

lemma collect_psi_cases:
  "snd (collect_psi S path metric) = (if fst (collect_psi S path metric) = None then [metric] else [])"
  "fst (collect_psi S path metric) = Some p \<Longrightarrow> psi_sample_ok p \<and> psi_some p \<noteq> None"
  by (auto simp: collect_psi_def dest: psi_parse_ok split: sum.splits)

lemma zram_or_none_state: "fst (zram_or_none (zram_collect S)) = z \<Longrightarrow> zs_available z \<longleftrightarrow> zs_devices z \<noteq> []"
  by (auto simp: zram_or_none_def zram_collect_def no_zram_def split: sum.splits if_splits)

lemma or_none_names:
  "set (snd (zram_or_none r)) \<subseteq> {''zram_statistics''}" "set (snd (zswap_or_none q)) \<subseteq> {''zswap_statistics''}"
  by (auto simp: zram_or_none_def zswap_or_none_def split: sum.splits)

lemma sorted_remdups_adj_strict: "sorted xs \<Longrightarrow> sorted_wrt (<) (remdups_adj xs :: 'a::linorder list)"
  by (induction xs rule: remdups_adj.induct) auto

lemma sorted_strict_dedup: "sorted_wrt (<) (remdups_adj (sort xs) :: 'a::linorder list)"
  by (simp add: sorted_remdups_adj_strict)

lemma sample_psi_memory:
  assumes "sample_system S t = Ok s" and "ss_psi_memory s = Some p"
  shows "psi_sample_ok p"
proof -
  have "ss_psi_memory s = fst (collect_psi S ''/proc/pressure/memory'' ''psi_memory'')"
    using assms(1) by (auto simp: sample_system_def Let_def case_prod_beta)
  then show ?thesis using collect_psi_cases(2) assms(2) by metis
qed

lemma names_subset:
  assumes "A \<subseteq> {a} \<union> {b} \<union> {c} \<union> {d} \<union> Z \<union> {e} \<union> {f} \<union> W" and "Z \<subseteq> {g}" and "W \<subseteq> {f}"
  shows "A \<subseteq> {a, b, c, d, g, e, f}"
  using assms by blast

text \<open>C31. The shape of a system sample. Whatever the kernel's files contain, a sample that is returned has every pressure
  average finite and between 0 and 100, a \<open>some\<close> line in each pressure sample, and zram available exactly
  with at least one device; the list of unavailable capabilities is strictly sorted, holds only the seven known
  names, and names the pressure resources, zram and zswap exactly when the sample lacks them, and the zswap statistics whenever
  an available zswap lacks a counter.\<close>

theorem sample_shape:
  assumes "sample_system S t = Ok s"
  defines "u \<equiv> ss_capabilities_unavailable s"
  shows "ss_timestamp_ns s = t \<and>
    (\<forall>p. Some p \<in> {ss_psi_memory s, ss_psi_cpu s, ss_psi_io s} \<longrightarrow> psi_some p \<noteq> None \<and>
      (\<forall>l. psi_some p = Some l \<or> psi_full p = Some l \<longrightarrow> percentage (psl_avg10 l) \<and> percentage (psl_avg60 l) \<and> percentage (psl_avg300 l))) \<and>
    (zs_available (ss_zram s) \<longleftrightarrow> zs_devices (ss_zram s) \<noteq> []) \<and>
    sorted_wrt (<) u \<and> set u \<subseteq> {''psi_memory'', ''psi_cpu'', ''psi_io'', ''zram'', ''zram_statistics'', ''zswap'', ''zswap_statistics''} \<and>
    (''psi_memory'' \<in> set u \<longleftrightarrow> ss_psi_memory s = None) \<and> (''psi_cpu'' \<in> set u \<longleftrightarrow> ss_psi_cpu s = None) \<and>
    (''psi_io'' \<in> set u \<longleftrightarrow> ss_psi_io s = None) \<and> (''zram'' \<in> set u \<longleftrightarrow> \<not> zs_available (ss_zram s)) \<and>
    (''zswap'' \<in> set u \<longleftrightarrow> \<not> zw_available (ss_zswap s)) \<and>
    (zw_available (ss_zswap s) \<and> (zw_stored_pages (ss_zswap s) = None \<or> zw_pool_bytes (ss_zswap s) = None) \<longrightarrow> ''zswap_statistics'' \<in> set u)"
proof -
  define pm where "pm = collect_psi S ''/proc/pressure/memory'' ''psi_memory''"
  define pc where "pc = collect_psi S ''/proc/pressure/cpu'' ''psi_cpu''"
  define po where "po = collect_psi S ''/proc/pressure/io'' ''psi_io''"
  define z where "z = zram_or_none (zram_collect S)"
  define w where "w = zswap_or_none (zswap_collect S)"
  define us where "us = snd pm @ snd pc @ snd po @ snd z @ (if \<not> zs_available (fst z) then [''zram''] else []) @ snd w @
    (if \<not> zw_available (fst w) then [''zswap''] else if zw_stored_pages (fst w) = None \<or> zw_pool_bytes (fst w) = None then [''zswap_statistics''] else [])"
  have f: "ss_timestamp_ns s = t" "ss_psi_memory s = fst pm" "ss_psi_cpu s = fst pc" "ss_psi_io s = fst po" "ss_zram s = fst z"
    "ss_zswap s = fst w" "u = remdups_adj (sort us)"
    using assms(1) by (auto simp: sample_system_def u_def us_def pm_def pc_def po_def z_def w_def Let_def case_prod_beta)
  have ps: "snd pm = (if fst pm = None then [''psi_memory''] else [])" "snd pc = (if fst pc = None then [''psi_cpu''] else [])"
    "snd po = (if fst po = None then [''psi_io''] else [])"
    by (simp_all add: pm_def pc_def po_def collect_psi_cases(1))
  have zs: "set (snd z) \<subseteq> {''zram_statistics''}" "set (snd w) \<subseteq> {''zswap_statistics''}" by (simp_all add: z_def w_def or_none_names)
  then have nz: "x \<noteq> ''zram_statistics'' \<Longrightarrow> x \<notin> set (snd z)" "x \<noteq> ''zswap_statistics'' \<Longrightarrow> x \<notin> set (snd w)" for x by blast+
  have "psi_sample_ok p \<and> psi_some p \<noteq> None" if "Some p \<in> {ss_psi_memory s, ss_psi_cpu s, ss_psi_io s}" for p
    using that collect_psi_cases(2) [of S _ _ p] unfolding f pm_def pc_def po_def by (metis empty_iff insert_iff)
  then have psi: "\<forall>p. Some p \<in> {ss_psi_memory s, ss_psi_cpu s, ss_psi_io s} \<longrightarrow> psi_some p \<noteq> None \<and>
      (\<forall>l. psi_some p = Some l \<or> psi_full p = Some l \<longrightarrow> percentage (psl_avg10 l) \<and> percentage (psl_avg60 l) \<and> percentage (psl_avg300 l))"
    unfolding psi_sample_ok_def psi_line_ok_def by blast
  have su: "set u = set us" by (simp add: f)
  have "set us \<subseteq> {''psi_memory''} \<union> {''psi_cpu''} \<union> {''psi_io''} \<union> {''zram''} \<union> set (snd z) \<union> {''zswap''} \<union> {''zswap_statistics''} \<union> set (snd w)"
    unfolding us_def ps set_append by (intro Un_least) (auto simp del: insert_iff)
  note mem = names_subset [OF this zs]
  have named: "(''psi_memory'' \<in> set us \<longleftrightarrow> fst pm = None)" "(''psi_cpu'' \<in> set us \<longleftrightarrow> fst pc = None)"
    "(''psi_io'' \<in> set us \<longleftrightarrow> fst po = None)" "(''zram'' \<in> set us \<longleftrightarrow> \<not> zs_available (fst z))" "(''zswap'' \<in> set us \<longleftrightarrow> \<not> zw_available (fst w))"
    by (simp_all add: us_def ps nz)
  have st: "zw_available (fst w) \<and> (zw_stored_pages (fst w) = None \<or> zw_pool_bytes (fst w) = None) \<longrightarrow> ''zswap_statistics'' \<in> set us"
    by (simp add: us_def)
  have zr: "zs_available (fst z) \<longleftrightarrow> zs_devices (fst z) \<noteq> []" using zram_or_none_state by (simp add: z_def)
  have so: "sorted_wrt (<) u" unfolding f(7) by (rule sorted_strict_dedup)
  show ?thesis
    by (intro conjI) (rule f(1) psi so zr [folded f(5)] mem [folded su] named [folded su f(2-6)] st [folded su f(6)])+
qed

text \<open>A source of given files and process ids, and one with little memory under slight pressure.\<close>

definition reading_source :: "(string \<times> string) list \<Rightarrow> string list \<Rightarrow> telemetry_source" where
  "reading_source files pids = \<lparr>
     ts_read_to_string = (\<lambda>p. case map_of files p of Some v \<Rightarrow> Ok v | None \<Rightarrow> Err (IoError NotFound [])),
     ts_read_dir_names = (\<lambda>p. if p = ''/proc'' then Ok pids else Err (IoError NotFound [])),
     ts_read_link = (\<lambda>p. Err (IoError NotFound [])) \<rparr>"

definition example_source :: telemetry_source where
  "example_source = reading_source [(''/proc/meminfo'', unlines [''MemTotal: 8 kB'', ''MemAvailable: 4 kB'']), (''/proc/vmstat'', []),
     (''/proc/swaps'', []), (''/proc/pressure/memory'', ''some avg10=2 avg60=1 avg300=0 total=7'')] []"

lemma example_reads:
  "ts_read_to_string example_source ''/proc/meminfo'' = Ok (unlines [''MemTotal: 8 kB'', ''MemAvailable: 4 kB''])"
  "ts_read_to_string example_source ''/proc/vmstat'' = Ok []" "ts_read_to_string example_source ''/proc/swaps'' = Ok []"
  "ts_read_to_string example_source ''/proc/pressure/memory'' = Ok ''some avg10=2 avg60=1 avg300=0 total=7''"
  "ts_read_to_string example_source ''/proc/pressure/cpu'' = Err (IoError NotFound [])"
  by (simp_all add: example_source_def reading_source_def)

lemma example_meminfo:
  "meminfo_parse (unlines [''MemTotal: 8 kB'', ''MemAvailable: 4 kB'']) = Ok \<lparr> mi_mem_total_bytes = 8192, mi_mem_available_bytes = 4096,
     mi_anon_bytes = None, mi_file_cache_bytes = None, mi_slab_bytes = None, mi_swap_total_bytes = None, mi_swap_free_bytes = None,
     mi_swap_used_bytes = None \<rparr>"
proof -
  have l: "lines (unlines [''MemTotal: 8 kB'', ''MemAvailable: 4 kB'']) = [''MemTotal: 8 kB'', ''MemAvailable: 4 kB'']" by code_simp
  have v: "meminfo_value ''MemTotal'' '' 8 kB'' = Ok 8192" "meminfo_value ''MemAvailable'' '' 4 kB'' = Ok 4096"
    by (simp_all add: meminfo_value_def split_whitespace_def is_ws_def parse_unsigned_def strip_plus_def
        scan_number_def is_ascii_digit_def digit_val_def checked_mul_def)
  show ?thesis unfolding meminfo_parse_def l
    by (simp add: v meminfo_wanted_def trim_def trim_end_ws_def is_ws_def meminfo_required_def
        meminfo_add_optional_def meminfo_swap_used_def)
qed

lemma example_psi: "\<exists>p. psi_parse ''psi_memory'' ''some avg10=2 avg60=1 avg300=0 total=7'' = Ok p"
proof -
  let ?ts = "[''avg10=2'', ''avg60=1'', ''avg300=0'', ''total=7'']"
  have l: "filter (\<lambda>l. trim l \<noteq> []) (lines ''some avg10=2 avg60=1 avg300=0 total=7'') = [''some avg10=2 avg60=1 avg300=0 total=7'']"
    "split_whitespace ''some avg10=2 avg60=1 avg300=0 total=7'' = ''some'' # ?ts" by code_simp+
  have n: "parse_number ''2'' = Some 2" "parse_number ''1'' = Some 1" "parse_number ''0'' = Some 0" by code_simp+
  have r: "rnd 2 = Fin 2" "rnd 1 = Fin 1" "rnd 0 = Fin 0"
    using rnd_of_int_exact [of 2] rnd_of_int_exact [of 1] rnd_of_int_exact [of 0] by simp_all
  have f: "parse_f64 ''2'' = Ok (Fin 2)" "parse_f64 ''1'' = Ok (Fin 1)" "parse_f64 ''0'' = Ok (Fin 0)"
    unfolding parse_f64_def by (simp_all add: Let_def n r)
  have t: "parse_unsigned ''7'' = Ok (7 :: u64)" by (simp add: parse_unsigned_def strip_plus_def scan_number_def is_ascii_digit_def digit_val_def)
  show ?thesis
    by (simp add: psi_parse_def l psi_token_def parse_average_def f t percentage_def psi_parsed_def psi_required_def no_psi_fields_def)
qed

lemma example_sample:
  "\<exists>s. sample_system example_source 5 = Ok s \<and> ss_mem_total_bytes s = 8192 \<and> ss_mem_available_bytes s = 4096 \<and> sw_entries (ss_swap s) = [] \<and>
     ss_psi_memory s \<noteq> None \<and> ss_psi_cpu s = None"
proof -
  obtain p where p: "psi_parse ''psi_memory'' ''some avg10=2 avg60=1 avg300=0 total=7'' = Ok p" using example_psi by blast
  have w: "swap_collect example_source = Ok \<lparr> sw_entries = [], sw_configuration = SwapNone \<rparr>"
    by (simp add: swap_collect_def example_reads swap_parse_def lines_def summarize_def)
  have v: "vmstat_parse [] = Ok vm_stat_default" by (simp add: vmstat_parse_def lines_def vm_stat_default_def)
  have c: "collect_psi example_source ''/proc/pressure/memory'' ''psi_memory'' = (Some p, [])"
    "collect_psi example_source ''/proc/pressure/cpu'' ''psi_cpu'' = (None, [''psi_cpu''])"
    by (simp_all add: collect_psi_def example_reads p)
  show ?thesis unfolding sample_system_def by (simp add: example_reads example_meminfo v w c Let_def case_prod_beta)
qed

theorem sample_shape_witness:
  "\<exists>s. sample_system example_source 5 = Ok s \<and> ''psi_cpu'' \<in> set (ss_capabilities_unavailable s) \<and>
     ''psi_memory'' \<notin> set (ss_capabilities_unavailable s)"
proof -
  obtain s where s: "sample_system example_source 5 = Ok s" "ss_psi_memory s \<noteq> None" "ss_psi_cpu s = None" using example_sample by blast
  note h = sample_shape [OF s(1)]
  have "(''psi_cpu'' \<in> set (ss_capabilities_unavailable s)) = (ss_psi_cpu s = None)" using h by (elim conjE)
  moreover have "(''psi_memory'' \<in> set (ss_capabilities_unavailable s)) = (ss_psi_memory s = None)" using h by (elim conjE)
  ultimately show ?thesis by (intro exI [of _ s]) (simp add: s)
qed

end
