(* ===== verification/Process_Scan.thy ===== *)
theory Process_Scan
  imports Collector
begin

text \<open>
  The collection of the processes (\<open>collector/src/process.rs\<close>): the per-process files, the parsers of \<open>stat\<close>, \<open>status\<close>, \<open>io\<close>,
  \<open>cgroup\<close> and \<open>smaps_rollup\<close>, and the scan over \<open>/proc\<close> that \<open>SystemCollector::sample_processes\<close> makes. What is shown: a
  scan accounts for every process and forgets the CPU baselines of those that are gone; and no name a process gives
  itself can forge the fs of its \<open>stat\<close> line.
\<close>

subsection \<open>Fields of a text\<close>

definition find_char :: "char \<Rightarrow> string \<Rightarrow> nat option" where
  "find_char c s = (if c \<in> set s then Some (length (takeWhile (\<lambda>x. x \<noteq> c) s)) else None)"

definition rfind_char :: "char \<Rightarrow> string \<Rightarrow> nat option" where
  "rfind_char c s = map_option (\<lambda>i. length s - Suc i) (find_char c (rev s))"

definition find_field :: "string \<Rightarrow> string \<Rightarrow> string option" where
  "find_field input key = (case List.map_filter (\<lambda>line. case split_once CHR '':'' line of
        None \<Rightarrow> None
      | Some (name, v) \<Rightarrow> if trim name = key then Some v else None) (lines input) of
      [] \<Rightarrow> None
    | v # _ \<Rightarrow> Some v)"

definition parse_kib_field :: "string \<Rightarrow> string \<Rightarrow> string \<Rightarrow> (collector_error, u64 option) result" where
  "parse_kib_field metric input key = (case find_field input key of
      None \<Rightarrow> Ok None
    | Some raw \<Rightarrow>
        (let fs = split_whitespace raw in
         if length fs \<noteq> 2 \<or> fs ! 1 \<noteq> ''kB''
         then Err (CollectorInvalid metric (''`'' @ key @ ''` must contain a kB value''))
         else (case parse_unsigned (fs ! 0) of
             Inl e \<Rightarrow> Err (CollectorInvalid metric (''invalid `'' @ key @ ''`: '' @ e))
           | Inr v \<Rightarrow> map_sum id Some (ok_or (CollectorInvalid metric (''`'' @ key @ ''` overflows bytes'')) (checked_mul v 1024)))))"

definition parse_plain_field :: "string \<Rightarrow> string \<Rightarrow> string \<Rightarrow> (collector_error, u64 option) result" where
  "parse_plain_field metric input key = (case find_field input key of
      None \<Rightarrow> Ok None
    | Some raw \<Rightarrow> map_sum (\<lambda>e. CollectorInvalid metric (''invalid `'' @ key @ ''`: '' @ e)) Some (parse_unsigned (trim raw)))"

subsection \<open>\<open>/proc/<pid>/stat\<close>\<close>

record parsed_stat =
  st_pid :: u32
  st_executable_name :: string
  st_parent_pid :: u32
  st_process_group_id :: i32
  st_session_id :: i32
  st_tty_nr :: i64
  st_foreground_process_group_id :: i32
  st_minor_faults :: u64
  st_major_faults :: u64
  st_process_ticks :: u64
  st_start_time_ticks :: u64
  st_rss_pages :: i64

definition stat_error :: "string \<Rightarrow> collector_error" where
  "stat_error msg = CollectorInvalid ''process_stat'' msg"

definition stat_field :: "string list \<Rightarrow> nat \<Rightarrow> string \<Rightarrow> (collector_error, string) result" where
  "stat_field fs i name = ok_or (stat_error (''missing `'' @ name @ ''`'')) (get_at fs i)"

definition stat_value :: "string list \<Rightarrow> nat \<Rightarrow> string \<Rightarrow> (collector_error, u64) result" where
  "stat_value fs i name = rbind (stat_field fs i name) (\<lambda>v.
     map_sum (\<lambda>e. stat_error (''invalid `'' @ name @ ''`: '' @ e)) id (parse_unsigned v))"

definition stat_signed :: "nat \<Rightarrow> string list \<Rightarrow> nat \<Rightarrow> string \<Rightarrow> (collector_error, int) result" where
  "stat_signed w fs i name = rbind (stat_field fs i name) (\<lambda>v.
     map_sum (\<lambda>e. stat_error (''invalid `'' @ name @ ''`: '' @ e)) id (parse_signed w v))"

definition stat_fields :: "u32 \<Rightarrow> string \<Rightarrow> string list \<Rightarrow> (collector_error, parsed_stat) result" where
  "stat_fields pid name fs =
     rbind (stat_value fs 11 ''utime'') (\<lambda>user_ticks.
     rbind (stat_value fs 12 ''stime'') (\<lambda>system_ticks.
     rbind (stat_signed 64 fs 21 ''rss'') (\<lambda>rss.
     rbind (stat_value fs 1 ''ppid'') (\<lambda>ppid.
     rbind (if unat ppid < 2 ^ 32 then Ok (ucast ppid) else Err (stat_error ''`ppid` overflows u32'')) (\<lambda>parent.
     rbind (stat_signed 32 fs 2 ''pgrp'') (\<lambda>pgrp.
     rbind (stat_signed 32 fs 3 ''session'') (\<lambda>session.
     rbind (stat_signed 64 fs 4 ''tty_nr'') (\<lambda>tty.
     rbind (stat_signed 32 fs 5 ''tpgid'') (\<lambda>tpgid.
     rbind (stat_value fs 7 ''minflt'') (\<lambda>minflt.
     rbind (stat_value fs 9 ''majflt'') (\<lambda>majflt.
     rbind (ok_or (stat_error ''CPU ticks overflow'') (checked_add user_ticks system_ticks)) (\<lambda>ticks.
     rbind (stat_value fs 19 ''starttime'') (\<lambda>start.
       Ok \<lparr> st_pid = pid, st_executable_name = name, st_parent_pid = parent, st_process_group_id = pgrp,
            st_session_id = session, st_tty_nr = tty, st_foreground_process_group_id = tpgid, st_minor_faults = minflt,
            st_major_faults = majflt, st_process_ticks = ticks, st_start_time_ticks = start, st_rss_pages = rss \<rparr>)))))))))))))"

definition parse_stat :: "string \<Rightarrow> (collector_error, parsed_stat) result" where
  "parse_stat input =
     rbind (ok_or (stat_error ''missing `(`'') (find_char CHR ''('' input)) (\<lambda>open_at.
     rbind (ok_or (stat_error ''missing `)`'') (rfind_char CHR '')'' input)) (\<lambda>close_at.
     if close_at \<le> open_at then Err (stat_error ''invalid comm field'')
     else rbind (map_sum (\<lambda>e. stat_error (''invalid PID: '' @ e)) id (parse_unsigned (trim (take open_at input)))) (\<lambda>pid.
       stat_fields pid (drop (open_at + 1) (take close_at input)) (split_whitespace (drop (close_at + 1) input)))))"

subsection \<open>The other files\<close>

record status_values =
  sv_rss_bytes :: "u64 option"
  sv_swap_bytes :: "u64 option"

definition parse_status :: "string \<Rightarrow> (collector_error, status_values) result" where
  "parse_status input =
     rbind (parse_kib_field ''process_status'' input ''VmRSS'') (\<lambda>rss.
     rbind (parse_kib_field ''process_status'' input ''VmSwap'') (\<lambda>swap.
       Ok \<lparr> sv_rss_bytes = rss, sv_swap_bytes = swap \<rparr>))"

record io_values =
  iv_read_bytes :: "u64 option"
  iv_write_bytes :: "u64 option"

definition parse_io :: "string \<Rightarrow> (collector_error, io_values) result" where
  "parse_io input =
     rbind (parse_plain_field ''process_io'' input ''read_bytes'') (\<lambda>r.
     rbind (parse_plain_field ''process_io'' input ''write_bytes'') (\<lambda>w.
       Ok \<lparr> iv_read_bytes = r, iv_write_bytes = w \<rparr>))"

record smaps_values =
  sp_pss_bytes :: u64
  sp_uss_bytes :: "u64 option"

definition parse_smaps_rollup :: "string \<Rightarrow> (collector_error, smaps_values) result" where
  "parse_smaps_rollup input =
     rbind (parse_kib_field ''smaps_rollup'' input ''Pss'') (\<lambda>pss_field.
     rbind (ok_or (CollectorInvalid ''smaps_rollup'' ''missing `Pss`'') pss_field) (\<lambda>pss.
     rbind (parse_kib_field ''smaps_rollup'' input ''Private_Clean'') (\<lambda>clean.
     rbind (parse_kib_field ''smaps_rollup'' input ''Private_Dirty'') (\<lambda>dirty.
       Ok \<lparr> sp_pss_bytes = pss, sp_uss_bytes = (case (clean, dirty) of
             (Some c, Some d) \<Rightarrow> checked_add c d
           | _ \<Rightarrow> None) \<rparr>))))"

text \<open>\<open>line.splitn(3, ':').nth(2)\<close>: what follows the second colon.\<close>

definition after_two_colons :: "string \<Rightarrow> string option" where
  "after_two_colons line = Option.bind (split_once CHR '':'' line) (\<lambda>(_, r).
     map_option snd (split_once CHR '':'' r))"

definition parse_cgroup :: "string \<Rightarrow> string option" where
  "parse_cgroup input = (let paths = filter (\<lambda>p. trim p \<noteq> []) (List.map_filter after_two_colons (lines input)) in
     if paths = [] then None else Some (join '';'' paths))"

fun cpu_total :: "u64 \<Rightarrow> string list \<Rightarrow> (collector_error, u64) result" where
  "cpu_total acc [] = Ok acc"
| "cpu_total acc (raw # rs) =
     rbind (map_sum (\<lambda>e. CollectorInvalid ''proc_stat'' (''invalid CPU tick: '' @ e)) id (parse_unsigned raw)) (\<lambda>v.
     rbind (ok_or (CollectorInvalid ''proc_stat'' ''CPU tick total overflow'') (checked_add acc v)) (\<lambda>s. cpu_total s rs))"

definition cpu_line :: "string \<Rightarrow> bool" where
  "cpu_line line = (case strip_prefix ''cpu'' line of
      None \<Rightarrow> False
    | Some rest \<Rightarrow> (case split_whitespace rest of [] \<Rightarrow> False | i # _ \<Rightarrow> i \<noteq> [] \<and> list_all is_ascii_digit i))"

definition parse_system_cpu :: "string \<Rightarrow> (collector_error, u64 \<times> u32) result" where
  "parse_system_cpu input =
     rbind (ok_or (CollectorInvalid ''proc_stat'' ''aggregate CPU line is missing'')
       (find (\<lambda>l. starts_with l ''cpu '') (lines input))) (\<lambda>line.
     rbind (cpu_total 0 (drop 1 (split_whitespace line))) (\<lambda>ticks.
     (let logical = max (length (filter cpu_line (lines input))) 1 in
      if logical < 2 ^ 32 then Ok (ticks, of_nat logical)
      else Err (CollectorInvalid ''proc_stat'' ''logical CPU count overflows''))))"

subsection \<open>One process\<close>

datatype process_read_failure = Disappeared | ReadDenied | InvalidData

definition classify_process_io :: "io_error \<Rightarrow> process_read_failure" where
  "classify_process_io e = (case io_kind e of
      NotFound \<Rightarrow> Disappeared
    | PermissionDenied \<Rightarrow> ReadDenied
    | _ \<Rightarrow> InvalidData)"

definition proc_file :: "u32 \<Rightarrow> string \<Rightarrow> string" where
  "proc_file pid name = ''/proc/'' @ show_nat (unat pid) @ ''/'' @ name"

definition read_process_file :: "telemetry_source \<Rightarrow> u32 \<Rightarrow> string \<Rightarrow> (process_read_failure, string) result" where
  "read_process_file S pid name = map_sum classify_process_io id (ts_read_to_string S (proc_file pid name))"

definition optional_process_file :: "telemetry_source \<Rightarrow> u32 \<Rightarrow> string \<Rightarrow> (process_read_failure, string option) result" where
  "optional_process_file S pid name = (case read_process_file S pid name of
      Inr v \<Rightarrow> Ok (Some v)
    | Inl f \<Rightarrow> if f \<in> {Disappeared, ReadDenied} then Ok None else Err f)"

definition or_invalid :: "(collector_error, 'a) result \<Rightarrow> (process_read_failure, 'a) result" where
  "or_invalid r = map_sum (\<lambda>_. InvalidData) id r"

text \<open>An optional file that is missing, unreadable or malformed counts as absent.\<close>

definition best_effort :: "(process_read_failure, string option) result \<Rightarrow> (string \<Rightarrow> 'a option) \<Rightarrow> 'a option" where
  "best_effort r f = (case r of Inl _ \<Rightarrow> None | Inr v \<Rightarrow> Option.bind v f)"

definition ok_option :: "('e, 'a) result \<Rightarrow> 'a option" where
  "ok_option r = (case r of Inl _ \<Rightarrow> None | Inr v \<Rightarrow> Some v)"

definition PAGE_SIZE_BYTES :: u64 where
  "PAGE_SIZE_BYTES = 4096"

definition process_cpu ::
  "(u64 \<times> u32) option \<Rightarrow> parsed_stat \<Rightarrow> u32 \<Rightarrow> process_cpu_tracker \<Rightarrow> f64 option \<times> process_cpu_tracker" where
  "process_cpu system_cpu stat pid tracker = (case system_cpu of
      None \<Rightarrow> (None, tracker)
    | Some (system_ticks, logical_cpus) \<Rightarrow>
        cpu_calculate tracker pid (st_start_time_ticks stat) (st_process_ticks stat) system_ticks logical_cpus)"

text \<open>The two files without which a process is skipped.\<close>

definition read_process :: "telemetry_source \<Rightarrow> u32 \<Rightarrow> (process_read_failure, parsed_stat \<times> status_values) result" where
  "read_process S pid =
     rbind (read_process_file S pid ''stat'') (\<lambda>text.
     rbind (or_invalid (parse_stat text)) (\<lambda>stat.
     if st_pid stat \<noteq> pid then Err InvalidData
     else rbind (read_process_file S pid ''status'') (\<lambda>status_text.
       rbind (or_invalid (parse_status status_text)) (\<lambda>status. Ok (stat, status)))))"

definition collect_one ::
  "telemetry_source \<Rightarrow> i64 \<Rightarrow> u32 \<Rightarrow> bool \<Rightarrow> (u64 \<times> u32) option \<Rightarrow> process_cpu_tracker \<Rightarrow>
     (process_read_failure, process_sample) result \<times> process_cpu_tracker" where
  "collect_one S timestamp_ns pid read_smaps system_cpu tracker =
     (case read_process S pid of
       Inl f \<Rightarrow> (Err f, tracker)
     | Inr (stat, status) \<Rightarrow>
        (let io = best_effort (optional_process_file S pid ''io'') (\<lambda>t. ok_option (parse_io t));
             cgroup = best_effort (optional_process_file S pid ''cgroup'') parse_cgroup;
             smaps = (if read_smaps then best_effort (optional_process_file S pid ''smaps_rollup'') (\<lambda>t. ok_option (parse_smaps_rollup t)) else None);
             (cpu_percent, tracker2) = process_cpu system_cpu stat pid tracker;
             rss_from_stat = (if 0 \<le> st_rss_pages stat then checked_mul (of_int (st_rss_pages stat)) PAGE_SIZE_BYTES else None)
         in (Ok \<lparr> ps_timestamp_ns = timestamp_ns, ps_pid = pid,
               ps_executable = ok_option (ts_read_link S (proc_file pid ''exe'')),
               ps_executable_name = Some (st_executable_name stat), ps_parent_pid = Some (st_parent_pid stat),
               ps_process_group_id = Some (st_process_group_id stat), ps_session_id = Some (st_session_id stat),
               ps_tty_nr = Some (st_tty_nr stat), ps_foreground_process_group_id = Some (st_foreground_process_group_id stat),
               ps_start_time_ticks = Some (st_start_time_ticks stat), ps_cgroup_path = cgroup,
               ps_rss_bytes = opt_or (sv_rss_bytes status) rss_from_stat, ps_pss_bytes = map_option sp_pss_bytes smaps,
               ps_uss_bytes = Option.bind smaps sp_uss_bytes, ps_swap_bytes = sv_swap_bytes status,
               ps_minor_faults = Some (st_minor_faults stat), ps_major_faults = Some (st_major_faults stat),
               ps_cpu_percent = cpu_percent, ps_io_read_bytes = Option.bind io iv_read_bytes,
               ps_io_write_bytes = Option.bind io iv_write_bytes \<rparr>, tracker2)))"

subsection \<open>The scan\<close>

record process_collection_stats =
  pcs_disappeared :: nat
  pcs_permission_denied :: nat
  pcs_invalid :: nat

record process_collection =
  pcl_samples :: "process_sample list"
  pcl_stats :: process_collection_stats

definition no_stats :: process_collection_stats where
  "no_stats = \<lparr> pcs_disappeared = 0, pcs_permission_denied = 0, pcs_invalid = 0 \<rparr>"

fun count_failure :: "process_read_failure \<Rightarrow> process_collection_stats \<Rightarrow> process_collection_stats" where
  "count_failure Disappeared s = s\<lparr> pcs_disappeared := pcs_disappeared s + 1 \<rparr>"
| "count_failure ReadDenied s = s\<lparr> pcs_permission_denied := pcs_permission_denied s + 1 \<rparr>"
| "count_failure InvalidData s = s\<lparr> pcs_invalid := pcs_invalid s + 1 \<rparr>"

text \<open>The loop over the process ids: the samples collected, the counts, the live ids and the tracker.\<close>

fun scan_pids ::
  "telemetry_source \<Rightarrow> i64 \<Rightarrow> u32 set \<Rightarrow> (u64 \<times> u32) option \<Rightarrow> u32 list \<Rightarrow> process_collection \<Rightarrow> u32 set \<Rightarrow> process_cpu_tracker \<Rightarrow>
     process_collection \<times> u32 set \<times> process_cpu_tracker" where
  "scan_pids S timestamp_ns selected system_cpu [] c live tracker = (c, live, tracker)"
| "scan_pids S timestamp_ns selected system_cpu (pid # pids) c live tracker =
     (case collect_one S timestamp_ns pid (pid \<in> selected) system_cpu tracker of
        (Inr sample, tracker2) \<Rightarrow> scan_pids S timestamp_ns selected system_cpu pids
          (c\<lparr> pcl_samples := pcl_samples c @ [sample] \<rparr>) (insert pid live) tracker2
      | (Inl f, tracker2) \<Rightarrow> scan_pids S timestamp_ns selected system_cpu pids
          (c\<lparr> pcl_stats := count_failure f (pcl_stats c) \<rparr>) live tracker2)"

record system_collector =
  sc_source :: telemetry_source
  sc_process_cpu :: process_cpu_tracker
  sc_smaps_cursor :: nat

definition collector_with_source :: "telemetry_source \<Rightarrow> system_collector" where
  "collector_with_source S = \<lparr> sc_source = S, sc_process_cpu = (\<lambda>_. None), sc_smaps_cursor = 0 \<rparr>"

definition sample_processes ::
  "system_collector \<Rightarrow> i64 \<Rightarrow> bool \<Rightarrow> nat \<Rightarrow> (collector_error, process_collection) result \<times> system_collector" where
  "sample_processes C timestamp_ns read_smaps smaps_budget =
     (let S = sc_source C in case ts_read_dir_names S ''/proc'' of
        Inl e \<Rightarrow> (Err (CollectorRequiredRead ''processes'' ''/proc'' e), C)
      | Inr names \<Rightarrow>
         (let pids = sort (List.map_filter parse_u32 names);
              (selected, cursor) = select_smaps pids read_smaps smaps_budget (sc_smaps_cursor C);
              system_cpu = Option.bind (ok_option (ts_read_to_string S ''/proc/stat'')) (\<lambda>t. ok_option (parse_system_cpu t));
              (c, live, tracker) = scan_pids S timestamp_ns (set selected) system_cpu pids
                \<lparr> pcl_samples = [], pcl_stats = no_stats \<rparr> {} (sc_process_cpu C)
          in (Ok c, C\<lparr> sc_process_cpu := cpu_retain tracker live, sc_smaps_cursor := cursor \<rparr>)))"

subsection \<open>A scan accounts for every process\<close>

abbreviation scanned_pids :: "string list \<Rightarrow> u32 list" where
  "scanned_pids names \<equiv> sort (List.map_filter parse_u32 names)"

definition sample_from :: "telemetry_source \<Rightarrow> i64 \<Rightarrow> process_sample \<Rightarrow> bool" where
  "sample_from S t x \<longleftrightarrow> ps_timestamp_ns x = t \<and> is_none_or (f64_within 107) (ps_cpu_percent x) \<and>
     (\<exists>stat status. read_process S (ps_pid x) = Ok (stat, status) \<and> ps_executable_name x = Some (st_executable_name stat) \<and>
        ps_start_time_ticks x = Some (st_start_time_ticks stat))"

definition failed_with :: "telemetry_source \<Rightarrow> process_read_failure \<Rightarrow> u32 \<Rightarrow> bool" where
  "failed_with S f pid \<longleftrightarrow> read_process S pid = Err f"

lemma process_cpu_within: "fst (process_cpu sc stat pid tracker) = Some v \<Longrightarrow> f64_within 107 v"
  by (auto simp: process_cpu_def dest: cpu_calculate_finite split: option.splits)

lemma collect_one_Err: "read_process S pid = Err f \<Longrightarrow> collect_one S t pid rs sc tracker = (Err f, tracker)"
  by (simp add: collect_one_def)

lemma collect_one_Ok:
  assumes "read_process S pid = Ok v"
  obtains x tracker2 where "collect_one S t pid rs sc tracker = (Ok x, tracker2)" and "ps_pid x = pid" and "sample_from S t x"
proof -
  obtain stat status where v: "v = (stat, status)" by fastforce
  obtain p tracker2 where c: "process_cpu sc stat pid tracker = (p, tracker2)" by fastforce
  have "is_none_or (f64_within 107) p" using process_cpu_within [of sc stat pid tracker] c by (auto simp: is_none_or_iff)
  then have "\<exists>x. collect_one S t pid rs sc tracker = (Ok x, tracker2) \<and> ps_pid x = pid \<and> sample_from S t x"
    using assms by (simp add: collect_one_def v c sample_from_def Let_def)
  then show ?thesis using that by blast
qed

definition failures :: "telemetry_source \<Rightarrow> u32 list \<Rightarrow> process_collection_stats \<Rightarrow> process_collection_stats" where
  "failures S pids s = \<lparr> pcs_disappeared = pcs_disappeared s + length (filter (failed_with S Disappeared) pids),
     pcs_permission_denied = pcs_permission_denied s + length (filter (failed_with S ReadDenied) pids),
     pcs_invalid = pcs_invalid s + length (filter (failed_with S InvalidData) pids) \<rparr>"

lemma failures_Cons:
  "read_process S pid = Err f \<Longrightarrow> failures S (pid # pids) s = failures S pids (count_failure f s)"
  "read_process S pid = Ok v \<Longrightarrow> failures S (pid # pids) s = failures S pids s"
  by (cases f; simp add: failures_def failed_with_def) (simp add: failures_def failed_with_def)

lemma scan_pids_result:
  assumes "scan_pids S t selected sc pids c live tracker = (c', live', tracker')"
  shows "map ps_pid (pcl_samples c') = map ps_pid (pcl_samples c) @ filter (\<lambda>p. \<not> isl (read_process S p)) pids \<and>
    (list_all (sample_from S t) (pcl_samples c) \<longrightarrow> list_all (sample_from S t) (pcl_samples c')) \<and>
    pcl_stats c' = failures S pids (pcl_stats c) \<and> live' = live \<union> set (filter (\<lambda>p. \<not> isl (read_process S p)) pids)"
  using assms
proof (induction pids arbitrary: c live tracker)
  case Nil
  then show ?case by (simp add: failures_def)
next
  case (Cons pid pids)
  show ?case
  proof (cases "read_process S pid")
    case (Inl f)
    then show ?thesis using Cons.IH [of "c\<lparr> pcl_stats := count_failure f (pcl_stats c) \<rparr>" live tracker] Cons.prems
      by (simp add: collect_one_Err failures_Cons)
  next
    case (Inr v)
    obtain x tracker2 where x: "collect_one S t pid (pid \<in> selected) sc tracker = (Ok x, tracker2)" "ps_pid x = pid" "sample_from S t x"
      using collect_one_Ok [OF Inr] by blast
    show ?thesis
      using Cons.IH [of "c\<lparr> pcl_samples := pcl_samples c @ [x] \<rparr>" "insert pid live" tracker2] Cons.prems
      by (auto simp: x Inr failures_Cons)
  qed
qed

text \<open>C32. A scan accounts for every process. If \<open>/proc\<close> can be listed the scan succeeds, whatever the other files contain; it
  has one sample for each listed process whose \<open>stat\<close> and \<open>status\<close> can be read and belong to it, in ascending order of process ids, and counts
  every other by the reason of its failure; a CPU share is finite and not negative; and the
  CPU baselines kept are those of the sampled processes only.\<close>

theorem scan_accounts:
  assumes "ts_read_dir_names (sc_source C) ''/proc'' = Ok names"
  shows "\<exists>c. fst (sample_processes C t read_smaps budget) = Ok c \<and>
    map ps_pid (pcl_samples c) = filter (\<lambda>p. \<not> isl (read_process (sc_source C) p)) (scanned_pids names) \<and>
    list_all (sample_from (sc_source C) t) (pcl_samples c) \<and> sorted (map ps_pid (pcl_samples c)) \<and>
    pcl_stats c = \<lparr> pcs_disappeared = length (filter (failed_with (sc_source C) Disappeared) (scanned_pids names)),
      pcs_permission_denied = length (filter (failed_with (sc_source C) ReadDenied) (scanned_pids names)),
      pcs_invalid = length (filter (failed_with (sc_source C) InvalidData) (scanned_pids names)) \<rparr> \<and>
    dom (sc_process_cpu (snd (sample_processes C t read_smaps budget))) \<subseteq> ps_pid ` set (pcl_samples c)"
proof -
  let ?S = "sc_source C" and ?pids = "scanned_pids names"
  obtain selected cursor where sel: "select_smaps ?pids read_smaps budget (sc_smaps_cursor C) = (selected, cursor)" by fastforce
  let ?sc = "Option.bind (ok_option (ts_read_to_string ?S ''/proc/stat'')) (\<lambda>t. ok_option (parse_system_cpu t))"
  obtain c live tracker where r: "scan_pids ?S t (set selected) ?sc ?pids \<lparr> pcl_samples = [], pcl_stats = no_stats \<rparr> {} (sc_process_cpu C) = (c, live, tracker)"
    by (metis prod_cases3)
  have s: "sample_processes C t read_smaps budget = (Ok c, C\<lparr> sc_process_cpu := cpu_retain tracker live, sc_smaps_cursor := cursor \<rparr>)"
    using r by (simp add: sample_processes_def assms sel Let_def)
  have m: "map ps_pid (pcl_samples c) = filter (\<lambda>p. \<not> isl (read_process ?S p)) ?pids" "list_all (sample_from ?S t) (pcl_samples c)"
    "pcl_stats c = failures ?S ?pids no_stats" "live = set (filter (\<lambda>p. \<not> isl (read_process ?S p)) ?pids)"
    using scan_pids_result [OF r] by simp_all
  have "dom (cpu_retain tracker live) \<subseteq> ps_pid ` set (pcl_samples c)"
    unfolding m(4) m(1) [symmetric] by (auto simp: cpu_retain_def split: if_splits)
  moreover have "sorted (map ps_pid (pcl_samples c))" unfolding m(1) by (rule sorted_wrt_filter) simp
  ultimately show ?thesis using m by (simp add: s failures_def no_stats_def)
qed

theorem scan_accounts_witness:
  "\<exists>c. fst (sample_processes (collector_with_source (reading_source [] [''7'', ''self''])) 5 False 0) = Ok c \<and>
     pcl_samples c = [] \<and> pcs_disappeared (pcl_stats c) = 1"
proof -
  let ?S = "reading_source [] [''7'', ''self'']"
  have l: "ts_read_dir_names (sc_source (collector_with_source ?S)) ''/proc'' = Ok [''7'', ''self'']"
    by (simp add: collector_with_source_def reading_source_def)
  have p: "scanned_pids [''7'', ''self''] = [7]"
    by (simp add: List.map_filter_def parse_u32_def parse_uint_def parse_digits_def strip_plus_def is_ascii_digit_def digit_val_def)
  have r: "read_process ?S 7 = Err Disappeared"
    by (simp add: read_process_def read_process_file_def reading_source_def classify_process_io_def)
  show ?thesis
    using scan_accounts [OF l, of 5 False 0] unfolding p
    by (auto simp: collector_with_source_def r failed_with_def)
qed

subsection \<open>No name can forge a \<open>stat\<close> line\<close>

lemma find_char_append: "c \<notin> set a \<Longrightarrow> find_char c (a @ c # b) = Some (length a)"
  by (induction a) (auto simp: find_char_def)

lemma rfind_char_append: "c \<notin> set b \<Longrightarrow> rfind_char c (a @ c # b) = Some (length a)"
  using find_char_append [of c "rev b" "rev a"] by (simp add: rfind_char_def)

lemma split_ws_from_final: "is_ws c \<Longrightarrow> split_ws_from cur (s @ [c]) = split_ws_from cur s"
  by (induction s arbitrary: cur) auto

lemma trim_show_nat: "trim (show_nat n @ '' '') = show_nat n"
proof -
  have w: "\<forall>c \<in> set (show_nat n). \<not> is_ws c" using show_nat_chars by blast
  then have "\<not> is_ws (hd (show_nat n))" "\<not> is_ws (last (show_nat n))" by simp_all
  then have "dropWhile is_ws (show_nat n @ '' '') = show_nat n @ '' ''" "dropWhile is_ws (rev (show_nat n)) = rev (show_nat n)"
    by (simp_all add: dropWhile_eq_self_iff hd_rev)
  then show ?thesis by (simp add: trim_def trim_end_ws_def)
qed

text \<open>The line the kernel prints for a process: its id, its name in parentheses and its fs, of which those the
  collector skips are arbitrary tokens.\<close>

definition stat_tokens :: "parsed_stat \<Rightarrow> u64 \<Rightarrow> u64 \<Rightarrow> (nat \<Rightarrow> string) \<Rightarrow> string list \<Rightarrow> string list" where
  "stat_tokens s utime stime other rest =
     [other 0, show_nat (unat (st_parent_pid s)), show_int (st_process_group_id s), show_int (st_session_id s),
      show_int (st_tty_nr s), show_int (st_foreground_process_group_id s), other 6, show_nat (unat (st_minor_faults s)),
      other 8, show_nat (unat (st_major_faults s)), other 10, show_nat (unat utime), show_nat (unat stime), other 13,
      other 14, other 15, other 16, other 17, other 18, show_nat (unat (st_start_time_ticks s)), other 20,
      show_int (st_rss_pages s)] @ rest"

definition stat_line :: "parsed_stat \<Rightarrow> u64 \<Rightarrow> u64 \<Rightarrow> (nat \<Rightarrow> string) \<Rightarrow> string list \<Rightarrow> string" where
  "stat_line s utime stime other rest = show_nat (unat (st_pid s)) @ '' ('' @ st_executable_name s @ '') '' @
     join '' '' (stat_tokens s utime stime other rest) @ [LF]"

definition plain_token :: "string \<Rightarrow> bool" where
  "plain_token t \<longleftrightarrow> ws_token t \<and> CHR '')'' \<notin> set t"

definition stat_in_range :: "parsed_stat \<Rightarrow> bool" where
  "stat_in_range s \<longleftrightarrow> (\<forall>i \<in> {st_process_group_id s, st_session_id s, st_foreground_process_group_id s}. - (2 ^ 31) \<le> i \<and> i < 2 ^ 31) \<and>
     (\<forall>i \<in> {st_tty_nr s, st_rss_pages s}. - (2 ^ 63) \<le> i \<and> i < 2 ^ 63)"

lemma plain_show [simp]: "plain_token (show_nat n)" "plain_token (show_int i)"
proof -
  have d: "CHR '')'' \<notin> set (show_nat m)" for m
    using show_nat_digits [of m] by (auto simp: list_all_iff is_ascii_digit_def)
  then show "plain_token (show_nat n)" "plain_token (show_int i)" by (simp_all add: plain_token_def) (simp add: show_int_def d)
qed

lemma plain_join: "\<forall>t \<in> set ts. plain_token t \<Longrightarrow> CHR '')'' \<notin> set (join '' '' ts)"
  by (induction ts rule: induct_list012) (auto simp: plain_token_def)

lemma stat_tokens_plain:
  assumes "\<forall>i. plain_token (other i)" and "\<forall>t \<in> set rest. plain_token t"
  shows "\<forall>t \<in> set (stat_tokens s utime stime other rest). plain_token t"
  using assms by (simp add: stat_tokens_def)

lemma ucast_pid: "unat (ucast (p :: u32) :: u64) = unat p" "ucast (ucast p :: u64) = p"
proof -
  have "unat p < 2 ^ 32" using unsigned_less [of p] by simp
  then have "unat p < 2 ^ 64" by simp
  then have "take_bit 64 (unat p) = unat p" by (simp only: take_bit_nat_eq_self)
  then show u: "unat (ucast p :: u64) = unat p" by (simp add: unsigned_ucast_eq unsigned_take_bit_eq)
  have "unat (ucast (ucast p :: u64) :: u32) = unat p"
    using \<open>unat p < 2 ^ 32\<close> by (simp add: unsigned_ucast_eq unsigned_take_bit_eq u take_bit_nat_eq_self)
  then show "ucast (ucast p :: u64) = p" by (simp add: word_unat_eq_iff)
qed

lemma parse_pid: "parse_unsigned (show_nat (unat (p :: u32))) = Ok (ucast p :: u64)"
  using parse_unsigned_show [of "ucast p :: u64"] by (simp add: ucast_pid)

lemma stat_fields_tokens:
  assumes "stat_in_range s" and "checked_add utime stime = Some (st_process_ticks s)"
  shows "stat_fields (st_pid s) (st_executable_name s) (stat_tokens s utime stime other rest) = Ok s"
proof -
  have i: "parse_signed 32 (show_int (st_process_group_id s)) = Ok (st_process_group_id s)"
    "parse_signed 32 (show_int (st_session_id s)) = Ok (st_session_id s)"
    "parse_signed 32 (show_int (st_foreground_process_group_id s)) = Ok (st_foreground_process_group_id s)"
    "parse_signed 64 (show_int (st_tty_nr s)) = Ok (st_tty_nr s)" "parse_signed 64 (show_int (st_rss_pages s)) = Ok (st_rss_pages s)"
    using assms(1) by (simp_all add: stat_in_range_def parse_signed_show_int)
  have p: "unat (st_parent_pid s) < 4294967296" using unsigned_less [of "st_parent_pid s"] by simp
  show ?thesis
    by (simp add: stat_fields_def stat_value_def stat_signed_def stat_field_def stat_tokens_def get_at_def i p assms(2) parse_pid ucast_pid)
qed

lemma cut_at: "drop (length p + 1) (p @ y # q) = q" "take (length p) (p @ y # q) = p"
  by simp_all

lemma parse_stat_parts:
  assumes "CHR ''('' \<notin> set a" and "CHR '')'' \<notin> set tail" and "parse_unsigned (trim a) = Ok pid"
  shows "parse_stat (a @ CHR ''('' # name @ CHR '')'' # tail) = stat_fields pid name (split_whitespace tail)" (is "parse_stat ?l = _")
proof -
  let ?c = "length (a @ CHR ''('' # name)"
  have c: "rfind_char CHR '')'' ?l = Some ?c"
    using rfind_char_append [OF assms(2), of "a @ CHR ''('' # name"] by simp
  have l: "?l = (a @ CHR ''('' # name) @ CHR '')'' # tail" by simp
  have d: "drop (?c + 1) ?l = tail" "take ?c ?l = a @ CHR ''('' # name" by (subst l, rule cut_at)+
  have n: "drop (length a + 1) (a @ CHR ''('' # name) = name" by simp
  have t: "take (length a) ?l = a" by simp
  show ?thesis unfolding parse_stat_def find_char_append [OF assms(1)] c ok_or.simps rbind.simps d n t by (simp add: assms(3))
qed

text \<open>C33. No process can forge its own record. Parsing the kernel's \<open>stat\<close> line of a process gives back exactly its fs,
  whatever the name: also one with spaces, line breaks or parentheses that imitates the fs behind it.\<close>

theorem stat_roundtrip:
  assumes "stat_in_range s" and "checked_add utime stime = Some (st_process_ticks s)"
    and "\<forall>i. plain_token (other i)" and "\<forall>t \<in> set rest. plain_token t"
  shows "parse_stat (stat_line s utime stime other rest) = Ok s"
proof -
  let ?pid = "show_nat (unat (st_pid s)) @ '' ''" and ?name = "st_executable_name s"
  let ?ts = "stat_tokens s utime stime other rest"
  let ?tail = "CHR '' '' # join '' '' ?ts @ [LF]"
  note pl = stat_tokens_plain [OF assms(3,4), of s utime stime]
  have l: "stat_line s utime stime other rest = ?pid @ CHR ''('' # ?name @ CHR '')'' # ?tail" by (simp add: stat_line_def)
  have o: "CHR ''('' \<notin> set ?pid"
    using show_nat_digits [of "unat (st_pid s)"] by (auto simp: list_all_iff is_ascii_digit_def)
  have "CHR '')'' \<noteq> LF" by code_simp
  then have c: "CHR '')'' \<notin> set ?tail" using plain_join [OF pl] by simp
  have w: "split_whitespace ?tail = ?ts"
    using split_whitespace_join [of ?ts] pl by (simp add: split_whitespace_def plain_token_def split_ws_from_final is_ws_def)
  have "parse_unsigned (trim ?pid) = Ok (st_pid s)" by (simp only: trim_show_nat parse_unsigned_show)
  then show ?thesis unfolding l by (simp only: parse_stat_parts [OF o c] w stat_fields_tokens [OF assms(1,2)])
qed

definition forged_stat :: parsed_stat where
  "forged_stat = \<lparr> st_pid = 42, st_executable_name = ''x) S 1 1 1 0 -1 (y'', st_parent_pid = 7, st_process_group_id = 42, st_session_id = 42,
     st_tty_nr = 0, st_foreground_process_group_id = -1, st_minor_faults = 3, st_major_faults = 4, st_process_ticks = 12,
     st_start_time_ticks = 100, st_rss_pages = 2 \<rparr>"

theorem stat_roundtrip_witness:
  "parse_stat (stat_line forged_stat 5 7 (\<lambda>_. ''0'') [''0'']) = Ok forged_stat"
proof (rule stat_roundtrip)
  show "stat_in_range forged_stat" by (simp add: stat_in_range_def forged_stat_def)
  show "checked_add 5 7 = Some (st_process_ticks forged_stat)" by (simp add: checked_add_def forged_stat_def)
qed (simp_all add: plain_token_def ws_token_def is_ws_def)

end
