(* ===== verification/Damon.thy ===== *)
theory Damon
  imports Host Float64 Config "HOL-Library.Sublist"
begin

text \<open>
  Monitoring of memory accesses with DAMON (\<open>damon/src/lib.rs\<close>): the capability inventory, the
  monitoring attributes, parsing of the trace events, grouping of events into aggregation
  windows, the initial regions, the backing of a zone read from \<open>smaps\<close>, labels and the export
  of a data set. The file system is a parameter (\<open>host_tree\<close>). The statistical analysis of the
  zones is in the theory \<open>Damon_Signal\<close>.
\<close>

definition LABEL_RULE_VERSION :: string where
  "LABEL_RULE_VERSION = ''damon-labels-v1''"

definition DATASET_SCHEMA_VERSION :: string where
  "DATASET_SCHEMA_VERSION = ''nemor-damon-dataset-v1''"

definition MAX_DIAGNOSTIC_ZONE_BYTES :: u64 where
  "MAX_DIAGNOSTIC_ZONE_BYTES = 160 * 1024 * 1024"

definition DIAGNOSTIC_ZONE_SIZES :: "u64 list" where
  "DIAGNOSTIC_ZONE_SIZES = [8 * 1024 * 1024, 32 * 1024 * 1024, 64 * 1024 * 1024, 128 * 1024 * 1024,
     MAX_DIAGNOSTIC_ZONE_BYTES]"

datatype damon_error = DamonInvalid string | DamonIo io_error | DamonJson string

record damon_capability =
  dc_supported :: bool
  dc_sysfs_admin_available :: bool
  dc_tracefs_available :: bool
  dc_aggregated_tracepoint_available :: bool
  dc_available_operations :: "string list"
  dc_vaddr_supported :: bool
  dc_fvaddr_supported :: bool
  dc_paddr_supported :: bool
  dc_existing_kdamond_count :: "u32 option"
  dc_existing_kdamond_pids :: "u32 list"
  dc_active_external_session :: bool
  dc_special_module_conflict :: bool
  dc_optional_features :: "(string \<times> bool) list"
  dc_readable :: bool
  dc_writable :: bool
  dc_kernel :: "string option"
  dc_notes :: "string list"
  dc_dry_run :: bool

datatype 'a observation = Observed 'a | PrivilegeHidden | Absent | InspectionError string

record damon_observability =
  do_admin :: "bool observation"
  do_kdamonds :: "bool observation"
  do_nr_kdamonds :: "u32 observation"
  do_readable :: "bool observation"
  do_writable :: "bool observation"
  do_tracefs :: "bool observation"
  do_aggregated_tracepoint :: "bool observation"
  do_available_operations :: "string list observation"
  do_vaddr :: "bool observation"
  do_active_external_session :: "bool observation"
  do_special_module_conflict :: "bool observation"

subsection \<open>Inspection\<close>

text \<open>\<open>classify_error\<close>, with the repacking of its cases at every call.\<close>

definition classify_error :: "io_error \<Rightarrow> 'a observation" where
  "classify_error e = (case io_kind e of
      PermissionDenied \<Rightarrow> PrivilegeHidden
    | NotFound \<Rightarrow> Absent
    | k \<Rightarrow> InspectionError (show_io_kind k))"

definition observe_result :: "('a \<Rightarrow> 'b) \<Rightarrow> (io_error, 'a) result \<Rightarrow> 'b observation" where
  "observe_result f r = (case r of Inl e \<Rightarrow> classify_error e | Inr v \<Rightarrow> Observed (f v))"

definition metadata_presence :: "host_tree \<Rightarrow> string \<Rightarrow> bool observation" where
  "metadata_presence H path = observe_result id (ht_is_dir H path)"

definition read_u32_observation :: "host_tree \<Rightarrow> string \<Rightarrow> u32 observation" where
  "read_u32_observation H path = (case hf_read_to_string H path of
      Inl e \<Rightarrow> classify_error e
    | Inr v \<Rightarrow> (case parse_unsigned (trim v) of Inl e \<Rightarrow> InspectionError e | Inr n \<Rightarrow> Observed n))"

definition is_dir :: "host_tree \<Rightarrow> string \<Rightarrow> bool" where
  "is_dir H path \<longleftrightarrow> ht_is_dir H path = Ok True"

fun forget_observation :: "'a observation \<Rightarrow> ('a \<Rightarrow> 'b observation) \<Rightarrow> 'b observation" where
  "forget_observation (Observed v) f = f v"
| "forget_observation PrivilegeHidden f = PrivilegeHidden"
| "forget_observation Absent f = Absent"
| "forget_observation (InspectionError r) f = InspectionError r"

text \<open>The first tracefs directory; the last obstacle met is remembered when there is none.\<close>

fun find_tracefs :: "host_tree \<Rightarrow> string list \<Rightarrow> bool observation \<Rightarrow> string option \<times> bool observation" where
  "find_tracefs H [] acc = (None, acc)"
| "find_tracefs H (p # ps) acc = (case metadata_presence H p of
      Observed True \<Rightarrow> (Some p, Observed True)
    | PrivilegeHidden \<Rightarrow> find_tracefs H ps PrivilegeHidden
    | InspectionError r \<Rightarrow> find_tracefs H ps (InspectionError r)
    | _ \<Rightarrow> find_tracefs H ps acc)"

definition operations_path :: "string \<Rightarrow> nat \<Rightarrow> string" where
  "operations_path kdamonds index = path_join (path_join kdamonds (show_nat index)) ''contexts/0/avail_operations''"

text \<open>The operations of all kdamonds. A kdamond without the file is skipped, any other failure ends
  the inspection.\<close>

fun observe_operations :: "host_tree \<Rightarrow> string \<Rightarrow> nat list \<Rightarrow> string list \<Rightarrow> string list observation" where
  "observe_operations H kdamonds [] vs = Observed (remdups_adj (sort vs))"
| "observe_operations H kdamonds (i # is) vs = (case hf_read_to_string H (operations_path kdamonds i) of
      Inr text \<Rightarrow> observe_operations H kdamonds is (vs @ split_whitespace text)
    | Inl e \<Rightarrow> (case classify_error e of
         Absent \<Rightarrow> observe_operations H kdamonds is vs
       | PrivilegeHidden \<Rightarrow> PrivilegeHidden
       | InspectionError r \<Rightarrow> InspectionError r
       | Observed u \<Rightarrow> Observed u))"

definition inspect_linux_observability :: "host_tree \<Rightarrow> string \<Rightarrow> damon_observability" where
  "inspect_linux_observability H base =
     (let admin_path = resolve base ''/sys/kernel/mm/damon/admin'';
          kdamonds_path = path_join admin_path ''kdamonds'';
          admin = metadata_presence H admin_path;
          kdamonds = metadata_presence H kdamonds_path;
          nr_path = path_join kdamonds_path ''nr_kdamonds'';
          nr_kdamonds = (if admin = Observed True \<and> kdamonds = Observed True then read_u32_observation H nr_path
             else if admin = PrivilegeHidden \<or> kdamonds = PrivilegeHidden then PrivilegeHidden
             else if admin = Absent \<or> kdamonds = Absent then Absent
             else InspectionError ''DAMON admin inspection failed'');
          readable = observe_result (\<lambda>_. True) (hf_read_to_string H nr_path);
          writable = observe_result (\<lambda>_. True) (ht_open_write H nr_path);
          (tracefs_path, tracefs) = find_tracefs H
             (map (resolve base) [''/sys/kernel/tracing'', ''/sys/kernel/debug/tracing'']) Absent;
          tracepoint = (case tracefs_path of
             Some p \<Rightarrow> metadata_presence H (path_join p ''events/damon/damon_aggregated'')
           | None \<Rightarrow> (case tracefs of PrivilegeHidden \<Rightarrow> PrivilegeHidden | InspectionError r \<Rightarrow> InspectionError r
                | _ \<Rightarrow> Absent));
          operations = forget_observation nr_kdamonds (\<lambda>count. observe_operations H kdamonds_path [0..<unat count] []);
          aborted = (case nr_kdamonds of Observed _ \<Rightarrow> True | _ \<Rightarrow> False)
      in \<lparr> do_admin = admin, do_kdamonds = kdamonds, do_nr_kdamonds = nr_kdamonds, do_readable = readable,
           do_writable = writable, do_tracefs = tracefs, do_aggregated_tracepoint = tracepoint,
           do_available_operations = operations,
           do_vaddr = (case operations of
               InspectionError r \<Rightarrow> InspectionError (if aborted then ''operations unavailable'' else r)
             | _ \<Rightarrow> forget_observation operations (\<lambda>vs. Observed (''vaddr'' \<in> set vs))),
           do_active_external_session = (case operations of
               InspectionError r \<Rightarrow> if aborted then InspectionError ''sessions unavailable'' else PrivilegeHidden
             | _ \<Rightarrow> PrivilegeHidden),
           do_special_module_conflict = (case operations of
               InspectionError r \<Rightarrow> if aborted then InspectionError ''conflicts unavailable'' else PrivilegeHidden
             | _ \<Rightarrow> PrivilegeHidden) \<rparr>)"

definition read_u32 :: "host_tree \<Rightarrow> string \<Rightarrow> u32 option" where
  "read_u32 H path = (case hf_read_to_string H path of Inl _ \<Rightarrow> None | Inr t \<Rightarrow> parse_u32 (trim t))"

definition read_bool :: "host_tree \<Rightarrow> string \<Rightarrow> bool option" where
  "read_bool H path = (case hf_read_to_string H path of Inl _ \<Rightarrow> None
    | Inr t \<Rightarrow> if trim t \<in> {''Y'', ''y'', ''1''} then Some True
        else if trim t \<in> {''N'', ''n'', ''0''} then Some False else None)"

text \<open>The search for a file name below a directory, at most eight levels down.\<close>

fun visit :: "host_tree \<Rightarrow> nat \<Rightarrow> string \<Rightarrow> string \<Rightarrow> bool" where
  "visit H 0 path name = False"
| "visit H (Suc n) path name = (case hf_read_dir H path of
      Inl _ \<Rightarrow> False
    | Inr entries \<Rightarrow> list_ex (\<lambda>entry. case entry of Inl _ \<Rightarrow> False
        | Inr file \<Rightarrow> file = name \<or> (ht_entry_is_dir H (path_join path file) \<and> visit H n (path_join path file) name)) entries)"

definition contains_file :: "host_tree \<Rightarrow> string \<Rightarrow> string \<Rightarrow> bool" where
  "contains_file H base name = visit H 9 base name"

definition special_module :: "host_tree \<Rightarrow> string \<Rightarrow> string \<Rightarrow> bool" where
  "special_module H base name =
     (let parameters = resolve base (''/sys/module/'' @ name @ ''/parameters'') in
      unwrap_or False (read_bool H (path_join parameters ''enabled'')) \<or>
      is_some_and (\<lambda>pid. pid > 0) (read_u32 H (path_join parameters ''kdamond_pid'')))"

definition damon_inspect_linux :: "host_tree \<Rightarrow> string \<Rightarrow> string option \<Rightarrow> damon_capability" where
  "damon_inspect_linux H base release =
     (let admin = resolve base ''/sys/kernel/mm/damon/admin'';
          kdamonds = path_join admin ''kdamonds'';
          tracefs = List.find (is_dir H) (map (resolve base) [''/sys/kernel/tracing'', ''/sys/kernel/debug/tracing'']);
          nr = read_u32 H (path_join kdamonds ''nr_kdamonds'');
          bases = (case nr of None \<Rightarrow> [] | Some count \<Rightarrow> map (\<lambda>i. path_join kdamonds (show_nat i)) [0..<unat count]);
          pids = List.map_filter (\<lambda>b. read_u32 H (path_join b ''pid'')) bases;
          active = list_ex (\<lambda>b. case hf_read_to_string H (path_join b ''state'') of
             Inl _ \<Rightarrow> False | Inr t \<Rightarrow> trim t = ''on'') bases;
          operations = remdups_adj (sort (concat (map (\<lambda>b.
             case hf_read_to_string H (path_join b ''contexts/0/avail_operations'') of
               Inl _ \<Rightarrow> [] | Inr t \<Rightarrow> split_whitespace t) bases)));
          tracepoint = is_some_and (\<lambda>p. is_dir H (path_join p ''events/damon/damon_aggregated'')) tracefs;
          special = list_ex (special_module H base) [''damon_reclaim'', ''damon_lru_sort'', ''damon_stat''];
          readable = (case hf_read_to_string H (path_join kdamonds ''nr_kdamonds'') of Inl _ \<Rightarrow> False | Inr _ \<Rightarrow> True);
          writable = (ht_open_write H (path_join kdamonds ''nr_kdamonds'') = Ok ());
          notes = (if is_dir H admin \<and> \<not> readable then [''sysfs_admin_present_but_not_readable''] else []) @
                  (if tracefs \<noteq> None \<and> \<not> tracepoint then [''damon_aggregated_not_visible''] else [])
      in \<lparr> dc_supported = is_dir H admin, dc_sysfs_admin_available = is_dir H admin,
           dc_tracefs_available = (tracefs \<noteq> None), dc_aggregated_tracepoint_available = tracepoint,
           dc_available_operations = operations, dc_vaddr_supported = (''vaddr'' \<in> set operations),
           dc_fvaddr_supported = (''fvaddr'' \<in> set operations), dc_paddr_supported = (''paddr'' \<in> set operations),
           dc_existing_kdamond_count = nr, dc_existing_kdamond_pids = pids, dc_active_external_session = active,
           dc_special_module_conflict = special,
           dc_optional_features = [(''addr_unit'', contains_file H kdamonds ''addr_unit''),
             (''intervals_goal'', contains_file H kdamonds ''intervals_goal''),
             (''refresh_ms'', contains_file H kdamonds ''refresh_ms'')],
           dc_readable = readable, dc_writable = writable, dc_kernel = release, dc_notes = notes,
           dc_dry_run = True \<rparr>)"

subsection \<open>Attributes and regions\<close>

record monitoring_attrs =
  ma_operation :: string
  ma_sample_us :: u64
  ma_aggr_us :: u64
  ma_update_us :: u64
  ma_min_regions :: u32
  ma_max_regions :: u32
  ma_addr_unit :: "u64 option"

definition attrs_validate :: "monitoring_attrs \<Rightarrow> (damon_error, unit) result" where
  "attrs_validate a =
     (if ma_operation a \<noteq> ''vaddr'' then Err (DamonInvalid ''Phase 7 owned sessions require vaddr'')
      else if ma_sample_us a < 100 \<or> ma_aggr_us a < ma_sample_us a \<or> ma_update_us a < ma_aggr_us a
      then Err (DamonInvalid ''intervals must satisfy 100 <= sample <= aggregation <= update'')
      else if ma_min_regions a = 0 \<or> ma_min_regions a > ma_max_regions a \<or> ma_max_regions a > 100000
      then Err (DamonInvalid ''region bounds are invalid'')
      else Ok ())"

text \<open>The number of samples per aggregation; a zero interval, which \<open>validate\<close> excludes, panics.\<close>

definition expected_samples :: "monitoring_attrs \<Rightarrow> u64 option" where
  "expected_samples a = (if ma_sample_us a = 0 then None else Some (ma_aggr_us a div ma_sample_us a))"

record trace_region =
  tr_target_id :: u64
  tr_nr_regions :: u32
  tr_start :: u64
  tr_end :: u64
  tr_nr_accesses :: u64
  tr_age :: u64

record address_range =
  ar_start :: u64
  ar_end :: u64

definition overlap :: "address_range \<Rightarrow> address_range \<Rightarrow> u64" where
  "overlap a b = sat_sub (min (ar_end a) (ar_end b)) (max (ar_start a) (ar_start b))"

record initial_region_plan =
  irp_ranges :: "address_range list"

text \<open>The check of each region in address order, against the end of the previous one.\<close>

fun check_regions :: "address_range list \<Rightarrow> u64 option \<Rightarrow> address_range list \<Rightarrow> (damon_error, unit) result" where
  "check_regions mapped prev [] = Ok ()"
| "check_regions mapped prev (r # rs) =
     (if ar_start r \<ge> ar_end r then Err (DamonInvalid ''initial region is empty'')
      else if is_some_and (\<lambda>e. e > ar_start r) prev then Err (DamonInvalid ''initial regions must not overlap'')
      else if \<not> list_ex (\<lambda>m. ar_start m \<le> ar_start r \<and> ar_end m \<ge> ar_end r) mapped
      then Err (DamonInvalid ''initial region is outside target mappings'')
      else check_regions mapped (Some (ar_end r)) rs)"

definition initial_region_plan_new ::
  "address_range list \<Rightarrow> address_range list \<Rightarrow> (damon_error, initial_region_plan) result" where
  "initial_region_plan_new ranges mapped =
     (if length ranges \<noteq> 3 then Err (DamonInvalid ''validation requires exactly three initial regions'')
      else (let sorted_ranges = sort_key ar_start ranges in
        rbind (check_regions mapped None sorted_ranges) (\<lambda>_. Ok \<lparr> irp_ranges = sorted_ranges \<rparr>)))"

definition matches_readback :: "initial_region_plan \<Rightarrow> address_range list \<Rightarrow> bool" where
  "matches_readback p readback \<longleftrightarrow> irp_ranges p = readback"

definition requested_bytes :: "initial_region_plan \<Rightarrow> u64" where
  "requested_bytes p = foldl (\<lambda>acc r. sat_add acc (ar_end r - ar_start r)) 0 (irp_ranges p)"

subsection \<open>Trace events\<close>

text \<open>The \<open>key=value\<close> tokens of an event, commas trimmed; a later one replaces an earlier one.\<close>

definition event_value :: "(string \<rightharpoonup> string) \<Rightarrow> string \<Rightarrow> (string \<rightharpoonup> string)" where
  "event_value vs token = (case split_once CHR ''='' (trim_chars {CHR '',''} token) of
      None \<Rightarrow> vs | Some (k, v) \<Rightarrow> vs(k \<mapsto> trim_chars {CHR '',''} v))"

definition event_values :: "string \<Rightarrow> (string \<rightharpoonup> string)" where
  "event_values payload = foldl event_value Map.empty (split_whitespace payload)"

definition invalid_if_none :: "string \<Rightarrow> 'a option \<Rightarrow> (damon_error, 'a) result" where
  "invalid_if_none message v = ok_or (DamonInvalid message) v"

definition event_number :: "(string \<rightharpoonup> string) \<Rightarrow> string \<Rightarrow> string list \<Rightarrow> (damon_error, u64) result" where
  "event_number vs name others =
     rbind (invalid_if_none (''missing '' @ name) (case List.map_filter vs (name # others) of [] \<Rightarrow> None | v # _ \<Rightarrow> Some v)) (\<lambda>v.
     invalid_if_none (''invalid '' @ name)
       (case strip_prefix ''0x'' v of Some hex \<Rightarrow> parse_hex hex | None \<Rightarrow> parse_u64 v))"

definition nonempty_region :: "trace_region \<Rightarrow> (damon_error, trace_region) result" where
  "nonempty_region r = (if tr_end r \<le> tr_start r then Err (DamonInvalid ''region range is empty'') else Ok r)"

definition parse_address :: "string \<Rightarrow> (damon_error, u64) result" where
  "parse_address v = invalid_if_none ''invalid region address''
     (opt_or (parse_u64 v) (parse_hex (trim_start_matches ''0x'' v)))"

text \<open>The tokens from the first range token on.\<close>

definition range_token :: "string \<Rightarrow> bool" where
  "range_token t \<longleftrightarrow> ends_with t '':'' \<and> CHR ''-'' \<in> set t"

definition token_after :: "string list \<Rightarrow> nat \<Rightarrow> string option" where
  "token_after ts i = (if i < length ts then Some (ts ! i) else None)"

definition parse_positional_aggregated ::
  "string \<Rightarrow> (string \<rightharpoonup> string) \<Rightarrow> (damon_error, trace_region) result" where
  "parse_positional_aggregated payload vs =
     rbind (invalid_if_none ''missing target_id'' (opt_or (vs ''target_id'') (vs ''target_idx''))) (\<lambda>target_text.
     rbind (invalid_if_none ''invalid target_id'' (parse_u64 target_text)) (\<lambda>target_id.
     rbind (invalid_if_none ''missing nr_regions'' (vs ''nr_regions'')) (\<lambda>nr_text.
     rbind (invalid_if_none ''invalid nr_regions'' (parse_u32 nr_text)) (\<lambda>nr_regions.
     case dropWhile (\<lambda>t. \<not> range_token t) (split_whitespace payload) of
       [] \<Rightarrow> Err (DamonInvalid ''missing region range'')
     | token # rest \<Rightarrow>
        rbind (invalid_if_none ''invalid region range'' (split_once CHR ''-'' (trim_end_matches '':'' token))) (\<lambda>(start_text, end_text).
        rbind (parse_address start_text) (\<lambda>start.
        rbind (parse_address end_text) (\<lambda>stop.
        rbind (invalid_if_none ''missing nr_accesses'' (token_after rest 0)) (\<lambda>acc_text.
        rbind (invalid_if_none ''invalid nr_accesses'' (parse_u64 acc_text)) (\<lambda>nr_accesses.
        rbind (invalid_if_none ''missing age'' (token_after rest 1)) (\<lambda>age_text.
        rbind (invalid_if_none ''invalid age'' (parse_u64 age_text)) (\<lambda>age.
          nonempty_region \<lparr> tr_target_id = target_id, tr_nr_regions = nr_regions, tr_start = start, tr_end = stop,
            tr_nr_accesses = nr_accesses, tr_age = age \<rparr>)))))))))))"

definition u32_try_from :: "u64 \<Rightarrow> u32 option" where
  "u32_try_from v = (if unat v < 2 ^ 32 then Some (ucast v) else None)"

definition parse_aggregated :: "string \<Rightarrow> (damon_error, trace_region) result" where
  "parse_aggregated line =
     (let payload = (case split_once_str ''damon_aggregated:'' line of None \<Rightarrow> line | Some (_, v) \<Rightarrow> v);
          vs = event_values payload in
      if vs ''start'' = None then parse_positional_aggregated payload vs
      else
        rbind (event_number vs ''target_id'' [''target_idx'']) (\<lambda>target_id.
        rbind (event_number vs ''nr_regions'' []) (\<lambda>nr_wide.
        rbind (invalid_if_none ''nr_regions overflow'' (u32_try_from nr_wide)) (\<lambda>nr_regions.
        rbind (event_number vs ''start'' []) (\<lambda>start.
        rbind (event_number vs ''end'' []) (\<lambda>stop.
        rbind (event_number vs ''nr_accesses'' [''accesses'']) (\<lambda>nr_accesses.
        rbind (event_number vs ''age'' []) (\<lambda>age.
          nonempty_region \<lparr> tr_target_id = target_id, tr_nr_regions = nr_regions, tr_start = start, tr_end = stop,
            tr_nr_accesses = nr_accesses, tr_age = age \<rparr>))))))))"

subsection \<open>Aggregation windows\<close>

definition group_step ::
  "trace_region list list \<times> trace_region list \<times> nat \<Rightarrow> trace_region \<Rightarrow>
     trace_region list list \<times> trace_region list \<times> nat" where
  "group_step acc r = (case acc of (windows, current, expected) \<Rightarrow>
     let expected1 = (if current = [] then unat (tr_nr_regions r) else expected);
         (current1, expected2) = (if expected1 = 0 \<or> unat (tr_nr_regions r) \<noteq> expected1
            then ([], unat (tr_nr_regions r)) else (current, expected1));
         current2 = current1 @ [r]
     in if length current2 = expected2 then (windows @ [current2], [], 0) else (windows, current2, expected2))"

definition group_aggregation_windows :: "trace_region list \<Rightarrow> trace_region list list" where
  "group_aggregation_windows regions = fst (foldl group_step ([], [], 0) regions)"

subsection \<open>The backing of a zone\<close>

record zone_backing =
  zbk_start :: u64
  zbk_end :: u64
  zbk_range_size_bytes :: u64
  zbk_size_kib :: u64
  zbk_containing_vma_size_kib :: u64
  zbk_rss_kib :: u64
  zbk_pss_kib :: u64
  zbk_swap_kib :: u64
  zbk_kernel_page_size_kib :: "u64 option"
  zbk_mmu_page_size_kib :: "u64 option"
  zbk_anon_huge_pages_kib :: u64
  zbk_thp_eligible :: "bool option"
  zbk_vm_flags :: "string list"
  zbk_backing :: string
  zbk_containing_vma_start :: "u64 option"
  zbk_containing_vma_end :: "u64 option"
  zbk_shared_vma :: bool
  zbk_shared_vma_group :: "string option"
  zbk_explicit_nohugepage_requested :: bool
  zbk_explicit_nohugepage_verified :: bool

definition zone_backing_default :: zone_backing where
  "zone_backing_default = \<lparr> zbk_start = 0, zbk_end = 0, zbk_range_size_bytes = 0, zbk_size_kib = 0,
     zbk_containing_vma_size_kib = 0, zbk_rss_kib = 0, zbk_pss_kib = 0, zbk_swap_kib = 0,
     zbk_kernel_page_size_kib = None, zbk_mmu_page_size_kib = None, zbk_anon_huge_pages_kib = 0,
     zbk_thp_eligible = None, zbk_vm_flags = [], zbk_backing = [], zbk_containing_vma_start = None,
     zbk_containing_vma_end = None, zbk_shared_vma = False, zbk_shared_vma_group = None,
     zbk_explicit_nohugepage_requested = False, zbk_explicit_nohugepage_verified = False \<rparr>"

definition first_word :: "string \<Rightarrow> string option" where
  "first_word s = (case split_whitespace s of [] \<Rightarrow> None | w # _ \<Rightarrow> Some w)"

definition parse_smaps_header :: "string \<Rightarrow> address_range option" where
  "parse_smaps_header line =
     Option.bind (first_word line) (\<lambda>token.
     Option.bind (split_once CHR ''-'' token) (\<lambda>(start, stop).
     Option.bind (parse_hex start) (\<lambda>s.
     Option.bind (parse_hex stop) (\<lambda>e. Some \<lparr> ar_start = s, ar_end = e \<rparr>))))"

definition smaps_field :: "zone_backing \<Rightarrow> string \<Rightarrow> zone_backing" where
  "smaps_field z line =
     (let (key, v) = unwrap_or (line, []) (split_once CHR '':'' line);
          kib = Option.bind (first_word v) parse_u64;
          amount = unwrap_or 0 kib
      in if key = ''Size'' then z\<lparr> zbk_size_kib := sat_add (zbk_size_kib z) amount \<rparr>
         else if key = ''Rss'' then z\<lparr> zbk_rss_kib := sat_add (zbk_rss_kib z) amount \<rparr>
         else if key = ''Pss'' then z\<lparr> zbk_pss_kib := sat_add (zbk_pss_kib z) amount \<rparr>
         else if key = ''Swap'' then z\<lparr> zbk_swap_kib := sat_add (zbk_swap_kib z) amount \<rparr>
         else if key = ''KernelPageSize'' then z\<lparr> zbk_kernel_page_size_kib := kib \<rparr>
         else if key = ''MMUPageSize'' then z\<lparr> zbk_mmu_page_size_kib := kib \<rparr>
         else if key = ''AnonHugePages'' then z\<lparr> zbk_anon_huge_pages_kib := sat_add (zbk_anon_huge_pages_kib z) amount \<rparr>
         else if key = ''THPeligible'' then z\<lparr> zbk_thp_eligible := map_option (\<lambda>w. w = ''1'') (first_word v) \<rparr>
         else if key = ''VmFlags'' then z\<lparr> zbk_vm_flags := zbk_vm_flags z @ split_whitespace v \<rparr>
         else z)"

text \<open>One line: a header opens a mapping, which counts when it overlaps the zone; the other lines
  belong to the mapping opened last.\<close>

definition smaps_line :: "address_range \<Rightarrow> zone_backing \<times> bool \<Rightarrow> string \<Rightarrow> zone_backing \<times> bool" where
  "smaps_line zone st line = (case st of (z, overlaps) \<Rightarrow>
     (case parse_smaps_header line of
        Some r \<Rightarrow> (let over = overlap r zone > 0 in
          (if over \<and> zbk_containing_vma_start z = None
           then z\<lparr> zbk_containing_vma_start := Some (ar_start r), zbk_containing_vma_end := Some (ar_end r) \<rparr> else z, over))
      | None \<Rightarrow> if overlaps then (smaps_field z line, overlaps) else (z, overlaps)))"

definition backing_kind :: "zone_backing \<Rightarrow> string" where
  "backing_kind z = (if zbk_anon_huge_pages_kib z > 0
     then (if zbk_kernel_page_size_kib z = Some 4 then ''mixed_or_thp'' else ''thp'')
     else if zbk_kernel_page_size_kib z = Some 4 \<and> zbk_mmu_page_size_kib z = Some 4 then ''4k''
     else ''unknown'')"

definition parse_smaps_zone :: "string \<Rightarrow> address_range \<Rightarrow> (damon_error, zone_backing) result" where
  "parse_smaps_zone text zone =
     (let start = zone_backing_default\<lparr> zbk_start := ar_start zone, zbk_end := ar_end zone,
             zbk_range_size_bytes := sat_sub (ar_end zone) (ar_start zone) \<rparr>;
          z = fst (foldl (smaps_line zone) (start, False) (lines text));
          z1 = z\<lparr> zbk_vm_flags := remdups_adj (sort (zbk_vm_flags z)), zbk_containing_vma_size_kib := zbk_size_kib z \<rparr>
      in Ok (z1\<lparr> zbk_backing := backing_kind z1 \<rparr>))"

definition zone_base_backed :: "zone_backing \<Rightarrow> bool" where
  "zone_base_backed z \<longleftrightarrow> zbk_kernel_page_size_kib z = Some 4 \<and> zbk_mmu_page_size_kib z = Some 4 \<and>
     zbk_anon_huge_pages_kib z = 0 \<and> zbk_explicit_nohugepage_requested z \<and> zbk_explicit_nohugepage_verified z \<and>
     (zbk_thp_eligible z = Some False \<or> ''nh'' \<in> set (zbk_vm_flags z))"

definition verify_base_page_backing :: "(string \<rightharpoonup> zone_backing) \<Rightarrow> bool" where
  "verify_base_page_backing backing \<longleftrightarrow>
     list_all (\<lambda>name. is_some_and zone_base_backed (backing name)) [''hot'', ''warm'', ''cold'']"

subsection \<open>Probe evidence\<close>

datatype hypothesis_status =
  NotTested | Plausible | InconclusiveDueToThpBacking | SupportedByBasePageComparison | NotSupported

datatype page_backing_profile = ThpReference | BasePageNoHuge

record probe_evidence =
  pe_session_id :: string
  pe_source :: string
  pe_backing_profile :: page_backing_profile
  pe_zone_size_bytes :: u64
  pe_windows :: u64
  pe_hot_nonzero_windows :: u64
  pe_hot_zero_windows :: u64
  pe_warm_nonzero_windows :: u64
  pe_cold_nonzero_windows :: u64
  pe_hot_ratio_mean :: f64
  pe_hot_ratio_p25 :: f64
  pe_hot_ratio_p50 :: f64
  pe_hot_ratio_p75 :: f64
  pe_hot_ratio_p95 :: f64
  pe_hot_raw_accesses_per_window :: "u64 list"
  pe_warm_ratio_mean :: f64
  pe_warm_ratio_p25 :: f64
  pe_warm_ratio_p50 :: f64
  pe_warm_ratio_p75 :: f64
  pe_warm_ratio_p95 :: f64
  pe_warm_raw_accesses_per_window :: "u64 list"
  pe_cold_ratio_mean :: f64
  pe_cold_ratio_p25 :: f64
  pe_cold_ratio_p50 :: f64
  pe_cold_ratio_p75 :: f64
  pe_cold_ratio_p95 :: f64
  pe_cold_raw_accesses_per_window :: "u64 list"
  pe_outside_requested_ratio :: f64
  pe_kdamond_cpu_percent :: f64
  pe_capture_cpu_percent :: f64
  pe_backing_page_size_kib :: "u64 option"
  pe_anon_huge_pages_kib :: u64
  pe_thp_eligible :: "bool option"
  pe_target_isolated :: bool
  pe_workload_active :: bool
  pe_capture_integrity :: bool
  pe_overhead_within_budget :: bool
  pe_base_page_backing_verified :: bool
  pe_zone_backing :: "string \<rightharpoonup> zone_backing"

definition stable_enough :: "probe_evidence \<Rightarrow> bool" where
  "stable_enough e \<longleftrightarrow> pe_source e = ''current_probe'' \<and> pe_windows e \<ge> 8 \<and>
     pe_hot_nonzero_windows e = pe_windows e \<and> pe_cold_nonzero_windows e = 0 \<and>
     f64_gt (pe_hot_ratio_mean e) (pe_cold_ratio_mean e) \<and> f64_gt (pe_hot_ratio_p50 e) (pe_cold_ratio_p50 e) \<and>
     pe_target_isolated e \<and> pe_workload_active e \<and> pe_capture_integrity e \<and> pe_overhead_within_budget e"

definition select_base_page_probe :: "probe_evidence list \<Rightarrow> (u64 \<times> string) option" where
  "select_base_page_probe attempts = map_option
     (\<lambda>a. (pe_zone_size_bytes a, ''first robust base-page size: '' @ show_nat (unat (pe_hot_nonzero_windows a)) @ ''/'' @
        show_nat (unat (pe_windows a)) @ '' HOT nonzero windows''))
     (List.find (\<lambda>a. pe_backing_profile a = BasePageNoHuge \<and> pe_base_page_backing_verified a \<and> stable_enough a) attempts)"

definition hot_fraction :: "probe_evidence \<Rightarrow> f64" where
  "hot_fraction e = f64_div (f64_of_u64 (pe_hot_nonzero_windows e)) (f64_of_u64 (max (pe_windows e) 1))"

definition compare_page_backing :: "probe_evidence \<Rightarrow> probe_evidence \<Rightarrow> hypothesis_status" where
  "compare_page_backing thp base =
     (if pe_zone_size_bytes thp \<noteq> pe_zone_size_bytes base \<or> pe_backing_profile base \<noteq> BasePageNoHuge \<or>
         \<not> pe_base_page_backing_verified base
      then NotTested
      else (let improved = (pe_hot_zero_windows base < pe_hot_zero_windows thp \<and> f64_gt (hot_fraction base) (hot_fraction thp)) in
        if improved \<and> stable_enough base then SupportedByBasePageComparison
        else if improved then Plausible else NotSupported))"

definition bounded_size_ladder :: "u64 \<Rightarrow> u64 \<Rightarrow> u64 list" where
  "bounded_size_ladder mem_available_bytes headroom_bytes =
     filter (\<lambda>s. sat_add (sat_mul s 3) headroom_bytes \<le> mem_available_bytes) DIAGNOSTIC_ZONE_SIZES"

definition select_probe_size :: "probe_evidence list \<Rightarrow> (u64 \<times> string) option" where
  "select_probe_size attempts = map_option
     (\<lambda>a. (pe_zone_size_bytes a, ''first stable ladder size: '' @ show_nat (unat (pe_hot_nonzero_windows a)) @ ''/'' @
        show_nat (unat (pe_windows a)) @ '' HOT nonzero windows and HOT mean '' @ fmt_fixed 6 (pe_hot_ratio_mean a) @
        '' > COLD '' @ fmt_fixed 6 (pe_cold_ratio_mean a)))
     (List.find stable_enough attempts)"

fun size_scaling_supports_tlb_hypothesis :: "probe_evidence list \<Rightarrow> bool" where
  "size_scaling_supports_tlb_hypothesis (a # b # es) =
     ((pe_zone_size_bytes b > pe_zone_size_bytes a \<and> pe_hot_zero_windows b < pe_hot_zero_windows a \<and>
       f64_gt (hot_fraction b) (hot_fraction a)) \<or> size_scaling_supports_tlb_hypothesis (b # es))"
| "size_scaling_supports_tlb_hypothesis _ = False"

subsection \<open>Labels, overhead and reports\<close>

datatype observational_label = LabelHot | LabelWarm | LabelCold | InsufficientHistory

fun debug_label :: "observational_label \<Rightarrow> string" where
  "debug_label LabelHot = ''Hot''"
| "debug_label LabelWarm = ''Warm''"
| "debug_label LabelCold = ''Cold''"
| "debug_label InsufficientHistory = ''InsufficientHistory''"

record damon_region_sample =
  drs_schema_version :: string
  drs_session_id :: string
  drs_timestamp_ns :: u64
  drs_target_id :: u64
  drs_pid :: u32
  drs_stable_identity :: string
  drs_region_start :: u64
  drs_region_end :: u64
  drs_region_size :: u64
  drs_hot_overlap_bytes :: u64
  drs_warm_overlap_bytes :: u64
  drs_cold_overlap_bytes :: u64
  drs_hot_overlap_fraction :: f64
  drs_warm_overlap_fraction :: f64
  drs_cold_overlap_fraction :: f64
  drs_other_bytes :: u64
  drs_nr_accesses :: u64
  drs_age :: u64
  drs_sample_us :: u64
  drs_aggr_us :: u64
  drs_update_us :: u64
  drs_expected_samples :: u64
  drs_normalized_access_ratio :: f64
  drs_observational_label :: observational_label
  drs_label_rule_version :: string
  drs_confidence :: string
  drs_evidence :: "string list"
  drs_source :: string
  drs_kernel :: string
  drs_operation_set :: string

definition normalized_ratio :: "u64 \<Rightarrow> u64 \<Rightarrow> f64" where
  "normalized_ratio accesses expected =
     (if expected = 0 then Fin 0 else f64_clamp (f64_div (f64_of_u64 accesses) (f64_of_u64 expected)) (Fin 0) (Fin 1))"

definition label_of :: "nat \<Rightarrow> f64 \<Rightarrow> observational_label" where
  "label_of history_windows r = (if history_windows < 3 then InsufficientHistory
     else if f64_ge r (lit (7 / 10)) then LabelHot
     else if f64_ge r (lit (1 / 5)) then LabelWarm else LabelCold)"

definition normalize :: "trace_region \<Rightarrow> monitoring_attrs \<Rightarrow> nat \<Rightarrow> damon_region_sample option" where
  "normalize region attrs history_windows = map_option (\<lambda>expected.
     let r = normalized_ratio (tr_nr_accesses region) expected in
     \<lparr> drs_schema_version = DATASET_SCHEMA_VERSION, drs_session_id = [], drs_timestamp_ns = 0,
       drs_target_id = tr_target_id region, drs_pid = 0, drs_stable_identity = [],
       drs_region_start = tr_start region, drs_region_end = tr_end region,
       drs_region_size = tr_end region - tr_start region,
       drs_hot_overlap_bytes = 0, drs_warm_overlap_bytes = 0, drs_cold_overlap_bytes = 0,
       drs_hot_overlap_fraction = Fin 0, drs_warm_overlap_fraction = Fin 0, drs_cold_overlap_fraction = Fin 0,
       drs_other_bytes = tr_end region - tr_start region,
       drs_nr_accesses = tr_nr_accesses region, drs_age = tr_age region, drs_sample_us = ma_sample_us attrs,
       drs_aggr_us = ma_aggr_us attrs, drs_update_us = ma_update_us attrs, drs_expected_samples = expected,
       drs_normalized_access_ratio = r, drs_observational_label = label_of history_windows r,
       drs_label_rule_version = LABEL_RULE_VERSION,
       drs_confidence = (if history_windows \<ge> 3 then ''bounded'' else ''low''),
       drs_evidence = [''history_windows='' @ show_nat history_windows], drs_source = ''damon_aggregated'',
       drs_kernel = [], drs_operation_set = ma_operation attrs \<rparr>) (expected_samples attrs)"

record overhead_sample =
  ov_kdamond_cpu_percent :: f64
  ov_capture_cpu_percent :: f64
  ov_target_slowdown_percent :: f64
  ov_events_per_second :: f64
  ov_regions_per_second :: f64
  ov_dropped_samples :: u64

definition overhead_allowed :: "overhead_sample \<Rightarrow> damon_config \<Rightarrow> f64 \<Rightarrow> bool" where
  "overhead_allowed sample config safety_ceiling \<longleftrightarrow>
     (let sum = f64_add (ov_kdamond_cpu_percent sample) (ov_capture_cpu_percent sample) in
      is_finite sum \<and> f64_le sum (dmn_max_cpu_overhead_percent config) \<and>
      f64_le (dmn_max_cpu_overhead_percent config) safety_ceiling \<and> ov_dropped_samples sample = 0)"

record damon_report =
  dr_capability :: damon_capability
  dr_source :: string
  dr_session_state :: string
  dr_attrs_requested :: "monitoring_attrs option"
  dr_attrs_effective :: "monitoring_attrs option"
  dr_snapshots :: u64
  dr_regions :: u64
  dr_observed_bytes :: u64
  dr_hot_bytes :: u64
  dr_warm_bytes :: u64
  dr_cold_bytes :: u64
  dr_stable_cold_fraction :: "f64 option"
  dr_event_rate :: "f64 option"
  dr_overhead :: "overhead_sample option"
  dr_dropped_samples :: u64
  dr_confidence :: string
  dr_errors :: "string list"
  dr_zero_damos :: bool
  dr_dry_run :: bool

definition observe_report :: "host_tree \<Rightarrow> damon_config \<Rightarrow> string option \<Rightarrow> damon_report" where
  "observe_report H config release =
     (let capability = damon_inspect_linux H ''/'' release in
      \<lparr> dr_capability = capability,
        dr_source = (if dc_aggregated_tracepoint_available capability then ''available_not_owned'' else ''capability_inventory''),
        dr_session_state = (if dc_active_external_session capability then ''external'' else ''not_configured''),
        dr_attrs_requested = None, dr_attrs_effective = None, dr_snapshots = 0, dr_regions = 0, dr_observed_bytes = 0,
        dr_hot_bytes = 0, dr_warm_bytes = 0, dr_cold_bytes = 0, dr_stable_cold_fraction = None, dr_event_rate = None,
        dr_overhead = None, dr_dropped_samples = 0, dr_confidence = ''none'',
        dr_errors = (if dmn_enabled config then [''normal daemon never starts a DAMON session''] else []),
        dr_zero_damos = True, dr_dry_run = True \<rparr>)"

subsection \<open>Export\<close>

datatype export_format = Jsonl | Csv

definition csv_header :: string where
  "csv_header = ''schema_version,session_id,timestamp_ns,target_id,pid,stable_identity,region_start,region_end,region_size,hot_overlap_bytes,warm_overlap_bytes,cold_overlap_bytes,hot_overlap_fraction,warm_overlap_fraction,cold_overlap_fraction,other_bytes,nr_accesses,age,sample_us,aggr_us,update_us,expected_samples,normalized_access_ratio,label,rule_version,confidence,source,kernel,operation_set'' @ [char_of (10 :: nat)]"

definition csv_line :: "damon_region_sample \<Rightarrow> string" where
  "csv_line v = join '','' [drs_schema_version v, drs_session_id v, show_nat (unat (drs_timestamp_ns v)),
     show_nat (unat (drs_target_id v)), show_nat (unat (drs_pid v)), drs_stable_identity v,
     show_nat (unat (drs_region_start v)), show_nat (unat (drs_region_end v)), show_nat (unat (drs_region_size v)),
     show_nat (unat (drs_hot_overlap_bytes v)), show_nat (unat (drs_warm_overlap_bytes v)),
     show_nat (unat (drs_cold_overlap_bytes v)), fmt_fixed 6 (drs_hot_overlap_fraction v),
     fmt_fixed 6 (drs_warm_overlap_fraction v), fmt_fixed 6 (drs_cold_overlap_fraction v),
     show_nat (unat (drs_other_bytes v)), show_nat (unat (drs_nr_accesses v)), show_nat (unat (drs_age v)),
     show_nat (unat (drs_sample_us v)), show_nat (unat (drs_aggr_us v)), show_nat (unat (drs_update_us v)),
     show_nat (unat (drs_expected_samples v)), fmt_fixed 6 (drs_normalized_access_ratio v),
     debug_label (drs_observational_label v), drs_label_rule_version v, drs_confidence v, drs_source v,
     drs_kernel v, drs_operation_set v] @ [char_of (10 :: nat)]"

text \<open>\<open>Path::parent\<close> of a normalized absolute path; \<open>/\<close> has none. A dot component other than the first
  never appears among the components of a path, so \<open>CurDir\<close> cannot occur in an absolute one.\<close>

definition export_components :: "string \<Rightarrow> string list" where
  "export_components p = filter (\<lambda>c. c \<noteq> [] \<and> c \<noteq> ''.'') (split_on CHR ''/'' p)"

definition export_parent :: "string \<Rightarrow> string option" where
  "export_parent p = (let cs = export_components p in if cs = [] then None else Some (''/'' @ join ''/'' (butlast cs)))"

definition validate_export_path :: "host_tree \<Rightarrow> string \<Rightarrow> (damon_error, unit) result" where
  "validate_export_path H path =
     (if \<not> starts_with path ''/'' \<or> hf_exists H path \<or> ''..'' \<in> set (export_components path)
      then Err (DamonInvalid ''unsafe export path'')
      else rbind (invalid_if_none ''export parent is missing'' (export_parent path)) (\<lambda>parent.
        case ht_canonicalize H parent of
          Inl e \<Rightarrow> Err (DamonIo e)
        | Inr canonical \<Rightarrow> if export_components canonical = export_components parent then Ok ()
            else Err (DamonInvalid ''export parent is not canonical'')))"

text \<open>The serializer is a parameter, and so is the creation of a new file with given contents. The
  result is the number of bytes written.\<close>

fun json_lines :: "(damon_region_sample \<Rightarrow> (string, string) result) \<Rightarrow> damon_region_sample list \<Rightarrow> (damon_error, string) result" where
  "json_lines to_json [] = Ok []"
| "json_lines to_json (r # rs) = (case to_json r of
      Inl e \<Rightarrow> Err (DamonJson e)
    | Inr t \<Rightarrow> rbind (json_lines to_json rs) (\<lambda>ts. Ok (t @ [char_of (10 :: nat)] @ ts)))"

definition export_dataset ::
  "(damon_region_sample \<Rightarrow> (string, string) result) \<Rightarrow> (string \<Rightarrow> string \<Rightarrow> host_tree \<Rightarrow> (io_error, unit) result \<times> host_tree) \<Rightarrow>
     string \<Rightarrow> export_format \<Rightarrow> damon_region_sample list \<Rightarrow> u64 \<Rightarrow> host_tree \<Rightarrow> (damon_error, nat) result \<times> host_tree" where
  "export_dataset to_json create_new path format records max_bytes H =
     (case rbind (validate_export_path H path) (\<lambda>_.
        case format of Jsonl \<Rightarrow> json_lines to_json records
        | Csv \<Rightarrow> Ok (csv_header @ concat (map csv_line records))) of
      Inl e \<Rightarrow> (Err e, H)
    | Inr output \<Rightarrow>
       if length output > unat max_bytes then (Err (DamonInvalid ''export exceeds configured bound''), H)
       else (case create_new path output H of
          (Inl e, H') \<Rightarrow> (Err (DamonIo e), H')
        | (Inr _, H') \<Rightarrow> (Ok (length output), H')))"

end
