(* ===== verification/Damon_Trace.thy ===== *)
theory Damon_Trace
  imports Damon "HOL-Library.Multiset"
begin

text \<open>
  Properties of the DAMON component: grouping of trace events into aggregation windows, the
  round trip of a trace line, the overlap of address ranges and the initial regions.
\<close>

subsection \<open>Windows\<close>

text \<open>A complete window: as many events as each of them announces.\<close>

definition complete_window :: "trace_region list \<Rightarrow> bool" where
  "complete_window w \<longleftrightarrow> w \<noteq> [] \<and> (\<forall>r \<in> set w. unat (tr_nr_regions r) = length w)"

lemma group_step_partial:
  assumes "\<forall>r \<in> set (cur @ rs). unat (tr_nr_regions r) = n" and "length (cur @ rs) = n" and "rs \<noteq> []"
    and "cur \<noteq> [] \<longrightarrow> e = n"
  shows "foldl group_step (ws, cur, e) rs = (ws @ [cur @ rs], [], 0)"
  using assms
proof (induction rs arbitrary: cur e)
  case (Cons r rs)
  have n: "n \<noteq> 0" "unat (tr_nr_regions r) = n" using Cons.prems(1,2) by auto
  show ?case
  proof (cases "rs = []")
    case True
    then show ?thesis using Cons.prems n by (auto simp: group_step_def Let_def)
  next
    case False
    then have "length (cur @ [r]) \<noteq> n" using Cons.prems(2) by (cases rs) auto
    then have step: "group_step (ws, cur, e) r = (ws, cur @ [r], n)"
      using Cons.prems(4) n by (auto simp: group_step_def Let_def)
    have "foldl group_step (ws, cur @ [r], n) rs = (ws @ [(cur @ [r]) @ rs], [], 0)"
      using Cons.IH [of "cur @ [r]" n] Cons.prems(1,2) False by simp
    with step show ?thesis by simp
  qed
qed simp

lemma group_complete_window:
  "complete_window w \<Longrightarrow> foldl group_step (ws, [], 0) w = (ws @ [w], [], 0)"
  using group_step_partial [of "[]" w "length w"] by (auto simp: complete_window_def)

text \<open>Grouping recovers the windows: for every sequence of complete windows, the stream of their
  events is cut back into exactly these windows.\<close>

theorem grouping_recovers_windows:
  assumes "list_all complete_window ws"
  shows "group_aggregation_windows (concat ws) = ws"
proof -
  have "foldl group_step (vs, [], 0) (concat ws) = (vs @ ws, [], 0)" for vs
    using assms by (induction ws arbitrary: vs) (auto simp: group_complete_window)
  then show ?thesis by (simp add: group_aggregation_windows_def)
qed

text \<open>What holds while events of an arbitrary stream are grouped: the windows found so far are
  complete, the open one is uniform and not yet full, and their events come from the stream in
  order.\<close>

definition grouping_inv :: "trace_region list \<Rightarrow> trace_region list list \<times> trace_region list \<times> nat \<Rightarrow> bool" where
  "grouping_inv seen acc \<longleftrightarrow> (case acc of (ws, cur, e) \<Rightarrow>
     (\<forall>w \<in> set ws. complete_window w) \<and> subseq (concat ws @ cur) seen \<and>
     (\<forall>r \<in> set cur. unat (tr_nr_regions r) = e))"

lemma subseq_prefixD: "subseq (xs @ ys) zs \<Longrightarrow> subseq xs zs"
  by (rule subseq_order.order_trans [OF list_emb_prefix [OF subseq_order.order_refl]])

lemma grouping_inv_step: "grouping_inv seen acc \<Longrightarrow> grouping_inv (seen @ [r]) (group_step acc r)"
proof -
  assume i: "grouping_inv seen acc"
  obtain ws cur e where acc: "acc = (ws, cur, e)" by (cases acc)
  have s: "subseq (concat ws @ cur) seen" using i by (simp add: grouping_inv_def acc)
  then have s1: "subseq ((concat ws @ cur) @ [r]) (seen @ [r])" by (intro list_emb_append_mono) auto
  have "subseq (concat ws) seen" using s by (rule subseq_prefixD)
  then have s2: "subseq (concat ws @ [r]) (seen @ [r])" by (intro list_emb_append_mono) auto
  show ?thesis using i s1 s2
    by (auto simp: grouping_inv_def acc group_step_def Let_def complete_window_def)
qed

lemma grouping_inv_run: "grouping_inv seen acc \<Longrightarrow> grouping_inv (seen @ rs) (foldl group_step acc rs)"
proof (induction rs arbitrary: seen acc)
  case (Cons r rs)
  from Cons.IH [OF grouping_inv_step [OF Cons.prems, of r]] show ?case by simp
qed simp

text \<open>Grouping is sound on every stream, also a damaged one: each window it yields is complete, and the
  windows consist of events of the stream in their order, none twice.\<close>

theorem grouping_sound:
  "list_all complete_window (group_aggregation_windows rs) \<and> subseq (concat (group_aggregation_windows rs)) rs"
proof -
  obtain ws cur e where f: "foldl group_step ([], [], 0) rs = (ws, cur, e)" by (cases "foldl group_step ([], [], 0) rs")
  have "grouping_inv ([] @ rs) (ws, cur, e)"
    using grouping_inv_run [of "[]" "([], [], 0)" rs] f by (simp add: grouping_inv_def)
  then have "\<forall>w \<in> set ws. complete_window w" "subseq (concat ws @ cur) rs" by (auto simp: grouping_inv_def)
  then show ?thesis
    by (auto simp: group_aggregation_windows_def f list_all_iff dest: subseq_prefixD)
qed

subsection \<open>Address ranges\<close>

definition addresses :: "address_range \<Rightarrow> u64 set" where
  "addresses r = {x. ar_start r \<le> x \<and> x < ar_end r}"

lemma card_word_interval: "card {x :: u64. a \<le> x \<and> x < b} = unat b - unat a"
proof -
  have im: "unat ` {x :: u64. a \<le> x \<and> x < b} = {unat a ..< unat b}"
  proof (safe)
    fix n assume n: "n \<in> {unat a ..< unat b}"
    have "unat b < 2 ^ 64" by (rule order_less_le_trans [OF unsigned_less]) simp
    then have u: "unat (of_nat n :: u64) = n" using n by (simp add: unat_of_nat)
    with n have "of_nat n \<in> {x :: u64. a \<le> x \<and> x < b}" by (simp add: word_le_nat_alt word_less_nat_alt)
    then have "unat (of_nat n :: u64) \<in> unat ` {x :: u64. a \<le> x \<and> x < b}" by (rule imageI)
    then show "n \<in> unat ` {x :: u64. a \<le> x \<and> x < b}" by (simp only: u)
  qed (auto simp: word_le_nat_alt word_less_nat_alt)
  have "inj_on unat {x :: u64. a \<le> x \<and> x < b}" by (rule inj_onI) (simp only: word_unat_eq_iff)
  from card_image [OF this] show ?thesis by (simp add: im)
qed

lemma card_addresses: "card (addresses r) = unat (ar_end r) - unat (ar_start r)"
  by (simp add: addresses_def card_word_interval)

lemma overlap_card: "unat (overlap a b) = card (addresses a \<inter> addresses b)"
proof -
  have "addresses a \<inter> addresses b =
      {x. max (ar_start a) (ar_start b) \<le> x \<and> x < min (ar_end a) (ar_end b)}"
    by (auto simp: addresses_def)
  then have "card (addresses a \<inter> addresses b) = unat (min (ar_end a) (ar_end b)) - unat (max (ar_start a) (ar_start b))"
    by (simp only: card_word_interval)
  then show ?thesis by (simp add: overlap_def unat_sat_sub)
qed

lemma overlap_zero_iff: "overlap a b = 0 \<longleftrightarrow> addresses a \<inter> addresses b = {}"
proof -
  have "overlap a b = 0 \<longleftrightarrow> unat (overlap a b) = 0" by (simp add: unat_eq_0)
  then show ?thesis by (simp add: overlap_card)
qed

lemma check_regions_Ok:
  assumes "check_regions mapped prev rs = Ok ()"
  shows "\<forall>r \<in> set rs. ar_start r < ar_end r \<and> (\<exists>m \<in> set mapped. addresses r \<subseteq> addresses m)"
    and "sorted_wrt (\<lambda>a b. ar_end a \<le> ar_start b) rs" and "\<forall>e. prev = Some e \<longrightarrow> (\<forall>r \<in> set rs. e \<le> ar_start r)"
  using assms
proof (induction mapped prev rs rule: check_regions.induct)
  case (2 mapped prev r rs)
  {
    case 1
    then have "\<exists>m \<in> set mapped. addresses r \<subseteq> addresses m"
      by (auto simp: list_ex_iff addresses_def split: if_splits intro: order_trans order_less_le_trans)
    with 2 1 show ?case by (auto split: if_splits)
  next
    case 2
    then show ?case using "2.IH" by (auto split: if_splits)
  next
    case 3
    then have "\<forall>x \<in> set rs. ar_end r \<le> ar_start x" "ar_start r < ar_end r" "is_some_and (\<lambda>e. e > ar_start r) prev = False"
      using "2.IH"(3) by (auto split: if_splits)
    then show ?case by (auto intro: order_trans less_imp_le order_less_imp_le)
  }
qed auto

lemma foldl_sat_add_exact:
  fixes f :: "'b \<Rightarrow> u64"
  assumes "unat acc + sum_list (map (\<lambda>r. unat (f r)) rs) < 2 ^ 64"
  shows "unat (foldl (\<lambda>acc r. sat_add acc (f r)) acc rs) = unat acc + sum_list (map (\<lambda>r. unat (f r)) rs)"
  using assms
proof (induction rs arbitrary: acc)
  case (Cons r rs)
  then have "unat (sat_add acc (f r)) = unat acc + unat (f r)" by (simp add: unat_sat_add)
  with Cons.IH [of "sat_add acc (f r)"] Cons.prems show ?case by simp
qed simp

lemma ordered_regions_sum:
  assumes "sorted_wrt (\<lambda>a b. ar_end a \<le> ar_start b) rs" and "\<forall>r \<in> set rs. ar_start r < ar_end r \<and> lo \<le> ar_start r"
  shows "unat lo + sum_list (map (\<lambda>r. unat (ar_end r - ar_start r)) rs) < 2 ^ 64"
  using assms
proof (induction rs arbitrary: lo)
  case Nil
  show ?case by (simp, rule order_less_le_trans [OF unsigned_less]) simp
next
  case (Cons r rs)
  have "unat (ar_end r) + sum_list (map (\<lambda>r. unat (ar_end r - ar_start r)) rs) < 2 ^ 64"
    using Cons.IH [of "ar_end r"] Cons.prems by auto
  moreover have "unat (ar_end r - ar_start r) = unat (ar_end r) - unat (ar_start r)"
    using Cons.prems(2) by (simp add: unat_sub less_imp_le)
  moreover have "unat lo \<le> unat (ar_start r)" "unat (ar_start r) < unat (ar_end r)"
    using Cons.prems(2) by (simp_all add: word_le_nat_alt word_less_nat_alt)
  ultimately show ?case by simp
qed

lemma disjoint_regions_card:
  assumes "sorted_wrt (\<lambda>a b. ar_end a \<le> ar_start b) rs" and "\<forall>r \<in> set rs. ar_start r < ar_end r"
  shows "card (\<Union>r \<in> set rs. addresses r) = sum_list (map (\<lambda>r. unat (ar_end r - ar_start r)) rs)"
  using assms
proof (induction rs)
  case (Cons r rs)
  have "addresses r \<inter> (\<Union>x \<in> set rs. addresses x) = {}"
    using Cons.prems(1) by (auto simp: addresses_def)
  moreover have "card (addresses r) = unat (ar_end r - ar_start r)"
    using Cons.prems(2) by (simp add: card_addresses unat_sub less_imp_le)
  ultimately show ?case using Cons by (simp add: card_Un_disjoint)
qed simp

text \<open>An accepted plan of initial regions describes what it requests: the three given ranges in address
  order, each nonempty and inside one mapping of the target, pairwise disjoint, and the
  requested size is the exact number of addresses they cover, without saturation.\<close>

theorem initial_regions_sound:
  assumes "initial_region_plan_new ranges mapped = Ok p"
  shows "mset (irp_ranges p) = mset ranges \<and> length (irp_ranges p) = 3 \<and>
    sorted_wrt (\<lambda>a b. overlap a b = 0 \<and> ar_start a < ar_start b) (irp_ranges p) \<and>
    (\<forall>r \<in> set ranges. addresses r \<noteq> {} \<and> (\<exists>m \<in> set mapped. addresses r \<subseteq> addresses m)) \<and>
    unat (requested_bytes p) = card (\<Union>r \<in> set ranges. addresses r)"
proof -
  have l: "length ranges = 3" and c: "check_regions mapped None (sort_key ar_start ranges) = Ok ()"
    and p: "irp_ranges p = sort_key ar_start ranges"
    using assms by (auto simp: initial_region_plan_new_def Let_def rbind_Ok_iff split: if_splits)
  note k = check_regions_Ok [OF c]
  have ne: "\<forall>r \<in> set ranges. ar_start r < ar_end r" and
    m: "\<forall>r \<in> set ranges. \<exists>m \<in> set mapped. addresses r \<subseteq> addresses m" using k(1) by auto
  have "sorted_wrt (\<lambda>a b. overlap a b = 0 \<and> ar_start a < ar_start b) (sort_key ar_start ranges)"
    by (rule sorted_wrt_mono_rel [OF _ k(2)]) (use ne in \<open>force simp: overlap_zero_iff addresses_def\<close>)
  moreover have "unat (requested_bytes p) = card (\<Union>r \<in> set ranges. addresses r)"
    using foldl_sat_add_exact [of 0 "\<lambda>r. ar_end r - ar_start r" "sort_key ar_start ranges"]
      ordered_regions_sum [OF k(2), of 0] disjoint_regions_card [OF k(2)] ne
    by (simp add: requested_bytes_def p)
  moreover have "\<forall>r \<in> set ranges. addresses r \<noteq> {}" using ne by (auto simp: addresses_def)
  ultimately show ?thesis using m l by (simp add: p)
qed

subsection \<open>Trace lines\<close>

text \<open>The line the kernel prints for an event.\<close>

definition show_u64 :: "u64 \<Rightarrow> string" where
  "show_u64 w = show_nat (unat w)"

definition trace_tokens :: "trace_region \<Rightarrow> string list" where
  "trace_tokens r = [''target_id='' @ show_u64 (tr_target_id r), ''nr_regions='' @ show_nat (unat (tr_nr_regions r)),
     show_u64 (tr_start r) @ ''-'' @ show_u64 (tr_end r) @ '':'', show_u64 (tr_nr_accesses r), show_u64 (tr_age r)]"

definition trace_line :: "trace_region \<Rightarrow> string" where
  "trace_line r = ''damon_aggregated: '' @ join '' '' (trace_tokens r)"

lemma trace_tokens_ws: "\<forall>t \<in> set (trace_tokens r). ws_token t"
  using show_nat_chars by (auto simp: trace_tokens_def show_u64_def ws_token_def is_ws_def)

lemma show_nat_no_comma: "c \<in> set (show_nat n) \<Longrightarrow> c \<noteq> CHR '',''"
  using show_nat_digits [of n] by (auto simp: list_all_iff is_ascii_digit_def Let_def)

lemma show_u64_ends: "show_u64 w \<noteq> []" "hd (show_u64 w) \<noteq> CHR '',''" "last (show_u64 w) \<noteq> CHR '',''"
  "last (show_u64 w) \<noteq> CHR '':''"
proof -
  have i: "hd (show_u64 w) \<in> set (show_u64 w)" "last (show_u64 w) \<in> set (show_u64 w)" by (simp_all add: show_u64_def)
  then show "hd (show_u64 w) \<noteq> CHR '',''" "last (show_u64 w) \<noteq> CHR '',''" "last (show_u64 w) \<noteq> CHR '':''"
    unfolding show_u64_def using show_nat_no_comma show_nat_chars by blast+
qed (simp add: show_u64_def)

lemma event_value_pair:
  assumes "k \<noteq> []" and "hd k \<noteq> CHR '',''" and "CHR ''='' \<notin> set k"
  shows "event_value vs (k @ ''='' @ show_nat n) = vs(k \<mapsto> show_nat n)"
proof -
  have l: "last (show_nat n) \<noteq> CHR '',''" "hd (show_nat n) \<noteq> CHR '',''"
    using show_nat_no_comma [of "last (show_nat n)" n] show_nat_no_comma [of "hd (show_nat n)" n] by auto
  have "trim_chars {CHR '',''} (k @ ''='' @ show_nat n) = k @ ''='' @ show_nat n"
    using assms(1,2) l by (intro trim_chars_id) auto
  moreover have "split_once CHR ''='' (k @ ''='' @ show_nat n) = Some (k, show_nat n)"
    using assms(3) by (simp add: split_once_Some)
  moreover have "trim_chars {CHR '',''} (show_nat n) = show_nat n" using l by (intro trim_chars_id) auto
  ultimately show ?thesis by (simp add: event_value_def)
qed

lemma event_value_other: "CHR ''='' \<notin> set t \<Longrightarrow> event_value vs t = vs"
proof -
  assume "CHR ''='' \<notin> set t"
  moreover have "set (trim_chars {CHR '',''} t) \<subseteq> set t"
    unfolding trim_chars_def by (auto dest!: set_dropWhileD)
  ultimately have "split_once CHR ''='' (trim_chars {CHR '',''} t) = None"
    by (metis not_Some_eq split_once_Some old.prod.exhaust in_set_conv_decomp subsetD)
  then show ?thesis by (simp add: event_value_def)
qed

lemma show_nat_no_eq: "CHR ''='' \<notin> set (show_nat n)" "CHR '':'' \<notin> set (show_nat n)" "CHR ''-'' \<notin> set (show_nat n)"
  using show_nat_chars by auto

lemma event_values_line:
  "event_values ('' '' @ join '' '' (trace_tokens r)) =
     [''target_id'' \<mapsto> show_u64 (tr_target_id r), ''nr_regions'' \<mapsto> show_nat (unat (tr_nr_regions r))]"
proof -
  have "split_whitespace ('' '' @ join '' '' (trace_tokens r)) = trace_tokens r"
    using split_whitespace_join [OF trace_tokens_ws] by (simp add: split_whitespace_def)
  then show ?thesis
    using event_value_pair [of "''target_id''" Map.empty] event_value_pair [of "''nr_regions''"]
    by (simp add: event_values_def trace_tokens_def show_u64_def event_value_other show_nat_no_eq)
qed

lemma range_token_tokens:
  "dropWhile (\<lambda>t. \<not> range_token t) (trace_tokens r) = drop 2 (trace_tokens r)"
proof -
  have n: "\<not> range_token (k @ show_nat n)" for k n
  proof -
    have "last (show_nat n) \<in> set (show_nat n)" by (rule last_in_set) simp
    then have "last (k @ show_nat n) \<noteq> CHR '':''" using show_nat_no_eq(2) [of n] by (metis last_appendR show_nat_not_Nil)
    then show ?thesis by (metis range_token_def ends_with_def strip_suffix_Some_iff last_snoc not_Some_eq)
  qed
  have "range_token (a @ ''-'' @ b @ '':'')" for a b
    by (simp add: range_token_def ends_with_def strip_suffix_Some_iff)
  then show ?thesis
    using n [of "''target_id=''"] n [of "''nr_regions=''"] by (simp add: trace_tokens_def show_u64_def)
qed

lemma range_token_split:
  "split_once CHR ''-'' (trim_end_matches '':'' (show_u64 a @ ''-'' @ show_u64 b @ '':'')) = Some (show_u64 a, show_u64 b)"
proof -
  let ?s = "show_u64 a @ ''-'' @ show_u64 b"
  have "strip_suffix '':'' ?s = None"
    using show_u64_ends(1,4) [of b]
    by (auto simp: strip_suffix_Some_iff simp flip: not_Some_eq) (metis last_append last_snoc append_Cons list.distinct(1) last_ConsR)
  then have "trim_end_matches '':'' ?s = ?s" by (simp add: trim_end_matches.simps)
  moreover have "strip_suffix '':'' (?s @ '':'') = Some ?s" by (simp add: strip_suffix_Some_iff)
  ultimately have "trim_end_matches '':'' (?s @ '':'') = ?s" by (subst trim_end_matches.simps) simp
  then show ?thesis using show_nat_no_eq(3) by (simp add: split_once_Some show_u64_def)
qed

text \<open>Trace lines round-trip: parsing the line the kernel prints for an event with a nonempty range gives
  exactly this event back, for all 64-bit field values.\<close>

theorem trace_line_roundtrip:
  assumes "tr_start r < tr_end r"
  shows "parse_aggregated (trace_line r) = Ok r"
proof -
  let ?p = "'' '' @ join '' '' (trace_tokens r)"
  have line: "split_once_str ''damon_aggregated:'' (trace_line r) = Some ([], ?p)"
    by (simp add: trace_line_def)
  have toks: "split_whitespace ?p = trace_tokens r"
    using split_whitespace_join [OF trace_tokens_ws] by (simp add: split_whitespace_def)
  have addr: "parse_address (show_u64 w) = Ok w" for w by (simp add: parse_address_def show_u64_def invalid_if_none_def)
  have nr: "parse_u32 (show_nat (unat (tr_nr_regions r))) = Some (tr_nr_regions r)" by (simp add: parse_u32_def)
  have num: "parse_u64 (show_u64 w) = Some w" for w by (simp add: show_u64_def)
  have "parse_positional_aggregated ?p (event_values ?p) = Ok r"
    using assms unfolding parse_positional_aggregated_def toks range_token_tokens event_values_line
    by (simp add: trace_tokens_def invalid_if_none_def nr num addr range_token_split [simplified] token_after_def nonempty_region_def)
  then show ?thesis using event_values_line [of r] by (simp add: parse_aggregated_def line)
qed

definition example_trace :: trace_region where
  "example_trace = \<lparr> tr_target_id = 0, tr_nr_regions = 1, tr_start = 4096, tr_end = 8192, tr_nr_accesses = 3, tr_age = 7 \<rparr>"

theorem trace_line_roundtrip_witness: "parse_aggregated (trace_line example_trace) = Ok example_trace"
  by (rule trace_line_roundtrip) (simp add: example_trace_def)

theorem grouping_recovers_windows_witness:
  "group_aggregation_windows (concat [[example_trace], [example_trace]]) = [[example_trace], [example_trace]]"
  by (rule grouping_recovers_windows) (simp add: complete_window_def example_trace_def)

definition example_range :: "u64 \<Rightarrow> address_range" where
  "example_range a = \<lparr> ar_start = a, ar_end = a + 10 \<rparr>"

theorem initial_regions_sound_witness:
  "\<exists>p. initial_region_plan_new [example_range 40, example_range 20, example_range 60] [\<lparr> ar_start = 0, ar_end = 100 \<rparr>] = Ok p \<and>
    unat (requested_bytes p) = card (\<Union>r \<in> {example_range 40, example_range 20, example_range 60}. addresses r)"
proof -
  obtain p where p: "initial_region_plan_new [example_range 40, example_range 20, example_range 60] [\<lparr> ar_start = 0, ar_end = 100 \<rparr>] = Ok p"
    by (simp add: initial_region_plan_new_def example_range_def Let_def)
  with initial_regions_sound [OF p] show ?thesis by auto
qed

end
