(* ===== verification/Damos.thy ===== *)
theory Damos
  imports Damon_Trace Policy
begin

text \<open>
  Controlled reclaim with DAMOS schemes (\<open>damos/src/lib.rs\<close>): capability of the kernel, eligibility
  of a target, quotas, the address fence, plans, the evidence of a shadow and of a live run,
  refaults with the blacklist they lead to, and recovery of an owned session.
\<close>

definition DAMOS_RULE_VERSION :: string where
  "DAMOS_RULE_VERSION = ''damos-controlled-reclaim-v1''"

definition VALIDATION_BYTE_QUOTA :: u64 where
  "VALIDATION_BYTE_QUOTA = 8 * 1024 * 1024"

datatype damos_error = DamosInvalid string | DamosUnsupported string

datatype damos_action = ActStat | ActPageout

subsection \<open>Capability\<close>

text \<open>Ordered sets are sorted lists without repetition, maps of fields association lists.\<close>

record damos_capability =
  dmc_supported :: bool
  dmc_vaddr :: "bool option"
  dmc_actions :: "string list"
  dmc_scheme_fields :: "(string \<times> bool) list"
  dmc_quota_fields :: "(string \<times> bool) list"
  dmc_filter_types :: "string list"
  dmc_stats_fields :: "(string \<times> bool) list"
  dmc_address_fence_supported :: bool
  dmc_filter_allow_supported :: bool
  dmc_max_nr_snapshots_supported :: bool
  dmc_external_session_conflict :: bool
  dmc_special_module_conflict :: bool
  dmc_notes :: "string list"

definition damos_capability_default :: damos_capability where
  "damos_capability_default = \<lparr> dmc_supported = False, dmc_vaddr = None, dmc_actions = [], dmc_scheme_fields = [],
     dmc_quota_fields = [], dmc_filter_types = [], dmc_stats_fields = [], dmc_address_fence_supported = False,
     dmc_filter_allow_supported = False, dmc_max_nr_snapshots_supported = False, dmc_external_session_conflict = False,
     dmc_special_module_conflict = False, dmc_notes = [] \<rparr>"

definition quota_field :: "damos_capability \<Rightarrow> string \<Rightarrow> bool" where
  "quota_field c field = unwrap_or False (map_of (dmc_quota_fields c) field)"

definition live_pageout_ready :: "damos_capability \<Rightarrow> (damos_error, unit) result" where
  "live_pageout_ready c = first_error (
     [(\<not> dmc_supported c \<or> dmc_vaddr c \<noteq> Some True \<or> ''pageout'' \<notin> set (dmc_actions c), DamosUnsupported ''vaddr pageout'')] @
     map (\<lambda>field. (\<not> quota_field c field, DamosUnsupported (''quota.'' @ field))) [''ms'', ''bytes'', ''reset_interval_ms''] @
     [(\<not> dmc_address_fence_supported c, DamosUnsupported ''core addr filter''),
      (dmc_external_session_conflict c \<or> dmc_special_module_conflict c, DamosUnsupported ''external DAMON conflict'')])"

definition read_words :: "host_tree \<Rightarrow> string \<Rightarrow> string \<Rightarrow> string list" where
  "read_words H base relative = (case hf_read_to_string H (path_join base relative) of
      Inl _ \<Rightarrow> [] | Inr t \<Rightarrow> remdups_adj (sort (split_whitespace t)))"

definition scheme_exists :: "host_tree \<Rightarrow> string \<Rightarrow> string \<Rightarrow> bool" where
  "scheme_exists H base relative = hf_exists H (path_join base relative)"

definition inspect_scheme_root :: "host_tree \<Rightarrow> string \<Rightarrow> bool \<Rightarrow> bool \<Rightarrow> bool \<Rightarrow> damos_capability" where
  "inspect_scheme_root H base vaddr ext conflict =
     (let avail = read_words H base ''avail_actions'';
          actions = (if avail = [] then remdups_adj (sort (map (trim_chars {CHR ''['', CHR '']''}) (read_words H base ''action''))) else avail);
          filter_types = read_words H base ''filters/avail_types''
      in \<lparr> dmc_supported = is_dir H base, dmc_vaddr = Some vaddr, dmc_actions = actions,
           dmc_scheme_fields = map (\<lambda>n. (n, scheme_exists H base n))
             [''access_pattern'', ''action'', ''apply_interval_us'', ''filters'', ''quotas'', ''stats'', ''watermarks''],
           dmc_quota_fields = map (\<lambda>n. (n, scheme_exists H base (''quotas/'' @ n)))
             [''bytes'', ''effective_bytes'', ''goals'', ''ms'', ''reset_interval_ms'', ''weights''],
           dmc_filter_types = filter_types,
           dmc_stats_fields = map (\<lambda>n. (n, scheme_exists H base (''stats/'' @ n)))
             [''max_nr_snapshots'', ''nr_applied'', ''nr_snapshots'', ''nr_tried'', ''qt_exceeds'', ''sz_applied'',
              ''sz_ops_filter_passed'', ''sz_tried''],
           dmc_address_fence_supported = (''addr'' \<in> set filter_types),
           dmc_filter_allow_supported = list_ex (scheme_exists H base)
             [''core_filters/0/allow'', ''ops_filters/0/allow'', ''filters/0/allow''],
           dmc_max_nr_snapshots_supported = scheme_exists H base ''stats/max_nr_snapshots'',
           dmc_external_session_conflict = ext, dmc_special_module_conflict = conflict, dmc_notes = [] \<rparr>)"

definition observe_capability :: "damon_capability \<Rightarrow> damos_capability" where
  "observe_capability dc = damos_capability_default\<lparr> dmc_supported := dc_supported dc,
     dmc_vaddr := (if dc_available_operations dc \<noteq> [] then Some (dc_vaddr_supported dc) else None),
     dmc_external_session_conflict := dc_active_external_session dc,
     dmc_special_module_conflict := dc_special_module_conflict dc,
     dmc_notes := [''scheme/action/filter capability requires an owned manual validation allocation''] \<rparr>"

subsection \<open>Targets, patterns and quotas\<close>

record stable_target_identity =
  sti_pid :: u32
  sti_start_ticks :: u64
  sti_stable_key :: string
  sti_owned :: bool

record cold_observation =
  co_complete :: bool
  co_nr_accesses :: u64
  co_age :: u64
  co_range :: address_range

record damos_quota =
  dq_time_ms :: u64
  dq_bytes :: u64
  dq_reset_interval_ms :: u64
  dq_total_applied_bytes :: u64

record inclusive_range =
  ir_min :: u64
  ir_max :: u64

record access_pattern =
  ap_size :: inclusive_range
  ap_nr_accesses :: inclusive_range
  ap_age :: inclusive_range

definition validation_cold :: access_pattern where
  "validation_cold = \<lparr> ap_size = \<lparr> ir_min = 0, ir_max = - 1 \<rparr>, ap_nr_accesses = \<lparr> ir_min = 0, ir_max = 0 \<rparr>,
     ap_age = \<lparr> ir_min = 3, ir_max = - 1 \<rparr> \<rparr>"

definition configured_age_min :: "access_pattern \<Rightarrow> u64" where
  "configured_age_min p = ir_min (ap_age p)"

definition quota_validate :: "damos_quota \<Rightarrow> u64 \<Rightarrow> u64 \<Rightarrow> (damos_error, unit) result" where
  "quota_validate q max_time_ms max_bytes = first_error
     [(dq_time_ms q = 0 \<and> dq_bytes q = 0, DamosInvalid ''time and byte quotas cannot both be zero''),
      (dq_time_ms q > max_time_ms \<or> dq_bytes q > max_bytes, DamosInvalid ''quota exceeds absolute configuration ceiling''),
      (dq_reset_interval_ms q = 0 \<or> dq_total_applied_bytes q < dq_bytes q, DamosInvalid ''invalid reset/total quota'')]"

subsection \<open>Eligibility\<close>

record damos_eligibility_input =
  ei_identity :: "stable_target_identity option"
  ei_identity_fresh :: bool
  ei_background :: bool
  ei_foreground :: bool
  ei_gaming :: bool
  ei_critical :: bool
  ei_protected :: bool
  ei_known_classification :: bool
  ei_pressure :: pressure_state
  ei_cold_observations :: "cold_observation list"
  ei_valid_age_evidence :: bool
  ei_recent_refault :: bool
  ei_blacklisted :: bool
  ei_safety_conflict :: bool

datatype plan_disposition = DispEligible | DispRejected | DispUnsupported

record damos_eligibility_decision =
  ed_disposition :: plan_disposition
  ed_reasons :: "string list"
  ed_rule_version :: string

definition stable_identity_ok :: "stable_target_identity option \<Rightarrow> bool" where
  "stable_identity_ok i = is_some_and (\<lambda>t. sti_owned t \<and> sti_pid t \<noteq> 1 \<and> sti_stable_key t \<noteq> []) i"

definition consecutive_cold :: "cold_observation list \<Rightarrow> nat" where
  "consecutive_cold os = length (takeWhile (\<lambda>o'. co_complete o' \<and> co_nr_accesses o' = 0) (rev os))"

definition eligibility_checks :: "damos_eligibility_input \<Rightarrow> (bool \<times> string) list" where
  "eligibility_checks i =
     [(\<not> stable_identity_ok (ei_identity i), ''unknown_identity''),
      (\<not> ei_identity_fresh i, ''stale_identity''),
      (\<not> ei_known_classification i \<or> \<not> ei_background i, ''unknown_or_non_background''),
      (ei_foreground i, ''foreground_protected''),
      (ei_gaming i, ''gaming_protected''),
      (ei_critical i, ''critical_protected''),
      (ei_protected i, ''protected_target''),
      (ei_pressure i \<in> {Normal, Watch, Stabilizing}, ''not_under_eligible_pressure''),
      (consecutive_cold (ei_cold_observations i) < 3 \<or> \<not> ei_valid_age_evidence i, ''insufficient_cold_evidence''),
      (ei_recent_refault i \<or> ei_blacklisted i, ''early_refault_blacklist''),
      (ei_safety_conflict i, ''safety_conflict'')]"

definition evaluate_eligibility :: "damos_eligibility_input \<Rightarrow> damos_eligibility_decision" where
  "evaluate_eligibility i = (let reasons = fired (eligibility_checks i) in
     \<lparr> ed_disposition = (if reasons = [] then DispEligible else DispRejected), ed_reasons = reasons,
       ed_rule_version = DAMOS_RULE_VERSION \<rparr>)"

subsection \<open>Fences and plans\<close>

datatype filter_api = LegacyMatchingOnly | MatchingAllow

record address_fence =
  af_range :: address_range
  af_layer :: string
  af_filter_type :: string
  af_api :: filter_api
  af_matching :: bool
  af_allow :: "bool option"

definition fence_validate :: "address_fence \<Rightarrow> address_range \<Rightarrow> (damos_error, unit) result" where
  "fence_validate f cold =
     (let semantics = (case af_api f of
         MatchingAllow \<Rightarrow> af_matching f \<and> af_allow f = Some True
       | LegacyMatchingOnly \<Rightarrow> \<not> af_matching f \<and> af_allow f = None)
      in if af_layer f \<noteq> ''core'' \<or> af_filter_type f \<noteq> ''addr'' \<or> \<not> semantics \<or> af_range f \<noteq> cold
         then Err (DamosInvalid ''address fence does not exactly match COLD'') else Ok ())"

definition fence_allows :: "address_fence \<Rightarrow> u64 \<Rightarrow> bool" where
  "fence_allows f a \<longleftrightarrow> fence_validate f (af_range f) = Ok () \<and> ar_start (af_range f) \<le> a \<and> a < ar_end (af_range f)"

record damos_plan =
  dp_decision_id :: string
  dp_plan_id :: string
  dp_session_id :: string
  dp_scheme_id :: u32
  dp_target :: stable_target_identity
  dp_action :: damos_action
  dp_pattern_accesses_min :: u64
  dp_pattern_accesses_max :: u64
  dp_pattern_age_min :: u64
  dp_pattern_age_max :: u64
  dp_apply_interval_us :: u64
  dp_quota :: damos_quota
  dp_fence :: address_fence
  dp_max_nr_snapshots :: "u64 option"
  dp_dry_run :: bool

definition damos_plan_validate :: "damos_plan \<Rightarrow> u64 \<Rightarrow> u64 \<Rightarrow> (damos_error, unit) result" where
  "damos_plan_validate p max_time_ms max_bytes =
     rbind (first_error
       [(dp_decision_id p = [] \<or> dp_plan_id p = [] \<or> dp_session_id p = [], DamosInvalid ''decision/plan/session link required''),
        (\<not> sti_owned (dp_target p) \<or> sti_pid (dp_target p) = 1 \<or> sti_stable_key (dp_target p) = [],
           DamosInvalid ''stable owned target required''),
        (dp_pattern_accesses_min p \<noteq> 0 \<or> dp_pattern_accesses_max p \<noteq> 0 \<or> dp_pattern_age_min p < 3 \<or>
           dp_pattern_age_max p < dp_pattern_age_min p \<or> dp_apply_interval_us p = 0, DamosInvalid ''unsafe access pattern'')])
     (\<lambda>_. quota_validate (dp_quota p) max_time_ms max_bytes)"

record tried_region_sample =
  trs_range :: address_range
  trs_size :: u64
  trs_nr_accesses :: "u64 option"
  trs_age :: "u64 option"
  trs_sz_filter_passed :: "u64 option"

record damos_stats =
  ds_effective_quota_bytes :: "u64 option"
  ds_nr_tried :: "u64 option"
  ds_sz_tried :: "u64 option"
  ds_nr_applied :: "u64 option"
  ds_sz_applied :: "u64 option"
  ds_sz_ops_filter_passed :: "u64 option"
  ds_qt_exceeds :: "u64 option"
  ds_nr_snapshots :: "u64 option"
  ds_max_nr_snapshots :: "u64 option"
  ds_tried_regions :: "address_range list"
  ds_tried_region_samples :: "tried_region_sample list"
  ds_tried_regions_total_bytes :: "u64 option"
  ds_first_tried_snapshot_index :: "u64 option"
  ds_first_tried_region_age :: "u64 option"
  ds_first_tried_timestamp_ns :: "u128 option"
  ds_effective_quota_raw :: "string option"
  ds_effective_quota_interpretation :: "string option"

definition validate_attempt2_bounds :: "access_pattern \<Rightarrow> damos_quota \<Rightarrow> u64 \<Rightarrow> u64 \<Rightarrow> u64 \<Rightarrow> (damos_error, unit) result" where
  "validate_attempt2_bounds pattern quota apply_interval_us live_deadline_ms max_nr_snapshots =
     (if live_deadline_ms = 0 \<or> live_deadline_ms \<ge> dq_reset_interval_ms quota
      then Err (DamosInvalid ''quota reset interval must outlive live session'')
      else if max_nr_snapshots = 0 then Err (DamosInvalid ''snapshot ceiling must be nonzero'')
      else rbind (ok_or (DamosInvalid ''snapshot runtime overflow'') (checked_mul max_nr_snapshots apply_interval_us)) (\<lambda>us.
        if us > sat_mul live_deadline_ms 1000 then Err (DamosInvalid ''snapshot ceiling does not fit live deadline'') else Ok ()))"

definition validate_attempt2_stats :: "damos_stats \<Rightarrow> u64 \<Rightarrow> (damos_error, unit) result" where
  "validate_attempt2_stats stats max_nr_snapshots = first_error
     [(ds_max_nr_snapshots stats \<noteq> Some max_nr_snapshots, DamosUnsupported ''secondary kernel snapshot ceiling readback''),
      (is_none_or (\<lambda>v. v > max_nr_snapshots) (ds_nr_snapshots stats), DamosInvalid ''kernel exceeded or did not report snapshot ceiling''),
      (is_some_and (\<lambda>b. b > VALIDATION_BYTE_QUOTA) (ds_sz_applied stats), DamosInvalid ''applied bytes exceed hard validation byte ceiling'')]"

definition hard_byte_ceiling_respected :: "damos_stats \<Rightarrow> u64 \<Rightarrow> u64 \<Rightarrow> u64 \<Rightarrow> bool" where
  "hard_byte_ceiling_respected stats configured_bytes reset_interval_ms live_deadline_ms =
     (case (ds_sz_tried stats, ds_sz_applied stats) of
        (Some tried, Some applied) \<Rightarrow> reset_interval_ms > live_deadline_ms \<and> tried \<le> configured_bytes \<and>
          applied \<le> tried \<and> applied \<le> configured_bytes
      | _ \<Rightarrow> False)"

subsection \<open>Candidates of a shadow run\<close>

record damos_before_apply_event =
  be_timestamp_ns :: u128
  be_context_idx :: u32
  be_scheme_idx :: u32
  be_target_idx :: u32
  be_nr_regions :: u32
  be_range :: address_range
  be_size :: u64
  be_nr_accesses :: u64
  be_age :: u64

definition parse_named :: "string \<Rightarrow> string option \<Rightarrow> (damos_error, u64) result" where
  "parse_named name token = ok_or (DamosInvalid (''invalid '' @ name))
     (Option.bind token (\<lambda>t. Option.bind (strip_prefix (name @ ''='') t) parse_u64))"

definition candidate_range :: "string option \<Rightarrow> address_range option" where
  "candidate_range token =
     Option.bind token (\<lambda>t. Option.bind (strip_suffix '':'' t) (\<lambda>t'. Option.bind (split_once CHR ''-'' t') (\<lambda>(s, e).
     Option.bind (parse_u64 s) (\<lambda>start. map_option (\<lambda>stop. \<lparr> ar_start = start, ar_end = stop \<rparr>) (parse_u64 e)))))"

definition damos_u32 :: "string \<Rightarrow> u64 \<Rightarrow> (damos_error, u32) result" where
  "damos_u32 what v = ok_or (DamosInvalid (what @ '' overflow'')) (u32_try_from v)"

definition parse_damos_before_apply :: "string \<Rightarrow> u128 \<Rightarrow> (damos_error, damos_before_apply_event) result" where
  "parse_damos_before_apply line timestamp_ns =
     rbind (ok_or (DamosInvalid ''missing damos_before_apply marker'')
       (map_option (\<lambda>(_, p). trim p) (split_once_str ''damos_before_apply:'' line))) (\<lambda>payload.
     let fields = split_whitespace payload; field = token_after fields in
     rbind (parse_named ''ctx_idx'' (field 0)) (\<lambda>context_idx.
     rbind (parse_named ''scheme_idx'' (field 1)) (\<lambda>scheme_idx.
     rbind (parse_named ''target_idx'' (field 2)) (\<lambda>target_idx.
     rbind (parse_named ''nr_regions'' (field 3)) (\<lambda>nr_regions.
     rbind (ok_or (DamosInvalid ''invalid candidate range'') (candidate_range (field 4))) (\<lambda>rng.
     if ar_start rng \<ge> ar_end rng then Err (DamosInvalid ''empty candidate range'')
     else
     rbind (ok_or (DamosInvalid ''invalid candidate nr_accesses'') (Option.bind (field 5) parse_u64)) (\<lambda>nr_accesses.
     rbind (ok_or (DamosInvalid ''invalid candidate age'') (Option.bind (field 6) parse_u64)) (\<lambda>age.
     rbind (damos_u32 ''context index'' context_idx) (\<lambda>ctx.
     rbind (damos_u32 ''scheme index'' scheme_idx) (\<lambda>scheme.
     rbind (damos_u32 ''target index'' target_idx) (\<lambda>tgt.
     rbind (damos_u32 ''region count'' nr_regions) (\<lambda>nr.
       Ok \<lparr> be_timestamp_ns = timestamp_ns, be_context_idx = ctx, be_scheme_idx = scheme, be_target_idx = tgt,
            be_nr_regions = nr, be_range = rng, be_size = ar_end rng - ar_start rng, be_nr_accesses = nr_accesses,
            be_age = age \<rparr>))))))))))))"

fun check_candidates ::
  "address_range \<Rightarrow> address_range \<Rightarrow> address_range \<Rightarrow> u64 \<Rightarrow> damos_before_apply_event list \<Rightarrow> (damos_error, unit) result" where
  "check_candidates hot warm cold age_min [] = Ok ()"
| "check_candidates hot warm cold age_min (c # cs) =
     (if be_context_idx c \<noteq> 0 \<or> be_scheme_idx c \<noteq> 0 \<or> be_target_idx c \<noteq> 0
      then Err (DamosInvalid ''external DAMOS event rejected'')
      else if ar_start (be_range c) < ar_start cold \<or> ar_end (be_range c) > ar_end cold \<or> overlap (be_range c) hot > 0 \<or>
         overlap (be_range c) warm > 0 \<or> be_nr_accesses c \<noteq> 0 \<or> be_age c < age_min
      then Err (DamosInvalid ''candidate violates COLD fence or access pattern'')
      else check_candidates hot warm cold age_min cs)"

definition validate_shadow_candidates ::
  "damos_before_apply_event list \<Rightarrow> address_range \<Rightarrow> address_range \<Rightarrow> address_range \<Rightarrow> u64 \<Rightarrow> (damos_error, unit) result" where
  "validate_shadow_candidates candidates hot warm cold age_min =
     (if candidates = [] then Err (DamosInvalid ''cumulative counters cannot replace candidate evidence'')
      else check_candidates hot warm cold age_min candidates)"

record tried_regions_lifecycle =
  trl_stale_clear_ns :: u128
  trl_arm_ns :: u128
  trl_observed_interval_start_ns :: u128
  trl_read_ns :: u128
  trl_final_clear_ns :: u128

definition lifecycle_valid :: "tried_regions_lifecycle \<Rightarrow> bool" where
  "lifecycle_valid l \<longleftrightarrow> trl_stale_clear_ns l \<le> trl_arm_ns l \<and> trl_arm_ns l \<le> trl_observed_interval_start_ns l \<and>
     trl_observed_interval_start_ns l < trl_read_ns l \<and> trl_read_ns l \<le> trl_final_clear_ns l"

subsection \<open>Residency of the zones\<close>

record pagemap_page_state =
  pps_present :: bool
  pps_swapped :: bool

definition parse_pagemap_entry :: "u64 \<Rightarrow> pagemap_page_state" where
  "parse_pagemap_entry entry = \<lparr> pps_present = bit entry 63, pps_swapped = bit entry 62 \<rparr>"

record range_residency_snapshot =
  rrs_range_start :: u64
  rrs_range_end :: u64
  rrs_range_size_bytes :: u64
  rrs_page_size :: u64
  rrs_total_pages :: u64
  rrs_present_pages :: u64
  rrs_present_bytes :: u64
  rrs_swapped_pages :: u64
  rrs_swapped_bytes :: u64
  rrs_not_present_not_swapped_pages :: u64
  rrs_read_errors :: u64
  rrs_timestamp_ns :: u128
  rrs_source :: string

definition snapshot_validate :: "range_residency_snapshot \<Rightarrow> (damos_error, unit) result" where
  "snapshot_validate s =
     (if rrs_range_start s \<ge> rrs_range_end s \<or> rrs_page_size s = 0 \<or>
         rrs_range_size_bytes s \<noteq> rrs_range_end s - rrs_range_start s \<or>
         rrs_total_pages s \<noteq> rrs_range_size_bytes s div rrs_page_size s \<or>
         rrs_present_pages s + rrs_swapped_pages s + rrs_not_present_not_swapped_pages s \<noteq> rrs_total_pages s \<or>
         rrs_present_bytes s \<noteq> rrs_present_pages s * rrs_page_size s \<or>
         rrs_swapped_bytes s \<noteq> rrs_swapped_pages s * rrs_page_size s \<or>
         rrs_read_errors s \<noteq> 0 \<or> rrs_source s \<noteq> ''proc_pagemap''
      then Err (DamosInvalid ''invalid exact-range pagemap snapshot'') else Ok ())"

record zone_range_evidence =
  zre_before :: range_residency_snapshot
  zre_after_pageout :: range_residency_snapshot
  zre_after_refault :: "range_residency_snapshot option"

record range_reclaim_evidence =
  rre_hot :: zone_range_evidence
  rre_warm :: zone_range_evidence
  rre_cold :: zone_range_evidence

record vma_reclaim_evidence =
  vre_containing_vma_start :: u64
  vre_containing_vma_end :: u64
  vre_containing_vma_shared :: bool
  vre_rss_before :: u64
  vre_rss_after_pageout :: u64
  vre_pss_before :: u64
  vre_pss_after_pageout :: u64
  vre_swap_before :: u64
  vre_swap_after_pageout :: u64

definition range_reclaim_observed :: "range_residency_snapshot \<Rightarrow> range_residency_snapshot \<Rightarrow> bool" where
  "range_reclaim_observed before after \<longleftrightarrow>
     rrs_present_bytes after < rrs_present_bytes before \<or> rrs_swapped_bytes after > rrs_swapped_bytes before"

definition range_not_reclaimed ::
  "range_residency_snapshot \<Rightarrow> range_residency_snapshot \<Rightarrow> damos_before_apply_event list \<Rightarrow> address_range \<Rightarrow> bool" where
  "range_not_reclaimed before after candidates rng \<longleftrightarrow>
     list_all (\<lambda>c. overlap (be_range c) rng = 0) candidates \<and>
     rrs_present_bytes after \<ge> rrs_present_bytes before \<and> rrs_swapped_bytes after \<le> rrs_swapped_bytes before"

record reclaim_evidence =
  rev_stats :: damos_stats
  rev_vma :: vma_reclaim_evidence
  rev_ranges :: range_reclaim_evidence

definition reclaim_observed :: "reclaim_evidence \<Rightarrow> bool" where
  "reclaim_observed e \<longleftrightarrow> unwrap_or 0 (ds_sz_applied (rev_stats e)) > 0 \<and>
     range_reclaim_observed (zre_before (rre_cold (rev_ranges e))) (zre_after_pageout (rre_cold (rev_ranges e)))"

subsection \<open>Refaults and the blacklist\<close>

record refault_evidence =
  rf_action_id :: string
  rf_target_key :: string
  rf_region_signature :: string
  rf_applied_bytes :: u64
  rf_action_timestamp_ns :: u128
  rf_first_access_timestamp_ns :: "u128 option"
  rf_rss_or_swap_evidence :: bool
  rf_content_valid :: bool

datatype refault_state = NotEvaluated | NotObserved | RefaultObserved

definition refault_early :: "refault_evidence \<Rightarrow> u128 \<Rightarrow> bool" where
  "refault_early e window_ns \<longleftrightarrow> rf_applied_bytes e > 0 \<and> rf_content_valid e \<and>
     is_some_and (\<lambda>t. t \<ge> rf_action_timestamp_ns e \<and> t - rf_action_timestamp_ns e \<le> window_ns) (rf_first_access_timestamp_ns e) \<and>
     rf_rss_or_swap_evidence e"

definition refault_state_of :: "refault_evidence \<Rightarrow> bool \<Rightarrow> u128 \<Rightarrow> refault_state" where
  "refault_state_of e successful_reclaim window_ns = (if \<not> successful_reclaim then NotEvaluated
     else if refault_early e window_ns then RefaultObserved else NotObserved)"

record blacklist_record =
  bl_key :: string
  bl_reason :: string
  bl_created_at_ns :: u128
  bl_expires_at_ns :: u128
  bl_source_action_id :: string
  bl_evidence :: refault_evidence

definition blacklist_active :: "blacklist_record \<Rightarrow> u128 \<Rightarrow> bool" where
  "blacklist_active b now_ns \<longleftrightarrow> bl_created_at_ns b \<le> now_ns \<and> now_ns < bl_expires_at_ns b"

definition blacklist_for_refault :: "refault_evidence \<Rightarrow> bool \<Rightarrow> u128 \<Rightarrow> u128 \<Rightarrow> u128 \<Rightarrow> blacklist_record option" where
  "blacklist_for_refault e successful_reclaim created_at_ns expires_at_ns refault_window_ns =
     (if refault_state_of e successful_reclaim refault_window_ns = RefaultObserved
      then Some \<lparr> bl_key = rf_target_key e @ '':'' @ rf_region_signature e, bl_reason = ''early_refault_blacklist'',
                  bl_created_at_ns = created_at_ns, bl_expires_at_ns = expires_at_ns,
                  bl_source_action_id = rf_action_id e, bl_evidence = e \<rparr>
      else None)"

subsection \<open>Sessions and recovery\<close>

record owned_session =
  os_session_id :: string
  os_target :: stable_target_identity
  os_kdamond_index :: u32
  os_scheme_id :: u32
  os_state_on :: bool
  os_interrupted :: bool

datatype transaction_stage =
  DecisionRecorded | KdamondAllocated | SchemeAllocated | SchemeConfigured | StateOn | FirstPageout | BeforeStop | Cleanup

record recovery_outcome =
  ro_stopped_owned_kdamond :: bool
  ro_removed_owned_scheme :: bool
  ro_external_untouched :: bool
  ro_pageout_not_undone :: bool
  ro_recorded_interrupted :: bool

definition simulated_crash_recovery :: "transaction_stage \<Rightarrow> recovery_outcome" where
  "simulated_crash_recovery stage = \<lparr> ro_stopped_owned_kdamond = (stage \<in> {StateOn, FirstPageout, BeforeStop, Cleanup}),
     ro_removed_owned_scheme = (stage \<noteq> DecisionRecorded), ro_external_untouched = True, ro_pageout_not_undone = True,
     ro_recorded_interrupted = True \<rparr>"

definition recover_owned :: "string \<Rightarrow> (damos_error, owned_session, bool) eff" where
  "recover_owned expected_prefix s =
     (if \<not> starts_with (os_session_id s) expected_prefix \<or> \<not> sti_owned (os_target s)
      then (Err (DamosInvalid ''refusing recovery of non-owned session''), s)
      else (Ok (os_state_on s \<or> os_interrupted s), s\<lparr> os_state_on := False, os_interrupted := False \<rparr>))"

record damos_report =
  drp_schema :: string
  drp_capability :: damos_capability
  drp_plan :: "damos_plan option"
  drp_shadow_stats :: "damos_stats option"
  drp_live_stats :: "damos_stats option"
  drp_reclaim :: "reclaim_evidence option"
  drp_refault :: "refault_evidence option"
  drp_refault_state :: refault_state
  drp_blacklist :: "blacklist_record option"
  drp_cleanup :: bool
  drp_recovery :: bool
  drp_recovery_idempotent :: bool
  drp_host_unchanged :: bool
  drp_dry_run :: bool
  drp_blocked_reasons :: "string list"

subsection \<open>Who may be reclaimed\<close>

interpretation damos_gate: reason_gate eligibility_checks ed_reasons "\<lambda>d. ed_disposition d = DispEligible" evaluate_eligibility
  by unfold_locales (auto simp: evaluate_eligibility_def Let_def)

lemma takeWhile_rev_suffix:
  assumes "k \<le> length (takeWhile P (rev xs))"
  shows "k \<le> length xs \<and> (\<forall>x \<in> set (drop (length xs - k) xs). P x)"
proof -
  have "length (takeWhile P (rev xs)) \<le> length (rev xs)" by (rule length_takeWhile_le)
  then have l: "k \<le> length xs" using assms by simp
  have "take k (rev xs) = take k (takeWhile P (rev xs))"
    using assms by (metis takeWhile_eq_take take_take min.absorb1)
  moreover have "drop (length xs - k) xs = rev (take k (rev xs))" using l by (simp add: take_rev)
  ultimately show ?thesis using l by (auto dest!: in_set_takeD set_takeWhileD)
qed

text \<open>Eligible targets are expendable: an eligible process is an owned, freshly identified background
  process, not the init process, neither foreground, gaming, critical nor protected; memory
  pressure is at least Pressure and not subsiding; the last three observations are all
  complete and free of accesses; and there is neither a refault nor a conflict on record.
  Conversely a process failing one of these is rejected with a reason.\<close>

theorem damos_eligible_iff:
  "ed_disposition (evaluate_eligibility i) = DispEligible \<longleftrightarrow>
    (\<exists>t. ei_identity i = Some t \<and> sti_owned t \<and> sti_pid t \<noteq> 1 \<and> sti_stable_key t \<noteq> []) \<and>
    ei_identity_fresh i \<and> ei_known_classification i \<and> ei_background i \<and> \<not> ei_foreground i \<and> \<not> ei_gaming i \<and>
    \<not> ei_critical i \<and> \<not> ei_protected i \<and> ei_pressure i \<in> {Pressure, Critical, Emergency} \<and>
    3 \<le> length (ei_cold_observations i) \<and>
    list_all (\<lambda>c. co_complete c \<and> co_nr_accesses c = 0)
      (drop (length (ei_cold_observations i) - 3) (ei_cold_observations i)) \<and>
    ei_valid_age_evidence i \<and> \<not> ei_recent_refault i \<and> \<not> ei_blacklisted i \<and> \<not> ei_safety_conflict i"
proof -
  let ?os = "ei_cold_observations i" and ?P = "\<lambda>c. co_complete c \<and> co_nr_accesses c = 0"
  have cold: "\<not> consecutive_cold ?os < 3 \<longleftrightarrow> 3 \<le> length ?os \<and> list_all ?P (drop (length ?os - 3) ?os)"
  proof
    assume "\<not> consecutive_cold ?os < 3"
    then have "3 \<le> length (takeWhile ?P (rev ?os))" by (simp add: consecutive_cold_def not_less)
    from takeWhile_rev_suffix [OF this] show "3 \<le> length ?os \<and> list_all ?P (drop (length ?os - 3) ?os)"
      unfolding list_all_iff .
  next
    assume a: "3 \<le> length ?os \<and> list_all ?P (drop (length ?os - 3) ?os)"
    then have "\<forall>x \<in> set (take 3 (rev ?os)). ?P x" by (simp add: take_rev list_all_iff)
    then have "takeWhile ?P (rev ?os) = take 3 (rev ?os) @ takeWhile ?P (drop 3 (rev ?os))"
      using takeWhile_append2 [of "take 3 (rev ?os)" ?P "drop 3 (rev ?os)"] by simp
    then have "3 \<le> length (takeWhile ?P (rev ?os))" using a by simp
    then show "\<not> consecutive_cold ?os < 3" by (simp add: consecutive_cold_def)
  qed
  have p: "ei_pressure i \<notin> {Normal, Watch, Stabilizing} \<longleftrightarrow> ei_pressure i \<in> {Pressure, Critical, Emergency}"
    by (cases "ei_pressure i") auto
  have "ed_disposition (evaluate_eligibility i) = DispEligible \<longleftrightarrow> (\<forall>(b, r) \<in> set (eligibility_checks i). \<not> b)"
    by (rule damos_gate.allowed_iff_no_check)
  also have "\<dots> \<longleftrightarrow> stable_identity_ok (ei_identity i) \<and> ei_identity_fresh i \<and> ei_known_classification i \<and> ei_background i \<and>
      \<not> ei_foreground i \<and> \<not> ei_gaming i \<and> \<not> ei_critical i \<and> \<not> ei_protected i \<and>
      ei_pressure i \<notin> {Normal, Watch, Stabilizing} \<and> \<not> consecutive_cold ?os < 3 \<and> ei_valid_age_evidence i \<and>
      \<not> ei_recent_refault i \<and> \<not> ei_blacklisted i \<and> \<not> ei_safety_conflict i"
    unfolding eligibility_checks_def by simp
  finally show ?thesis unfolding cold p stable_identity_ok_def
    by (cases "ei_identity i") auto
qed

subsection \<open>What may be reclaimed\<close>

lemma check_candidates_Ok_iff:
  "check_candidates hot warm cold age_min cs = Ok () \<longleftrightarrow>
    (\<forall>c \<in> set cs. be_context_idx c = 0 \<and> be_scheme_idx c = 0 \<and> be_target_idx c = 0 \<and>
       ar_start cold \<le> ar_start (be_range c) \<and> ar_end (be_range c) \<le> ar_end cold \<and>
       overlap (be_range c) hot = 0 \<and> overlap (be_range c) warm = 0 \<and> be_nr_accesses c = 0 \<and> age_min \<le> be_age c)"
  by (induction hot warm cold age_min cs rule: check_candidates.induct) (auto simp: not_less)

text \<open>C22. Reclaim stays inside the fence: when the candidates of a shadow run are accepted and the fence is
  valid for the cold zone, every address of every candidate passes the fence and none lies in
  the hot or the warm zone; all candidates are events of the owned scheme, untouched and old
  enough.\<close>

theorem damos_candidates_fenced:
  assumes "validate_shadow_candidates cs hot warm cold age_min = Ok ()" and "fence_validate f cold = Ok ()"
    and "c \<in> set cs" and "a \<in> addresses (be_range c)"
  shows "fence_allows f a \<and> a \<notin> addresses hot \<union> addresses warm \<and> be_scheme_idx c = 0 \<and> be_nr_accesses c = 0 \<and> age_min \<le> be_age c"
proof -
  have c: "be_scheme_idx c = 0 \<and> ar_start cold \<le> ar_start (be_range c) \<and> ar_end (be_range c) \<le> ar_end cold \<and>
      overlap (be_range c) hot = 0 \<and> overlap (be_range c) warm = 0 \<and> be_nr_accesses c = 0 \<and> age_min \<le> be_age c"
    using assms(1,3) by (auto simp: validate_shadow_candidates_def check_candidates_Ok_iff split: if_splits)
  have f: "af_range f = cold" using assms(2) by (simp add: fence_validate_def Let_def split: if_splits)
  have "ar_start cold \<le> a" "a < ar_end cold"
    using c assms(4) by (auto simp: addresses_def)
  moreover have "a \<notin> addresses hot \<union> addresses warm" using c assms(4) by (auto simp: overlap_zero_iff)
  ultimately show ?thesis using c f assms(2) by (simp add: fence_allows_def)
qed

definition example_event_at :: "u64 \<Rightarrow> u64 \<Rightarrow> damos_before_apply_event" where
  "example_event_at a b = \<lparr> be_timestamp_ns = 1, be_context_idx = 0, be_scheme_idx = 0, be_target_idx = 0, be_nr_regions = 1,
     be_range = \<lparr> ar_start = a, ar_end = b \<rparr>, be_size = b - a, be_nr_accesses = 0, be_age = 5 \<rparr>"

definition example_fence :: address_fence where
  "example_fence = \<lparr> af_range = example_range 60, af_layer = ''core'', af_filter_type = ''addr'', af_api = MatchingAllow,
     af_matching = True, af_allow = Some True \<rparr>"

theorem damos_candidates_fenced_witness:
  "validate_shadow_candidates [example_event_at 62 66] (example_range 20) (example_range 40) (example_range 60) 3 = Ok () \<and>
   fence_allows example_fence 64 \<and> 64 \<notin> addresses (example_range 20) \<union> addresses (example_range 40)"
proof -
  have v: "validate_shadow_candidates [example_event_at 62 66] (example_range 20) (example_range 40) (example_range 60) 3 = Ok ()"
    by (simp add: validate_shadow_candidates_def example_event_at_def example_range_def overlap_def sat_sub_def)
  have f: "fence_validate example_fence (example_range 60) = Ok ()"
    by (simp add: fence_validate_def example_fence_def)
  have a: "64 \<in> addresses (be_range (example_event_at 62 66))" by (simp add: example_event_at_def addresses_def)
  from damos_candidates_fenced [OF v f _ a] v show ?thesis by simp
qed

subsection \<open>Refaults\<close>

text \<open>An early refault blocks the target: exactly when a reclaim that succeeded is followed, within the
  window, by an access to valid contents with residency evidence, a blacklist record is made;
  while the record is active, a target looked up in it is not eligible.\<close>

theorem damos_refault_blocks:
  assumes "blacklist_for_refault e reclaimed created expires window = r"
  shows "(r \<noteq> None \<longleftrightarrow> reclaimed \<and> refault_early e window) \<and>
    (\<forall>b i. r = Some b \<longrightarrow> bl_evidence b = e \<and>
       (\<forall>now. blacklist_active b now \<longleftrightarrow> created \<le> now \<and> now < expires) \<and>
       (\<forall>now. created \<le> now \<and> now < expires \<longrightarrow> ei_blacklisted i = blacklist_active b now \<longrightarrow>
          ed_disposition (evaluate_eligibility i) = DispRejected \<and>
          ''early_refault_blacklist'' \<in> set (ed_reasons (evaluate_eligibility i))))"
proof -
  have reject: "ed_disposition (evaluate_eligibility i) = DispRejected \<and>
      ''early_refault_blacklist'' \<in> set (ed_reasons (evaluate_eligibility i))" if "ei_blacklisted i" for i
  proof -
    have c: "(True, ''early_refault_blacklist'') \<in> set (eligibility_checks i)"
      using that by (simp add: eligibility_checks_def)
    from damos_gate.check_blocks [OF c] damos_gate.check_reported [of "''early_refault_blacklist''" i] c
    show ?thesis by (simp add: evaluate_eligibility_def Let_def split: if_splits)
  qed
  show ?thesis using assms reject
    by (auto simp: blacklist_for_refault_def refault_state_of_def blacklist_active_def split: if_splits)
qed

definition example_refault :: refault_evidence where
  "example_refault = \<lparr> rf_action_id = ''a'', rf_target_key = ''k'', rf_region_signature = ''s'', rf_applied_bytes = 4096,
     rf_action_timestamp_ns = 10, rf_first_access_timestamp_ns = Some 12, rf_rss_or_swap_evidence = True, rf_content_valid = True \<rparr>"

theorem damos_refault_blocks_witness:
  "\<exists>b. blacklist_for_refault example_refault True 20 30 5 = Some b \<and> blacklist_active b 25"
proof -
  obtain b where b: "blacklist_for_refault example_refault True 20 30 5 = Some b"
    by (simp add: blacklist_for_refault_def refault_state_of_def refault_early_def example_refault_def)
  from damos_refault_blocks [OF b] b show ?thesis by simp
qed

end
