(* ===== verification/Ksm.thy ===== *)
theory Ksm
  imports Damon_Trace Policy
begin

text \<open>
  Selective merging of identical pages with KSM (\<open>ksm/src/lib.rs\<close>): the capability and metrics read
  from sysfs and procfs, profiles and eligibility, the protocol of a validation run, scanner
  plans, the profit of a run and the controller that judges it, the scanner backend with its
  simulated implementation, ownership-checked recovery, and the inspection of processes that
  use KSM already. The verification of the mergeable scope from \<open>smaps\<close> is in \<open>Ksm_Scope\<close>.
\<close>

definition KSM_RULE_VERSION :: string where
  "KSM_RULE_VERSION = ''selective-ksm-v1''"

definition REPORT_SCHEMA :: string where
  "REPORT_SCHEMA = ''nemor-ksm-report-v1''"

definition PAGE_SIZE :: u64 where
  "PAGE_SIZE = 4096"

definition VALIDATION_MIN_SAVED_BYTES :: u64 where
  "VALIDATION_MIN_SAVED_BYTES = 8 * 1024 * 1024"

datatype ksm_error = KsmUnsupported string | KsmUnsafe string | KsmInvalid string | KsmIo string

subsection \<open>CPU windows\<close>

record cpu_window_measurement =
  cwm_window_seconds :: f64
  cwm_cpu_tick_delta :: u64
  cwm_cpu_seconds_delta :: f64
  cwm_cpu_percent :: f64
  cwm_measurement_resolution_percent :: f64
  cwm_resolution_valid :: bool
  cwm_budget_exceeded :: "bool option"

definition minimum_cpu_budget_window_seconds :: "u64 \<Rightarrow> f64 option" where
  "minimum_cpu_budget_window_seconds clk_tck =
     (if clk_tck > 0 then Some (f64_div (Fin 100) (f64_mul (f64_of_u64 clk_tck) (Fin (1 / 4)))) else None)"

definition measure_cpu_window :: "u64 \<Rightarrow> f64 \<Rightarrow> u64 \<Rightarrow> cpu_window_measurement option" where
  "measure_cpu_window tick_delta window_seconds clk_tck =
     (if clk_tck = 0 \<or> \<not> is_finite window_seconds \<or> f64_le window_seconds (Fin 0) then None
      else (let cpu_tick_seconds = f64_div (Fin 1) (f64_of_u64 clk_tck);
                cpu_seconds_delta = f64_mul (f64_of_u64 tick_delta) cpu_tick_seconds;
                cpu_percent = f64_mul (f64_div cpu_seconds_delta window_seconds) (Fin 100);
                resolution = f64_div (f64_mul (Fin 100) cpu_tick_seconds) window_seconds;
                resolution_valid = f64_le resolution (Fin (1 / 4))
            in Some \<lparr> cwm_window_seconds = window_seconds, cwm_cpu_tick_delta = tick_delta,
                      cwm_cpu_seconds_delta = cpu_seconds_delta, cwm_cpu_percent = cpu_percent,
                      cwm_measurement_resolution_percent = resolution, cwm_resolution_valid = resolution_valid,
                      cwm_budget_exceeded = (if resolution_valid then Some (f64_gt cpu_percent (Fin 1)) else None) \<rparr>))"

subsection \<open>Capability and system metrics\<close>

record ksm_capability =
  kc_supported :: bool
  kc_sysfs_available :: bool
  kc_sysfs_readable :: bool
  kc_sysfs_writable :: bool
  kc_run_supported :: bool
  kc_scanner_fields :: "(string \<times> bool) list"
  kc_advisor_fields :: "(string \<times> bool) list"
  kc_metric_fields :: "(string \<times> bool) list"
  kc_process_ksm_stat_available :: bool
  kc_madv_mergeable_supported :: "bool option"
  kc_madv_unmergeable_supported :: "bool option"
  kc_prctl_memory_merge_supported :: "bool option"
  kc_existing_run_state :: "u8 option"
  kc_existing_external_mergeable_processes :: nat
  kc_existing_pages_shared :: "u64 option"
  kc_existing_pages_sharing :: "u64 option"
  kc_external_live_ksm_activity :: bool
  kc_residual_global_ksm_accounting :: bool
  kc_external_ksm_activity :: bool
  kc_notes :: "string list"

definition read_optional_u64 :: "host_tree \<Rightarrow> string \<Rightarrow> string \<Rightarrow> u64 option" where
  "read_optional_u64 H base name = (case hf_read_to_string H (path_join base name) of
      Inl _ \<Rightarrow> None | Inr t \<Rightarrow> parse_u64 (trim t))"

definition bracketed :: "string \<Rightarrow> string option" where
  "bracketed item = Option.bind (strip_prefix ''['' item) (strip_suffix '']'')"

definition current_selection :: "string \<Rightarrow> string" where
  "current_selection v = (case List.map_filter bracketed (split_whitespace v) of [] \<Rightarrow> trim v | s # _ \<Rightarrow> s)"

definition ksm_effective_uid :: "host_tree \<Rightarrow> u32 option" where
  "ksm_effective_uid H = (case hf_read_to_string H ''/proc/self/status'' of
      Inl _ \<Rightarrow> None
    | Inr text \<Rightarrow> (case List.map_filter (strip_prefix ''Uid:'') (lines text) of
         [] \<Rightarrow> None
       | l # _ \<Rightarrow> Option.bind (token_after (split_whitespace l) 1) parse_u32))"

definition path_writable_by_current_user :: "host_tree \<Rightarrow> string \<Rightarrow> bool" where
  "path_writable_by_current_user H path = (case (hf_metadata H path, ksm_effective_uid H) of
      (Some (owner, mode), Some uid) \<Rightarrow> uid = 0 \<or> (uid = owner \<and> bit mode 7) \<or> bit mode 1
    | _ \<Rightarrow> False)"

definition u8_try_from :: "u64 \<Rightarrow> u8 option" where
  "u8_try_from v = (if unat v < 256 then Some (ucast v) else None)"

definition dir_names :: "host_tree \<Rightarrow> string \<Rightarrow> string list" where
  "dir_names H path = (case hf_read_dir H path of
      Inl _ \<Rightarrow> [] | Inr entries \<Rightarrow> List.map_filter (\<lambda>e. case e of Inl _ \<Rightarrow> None | Inr n \<Rightarrow> Some n) entries)"

definition inspect_capability :: "host_tree \<Rightarrow> string \<Rightarrow> bool \<Rightarrow> ksm_capability" where
  "inspect_capability H base process_stat_available =
     (let fields = dir_names H base;
          present = (\<lambda>name. name \<in> set fields);
          run = Option.bind (read_optional_u64 H base ''run'') u8_try_from;
          pages_shared = read_optional_u64 H base ''pages_shared'';
          pages_sharing = read_optional_u64 H base ''pages_sharing'';
          listed = map (\<lambda>name. (name, present name))
      in \<lparr> kc_supported = (is_dir H base \<and> present ''run''), kc_sysfs_available = is_dir H base,
           kc_sysfs_readable = (ht_is_file H (path_join base ''run'') \<and>
              (case hf_read_to_string H (path_join base ''run'') of Inl _ \<Rightarrow> False | Inr _ \<Rightarrow> True)),
           kc_sysfs_writable = path_writable_by_current_user H (path_join base ''run''),
           kc_run_supported = present ''run'',
           kc_scanner_fields = listed [''pages_to_scan'', ''sleep_millisecs'', ''smart_scan''],
           kc_advisor_fields = listed [''advisor_max_cpu'', ''advisor_max_pages_to_scan'', ''advisor_min_pages_to_scan'',
              ''advisor_mode'', ''advisor_target_scan_time''],
           kc_metric_fields = listed [''full_scans'', ''general_profit'', ''ksm_zero_pages'', ''pages_scanned'', ''pages_shared'',
              ''pages_sharing'', ''pages_skipped'', ''pages_unshared'', ''pages_volatile'', ''stable_node_chains'', ''stable_node_dups''],
           kc_process_ksm_stat_available = process_stat_available,
           kc_madv_mergeable_supported = None, kc_madv_unmergeable_supported = None, kc_prctl_memory_merge_supported = None,
           kc_existing_run_state = run, kc_existing_external_mergeable_processes = 0,
           kc_existing_pages_shared = pages_shared, kc_existing_pages_sharing = pages_sharing,
           kc_external_live_ksm_activity = False,
           kc_residual_global_ksm_accounting = (run = Some 0 \<and> (unwrap_or 0 pages_shared > 0 \<or> unwrap_or 0 pages_sharing > 0)),
           kc_external_ksm_activity = (run \<noteq> Some 0), kc_notes = [] \<rparr>)"

record ksm_system_metrics =
  ksys_timestamp_ns :: u128
  ksys_run :: "u64 option"
  ksys_pages_to_scan :: "u64 option"
  ksys_sleep_millisecs :: "u64 option"
  ksys_pages_scanned :: "u64 option"
  ksys_pages_shared :: "u64 option"
  ksys_pages_sharing :: "u64 option"
  ksys_pages_unshared :: "u64 option"
  ksys_pages_volatile :: "u64 option"
  ksys_pages_skipped :: "u64 option"
  ksys_full_scans :: "u64 option"
  ksys_ksm_zero_pages :: "u64 option"
  ksys_general_profit :: "i64 option"
  ksys_stable_node_chains :: "u64 option"
  ksys_stable_node_dups :: "u64 option"
  ksys_cow_ksm :: "u64 option"
  ksys_ksm_swpin_copy :: "u64 option"
  ksys_ksmd_cpu_ticks :: "u64 option"

definition vmstat_ksm_row :: "string \<Rightarrow> (string \<times> u64) option" where
  "vmstat_ksm_row line = (let fields = split_whitespace line in
     Option.bind (token_after fields 0) (\<lambda>key.
     if key \<in> {''cow_ksm'', ''ksm_swpin_copy''}
     then Option.bind (token_after fields 1) (\<lambda>v. map_option (\<lambda>n. (key, n)) (parse_u64 v)) else None))"

definition parse_vmstat_ksm :: "string \<Rightarrow> (string \<rightharpoonup> u64)" where
  "parse_vmstat_ksm text = map_of (rev (List.map_filter vmstat_ksm_row (lines text)))"

definition parse_system_metrics :: "host_tree \<Rightarrow> string \<Rightarrow> string \<Rightarrow> u128 \<Rightarrow> ksm_system_metrics" where
  "parse_system_metrics H base vmstat timestamp_ns =
     (let vm = parse_vmstat_ksm vmstat; value = read_optional_u64 H base in
      \<lparr> ksys_timestamp_ns = timestamp_ns, ksys_run = value ''run'', ksys_pages_to_scan = value ''pages_to_scan'',
        ksys_sleep_millisecs = value ''sleep_millisecs'', ksys_pages_scanned = value ''pages_scanned'',
        ksys_pages_shared = value ''pages_shared'', ksys_pages_sharing = value ''pages_sharing'',
        ksys_pages_unshared = value ''pages_unshared'', ksys_pages_volatile = value ''pages_volatile'',
        ksys_pages_skipped = value ''pages_skipped'', ksys_full_scans = value ''full_scans'',
        ksys_ksm_zero_pages = value ''ksm_zero_pages'',
        ksys_general_profit = (case hf_read_to_string H (path_join base ''general_profit'') of
           Inl _ \<Rightarrow> None | Inr t \<Rightarrow> parse_sint 64 (trim t)),
        ksys_stable_node_chains = value ''stable_node_chains'', ksys_stable_node_dups = value ''stable_node_dups'',
        ksys_cow_ksm = vm ''cow_ksm'', ksys_ksm_swpin_copy = vm ''ksm_swpin_copy'', ksys_ksmd_cpu_ticks = None \<rparr>)"

subsection \<open>Processes\<close>

record stable_process_identity =
  spi_pid :: u32
  spi_start_ticks :: u64
  spi_stable_key :: string

definition owned_validation_identity :: "string \<Rightarrow> u32 \<Rightarrow> u64 \<Rightarrow> stable_process_identity" where
  "owned_validation_identity session_id pid start_ticks = \<lparr> spi_pid = pid, spi_start_ticks = start_ticks,
     spi_stable_key = ''nemor-owned:'' @ session_id @ '':'' @ show_nat (unat pid) @ '':'' @ show_nat (unat start_ticks) \<rparr>"

datatype ksm_profile_kind = KVm | KBrowser | KElectron | KSynthetic | KUnknown

record ksm_process_metrics =
  kpm_identity :: stable_process_identity
  kpm_profile :: "ksm_profile_kind option"
  kpm_ksm_rmap_items :: "u64 option"
  kpm_ksm_zero_pages :: "u64 option"
  kpm_ksm_merging_pages :: "u64 option"
  kpm_ksm_process_profit :: "i64 option"
  kpm_ksm_merge_any :: "bool option"
  kpm_ksm_mergeable :: "bool option"
  kpm_current_mapped_ksm_bytes :: "u64 option"
  kpm_residual_accounting :: bool
  kpm_rss_bytes :: "u64 option"
  kpm_pss_bytes :: "u64 option"

text \<open>The sum of the \<open>KSM:\<close> lines; a malformed one makes the whole absent, and so does none at all.\<close>

fun smaps_ksm_lines :: "string list \<Rightarrow> u64 option \<Rightarrow> u64 option" where
  "smaps_ksm_lines [] acc = acc"
| "smaps_ksm_lines (l # ls) acc = (case strip_prefix ''KSM:'' l of
      None \<Rightarrow> smaps_ksm_lines ls acc
    | Some v \<Rightarrow> (case Option.bind (first_word v) parse_u64 of
         None \<Rightarrow> None
       | Some kib \<Rightarrow> smaps_ksm_lines ls (Some (sat_add (unwrap_or 0 acc) (sat_mul kib 1024)))))"

definition parse_smaps_ksm_bytes :: "string \<Rightarrow> u64 option" where
  "parse_smaps_ksm_bytes text = smaps_ksm_lines (lines text) None"

definition parse_yes_no :: "string \<Rightarrow> bool option" where
  "parse_yes_no v = (if trim v \<in> {''yes'', ''1'', ''Y''} then Some True
     else if trim v \<in> {''no'', ''0'', ''N''} then Some False else None)"

definition ksm_stat_row :: "(string \<rightharpoonup> string) \<Rightarrow> string \<Rightarrow> (string \<rightharpoonup> string)" where
  "ksm_stat_row vs line = (case split_whitespace (map (\<lambda>c. if c = CHR '':'' then CHR '' '' else c) line) of
      key # v # _ \<Rightarrow> vs(key \<mapsto> v) | _ \<Rightarrow> vs)"

definition parse_process_ksm_stat :: "string \<Rightarrow> stable_process_identity \<Rightarrow> ksm_process_metrics" where
  "parse_process_ksm_stat text identity =
     (let vs = foldl ksm_stat_row Map.empty (lines text);
          number = (\<lambda>key. Option.bind (vs key) parse_u64);
          flag = (\<lambda>key. Option.bind (vs key) parse_yes_no)
      in \<lparr> kpm_identity = identity, kpm_profile = None, kpm_ksm_rmap_items = number ''ksm_rmap_items'',
           kpm_ksm_zero_pages = number ''ksm_zero_pages'', kpm_ksm_merging_pages = number ''ksm_merging_pages'',
           kpm_ksm_process_profit = Option.bind (vs ''ksm_process_profit'') (parse_sint 64),
           kpm_ksm_merge_any = flag ''ksm_merge_any'', kpm_ksm_mergeable = flag ''ksm_mergeable'',
           kpm_current_mapped_ksm_bytes = None, kpm_residual_accounting = False, kpm_rss_bytes = None, kpm_pss_bytes = None \<rparr>)"

datatype process_ksm_activity = LiveExternal | ResidualAccounting | Inactive

definition classify_process_ksm_activity :: "ksm_process_metrics \<Rightarrow> process_ksm_activity" where
  "classify_process_ksm_activity m =
     (if kpm_ksm_mergeable m = Some True \<or> kpm_ksm_merge_any m = Some True \<or> unwrap_or 0 (kpm_current_mapped_ksm_bytes m) > 0
      then LiveExternal
      else if unwrap_or 0 (kpm_ksm_merging_pages m) > 0 then ResidualAccounting else Inactive)"

definition exact_owned_tuple :: "(u32 \<rightharpoonup> u64 option) \<Rightarrow> u32 \<Rightarrow> u64 option \<Rightarrow> bool" where
  "exact_owned_tuple excluded pid start_ticks = (case (Option.bind (excluded pid) id, start_ticks) of
      (Some expected, Some actual) \<Rightarrow> expected = actual | _ \<Rightarrow> False)"

text \<open>The text after the last closing parenthesis of \<open>stat\<close>; field 19 of it is the start time.\<close>

definition after_last_paren :: "string \<Rightarrow> string option" where
  "after_last_paren s = (if CHR '')'' \<in> set s then Some (rev (takeWhile (\<lambda>c. c \<noteq> CHR '')'') (rev s))) else None)"

definition proc_start_ticks_from_root :: "host_tree \<Rightarrow> string \<Rightarrow> u32 \<Rightarrow> u64 option" where
  "proc_start_ticks_from_root H proc_root pid =
     (case hf_read_to_string H (path_join (path_join proc_root (show_nat (unat pid))) ''stat'') of
        Inl _ \<Rightarrow> None
      | Inr stat \<Rightarrow> Option.bind (after_last_paren stat) (\<lambda>rest.
          Option.bind (token_after (split_whitespace rest) 19) parse_u64))"

record external_ksm_inspection =
  eki_live_consumers :: "ksm_process_metrics list"
  eki_residual_processes :: "ksm_process_metrics list"
  eki_inspected_processes :: u64

definition ksm_read :: "host_tree \<Rightarrow> string \<Rightarrow> (ksm_error, string option) result" where
  "ksm_read H path = (case hf_read_to_string H path of
      Inr t \<Rightarrow> Ok (Some t)
    | Inl e \<Rightarrow> if io_kind e = NotFound then Ok None else Err (KsmIo (''read '' @ path @ '': '' @ io_text e)))"

definition inspect_process ::
  "host_tree \<Rightarrow> string \<Rightarrow> (u32 \<rightharpoonup> u64 option) \<Rightarrow> external_ksm_inspection \<Rightarrow> string \<Rightarrow> (ksm_error, external_ksm_inspection) result" where
  "inspect_process H proc_root excluded ins name =
     (case parse_u32 name of None \<Rightarrow> Ok ins
      | Some pid \<Rightarrow>
         (let start_ticks = proc_start_ticks_from_root H proc_root pid; dir = path_join proc_root name in
          if exact_owned_tuple excluded pid start_ticks then Ok ins
          else
            rbind (ksm_read H (path_join dir ''ksm_stat'')) (\<lambda>stat_text.
            rbind (ksm_read H (path_join dir ''smaps'')) (\<lambda>smaps_text.
            case smaps_text of None \<Rightarrow> Ok ins
            | Some smaps \<Rightarrow>
               if smaps = [] then Ok ins
               else (let m = (parse_process_ksm_stat (unwrap_or [] stat_text)
                          \<lparr> spi_pid = pid, spi_start_ticks = unwrap_or 0 start_ticks, spi_stable_key = ''redacted'' \<rparr>)
                            \<lparr> kpm_current_mapped_ksm_bytes := parse_smaps_ksm_bytes smaps \<rparr>;
                         ins1 = ins\<lparr> eki_inspected_processes := sat_add (eki_inspected_processes ins) 1 \<rparr>
                     in Ok (case classify_process_ksm_activity m of
                          LiveExternal \<Rightarrow> ins1\<lparr> eki_live_consumers := eki_live_consumers ins1 @ [m] \<rparr>
                        | ResidualAccounting \<Rightarrow> ins1\<lparr> eki_residual_processes := eki_residual_processes ins1 @
                            [m\<lparr> kpm_residual_accounting := True \<rparr>] \<rparr>
                        | Inactive \<Rightarrow> ins1))))))"

fun inspect_processes ::
  "host_tree \<Rightarrow> string \<Rightarrow> (u32 \<rightharpoonup> u64 option) \<Rightarrow> external_ksm_inspection \<Rightarrow> string list \<Rightarrow> (ksm_error, external_ksm_inspection) result" where
  "inspect_processes H proc_root excluded ins [] = Ok ins"
| "inspect_processes H proc_root excluded ins (n # ns) =
     rbind (inspect_process H proc_root excluded ins n) (\<lambda>ins'. inspect_processes H proc_root excluded ins' ns)"

definition inspect_external_ksm_processes_owned ::
  "host_tree \<Rightarrow> string \<Rightarrow> (u32 \<rightharpoonup> u64 option) \<Rightarrow> (ksm_error, external_ksm_inspection) result" where
  "inspect_external_ksm_processes_owned H proc_root excluded = (case hf_read_dir H proc_root of
      Inl _ \<Rightarrow> Err (KsmIo (''cannot enumerate '' @ proc_root))
    | Inr _ \<Rightarrow> inspect_processes H proc_root excluded
        \<lparr> eki_live_consumers = [], eki_residual_processes = [], eki_inspected_processes = 0 \<rparr> (take 4096 (dir_names H proc_root)))"

definition external_mergeable_processes_owned :: "host_tree \<Rightarrow> string \<Rightarrow> (u32 \<rightharpoonup> u64 option) \<Rightarrow> ksm_process_metrics list" where
  "external_mergeable_processes_owned H proc_root excluded =
     (case inspect_external_ksm_processes_owned H proc_root excluded of Inl _ \<Rightarrow> [] | Inr i \<Rightarrow> eki_live_consumers i)"

definition external_mergeable_processes :: "host_tree \<Rightarrow> string \<Rightarrow> u32 set \<Rightarrow> ksm_process_metrics list" where
  "external_mergeable_processes H proc_root excluded =
     external_mergeable_processes_owned H proc_root (\<lambda>pid. if pid \<in> excluded then Some None else None)"

subsection \<open>Profiles and eligibility\<close>

record ksm_profile =
  kp_kind :: ksm_profile_kind
  kp_expected_sharing_suitability :: u8
  kp_foreground_sensitive :: bool
  kp_gaming_sensitive :: bool
  kp_minimum_stable_observations :: u32
  kp_minimum_mergeable_bytes :: u64
  kp_maximum_scanner_cpu_percent :: f64
  kp_minimum_positive_profit_bytes :: i64
  kp_maximum_cow_events_per_second :: u64
  kp_inefficiency_windows :: u32
  kp_cooldown_seconds :: u64

definition ksm_profile_of :: "ksm_profile_kind \<Rightarrow> ksm_profile" where
  "ksm_profile_of kind = \<lparr> kp_kind = kind,
     kp_expected_sharing_suitability = (case kind of KVm \<Rightarrow> 70 | KBrowser \<Rightarrow> 35 | KElectron \<Rightarrow> 45 | KSynthetic \<Rightarrow> 100 | KUnknown \<Rightarrow> 0),
     kp_foreground_sensitive = True, kp_gaming_sensitive = True, kp_minimum_stable_observations = 3,
     kp_minimum_mergeable_bytes = 32 * 1024 * 1024, kp_maximum_scanner_cpu_percent = Fin 1,
     kp_minimum_positive_profit_bytes = 4096, kp_maximum_cow_events_per_second = 64, kp_inefficiency_windows = 3,
     kp_cooldown_seconds = 300 \<rparr>"

record ksm_eligibility_input =
  ki_identity :: "stable_process_identity option"
  ki_identity_fresh :: bool
  ki_profile :: ksm_profile_kind
  ki_already_mergeable :: bool
  ki_owned_cooperative :: bool
  ki_foreground :: bool
  ki_gaming :: bool
  ki_critical :: bool
  ki_protected :: bool
  ki_same_security_domain :: bool
  ki_pressure :: pressure_state
  ki_stable_observations :: u32
  ki_mergeable_bytes :: u64
  ki_profit_bytes :: "i64 option"
  ki_cow_events_per_second :: "u64 option"
  ki_cpu_percent :: "f64 option"
  ki_cooldown_active :: bool
  ki_external_ksm_activity :: bool

datatype ksm_disposition = KsmEligible | KsmRejected | KsmDispUnsupported

record ksm_eligibility_decision =
  kd_disposition :: ksm_disposition
  kd_reasons :: "string list"
  kd_rule_version :: string

definition ksm_eligibility_checks :: "ksm_eligibility_input \<times> ksm_profile \<Rightarrow> (bool \<times> string) list" where
  "ksm_eligibility_checks x = (case x of (i, bounds) \<Rightarrow>
     [(ki_profile i = KUnknown, ''unknown_profile''),
      (ki_identity i = None, ''unknown_identity''),
      (ki_identity i \<noteq> None \<and> \<not> ki_identity_fresh i, ''stale_identity''),
      (ki_foreground i, ''foreground_protected''),
      (ki_gaming i, ''gaming_protected''),
      (ki_critical i \<or> ki_protected i, ''critical_process''),
      (\<not> ki_same_security_domain i, ''external_security_domain''),
      (\<not> ki_already_mergeable i \<and> \<not> ki_owned_cooperative i, ''cooperation_required''),
      (ki_external_ksm_activity i, ''external_ksm_activity''),
      (ki_stable_observations i < kp_minimum_stable_observations bounds, ''insufficient_observation''),
      (ki_mergeable_bytes i < kp_minimum_mergeable_bytes bounds, ''ksm_not_mergeable''),
      (ki_pressure i \<in> {Critical, Emergency, Stabilizing}, ''global_state_not_safe''),
      (ki_cooldown_active i, ''cooldown_active''),
      (is_some_and (\<lambda>profit. profit \<le> 0) (ki_profit_bytes i), ''profit_not_positive''),
      (is_some_and (\<lambda>r. r > kp_maximum_cow_events_per_second bounds) (ki_cow_events_per_second i), ''cow_rate_excessive''),
      (is_some_and (\<lambda>cpu. f64_gt cpu (kp_maximum_scanner_cpu_percent bounds)) (ki_cpu_percent i), ''cpu_budget_exceeded'')])"

definition ksm_evaluate_eligibility :: "ksm_eligibility_input \<Rightarrow> ksm_profile \<Rightarrow> ksm_eligibility_decision" where
  "ksm_evaluate_eligibility i bounds = (let reasons = fired (ksm_eligibility_checks (i, bounds)) in
     \<lparr> kd_disposition = (if reasons = [] then KsmEligible else KsmRejected), kd_reasons = reasons,
       kd_rule_version = KSM_RULE_VERSION \<rparr>)"

subsection \<open>The validation protocol\<close>

datatype validation_protocol_state =
  ReadyUnmergeable | Audited | DuplicateMergeable | ScannerRunning | ScannerStopped | Unmerged

record validation_protocol =
  vp_state :: validation_protocol_state
  vp_decision_id :: "string option"
  vp_plan_id :: "string option"
  vp_transaction_id :: "string option"

definition validation_protocol_default :: validation_protocol where
  "validation_protocol_default = \<lparr> vp_state = ReadyUnmergeable, vp_decision_id = None, vp_plan_id = None, vp_transaction_id = None \<rparr>"

type_synonym 'a protocol_op = "(ksm_error, validation_protocol, 'a) eff"

definition record_audit :: "string \<Rightarrow> string \<Rightarrow> string \<Rightarrow> unit protocol_op" where
  "record_audit decision_id plan_id transaction_id v =
     (if vp_state v \<noteq> ReadyUnmergeable \<or> decision_id = [] \<or> plan_id = [] \<or> transaction_id = []
      then (Err (KsmUnsafe ''audit_missing''), v)
      else (Ok (), v\<lparr> vp_decision_id := Some decision_id, vp_plan_id := Some plan_id,
                      vp_transaction_id := Some transaction_id, vp_state := Audited \<rparr>))"

definition opt_in_duplicate :: "unit protocol_op" where
  "opt_in_duplicate v =
     (if vp_state v \<noteq> Audited \<or> vp_decision_id v = None \<or> vp_plan_id v = None \<or> vp_transaction_id v = None
      then (Err (KsmUnsafe ''audit_missing''), v) else (Ok (), v\<lparr> vp_state := DuplicateMergeable \<rparr>))"

definition scanner_started :: "unit protocol_op" where
  "scanner_started v = (if vp_state v \<noteq> DuplicateMergeable then (Err (KsmUnsafe ''mergeable_scope_invalid''), v)
     else (Ok (), v\<lparr> vp_state := ScannerRunning \<rparr>))"

definition scanner_stopped :: "unit protocol_op" where
  "scanner_stopped v = (if vp_state v \<noteq> ScannerRunning then (Err (KsmUnsafe ''scanner_ownership_lost''), v)
     else (Ok (), v\<lparr> vp_state := ScannerStopped \<rparr>))"

definition protocol_unmerged :: "unit protocol_op" where
  "protocol_unmerged v = (if vp_state v \<noteq> ScannerStopped then (Err (KsmUnsafe ''cleanup_failure''), v)
     else (Ok (), v\<lparr> vp_state := Unmerged \<rparr>))"

subsection \<open>Scanner plans and the profit of a run\<close>

datatype advisor_mode = AdvFixed | AdvScanTime | AdvUnknown

record scanner_plan =
  sp_mode :: advisor_mode
  sp_pages_to_scan :: u64
  sp_sleep_millisecs :: u64
  sp_owned_validation_only :: bool
  sp_blocked_reasons :: "string list"

definition plan_scanner :: "string \<Rightarrow> u64 \<Rightarrow> u64 \<Rightarrow> u64 \<Rightarrow> u64 \<Rightarrow> u64 \<Rightarrow> (ksm_error, scanner_plan) result" where
  "plan_scanner mode_text requested_pages requested_sleep min_pages max_pages min_sleep =
     (let sel = current_selection mode_text;
          mode = (if sel = ''none'' then AdvFixed else if sel = ''scan-time'' then AdvScanTime else AdvUnknown)
      in if requested_pages < min_pages \<or> requested_pages > max_pages \<or> requested_sleep < min_sleep
         then Err (KsmUnsafe ''scanner bounds'')
         else Ok \<lparr> sp_mode = mode, sp_pages_to_scan = requested_pages, sp_sleep_millisecs = requested_sleep,
                   sp_owned_validation_only = True,
                   sp_blocked_reasons = (if mode \<noteq> AdvFixed then [''advisor_mode_not_fixed''] else []) \<rparr>)"

record ksm_snapshot =
  ks_run :: u8
  ks_pages_to_scan :: u64
  ks_sleep_millisecs :: u64
  ks_preserve_only :: "(string \<times> string) list"

definition plan_attempt_one_scanner :: "string \<Rightarrow> ksm_snapshot \<Rightarrow> u64 \<Rightarrow> u64 \<Rightarrow> u64 \<Rightarrow> (ksm_error, scanner_plan) result" where
  "plan_attempt_one_scanner advisor_text baseline min_pages max_pages min_sleep =
     plan_scanner advisor_text (ks_pages_to_scan baseline) (ks_sleep_millisecs baseline) min_pages max_pages min_sleep"

record validation_profit_gate =
  vpg_saved_bytes :: u64
  vpg_pages_scanned_delta :: u64
  vpg_full_scans_delta :: u64
  vpg_system_profit_delta :: i64
  vpg_processes_positive :: bool
  vpg_passed :: bool
  vpg_reasons :: "string list"

definition validation_profit_gate_of :: "u64 \<Rightarrow> u64 \<Rightarrow> u64 \<Rightarrow> i64 \<Rightarrow> bool \<Rightarrow> validation_profit_gate" where
  "validation_profit_gate_of saved_bytes pages_scanned_delta full_scans_delta system_profit_delta processes_positive =
     (let reasons = fired
        [(saved_bytes < VALIDATION_MIN_SAVED_BYTES, ''insufficient_saved_bytes''),
         (pages_scanned_delta = 0 \<or> full_scans_delta = 0, ''scanner_no_progress''),
         (system_profit_delta \<le> 0, ''non_positive_system_profit''),
         (\<not> processes_positive, ''non_positive_process_profit'')]
      in \<lparr> vpg_saved_bytes = saved_bytes, vpg_pages_scanned_delta = pages_scanned_delta, vpg_full_scans_delta = full_scans_delta,
           vpg_system_profit_delta = system_profit_delta, vpg_processes_positive = processes_positive,
           vpg_passed = (reasons = []), vpg_reasons = reasons \<rparr>)"

definition attempt_one_global_state_owned :: "ksm_snapshot \<Rightarrow> ksm_snapshot \<Rightarrow> string option \<Rightarrow> bool" where
  "attempt_one_global_state_owned baseline current advisor_selected \<longleftrightarrow>
     ks_run current = 1 \<and> ks_pages_to_scan current = ks_pages_to_scan baseline \<and>
     ks_sleep_millisecs current = ks_sleep_millisecs baseline \<and> advisor_selected = Some ''none'' \<and>
     ks_preserve_only current = ks_preserve_only baseline"

datatype unmerge_disposition = MadviseOwnedRange | TerminateOwnedChild

definition choose_unmerge_disposition :: "u64 \<Rightarrow> u64 \<Rightarrow> unmerge_disposition" where
  "choose_unmerge_disposition mem_available_bytes required_headroom_bytes =
     (if mem_available_bytes \<ge> required_headroom_bytes then MadviseOwnedRange else TerminateOwnedChild)"

datatype live_safety_decision = Continue | StopOwnedScannerAndFail

definition evaluate_live_safety :: "nat \<Rightarrow> bool \<Rightarrow> live_safety_decision" where
  "evaluate_live_safety external_processes global_state_owned =
     (if external_processes > 0 \<or> \<not> global_state_owned then StopOwnedScannerAndFail else Continue)"

definition content_fingerprints_intact :: "u64 \<Rightarrow> u64 \<Rightarrow> u64 \<Rightarrow> u64 \<Rightarrow> bool" where
  "content_fingerprints_intact initial_duplicate final_duplicate initial_control final_control \<longleftrightarrow>
     initial_duplicate = final_duplicate \<and> initial_control = final_control"

record profit_sample =
  psm_wall_seconds :: f64
  psm_ksmd_cpu_seconds :: f64
  psm_pages_scanned_delta :: u64
  psm_saved_bytes :: u64
  psm_process_profit_bytes :: "i64 option"
  psm_system_profit_bytes :: "i64 option"

record profit_evaluation =
  pev_ksmd_mean_cpu_percent :: f64
  pev_ksmd_cpu_seconds_per_gib_saved :: "f64 option"
  pev_pages_scanned_per_saved_page :: "f64 option"
  pev_net_positive :: bool

definition evaluate_profit :: "profit_sample \<Rightarrow> u64 \<Rightarrow> profit_evaluation" where
  "evaluate_profit sample meaningful_saved_bytes =
     (let saved_pages = psm_saved_bytes sample div PAGE_SIZE in
      \<lparr> pev_ksmd_mean_cpu_percent = (if f64_gt (psm_wall_seconds sample) (Fin 0)
           then f64_mul (f64_div (psm_ksmd_cpu_seconds sample) (psm_wall_seconds sample)) (Fin 100) else Fin 0),
        pev_ksmd_cpu_seconds_per_gib_saved = (if psm_saved_bytes sample \<ge> meaningful_saved_bytes \<and> psm_saved_bytes sample > 0
           then Some (f64_div (psm_ksmd_cpu_seconds sample) (f64_div (f64_of_u64 (psm_saved_bytes sample)) (Fin (2 ^ 30)))) else None),
        pev_pages_scanned_per_saved_page = (if saved_pages > 0
           then Some (f64_div (f64_of_u64 (psm_pages_scanned_delta sample)) (f64_of_u64 saved_pages)) else None),
        pev_net_positive = (psm_saved_bytes sample \<ge> meaningful_saved_bytes \<and>
           is_none_or (\<lambda>p. p > 0) (psm_process_profit_bytes sample) \<and> is_none_or (\<lambda>p. p > 0) (psm_system_profit_bytes sample)) \<rparr>)"

datatype controller_state = CtlUnknown | CtlEvaluating | CtlProfitable | CtlInefficient | CtlCooldown

record controller_input =
  ci_elapsed_seconds :: u64
  ci_full_scans :: u64
  ci_evaluation :: profit_evaluation
  ci_cpu_budget_percent :: f64
  ci_cow_rate :: u64
  ci_maximum_cow_rate :: u64
  ci_cooldown_active :: bool

definition controller_transition :: "controller_state \<Rightarrow> controller_input \<Rightarrow> controller_state" where
  "controller_transition state i =
     (if ci_cooldown_active i then CtlCooldown
      else case state of
        CtlUnknown \<Rightarrow> CtlEvaluating
      | CtlEvaluating \<Rightarrow>
          if ci_elapsed_seconds i < 2 \<or> ci_full_scans i = 0 then CtlEvaluating
          else if f64_gt (pev_ksmd_mean_cpu_percent (ci_evaluation i)) (ci_cpu_budget_percent i) \<or>
              ci_cow_rate i > ci_maximum_cow_rate i \<or> \<not> pev_net_positive (ci_evaluation i) then CtlInefficient
          else CtlProfitable
      | other \<Rightarrow> other)"

subsection \<open>The scanner backend and recovery\<close>

datatype scanner_ownership = ScanExternal | NemorOwnedValidation | NotRunning | ScanUnknown

record ksm_transaction =
  kt_transaction_id :: string
  kt_decision_id :: string
  kt_plan_id :: string
  kt_ownership :: scanner_ownership
  kt_baseline :: ksm_snapshot
  kt_child_identities :: "stable_process_identity list"
  kt_scanner_started :: bool
  kt_recovered :: bool

record 'b ksm_backend =
  kb_snapshot :: "'b \<Rightarrow> (ksm_error, ksm_snapshot) result"
  kb_set_run :: "u8 \<Rightarrow> (ksm_error, 'b, unit) eff"
  kb_set_scanner :: "u64 \<Rightarrow> u64 \<Rightarrow> (ksm_error, 'b, unit) eff"
  kb_restore :: "ksm_snapshot \<Rightarrow> (ksm_error, 'b, unit) eff"
  kb_mutations :: "'b \<Rightarrow> u64"

record simulated_backend =
  sb_current :: ksm_snapshot
  sb_mutation_count :: u64
  sb_fail_after :: "u64 option"

definition sb_mutate :: "(ksm_error, simulated_backend, unit) eff" where
  "sb_mutate b = (if sb_fail_after b = Some (sb_mutation_count b) then (Err (KsmIo ''injected failure''), b)
     else (Ok (), b\<lparr> sb_mutation_count := sb_mutation_count b + 1 \<rparr>))"

definition sb_set_run :: "u8 \<Rightarrow> (ksm_error, simulated_backend, unit) eff" where
  "sb_set_run v = (if v = 2 then throw (KsmUnsafe ''run=2 is globally forbidden'')
     else bindA sb_mutate (\<lambda>_ b. (Ok (), b\<lparr> sb_current := (sb_current b)\<lparr> ks_run := v \<rparr> \<rparr>)))"

definition sb_set_scanner :: "u64 \<Rightarrow> u64 \<Rightarrow> (ksm_error, simulated_backend, unit) eff" where
  "sb_set_scanner pages sleep_ms = bindA sb_mutate (\<lambda>_ b.
     (Ok (), b\<lparr> sb_current := (sb_current b)\<lparr> ks_pages_to_scan := pages, ks_sleep_millisecs := sleep_ms \<rparr> \<rparr>))"

definition sb_restore :: "ksm_snapshot \<Rightarrow> (ksm_error, simulated_backend, unit) eff" where
  "sb_restore snap = bindA (sb_set_run 0) (\<lambda>_.
     bindA (sb_set_scanner (ks_pages_to_scan snap) (ks_sleep_millisecs snap)) (\<lambda>_. sb_set_run (ks_run snap)))"

definition simulated_ksm_backend :: "simulated_backend ksm_backend" where
  "simulated_ksm_backend = \<lparr> kb_snapshot = \<lambda>b. Ok (sb_current b), kb_set_run = sb_set_run, kb_set_scanner = sb_set_scanner,
     kb_restore = sb_restore, kb_mutations = sb_mutation_count \<rparr>"

definition ksm_recover_owned :: "'b ksm_backend \<Rightarrow> (ksm_error, 'b \<times> ksm_transaction, bool) eff" where
  "ksm_recover_owned B = bindA (s_get id) (\<lambda>t.
     if kt_recovered t then ret False
     else if kt_ownership t \<noteq> NemorOwnedValidation \<or> \<not> starts_with (kt_transaction_id t) ''nemor-validation-''
     then throw (KsmUnsafe ''uncertain recovery ownership'')
     else bindA (b_op (kb_restore B (kt_baseline t))) (\<lambda>_.
          bindA (s_modify (\<lambda>t. t\<lparr> kt_scanner_started := False, kt_recovered := True \<rparr>)) (\<lambda>_. ret True)))"

definition write_run_value :: "'b ksm_backend \<Rightarrow> u8 \<Rightarrow> (ksm_error, 'b, unit) eff" where
  "write_run_value B v = (if v = 2 then throw (KsmUnsafe ''run=2 is globally forbidden'') else kb_set_run B v)"

subsection \<open>Reports and snapshots\<close>

record ksm_report =
  kr_schema :: string
  kr_capability :: ksm_capability
  kr_system :: ksm_system_metrics
  kr_processes :: "ksm_process_metrics list"
  kr_profiles :: "ksm_profile list"
  kr_plan :: "ksm_eligibility_decision option"
  kr_profit :: "profit_evaluation option"
  kr_controller :: controller_state
  kr_dry_run :: bool
  kr_notes :: "string list"

definition ksm_inspect_linux :: "host_tree \<Rightarrow> string \<Rightarrow> string \<Rightarrow> u128 \<Rightarrow> ksm_report" where
  "ksm_inspect_linux H base proc_root timestamp_ns =
     (let process_available = list_ex (\<lambda>n. ht_is_file H (path_join (path_join proc_root n) ''ksm_stat'')) (dir_names H proc_root);
          processes = external_mergeable_processes H proc_root {};
          live = (processes \<noteq> []);
          cap0 = inspect_capability H base process_available;
          cap = cap0\<lparr> kc_existing_external_mergeable_processes := length processes, kc_external_live_ksm_activity := live,
                     kc_external_ksm_activity := (kc_external_ksm_activity cap0 \<or> live) \<rparr>;
          vmstat = (case hf_read_to_string H (path_join proc_root ''vmstat'') of Inl _ \<Rightarrow> [] | Inr t \<Rightarrow> t)
      in \<lparr> kr_schema = REPORT_SCHEMA, kr_capability = cap, kr_system = parse_system_metrics H base vmstat timestamp_ns,
           kr_processes = processes, kr_profiles = map ksm_profile_of [KVm, KBrowser, KElectron], kr_plan = None,
           kr_profit = None, kr_controller = CtlUnknown, kr_dry_run = True,
           kr_notes = [''external processes are observe/plan-only; cooperation is required'', ''run=2 is forbidden''] \<rparr>)"

definition read_advisor_mode :: "host_tree \<Rightarrow> string \<Rightarrow> string option" where
  "read_advisor_mode H base = (case hf_read_to_string H (path_join base ''advisor_mode'') of
      Inl _ \<Rightarrow> None | Inr t \<Rightarrow> Some (current_selection t))"

definition snapshot_from_root :: "host_tree \<Rightarrow> string \<Rightarrow> (ksm_error, ksm_snapshot) result" where
  "snapshot_from_root H base =
     (let required = (\<lambda>name. ok_or (KsmUnsupported (''missing '' @ name)) (read_optional_u64 H base name)) in
      rbind (required ''run'') (\<lambda>run64.
      rbind (ok_or (KsmInvalid ''run overflow'') (u8_try_from run64)) (\<lambda>run.
      if run > 1 then Err (KsmUnsafe ''baseline run=2 is unsupported'')
      else
        rbind (required ''pages_to_scan'') (\<lambda>pages.
        rbind (required ''sleep_millisecs'') (\<lambda>sleep.
          Ok \<lparr> ks_run = run, ks_pages_to_scan = pages, ks_sleep_millisecs = sleep,
               ks_preserve_only = List.map_filter (\<lambda>name. case hf_read_to_string H (path_join base name) of
                   Inl _ \<Rightarrow> None | Inr t \<Rightarrow> Some (name, trim t))
                 [''advisor_mode'', ''max_page_sharing'', ''merge_across_nodes'', ''smart_scan'',
                  ''stable_node_chains_prune_millisecs'', ''use_zero_pages''] \<rparr>)))))"

end
