(* ===== verification/Paths.thy ===== *)
theory Paths
  imports Host
begin

text \<open>
  \<open>std::path::Path\<close> on Unix: the components of a path, and the operations the tiering crate builds
  on them. Two paths are equal, and equal as keys of a set, when their components are, so
  repeated slashes, interior dots and a trailing slash do not count.
\<close>

datatype path_component = RootDir | CurDir | ParentDir | NormalPart string

definition component_of :: "string \<Rightarrow> path_component" where
  "component_of c = (if c = ''..'' then ParentDir else NormalPart c)"

definition path_components :: "string \<Rightarrow> path_component list" where
  "path_components p = (let parts = split_on CHR ''/'' p;
       body = map component_of (filter (\<lambda>c. c \<noteq> [] \<and> c \<noteq> ''.'') parts)
     in if starts_with p ''/'' then RootDir # body else if hd parts = ''.'' then CurDir # body else body)"

definition path_eq :: "string \<Rightarrow> string \<Rightarrow> bool" where
  "path_eq p q \<longleftrightarrow> path_components p = path_components q"

abbreviation is_absolute :: "string \<Rightarrow> bool" where
  "is_absolute p \<equiv> starts_with p ''/''"

text \<open>\<open>Path::starts_with\<close> compares whole components.\<close>

definition path_starts_with :: "string \<Rightarrow> string \<Rightarrow> bool" where
  "path_starts_with p q \<longleftrightarrow> take (length (path_components q)) (path_components p) = path_components q"

text \<open>\<open>Path::file_name\<close> and \<open>Path::parent\<close>, the latter as the components of the parent.\<close>

definition path_file_name :: "string \<Rightarrow> string option" where
  "path_file_name p = (case rev (path_components p) of NormalPart n # _ \<Rightarrow> Some n | _ \<Rightarrow> None)"

definition path_parent :: "string \<Rightarrow> path_component list option" where
  "path_parent p = (case rev (path_components p) of [] \<Rightarrow> None | RootDir # _ \<Rightarrow> None | _ # r \<Rightarrow> Some (rev r))"

lemma split_on_cat: "split_on c (s @ c # t) = split_on c s @ split_on c t"
proof (induction s)
  case (Cons x s)
  then show ?case by (cases "split_on c s") (auto simp: Cons_eq_append_conv)
qed simp

lemma starts_with_append: "starts_with p q \<Longrightarrow> starts_with (p @ r) q"
  by (auto simp: starts_with_iff)

text \<open>The components of a relative path of plain names are these names; joined below an absolute
  directory they follow the components of the directory.\<close>

definition plain_name :: "string \<Rightarrow> bool" where
  "plain_name n \<longleftrightarrow> n \<noteq> [] \<and> n \<noteq> ''.'' \<and> n \<noteq> ''..'' \<and> CHR ''/'' \<notin> set n"

lemma absolute_components: "path_components p = RootDir # cs \<Longrightarrow> starts_with p ''/''"
  by (auto simp: path_components_def component_of_def Let_def Cons_eq_map_conv split: if_splits)

lemma path_components_append:
  assumes "starts_with base ''/''" and "ns \<noteq> []" and "\<forall>n \<in> set ns. plain_name n"
  shows "path_components (base @ CHR ''/'' # join ''/'' ns) = path_components base @ map NormalPart ns"
proof -
  have "split_on CHR ''/'' (base @ CHR ''/'' # join ''/'' ns) = split_on CHR ''/'' base @ ns"
    using assms(2,3) by (simp add: split_on_cat split_on_join plain_name_def)
  moreover have "filter (\<lambda>c. c \<noteq> [] \<and> c \<noteq> ''.'') ns = ns" using assms(3) by (simp add: plain_name_def filter_id_conv)
  moreover have "map component_of ns = map NormalPart ns" using assms(3) by (simp add: plain_name_def component_of_def)
  ultimately show ?thesis using assms(1)
    by (simp add: path_components_def starts_with_append Let_def)
qed

lemma components_join:
  assumes "starts_with base ''/''" and "ns \<noteq> []" and "\<forall>n \<in> set ns. plain_name n"
  shows "path_components (path_join base (join ''/'' ns)) = path_components base @ map NormalPart ns"
proof -
  obtain n ms where ns: "ns = n # ms" using assms(2) by (cases ns) auto
  then obtain t where "join ''/'' ns = n @ t" by (cases ms) auto
  moreover have "plain_name n" using assms(3) by (simp add: ns)
  ultimately have rel: "\<not> starts_with (join ''/'' ns) ''/''" by (cases n) (auto simp: starts_with_iff plain_name_def)
  have ne: "base \<noteq> []" using assms(1) by (auto simp: starts_with_iff)
  show ?thesis
  proof (cases "ends_with base ''/''")
    case False
    then show ?thesis using rel ne path_components_append [OF assms] by (simp add: path_join_def)
  next
    case True
    then obtain b where b: "base = b @ ''/''" by (auto simp: ends_with_iff)
    have j: "path_join base (join ''/'' ns) = b @ CHR ''/'' # join ''/'' ns" using rel True by (simp add: path_join_def b)
    show ?thesis
    proof (cases "b = []")
      case True
      have "path_components ''/'' = [RootDir]" by code_simp
      moreover have "split_on CHR ''/'' (CHR ''/'' # join ''/'' ns) = [] # ns"
        using assms(2,3) split_on_join [of ns "CHR ''/''"] by (simp add: plain_name_def)
      moreover have "filter (\<lambda>c. c \<noteq> [] \<and> c \<noteq> ''.'') ns = ns" "map component_of ns = map NormalPart ns"
        using assms(3) by (simp_all add: plain_name_def filter_id_conv component_of_def)
      ultimately show ?thesis using True j b by (simp add: path_components_def starts_with_def)
    next
      case False
      then have "starts_with b ''/''" using assms(1) b by (cases b) (auto simp: starts_with_iff)
      then have "path_components (b @ CHR ''/'' # join ''/'' ns) = path_components b @ map NormalPart ns"
        by (rule path_components_append [OF _ assms(2,3)])
      moreover have "path_components (b @ ''/'') = path_components b" using \<open>starts_with b ''/''\<close> split_on_cat [of "CHR ''/''" b "[]"]
        by (simp add: path_components_def starts_with_append Let_def)
      ultimately show ?thesis using j by (simp add: b)
    qed
  qed
qed

end
