(* ===== verification/Boot_Contract.thy ===== *)
theory Boot_Contract
  imports Paths Gates Policy
begin

text \<open>
  The contract of a boot validation, version 6 (\<open>tiering/src/boot_validation_v6.rs\<close>, first half): the
  identities of host, storage and boot entries, the prepared manifest and its validation, the
  preflight, and the observations made after a boot. SHA-256 and the JSON serialisation are
  foreign code: the fields of \<open>boot_codec\<close>, the digest and one serialiser per type (all total: these
  types have no value that cannot be serialised). Ordered maps are association lists.
\<close>

definition STORAGE_PROFILE_VERSION :: string where
  "STORAGE_PROFILE_VERSION = ''nemor-storage-profile-v1''"

definition TIERING_RULE_VERSION :: string where
  "TIERING_RULE_VERSION = ''tiering-rules-v5-storage-profile-comparison''"

datatype storage_profile = NvmeSsd | SataSsd | SasSsd | UsbSsd | OtherNonRotational | Rotational
  | Composite | Virtual | AmbiguousProfile

definition boot_supported :: "storage_profile \<Rightarrow> bool" where
  "boot_supported p \<longleftrightarrow> p \<in> {NvmeSsd, SataSsd}"

definition BOOT_VALIDATION_CONTRACT_VERSION_V6 :: string where
  "BOOT_VALIDATION_CONTRACT_VERSION_V6 = ''tiering-boot-validation-v6''"

definition PREPARED_MANIFEST_SCHEMA_V6 :: string where
  "PREPARED_MANIFEST_SCHEMA_V6 = ''tiering-boot-prepared-manifest-v6''"

definition DURABLE_TRANSACTION_SCHEMA_V6 :: string where
  "DURABLE_TRANSACTION_SCHEMA_V6 = ''tiering-boot-transaction-v6''"

definition PREFLIGHT_SCHEMA_V6 :: string where
  "PREFLIGHT_SCHEMA_V6 = ''tiering-boot-preflight-v6''"

definition POST_BOOT_EVIDENCE_SCHEMA_V6 :: string where
  "POST_BOOT_EVIDENCE_SCHEMA_V6 = ''tiering-post-boot-evidence-v6''"

definition FINAL_RESTORE_SCHEMA_V6 :: string where
  "FINAL_RESTORE_SCHEMA_V6 = ''tiering-final-restore-evidence-v6''"

definition PROFILE_BENCHMARK_EVIDENCE_V6 :: string where
  "PROFILE_BENCHMARK_EVIDENCE_V6 = ''tiering-profile-benchmark-v6''"

definition ZRAM_BASELINE_EVIDENCE_V6 :: string where
  "ZRAM_BASELINE_EVIDENCE_V6 = ''tiering-zram-baseline-v4''"

definition WORKLOAD_PROTOCOL_V6 :: string where
  "WORKLOAD_PROTOCOL_V6 = ''tiering-bounded-workload-v3''"

definition TRANSACTION_ROOT_V6 :: string where
  "TRANSACTION_ROOT_V6 = ''/var/lib/nemor/validation/phase6''"

definition ENTRY_ROOT :: string where
  "ENTRY_ROOT = ''/boot/loader/entries''"

definition UNIT_ROOT :: string where
  "UNIT_ROOT = ''/etc/systemd/system''"

datatype boot_command = CmdPrepare | CmdUserPreflight | CmdRootPreflight | CmdMeasureBaseline | CmdApply
  | CmdVerifyApplied | CmdSelectOneShot | CmdPostBootValidate | CmdSelectBaselineRollback
  | CmdVerifyFinalRestore | CmdRecover | CmdVerifyIdempotence

definition mutating_command :: "boot_command \<Rightarrow> bool" where
  "mutating_command c \<longleftrightarrow> c \<in> {CmdApply, CmdMeasureBaseline, CmdSelectOneShot, CmdPostBootValidate,
     CmdSelectBaselineRollback, CmdVerifyFinalRestore, CmdRecover}"

definition requires_authenticated_root :: "boot_command \<Rightarrow> bool" where
  "requires_authenticated_root c \<longleftrightarrow> c \<notin> {CmdPrepare, CmdUserPreflight}"

datatype boot_error = BVersion | BIdentity string | BTopology | BPath | BEntry | BSwap | BZswap | BPayload
  | BSudoIdentity | BPreflight string | BTransition | BReadback string | BMeasurement string

definition is_sha256 :: "string \<Rightarrow> bool" where
  "is_sha256 v \<longleftrightarrow> length v = 64 \<and> list_all is_ascii_hexdigit v"

definition is_commit :: "string \<Rightarrow> bool" where
  "is_commit v \<longleftrightarrow> length v = 40 \<and> list_all is_ascii_hexdigit v"

definition id_byte :: "char \<Rightarrow> bool" where
  "id_byte b \<longleftrightarrow> is_ascii_lower b \<or> is_ascii_digit b \<or> b = CHR ''-''"

definition valid_id :: "string \<Rightarrow> bool" where
  "valid_id v \<longleftrightarrow> 8 \<le> length v \<and> length v \<le> 64 \<and> list_all id_byte v"

subsection \<open>Identities\<close>

record binary_identity =
  bi_path :: string
  bi_sha256 :: string
  bi_embedded_commit :: string

record staged_binary_plan =
  sbp_source :: binary_identity
  sbp_destination :: string
  sbp_destination_mode :: u32
  sbp_destination_uid :: u32
  sbp_destination_gid :: u32
  sbp_require_single_link :: bool
  sbp_source_uid :: u32
  sbp_source_gid :: u32
  sbp_source_mode :: u32
  sbp_source_link_count :: u64
  sbp_source_device :: u64
  sbp_source_inode :: u64

record block_layer_identity =
  bl_path :: string
  bl_kind :: string
  bl_major :: u32
  bl_minor :: u32
  bl_parent :: "string option"

record physical_device_identity =
  pd_path :: string
  pd_major :: u32
  pd_minor :: u32
  pd_transport :: string
  pd_rotational :: bool
  pd_model :: string
  pd_serial :: "string option"
  pd_wwn :: "string option"
  pd_capacity_bytes :: u64
  pd_logical_block_size :: u64
  pd_physical_block_size :: u64

record filesystem_identity =
  fi_filesystem :: string
  fi_uuid_or_fsid :: string
  fi_mount_source :: string
  fi_mount_point :: string
  fi_mount_id :: u64
  fi_device_major :: u32
  fi_device_minor :: u32

record topology_identity =
  ti_storage_profile_version :: string
  ti_profile :: storage_profile
  ti_chain :: "block_layer_identity list"
  ti_physical :: physical_device_identity
  ti_filesystem :: filesystem_identity
  ti_composite :: bool
  ti_ambiguous :: bool
  ti_confidence :: string

definition nonempty :: "string option \<Rightarrow> bool" where
  "nonempty v = is_some_and (\<lambda>s. s \<noteq> []) v"

definition transport_ok :: "storage_profile \<Rightarrow> string \<Rightarrow> bool" where
  "transport_ok p t \<longleftrightarrow> (p, t) \<in> {(NvmeSsd, ''nvme''), (SataSsd, ''ata''), (SataSsd, ''sata'')}"

definition topology_validate :: "topology_identity \<Rightarrow> (boot_error, unit) result" where
  "topology_validate t = first_error
     [(ti_storage_profile_version t \<noteq> STORAGE_PROFILE_VERSION \<or> \<not> boot_supported (ti_profile t) \<or>
       ti_chain t = [] \<or> ti_composite t \<or> ti_ambiguous t \<or> pd_rotational (ti_physical t) \<or>
       pd_capacity_bytes (ti_physical t) = 0 \<or> pd_logical_block_size (ti_physical t) = 0 \<or>
       pd_physical_block_size (ti_physical t) = 0 \<or> trim (fi_uuid_or_fsid (ti_filesystem t)) = [] \<or>
       \<not> path_eq (fi_mount_point (ti_filesystem t)) ''/'', BTopology),
      (\<not> (nonempty (pd_serial (ti_physical t)) \<or> nonempty (pd_wwn (ti_physical t))) \<or> ti_confidence t \<noteq> ''high'', BTopology),
      (\<not> transport_ok (ti_profile t) (pd_transport (ti_physical t)) \<or>
       \<not> path_eq (bl_path (last (ti_chain t))) (pd_path (ti_physical t)), BTopology)]"

record swap_identity =
  si_path :: string
  si_kind :: string
  si_size_bytes :: u64
  si_priority :: i32
  si_uuid :: "string option"
  si_active :: bool

record zram_identity =
  zi_device :: string
  zi_provider :: string
  zi_active :: bool
  zi_priority :: i32
  zi_disksize_bytes :: u64
  zi_compressor :: string
  zi_memory_limit_bytes :: u64
  zi_unit :: string

type_synonym zswap_identity = "(string \<times> string) list"

definition ZSWAP_PARAMETERS :: "string list" where
  "ZSWAP_PARAMETERS = [''enabled'', ''compressor'', ''zpool'', ''max_pool_percent'',
     ''accept_threshold_percent'', ''shrinker_enabled'']"

definition zswap_validate :: "zswap_identity \<Rightarrow> (boot_error, unit) result" where
  "zswap_validate z = first_error [(list_ex (\<lambda>k. map_of z k = None) ZSWAP_PARAMETERS, BZswap)]"

record boot_entry_identity =
  en_id :: string
  en_path :: string
  en_sha256 :: string
  en_title :: string
  en_linux_or_efi :: string
  en_initrds :: "string list"
  en_options :: string

record referenced_boot_file =
  rb_path :: string
  rb_sha256 :: string

datatype artifact_kind = Type1Entry | ValidationUnit | HelperBinary

record owned_artifact =
  oa_kind :: artifact_kind
  oa_path :: string
  oa_sha256 :: string
  oa_mode :: u32
  oa_owner_uid :: u32
  oa_owner_gid :: u32
  oa_content :: string

record boot_identity =
  bo_bootloader :: string
  bo_bootloader_version :: string
  bo_current_entry :: boot_entry_identity
  bo_default_entry :: boot_entry_identity
  bo_boot_order :: "string list"
  bo_prior_one_shot :: "string option"
  bo_esp_mount :: string
  bo_esp_device :: string
  bo_esp_filesystem :: string
  bo_esp_uuid :: string
  bo_esp_mount_id :: u64
  bo_esp_device_major :: u32
  bo_esp_device_minor :: u32
  bo_secure_boot :: string
  bo_kernel_release :: string
  bo_referenced_files :: "referenced_boot_file list"
  bo_current_command_line :: string

record workload_contract =
  wc_protocol :: string
  wc_seed :: u64
  wc_bytes :: u64
  wc_iterations :: u32
  wc_timeout_seconds :: u64
  wc_maximum_write_bytes :: u64

record manifest_payload =
  mp_contract_version :: string
  mp_rule_version :: string
  mp_validation_id :: string
  mp_prepared_uid :: u32
  mp_prepared_gid :: u32
  mp_source_commit :: string
  mp_source_state_sha256 :: string
  mp_binaries :: "(string \<times> binary_identity) list"
  mp_config_path :: string
  mp_config_sha256 :: string
  mp_material_environment_sha256 :: string
  mp_topology :: topology_identity
  mp_baseline_swaps :: "swap_identity list"
  mp_protected_zram :: zram_identity
  mp_baseline_zswap :: zswap_identity
  mp_experimental_zswap :: "(string \<times> string) list"
  mp_boot :: boot_identity
  mp_experimental_entry :: boot_entry_identity
  mp_validation_marker :: string
  mp_swapfile :: swap_identity
  mp_owned_artifacts :: "owned_artifact list"
  mp_transaction_root :: string
  mp_workload :: workload_contract
  mp_staged_helper :: staged_binary_plan
  mp_recovery_entry :: string
  mp_production_activation :: bool

record prepared_manifest =
  pm_schema :: string
  pm_payload :: manifest_payload
  pm_payload_sha256 :: string

text \<open>Equality of identities: derived in the source, with paths compared by their components.\<close>

definition same_swap :: "swap_identity \<Rightarrow> swap_identity \<Rightarrow> bool" where
  "same_swap a b \<longleftrightarrow> path_eq (si_path a) (si_path b) \<and> a\<lparr> si_path := [] \<rparr> = b\<lparr> si_path := [] \<rparr>"

definition same_zram :: "zram_identity \<Rightarrow> zram_identity \<Rightarrow> bool" where
  "same_zram a b \<longleftrightarrow> path_eq (zi_device a) (zi_device b) \<and> a\<lparr> zi_device := [] \<rparr> = b\<lparr> zi_device := [] \<rparr>"

definition same_binary :: "binary_identity \<Rightarrow> binary_identity \<Rightarrow> bool" where
  "same_binary a b \<longleftrightarrow> path_eq (bi_path a) (bi_path b) \<and> a\<lparr> bi_path := [] \<rparr> = b\<lparr> bi_path := [] \<rparr>"

definition same_layer :: "block_layer_identity \<Rightarrow> block_layer_identity \<Rightarrow> bool" where
  "same_layer a b \<longleftrightarrow> path_eq (bl_path a) (bl_path b) \<and>
     map_option path_components (bl_parent a) = map_option path_components (bl_parent b) \<and>
     a\<lparr> bl_path := [], bl_parent := None \<rparr> = b\<lparr> bl_path := [], bl_parent := None \<rparr>"

definition same_device :: "physical_device_identity \<Rightarrow> physical_device_identity \<Rightarrow> bool" where
  "same_device a b \<longleftrightarrow> path_eq (pd_path a) (pd_path b) \<and> a\<lparr> pd_path := [] \<rparr> = b\<lparr> pd_path := [] \<rparr>"

definition same_filesystem :: "filesystem_identity \<Rightarrow> filesystem_identity \<Rightarrow> bool" where
  "same_filesystem a b \<longleftrightarrow> path_eq (fi_mount_source a) (fi_mount_source b) \<and> path_eq (fi_mount_point a) (fi_mount_point b) \<and>
     a\<lparr> fi_mount_source := [], fi_mount_point := [] \<rparr> = b\<lparr> fi_mount_source := [], fi_mount_point := [] \<rparr>"

definition same_topology :: "topology_identity \<Rightarrow> topology_identity \<Rightarrow> bool" where
  "same_topology a b \<longleftrightarrow> list_all2 same_layer (ti_chain a) (ti_chain b) \<and> same_device (ti_physical a) (ti_physical b) \<and>
     same_filesystem (ti_filesystem a) (ti_filesystem b) \<and>
     a\<lparr> ti_chain := ti_chain b, ti_physical := ti_physical b, ti_filesystem := ti_filesystem b \<rparr> = b"

subsection \<open>Rendered files\<close>

definition EOL :: string where
  "EOL = [CHR 0x0A]"

definition render_type1_entry_v6 :: "boot_entry_identity \<Rightarrow> string" where
  "render_type1_entry_v6 e = ''title '' @ en_title e @ EOL @ ''linux '' @ en_linux_or_efi e @ EOL @
     concat (map (\<lambda>i. ''initrd '' @ i @ EOL) (en_initrds e)) @ ''options '' @ en_options e @ EOL"

definition render_validation_unit_v6 :: "manifest_payload \<Rightarrow> string \<Rightarrow> string" where
  "render_validation_unit_v6 p validator =
     ''[Unit]'' @ EOL @ ''Description=Nemor Phase 6 validation-only activation'' @ EOL @
     ''ConditionKernelCommandLine='' @ mp_validation_marker p @ EOL @
     ''After=systemd-udev-settle.service dev-zram0.swap'' @ EOL @ EOL @ ''[Service]'' @ EOL @ ''Type=oneshot'' @ EOL @
     ''ExecStart='' @ validator @ '' experimental-activate --validation-id '' @ mp_validation_id p @ EOL @
     ''RemainAfterExit=yes'' @ EOL @ ''NoNewPrivileges=yes'' @ EOL @ ''ProtectSystem=strict'' @ EOL @
     ''ProtectHome=yes'' @ EOL @ ''PrivateTmp=yes'' @ EOL @
     ''ReadWritePaths='' @ mp_transaction_root p @ '' /sys/module/zswap/parameters'' @ EOL @ EOL @
     ''[Install]'' @ EOL @ ''WantedBy=multi-user.target'' @ EOL"

subsection \<open>Validation of a prepared manifest\<close>

definition validate_experimental_zswap :: "(string \<times> string) list \<Rightarrow> (boot_error, unit) result" where
  "validate_experimental_zswap values = first_error
     [(list_ex (\<lambda>k. k \<notin> set ZSWAP_PARAMETERS) (map fst values) \<or> map_of values ''enabled'' \<noteq> Some ''Y'' \<or>
       length values \<noteq> length ZSWAP_PARAMETERS, BZswap)]"

definition find_artifact :: "artifact_kind \<Rightarrow> owned_artifact list \<Rightarrow> owned_artifact option" where
  "find_artifact k as = find (\<lambda>a. oa_kind a = k) as"

definition validate_boot :: "manifest_payload \<Rightarrow> (boot_error, unit) result" where
  "validate_boot p = (let b = mp_boot p; e = mp_experimental_entry p;
       refs = map (\<lambda>r. path_components (rb_path r)) (bo_referenced_files b) in
     rbind (first_error
       [(bo_bootloader b \<noteq> ''systemd-boot-type1'' \<or> bo_secure_boot b \<noteq> ''disabled'' \<or> en_id (bo_current_entry b) = [] \<or>
         en_id (bo_default_entry b) = [] \<or> bo_prior_one_shot b \<noteq> None \<or> \<not> is_sha256 (en_sha256 (bo_current_entry b)) \<or>
         \<not> is_sha256 (en_sha256 (bo_default_entry b)) \<or> en_id e = en_id (bo_current_entry b) \<or>
         en_id e = en_id (bo_default_entry b) \<or>
         \<not> path_eq (en_path e) (path_join ENTRY_ROOT (''nemor-phase6-'' @ mp_validation_id p @ ''.conf'')), BEntry),
        (\<not> path_eq (en_linux_or_efi e) (en_linux_or_efi (bo_current_entry b)) \<or>
         map path_components (en_initrds e) \<noteq> map path_components (en_initrds (bo_current_entry b)) \<or>
         \<not> str_contains (en_options e) (mp_validation_marker p) \<or> \<not> str_contains (en_options e) ''zswap.enabled=1'' \<or>
         \<not> str_contains (en_options e) (''systemd.wants=nemor-phase6-'' @ mp_validation_id p @ ''.service''), BEntry),
        (path_components (en_linux_or_efi e) \<notin> set refs \<or>
         list_ex (\<lambda>v. path_components v \<notin> set refs) (en_initrds e) \<or>
         list_ex (\<lambda>r. \<not> is_sha256 (rb_sha256 r)) (bo_referenced_files b), BEntry)]) (\<lambda>_.
     rbind (ok_or BEntry (find_artifact Type1Entry (mp_owned_artifacts p))) (\<lambda>entry.
     rbind (first_error
       [(oa_content entry \<noteq> render_type1_entry_v6 e, BEntry),
        (oa_sha256 entry \<noteq> en_sha256 e, BEntry)]) (\<lambda>_.
     rbind (ok_or BEntry (find_artifact ValidationUnit (mp_owned_artifacts p))) (\<lambda>unit_artifact.
     rbind (ok_or (BIdentity ''staged helper artifact'') (find_artifact HelperBinary (mp_owned_artifacts p))) (\<lambda>helper.
     first_error
       [(\<not> path_eq (oa_path helper) (sbp_destination (mp_staged_helper p)) \<or>
         oa_sha256 helper \<noteq> bi_sha256 (sbp_source (mp_staged_helper p)) \<or>
         oa_mode helper \<noteq> 493 \<or> oa_content helper \<noteq> [], BIdentity ''staged helper artifact''),
        (oa_content unit_artifact \<noteq> render_validation_unit_v6 p (sbp_destination (mp_staged_helper p)), BEntry)]))))))"

definition validate_swap :: "manifest_payload \<Rightarrow> (boot_error, unit) result" where
  "validate_swap p = (let s = mp_swapfile p in first_error
     [(\<not> path_eq (si_path s) (path_join (mp_transaction_root p) ''backing.swap'') \<or> si_active s \<or> si_uuid s \<noteq> None \<or>
       si_kind s \<noteq> ''file'' \<or> si_size_bytes s < 64 * 1024 * 1024 \<or> si_size_bytes s > 2 * 1024 * 1024 * 1024 \<or>
       si_priority s \<le> zi_priority (mp_protected_zram p) \<or> si_priority s > 32767 \<or>
       \<not> path_eq (zi_device (mp_protected_zram p)) ''/dev/zram0'' \<or> \<not> zi_active (mp_protected_zram p), BSwap)])"

definition owned_path_of :: "manifest_payload \<Rightarrow> artifact_kind \<Rightarrow> string" where
  "owned_path_of p k = (case k of
     Type1Entry \<Rightarrow> en_path (mp_experimental_entry p)
   | ValidationUnit \<Rightarrow> path_join UNIT_ROOT (''nemor-phase6-'' @ mp_validation_id p @ ''.service'')
   | HelperBinary \<Rightarrow> path_join (mp_transaction_root p) ''bin/nemor-tiering-boot-validation'')"

definition validate_owned_path :: "manifest_payload \<Rightarrow> owned_artifact \<Rightarrow> (boot_error, unit) result" where
  "validate_owned_path p a = first_error
     [(\<not> is_absolute (oa_path a) \<or> list_ex (\<lambda>c. c = ParentDir \<or> c = CurDir) (path_components (oa_path a)) \<or>
       path_starts_with (oa_path a) ''/usr/lib'', BPath),
      (\<not> path_eq (oa_path a) (owned_path_of p (oa_kind a)), BPath)]"

text \<open>The digest and the serialisers, foreign code.\<close>

record boot_codec =
  bc_sha256 :: "string \<Rightarrow> string"
  bc_payload :: "manifest_payload \<Rightarrow> string"
  bc_manifest :: "prepared_manifest \<Rightarrow> string"
  bc_topology :: "topology_identity \<Rightarrow> string"
  bc_workload :: "workload_contract \<Rightarrow> string"
  bc_swap :: "swap_identity \<Rightarrow> string"
  bc_entry :: "boot_entry_identity \<Rightarrow> string"
  bc_string :: "string \<Rightarrow> string"

fun validate_artifacts :: "boot_codec \<Rightarrow> manifest_payload \<Rightarrow> path_component list set \<Rightarrow> owned_artifact list \<Rightarrow>
    (boot_error, unit) result" where
  "validate_artifacts C p paths [] = Ok ()"
| "validate_artifacts C p paths (a # as) = rbind (validate_owned_path p a) (\<lambda>_.
     if path_components (oa_path a) \<in> paths \<or> oa_owner_uid a \<noteq> 0 \<or> oa_owner_gid a \<noteq> 0 \<or>
        oa_mode a \<notin> {384, 448, 420, 493} \<or>
        oa_kind a \<noteq> HelperBinary \<and> bc_sha256 C (oa_content a) \<noteq> oa_sha256 a
     then Err (BIdentity ''artifact'')
     else validate_artifacts C p (insert (path_components (oa_path a)) paths) as)"

text \<open>\<open>any\<close> with the insertion into the set of seen paths as a side effect: it stops at the first swap
  that is not active, is the swapfile itself or was seen before.\<close>

fun baseline_swap_rejected :: "string \<Rightarrow> path_component list set \<Rightarrow> swap_identity list \<Rightarrow> bool" where
  "baseline_swap_rejected swapfile seen [] = False"
| "baseline_swap_rejected swapfile seen (s # ss) =
     (\<not> si_active s \<or> path_eq (si_path s) swapfile \<or> path_components (si_path s) \<in> seen \<or>
      baseline_swap_rejected swapfile (insert (path_components (si_path s)) seen) ss)"

definition manifest_seal :: "boot_codec \<Rightarrow> manifest_payload \<Rightarrow> prepared_manifest" where
  "manifest_seal C p = \<lparr> pm_schema = PREPARED_MANIFEST_SCHEMA_V6, pm_payload = p,
     pm_payload_sha256 = bc_sha256 C (bc_payload C p) \<rparr>"

definition identity_checks :: "boot_codec \<Rightarrow> prepared_manifest \<Rightarrow> (bool \<times> boot_error) list" where
  "identity_checks C m = (let p = pm_payload m in
     [(pm_schema m \<noteq> PREPARED_MANIFEST_SCHEMA_V6 \<or> mp_contract_version p \<noteq> BOOT_VALIDATION_CONTRACT_VERSION_V6 \<or>
       mp_rule_version p \<noteq> TIERING_RULE_VERSION, BVersion),
      (bc_sha256 C (bc_payload C p) \<noteq> pm_payload_sha256 m, BPayload),
      (\<not> valid_id (mp_validation_id p) \<or> \<not> is_commit (mp_source_commit p), BIdentity ''source''),
      (mp_validation_marker p \<noteq> ''nemor.phase6_validation='' @ mp_validation_id p \<or> \<not> is_absolute (mp_config_path p),
        BIdentity ''bounded inputs''),
      (\<not> is_sha256 (mp_source_state_sha256 p) \<or> \<not> is_sha256 (mp_config_sha256 p) \<or>
       \<not> is_sha256 (mp_material_environment_sha256 p), BIdentity ''hash''),
      (mp_binaries p = [] \<or> list_ex (\<lambda>(_, b). \<not> is_absolute (bi_path b) \<or> \<not> is_sha256 (bi_sha256 b) \<or>
         bi_embedded_commit b \<noteq> mp_source_commit p) (mp_binaries p), BIdentity ''binary'')])"

definition staged_helper_bad :: "manifest_payload \<Rightarrow> binary_identity \<Rightarrow> bool" where
  "staged_helper_bad p validator \<longleftrightarrow> (let h = mp_staged_helper p in
     \<not> same_binary (sbp_source h) validator \<or>
     \<not> path_eq (sbp_destination h) (path_join (mp_transaction_root p) ''bin/nemor-tiering-boot-validation'') \<or>
     sbp_destination_mode h \<noteq> 493 \<or> sbp_destination_uid h \<noteq> 0 \<or> sbp_destination_gid h \<noteq> 0 \<or>
     \<not> sbp_require_single_link h \<or> sbp_source_link_count h \<noteq> 1 \<or> and (sbp_source_mode h) 18 \<noteq> 0 \<or>
     sbp_source_device h = 0 \<or> sbp_source_inode h = 0)"

definition baseline_swaps_bad :: "manifest_payload \<Rightarrow> bool" where
  "baseline_swaps_bad p \<longleftrightarrow> mp_baseline_swaps p = [] \<or>
     baseline_swap_rejected (si_path (mp_swapfile p)) {} (mp_baseline_swaps p) \<or>
     \<not> list_ex (\<lambda>s. path_eq (si_path s) (zi_device (mp_protected_zram p)) \<and> si_priority s = zi_priority (mp_protected_zram p) \<and>
         si_size_bytes s = zi_disksize_bytes (mp_protected_zram p)) (mp_baseline_swaps p)"

definition manifest_validate :: "boot_codec \<Rightarrow> prepared_manifest \<Rightarrow> (boot_error, unit) result" where
  "manifest_validate C m = (let p = pm_payload m in
     rbind (first_error (identity_checks C m)) (\<lambda>_.
     rbind (ok_or (BIdentity ''validator binary'') (map_of (mp_binaries p) ''nemor-tiering-boot-validation'')) (\<lambda>validator.
     rbind (first_error [(staged_helper_bad p validator, BIdentity ''staged helper'')]) (\<lambda>_.
     rbind (topology_validate (mp_topology p)) (\<lambda>_.
     rbind (zswap_validate (mp_baseline_zswap p)) (\<lambda>_.
     rbind (first_error [(baseline_swaps_bad p, BIdentity ''baseline swaps'')]) (\<lambda>_.
     rbind (validate_experimental_zswap (mp_experimental_zswap p)) (\<lambda>_.
     rbind (first_error [(list_ex (\<lambda>n. map_of (mp_experimental_zswap p) n \<noteq> map_of (mp_baseline_zswap p) n)
         [''compressor'', ''zpool'', ''max_pool_percent'', ''accept_threshold_percent'', ''shrinker_enabled''], BZswap)]) (\<lambda>_.
     rbind (validate_boot p) (\<lambda>_.
     rbind (validate_swap p) (\<lambda>_.
     rbind (first_error [(mp_production_activation p \<or> mp_recovery_entry p \<noteq> en_id (bo_current_entry (mp_boot p)) \<or>
         \<not> path_eq (mp_transaction_root p) (path_join TRANSACTION_ROOT_V6 (mp_validation_id p)), BIdentity ''recovery'')]) (\<lambda>_.
     rbind (validate_artifacts C p {} (mp_owned_artifacts p)) (\<lambda>_.
     first_error [(wc_protocol (mp_workload p) \<noteq> WORKLOAD_PROTOCOL_V6 \<or> wc_bytes (mp_workload p) = 0 \<or>
         wc_bytes (mp_workload p) > 256 * 1024 * 1024 \<or> wc_iterations (mp_workload p) = 0 \<or>
         wc_timeout_seconds (mp_workload p) = 0 \<or> wc_timeout_seconds (mp_workload p) > 600 \<or>
         wc_maximum_write_bytes (mp_workload p) = 0, BIdentity ''workload'')])))))))))))))"

subsection \<open>Paths of a valid manifest\<close>

lemma first_error_single [simp]: "first_error [(b, e)] = Ok u \<longleftrightarrow> \<not> b"
  by (cases u) simp

lemma valid_id_plain: "valid_id v \<Longrightarrow> plain_name v"
proof -
  assume v: "valid_id v"
  have b: "id_byte c" if "c \<in> set v" for c using v that by (simp add: valid_id_def list_all_iff)
  have "\<not> id_byte CHR ''/''" "\<not> id_byte CHR ''.''"
    by (simp_all add: id_byte_def is_ascii_lower_def is_ascii_digit_def)
  then have "CHR ''/'' \<notin> set v" "CHR ''.'' \<notin> set v" using b by auto
  moreover have "v \<noteq> []" using v by (auto simp: valid_id_def)
  ultimately show ?thesis by (auto simp: plain_name_def)
qed

lemma plain_name_pad:
  "plain_name v \<Longrightarrow> CHR ''/'' \<notin> set a \<Longrightarrow> CHR ''/'' \<notin> set b \<Longrightarrow> 3 \<le> length a \<Longrightarrow> plain_name (a @ v @ b)"
  by (auto simp: plain_name_def dest: arg_cong [of _ _ length])

lemma manifest_validate_parts:
  assumes "manifest_validate C m = Ok ()"
  shows "valid_id (mp_validation_id (pm_payload m))" "validate_boot (pm_payload m) = Ok ()"
    "validate_swap (pm_payload m) = Ok ()" "\<not> baseline_swaps_bad (pm_payload m)"
    "path_eq (mp_transaction_root (pm_payload m)) (path_join TRANSACTION_ROOT_V6 (mp_validation_id (pm_payload m)))"
    "validate_artifacts C (pm_payload m) {} (mp_owned_artifacts (pm_payload m)) = Ok ()"
    "mp_recovery_entry (pm_payload m) = en_id (bo_current_entry (mp_boot (pm_payload m)))"
    "\<not> mp_production_activation (pm_payload m)"
    "map_of (mp_binaries (pm_payload m)) ''nemor-tiering-boot-validation'' \<noteq> None"
proof -
  from assms have i: "first_error (identity_checks C m) = Ok ()"
    unfolding manifest_validate_def Let_def rbind_Ok_iff by (elim exE conjE) simp
  then show "valid_id (mp_validation_id (pm_payload m))"
    by (simp add: identity_checks_def Let_def split: if_splits)
  show "validate_boot (pm_payload m) = Ok ()" "validate_swap (pm_payload m) = Ok ()"
    "validate_artifacts C (pm_payload m) {} (mp_owned_artifacts (pm_payload m)) = Ok ()"
    "map_of (mp_binaries (pm_payload m)) ''nemor-tiering-boot-validation'' \<noteq> None"
    using assms unfolding manifest_validate_def Let_def rbind_Ok_iff ok_or_Ok_iff by auto
  show "\<not> baseline_swaps_bad (pm_payload m)"
    "path_eq (mp_transaction_root (pm_payload m)) (path_join TRANSACTION_ROOT_V6 (mp_validation_id (pm_payload m)))"
    "mp_recovery_entry (pm_payload m) = en_id (bo_current_entry (mp_boot (pm_payload m)))"
    "\<not> mp_production_activation (pm_payload m)"
    using assms unfolding manifest_validate_def Let_def rbind_Ok_iff first_error_single by auto
qed

text \<open>The four places a validation may write to, by their components.\<close>

definition phase6_path :: "string \<Rightarrow> artifact_kind \<Rightarrow> path_component list" where
  "phase6_path vid k = (case k of
     Type1Entry \<Rightarrow> [RootDir, NormalPart ''boot'', NormalPart ''loader'', NormalPart ''entries'',
        NormalPart (''nemor-phase6-'' @ vid @ ''.conf'')]
   | ValidationUnit \<Rightarrow> [RootDir, NormalPart ''etc'', NormalPart ''systemd'', NormalPart ''system'',
        NormalPart (''nemor-phase6-'' @ vid @ ''.service'')]
   | HelperBinary \<Rightarrow> [RootDir, NormalPart ''var'', NormalPart ''lib'', NormalPart ''nemor'', NormalPart ''validation'',
        NormalPart ''phase6'', NormalPart vid, NormalPart ''bin'', NormalPart ''nemor-tiering-boot-validation''])"

definition phase6_swapfile :: "string \<Rightarrow> path_component list" where
  "phase6_swapfile vid = [RootDir, NormalPart ''var'', NormalPart ''lib'', NormalPart ''nemor'', NormalPart ''validation'',
     NormalPart ''phase6'', NormalPart vid, NormalPart ''backing.swap'']"

lemma validate_artifacts_Ok:
  assumes "validate_artifacts C p paths as = Ok ()"
  shows "\<forall>a \<in> set as. validate_owned_path p a = Ok () \<and> path_components (oa_path a) \<notin> paths \<and>
      oa_owner_uid a = 0 \<and> oa_owner_gid a = 0 \<and> oa_mode a \<in> {384, 448, 420, 493}"
    and "distinct (map (\<lambda>a. path_components (oa_path a)) as)"
  using assms
proof (induction as arbitrary: paths)
  case (Cons a as)
  let ?c = "\<lambda>a. path_components (oa_path a)"
  { case 1
    then have "validate_artifacts C p (insert (?c a) paths) as = Ok ()" by (simp split: if_splits)
    from Cons.IH(1) [OF this] 1 show ?case by (auto split: if_splits) }
  { case 2
    then have "validate_artifacts C p (insert (?c a) paths) as = Ok ()" by (simp split: if_splits)
    from Cons.IH(1) [OF this] Cons.IH(2) [OF this] show ?case by auto }
qed simp_all

lemma baseline_swap_accepted:
  "\<not> baseline_swap_rejected f seen ss \<Longrightarrow> \<forall>s \<in> set ss. si_active s \<and> \<not> path_eq (si_path s) f"
  by (induction f seen ss rule: baseline_swap_rejected.induct) auto

lemma phase6_roots:
  "path_components ENTRY_ROOT = [RootDir, NormalPart ''boot'', NormalPart ''loader'', NormalPart ''entries'']"
  "path_components UNIT_ROOT = [RootDir, NormalPart ''etc'', NormalPart ''systemd'', NormalPart ''system'']"
  "path_components TRANSACTION_ROOT_V6 = [RootDir, NormalPart ''var'', NormalPart ''lib'', NormalPart ''nemor'',
     NormalPart ''validation'', NormalPart ''phase6'']"
  by code_simp+

lemmas phase6_roots_absolute = phase6_roots [THEN absolute_components]

lemma manifest_paths:
  assumes "manifest_validate C m = Ok ()"
  shows "a \<in> set (mp_owned_artifacts (pm_payload m)) \<Longrightarrow>
      path_components (oa_path a) = phase6_path (mp_validation_id (pm_payload m)) (oa_kind a)"
    and "path_components (si_path (mp_swapfile (pm_payload m))) = phase6_swapfile (mp_validation_id (pm_payload m))"
proof -
  let ?p = "pm_payload m" and ?v = "mp_validation_id (pm_payload m)"
  note parts = manifest_validate_parts [OF assms]
  have plain: "plain_name ?v" by (rule valid_id_plain [OF parts(1)])
  have names: "plain_name (''nemor-phase6-'' @ ?v @ ''.conf'')" "plain_name (''nemor-phase6-'' @ ?v @ ''.service'')"
    by (rule plain_name_pad [OF plain]; simp)+
  have tx: "path_components (mp_transaction_root ?p) = path_components TRANSACTION_ROOT_V6 @ [NormalPart ?v]"
    using parts(5) components_join [OF phase6_roots_absolute(3), of "[?v]"] plain by (simp add: path_eq_def)
  then have abs: "starts_with (mp_transaction_root ?p) ''/''"
    by (intro absolute_components [of _ "tl (path_components (mp_transaction_root ?p))"]) (simp add: phase6_roots)
  have "path_eq (en_path (mp_experimental_entry ?p)) (path_join ENTRY_ROOT (''nemor-phase6-'' @ ?v @ ''.conf''))"
    using parts(2) by (simp add: validate_boot_def Let_def split: if_splits)
  then have e: "path_components (en_path (mp_experimental_entry ?p)) = phase6_path ?v Type1Entry"
    using components_join [OF phase6_roots_absolute(1), of "[''nemor-phase6-'' @ ?v @ ''.conf'']"] names(1)
    by (simp add: path_eq_def phase6_roots phase6_path_def)
  have u: "path_components (path_join UNIT_ROOT (''nemor-phase6-'' @ ?v @ ''.service'')) = phase6_path ?v ValidationUnit"
    using components_join [OF phase6_roots_absolute(2), of "[''nemor-phase6-'' @ ?v @ ''.service'']"] names(2)
    by (simp add: phase6_roots phase6_path_def)
  have h: "path_components (path_join (mp_transaction_root ?p) ''bin/nemor-tiering-boot-validation'') = phase6_path ?v HelperBinary"
    using components_join [OF abs, of "[''bin'', ''nemor-tiering-boot-validation'']"]
    by (simp add: tx phase6_roots phase6_path_def plain_name_def)
  show "path_components (oa_path a) = phase6_path ?v (oa_kind a)" if "a \<in> set (mp_owned_artifacts ?p)"
  proof -
    have "validate_owned_path ?p a = Ok ()" using validate_artifacts_Ok(1) [OF parts(6)] that by blast
    then have "path_eq (oa_path a) (owned_path_of ?p (oa_kind a))" by (simp add: validate_owned_path_def split: if_splits)
    then show ?thesis using e u h by (cases "oa_kind a") (simp_all add: path_eq_def owned_path_of_def)
  qed
  show "path_components (si_path (mp_swapfile ?p)) = phase6_swapfile ?v"
    using parts(3) components_join [OF abs, of "[''backing.swap'']"]
    by (simp add: validate_swap_def Let_def path_eq_def tx phase6_roots phase6_swapfile_def plain_name_def split: if_splits)
qed

end
