(* ===== verification/Tiering_Storage.thy ===== *)
theory Tiering_Storage
  imports Boot_Contract Float64 Effects
begin

text \<open>
  What the tiering crate knows of the machine (\<open>tiering/src/topology.rs\<close>, \<open>inventory.rs\<close> and \<open>metrics.rs\<close>): the
  walk from a mounted block device down to the physical one, the inventory of zswap and of the
  provider that configures it, block statistics, write budgets and endurance estimates. The host
  is the record \<open>tiering_host\<close>.
\<close>

datatype storage_class = NvmeClass | SolidStateNonNvme | RotationalClass | UnknownClass

record block_device =
  bd_name :: string
  bd_class :: storage_class
  bd_rotational :: "bool option"
  bd_logical_block_size :: "u64 option"
  bd_physical_block_size :: "u64 option"
  bd_discard_max_bytes :: "u64 option"
  bd_model :: "string option"
  bd_transport :: "string option"
  bd_serial :: "string option"
  bd_wwn :: "string option"
  bd_capacity_bytes :: "u64 option"

record storage_topology =
  sg_mount_source :: string
  sg_filesystem :: string
  sg_chain :: "string list"
  sg_physical :: "block_device option"
  sg_ambiguous :: bool
  sg_profile_version :: string
  sg_profile :: "storage_profile option"
  sg_device_identity :: "string option"
  sg_filesystem_identity :: "string option"

text \<open>The queries of this crate beyond those of \<open>host_tree\<close>: the type of a directory entry, and the output of
  \<open>udevadm\<close>, absent when it cannot be run or fails.\<close>

record tiering_host = host_tree +
  th_entry_is_file :: "string \<Rightarrow> (io_error, bool) result"
  th_udevadm :: "string list \<Rightarrow> string option"

fun ok_opt :: "('e, 'a) result \<Rightarrow> 'a option" where
  "ok_opt (Inl _) = None"
| "ok_opt (Inr x) = Some x"

definition valid_block_name :: "string \<Rightarrow> bool" where
  "valid_block_name name \<longleftrightarrow> name \<noteq> [] \<and> length name \<le> 64 \<and>
     list_all (\<lambda>c. is_ascii_alnum c \<or> c \<in> {CHR ''.'', CHR ''_'', CHR ''-''}) name"

definition tier_read_trimmed :: "tiering_host \<Rightarrow> string \<Rightarrow> string option" where
  "tier_read_trimmed H path = opt_filter (\<lambda>v. v \<noteq> []) (map_option trim (ok_opt (hf_read_to_string H path)))"

definition tier_read_u64 :: "tiering_host \<Rightarrow> string \<Rightarrow> u64 option" where
  "tier_read_u64 H path = Option.bind (ok_opt (hf_read_to_string H path)) (\<lambda>v. parse_u64 (trim v))"

text \<open>The name of the directory that holds the canonical form of a path.\<close>

definition parent_name :: "string \<Rightarrow> string option" where
  "parent_name path = Option.bind (path_parent path) (\<lambda>cs. case rev cs of NormalPart n # _ \<Rightarrow> Some n | _ \<Rightarrow> None)"

definition partition_parent :: "tiering_host \<Rightarrow> string \<Rightarrow> string option" where
  "partition_parent H path = (if \<not> hf_exists H (path_join path ''partition'') then None
     else Option.bind (ok_opt (ht_canonicalize H path)) parent_name)"

definition tier_read_names :: "tiering_host \<Rightarrow> string \<Rightarrow> string list" where
  "tier_read_names H path = (case hf_read_dir H path of
     Inl _ \<Rightarrow> [] | Inr entries \<Rightarrow> sort (filter valid_block_name (List.map_filter ok_opt entries)))"

definition udev_properties :: "tiering_host \<Rightarrow> string \<Rightarrow> string \<Rightarrow> (string \<times> string) list" where
  "udev_properties H base name = (if \<not> is_root_path base \<or> \<not> valid_block_name name then []
     else case th_udevadm H [''info'', ''--query=property'', ''--name'', ''/dev/'' @ name] of
       None \<Rightarrow> []
     | Some stdout \<Rightarrow> foldl (\<lambda>m (k, v). bt_insert k v m) []
         (filter (\<lambda>(k, v). k \<in> {''ID_BUS'', ''ID_SERIAL_SHORT'', ''ID_WWN''})
            (List.map_filter (split_once CHR ''='') (lines stdout))))"

text \<open>\<open>chars().take(n)\<close> on UTF-8 bytes: a byte of the form \<open>10xxxxxx\<close> continues a character.\<close>

definition continues_char :: "char \<Rightarrow> bool" where
  "continues_char c \<longleftrightarrow> 128 \<le> (of_char c :: nat) \<and> (of_char c :: nat) < 192"

fun take_chars :: "nat \<Rightarrow> string \<Rightarrow> string" where
  "take_chars n [] = []"
| "take_chars n (c # cs) = (if continues_char c then c # take_chars n cs
     else case n of 0 \<Rightarrow> [] | Suc k \<Rightarrow> c # take_chars k cs)"

definition bus_of_path :: "string \<Rightarrow> string option" where
  "bus_of_path path = (if str_contains path ''/nvme/'' \<or> str_contains path ''/nvme'' then Some ''nvme''
     else if str_contains path ''/ata'' then Some ''sata''
     else if str_contains path ''/usb'' then Some ''usb''
     else if str_contains path ''/virtual/'' then Some ''virtual'' else None)"

definition subsystem_is_nvme :: "tiering_host \<Rightarrow> string \<Rightarrow> bool" where
  "subsystem_is_nvme H base \<longleftrightarrow>
     is_some_and (\<lambda>p. str_contains p ''/nvme'') (ok_opt (ht_canonicalize H (path_join base ''device/subsystem''))) \<or>
     str_contains (unwrap_or [] (ok_opt (hf_read_to_string H (path_join base ''device/subsystem'')))) ''nvme''"

definition inspect_block :: "tiering_host \<Rightarrow> string \<Rightarrow> string \<Rightarrow> block_device option" where
  "inspect_block H r name = (let base = resolve r (''/sys/class/block/'' @ name);
       rotational = map_option (\<lambda>v. v \<noteq> 0) (tier_read_u64 H (path_join base ''queue/rotational''));
       udev = udev_properties H r name;
       transport = opt_or (map_of udev ''ID_BUS'') (opt_or (tier_read_trimmed H (path_join base ''device/transport''))
         (Option.bind (ok_opt (ht_canonicalize H base)) bus_of_path)) in
     Some \<lparr> bd_name = name,
       bd_class = (if subsystem_is_nvme H base \<and> transport = Some ''nvme'' then NvmeClass
         else if rotational = Some False then SolidStateNonNvme
         else if rotational = Some True then RotationalClass else UnknownClass),
       bd_rotational = rotational,
       bd_logical_block_size = tier_read_u64 H (path_join base ''queue/logical_block_size''),
       bd_physical_block_size = tier_read_u64 H (path_join base ''queue/physical_block_size''),
       bd_discard_max_bytes = tier_read_u64 H (path_join base ''queue/discard_max_bytes''),
       bd_model = opt_filter (\<lambda>v. v \<noteq> []) (map_option (\<lambda>v. take_chars 80 (trim v))
         (ok_opt (hf_read_to_string H (path_join base ''device/model'')))),
       bd_transport = transport,
       bd_serial = opt_or (map_of udev ''ID_SERIAL_SHORT'') (tier_read_trimmed H (path_join base ''device/serial'')),
       bd_wwn = opt_or (map_of udev ''ID_WWN'') (tier_read_trimmed H (path_join base ''device/wwid'')),
       bd_capacity_bytes = map_option (\<lambda>sectors. sat_mul sectors 512) (tier_read_u64 H (path_join base ''size'')) \<rparr>)"

definition profile_for :: "block_device \<Rightarrow> storage_profile" where
  "profile_for d = (if bd_transport d = Some ''virtual'' then Virtual
     else if bd_rotational d = Some True then Rotational
     else if bd_rotational d \<noteq> Some False then AmbiguousProfile
     else if bd_transport d = Some ''nvme'' \<and> bd_class d = NvmeClass then NvmeSsd
     else if bd_transport d \<in> {Some ''sata'', Some ''ata''} then SataSsd
     else if bd_transport d = Some ''sas'' then SasSsd
     else if bd_transport d = Some ''usb'' then UsbSsd
     else OtherNonRotational)"

subsection \<open>The walk\<close>

text \<open>The loop of \<open>inspect_storage\<close>: the remaining rounds, the device of this round and the chain so far. The
  source keeps the devices seen in a set beside the chain, which has the same members. The result
  is the chain and whether it is ambiguous and composite.\<close>

fun storage_walk :: "tiering_host \<Rightarrow> string \<Rightarrow> nat \<Rightarrow> string \<Rightarrow> string list \<Rightarrow> string list \<times> bool \<times> bool" where
  "storage_walk H r 0 current chain = (chain, False, False)"
| "storage_walk H r (Suc n) current chain =
     (if \<not> valid_block_name current \<or> current \<in> set chain then (chain, True, False)
      else let chain = chain @ [current]; class_path = resolve r (''/sys/class/block/'' @ current) in
        if \<not> hf_exists H class_path then (chain, True, False)
        else case partition_parent H class_path of
          Some parent \<Rightarrow> storage_walk H r n parent chain
        | None \<Rightarrow> (case tier_read_names H (path_join class_path ''slaves'') of
            [] \<Rightarrow> (chain, False, False)
          | [one] \<Rightarrow> storage_walk H r n one chain
          | slaves \<Rightarrow> (chain @ slaves, True, True)))"

definition inspect_storage :: "tiering_host \<Rightarrow> string \<Rightarrow> string \<Rightarrow> string \<Rightarrow> storage_topology" where
  "inspect_storage H r mount_source filesystem =
     (case storage_walk H r 8 (unwrap_or mount_source (strip_prefix ''/dev/'' mount_source)) [] of (chain, ambiguous, composite) \<Rightarrow>
      let physical = (if ambiguous \<or> chain = [] then None else inspect_block H r (last chain)) in
      \<lparr> sg_mount_source = mount_source, sg_filesystem = filesystem, sg_chain = chain, sg_physical = physical,
        sg_ambiguous = ambiguous, sg_profile_version = STORAGE_PROFILE_VERSION,
        sg_profile = (if composite then Some Composite else if ambiguous then Some AmbiguousProfile else map_option profile_for physical),
        sg_device_identity = map_option (\<lambda>d. bd_name d @ '':'' @ unwrap_or ''unavailable'' (bd_serial d) @ '':'' @
          unwrap_or ''unavailable'' (bd_wwn d) @ '':'' @ show_nat (unat (unwrap_or 0 (bd_capacity_bytes d)))) physical,
        sg_filesystem_identity = Some (filesystem @ '':'' @ mount_source) \<rparr>)"

subsection \<open>Inventory of zswap\<close>

record zswap_parameters =
  zw_enabled :: "bool option"
  zw_compressor :: "string option"
  zw_zpool :: "string option"
  zw_max_pool_percent :: "u8 option"
  zw_accept_threshold_percent :: "u8 option"
  zw_shrinker_enabled :: "bool option"
  zw_same_filled_pages_enabled :: "bool option"
  zw_non_same_filled_pages_enabled :: "bool option"

record debug_counter =
  dc_name :: string
  dc_value :: "u64 option"

record provider_state =
  ps_kernel_cmdline_zswap :: "string list"
  ps_systemd_zram :: bool
  ps_zram_generator_vendor_config :: bool
  ps_zram_generator_etc_config :: bool
  ps_cachyos_zswap_disable_rule :: bool
  ps_persistence_sources :: "string list"
  ps_conflict :: bool
  ps_bootloader :: "string option"
  ps_command_line_source :: "string option"
  ps_systemd_boot :: bool

record zswap_inventory =
  zv_supported :: bool
  zv_parameters :: zswap_parameters
  zv_parameter_writable :: "(string \<times> bool) list"
  zv_debugfs_available :: bool
  zv_debug_counters :: "debug_counter list"
  zv_cgroup_values :: "(string \<times> string) list"
  zv_provider :: provider_state
  zv_unavailable :: "string list"
  zv_dry_run :: bool

definition optional_string :: "tiering_host \<Rightarrow> string \<Rightarrow> (io_error, string option) result" where
  "optional_string H path = (case hf_read_to_string H path of
     Inr v \<Rightarrow> Ok (Some (trim v)) | Inl e \<Rightarrow> if io_kind e = NotFound then Ok None else Err e)"

definition bool_text :: "string \<Rightarrow> bool option" where
  "bool_text v = (if v \<in> {''Y'', ''1'', ''y''} then Some True else if v \<in> {''N'', ''0'', ''n''} then Some False else None)"

definition optional_bool :: "tiering_host \<Rightarrow> string \<Rightarrow> (io_error, bool option) result" where
  "optional_bool H path = map_sum (\<lambda>e. e) (\<lambda>v. Option.bind v bool_text) (optional_string H path)"

definition optional_u8 :: "tiering_host \<Rightarrow> string \<Rightarrow> (io_error, u8 option) result" where
  "optional_u8 H path = map_sum (\<lambda>e. e) (\<lambda>v. Option.bind v parse_u8) (optional_string H path)"

definition ZSWAP_INVENTORY_NAMES :: "string list" where
  "ZSWAP_INVENTORY_NAMES = [''enabled'', ''compressor'', ''zpool'', ''max_pool_percent'', ''accept_threshold_percent'',
     ''shrinker_enabled'', ''same_filled_pages_enabled'', ''non_same_filled_pages_enabled'']"

definition read_parameters :: "tiering_host \<Rightarrow> string \<Rightarrow> (io_error, zswap_parameters) result" where
  "read_parameters H base =
     rbind (optional_bool H (path_join base ''enabled'')) (\<lambda>enabled.
     rbind (optional_string H (path_join base ''compressor'')) (\<lambda>compressor.
     rbind (optional_string H (path_join base ''zpool'')) (\<lambda>zpool.
     rbind (optional_u8 H (path_join base ''max_pool_percent'')) (\<lambda>max_pool_percent.
     rbind (optional_u8 H (path_join base ''accept_threshold_percent'')) (\<lambda>accept_threshold_percent.
     rbind (optional_bool H (path_join base ''shrinker_enabled'')) (\<lambda>shrinker_enabled.
     rbind (optional_bool H (path_join base ''same_filled_pages_enabled'')) (\<lambda>same_filled.
     rbind (optional_bool H (path_join base ''non_same_filled_pages_enabled'')) (\<lambda>non_same_filled.
     Ok \<lparr> zw_enabled = enabled, zw_compressor = compressor, zw_zpool = zpool, zw_max_pool_percent = max_pool_percent,
          zw_accept_threshold_percent = accept_threshold_percent, zw_shrinker_enabled = shrinker_enabled,
          zw_same_filled_pages_enabled = same_filled, zw_non_same_filled_pages_enabled = non_same_filled \<rparr>))))))))"

fun read_counters :: "tiering_host \<Rightarrow> string \<Rightarrow> (io_error, string) result list \<Rightarrow> (io_error, debug_counter list) result" where
  "read_counters H base [] = Ok []"
| "read_counters H base (entry # es) = rbind entry (\<lambda>name.
     rbind (th_entry_is_file H (path_join base name)) (\<lambda>file.
     rbind (read_counters H base es) (\<lambda>cs.
     Ok (if file then \<lparr> dc_name = name, dc_value = tier_read_u64 H (path_join base name) \<rparr> # cs else cs))))"

definition debug_counters_of :: "tiering_host \<Rightarrow> string \<Rightarrow> (io_error, debug_counter list) result" where
  "debug_counters_of H base = rbind (hf_read_dir H base) (\<lambda>es. map_sum (\<lambda>e. e) (sort_key dc_name) (read_counters H base es))"

text \<open>The candidates differ at letters, so that the order of paths is the order of their strings.\<close>

definition inspect_provider :: "tiering_host \<Rightarrow> string \<Rightarrow> provider_state" where
  "inspect_provider H r = (let cmdline = unwrap_or [] (ok_opt (hf_read_to_string H (resolve r ''/proc/cmdline'')));
       parameters = filter (\<lambda>v. starts_with v ''zswap.'') (split_whitespace cmdline);
       present = (\<lambda>p. hf_exists H (resolve r p));
       rule_text = unwrap_or [] (ok_opt (hf_read_to_string H (resolve r ''/usr/lib/udev/rules.d/30-zram.rules'')));
       vendor = present ''/usr/lib/systemd/zram-generator.conf''; etc = present ''/etc/systemd/zram-generator.conf'';
       systemd_zram = (present ''/run/systemd/generator/dev-zram0.swap'' \<or> vendor \<or> etc);
       disable_rule = str_contains rule_text ''/sys/module/zswap/parameters/enabled'';
       kernel_cmdline = present ''/etc/kernel/cmdline''; loader = present ''/boot/loader/loader.conf'';
       systemd_boot = (loader \<or> present ''/sys/firmware/efi/efivars/LoaderInfo-4a67b082-0a4c-41cf-b6c7-440b29bb8c4f'');
       cmdline_disabled = list_ex (\<lambda>v. v \<in> {''zswap.enabled=0'', ''zswap.enabled=N''}) parameters in
     \<lparr> ps_kernel_cmdline_zswap = parameters, ps_systemd_zram = systemd_zram, ps_zram_generator_vendor_config = vendor,
       ps_zram_generator_etc_config = etc, ps_cachyos_zswap_disable_rule = disable_rule,
       ps_persistence_sources = sort (filter (hf_exists H) (map (resolve r) [''/etc/kernel/cmdline'', ''/etc/default/grub'',
          ''/boot/loader/loader.conf'', ''/etc/systemd/zram-generator.conf'', ''/etc/udev/rules.d/30-zram.rules''])),
       ps_conflict = (systemd_zram \<and> (cmdline_disabled \<or> disable_rule)),
       ps_bootloader = (if kernel_cmdline \<and> systemd_boot then Some ''systemd-boot/kernel-install-uki''
          else if kernel_cmdline then Some ''kernel-install/uki''
          else if present ''/etc/default/grub'' then Some ''grub''
          else if loader then Some ''systemd-boot'' else None),
       ps_command_line_source = (if kernel_cmdline then Some (resolve r ''/etc/kernel/cmdline'') else None),
       ps_systemd_boot = systemd_boot \<rparr>)"

definition tier_inspect_linux :: "tiering_host \<Rightarrow> string \<Rightarrow> bool \<Rightarrow> (io_error, zswap_inventory) result" where
  "tier_inspect_linux H r dry_run = (let base = resolve r ''/sys/module/zswap/parameters'';
       debug = resolve r ''/sys/kernel/debug/zswap''; debugfs = (ht_is_dir H debug = Ok True);
       missing = map (\<lambda>n. ''zswap.parameters.'' @ n) (filter (\<lambda>n. \<not> hf_exists H (path_join base n)) ZSWAP_INVENTORY_NAMES) in
     rbind (read_parameters H base) (\<lambda>parameters.
     rbind (if debugfs then debug_counters_of H debug else Ok []) (\<lambda>counters.
     Ok \<lparr> zv_supported = (ht_is_dir H base = Ok True), zv_parameters = parameters,
          zv_parameter_writable = foldl (\<lambda>m n. bt_insert n (\<not> isl (ht_open_write H (path_join base n))) m) [] ZSWAP_INVENTORY_NAMES,
          zv_debugfs_available = debugfs, zv_debug_counters = counters,
          zv_cgroup_values = foldl (\<lambda>m n. case hf_read_to_string H (resolve r (''/sys/fs/cgroup/'' @ n)) of
              Inl _ \<Rightarrow> m | Inr v \<Rightarrow> bt_insert n (trim v) m) []
            [''memory.zswap.current'', ''memory.zswap.max'', ''memory.zswap.writeback'', ''memory.swap.current'',
             ''memory.swap.peak'', ''memory.swap.events''],
          zv_provider = inspect_provider H r,
          zv_unavailable = sort (missing @ (if debugfs then [] else [''zswap.debugfs''])), zv_dry_run = dry_run \<rparr>)))"

subsection \<open>Block statistics and write budgets\<close>

record block_stat =
  bs_reads_completed :: u64
  bs_sectors_read :: u64
  bs_writes_completed :: u64
  bs_sectors_written :: u64
  bs_write_ticks_ms :: u64
  bs_io_ticks_ms :: u64

record block_io_delta =
  bq_interval_ns :: u64
  bq_writes_completed :: u64
  bq_write_sectors :: u64
  bq_write_bytes :: u64
  bq_write_iops :: f64
  bq_write_throughput_bytes_sec :: f64
  bq_write_ticks_ms :: u64
  bq_io_ticks_ms :: u64

record write_sample =
  wm_timestamp_ns :: u64
  wm_bytes :: u64
  wm_attributable :: bool

record write_budget =
  wb_max_mib_per_second :: u64
  wb_daily_budget_gib :: u64

record budget_decision =
  bg_allowed :: bool
  bg_instantaneous_mib_per_second :: f64
  bg_rolling_minute_mib_per_second :: f64
  bg_rolling_hour_gib :: f64
  bg_daily_gib :: f64
  bg_annual_tb :: f64
  bg_reasons :: "string list"

record tb_estimate =
  tb_measurement_seconds :: f64
  tb_bytes_per_day :: f64
  tb_gib_per_day :: f64
  tb_decimal_tb_per_year :: f64
  tb_rated_tbw :: "f64 option"
  tb_endurance_percent_per_year :: "f64 option"
  tb_source :: string
  tb_confidence :: string
  tb_attributable :: bool

fun parse_fields :: "string list \<Rightarrow> (string, u64 list) result" where
  "parse_fields [] = Ok []"
| "parse_fields (t # ts) = rbind (ok_or ''invalid block stat value'' (parse_u64 t)) (\<lambda>v. rbind (parse_fields ts) (\<lambda>vs. Ok (v # vs)))"

definition parse_block_stat :: "string \<Rightarrow> (string, block_stat) result" where
  "parse_block_stat input = rbind (parse_fields (split_whitespace input)) (\<lambda>fields.
     if length fields < 11 then Err ''block stat requires at least eleven fields''
     else Ok \<lparr> bs_reads_completed = fields ! 0, bs_sectors_read = fields ! 2, bs_writes_completed = fields ! 4,
       bs_sectors_written = fields ! 6, bs_write_ticks_ms = fields ! 7, bs_io_ticks_ms = fields ! 9 \<rparr>)"

definition block_stat_delta :: "block_stat \<Rightarrow> block_stat \<Rightarrow> u64 \<Rightarrow> block_io_delta option" where
  "block_stat_delta s previous interval_ns =
     (if interval_ns = 0 \<or> bs_writes_completed s < bs_writes_completed previous \<or>
        bs_sectors_written s < bs_sectors_written previous \<or> bs_write_ticks_ms s < bs_write_ticks_ms previous \<or>
        bs_io_ticks_ms s < bs_io_ticks_ms previous then None
      else let writes = bs_writes_completed s - bs_writes_completed previous;
             sectors = bs_sectors_written s - bs_sectors_written previous;
             seconds = f64_div (f64_of_u64 interval_ns) (Fin 1000000000) in
        map_option (\<lambda>bytes. \<lparr> bq_interval_ns = interval_ns, bq_writes_completed = writes, bq_write_sectors = sectors,
          bq_write_bytes = bytes, bq_write_iops = f64_div (f64_of_u64 writes) seconds,
          bq_write_throughput_bytes_sec = f64_div (f64_of_u64 bytes) seconds,
          bq_write_ticks_ms = bs_write_ticks_ms s - bs_write_ticks_ms previous,
          bq_io_ticks_ms = bs_io_ticks_ms s - bs_io_ticks_ms previous \<rparr>) (checked_mul sectors 512))"

definition window_bytes :: "write_sample list \<Rightarrow> u64 \<Rightarrow> u64 \<Rightarrow> u64" where
  "window_bytes samples now window = foldl sat_add 0
     (map wm_bytes (filter (\<lambda>s. sat_sub now (wm_timestamp_ns s) \<le> window) samples))"

definition budget_evaluate :: "write_budget \<Rightarrow> write_sample list \<Rightarrow> u64 \<Rightarrow> budget_decision" where
  "budget_evaluate wb samples now = (let second = window_bytes samples now 1000000000;
       minute = window_bytes samples now 60000000000; hour = window_bytes samples now 3600000000000;
       day = window_bytes samples now 86400000000000; mib = Fin 1048576; gib = Fin 1073741824;
       instantaneous = f64_div (f64_of_u64 second) mib;
       rolling_minute = f64_div (f64_div (f64_of_u64 minute) mib) (Fin 60);
       rolling_hour = f64_div (f64_of_u64 hour) gib; daily = f64_div (f64_of_u64 day) gib;
       annual_tb = f64_div (f64_mul (f64_of_u64 day) (Fin 365)) (Fin 1000000000000);
       reasons = fired [(f64_lt (f64_of_u64 (wb_max_mib_per_second wb)) instantaneous, ''instantaneous_write_budget_exceeded''),
         (f64_lt (f64_of_u64 (wb_max_mib_per_second wb)) rolling_minute, ''rolling_minute_write_budget_exceeded''),
         (f64_lt (f64_of_u64 (wb_daily_budget_gib wb)) daily, ''daily_write_budget_exceeded'')] in
     \<lparr> bg_allowed = (reasons = []), bg_instantaneous_mib_per_second = instantaneous,
       bg_rolling_minute_mib_per_second = rolling_minute, bg_rolling_hour_gib = rolling_hour, bg_daily_gib = daily,
       bg_annual_tb = annual_tb, bg_reasons = reasons \<rparr>)"

definition estimate_tbw :: "u64 \<Rightarrow> f64 \<Rightarrow> f64 option \<Rightarrow> string \<Rightarrow> bool \<Rightarrow> tb_estimate option" where
  "estimate_tbw bytes seconds rated source attributable =
     (if bytes = 0 \<or> \<not> is_finite seconds \<or> f64_le seconds (Fin 0) then None
      else let per_day = f64_div (f64_mul (f64_of_u64 bytes) (Fin 86400)) seconds;
             per_year = f64_div (f64_mul per_day (Fin 365)) (Fin 1000000000000) in
        Some \<lparr> tb_measurement_seconds = seconds, tb_bytes_per_day = per_day, tb_gib_per_day = f64_div per_day (Fin 1073741824),
          tb_decimal_tb_per_year = per_year, tb_rated_tbw = rated,
          tb_endurance_percent_per_year = map_option (\<lambda>v. f64_mul (f64_div per_year v) (Fin 100))
            (opt_filter (\<lambda>v. is_finite v \<and> f64_lt (Fin 0) v) rated),
          tb_source = source, tb_confidence = (if attributable then ''bounded_attributable'' else ''host_wide_noisy''),
          tb_attributable = attributable \<rparr>)"

end
