(* ===== verification/Boot_Observation.thy ===== *)
theory Boot_Observation
  imports Boot_Contract
begin

text \<open>
  What the boot validation measures (\<open>tiering/src/boot_validation_v6.rs\<close>): the preflight of the host
  against the prepared manifest, the observation after the experimental boot, the observation
  that proves the baseline restored, and the evidence by which a storage-backed tier can be
  recommended. The transaction itself, its stages and its durable record, come first.
\<close>

subsection \<open>Durable transaction\<close>

datatype boot_stage = StPrepared | StRootPreflighted | StBaselineMeasuring | StBaselineMeasured | StApplying
  | StApplied | StOneShotSelecting | StOneShotSelected | StExperimentalBootDetected | StActivationPreparing
  | StZswapDisabling | StZswapParametersApplying | StZswapEnabling | StSwapActivating | StActivationVerified
  | StActivationFailed | StPostBootMeasuring | StPostBootValidated | StBaselineSelecting | StBaselineSelected
  | StBaselineBoot | StBaselineVerified | StCleaning | StRestored | StRecovered | StFailed

record mutation_record =
  mr_operation :: string
  mr_target :: string
  mr_completed :: bool
  mr_evidence_sha256 :: "string option"
  mr_boot_id :: string

record post_boot_summary =
  su_backing_write_bytes :: u64
  su_latency_ns :: u64
  su_write_budget_passed :: bool
  su_oom :: bool
  su_safety_failure :: bool
  su_backing_write_confidence :: string

record transaction_payload =
  tp_validation_id :: string
  tp_manifest_sha256 :: string
  tp_stage :: boot_stage
  tp_baseline_boot_id :: string
  tp_current_boot_id :: string
  tp_artifact_registry :: "string list"
  tp_swapfile_registry :: "string list"
  tp_unit_registry :: "string list"
  tp_transient_unit_registry :: "string list"
  tp_applied_swap_identity :: "swap_identity option"
  tp_evidence_hashes :: "(string \<times> string) list"
  tp_mutation_records :: "mutation_record list"
  tp_primary_error :: "string option"
  tp_failed_from_stage :: "boot_stage option"
  tp_secondary_errors :: "string list"
  tp_recovery_state :: string
  tp_idempotence_verified :: bool
  tp_activation_parameter_index :: nat
  tp_original_primary_error :: "string option"
  tp_terminal_archive_sha256 :: "string option"
  tp_post_boot_summary :: "post_boot_summary option"

record durable_transaction =
  dt_schema :: string
  dt_payload :: transaction_payload
  dt_payload_sha256 :: string

definition legal_transition_v6 :: "boot_stage \<Rightarrow> boot_stage \<Rightarrow> bool" where
  "legal_transition_v6 from to \<longleftrightarrow> to = StFailed \<or> (from, to) \<in> {
     (StPrepared, StRootPreflighted), (StRootPreflighted, StBaselineMeasuring), (StBaselineMeasuring, StBaselineMeasured),
     (StBaselineMeasured, StApplying), (StApplying, StApplied), (StApplied, StOneShotSelecting),
     (StOneShotSelecting, StOneShotSelected), (StOneShotSelected, StExperimentalBootDetected), (StExperimentalBootDetected, StActivationPreparing),
     (StActivationPreparing, StZswapDisabling), (StZswapDisabling, StZswapParametersApplying), (StZswapParametersApplying, StZswapParametersApplying),
     (StZswapParametersApplying, StZswapEnabling), (StZswapEnabling, StSwapActivating), (StSwapActivating, StActivationVerified),
     (StActivationVerified, StPostBootMeasuring), (StActivationPreparing, StActivationFailed), (StZswapDisabling, StActivationFailed),
     (StZswapParametersApplying, StActivationFailed), (StZswapEnabling, StActivationFailed), (StSwapActivating, StActivationFailed),
     (StActivationFailed, StBaselineSelecting), (StActivationPreparing, StBaselineSelecting), (StZswapDisabling, StBaselineSelecting),
     (StZswapParametersApplying, StBaselineSelecting), (StZswapEnabling, StBaselineSelecting), (StSwapActivating, StBaselineSelecting),
     (StPostBootMeasuring, StPostBootValidated), (StActivationVerified, StBaselineSelecting), (StPostBootMeasuring, StBaselineSelecting),
     (StPostBootValidated, StBaselineSelecting), (StBaselineSelecting, StBaselineSelected), (StBaselineSelected, StBaselineBoot),
     (StBaselineBoot, StBaselineVerified), (StBaselineVerified, StCleaning), (StCleaning, StRestored),
     (StPrepared, StRecovered), (StRootPreflighted, StRecovered), (StBaselineMeasuring, StRecovered),
     (StBaselineMeasured, StRecovered), (StApplying, StRecovered), (StApplied, StRecovered),
     (StOneShotSelecting, StRecovered), (StOneShotSelected, StRecovered), (StBaselineVerified, StRecovered),
     (StCleaning, StRecovered), (StActivationPreparing, StRecovered), (StZswapDisabling, StRecovered),
     (StZswapParametersApplying, StRecovered), (StZswapEnabling, StRecovered), (StSwapActivating, StRecovered),
     (StActivationFailed, StRecovered), (StFailed, StBaselineSelecting), (StFailed, StRecovered)}"

subsection \<open>Preflight\<close>

record preflight_observation =
  pf_schema :: string
  pf_uid :: u32
  pf_gid :: u32
  pf_sudo_uid :: "u32 option"
  pf_sudo_gid :: "u32 option"
  pf_host_identity_sha256 :: string
  pf_source_matches :: bool
  pf_binaries_match :: bool
  pf_config_matches :: bool
  pf_topology_matches :: bool
  pf_boot_matches :: bool
  pf_bootloader_type_matches :: bool
  pf_bootloader_version_matches :: bool
  pf_current_entry_semantics_match :: bool
  pf_current_entry_hash_matches :: bool
  pf_current_entry_path_matches :: bool
  pf_default_entry_semantics_match :: bool
  pf_default_entry_hash_matches :: bool
  pf_default_entry_path_matches :: bool
  pf_referenced_boot_files_match :: bool
  pf_kernel_release_matches :: bool
  pf_command_line_matches :: bool
  pf_esp_device_matches :: bool
  pf_esp_filesystem_matches :: bool
  pf_esp_uuid_matches :: bool
  pf_esp_mount_matches :: bool
  pf_boot_order_matches :: bool
  pf_one_shot_matches :: bool
  pf_zram_matches :: bool
  pf_zswap_matches :: bool
  pf_parents_safe :: bool
  pf_transaction_hierarchy_safe :: bool
  pf_staged_source_binary_matches :: bool
  pf_validation_destinations_absent :: bool
  pf_esp_free_bytes :: u64
  pf_swap_free_bytes :: u64
  pf_package_update_absent :: bool
  pf_secure_boot_compatible :: bool
  pf_ac_power :: "bool option"
  pf_stale_state_absent :: bool
  pf_validation_process_absent :: bool
  pf_unrelated_mutation_absent :: bool
  pf_mutation_count :: u64
  pf_ready :: bool

definition derived_preflight_ready_v6 :: "prepared_manifest \<Rightarrow> preflight_observation \<Rightarrow> bool" where
  "derived_preflight_ready_v6 m o1 \<longleftrightarrow> list_all (\<lambda>gate. gate)
     [pf_source_matches o1, pf_binaries_match o1, pf_config_matches o1, pf_topology_matches o1,
      pf_boot_matches o1, pf_bootloader_type_matches o1, pf_bootloader_version_matches o1, pf_current_entry_semantics_match o1,
      pf_current_entry_hash_matches o1, pf_current_entry_path_matches o1, pf_default_entry_semantics_match o1, pf_default_entry_hash_matches o1,
      pf_default_entry_path_matches o1, pf_referenced_boot_files_match o1, pf_kernel_release_matches o1, pf_command_line_matches o1,
      pf_esp_device_matches o1, pf_esp_filesystem_matches o1, pf_esp_uuid_matches o1, pf_esp_mount_matches o1,
      pf_boot_order_matches o1, pf_one_shot_matches o1, pf_zram_matches o1, pf_zswap_matches o1,
      pf_parents_safe o1, pf_transaction_hierarchy_safe o1, pf_staged_source_binary_matches o1, pf_validation_destinations_absent o1,
      pf_package_update_absent o1, pf_secure_boot_compatible o1, pf_stale_state_absent o1, pf_validation_process_absent o1,
      pf_unrelated_mutation_absent o1] \<and>
     pf_ac_power o1 \<noteq> Some False \<and> pf_esp_free_bytes o1 \<ge> 1024 * 1024 \<and>
     pf_swap_free_bytes o1 \<ge> sat_add (si_size_bytes (mp_swapfile (pm_payload m))) (64 * 1024 * 1024)"

definition validate_preflight_v6 :: "boot_codec \<Rightarrow> prepared_manifest \<Rightarrow> preflight_observation \<Rightarrow> bool \<Rightarrow>
    (boot_error, unit) result" where
  "validate_preflight_v6 C m o1 as_root = rbind (manifest_validate C m) (\<lambda>_. first_error
     [(pf_schema o1 \<noteq> PREFLIGHT_SCHEMA_V6 \<or> pf_mutation_count o1 \<noteq> 0, BPreflight ''not_non_mutating''),
      (pf_host_identity_sha256 o1 \<noteq> mp_material_environment_sha256 (pm_payload m), BIdentity ''material environment''),
      (as_root \<and> (pf_uid o1 \<noteq> 0 \<or> pf_sudo_uid o1 \<noteq> Some (mp_prepared_uid (pm_payload m)) \<or>
         pf_sudo_gid o1 \<noteq> Some (mp_prepared_gid (pm_payload m))), BSudoIdentity),
      (\<not> as_root \<and> (pf_uid o1 \<noteq> mp_prepared_uid (pm_payload m) \<or> pf_gid o1 \<noteq> mp_prepared_gid (pm_payload m)),
        BIdentity ''preparing user''),
      (pf_ready o1 \<noteq> derived_preflight_ready_v6 m o1, BPreflight ''serialized_readiness_contradiction''),
      (\<not> derived_preflight_ready_v6 m o1, BPreflight ''authoritative_gate_failed'')])"

subsection \<open>After the experimental boot\<close>

record runtime_binary_identity =
  rbi_path :: string
  rbi_sha256 :: string
  rbi_pid :: u32
  rbi_start_ticks :: u64

record runtime_observe_only =
  ro_config_sha256 :: string
  ro_configured_observe_only :: bool
  ro_nemord_active :: bool
  ro_nemord_binary :: "runtime_binary_identity option"
  ro_effective_mode :: "string option"
  ro_production_tiering_unit_absent :: bool
  ro_unexpected_nemor_units :: "string list"
  ro_unexpected_nemor_cgroups :: "string list"
  ro_production_activation :: bool

record post_boot_observation =
  ob_schema :: string
  ob_boot_id :: string
  ob_booted_entry :: string
  ob_command_line :: string
  ob_kernel_release :: string
  ob_zswap :: zswap_identity
  ob_swaps :: "swap_identity list"
  ob_protected_zram :: zram_identity
  ob_topology :: topology_identity
  ob_unit_active :: bool
  ob_workload_scope_absent :: bool
  ob_daemon_observe_only :: bool
  ob_production_activation :: bool
  ob_zswap_counters :: "(string \<times> u64 option) list"
  ob_zswap_counters_before :: "(string \<times> u64 option) list"
  ob_zswap_counter_deltas :: "(string \<times> u64 option) list"
  ob_cgroup_path :: string
  ob_workload_pid :: u32
  ob_workload_start_ticks :: u64
  ob_workload_ready :: bool
  ob_workload_started :: bool
  ob_workload_stopped :: bool
  ob_progress_steps :: u64
  ob_cgroup_oom_delta :: "u64 option"
  ob_cgroup_oom_kill_delta :: "u64 option"
  ob_host_oom_kill_delta :: "u64 option"
  ob_memory_current_bytes :: "u64 option"
  ob_memory_peak_bytes :: "u64 option"
  ob_swap_current_bytes :: "u64 option"
  ob_scoped_psi_some_micros :: "u64 option"
  ob_block_write_bytes :: "u64 option"
  ob_block_write_attribution :: string
  ob_latency_ns :: "u64 option"
  ob_bytes_touched :: u64
  ob_throughput_bytes_per_second :: "u64 option"
  ob_compression_ratio_milli :: "u64 option"
  ob_refault_observed :: bool
  ob_refault_content_verified :: bool
  ob_oom :: bool
  ob_oom_kill :: bool
  ob_workload_completed :: bool
  ob_workload_timeout :: bool
  ob_runtime_observation :: runtime_observe_only

text \<open>A transaction is valid when its digest is that of its payload.\<close>

definition tx_validate :: "(transaction_payload \<Rightarrow> string) \<Rightarrow> durable_transaction \<Rightarrow> (boot_error, unit) result" where
  "tx_validate digest t = (if dt_schema t \<noteq> DURABLE_TRANSACTION_SCHEMA_V6 \<or> digest (dt_payload t) \<noteq> dt_payload_sha256 t
     then Err BPayload else Ok ())"

definition runtime_rejected :: "runtime_observe_only \<Rightarrow> bool" where
  "runtime_rejected r \<longleftrightarrow> \<not> ro_configured_observe_only r \<or> ro_production_activation r \<or>
     \<not> ro_production_tiering_unit_absent r \<or> ro_nemord_active r \<noteq> (ro_nemord_binary r \<noteq> None) \<or>
     ro_effective_mode r = None \<or>
     is_some_and (\<lambda>b. \<not> is_absolute (rbi_path b) \<or> \<not> is_sha256 (rbi_sha256 b) \<or> rbi_pid b = 0 \<or> rbi_start_ticks b = 0)
       (ro_nemord_binary r) \<or>
     ro_unexpected_nemor_units r \<noteq> [] \<or> ro_unexpected_nemor_cgroups r \<noteq> []"

definition measurement_rejected :: "manifest_payload \<Rightarrow> swap_identity \<Rightarrow> post_boot_observation \<Rightarrow> bool" where
  "measurement_rejected p swap o1 \<longleftrightarrow> \<not> si_active swap \<or> si_priority swap \<noteq> si_priority (mp_swapfile p) \<or>
     \<not> ob_workload_completed o1 \<or> ob_workload_timeout o1 \<or> \<not> ob_workload_ready o1 \<or> \<not> ob_workload_started o1 \<or>
     \<not> ob_workload_stopped o1 \<or> ob_workload_pid o1 = 0 \<or> ob_workload_start_ticks o1 = 0 \<or> ob_cgroup_path o1 = [] \<or>
     ob_progress_steps o1 = 0 \<or> ob_bytes_touched o1 = 0 \<or> \<not> ob_refault_content_verified o1 \<or>
     ob_cgroup_oom_delta o1 \<noteq> Some 0 \<or> ob_cgroup_oom_kill_delta o1 \<noteq> Some 0 \<or>
     ob_block_write_attribution o1 \<notin> {''physical-device-host-wide-noisy'', ''bounded-physical-device-attributed''} \<or>
     ob_block_write_bytes o1 = None \<or> ob_latency_ns o1 = None \<or> ob_throughput_bytes_per_second o1 = None \<or>
     ob_compression_ratio_milli o1 = None \<or> \<not> ob_refault_observed o1 \<or>
     is_some_and (\<lambda>v. v > wc_maximum_write_bytes (mp_workload p)) (ob_block_write_bytes o1) \<or>
     ob_oom o1 \<or> ob_oom_kill o1 \<or> \<not> ob_daemon_observe_only o1 \<or> runtime_rejected (ob_runtime_observation o1) \<or>
     ob_production_activation o1"

definition validate_actual_post_boot_v6 :: "boot_codec \<Rightarrow> (transaction_payload \<Rightarrow> string) \<Rightarrow> prepared_manifest \<Rightarrow>
    durable_transaction \<Rightarrow> post_boot_observation \<Rightarrow> (boot_error, unit) result" where
  "validate_actual_post_boot_v6 C digest m t o1 = (let p = pm_payload m in
     rbind (manifest_validate C m) (\<lambda>_.
     rbind (tx_validate digest t) (\<lambda>_.
     rbind (first_error
       [(ob_schema o1 \<noteq> POST_BOOT_EVIDENCE_SCHEMA_V6 \<or> tp_stage (dt_payload t) \<noteq> StPostBootMeasuring \<or>
         ob_boot_id o1 = tp_baseline_boot_id (dt_payload t), BMeasurement ''boot identity''),
        (ob_booted_entry o1 \<noteq> en_id (mp_experimental_entry p) \<or> ob_kernel_release o1 \<noteq> bo_kernel_release (mp_boot p) \<or>
         ob_command_line o1 \<noteq> en_options (mp_experimental_entry p) \<or>
         \<not> str_contains (ob_command_line o1) (mp_validation_marker p), BMeasurement ''boot readback''),
        (ob_zswap o1 \<noteq> mp_experimental_zswap p \<or> \<not> same_zram (ob_protected_zram o1) (mp_protected_zram p) \<or>
         \<not> same_topology (ob_topology o1) (mp_topology p) \<or> \<not> ob_unit_active o1 \<or> \<not> ob_workload_scope_absent o1,
         BMeasurement ''runtime identity'')]) (\<lambda>_.
     rbind (ok_or (BMeasurement ''swap absent'') (find (\<lambda>s. path_eq (si_path s) (si_path (mp_swapfile p))) (ob_swaps o1))) (\<lambda>swap.
     first_error [(measurement_rejected p swap o1, BMeasurement ''safety or measurement gate'')])))))"

subsection \<open>After the return to the baseline\<close>

record baseline_restore_observation =
  br_schema :: string
  br_boot_id :: string
  br_booted_entry :: string
  br_command_line :: string
  br_zswap :: zswap_identity
  br_protected_zram :: zram_identity
  br_swaps :: "swap_identity list"
  br_default_entry :: string
  br_boot_order :: "string list"
  br_one_shot :: "string option"
  br_production_activation :: bool

definition verify_baseline_before_cleanup_v6 :: "prepared_manifest \<Rightarrow> durable_transaction \<Rightarrow>
    baseline_restore_observation \<Rightarrow> (boot_error, unit) result" where
  "verify_baseline_before_cleanup_v6 m t o1 = (let p = pm_payload m in first_error
     [(br_schema o1 \<noteq> FINAL_RESTORE_SCHEMA_V6 \<or> tp_stage (dt_payload t) \<noteq> StBaselineBoot \<or>
       br_boot_id o1 = tp_baseline_boot_id (dt_payload t) \<or> br_booted_entry o1 \<noteq> en_id (bo_current_entry (mp_boot p)) \<or>
       br_command_line o1 \<noteq> bo_current_command_line (mp_boot p) \<or> str_contains (br_command_line o1) (mp_validation_marker p) \<or>
       br_zswap o1 \<noteq> mp_baseline_zswap p \<or> \<not> same_zram (br_protected_zram o1) (mp_protected_zram p) \<or>
       \<not> list_all2 same_swap (br_swaps o1) (mp_baseline_swaps p) \<or>
       br_default_entry o1 \<noteq> en_id (bo_default_entry (mp_boot p)) \<or> br_boot_order o1 \<noteq> bo_boot_order (mp_boot p) \<or>
       br_one_shot o1 \<noteq> bo_prior_one_shot (mp_boot p) \<or> br_production_activation o1,
       BReadback ''baseline must be proven before deletion'')])"

subsection \<open>Same-host evidence\<close>

record zram_baseline_evidence =
  zb_schema :: string
  zb_validation_id :: string
  zb_source_commit :: string
  zb_source_state_sha256 :: string
  zb_environment_sha256 :: string
  zb_topology_sha256 :: string
  zb_workload_sha256 :: string
  zb_real :: bool
  zb_oom :: bool
  zb_safety_failure :: bool
  zb_cleanup_passed :: bool
  zb_final_restore_passed :: bool
  zb_archive_sha256 :: string
  zb_raw_evidence_sha256 :: string
  zb_workload_protocol :: string

record baseline_measurement =
  bm_schema :: string
  bm_validation_id :: string
  bm_boot_id :: string
  bm_zram :: zram_identity
  bm_zswap :: zswap_identity
  bm_swaps :: "swap_identity list"
  bm_workload_protocol :: string
  bm_workload_sha256 :: string
  bm_bytes_touched :: u64
  bm_latency_ns :: "u64 option"
  bm_cgroup_oom_delta :: "u64 option"
  bm_cgroup_oom_kill_delta :: "u64 option"
  bm_content_verified :: bool
  bm_cleanup_passed :: bool
  bm_scope_absent :: bool
  bm_production_activation :: bool

record profile_evidence =
  pe_schema :: string
  pe_validation_id :: string
  pe_profile :: storage_profile
  pe_source_commit :: string
  pe_source_state_sha256 :: string
  pe_environment_sha256 :: string
  pe_topology_sha256 :: string
  pe_workload_sha256 :: string
  pe_real :: bool
  pe_oom :: bool
  pe_safety_failure :: bool
  pe_cleanup_passed :: bool
  pe_final_restore_passed :: bool
  pe_write_budget_passed :: bool
  pe_backing_write_bytes :: "u64 option"
  pe_latency_ns :: "u64 option"
  pe_archive_sha256 :: string
  pe_raw_evidence_sha256 :: string
  pe_workload_protocol :: string
  pe_backing_write_confidence :: string

definition matching_same_host_evidence_v6 :: "zram_baseline_evidence \<Rightarrow> profile_evidence \<Rightarrow> storage_profile \<Rightarrow> bool" where
  "matching_same_host_evidence_v6 b p profile \<longleftrightarrow> zb_schema b = ZRAM_BASELINE_EVIDENCE_V6 \<and>
     pe_schema p = PROFILE_BENCHMARK_EVIDENCE_V6 \<and> pe_profile p = profile \<and> zb_validation_id b = pe_validation_id p \<and>
     zb_source_commit b = pe_source_commit p \<and> zb_source_state_sha256 b = pe_source_state_sha256 p \<and>
     zb_environment_sha256 b = pe_environment_sha256 p \<and> zb_topology_sha256 b = pe_topology_sha256 p \<and>
     zb_workload_sha256 b = pe_workload_sha256 p \<and> zb_real b \<and> pe_real p \<and> \<not> zb_oom b \<and> \<not> pe_oom p \<and>
     \<not> zb_safety_failure b \<and> \<not> pe_safety_failure p \<and> zb_cleanup_passed b \<and> pe_cleanup_passed p \<and>
     zb_final_restore_passed b \<and> pe_final_restore_passed p \<and> pe_write_budget_passed p \<and>
     pe_backing_write_bytes p \<noteq> None \<and> pe_latency_ns p \<noteq> None \<and> is_sha256 (zb_archive_sha256 b) \<and>
     is_sha256 (pe_archive_sha256 p) \<and> is_sha256 (zb_raw_evidence_sha256 b) \<and> is_sha256 (pe_raw_evidence_sha256 p) \<and>
     zb_workload_protocol b = WORKLOAD_PROTOCOL_V6 \<and> pe_workload_protocol p = WORKLOAD_PROTOCOL_V6 \<and>
     pe_backing_write_confidence p = ''bounded-physical-device-attributed''"

definition recovery_action_v6 :: "boot_stage \<Rightarrow> bool \<Rightarrow> string" where
  "recovery_action_v6 stage experimental = (
     if stage \<in> {StPrepared, StRootPreflighted, StBaselineMeasuring, StBaselineMeasured, StApplying, StApplied}
     then ''remove_exact_owned_before_reboot''
     else if stage \<in> {StOneShotSelecting, StOneShotSelected} \<and> \<not> experimental
     then ''clear_exact_owned_oneshot_then_remove''
     else if stage \<in> {StOneShotSelecting, StOneShotSelected, StExperimentalBootDetected, StActivationPreparing,
       StZswapDisabling, StZswapParametersApplying, StZswapEnabling, StSwapActivating, StActivationVerified,
       StActivationFailed, StPostBootMeasuring, StPostBootValidated, StBaselineSelecting}
     then ''select_exact_baseline_oneshot_preserve_artifacts''
     else if stage \<in> {StBaselineSelected, StBaselineBoot} then ''verify_baseline_preserve_artifacts''
     else if stage \<in> {StBaselineVerified, StCleaning} then ''resume_exact_cleanup''
     else if stage \<in> {StRestored, StRecovered} then ''no_op''
     else ''inspect_primary_error_and_resume_stage_aware'')"

end
