(* ===== verification/Tiering_Plan.thy ===== *)
theory Tiering_Plan
  imports Tiering_Storage Boot_Observation
begin

text \<open>
  The plans of the tiering crate (\<open>tiering/src/swapfile.rs\<close>, \<open>plan.rs\<close> and \<open>report.rs\<close>): where a backing swapfile
  may be created and how large, the zswap pool, the files a boot configuration would touch, and
  the recommendation of a backend with the audit report of the daemon that holds it. Every plan
  is a record with the reasons that block it.
\<close>

datatype filesystem_kind = Ext4 | Btrfs | UnsupportedFs

datatype swapfile_ownership = SwapNemorOwned | SwapAdopted | SwapExternal | SwapUnknown

record swapfile_context =
  sc_path :: string
  sc_parent_canonical :: string
  sc_mountpoint :: string
  sc_filesystem :: filesystem_kind
  sc_topology :: storage_topology
  sc_total_ram_bytes :: u64
  sc_zram_size_bytes :: u64
  sc_free_bytes :: u64
  sc_filesystem_size_bytes :: u64
  sc_capacity_target_bytes :: u64
  sc_btrfs_nocow :: bool
  sc_btrfs_preallocated :: bool
  sc_has_holes :: bool
  sc_active_external :: bool
  sc_ownership :: swapfile_ownership
  sc_gaming :: bool
  sc_severe_pressure :: bool

record swapfile_plan =
  sw_path :: string
  sw_mountpoint :: string
  sw_filesystem :: filesystem_kind
  sw_backing_device :: string
  sw_physical_device_class :: storage_class
  sw_proposed_size :: u64
  sw_priority :: i32
  sw_free_bytes :: u64
  sw_required_headroom_bytes :: u64
  sw_ownership :: swapfile_ownership
  sw_create_required :: bool
  sw_format_required :: bool
  sw_activate_required :: bool
  sw_persistence_requested :: bool
  sw_allowed :: bool
  sw_blocked_reasons :: "string list"
  sw_dry_run :: bool

definition validate_candidate_path :: "string \<Rightarrow> string \<Rightarrow> (string, unit) result" where
  "validate_candidate_path path parent = (
     if \<not> is_absolute path \<or> list_ex (\<lambda>c. c \<in> {ParentDir, CurDir}) (path_components path)
     then Err ''swapfile path must be absolute and normalized''
     else if path_file_name path \<noteq> Some ''nemor-tiering.swap'' then Err ''swapfile name is outside the Nemor-owned namespace''
     else case path_parent path of
       None \<Rightarrow> Err ''swapfile parent is missing''
     | Some cs \<Rightarrow> if cs \<noteq> path_components parent \<or> \<not> is_absolute parent
         then Err ''swapfile parent canonicalization mismatch'' else Ok ())"

text \<open>The serialised names of the storage profiles.\<close>

fun profile_name :: "storage_profile \<Rightarrow> string" where
  "profile_name NvmeSsd = ''nvme_ssd''"
| "profile_name SataSsd = ''sata_ssd''"
| "profile_name SasSsd = ''sas_ssd''"
| "profile_name UsbSsd = ''usb_ssd''"
| "profile_name OtherNonRotational = ''other_non_rotational''"
| "profile_name Rotational = ''rotational''"
| "profile_name Composite = ''composite''"
| "profile_name Virtual = ''virtual''"
| "profile_name AmbiguousProfile = ''ambiguous''"

definition swapfile_size :: "swapfile_context \<Rightarrow> tiering_config \<Rightarrow> u64" where
  "swapfile_size x c = (let percent_limit = sat_mul (sc_filesystem_size_bytes x) (ucast (tier_max_swapfile_percent_disk c)) div 100 in
     min (min (max (sc_capacity_target_bytes x) (sc_total_ram_bytes x div 4)) (sat_mul (sc_total_ram_bytes x) 2)) percent_limit)"

definition swapfile_headroom :: "tiering_config \<Rightarrow> u64" where
  "swapfile_headroom c = sat_mul (tier_min_free_disk_gib c) 1073741824"

definition swapfile_checks :: "tiering_config \<Rightarrow> swapfile_context \<Rightarrow> (bool \<times> string) list" where
  "swapfile_checks c x = (case validate_candidate_path (sc_path x) (sc_parent_canonical x) of Inl e \<Rightarrow> [(True, e)] | Inr _ \<Rightarrow> []) @
    [(sc_active_external x, ''candidate_is_external_active_swap''),
     (sc_ownership x \<noteq> SwapNemorOwned, ''swapfile_not_nemor_owned'')] @
    (case sc_filesystem x of
       Ext4 \<Rightarrow> [(sc_has_holes x, ''ext4_swapfile_has_holes'')]
     | Btrfs \<Rightarrow> [(\<not> sc_btrfs_nocow x, ''btrfs_swapfile_requires_nocow''),
         (\<not> sc_btrfs_preallocated x \<or> sc_has_holes x, ''btrfs_swapfile_requires_valid_preallocation'')]
     | UnsupportedFs \<Rightarrow> [(True, ''unsupported_filesystem'')]) @
    [(sg_ambiguous (sc_topology x) \<or> sg_physical (sc_topology x) = None, ''backing_storage_ambiguous''),
     (is_none_or (\<lambda>p. profile_name p \<notin> set (tier_supported_storage_profiles c)) (sg_profile (sc_topology x)),
        ''storage_profile_not_authorized''),
     (sc_gaming x, ''gaming_defers_structural_io''),
     (sc_severe_pressure x, ''severe_pressure_blocks_reconfiguration''),
     (\<not> tier_allow_swapfile_create c, ''swapfile_creation_disabled''),
     (sc_free_bytes x < sat_add (swapfile_size x c) (swapfile_headroom c), ''insufficient_disk_headroom'')]"

definition plan_swapfile :: "tiering_config \<Rightarrow> swapfile_context \<Rightarrow> swapfile_plan" where
  "plan_swapfile c x = (let blocked = fired (swapfile_checks c x) in
     \<lparr> sw_path = sc_path x, sw_mountpoint = sc_mountpoint x, sw_filesystem = sc_filesystem x,
       sw_backing_device = sg_mount_source (sc_topology x),
       sw_physical_device_class = (case sg_physical (sc_topology x) of None \<Rightarrow> UnknownClass | Some d \<Rightarrow> bd_class d),
       sw_proposed_size = swapfile_size x c, sw_priority = 10, sw_free_bytes = sc_free_bytes x,
       sw_required_headroom_bytes = swapfile_headroom c, sw_ownership = sc_ownership x, sw_create_required = True,
       sw_format_required = True, sw_activate_required = True, sw_persistence_requested = tier_allow_persistent_reconfigure c,
       sw_allowed = (blocked = []), sw_blocked_reasons = blocked, sw_dry_run = tier_dry_run c \<rparr>)"

interpretation swapfile_gate: reason_gate "swapfile_checks c" sw_blocked_reasons sw_allowed "plan_swapfile c" for c
  by unfold_locales (simp_all add: plan_swapfile_def Let_def)

subsection \<open>The zswap pool\<close>

datatype tier_backend_kind = ZramBackend | ZswapStorageBacked | ZswapNvme | ExternalBackend | MixedBackend

datatype pool_intent = ConservativePool | GamingPool | CapacityPool

record tier_benchmark_evidence =
  te_backend :: tier_backend_kind
  te_real :: bool
  te_cpu_time_ns :: u64
  te_wall_time_ns :: u64
  te_compression_ratio :: "f64 option"
  te_swap_latency_ns :: "u64 option"
  te_backing_write_bytes :: "u64 option"
  te_oom :: bool

record pool_plan =
  pp_intent :: pool_intent
  pp_compressor :: "string option"
  pp_zpool :: "string option"
  pp_max_pool_percent :: u8
  pp_accept_threshold_percent :: u8
  pp_shrinker_enabled :: bool
  pp_backing_swapfile :: "string option"
  pp_rule_version :: string
  pp_blocked_reasons :: "string list"
  pp_requires_reboot :: bool
  pp_dry_run :: bool

record pool_context =
  px_intent :: pool_intent
  px_inventory :: zswap_inventory
  px_swapfile :: swapfile_plan
  px_benchmark :: "tier_benchmark_evidence option"
  px_budget :: budget_decision
  px_pressure :: pressure_state
  px_gaming :: bool

text \<open>\<open>clamp\<close> panics when its bounds are out of order.\<close>

definition plan_pool :: "pool_context \<Rightarrow> tiering_config \<Rightarrow> pool_plan option" where
  "plan_pool x c = map_option (\<lambda>max_pool.
     let benchmark_ready = is_some_and (\<lambda>v. te_real v \<and> \<not> te_oom v \<and> te_backing_write_bytes v \<noteq> None) (px_benchmark x);
       parameters = zv_parameters (px_inventory x) in
     \<lparr> pp_intent = px_intent x, pp_compressor = zw_compressor parameters, pp_zpool = zw_zpool parameters,
       pp_max_pool_percent = max_pool,
       pp_accept_threshold_percent = unwrap_or 90 (zw_accept_threshold_percent parameters),
       pp_shrinker_enabled = (tier_allow_shrinker c \<and> px_intent x = CapacityPool \<and> benchmark_ready \<and> bg_allowed (px_budget x) \<and>
         \<not> px_gaming x \<and> px_pressure x \<in> {Normal, Watch}),
       pp_backing_swapfile = (if sw_allowed (px_swapfile x) then Some (sw_path (px_swapfile x)) else None),
       pp_rule_version = TIERING_RULE_VERSION,
       pp_blocked_reasons = fired [(\<not> zv_supported (px_inventory x), ''zswap_unsupported''),
         (\<not> sw_allowed (px_swapfile x), ''backing_swapfile_unavailable''),
         (px_gaming x, ''gaming_defers_global_zswap_change''),
         (px_pressure x \<in> {Critical, Emergency}, ''severe_pressure_blocks_global_change''),
         (\<not> bg_allowed (px_budget x), ''write_budget_exceeded''),
         (\<not> tier_allow_runtime_reconfigure c, ''runtime_reconfigure_disabled'')],
       pp_requires_reboot = (ps_conflict (zv_provider (px_inventory x)) \<or> \<not> unwrap_or False (zw_enabled parameters)),
       pp_dry_run = tier_dry_run c \<rparr>) (clamp (tier_zswap_pool_max_percent c) (tier_zswap_pool_min_percent c) 100)"

subsection \<open>Boot configuration\<close>

record boot_file_plan =
  bf_path :: string
  bf_action :: string
  bf_backup_required :: bool
  bf_checksum_required :: bool

record boot_tiering_plan =
  bp_bootloader :: "string option"
  bp_zram_disable_requirement :: bool
  bp_zswap_kernel_params :: "string list"
  bp_cachyos_udev_override :: "string option"
  bp_backing_swapfile :: string
  bp_files :: "boot_file_plan list"
  bp_post_reboot_validation :: "string list"
  bp_rollback :: "string list"
  bp_requires_user_approval :: bool
  bp_allowed :: bool
  bp_blocked_reasons :: "string list"

definition cmdline_path :: "string option \<Rightarrow> string option" where
  "cmdline_path loader = (if loader = Some ''grub'' then Some ''/etc/default/grub''
     else if loader = Some ''systemd-boot'' then Some ''/boot/loader/loader.conf''
     else if loader = Some ''kernel-install/uki'' then Some ''/etc/kernel/cmdline'' else None)"

definition boot_files :: "zswap_inventory \<Rightarrow> boot_file_plan list" where
  "boot_files v = (case cmdline_path (ps_bootloader (zv_provider v)) of None \<Rightarrow> []
      | Some p \<Rightarrow> [\<lparr> bf_path = p, bf_action = ''add bounded zswap kernel parameters'', bf_backup_required = True,
          bf_checksum_required = True \<rparr>]) @
     (if ps_cachyos_zswap_disable_rule (zv_provider v)
      then [\<lparr> bf_path = ''/etc/udev/rules.d/30-zram.rules'', bf_action = ''Nemor-owned override; never modify /usr/lib'',
          bf_backup_required = True, bf_checksum_required = True \<rparr>] else [])"

definition boot_checks :: "zswap_inventory \<times> swapfile_plan \<Rightarrow> (bool \<times> string) list" where
  "boot_checks vs = (case vs of (v, s) \<Rightarrow>
     [(ps_bootloader (zv_provider v) = None, ''bootloader_unknown''),
      (\<not> sw_allowed s, ''swapfile_plan_blocked''),
      (sw_physical_device_class s \<notin> {NvmeClass, SolidStateNonNvme}, ''storage_profile_unsupported''),
      (ps_bootloader (zv_provider v) = Some ''systemd-boot/kernel-install-uki'', ''validation_only_manifest_required''),
      (list_ex (\<lambda>f. path_starts_with (bf_path f) ''/usr/lib'') (boot_files v), ''vendor_path_forbidden'')])"

definition boot_plan :: "zswap_inventory \<times> swapfile_plan \<Rightarrow> boot_tiering_plan" where
  "boot_plan vs = (case vs of (v, s) \<Rightarrow> let blocked = fired (boot_checks vs) in
     \<lparr> bp_bootloader = ps_bootloader (zv_provider v), bp_zram_disable_requirement = ps_systemd_zram (zv_provider v),
       bp_zswap_kernel_params = [''zswap.enabled=1'', ''zswap.max_pool_percent=<planned>'', ''zswap.accept_threshold_percent=<planned>''],
       bp_cachyos_udev_override = (if ps_cachyos_zswap_disable_rule (zv_provider v) then Some ''/etc/udev/rules.d/30-zram.rules'' else None),
       bp_backing_swapfile = sw_path s, bp_files = boot_files v,
       bp_post_reboot_validation = [''verify zswap parameter readback'', ''verify exact profile-bound storage-backed swapfile'',
          ''verify daemon remains observe-only''],
       bp_rollback = [''restore checksummed backups'', ''remove only Nemor-owned override'', ''reboot and verify CachyOS baseline''],
       bp_requires_user_approval = True, bp_allowed = (blocked = []), bp_blocked_reasons = blocked \<rparr>)"

interpretation boot_gate: reason_gate boot_checks bp_blocked_reasons bp_allowed boot_plan
  by unfold_locales (simp_all add: boot_plan_def Let_def split: prod.splits)

subsection \<open>Recommendation\<close>

record profile_benchmark_evidence =
  pb_contract_version :: string
  pb_profile :: storage_profile
  pb_device_identity :: string
  pb_filesystem_identity :: string
  pb_source_state :: string
  pb_environment_identity :: string
  pb_real :: bool
  pb_cleanup_passed :: bool
  pb_restore_passed :: bool
  pb_safety_failure :: bool
  pb_compression_ratio :: "f64 option"
  pb_swap_latency_ns :: "u64 option"
  pb_backing_write_bytes :: "u64 option"
  pb_oom :: bool

record recommendation_input =
  ri_current :: tier_backend_kind
  ri_gaming :: bool
  ri_pressure :: pressure_state
  ri_storage :: storage_topology
  ri_zram_benchmark :: "tier_benchmark_evidence option"
  ri_zswap_benchmark :: "tier_benchmark_evidence option"
  ri_profile_evidence :: "profile_benchmark_evidence option"
  ri_same_host_zram_baseline :: "zram_baseline_evidence option"
  ri_same_host_profile_evidence :: "profile_evidence option"
  ri_budget :: budget_decision
  ri_safety_events :: nat
  ri_source_state :: string
  ri_environment_identity :: string

record backend_recommendation =
  rb_selected :: tier_backend_kind
  rb_alternative :: tier_backend_kind
  rb_confidence :: string
  rb_reasons :: "string list"
  rb_evidence :: "string list"
  rb_blocked :: bool
  rb_requires_reboot :: bool
  rb_rule_version :: string
  rb_production_activation :: bool

definition comparison_policy_passes :: "recommendation_input \<Rightarrow> bool" where
  "comparison_policy_passes i = (case (ri_zram_benchmark i, ri_zswap_benchmark i) of
     (Some zram, Some profile) \<Rightarrow>
       if \<not> te_real zram \<or> \<not> te_real profile \<or> te_oom zram \<or> te_oom profile then False
       else (case (te_swap_latency_ns zram, te_swap_latency_ns profile) of
         (Some base_latency, Some profile_latency) \<Rightarrow>
           profile_latency \<le> sat_mul base_latency (100 + 10) div 100 \<and>
           (case (te_compression_ratio zram, te_compression_ratio profile) of
              (Some base, Some candidate) \<Rightarrow> f64_lt base candidate | _ \<Rightarrow> False) \<and>
           te_backing_write_bytes profile \<noteq> None
       | _ \<Rightarrow> False)
   | _ \<Rightarrow> False)"

definition same_host_ready :: "recommendation_input \<Rightarrow> bool" where
  "same_host_ready i \<longleftrightarrow> is_some_and (\<lambda>b. is_some_and (\<lambda>e.
     is_some_and (matching_same_host_evidence_v6 b e) (sg_profile (ri_storage i)))
     (ri_same_host_profile_evidence i)) (ri_same_host_zram_baseline i)"

text \<open>The names of the profiles in debug output.\<close>

fun profile_debug :: "storage_profile \<Rightarrow> string" where
  "profile_debug NvmeSsd = ''NvmeSsd''"
| "profile_debug SataSsd = ''SataSsd''"
| "profile_debug SasSsd = ''SasSsd''"
| "profile_debug UsbSsd = ''UsbSsd''"
| "profile_debug OtherNonRotational = ''OtherNonRotational''"
| "profile_debug Rotational = ''Rotational''"
| "profile_debug Composite = ''Composite''"
| "profile_debug Virtual = ''Virtual''"
| "profile_debug AmbiguousProfile = ''Ambiguous''"

text \<open>The selected backend, the reasons and the evidence. The profile printed last is that of a supported
  storage, so \<open>expect\<close> does not panic there.\<close>

definition choose_backend :: "recommendation_input \<Rightarrow> tier_backend_kind \<times> string list \<times> string list" where
  "choose_backend i = (let profile = sg_profile (ri_storage i) in
     if ri_gaming i then (ZramBackend, [''gaming_preserves_low_write_current_zram''], [])
     else if ri_pressure i \<in> {Critical, Emergency} then (ZramBackend, [''severe_pressure_blocks_structural_switch''], [])
     else if ri_safety_events i > 0 then (ZramBackend, [''recent_safety_event''], [])
     else if \<not> bg_allowed (ri_budget i) then (ZramBackend, [''write_budget_exceeded''], [])
     else if \<not> is_some_and boot_supported profile then (ZramBackend, [''storage_profile_unsupported''], [])
     else if \<not> same_host_ready i then (ZramBackend, [''same_host_zram_baseline_missing'',
       (if profile = Some SataSsd then ''sata_boot_validation_missing''
        else if profile = Some NvmeSsd then ''nvme_boot_validation_missing'' else ''profile_boot_validation_missing'')], [])
     else if \<not> comparison_policy_passes i then (ZramBackend, [''storage_profile_comparison_missing_or_not_beneficial''], [])
     else (ZswapStorageBacked, [''matching_same_host_profile_evidence''],
       case profile of Some p \<Rightarrow> [''profile='' @ profile_debug p] | None \<Rightarrow> []))"

definition recommend_backend :: "recommendation_input \<Rightarrow> backend_recommendation" where
  "recommend_backend i = (case choose_backend i of (selected, reasons, evidence) \<Rightarrow>
     \<lparr> rb_selected = selected,
       rb_alternative = (if selected = ZramBackend then ZswapStorageBacked else ZramBackend),
       rb_confidence = (if selected = ZswapStorageBacked then ''measured''
          else if ri_current i = ZramBackend then ''conservative'' else ''low''),
       rb_reasons = reasons,
       rb_evidence = evidence @ (if is_some_and te_real (ri_zram_benchmark i) then [''zram_real_baseline''] else []),
       rb_blocked = (selected = ZramBackend \<and> ri_current i \<noteq> ZramBackend),
       rb_requires_reboot = (selected \<noteq> ri_current i), rb_rule_version = TIERING_RULE_VERSION,
       rb_production_activation = False \<rparr>)"

subsection \<open>The audit report\<close>

record tiering_audit_report =
  ta_timestamp_ns :: i64
  ta_zswap :: zswap_inventory
  ta_current_backend :: tier_backend_kind
  ta_root_storage :: storage_topology
  ta_budget :: budget_decision
  ta_recommendation :: backend_recommendation
  ta_rollback_pending :: bool
  ta_recovery_pending :: bool
  ta_requires_boot_validation :: bool
  ta_dry_run :: bool

fun root_mount_lines :: "string list \<Rightarrow> (string \<times> string) option" where
  "root_mount_lines [] = None"
| "root_mount_lines (l # ls) = Option.bind (split_once_str '' - '' l) (\<lambda>(left, right).
     let fields = split_whitespace left in
     if \<not> (4 < length fields \<and> fields ! 4 = ''/'') then root_mount_lines ls
     else (case split_whitespace right of fs # source # _ \<Rightarrow> Some (source, fs) | _ \<Rightarrow> None))"

definition root_mount :: "tiering_host \<Rightarrow> (string \<times> string) option" where
  "root_mount H = Option.bind (ok_opt (hf_read_to_string H ''/proc/self/mountinfo'')) (\<lambda>t. root_mount_lines (lines t))"

definition idle_budget :: budget_decision where
  "idle_budget = \<lparr> bg_allowed = True, bg_instantaneous_mib_per_second = Fin 0, bg_rolling_minute_mib_per_second = Fin 0,
     bg_rolling_hour_gib = Fin 0, bg_daily_gib = Fin 0, bg_annual_tb = Fin 0, bg_reasons = [''no_write_delta_interval_yet''] \<rparr>"

definition tier_inspect_host :: "tiering_host \<Rightarrow> tiering_config \<Rightarrow> i64 \<Rightarrow> (string, tiering_audit_report) result" where
  "tier_inspect_host H c timestamp = (case tier_inspect_linux H ''/'' True of
     Inl e \<Rightarrow> Err (io_text e)
   | Inr zswap \<Rightarrow> (case unwrap_or (''unknown'', ''unknown'') (root_mount H) of (source, fs) \<Rightarrow>
      let storage = inspect_storage H ''/'' source fs;
        enabled = zw_enabled (zv_parameters zswap);
        current = (if enabled = Some True then MixedBackend else ZramBackend) in
      Ok \<lparr> ta_timestamp_ns = timestamp, ta_zswap = zswap, ta_current_backend = current, ta_root_storage = storage,
        ta_budget = idle_budget,
        ta_recommendation = recommend_backend \<lparr> ri_current = current, ri_gaming = False, ri_pressure = Watch, ri_storage = storage,
          ri_zram_benchmark = None, ri_zswap_benchmark = None, ri_profile_evidence = None, ri_same_host_zram_baseline = None,
          ri_same_host_profile_evidence = None, ri_budget = idle_budget, ri_safety_events = 0,
          ri_source_state = ''unverified'', ri_environment_identity = ''unverified'' \<rparr>,
        ta_rollback_pending = False, ta_recovery_pending = False,
        ta_requires_boot_validation = (enabled \<noteq> Some True \<or> ps_conflict (zv_provider zswap)),
        ta_dry_run = tier_dry_run c \<rparr>))"

subsection \<open>Properties\<close>

lemma unat_min_word: "unat (min a b) = min (unat a) (unat (b :: 'a::len word))"
  by (simp add: min_def word_le_nat_alt)

lemma size_bounds:
  "unat (swapfile_size x c) \<le> 2 * unat (sc_total_ram_bytes x)"
  "100 * unat (swapfile_size x c) \<le> unat (sc_filesystem_size_bytes x) * unat (tier_max_swapfile_percent_disk c)"
proof -
  have "unat (swapfile_size x c) \<le> unat (sat_mul (sc_total_ram_bytes x) 2)"
    unfolding swapfile_size_def Let_def unat_min_word by simp
  then show "unat (swapfile_size x c) \<le> 2 * unat (sc_total_ram_bytes x)" by (simp add: sat_simps)
  let ?p = "sat_mul (sc_filesystem_size_bytes x) (ucast (tier_max_swapfile_percent_disk c))"
  have "unat (swapfile_size x c) \<le> unat (?p div 100)"
    unfolding swapfile_size_def Let_def unat_min_word by simp
  also have "\<dots> = unat ?p div 100" by (simp add: unat_div)
  finally have "100 * unat (swapfile_size x c) \<le> unat ?p" by (simp add: div_le_dividend less_eq_div_iff_mult_less_eq mult.commute)
  also have "\<dots> \<le> unat (sc_filesystem_size_bytes x) * unat (tier_max_swapfile_percent_disk c)"
    by (simp add: sat_simps unat_ucast_up)
  finally show "100 * unat (swapfile_size x c) \<le> unat (sc_filesystem_size_bytes x) * unat (tier_max_swapfile_percent_disk c)" .
qed

lemma path_split:
  "path_file_name p = Some n \<Longrightarrow> path_parent p = Some cs \<Longrightarrow> path_components p = cs @ [NormalPart n]"
  by (auto simp: path_file_name_def path_parent_def rev_eq_Cons_iff split: list.splits path_component.splits)

lemma candidate_path:
  assumes "validate_candidate_path path parent = Ok ()"
  shows "path_components path = path_components parent @ [NormalPart ''nemor-tiering.swap''] \<and>
    ParentDir \<notin> set (path_components path) \<and> is_absolute path"
  using assms path_split [of path "''nemor-tiering.swap''"]
  by (auto simp: validate_candidate_path_def list_ex_iff split: if_splits option.splits)

text \<open>C15. An allowed swapfile plan is safe. Its path is, component by component, \<open>nemor-tiering.swap\<close> in the canonical
  parent directory and climbs nowhere; it is Nemor's own file on a supported file system without holes and a
  storage of an authorised profile with a known physical device; its size is at most twice the memory
  and at most the configured share of the file system, computed without overflow, and leaves the configured
  headroom free (or the free space is the largest number); and nothing is planned
  while gaming or under severe pressure.\<close>

theorem swapfile_plan_safe:
  assumes "sw_allowed (plan_swapfile c x)"
  shows "path_components (sw_path (plan_swapfile c x)) = path_components (sc_parent_canonical x) @ [NormalPart ''nemor-tiering.swap''] \<and>
    ParentDir \<notin> set (path_components (sw_path (plan_swapfile c x))) \<and>
    sc_ownership x = SwapNemorOwned \<and> \<not> sc_active_external x \<and> sc_filesystem x \<noteq> UnsupportedFs \<and> \<not> sc_has_holes x \<and>
    \<not> sg_ambiguous (sc_topology x) \<and> sg_physical (sc_topology x) \<noteq> None \<and>
    (\<exists>p. sg_profile (sc_topology x) = Some p \<and> profile_name p \<in> set (tier_supported_storage_profiles c)) \<and>
    \<not> sc_gaming x \<and> \<not> sc_severe_pressure x \<and>
    unat (sw_proposed_size (plan_swapfile c x)) \<le> 2 * unat (sc_total_ram_bytes x) \<and>
    100 * unat (sw_proposed_size (plan_swapfile c x)) \<le> unat (sc_filesystem_size_bytes x) * unat (tier_max_swapfile_percent_disk c) \<and>
    (unat (sw_proposed_size (plan_swapfile c x)) + unat (tier_min_free_disk_gib c) * 2 ^ 30 \<le> unat (sc_free_bytes x) \<or>
     sc_free_bytes x = - 1)"
proof -
  have ok: "fired (swapfile_checks c x) = []" using assms by (simp add: plan_swapfile_def Let_def)
  have p: "sw_path (plan_swapfile c x) = sc_path x" "sw_proposed_size (plan_swapfile c x) = swapfile_size x c"
    by (simp_all add: plan_swapfile_def Let_def)
  have "validate_candidate_path (sc_path x) (sc_parent_canonical x) = Ok ()"
    using ok by (cases "validate_candidate_path (sc_path x) (sc_parent_canonical x)") (simp_all add: swapfile_checks_def)
  note path = candidate_path [OF this]
  have basic: "sc_ownership x = SwapNemorOwned" "\<not> sc_active_external x" "\<not> sc_gaming x" "\<not> sc_severe_pressure x"
    "\<not> (sg_ambiguous (sc_topology x) \<or> sg_physical (sc_topology x) = None)"
    "\<not> is_none_or (\<lambda>p. profile_name p \<notin> set (tier_supported_storage_profiles c)) (sg_profile (sc_topology x))"
    "\<not> sc_free_bytes x < sat_add (swapfile_size x c) (swapfile_headroom c)"
    using ok by (simp_all add: swapfile_checks_def split: if_splits)
  have fs: "sc_filesystem x \<noteq> UnsupportedFs \<and> \<not> sc_has_holes x"
    using ok by (cases "sc_filesystem x") (simp_all add: swapfile_checks_def split: if_splits)
  have "unat (sat_add (swapfile_size x c) (swapfile_headroom c)) \<le> unat (sc_free_bytes x)"
    using basic(7) by (simp add: word_le_nat_alt not_less)
  then have "min (unat (swapfile_size x c) + min (unat (tier_min_free_disk_gib c) * 2 ^ 30) (2 ^ 64 - 1)) (2 ^ 64 - 1) \<le> unat (sc_free_bytes x)"
    by (simp add: swapfile_headroom_def sat_simps)
  moreover have "sc_free_bytes x = - 1" if "2 ^ 64 - 1 \<le> unat (sc_free_bytes x)"
  proof -
    have "unat (sc_free_bytes x) < 2 ^ LENGTH(64)" by (rule unsigned_less)
    then show ?thesis using that by (intro word_unat_eq_iff [THEN iffD2]) (simp add: unat_max_word)
  qed
  ultimately have "unat (swapfile_size x c) + unat (tier_min_free_disk_gib c) * 2 ^ 30 \<le> unat (sc_free_bytes x) \<or> sc_free_bytes x = - 1"
    by (auto simp: min_def split: if_splits)
  then show ?thesis
    using path basic fs size_bounds [of x c] by (auto simp: p is_none_or_iff)
qed

text \<open>A plan on the default configuration with creation enabled.\<close>

definition example_device :: block_device where
  "example_device = \<lparr> bd_name = ''nvme0n1'', bd_class = NvmeClass, bd_rotational = Some False, bd_logical_block_size = Some 512,
     bd_physical_block_size = Some 4096, bd_discard_max_bytes = None, bd_model = None, bd_transport = Some ''nvme'',
     bd_serial = None, bd_wwn = None, bd_capacity_bytes = Some 1000000000000 \<rparr>"

definition example_topology :: storage_topology where
  "example_topology = \<lparr> sg_mount_source = ''/dev/nvme0n1p2'', sg_filesystem = ''ext4'', sg_chain = [''nvme0n1p2'', ''nvme0n1''],
     sg_physical = Some example_device, sg_ambiguous = False, sg_profile_version = STORAGE_PROFILE_VERSION,
     sg_profile = Some NvmeSsd, sg_device_identity = None, sg_filesystem_identity = None \<rparr>"

definition example_swapfile :: swapfile_context where
  "example_swapfile = \<lparr> sc_path = ''/var/lib/nemor/swap/nemor-tiering.swap'', sc_parent_canonical = ''/var/lib/nemor/swap'',
     sc_mountpoint = ''/'', sc_filesystem = Ext4, sc_topology = example_topology, sc_total_ram_bytes = 17179869184,
     sc_zram_size_bytes = 8589934592, sc_free_bytes = 500000000000, sc_filesystem_size_bytes = 900000000000,
     sc_capacity_target_bytes = 8589934592, sc_btrfs_nocow = False, sc_btrfs_preallocated = False, sc_has_holes = False,
     sc_active_external = False, sc_ownership = SwapNemorOwned, sc_gaming = False, sc_severe_pressure = False \<rparr>"

definition creating_config :: tiering_config where
  "creating_config = (tiering default_config)\<lparr> tier_allow_swapfile_create := True \<rparr>"

lemma example_swapfile_allowed: "sw_allowed (plan_swapfile creating_config example_swapfile)"
proof -
  have "validate_candidate_path ''/var/lib/nemor/swap/nemor-tiering.swap'' ''/var/lib/nemor/swap'' = Ok ()" by code_simp
  then show ?thesis
    by (simp add: plan_swapfile_def swapfile_checks_def example_swapfile_def example_topology_def creating_config_def default_config_def
        swapfile_size_def swapfile_headroom_def sat_mul_def sat_add_def Let_def)
qed

theorem swapfile_plan_safe_witness:
  "unat (sw_proposed_size (plan_swapfile creating_config example_swapfile)) \<le> 2 * 17179869184"
  using swapfile_plan_safe [OF example_swapfile_allowed] by (simp add: example_swapfile_def)

text \<open>C19. Storage-backed zswap is recommended only on evidence from this host. The recommendation selects it exactly
  when the host is neither gaming nor under severe pressure, there is no recent safety event, the
  write budget holds, the profile of the storage may be validated by booting, the sealed baseline and
  profile records of one validation match each other and this profile, and the benchmarks show a better
  compression ratio at a latency at most a tenth higher; and it never activates anything.\<close>

theorem storage_backed_needs_evidence:
  "(rb_selected (recommend_backend i) = ZswapStorageBacked \<longleftrightarrow>
      \<not> ri_gaming i \<and> ri_pressure i \<notin> {Critical, Emergency} \<and> ri_safety_events i = 0 \<and> bg_allowed (ri_budget i) \<and>
      (\<exists>p b e. sg_profile (ri_storage i) = Some p \<and> boot_supported p \<and> ri_same_host_zram_baseline i = Some b \<and>
         ri_same_host_profile_evidence i = Some e \<and> matching_same_host_evidence_v6 b e p) \<and>
      (\<exists>z s zl sl zr sr. ri_zram_benchmark i = Some z \<and> ri_zswap_benchmark i = Some s \<and> te_real z \<and> te_real s \<and>
         \<not> te_oom z \<and> \<not> te_oom s \<and> te_swap_latency_ns z = Some zl \<and> te_swap_latency_ns s = Some sl \<and>
         sl \<le> sat_mul zl 110 div 100 \<and> te_compression_ratio z = Some zr \<and> te_compression_ratio s = Some sr \<and>
         f64_lt zr sr \<and> te_backing_write_bytes s \<noteq> None)) \<and>
   rb_selected (recommend_backend i) \<in> {ZramBackend, ZswapStorageBacked} \<and>
   rb_selected (recommend_backend i) \<noteq> rb_alternative (recommend_backend i) \<and>
   \<not> rb_production_activation (recommend_backend i)"
proof -
  have sel: "rb_selected (recommend_backend i) = fst (choose_backend i)" "\<not> rb_production_activation (recommend_backend i)"
    "rb_alternative (recommend_backend i) = (if fst (choose_backend i) = ZramBackend then ZswapStorageBacked else ZramBackend)"
    by (simp_all add: recommend_backend_def split: prod.splits)
  have ch: "fst (choose_backend i) = (if \<not> ri_gaming i \<and> ri_pressure i \<notin> {Critical, Emergency} \<and> ri_safety_events i = 0 \<and>
      bg_allowed (ri_budget i) \<and> is_some_and boot_supported (sg_profile (ri_storage i)) \<and> same_host_ready i \<and>
      comparison_policy_passes i then ZswapStorageBacked else ZramBackend)"
    by (simp add: choose_backend_def Let_def)
  have ev: "is_some_and boot_supported (sg_profile (ri_storage i)) \<and> same_host_ready i \<longleftrightarrow>
      (\<exists>p b e. sg_profile (ri_storage i) = Some p \<and> boot_supported p \<and> ri_same_host_zram_baseline i = Some b \<and>
         ri_same_host_profile_evidence i = Some e \<and> matching_same_host_evidence_v6 b e p)"
    by (auto simp: same_host_ready_def is_some_and_iff)
  have cmp: "comparison_policy_passes i \<longleftrightarrow>
      (\<exists>z s zl sl zr sr. ri_zram_benchmark i = Some z \<and> ri_zswap_benchmark i = Some s \<and> te_real z \<and> te_real s \<and>
         \<not> te_oom z \<and> \<not> te_oom s \<and> te_swap_latency_ns z = Some zl \<and> te_swap_latency_ns s = Some sl \<and>
         sl \<le> sat_mul zl 110 div 100 \<and> te_compression_ratio z = Some zr \<and> te_compression_ratio s = Some sr \<and>
         f64_lt zr sr \<and> te_backing_write_bytes s \<noteq> None)"
    by (auto simp: comparison_policy_passes_def split: option.splits if_splits)
  show ?thesis using sel(2) unfolding sel(1,3) ch ev [symmetric] cmp [symmetric] by auto
qed

end
