(* ===== verification/Zram_Inventory.thy ===== *)
theory Zram_Inventory
  imports Host Float64
begin

text \<open>
  The zram crate's view of the host: parsing of the sysfs and \<open>/proc/swaps\<close> texts and the whole
  inspection (\<open>crates/zram/src/inventory.rs\<close>), the compression metrics (\<open>metrics.rs\<close>) and the
  benchmark evidence (\<open>benchmark.rs\<close>). The file system is a parameter.
\<close>

unbundle bit_operations_syntax

datatype zram_error =
  ZRead string io_error
| ZParse string string
| ZBlocked string
| ZBackend string string
| ZVerification string

datatype provider = SystemdGenerator | DistroUdev | Manual | ProviderUnknown

datatype ownership = NemorOwned | Adopted | External | OwnershipUnknown

record writable_capabilities =
  wc_hot_add :: bool
  wc_hot_remove :: bool
  wc_algorithm :: bool
  wc_disksize :: bool
  wc_reset :: bool

record mm_stat =
  mm_orig_data_size :: "u64 option"
  mm_compr_data_size :: "u64 option"
  mm_mem_used_total :: "u64 option"
  mm_mem_limit :: "u64 option"
  mm_mem_used_max :: "u64 option"
  mm_same_pages :: "u64 option"
  mm_pages_compacted :: "u64 option"
  mm_huge_pages :: "u64 option"
  mm_huge_pages_since :: "u64 option"

record device_inventory =
  di_name :: string
  di_sysfs_path :: string
  di_device_path :: string
  di_active_swap :: bool
  di_priority :: "i32 option"
  di_disksize :: "u64 option"
  di_initstate :: "bool option"
  di_current_algorithm :: "string option"
  di_available_algorithms :: "string list"
  di_mm_stat :: mm_stat
  di_io_stat :: "u64 list option"
  di_block_stat :: "u64 list option"
  di_bd_stat :: "u64 list option"
  di_recompression_available :: bool
  di_provider :: provider
  di_ownership :: ownership
  di_writable :: writable_capabilities

record inventory =
  inv_available :: bool
  inv_devices :: "device_inventory list"
  inv_unavailable :: "string list"

subsection \<open>Parsing\<close>

definition parse_error :: "string \<Rightarrow> string \<Rightarrow> zram_error" where
  "parse_error field message = ZParse field message"

definition zram_parse_u64 :: "string \<Rightarrow> string \<Rightarrow> (zram_error, u64) result" where
  "zram_parse_u64 field v = map_sum (parse_error field) id (parse_unsigned v)"

text \<open>\<open>map(..).collect::<Result<Vec<_>, _>>()\<close>: stop at the first error.\<close>

fun collect_results :: "('a \<Rightarrow> ('e, 'b) result) \<Rightarrow> 'a list \<Rightarrow> ('e, 'b list) result" where
  "collect_results f [] = Ok []"
| "collect_results f (x # xs) = rbind (f x) (\<lambda>y. rbind (collect_results f xs) (\<lambda>ys. Ok (y # ys)))"

definition parse_numbers :: "string \<Rightarrow> string \<Rightarrow> (zram_error, u64 list) result" where
  "parse_numbers field input = collect_results (zram_parse_u64 field) (split_whitespace input)"

text \<open>\<open>Vec::get\<close>.\<close>

definition nth_opt :: "'a list \<Rightarrow> nat \<Rightarrow> 'a option" where
  "nth_opt xs i = (if i < length xs then Some (xs ! i) else None)"

definition parse_mm_stat :: "string \<Rightarrow> (zram_error, mm_stat) result" where
  "parse_mm_stat input = rbind (parse_numbers ''mm_stat'' input) (\<lambda>vs.
     Ok \<lparr> mm_orig_data_size = nth_opt vs 0, mm_compr_data_size = nth_opt vs 1,
          mm_mem_used_total = nth_opt vs 2, mm_mem_limit = nth_opt vs 3, mm_mem_used_max = nth_opt vs 4,
          mm_same_pages = nth_opt vs 5, mm_pages_compacted = nth_opt vs 6, mm_huge_pages = nth_opt vs 7,
          mm_huge_pages_since = nth_opt vs 8 \<rparr>)"

definition mm_stat_default :: mm_stat where
  "mm_stat_default = \<lparr> mm_orig_data_size = None, mm_compr_data_size = None, mm_mem_used_total = None,
     mm_mem_limit = None, mm_mem_used_max = None, mm_same_pages = None, mm_pages_compacted = None,
     mm_huge_pages = None, mm_huge_pages_since = None \<rparr>"

text \<open>A token of \<open>comp_algorithm\<close>: the selected algorithm stands in brackets.\<close>

definition algorithm_token :: "string \<Rightarrow> string \<times> bool" where
  "algorithm_token t = (case Option.bind (strip_prefix ''['' t) (strip_suffix '']'') of
      None \<Rightarrow> (t, False) | Some v \<Rightarrow> (v, True))"

definition algorithm_name_ok :: "string \<Rightarrow> bool" where
  "algorithm_name_ok n \<longleftrightarrow> n \<noteq> [] \<and> list_all (\<lambda>c. is_ascii_alnum c \<or> c = CHR ''-'' \<or> c = CHR ''_'') n"

fun algorithm_tokens ::
  "string list \<Rightarrow> string option \<Rightarrow> string list \<Rightarrow> (zram_error, string option \<times> string list) result" where
  "algorithm_tokens [] current available = Ok (current, available)"
| "algorithm_tokens (t # ts) current available = (case algorithm_token t of (name, selected) \<Rightarrow>
     if \<not> algorithm_name_ok name then Err (parse_error ''comp_algorithm'' ''invalid algorithm token'')
     else if selected \<and> current \<noteq> None then Err (parse_error ''comp_algorithm'' ''multiple selected algorithms'')
     else algorithm_tokens ts (if selected then Some name else current) (available @ [name]))"

text \<open>\<open>sort\<close> and \<open>dedup\<close>.\<close>

definition sort_dedup :: "string list \<Rightarrow> string list" where
  "sort_dedup xs = remdups_adj (sort xs)"

definition parse_algorithms :: "string \<Rightarrow> (zram_error, string option \<times> string list) result" where
  "parse_algorithms input = rbind (algorithm_tokens (split_whitespace input) None [])
     (\<lambda>(current, available). Ok (current, sort_dedup available))"

definition swaps_row :: "string \<Rightarrow> (zram_error, string \<times> i32 \<times> u64 \<times> u64) result" where
  "swaps_row line = (case split_whitespace line of
      [path, kind, size_text, used_text, priority_text] \<Rightarrow>
        rbind (zram_parse_u64 ''proc_swaps'' size_text) (\<lambda>size_kib.
        rbind (ok_or (parse_error ''proc_swaps'' ''size overflow'') (checked_mul size_kib 1024)) (\<lambda>size.
        rbind (zram_parse_u64 ''proc_swaps'' used_text) (\<lambda>used_kib.
        rbind (ok_or (parse_error ''proc_swaps'' ''used overflow'') (checked_mul used_kib 1024)) (\<lambda>used.
        rbind (map_sum (parse_error ''proc_swaps'') id (parse_signed 32 priority_text)) (\<lambda>priority.
          Ok (path, priority, size, used))))))
    | _ \<Rightarrow> Err (parse_error ''proc_swaps'' ''expected five columns''))"

fun swaps_rows ::
  "nat \<Rightarrow> string list \<Rightarrow> (string \<rightharpoonup> i32 \<times> u64 \<times> u64) \<Rightarrow> (zram_error, string \<rightharpoonup> i32 \<times> u64 \<times> u64) result" where
  "swaps_rows index [] swaps = Ok swaps"
| "swaps_rows index (l # ls) swaps =
     (if index = 0 \<or> trim l = [] then swaps_rows (index + 1) ls swaps
      else rbind (swaps_row l) (\<lambda>(path, entry). swaps_rows (index + 1) ls (swaps(path \<mapsto> entry))))"

definition parse_swaps :: "string \<Rightarrow> (zram_error, string \<rightharpoonup> i32 \<times> u64 \<times> u64) result" where
  "parse_swaps input = swaps_rows 0 (lines input) Map.empty"

definition valid_name :: "string \<Rightarrow> bool" where
  "valid_name name \<longleftrightarrow> is_some_and (\<lambda>suffix. suffix \<noteq> [] \<and> list_all is_ascii_digit suffix)
     (strip_prefix ''zram'' name)"

subsection \<open>Inspection of the host\<close>

definition optional_text :: "host_files \<Rightarrow> string \<Rightarrow> (zram_error, string option) result" where
  "optional_text H path = (case hf_read_to_string H path of
      Inr v \<Rightarrow> Ok (Some v)
    | Inl e \<Rightarrow> if io_kind e = NotFound then Ok None else Err (ZRead path e))"

text \<open>\<open>Option<Result<..>>::transpose\<close> of a parsed optional text.\<close>

definition opt_parse :: "(string \<Rightarrow> (zram_error, 'a) result) \<Rightarrow> string option \<Rightarrow> (zram_error, 'a option) result" where
  "opt_parse f t = (case t of None \<Rightarrow> Ok None | Some v \<Rightarrow> map_sum id Some (f v))"

definition optional_u64 :: "host_files \<Rightarrow> string \<Rightarrow> (zram_error, u64 option) result" where
  "optional_u64 H path = rbind (optional_text H path) (opt_parse (\<lambda>v. zram_parse_u64 ''sysfs_u64'' (trim v)))"

definition optional_numbers :: "host_files \<Rightarrow> string \<Rightarrow> (zram_error, u64 list option) result" where
  "optional_numbers H path = rbind (optional_text H path) (opt_parse (parse_numbers ''sysfs_statistics''))"

definition detect_provider :: "host_files \<Rightarrow> string \<Rightarrow> string \<Rightarrow> provider" where
  "detect_provider H base name =
     (let unit = ''systemd-zram-setup@'' @ name @ ''.service''; swap_unit = ''dev-'' @ name @ ''.swap'' in
      if hf_exists H (resolve base (''/run/systemd/generator/'' @ unit)) \<or>
         hf_exists H (resolve base (''/run/systemd/system/'' @ unit)) \<or>
         hf_exists H (resolve base (''/run/systemd/generator/'' @ swap_unit)) \<or>
         hf_exists H (resolve base (''/run/systemd/generator/systemd-zram-setup@'' @ name @ ''.service.d''))
      then SystemdGenerator
      else if is_root_path base then ProviderUnknown
      else if hf_exists H (resolve base ''/run/udev'') then DistroUdev
      else Manual)"

definition effective_uid :: "host_files \<Rightarrow> u32 option" where
  "effective_uid H = (case hf_read_to_string H ''/proc/self/status'' of
      Inl _ \<Rightarrow> None
    | Inr text \<Rightarrow> (case List.map_filter (strip_prefix ''Uid:'') (lines text) of
         [] \<Rightarrow> None
       | l # _ \<Rightarrow> Option.bind (nth_opt (split_whitespace l) 1) parse_u32))"

definition writable :: "host_files \<Rightarrow> string \<Rightarrow> bool" where
  "writable H path = (case hf_metadata H path of
      None \<Rightarrow> False
    | Some (uid, mode) \<Rightarrow> (case effective_uid H of
         None \<Rightarrow> False
       | Some euid \<Rightarrow> (euid = uid \<and> mode AND 128 \<noteq> 0) \<or> (euid \<noteq> uid \<and> mode AND 2 \<noteq> 0)))"

definition inspect_device ::
  "host_files \<Rightarrow> string \<Rightarrow> (string \<rightharpoonup> i32 \<times> u64 \<times> u64) \<Rightarrow> string \<Rightarrow> (zram_error, device_inventory) result" where
  "inspect_device H base swaps name =
     (let dir = resolve base (''/sys/block/'' @ name) in
      rbind (optional_text H (path_join dir ''comp_algorithm'')) (\<lambda>alg_text.
      rbind (opt_parse parse_algorithms alg_text) (\<lambda>algorithms.
      rbind (optional_text H (path_join dir ''mm_stat'')) (\<lambda>mm_text.
      rbind (opt_parse parse_mm_stat mm_text) (\<lambda>mm.
      let swap = swaps (''/dev/'' @ name);
          prov = detect_provider H base name
      in
      rbind (optional_u64 H (path_join dir ''disksize'')) (\<lambda>disksize.
      rbind (optional_u64 H (path_join dir ''initstate'')) (\<lambda>initstate.
      rbind (optional_numbers H (path_join dir ''io_stat'')) (\<lambda>io_stat.
      rbind (optional_numbers H (path_join dir ''stat'')) (\<lambda>block_stat.
      rbind (optional_numbers H (path_join dir ''bd_stat'')) (\<lambda>bd_stat.
        Ok \<lparr> di_name = name, di_sysfs_path = ''/sys/block/'' @ name, di_device_path = ''/dev/'' @ name,
             di_active_swap = (swap \<noteq> None), di_priority = map_option fst swap, di_disksize = disksize,
             di_initstate = map_option (\<lambda>v. v \<noteq> 0) initstate,
             di_current_algorithm = fst (unwrap_or (None, []) algorithms),
             di_available_algorithms = snd (unwrap_or (None, []) algorithms),
             di_mm_stat = unwrap_or mm_stat_default mm, di_io_stat = io_stat, di_block_stat = block_stat,
             di_bd_stat = bd_stat, di_recompression_available = hf_exists H (path_join dir ''recomp_algorithm''),
             di_provider = prov,
             di_ownership = (if prov = ProviderUnknown then OwnershipUnknown else External),
             di_writable = \<lparr> wc_hot_add = writable H (resolve base ''/sys/class/zram-control/hot_add''),
               wc_hot_remove = writable H (resolve base ''/sys/class/zram-control/hot_remove''),
               wc_algorithm = writable H (path_join dir ''comp_algorithm''),
               wc_disksize = writable H (path_join dir ''disksize''),
               wc_reset = writable H (path_join dir ''reset'') \<rparr> \<rparr>))))))))))"

fun inspect_entries ::
  "host_files \<Rightarrow> string \<Rightarrow> (string \<rightharpoonup> i32 \<times> u64 \<times> u64) \<Rightarrow> (io_error, string) result list \<Rightarrow>
     (zram_error, device_inventory list) result" where
  "inspect_entries H base swaps [] = Ok []"
| "inspect_entries H base swaps (Inl e # es) = Err (ZRead (resolve base ''/sys/block'') e)"
| "inspect_entries H base swaps (Inr name # es) =
     (if \<not> valid_name name then inspect_entries H base swaps es
      else rbind (inspect_device H base swaps name) (\<lambda>d.
           rbind (inspect_entries H base swaps es) (\<lambda>ds. Ok (d # ds))))"

definition inspect_linux :: "host_files \<Rightarrow> string \<Rightarrow> (zram_error, inventory) result" where
  "inspect_linux H base = (case hf_read_dir H (resolve base ''/sys/block'') of
      Inl e \<Rightarrow> if io_kind e = NotFound
         then Ok \<lparr> inv_available = False, inv_devices = [], inv_unavailable = [''sys_block''] \<rparr>
         else Err (ZRead (resolve base ''/sys/block'') e)
    | Inr entries \<Rightarrow>
       rbind (parse_swaps (case hf_read_to_string H (resolve base ''/proc/swaps'') of Inl _ \<Rightarrow> [] | Inr t \<Rightarrow> t))
         (\<lambda>swaps. rbind (inspect_entries H base swaps entries) (\<lambda>devices.
            Ok \<lparr> inv_available = (devices \<noteq> []), inv_devices = sort_key di_name devices,
                 inv_unavailable = sort (map (\<lambda>d. di_name d @ ''.recompression'')
                   (filter (\<lambda>d. \<not> di_recompression_available d) devices)) \<rparr>)))"

end
