(* ===== verification/Zram_Evidence.thy ===== *)
theory Zram_Evidence
  imports Zram_Inventory "HOL-Library.Multiset"
begin

text \<open>
  Compression metrics of a device (\<open>crates/zram/src/metrics.rs\<close>) and benchmark evidence
  (\<open>benchmark.rs\<close>): bounded benchmark plans, the deterministic data sets and the aggregation of
  results into medians per algorithm. The lemmas show that a metric is never NaN or infinite,
  that a median is a measured value with half of the values on either side, and that evidence
  only comes from valid results on real devices.
\<close>

subsection \<open>Metrics\<close>

record compression_metrics =
  cmx_logical_compression_ratio :: "f64 option"
  cmx_effective_memory_ratio :: "f64 option"
  cmx_allocator_efficiency :: "f64 option"
  cmx_memory_saved_bytes :: "u64 option"
  cmx_utilization_percent :: "f64 option"
  cmx_same_pages :: "u64 option"
  cmx_huge_pages :: "u64 option"
  cmx_cpu_cost_percent :: "f64 option"

fun ratio :: "u64 option \<Rightarrow> u64 option \<Rightarrow> f64 option" where
  "ratio (Some n) (Some d) = (if d = 0 then None else Some (f64_div (f64_of_u64 n) (f64_of_u64 d)))"
| "ratio None d = None"
| "ratio n None = None"

definition zram_percent :: "u64 \<Rightarrow> u64 \<Rightarrow> f64 option" where
  "zram_percent v t = (if t > 0 then Some (f64_div (f64_mul (f64_of_u64 v) (Fin 100)) (f64_of_u64 t)) else None)"

fun opt_zip :: "'a option \<Rightarrow> 'b option \<Rightarrow> ('a \<times> 'b) option" where
  "opt_zip (Some a) (Some b) = Some (a, b)"
| "opt_zip _ _ = None"

definition from_mm_stat :: "mm_stat \<Rightarrow> u64 option \<Rightarrow> compression_metrics" where
  "from_mm_stat s disksize =
     (let orig = mm_orig_data_size s; compressed = mm_compr_data_size s; used = mm_mem_used_total s in
      \<lparr> cmx_logical_compression_ratio = ratio orig compressed, cmx_effective_memory_ratio = ratio orig used,
        cmx_allocator_efficiency = ratio compressed used,
        cmx_memory_saved_bytes = map_option (\<lambda>(o1, u). sat_sub o1 u) (opt_zip orig used),
        cmx_utilization_percent = Option.bind (opt_zip orig disksize) (\<lambda>(o1, size). zram_percent o1 size),
        cmx_same_pages = mm_same_pages s, cmx_huge_pages = mm_huge_pages s, cmx_cpu_cost_percent = None \<rparr>)"

definition device_metrics :: "device_inventory \<Rightarrow> compression_metrics" where
  "device_metrics d = from_mm_stat (di_mm_stat d) (di_disksize d)"

subsection \<open>Benchmarks\<close>

datatype dataset_kind = HighlyCompressible | MediumCompressible | DeterministicIncompressible

record benchmark_result =
  br_algorithm :: string
  br_dataset :: dataset_kind
  br_input_bytes :: u64
  br_compressed_bytes :: u64
  br_memory_used_bytes :: u64
  br_cpu_time_ns :: u64
  br_wall_time_ns :: u64
  br_write_throughput_bytes_sec :: "f64 option"
  br_read_throughput_bytes_sec :: "f64 option"
  br_logical_ratio :: "f64 option"
  br_effective_ratio :: "f64 option"
  br_real_isolated_device :: bool
  br_rounds :: u32
  br_error :: "string option"

definition br_valid :: "benchmark_result \<Rightarrow> bool" where
  "br_valid r \<longleftrightarrow> br_error r = None \<and> br_real_isolated_device r \<and> br_rounds r \<ge> 3 \<and>
     br_input_bytes r > 0 \<and> br_wall_time_ns r > 0 \<and> is_some_and is_finite (br_logical_ratio r) \<and>
     is_some_and is_finite (br_effective_ratio r)"

record benchmark_evidence =
  bev_algorithm :: string
  bev_median_write_throughput_bytes_sec :: "f64 option"
  bev_median_effective_ratio :: "f64 option"
  bev_median_cpu_time_ns :: "u64 option"
  bev_cpu_overhead_percent :: "f64 option"
  bev_datasets :: nat
  bev_real :: bool

record benchmark_plan =
  bp_algorithms :: "string list"
  bp_datasets :: "dataset_kind list"
  bp_bytes_per_dataset :: u64
  bp_warmup_rounds :: u32
  bp_measured_rounds :: u32
  bp_dry_run :: bool
  bp_blocked_reasons :: "string list"

definition benchmark_plan_new :: "string list \<Rightarrow> u64 \<Rightarrow> u64 \<Rightarrow> bool \<Rightarrow> (zram_error, benchmark_plan) result" where
  "benchmark_plan_new algorithms bytes maximum observe =
     (if bytes = 0 \<or> bytes > maximum \<or> maximum > 268435456
      then Err (ZBlocked ''benchmark dataset exceeds configured bound'')
      else Ok \<lparr> bp_algorithms = sort_dedup algorithms,
        bp_datasets = [HighlyCompressible, MediumCompressible, DeterministicIncompressible],
        bp_bytes_per_dataset = bytes, bp_warmup_rounds = 1, bp_measured_rounds = 5, bp_dry_run = observe,
        bp_blocked_reasons = (if observe then [''observe_mode''] else []) \<rparr>)"

text \<open>One step of the 32-bit xorshift generator, with shifts that drop the bits pushed out.\<close>

definition xorshift :: "u32 \<Rightarrow> u32" where
  "xorshift s = (let s1 = s XOR push_bit 13 s; s2 = s1 XOR drop_bit 17 s1 in s2 XOR push_bit 5 s2)"

fun xorshift_bytes :: "u32 \<Rightarrow> nat \<Rightarrow> u8 list" where
  "xorshift_bytes s 0 = []"
| "xorshift_bytes s (Suc n) = (let s' = xorshift s in ucast s' # xorshift_bytes s' n)"

definition deterministic_dataset :: "dataset_kind \<Rightarrow> nat \<Rightarrow> u8 list" where
  "deterministic_dataset kind n = (case kind of
      HighlyCompressible \<Rightarrow> replicate n 90
    | MediumCompressible \<Rightarrow> map (\<lambda>i. of_char (''nemor-capacity-pattern'' ! (i mod 22))) [0..<n]
    | DeterministicIncompressible \<Rightarrow> xorshift_bytes 2654435769 n)"

text \<open>The rational value of a finite number, the key by which \<open>partial_cmp\<close> sorts.\<close>

fun f64_value :: "f64 \<Rightarrow> rat" where
  "f64_value (Fin q) = q"
| "f64_value _ = 0"

definition median_f64 :: "f64 list \<Rightarrow> f64 option" where
  "median_f64 vs = (let ws = sort_key f64_value (filter is_finite vs) in nth_opt ws (length ws div 2))"

definition median_u64 :: "u64 list \<Rightarrow> u64 option" where
  "median_u64 vs = nth_opt (sort vs) (length vs div 2)"

definition aggregate_algorithm :: "benchmark_result list \<Rightarrow> string \<Rightarrow> benchmark_evidence option" where
  "aggregate_algorithm results algorithm =
     (let valid = filter (\<lambda>r. br_algorithm r = algorithm \<and> br_valid r) results in
      if valid = [] then None
      else Some \<lparr> bev_algorithm = algorithm,
        bev_median_write_throughput_bytes_sec = median_f64 (List.map_filter br_write_throughput_bytes_sec valid),
        bev_median_effective_ratio = median_f64 (List.map_filter br_effective_ratio valid),
        bev_median_cpu_time_ns = median_u64 (map br_cpu_time_ns valid), bev_cpu_overhead_percent = None,
        bev_datasets = length valid, bev_real = list_all br_real_isolated_device valid \<rparr>)"

definition aggregate :: "benchmark_result list \<Rightarrow> benchmark_evidence list" where
  "aggregate results = List.map_filter (aggregate_algorithm results) (sort_dedup (map br_algorithm results))"

subsection \<open>Metrics are numbers\<close>

lemma f64_div_u64_within:
  assumes "f64_within j a" and "d \<noteq> 0" and "j < 1000"
  shows "f64_within (Suc j) (f64_div a (f64_of_u64 d))"
proof -
  obtain y where "f64_of_u64 d = Fin y" "1 \<le> y" using f64_of_u64_ge_1 [of d] assms(2) by auto
  with f64_div_within [OF assms(1), of _ y 0] assms(3) show ?thesis by simp
qed

lemma ratio_within: "ratio n d = Some v \<Longrightarrow> f64_within 66 v"
  by (cases n; cases d) (auto split: if_splits intro!: f64_div_u64_within [of 65, simplified] f64_of_u64_within)

lemma zram_percent_within: "zram_percent v t = Some p \<Longrightarrow> f64_within 74 p"
proof -
  assume p: "zram_percent v t = Some p"
  have "f64_within 7 (Fin 100)" by simp
  from f64_mul_within [OF f64_of_u64_within this, of v]
  have "f64_within 73 (f64_mul (f64_of_u64 v) (Fin 100))" by simp
  from f64_div_u64_within [OF this, of t] p show ?thesis by (auto simp: zram_percent_def split: if_splits)
qed

lemma metrics_within:
  "cmx_logical_compression_ratio (from_mm_stat s d) = Some v \<Longrightarrow> f64_within 66 v"
  "cmx_effective_memory_ratio (from_mm_stat s d) = Some v \<Longrightarrow> f64_within 66 v"
  "cmx_allocator_efficiency (from_mm_stat s d) = Some v \<Longrightarrow> f64_within 66 v"
  "cmx_utilization_percent (from_mm_stat s d) = Some v \<Longrightarrow> f64_within 74 v"
  by (auto simp: from_mm_stat_def Let_def bind_eq_Some_conv intro: ratio_within zram_percent_within)

subsection \<open>Medians\<close>

lemma sorted_rank:
  assumes "sorted xs" and "i < length xs"
  shows "Suc i \<le> length (filter (\<lambda>x. x \<le> xs ! i) xs)" and "length xs - i \<le> length (filter (\<lambda>x. xs ! i \<le> x) xs)"
proof -
  have "\<forall>x \<in> set (take (Suc i) xs). x \<le> xs ! i"
    using assms by (auto simp: in_set_conv_nth intro!: sorted_nth_mono)
  then have "filter (\<lambda>x. x \<le> xs ! i) (take (Suc i) xs) = take (Suc i) xs" by (simp add: filter_id_conv)
  then have "length (filter (\<lambda>x. x \<le> xs ! i) (take (Suc i) xs @ drop (Suc i) xs)) \<ge> Suc i"
    using assms(2) unfolding filter_append length_append by simp
  then show "Suc i \<le> length (filter (\<lambda>x. x \<le> xs ! i) xs)" by simp
  have "\<forall>x \<in> set (drop i xs). xs ! i \<le> x"
    using assms by (auto simp: in_set_conv_nth intro!: sorted_nth_mono)
  then have "filter (\<lambda>x. xs ! i \<le> x) (drop i xs) = drop i xs" by (simp add: filter_id_conv)
  then have "length (filter (\<lambda>x. xs ! i \<le> x) (take i xs @ drop i xs)) \<ge> length xs - i"
    unfolding filter_append length_append by simp
  then show "length xs - i \<le> length (filter (\<lambda>x. xs ! i \<le> x) xs)" by simp
qed

lemma length_filter_sort_key: "length (filter P (sort_key f xs)) = length (filter P xs)"
  by (metis mset_filter mset_sort size_mset)

text \<open>The middle element of the sorted list has half of the elements on either side.\<close>

definition is_median :: "('a \<Rightarrow> 'k::linorder) \<Rightarrow> 'a list \<Rightarrow> 'k \<Rightarrow> bool" where
  "is_median f xs m \<longleftrightarrow> m \<in> f ` set xs \<and> length xs \<le> 2 * length (filter (\<lambda>x. f x \<le> m) xs) \<and>
     length xs \<le> 2 * length (filter (\<lambda>x. m \<le> f x) xs)"

lemma is_median_middle:
  assumes "xs \<noteq> []"
  shows "\<exists>x. nth_opt (sort_key f xs) (length xs div 2) = Some x \<and> x \<in> set xs \<and> is_median f xs (f x)"
proof -
  let ?ys = "sort_key f xs" and ?i = "length xs div 2"
  have i: "?i < length ?ys" using assms by simp
  have s: "sorted (map f ?ys)" by simp
  have "Suc ?i \<le> length (filter (\<lambda>x. f x \<le> f (?ys ! ?i)) ?ys)"
    "length xs - ?i \<le> length (filter (\<lambda>x. f (?ys ! ?i) \<le> f x) ?ys)"
    using sorted_rank [OF s, of ?i] i by (simp_all add: filter_map comp_def)
  then have "length xs \<le> 2 * length (filter (\<lambda>x. f x \<le> f (?ys ! ?i)) xs)"
    "length xs \<le> 2 * length (filter (\<lambda>x. f (?ys ! ?i) \<le> f x) xs)"
    by (simp_all add: length_filter_sort_key)
  moreover have "?ys ! ?i \<in> set xs" using i nth_mem [of ?i ?ys] by simp
  ultimately show ?thesis using i by (auto simp: nth_opt_def is_median_def)
qed

lemma is_median_map: "is_median (\<lambda>x. x) (map g xs) m \<longleftrightarrow> is_median g xs m"
  by (simp add: is_median_def filter_map comp_def)

lemma median_u64_is_median:
  assumes "vs \<noteq> []"
  shows "\<exists>m. median_u64 vs = Some m \<and> is_median (\<lambda>x. x) vs m"
  using is_median_middle [OF assms, of "\<lambda>x. x"] by (auto simp: median_u64_def)

lemma median_f64_is_median:
  assumes "vs \<noteq> []" and "list_all is_finite vs"
  shows "\<exists>q. median_f64 vs = Some (Fin q) \<and> is_median f64_value vs q"
proof -
  have f: "filter is_finite vs = vs" using assms(2) by (simp add: list_all_iff filter_id_conv)
  obtain x where x: "nth_opt (sort_key f64_value vs) (length vs div 2) = Some x" "x \<in> set vs"
    "is_median f64_value vs (f64_value x)" using is_median_middle [OF assms(1)] by blast
  then obtain q where "x = Fin q" using assms(2) by (cases x) (auto simp: list_all_iff)
  with x show ?thesis by (simp add: median_f64_def f)
qed

subsection \<open>Evidence comes from valid measurements\<close>

lemma set_sort_dedup [simp]: "set (sort_dedup xs) = set xs"
  by (simp add: sort_dedup_def)

lemma distinct_sort_dedup: "distinct (sort_dedup xs)"
proof -
  have "sorted ys \<Longrightarrow> distinct (remdups_adj ys)" for ys :: "string list"
    by (induction ys rule: remdups_adj.induct) (auto simp: order.antisym)
  then show ?thesis by (simp add: sort_dedup_def)
qed

lemma map_filter_total: "\<forall>x \<in> set xs. f x = Some (g x) \<Longrightarrow> List.map_filter f xs = map g xs"
  by (induction xs) (auto simp: List.map_filter_simps)

text \<open>Evidence is honest: each piece of evidence is aggregated from at least one valid result of its
  algorithm, every one measured on a real device in three or more rounds, and its CPU time and
  compression ratio are measured values with at least half of these results on either side.
  There is at most one piece per algorithm.\<close>

theorem aggregate_sound:
  assumes "e \<in> set (aggregate results)"
  shows "\<exists>valid. valid = filter (\<lambda>r. br_algorithm r = bev_algorithm e \<and> br_valid r) results \<and>
     valid \<noteq> [] \<and> bev_real e \<and> bev_datasets e = length valid \<and>
     (\<exists>m. bev_median_cpu_time_ns e = Some m \<and> is_median br_cpu_time_ns valid m) \<and>
     (\<exists>q. bev_median_effective_ratio e = Some (Fin q) \<and>
        is_median (\<lambda>r. f64_value (the (br_effective_ratio r))) valid q) \<and>
     length (filter (\<lambda>d. bev_algorithm d = bev_algorithm e) (aggregate results)) = 1"
proof -
  let ?valid = "filter (\<lambda>r. br_algorithm r = bev_algorithm e \<and> br_valid r) results"
  obtain a where a: "a \<in> set (sort_dedup (map br_algorithm results))" "aggregate_algorithm results a = Some e"
    using assms by (auto simp: aggregate_def map_filter_def simp del: set_sort_dedup)
  have alg: "bev_algorithm d = b" if "aggregate_algorithm results b = Some d" for b d
    using that by (auto simp: aggregate_algorithm_def Let_def split: if_splits)
  note ea = alg [OF a(2)]
  have ne: "?valid \<noteq> []" using a(2) unfolding ea by (auto simp: aggregate_algorithm_def Let_def split: if_splits)
  have fields: "bev_datasets e = length ?valid" "bev_real e = list_all br_real_isolated_device ?valid"
    "bev_median_cpu_time_ns e = median_u64 (map br_cpu_time_ns ?valid)"
    "bev_median_effective_ratio e = median_f64 (List.map_filter br_effective_ratio ?valid)"
    using a(2) unfolding ea by (auto simp: aggregate_algorithm_def Let_def split: if_splits)
  have real: "bev_real e" unfolding fields by (auto simp: list_all_iff br_valid_def)
  have cpu: "\<exists>m. bev_median_cpu_time_ns e = Some m \<and> is_median br_cpu_time_ns ?valid m"
    using median_u64_is_median [of "map br_cpu_time_ns ?valid"] ne unfolding fields is_median_map by auto
  have some: "\<forall>r \<in> set ?valid. br_effective_ratio r = Some (the (br_effective_ratio r))"
    and fin: "list_all is_finite (map (\<lambda>r. the (br_effective_ratio r)) ?valid)"
    by (auto simp: br_valid_def is_some_and_iff list_all_iff)
  have "\<exists>q. median_f64 (map (\<lambda>r. the (br_effective_ratio r)) ?valid) = Some (Fin q) \<and>
      is_median f64_value (map (\<lambda>r. the (br_effective_ratio r)) ?valid) q"
    using ne fin by (intro median_f64_is_median) auto
  then have rat: "\<exists>q. bev_median_effective_ratio e = Some (Fin q) \<and>
      is_median (\<lambda>r. f64_value (the (br_effective_ratio r))) ?valid q"
    unfolding fields map_filter_total [OF some] by (simp add: is_median_def filter_map comp_def image_image)
  have "length (filter (\<lambda>d. bev_algorithm d = a) (List.map_filter (aggregate_algorithm results) xs)) = 1"
    if "distinct xs" "a \<in> set xs" for xs
    using that
  proof (induction xs)
    case (Cons b xs)
    have "filter (\<lambda>d. bev_algorithm d = a) (List.map_filter (aggregate_algorithm results) xs) = []" if "a \<notin> set xs"
      using that alg by (auto simp: filter_empty_conv map_filter_def)
    with Cons a(2) alg [of b] show ?case by (auto simp: List.map_filter_simps split: option.split)
  qed simp
  from this [OF distinct_sort_dedup a(1)] show ?thesis
    using ne real fields(1) cpu rat unfolding aggregate_def ea by auto
qed

definition example_result :: "string \<Rightarrow> u64 \<Rightarrow> benchmark_result" where
  "example_result algorithm cpu = \<lparr> br_algorithm = algorithm, br_dataset = MediumCompressible,
     br_input_bytes = 100, br_compressed_bytes = 50, br_memory_used_bytes = 60, br_cpu_time_ns = cpu,
     br_wall_time_ns = 20, br_write_throughput_bytes_sec = Some (Fin 5), br_read_throughput_bytes_sec = None,
     br_logical_ratio = Some (Fin 2), br_effective_ratio = Some (Fin 3), br_real_isolated_device = True,
     br_rounds = 5, br_error = None \<rparr>"

theorem aggregate_sound_witness:
  "\<exists>e \<in> set (aggregate [example_result ''zstd'' 10, example_result ''lz4'' 20, example_result ''zstd'' 30]).
     bev_algorithm e = ''zstd'' \<and> bev_real e \<and> bev_datasets e = 2"
proof -
  let ?rs = "[example_result ''zstd'' 10, example_result ''lz4'' 20, example_result ''zstd'' 30]"
  have v: "filter (\<lambda>r. br_algorithm r = ''zstd'' \<and> br_valid r) ?rs =
      [example_result ''zstd'' 10, example_result ''zstd'' 30]"
    by (simp add: example_result_def br_valid_def)
  then obtain e where e: "aggregate_algorithm ?rs ''zstd'' = Some e" "bev_algorithm e = ''zstd''"
    by (simp add: aggregate_algorithm_def)
  moreover have "''zstd'' \<in> set (sort_dedup (map br_algorithm ?rs))" by (simp add: example_result_def)
  ultimately have m: "e \<in> set (aggregate ?rs)" by (force simp: aggregate_def map_filter_def simp del: set_sort_dedup)
  from aggregate_sound [OF m] v e(2) have "bev_real e" "bev_datasets e = 2" by simp_all
  with m e(2) show ?thesis by blast
qed

end
