(* ===== verification/Zram_Profile.thy ===== *)
theory Zram_Profile
  imports Zram_Evidence Policy
begin

text \<open>
  Selection of a zram profile (\<open>crates/zram/src/profile.rs\<close>): the algorithm is chosen from
  benchmark evidence, the size from the configured share of memory, and every safety condition
  that fails is a reason that blocks the plan. The lemmas characterise when a plan is allowed
  and what the chosen algorithm is best at.
\<close>

datatype zram_profile = Safe | Gaming | Capacity

definition parse_profile :: "string \<Rightarrow> zram_profile option" where
  "parse_profile v = (if v = ''safe'' then Some Safe else if v = ''gaming'' then Some Gaming
     else if v = ''capacity'' then Some Capacity else None)"

record profile_context =
  ctx_requested :: zram_profile
  ctx_device :: device_inventory
  ctx_benchmarks :: "benchmark_evidence list"
  ctx_total_ram_bytes :: u64
  ctx_mem_available_bytes :: u64
  ctx_current_used_bytes :: u64
  ctx_pressure_state :: pressure_state
  ctx_psi_full_avg10 :: "f64 option"
  ctx_swap_in_per_second :: "f64 option"
  ctx_gaming :: bool
  ctx_pressure_worsening :: bool
  ctx_safety_events :: nat
  ctx_rollback_pending :: bool
  ctx_provider_matches_snapshot :: bool

record zram_profile_plan =
  zp_profile :: zram_profile
  zp_target_device :: string
  zp_current_algorithm :: "string option"
  zp_selected_algorithm :: "string option"
  zp_current_disksize :: "u64 option"
  zp_proposed_disksize :: "u64 option"
  zp_current_priority :: "i32 option"
  zp_proposed_priority :: "i32 option"
  zp_benchmark_evidence :: "benchmark_evidence list"
  zp_reason :: string
  zp_confidence :: f64
  zp_requires_reinitialization :: bool
  zp_requires_swap_migration :: bool
  zp_allowed :: bool
  zp_blocked_reasons :: "string list"
  zp_dry_run :: bool
  zp_rule_version :: string

definition PROFILE_RULE_VERSION :: string where
  "PROFILE_RULE_VERSION = ''zram-profile-rules-v1''"

subsection \<open>Choosing the algorithm\<close>

definition f64_partial_cmp :: "f64 \<Rightarrow> f64 \<Rightarrow> ordering option" where
  "f64_partial_cmp a b = (if f64_lt a b then Some Less else if f64_lt b a then Some Greater
     else if f64_le a b then Some Equal else None)"

fun option_partial_cmp :: "f64 option \<Rightarrow> f64 option \<Rightarrow> ordering option" where
  "option_partial_cmp (Some a) (Some b) = f64_partial_cmp a b"
| "option_partial_cmp None None = Some Equal"
| "option_partial_cmp None (Some b) = Some Less"
| "option_partial_cmp (Some a) None = Some Greater"

text \<open>The evidence a choice may rest on.\<close>

definition evidence_usable :: "device_inventory \<Rightarrow> compression_config \<Rightarrow> benchmark_evidence \<Rightarrow> bool" where
  "evidence_usable device config e \<longleftrightarrow> bev_real e \<and> bev_datasets e \<ge> 3 \<and>
     bev_algorithm e \<in> set (di_available_algorithms device) \<and> bev_median_cpu_time_ns e \<noteq> None \<and>
     is_none_or (\<lambda>v. is_finite v \<and> f64_ge v (Fin 0) \<and> f64_le v (cmp_max_cpu_overhead_percent config))
       (bev_cpu_overhead_percent e)"

definition gaming_cmp :: "benchmark_evidence \<Rightarrow> benchmark_evidence \<Rightarrow> ordering" where
  "gaming_cmp l r = then_with (option_cmp cmp (bev_median_cpu_time_ns l) (bev_median_cpu_time_ns r))
     (cmp (bev_algorithm l) (bev_algorithm r))"

definition capacity_cmp :: "benchmark_evidence \<Rightarrow> benchmark_evidence \<Rightarrow> ordering" where
  "capacity_cmp l r = then_with
     (unwrap_or Equal (option_partial_cmp (bev_median_effective_ratio l) (bev_median_effective_ratio r)))
     (cmp (bev_algorithm r) (bev_algorithm l))"

definition current_ratio :: "profile_context \<Rightarrow> f64" where
  "current_ratio ctx = unwrap_or (Fin 1) (Option.bind
     (find (\<lambda>e. Some (bev_algorithm e) = di_current_algorithm (ctx_device ctx)) (ctx_benchmarks ctx))
     bev_median_effective_ratio)"

definition capacity_threshold :: "profile_context \<Rightarrow> compression_config \<Rightarrow> f64" where
  "capacity_threshold ctx config = f64_mul (current_ratio ctx)
     (f64_add (Fin 1) (f64_div (cmp_min_capacity_gain_percent config) (Fin 100)))"

definition select_algorithm :: "profile_context \<Rightarrow> compression_config \<Rightarrow> string option" where
  "select_algorithm ctx config =
     (let current = di_current_algorithm (ctx_device ctx);
          valid = filter (evidence_usable (ctx_device ctx) config) (ctx_benchmarks ctx)
      in if ctx_requested ctx = Safe then current
         else if valid = [] then current
         else if ctx_requested ctx = Gaming then
           map_option bev_algorithm (min_by gaming_cmp
             (filter (\<lambda>e. bev_median_write_throughput_bytes_sec e \<noteq> None) valid))
         else
           opt_or (map_option bev_algorithm (max_by capacity_cmp
             (filter (\<lambda>e. is_some_and (\<lambda>r. f64_ge r (capacity_threshold ctx config)) (bev_median_effective_ratio e)) valid)))
             current)"

subsection \<open>The plan\<close>

definition proposed_disksize :: "profile_context \<Rightarrow> compression_config \<Rightarrow> u64 option" where
  "proposed_disksize ctx config =
     (let maximum = sat_mul (ctx_total_ram_bytes ctx) (ucast (cmp_max_zram_percent_ram config)) div 100 in
      map_option (\<lambda>current. if ctx_requested ctx = Capacity
          then min (max current (sat_mul (ctx_current_used_bytes ctx) 2)) maximum else current)
        (di_disksize (ctx_device ctx)))"

definition headroom_sufficient :: "profile_context \<Rightarrow> compression_config \<Rightarrow> bool" where
  "headroom_sufficient ctx config =
     (let minimum = sat_mul (ctx_total_ram_bytes ctx) (ucast (cmp_safe_headroom_percent config)) div 100
      in ctx_mem_available_bytes ctx \<ge> sat_add minimum (ctx_current_used_bytes ctx))"

definition profile_confidence :: "profile_context \<Rightarrow> f64" where
  "profile_confidence ctx = (if ctx_requested ctx = Safe then Fin 1
     else if list_ex bev_real (ctx_benchmarks ctx) then lit (9 / 10) else lit (2 / 5))"

definition requires_reinit :: "profile_context \<Rightarrow> compression_config \<Rightarrow> bool" where
  "requires_reinit ctx config =
     ((select_algorithm ctx config \<noteq> None \<and> select_algorithm ctx config \<noteq> di_current_algorithm (ctx_device ctx)) \<or>
      proposed_disksize ctx config \<noteq> di_disksize (ctx_device ctx))"

definition profile_checks :: "profile_context \<times> compression_config \<times> string \<Rightarrow> (bool \<times> string) list" where
  "profile_checks i = (case i of (ctx, config, mode) \<Rightarrow>
     let device = ctx_device ctx; reinit = requires_reinit ctx config in
     [(di_ownership device \<notin> {NemorOwned, Adopted}, ''ownership_not_explicit''),
      (di_provider device = ProviderUnknown, ''provider_unknown''),
      (\<not> ctx_provider_matches_snapshot ctx, ''provider_mismatch''),
      (ctx_rollback_pending ctx, ''rollback_pending''),
      (ctx_safety_events ctx > 0, ''recent_safety_event''),
      (\<not> headroom_sufficient ctx config, ''insufficient_headroom''),
      (ctx_pressure_state ctx \<in> {Critical, Emergency}, ''pressure_state_blocks_reconfiguration''),
      (ctx_pressure_worsening ctx \<or> is_some_and (\<lambda>v. f64_ge v (Fin 2)) (ctx_psi_full_avg10 ctx) \<or>
         is_some_and (\<lambda>v. f64_gt v (Fin 0)) (ctx_swap_in_per_second ctx), ''pressure_trend_unsafe''),
      (ctx_gaming ctx \<and> reinit, ''gaming_blocks_reinitialization''),
      (reinit \<and> \<not> cmp_allow_runtime_reconfigure config, ''runtime_reconfiguration_disabled''),
      (di_active_swap device \<and> reinit \<and> \<not> wc_reset (di_writable device), ''active_system_device_protected''),
      (mode = ''observe'', ''observe_mode'')])"

definition profile_reason :: "zram_profile \<Rightarrow> string" where
  "profile_reason p = (case p of
      Safe \<Rightarrow> ''preserve_current_configuration_without_strong_evidence''
    | Gaming \<Rightarrow> ''select_measured_low_cpu_latency_candidate''
    | Capacity \<Rightarrow> ''select_measured_effective_capacity_candidate'')"

definition plan_profile :: "profile_context \<Rightarrow> compression_config \<Rightarrow> string \<Rightarrow> zram_profile_plan" where
  "plan_profile ctx config mode =
     (let device = ctx_device ctx;
          selected = select_algorithm ctx config;
          blocks = sort_dedup (fired (profile_checks (ctx, config, mode)))
      in \<lparr> zp_profile = ctx_requested ctx, zp_target_device = di_name device,
           zp_current_algorithm = di_current_algorithm device, zp_selected_algorithm = selected,
           zp_current_disksize = di_disksize device, zp_proposed_disksize = proposed_disksize ctx config,
           zp_current_priority = di_priority device, zp_proposed_priority = di_priority device,
           zp_benchmark_evidence = (case selected of None \<Rightarrow> []
             | Some algorithm \<Rightarrow> filter (\<lambda>e. bev_algorithm e = algorithm) (ctx_benchmarks ctx)),
           zp_reason = profile_reason (ctx_requested ctx), zp_confidence = profile_confidence ctx,
           zp_requires_reinitialization = requires_reinit ctx config,
           zp_requires_swap_migration = (di_active_swap device \<and> requires_reinit ctx config),
           zp_allowed = (blocks = []), zp_blocked_reasons = blocks,
           zp_dry_run = (mode = ''observe'' \<or> cmp_dry_run config \<or> \<not> cmp_enabled config),
           zp_rule_version = PROFILE_RULE_VERSION \<rparr>)"

subsection \<open>When a plan is allowed\<close>

interpretation zram_gate: reason_gate profile_checks zp_blocked_reasons zp_allowed
  "\<lambda>(ctx, config, mode). plan_profile ctx config mode"
  by unfold_locales (auto simp: plan_profile_def Let_def)

lemma profile_allowed_iff:
  "zp_allowed (plan_profile ctx config mode) \<longleftrightarrow> (\<forall>(b, r) \<in> set (profile_checks (ctx, config, mode)). \<not> b)"
  using zram_gate.allowed_iff_no_check [of "(ctx, config, mode)"] by simp

lemma headroom_exact:
  assumes "headroom_sufficient ctx config" and "ctx_total_ram_bytes ctx < 2 ^ 56" and "ctx_current_used_bytes ctx < 2 ^ 63"
  shows "unat (ctx_total_ram_bytes ctx) * unat (cmp_safe_headroom_percent config) div 100 +
    unat (ctx_current_used_bytes ctx) \<le> unat (ctx_mem_available_bytes ctx)"
proof -
  let ?t = "ctx_total_ram_bytes ctx" and ?p = "cmp_safe_headroom_percent config" and ?u = "ctx_current_used_bytes ctx"
  have t: "unat ?t < 2 ^ 56" and u: "unat ?u < 2 ^ 63" using assms(2,3) by (simp_all add: word_less_nat_alt)
  have p: "unat ?p < 2 ^ 8" by (rule order_less_le_trans [OF unsigned_less]) simp
  have "unat ?t * unat ?p < 2 ^ 56 * 2 ^ 8" using t p by (intro mult_strict_mono) auto
  then have m: "unat (sat_mul ?t (ucast ?p)) = unat ?t * unat ?p"
    by (simp add: unat_sat_mul unat_ucast_up)
  then have d: "unat (sat_mul ?t (ucast ?p) div 100) = unat ?t * unat ?p div 100" by (simp add: unat_div)
  have "unat ?t * unat ?p div 100 + unat ?u < 2 ^ 64" using \<open>unat ?t * unat ?p < 2 ^ 56 * 2 ^ 8\<close> u by simp
  then have "unat (sat_add (sat_mul ?t (ucast ?p) div 100) ?u) = unat ?t * unat ?p div 100 + unat ?u"
    by (simp add: unat_sat_add d)
  with assms(1) show ?thesis by (simp add: headroom_sufficient_def Let_def word_le_nat_alt)
qed

lemma capacity_size_bound:
  assumes "ctx_requested ctx = Capacity" and "proposed_disksize ctx config = Some n" and "ctx_total_ram_bytes ctx < 2 ^ 56"
  shows "unat n \<le> unat (ctx_total_ram_bytes ctx) * unat (cmp_max_zram_percent_ram config) div 100"
proof -
  let ?t = "ctx_total_ram_bytes ctx" and ?p = "cmp_max_zram_percent_ram config"
  have "n \<le> sat_mul ?t (ucast ?p) div 100" using assms(1,2) by (auto simp: proposed_disksize_def Let_def)
  then have "unat n \<le> unat (sat_mul ?t (ucast ?p)) div 100" by (simp add: word_le_nat_alt unat_div)
  also have "\<dots> \<le> unat ?t * unat ?p div 100" by (rule div_le_mono) (simp add: unat_sat_mul unat_ucast_up)
  finally show ?thesis .
qed

text \<open>C8. An allowed zram plan is safe: outside observe mode, on a device whose ownership and provider
  are known and unchanged, with no rollback pending and no recent safety event, in no critical or emergency
  state (the state \<open>Pressure\<close> is allowed), with no worsening trend, no full-stall pressure of two percent or more and no
  pages being swapped in. The available memory covers the configured headroom on top of the memory the device uses; below
  64 PiB of RAM and 8 EiB in use, this sum is computed without saturation. When the plan changes the
  device, no game runs, reconfiguration is enabled and the device, if it is active swap, can be reset; and
  the proposed size is the current one, or for the capacity profile at most the configured
  share of RAM.\<close>

theorem zram_plan_safe:
  assumes "zp_allowed (plan_profile ctx config mode)"
    and "ctx_total_ram_bytes ctx < 2 ^ 56" and "ctx_current_used_bytes ctx < 2 ^ 63"
  shows "mode \<noteq> ''observe'' \<and> di_ownership (ctx_device ctx) \<in> {NemorOwned, Adopted} \<and>
    di_provider (ctx_device ctx) \<noteq> ProviderUnknown \<and> ctx_provider_matches_snapshot ctx \<and>
    \<not> ctx_rollback_pending ctx \<and> ctx_safety_events ctx = 0 \<and>
    unat (ctx_total_ram_bytes ctx) * unat (cmp_safe_headroom_percent config) div 100 +
      unat (ctx_current_used_bytes ctx) \<le> unat (ctx_mem_available_bytes ctx) \<and>
    ctx_pressure_state ctx \<notin> {Critical, Emergency} \<and> \<not> ctx_pressure_worsening ctx \<and>
    (\<forall>v. ctx_psi_full_avg10 ctx = Some v \<longrightarrow> \<not> f64_ge v (Fin 2)) \<and>
    (\<forall>v. ctx_swap_in_per_second ctx = Some v \<longrightarrow> \<not> f64_gt v (Fin 0)) \<and>
    (zp_requires_reinitialization (plan_profile ctx config mode) \<longrightarrow>
       \<not> ctx_gaming ctx \<and> cmp_allow_runtime_reconfigure config \<and>
       (di_active_swap (ctx_device ctx) \<longrightarrow> wc_reset (di_writable (ctx_device ctx)))) \<and>
    (\<forall>n. zp_proposed_disksize (plan_profile ctx config mode) = Some n \<longrightarrow>
       di_disksize (ctx_device ctx) = Some n \<or>
       (ctx_requested ctx = Capacity \<and>
        unat n \<le> unat (ctx_total_ram_bytes ctx) * unat (cmp_max_zram_percent_ram config) div 100))"
proof -
  have c: "\<forall>(b, r) \<in> set (profile_checks (ctx, config, mode)). \<not> b" using assms(1) by (simp add: profile_allowed_iff)
  then have h: "headroom_sufficient ctx config" by (simp add: profile_checks_def Let_def)
  have sizes: "proposed_disksize ctx config = Some n \<Longrightarrow> di_disksize (ctx_device ctx) = Some n \<or>
      (ctx_requested ctx = Capacity \<and>
       unat n \<le> unat (ctx_total_ram_bytes ctx) * unat (cmp_max_zram_percent_ram config) div 100)" for n
    using capacity_size_bound [of ctx config n] assms(2) by (auto simp: proposed_disksize_def Let_def split: if_splits)
  have fields: "zp_requires_reinitialization (plan_profile ctx config mode) = requires_reinit ctx config"
    "zp_proposed_disksize (plan_profile ctx config mode) = proposed_disksize ctx config"
    by (simp_all add: plan_profile_def Let_def)
  show ?thesis unfolding fields
    using c headroom_exact [OF h assms(2,3)] sizes by (simp add: profile_checks_def Let_def is_some_and_iff) blast
qed

subsection \<open>The chosen algorithm\<close>

lemma option_cmp_Greater:
  "option_cmp cmp (a :: 'a::linorder option) b = Greater \<longleftrightarrow> a \<noteq> None \<and> (b = None \<or> the b < the a)"
  by (cases a; cases b) auto

lemma option_cmp_Equal: "option_cmp cmp (a :: 'a::linorder option) b = Equal \<longleftrightarrow> a = b"
  by (cases a; cases b) auto

interpretation gaming_order: comparison gaming_cmp "\<lambda>e. bev_median_cpu_time_ns e \<noteq> None"
proof
  fix x y z
  assume "bev_median_cpu_time_ns x \<noteq> None" "bev_median_cpu_time_ns y \<noteq> None" "bev_median_cpu_time_ns z \<noteq> None"
    "gaming_cmp x y \<noteq> Greater" "gaming_cmp y z \<noteq> Greater"
  then show "gaming_cmp x z \<noteq> Greater"
    by (auto simp: gaming_cmp_def then_with_Greater option_cmp_Greater option_cmp_Equal not_less)
next
  fix x y
  assume "gaming_cmp x y = Greater"
  then show "gaming_cmp y x \<noteq> Greater"
    by (auto simp: gaming_cmp_def then_with_Greater option_cmp_Greater option_cmp_Equal)
qed

text \<open>The ratio of a piece of evidence is a number that can be compared.\<close>

definition comparable :: "benchmark_evidence \<Rightarrow> bool" where
  "comparable e \<longleftrightarrow> (\<exists>r. bev_median_effective_ratio e = Some r \<and> r \<noteq> NaN)"

lemma capacity_cmp_Greater:
  assumes "bev_median_effective_ratio x = Some a" "bev_median_effective_ratio y = Some b" "a \<noteq> NaN" "b \<noteq> NaN"
  shows "capacity_cmp x y = Greater \<longleftrightarrow>
    f64_lt b a \<or> (f64_le b a \<and> bev_algorithm x < bev_algorithm y)"
  using assms f64_not_le [of a b] f64_not_le [of b a] f64_lt_imp_le [of a b] f64_lt_imp_le [of b a]
  by (auto simp: capacity_cmp_def then_with_Greater f64_partial_cmp_def)

interpretation capacity_order: comparison capacity_cmp comparable
proof
  fix x y z
  assume d: "comparable x" "comparable y" "comparable z" and g: "capacity_cmp x y \<noteq> Greater" "capacity_cmp y z \<noteq> Greater"
  from d obtain a b c where r: "bev_median_effective_ratio x = Some a" "a \<noteq> NaN"
    "bev_median_effective_ratio y = Some b" "b \<noteq> NaN" "bev_median_effective_ratio z = Some c" "c \<noteq> NaN"
    by (auto simp: comparable_def)
  show "capacity_cmp x z \<noteq> Greater"
    using g r f64_le_trans [of a b c] f64_le_trans [of c a b] f64_le_trans [of b c a] f64_not_le [of a b] f64_not_le [of b a]
      f64_not_le [of b c] f64_not_le [of c b] f64_not_le [of a c] f64_not_le [of c a]
    by (auto simp: capacity_cmp_Greater)
next
  fix x y
  assume d: "comparable x" "comparable y" and g: "capacity_cmp x y = Greater"
  from d obtain a b where r: "bev_median_effective_ratio x = Some a" "a \<noteq> NaN"
    "bev_median_effective_ratio y = Some b" "b \<noteq> NaN" by (auto simp: comparable_def)
  show "capacity_cmp y x \<noteq> Greater"
    using g r f64_not_le [of a b] f64_not_le [of b a] f64_lt_imp_le [of a b] f64_lt_imp_le [of b a]
    by (auto simp: capacity_cmp_Greater)
qed

text \<open>A change of algorithm is measured and optimal: when the selected algorithm is not the current
  one, it has real evidence from three or more data sets within the CPU budget and the device
  supports it. The gaming profile picks one of least CPU time among the usable candidates with
  a measured throughput; the capacity profile one of greatest ratio among those that reach the
  configured gain over the current ratio.\<close>

theorem zram_selection_optimal:
  assumes "select_algorithm ctx config = Some a" and "di_current_algorithm (ctx_device ctx) \<noteq> Some a"
  shows "\<exists>e \<in> set (ctx_benchmarks ctx). bev_algorithm e = a \<and> evidence_usable (ctx_device ctx) config e \<and>
    (ctx_requested ctx = Gaming \<and>
       (\<forall>e' \<in> set (ctx_benchmarks ctx). evidence_usable (ctx_device ctx) config e' \<longrightarrow>
          bev_median_write_throughput_bytes_sec e' \<noteq> None \<longrightarrow>
          the (bev_median_cpu_time_ns e) \<le> the (bev_median_cpu_time_ns e')) \<or>
     ctx_requested ctx = Capacity \<and>
       (\<exists>r. bev_median_effective_ratio e = Some r \<and> f64_ge r (capacity_threshold ctx config) \<and>
          (\<forall>e' \<in> set (ctx_benchmarks ctx). evidence_usable (ctx_device ctx) config e' \<longrightarrow>
             (\<forall>r'. bev_median_effective_ratio e' = Some r' \<longrightarrow> f64_ge r' (capacity_threshold ctx config) \<longrightarrow>
                f64_le r' r))))"
proof -
  let ?usable = "evidence_usable (ctx_device ctx) config"
  let ?valid = "filter ?usable (ctx_benchmarks ctx)"
  have ne: "?valid \<noteq> []" "ctx_requested ctx \<noteq> Safe"
    using assms by (auto simp: select_algorithm_def Let_def split: if_splits)
  show ?thesis
  proof (cases "ctx_requested ctx")
    case Safe
    with ne show ?thesis by simp
  next
    case Gaming
    let ?xs = "filter (\<lambda>e. bev_median_write_throughput_bytes_sec e \<noteq> None) ?valid"
    from assms(1) Gaming ne(1) obtain e where e: "min_by gaming_cmp ?xs = Some e" "bev_algorithm e = a"
      by (auto simp: select_algorithm_def Let_def)
    have dom: "\<forall>y \<in> set ?xs. bev_median_cpu_time_ns y \<noteq> None" by (auto simp: evidence_usable_def)
    note least = gaming_order.min_by_least [OF e(1) dom]
    have "the (bev_median_cpu_time_ns e) \<le> the (bev_median_cpu_time_ns y)" if "y \<in> set ?xs" for y
      using least(2) [OF that] bspec [OF dom that] bspec [OF dom least(1)]
      by (auto simp: gaming_cmp_def then_with_Greater option_cmp_Greater not_less)
    with least(1) e(2) Gaming show ?thesis by auto
  next
    case Capacity
    let ?good = "\<lambda>e. is_some_and (\<lambda>r. f64_ge r (capacity_threshold ctx config)) (bev_median_effective_ratio e)"
    from assms Capacity ne(1) obtain e where e: "max_by capacity_cmp (filter ?good ?valid) = Some e" "bev_algorithm e = a"
      by (cases "max_by capacity_cmp (filter ?good ?valid)") (auto simp: select_algorithm_def Let_def)
    have dom: "\<forall>y \<in> set (filter ?good ?valid). comparable y"
      by (auto simp: comparable_def is_some_and_iff dest: f64_le_not_NaN)
    note greatest = capacity_order.max_by_greatest [OF e(1) dom]
    obtain r where r: "bev_median_effective_ratio e = Some r" "f64_ge r (capacity_threshold ctx config)"
      using greatest(1) by (auto simp: is_some_and_iff)
    have "f64_le r' r" if "y \<in> set (filter ?good ?valid)" "bev_median_effective_ratio y = Some r'" for y r'
    proof -
      have nan: "r \<noteq> NaN" "r' \<noteq> NaN" using r(2) that by (auto dest: f64_le_not_NaN)
      with greatest(2) [OF that(1)] that(2) r(1) f64_not_le [of r' r] show ?thesis
        by (auto simp: capacity_cmp_Greater)
    qed
    with greatest(1) e(2) r Capacity show ?thesis by (auto simp: is_some_and_iff)
  qed
qed

subsection \<open>Examples\<close>

definition example_evidence :: "string \<Rightarrow> rat \<Rightarrow> u64 \<Rightarrow> benchmark_evidence" where
  "example_evidence algorithm r cpu = \<lparr> bev_algorithm = algorithm,
     bev_median_write_throughput_bytes_sec = Some (Fin 100), bev_median_effective_ratio = Some (Fin r),
     bev_median_cpu_time_ns = Some cpu, bev_cpu_overhead_percent = Some (Fin 0), bev_datasets = 3, bev_real = True \<rparr>"

definition example_device :: "string \<Rightarrow> bool \<Rightarrow> ownership \<Rightarrow> device_inventory" where
  "example_device name active own = \<lparr> di_name = name, di_sysfs_path = ''/sys/block/'' @ name,
     di_device_path = ''/dev/'' @ name, di_active_swap = active, di_priority = Some 100, di_disksize = Some 1000,
     di_initstate = Some True, di_current_algorithm = Some ''zstd'',
     di_available_algorithms = [''lz4'', ''zstd''], di_mm_stat = mm_stat_default, di_io_stat = None,
     di_block_stat = None, di_bd_stat = None, di_recompression_available = True, di_provider = Manual,
     di_ownership = own, di_writable = \<lparr> wc_hot_add = True, wc_hot_remove = True, wc_algorithm = True,
       wc_disksize = True, wc_reset = True \<rparr> \<rparr>"

definition example_context :: "zram_profile \<Rightarrow> profile_context" where
  "example_context requested = \<lparr> ctx_requested = requested, ctx_device = example_device ''zram0'' True NemorOwned,
     ctx_benchmarks = [example_evidence ''zstd'' 3 30, example_evidence ''lz4'' 2 10],
     ctx_total_ram_bytes = 10000, ctx_mem_available_bytes = 9000, ctx_current_used_bytes = 250,
     ctx_pressure_state = Normal, ctx_psi_full_avg10 = Some (Fin 0), ctx_swap_in_per_second = Some (Fin 0),
     ctx_gaming = False, ctx_pressure_worsening = False, ctx_safety_events = 0, ctx_rollback_pending = False,
     ctx_provider_matches_snapshot = True \<rparr>"

definition example_compression :: compression_config where
  "example_compression = (compression default_config)\<lparr> cmp_allow_runtime_reconfigure := True,
     cmp_max_cpu_overhead_percent := Fin 5 \<rparr>"

lemma example_gaming_choice: "select_algorithm (example_context Gaming) example_compression = Some ''lz4''"
  by (simp add: select_algorithm_def example_context_def example_compression_def evidence_usable_def
      example_evidence_def example_device_def gaming_cmp_def cmp_def Let_def)

theorem zram_selection_optimal_witness:
  "select_algorithm (example_context Gaming) example_compression = Some ''lz4'' \<and>
   (\<exists>e \<in> set (ctx_benchmarks (example_context Gaming)). bev_algorithm e = ''lz4'' \<and>
      evidence_usable (ctx_device (example_context Gaming)) example_compression e)"
  using zram_selection_optimal [OF example_gaming_choice] example_gaming_choice
  by (auto simp: example_context_def example_device_def)

theorem zram_plan_safe_witness:
  "zp_allowed (plan_profile (example_context Gaming) example_compression ''apply'') \<and>
   \<not> ctx_gaming (example_context Gaming) \<and> cmp_allow_runtime_reconfigure example_compression \<and>
   \<not> ctx_pressure_worsening (example_context Gaming)"
proof -
  have h: "headroom_sufficient (example_context Gaming) example_compression"
    by (simp add: headroom_sufficient_def example_context_def example_compression_def default_config_def
        word_le_nat_alt sat_simps unat_div unat_ucast_up Let_def)
  have r: "requires_reinit (example_context Gaming) example_compression"
    by (simp add: requires_reinit_def example_gaming_choice) (simp add: example_context_def example_device_def)
  have a: "zp_allowed (plan_profile (example_context Gaming) example_compression ''apply'')"
    unfolding profile_allowed_iff using h r
    by (simp add: profile_checks_def Let_def) (simp add: example_context_def example_device_def example_compression_def)
  have z: "zp_requires_reinitialization (plan_profile (example_context Gaming) example_compression ''apply'')"
    using r by (simp add: plan_profile_def Let_def)
  have b: "ctx_total_ram_bytes (example_context Gaming) < 2 ^ 56" "ctx_current_used_bytes (example_context Gaming) < 2 ^ 63"
    by (simp_all add: example_context_def)
  from zram_plan_safe [OF a b] z a show ?thesis by blast
qed

end
