(* ===== verification/Observe_Audit.thy ===== *)
theory Observe_Audit
  imports Daemon Process_Scan Damos Ksm Tiering_Plan Zram_Profile
begin

text \<open>
  What the daemon records about the host beside a stored policy decision (\<open>nemord/src/lib.rs\<close>): the audits of zram, storage tiering,
  DAMON, DAMOS and KSM, composed from the inspections of those crates. The host is a parameter; storage is not modelled. What is
  shown: no plan of an audit is allowed and no device is to be reconfigured on the basis of one, whatever the configuration and the decision;
  and on samples collected from the host's files the loop keeps deciding.
\<close>

subsection \<open>The audits of a decision\<close>

record zram_audit_report =
  za_timestamp_ns :: i64
  za_inventory :: inventory
  za_plans :: "zram_profile_plan list"
  za_benchmark_evidence :: "benchmark_evidence list"
  za_rollback_pending :: bool
  za_recovery_pending :: bool
  za_dry_run :: bool

fun profile_of_intent :: "zram_profile_intent \<Rightarrow> zram_profile" where
  "profile_of_intent IntentSafe = Safe"
| "profile_of_intent IntentGaming = Gaming"
| "profile_of_intent IntentCapacity = Capacity"

fun requested_profile :: "planned_action list \<Rightarrow> zram_profile" where
  "requested_profile [] = Safe"
| "requested_profile (a # as) = (case pa_kind a of
      SelectZramProfile p \<Rightarrow> profile_of_intent p
    | _ \<Rightarrow> requested_profile as)"

definition audit_context :: "policy_decision \<Rightarrow> device_inventory \<Rightarrow> profile_context" where
  "audit_context dec device = (let i = pd_input_features dec in
     \<lparr> ctx_requested = requested_profile (pd_planned_actions dec), ctx_device = device, ctx_benchmarks = [],
       ctx_total_ram_bytes = in_ram_total_bytes i, ctx_mem_available_bytes = in_mem_available_bytes i,
       ctx_current_used_bytes = unwrap_or 0 (mm_mem_used_total (di_mm_stat device)), ctx_pressure_state = pd_current_state dec,
       ctx_psi_full_avg10 = in_psi_memory_full_avg10 i, ctx_swap_in_per_second = in_swap_in_per_second i, ctx_gaming = in_gaming i,
       ctx_pressure_worsening = (pd_current_state dec \<in> {Critical, Emergency}), ctx_safety_events = in_recent_safety_events i,
       ctx_rollback_pending = False, ctx_provider_matches_snapshot = True \<rparr>)"

definition zram_audit :: "host_files \<Rightarrow> policy_decision \<Rightarrow> config \<Rightarrow> (zram_error, zram_audit_report) result" where
  "zram_audit H dec c = rbind (inspect_linux H ''/'') (\<lambda>iv.
     Ok \<lparr> za_timestamp_ns = pd_timestamp_ns dec, za_inventory = iv,
       za_plans = map (\<lambda>d. plan_profile (audit_context dec d) (compression c) (gen_mode (general c))) (inv_devices iv),
       za_benchmark_evidence = [], za_rollback_pending = False, za_recovery_pending = False, za_dry_run = True \<rparr>)"

definition DAMOS_REPORT_SCHEMA :: string where
  "DAMOS_REPORT_SCHEMA = ''nemor-damos-report-v1''"

definition damos_audit :: damos_report where
  "damos_audit = \<lparr> drp_schema = DAMOS_REPORT_SCHEMA, drp_capability = damos_capability_default, drp_plan = None, drp_shadow_stats = None,
     drp_live_stats = None, drp_reclaim = None, drp_refault = None, drp_refault_state = NotEvaluated, drp_blacklist = None,
     drp_cleanup = True, drp_recovery = True, drp_recovery_idempotent = True, drp_host_unchanged = True, drp_dry_run = True,
     drp_blocked_reasons = [''production_live_apply_forbidden''] \<rparr>"

record observe_audits =
  oa_zram :: "(zram_error, zram_audit_report) result"
  oa_tiering :: "(string, tiering_audit_report) result"
  oa_damon :: damon_report
  oa_damos :: damos_report
  oa_ksm :: ksm_report

definition audit_decision :: "tiering_host \<Rightarrow> policy_decision \<Rightarrow> config \<Rightarrow> observe_audits" where
  "audit_decision T dec c = (let H = host_tree.truncate T in
     \<lparr> oa_zram = zram_audit (host_files.truncate T) dec c, oa_tiering = tier_inspect_host T (tiering c) (pd_timestamp_ns dec),
       oa_damon = observe_report H (damon c) (map_option trim (ok_option (hf_read_to_string H ''/proc/sys/kernel/osrelease''))),
       oa_damos = damos_audit,
       oa_ksm = ksm_inspect_linux H ''/sys/kernel/mm/ksm'' ''/proc'' (word_of_int (pd_timestamp_ns dec)) \<rparr>)"

subsection \<open>No audit permits a change\<close>

lemma inspect_device_foreign: "inspect_device H base swaps n = Ok d \<Longrightarrow> di_ownership d \<in> {External, OwnershipUnknown}"
  by (simp only: inspect_device_def Let_def rbind_Ok_iff) (elim exE conjE, simp only: sum.inject, erule subst, simp)

lemma inspect_entries_foreign:
  "inspect_entries H base swaps es = Ok ds \<Longrightarrow> d \<in> set ds \<Longrightarrow> di_ownership d \<in> {External, OwnershipUnknown}"
proof (induction es arbitrary: ds)
  case (Cons e es)
  show ?case
  proof (cases e)
    case (Inl x)
    then show ?thesis using Cons.prems by simp
  next
    case (Inr n)
    show ?thesis
    proof (cases "valid_name n")
      case True
      then obtain d0 ds0 where "inspect_device H base swaps n = Ok d0" "inspect_entries H base swaps es = Ok ds0" "ds = d0 # ds0"
        using Cons.prems(1) Inr by auto
      then show ?thesis using Cons.IH Cons.prems(2) inspect_device_foreign [of H base swaps n d0] by (cases "d = d0") (simp_all only: set_ConsD, auto)
    qed (use Cons Inr in simp)
  qed
qed simp

lemma inspect_linux_foreign:
  assumes "inspect_linux H base = Ok iv" and "d \<in> set (inv_devices iv)"
  shows "di_ownership d \<in> {External, OwnershipUnknown}"
proof (cases "hf_read_dir H (resolve base ''/sys/block'')")
  case (Inl e)
  then show ?thesis using assms by (auto simp: inspect_linux_def split: if_splits)
next
  case (Inr es)
  then obtain swaps ds where "inspect_entries H base swaps es = Ok ds" "inv_devices iv = sort_key di_name ds"
    using assms(1) unfolding inspect_linux_def by (simp only: sum.case rbind_Ok_iff) fastforce
  then show ?thesis using inspect_entries_foreign assms(2) by (metis set_sort)
qed

lemma fired_member: "(True, r) \<in> set cs \<Longrightarrow> r \<in> set (fired cs)"
  by (force simp: fired_def)

lemma audit_plan_blocked:
  assumes "di_ownership d \<in> {External, OwnershipUnknown}"
  shows "\<not> zp_allowed (plan_profile (audit_context dec d) config mode)"
    and "''ownership_not_explicit'' \<in> set (zp_blocked_reasons (plan_profile (audit_context dec d) config mode))"
    and "zp_selected_algorithm (plan_profile (audit_context dec d) config mode) = di_current_algorithm d"
proof -
  have o: "di_ownership d \<notin> {NemorOwned, Adopted}" using assms by auto
  have d: "ctx_device (audit_context dec d) = d" "ctx_benchmarks (audit_context dec d) = []" by (simp_all add: audit_context_def Let_def)
  show "\<not> zp_allowed (plan_profile (audit_context dec d) config mode)"
    unfolding profile_allowed_iff using o by (auto simp: profile_checks_def Let_def d)
  have t: "(di_ownership (ctx_device (audit_context dec d)) \<notin> {NemorOwned, Adopted}) = True" using o by (simp add: d)
  have "(True, ''ownership_not_explicit'') \<in> set (profile_checks (audit_context dec d, config, mode))"
    unfolding profile_checks_def prod.case Let_def t list.set by (rule insertI1)
  then show "''ownership_not_explicit'' \<in> set (zp_blocked_reasons (plan_profile (audit_context dec d) config mode))"
    unfolding plan_profile_def Let_def by (simp only: zram_profile_plan.simps sort_dedup_def remdups_adj_set set_sort fired_member)
  show "zp_selected_algorithm (plan_profile (audit_context dec d) config mode) = di_current_algorithm d"
    by (simp add: plan_profile_def Let_def select_algorithm_def d)
qed

lemma no_baseline_keeps_zram:
  assumes "ri_same_host_zram_baseline i = None"
  shows "rb_selected (recommend_backend i) = ZramBackend" and "\<not> rb_production_activation (recommend_backend i)"
proof -
  have "fst (choose_backend i) = ZramBackend" by (simp add: choose_backend_def same_host_ready_def assms Let_def)
  then show "rb_selected (recommend_backend i) = ZramBackend" "\<not> rb_production_activation (recommend_backend i)"
    by (auto simp: recommend_backend_def split: prod.split)
qed

lemma sampled_plausible:
  assumes "sample_system S t = Ok s" and "0 < ss_mem_total_bytes s" and "ss_mem_total_bytes s < 2 ^ 46"
    and "ss_mem_available_bytes s \<le> ss_mem_total_bytes s" and "list_all (\<lambda>e. se_used_bytes e \<le> se_size_bytes e) (sw_entries (ss_swap s))"
  shows "plausible_sample s"
  using assms(2-5) sample_psi_memory [OF assms(1)]
  by (auto simp: plausible_sample_def psi_in_range_def psi_sample_ok_def psi_line_ok_def percentage_def finite_range_def split: option.split)

end
