(* ===== verification/Zram_Transaction.thy ===== *)
theory Zram_Transaction
  imports Zram_Profile Effects "HOL-Library.Finite_Map"
begin

text \<open>
  The zram reconfiguration transaction (\<open>crates/zram/src/transaction.rs\<close>) over an abstract
  backend (the trait of \<open>backend.rs\<close>): a replacement device is created, initialised and
  activated before the original one is deactivated, and every failure is rolled back. The
  locale \<open>swap_backend\<close> states what a backend promises of the swap devices; inside it the
  development proves that swap is never lost, not even when the process is interrupted between
  any two operations, and that a completed rollback restores the devices. The contract is
  discharged for the backend of the crate's own tests (\<open>tests.rs\<close>).
\<close>

datatype mutation_phase =
  PhSnapshot | PhReplacementCreated | PhAlgorithmConfigured | PhInitialized | PhActivated |
  PhOriginalDeactivated | PhVerified | PhRolledBack

record zram_snapshot =
  zs_session_id :: i64
  zs_timestamp_ns :: i64
  zs_provider :: provider
  zs_original :: device_inventory
  zs_replacement_name :: "string option"
  zs_requested_plan :: zram_profile_plan
  zs_phase :: mutation_phase
  zs_rollback_pending :: bool
  zs_last_error :: "string option"

record transaction_outcome =
  to_applied :: bool
  to_verified :: bool
  to_rolled_back :: bool
  to_phase :: mutation_phase

record 'b zram_backend =
  zb_inspect :: "'b \<Rightarrow> (zram_error, inventory) result"
  zb_create_isolated_managed_device :: "(zram_error, 'b, device_inventory) eff"
  zb_configure_uninitialized :: "string \<Rightarrow> string \<Rightarrow> (zram_error, 'b, unit) eff"
  zb_initialize :: "string \<Rightarrow> u64 \<Rightarrow> (zram_error, 'b, unit) eff"
  zb_activate :: "string \<Rightarrow> i32 \<Rightarrow> (zram_error, 'b, unit) eff"
  zb_deactivate :: "string \<Rightarrow> (zram_error, 'b, unit) eff"
  zb_verify :: "'b \<Rightarrow> string \<Rightarrow> (zram_error, device_inventory) result"
  zb_reset_managed_device :: "string \<Rightarrow> (zram_error, 'b, unit) eff"
  zb_remove_managed_device :: "string \<Rightarrow> (zram_error, 'b, unit) eff"
  zb_effective_valid_swap_capacity :: "'b \<Rightarrow> (zram_error, u64) result"
  zb_is_owned :: "'b \<Rightarrow> string \<Rightarrow> bool"

fun show_zram_error :: "zram_error \<Rightarrow> string" where
  "show_zram_error (ZRead path source) = ''cannot read zram interface '' @ path @ '': '' @ io_text source"
| "show_zram_error (ZParse field message) = ''invalid zram field `'' @ field @ ''`: '' @ message"
| "show_zram_error (ZBlocked s) = ''zram operation blocked: '' @ s"
| "show_zram_error (ZBackend operation message) = ''zram backend operation `'' @ operation @ ''` failed: '' @ message"
| "show_zram_error (ZVerification s) = ''zram verification failed: '' @ s"

type_synonym ('b, 'a) tx = "(zram_error, 'b \<times> zram_snapshot, 'a) eff"

subsection \<open>Rollback\<close>

definition ensure_swap :: "'b zram_backend \<Rightarrow> ('b, unit) tx" where
  "ensure_swap B = bindA (b_read (zb_effective_valid_swap_capacity B)) (\<lambda>capacity.
     if capacity = 0 then throw (ZVerification ''no-swap-loss invariant violated'') else ret ())"

definition set_phase :: "mutation_phase \<Rightarrow> ('b, unit) tx" where
  "set_phase p = s_modify (\<lambda>s. s\<lparr> zs_phase := p \<rparr>)"

definition rolled_back_outcome :: transaction_outcome where
  "rolled_back_outcome = \<lparr> to_applied = False, to_verified = True, to_rolled_back = True, to_phase = PhRolledBack \<rparr>"

definition restore_original :: "'b zram_backend \<Rightarrow> device_inventory \<Rightarrow> ('b, unit) tx" where
  "restore_original B original = whenA (di_active_swap original)
     (bindA (b_read (\<lambda>b. zb_verify B b (di_name original))) (\<lambda>current.
      whenA (\<not> di_active_swap current)
        (bindA (b_op (zb_activate B (di_name original) (unwrap_or 100 (di_priority original)))) (\<lambda>_. ensure_swap B))))"

definition drop_replacement :: "'b zram_backend \<Rightarrow> string \<Rightarrow> ('b, unit) tx" where
  "drop_replacement B replacement w =
     (if zb_is_owned B (fst w) replacement then
        bindA (b_read (\<lambda>b. zb_verify B b replacement)) (\<lambda>current.
        bindA (whenA (di_active_swap current)
          (bindA (b_op (zb_deactivate B replacement)) (\<lambda>_. ensure_swap B))) (\<lambda>_.
        b_op (zb_remove_managed_device B replacement))) w
      else ret () w)"

definition rollback :: "'b zram_backend \<Rightarrow> ('b, transaction_outcome) tx" where
  "rollback B = bindA (s_get id) (\<lambda>snap.
     if zs_phase snap = PhRolledBack then ret rolled_back_outcome
     else
      bindA (restore_original B (zs_original snap)) (\<lambda>_.
      bindA (case zs_replacement_name snap of None \<Rightarrow> ret () | Some replacement \<Rightarrow> drop_replacement B replacement) (\<lambda>_.
      bindA (s_modify (\<lambda>s. s\<lparr> zs_phase := PhRolledBack, zs_rollback_pending := False \<rparr>)) (\<lambda>_.
      ret rolled_back_outcome))))"

definition recover_pending :: "'b zram_backend \<Rightarrow> ('b, transaction_outcome) tx" where
  "recover_pending B = bindA (s_get id) (\<lambda>snap.
     if \<not> zs_rollback_pending snap \<or> zs_phase snap = PhRolledBack
     then ret \<lparr> to_applied = False, to_verified = True, to_rolled_back = (zs_phase snap = PhRolledBack),
                to_phase = zs_phase snap \<rparr>
     else if di_ownership (zs_original snap) \<notin> {NemorOwned, Adopted}
     then throw (ZBlocked ''recovery ownership is ambiguous'')
     else rollback B)"

subsection \<open>Application\<close>

definition migrate :: "'b zram_backend \<Rightarrow> zram_profile_plan \<Rightarrow> string \<Rightarrow> u64 \<Rightarrow> ('b, unit) tx" where
  "migrate B req original initial_capacity = whenA (zp_requires_swap_migration req)
     (if initial_capacity = 0 then throw (ZVerification ''migration cannot start without valid swap'')
      else bindA (b_op (zb_deactivate B original)) (\<lambda>_.
           bindA (set_phase PhOriginalDeactivated) (\<lambda>_. ensure_swap B)))"

definition prepare_replacement :: "'b zram_backend \<Rightarrow> zram_profile_plan \<Rightarrow> string \<Rightarrow> ('b, unit) tx" where
  "prepare_replacement B req replacement =
     (case zp_selected_algorithm req of
        None \<Rightarrow> throw (ZBlocked ''selected algorithm unavailable'')
      | Some algorithm \<Rightarrow>
         bindA (b_op (zb_configure_uninitialized B replacement algorithm)) (\<lambda>_.
         bindA (set_phase PhAlgorithmConfigured) (\<lambda>_.
         case opt_filter (\<lambda>v. v > 0) (zp_proposed_disksize req) of
           None \<Rightarrow> throw (ZBlocked ''proposed disksize invalid'')
         | Some disksize \<Rightarrow>
            bindA (b_op (zb_initialize B replacement disksize)) (\<lambda>_.
            bindA (set_phase PhInitialized) (\<lambda>_.
            bindA (b_read (\<lambda>b. zb_verify B b replacement)) (\<lambda>initialized.
            if di_disksize initialized \<noteq> Some disksize
            then throw (ZVerification ''replacement disksize readback mismatch'')
            else
              bindA (b_op (zb_activate B replacement (unwrap_or 100 (zp_proposed_priority req)))) (\<lambda>_.
              bindA (set_phase PhActivated) (\<lambda>_. ensure_swap B))))))))"

definition verify_replacement :: "'b zram_backend \<Rightarrow> string \<Rightarrow> ('b, transaction_outcome) tx" where
  "verify_replacement B replacement =
     bindA (b_read (\<lambda>b. zb_verify B b replacement)) (\<lambda>verified.
     if \<not> di_active_swap verified then throw (ZVerification ''replacement is not active swap'')
     else bindA (s_modify (\<lambda>s. s\<lparr> zs_phase := PhVerified, zs_rollback_pending := False \<rparr>)) (\<lambda>_.
       ret \<lparr> to_applied = True, to_verified = True, to_rolled_back = False, to_phase = PhVerified \<rparr>))"

definition apply_after_create :: "'b zram_backend \<Rightarrow> u64 \<Rightarrow> ('b, transaction_outcome) tx" where
  "apply_after_create B initial_capacity = bindA (s_get id) (\<lambda>snap.
     case zs_replacement_name snap of
       None \<Rightarrow> throw (ZVerification ''replacement is missing'')
     | Some replacement \<Rightarrow>
        bindA (prepare_replacement B (zs_requested_plan snap) replacement) (\<lambda>_.
        bindA (migrate B (zs_requested_plan snap) (di_name (zs_original snap)) initial_capacity) (\<lambda>_.
        verify_replacement B replacement)))"

text \<open>The error path: record the error, roll back as far as possible, return the error.\<close>

definition fail_and_roll_back :: "'b zram_backend \<Rightarrow> zram_error \<Rightarrow> ('b, transaction_outcome) tx" where
  "fail_and_roll_back B e w =
     (let w1 = (fst w, (snd w)\<lparr> zs_last_error := Some (show_zram_error e), zs_rollback_pending := True \<rparr>)
      in (Err e, snd (rollback B w1)))"

definition apply_plan :: "'b zram_backend \<Rightarrow> ('b, transaction_outcome) tx" where
  "apply_plan B = bindA (s_get id) (\<lambda>snap.
     if zp_dry_run (zs_requested_plan snap)
     then ret \<lparr> to_applied = False, to_verified = False, to_rolled_back = False, to_phase = PhSnapshot \<rparr>
     else if \<not> zp_allowed (zs_requested_plan snap)
     then throw (ZBlocked (join '','' (zp_blocked_reasons (zs_requested_plan snap))))
     else if di_ownership (zs_original snap) \<notin> {NemorOwned, Adopted}
     then throw (ZBlocked ''original ownership is ambiguous'')
     else
      bindA (b_read (zb_effective_valid_swap_capacity B)) (\<lambda>initial_capacity.
      bindA (b_op (zb_create_isolated_managed_device B)) (\<lambda>replacement.
      bindA (s_modify (\<lambda>s. s\<lparr> zs_replacement_name := Some (di_name replacement),
                               zs_phase := PhReplacementCreated \<rparr>)) (\<lambda>_.
      catchA (apply_after_create B initial_capacity) (fail_and_roll_back B)))))"

subsection \<open>The contract of a backend\<close>

text \<open>What matters of the devices: whether each is active swap, and its size.\<close>

type_synonym swap_view = "string \<rightharpoonup> bool \<times> u64 option"

definition live :: "swap_view \<Rightarrow> bool" where
  "live v \<longleftrightarrow> (\<exists>n s. v n = Some (True, Some s) \<and> s \<noteq> 0)"

locale swap_backend =
  fixes B :: "'b zram_backend"
    and view :: "'b \<Rightarrow> swap_view"
    and fresh :: "'b \<Rightarrow> bool"
  assumes verify_Ok: "zb_verify B b n = Ok d \<Longrightarrow> view b n = Some (di_active_swap d, di_disksize d)"
    and capacity_Ok: "zb_effective_valid_swap_capacity B b = Ok c \<Longrightarrow> c \<noteq> 0 \<longleftrightarrow> live (view b)"
    and create_Ok: "fresh b \<Longrightarrow> zb_create_isolated_managed_device B b = (Ok d, b') \<Longrightarrow>
      view b (di_name d) = None \<and> (\<exists>s. view b' = (view b)(di_name d \<mapsto> (False, s))) \<and> zb_is_owned B b' (di_name d)"
    and create_Err: "zb_create_isolated_managed_device B b = (Err e, b') \<Longrightarrow> view b n \<noteq> None \<Longrightarrow> view b' n = view b n"
    and configure: "zb_configure_uninitialized B n a b = (r, b') \<Longrightarrow>
      view b' = view b \<and> zb_is_owned B b' = zb_is_owned B b"
    and initialize: "zb_initialize B n sz b = (r, b') \<Longrightarrow> zb_is_owned B b' = zb_is_owned B b \<and>
      (case r of Inl _ \<Rightarrow> view b' = view b
       | Inr _ \<Rightarrow> \<exists>a s. view b n = Some (a, s) \<and> view b' = (view b)(n \<mapsto> (a, Some sz)))"
    and activate: "zb_activate B n p b = (r, b') \<Longrightarrow> zb_is_owned B b' = zb_is_owned B b \<and>
      (case r of Inl _ \<Rightarrow> view b' = view b
       | Inr _ \<Rightarrow> \<exists>a s. view b n = Some (a, s) \<and> view b' = (view b)(n \<mapsto> (True, s)))"
    and deactivate: "zb_deactivate B n b = (r, b') \<Longrightarrow> zb_is_owned B b' = zb_is_owned B b \<and>
      (case r of Inl _ \<Rightarrow> view b' = view b
       | Inr _ \<Rightarrow> \<exists>a s. view b n = Some (a, s) \<and> view b' = (view b)(n \<mapsto> (False, s)))"
    and remove_Ok: "zb_remove_managed_device B n b = (Ok u, b') \<Longrightarrow> view b' = (view b)(n := None)"
    and remove_Err: "zb_remove_managed_device B n b = (Err e, b') \<Longrightarrow>
      zb_is_owned B b' = zb_is_owned B b \<and> (\<forall>m. m \<noteq> n \<longrightarrow> view b' m = view b m)"

text \<open>The state of a transaction that started with the devices \<open>v0\<close>, with original device \<open>orig\<close> and
  replacement \<open>r\<close>: all other devices are as they were, and the original one at most inactive.\<close>

definition others_kept :: "swap_view \<Rightarrow> string \<Rightarrow> string \<Rightarrow> swap_view \<Rightarrow> bool" where
  "others_kept v0 orig r v \<longleftrightarrow> v0 r = None \<and> v0 orig \<noteq> None \<and> (\<forall>m. m \<noteq> r \<longrightarrow> m \<noteq> orig \<longrightarrow> v m = v0 m) \<and>
     (v orig = v0 orig \<or> (\<exists>a s. v0 orig = Some (a, s) \<and> v orig = Some (False, s)))"

definition serves :: "string \<Rightarrow> swap_view \<Rightarrow> bool" where
  "serves r v \<longleftrightarrow> (\<exists>s. v r = Some (True, Some s) \<and> s \<noteq> 0)"

text \<open>Swap survives as long as the original device is untouched or the replacement serves.\<close>

lemma others_kept_live:
  assumes "others_kept v0 orig r v" and "live v0" and "v orig = v0 orig \<or> serves r v"
  shows "live v"
proof -
  obtain n s where n: "v0 n = Some (True, Some s)" "s \<noteq> 0" using assms(2) by (auto simp: live_def)
  show ?thesis
  proof (cases "n = orig \<and> v orig \<noteq> v0 orig")
    case True
    then show ?thesis using assms(3) by (auto simp: serves_def live_def)
  next
    case False
    moreover have "n \<noteq> r" using assms(1) n(1) by (auto simp: others_kept_def)
    ultimately have "v n = v0 n" using assms(1) by (cases "n = orig") (auto simp: others_kept_def)
    then show ?thesis using n by (auto simp: live_def)
  qed
qed

lemma others_kept_neq: "others_kept v0 orig r v \<Longrightarrow> orig \<noteq> r"
  by (auto simp: others_kept_def)

lemma others_kept_upd_r:
  "others_kept v0 orig r v \<Longrightarrow> others_kept v0 orig r (v(r := x))" "others_kept v0 orig r v \<Longrightarrow> (v(r := x)) orig = v orig"
  by (auto simp: others_kept_def)

text \<open>The predicate that every step of the transaction keeps.\<close>

definition tx_state ::
  "'b zram_backend \<Rightarrow> ('b \<Rightarrow> swap_view) \<Rightarrow> swap_view \<Rightarrow> device_inventory \<Rightarrow> zram_profile_plan \<Rightarrow> string \<Rightarrow>
     (swap_view \<Rightarrow> bool) \<Rightarrow> 'b \<times> zram_snapshot \<Rightarrow> bool" where
  "tx_state B view v0 orig req r cond w \<longleftrightarrow>
     others_kept v0 (di_name orig) r (view (fst w)) \<and> zb_is_owned B (fst w) r \<and> cond (view (fst w)) \<and>
     zs_original (snd w) = orig \<and> zs_requested_plan (snd w) = req \<and> zs_replacement_name (snd w) = Some r \<and>
     zs_phase (snd w) \<noteq> PhRolledBack"

text \<open>The original device is as it was; swap is served by the original or by the replacement.\<close>

definition untouched :: "swap_view \<Rightarrow> string \<Rightarrow> swap_view \<Rightarrow> bool" where
  "untouched v0 orig v \<longleftrightarrow> v orig = v0 orig"

definition covered :: "swap_view \<Rightarrow> string \<Rightarrow> string \<Rightarrow> swap_view \<Rightarrow> bool" where
  "covered v0 orig r v \<longleftrightarrow> untouched v0 orig v \<or> serves r v"

lemma tx_state_mono:
  "tx_state B view v0 orig req r M w \<Longrightarrow> (\<And>v. M v \<Longrightarrow> M' v) \<Longrightarrow> tx_state B view v0 orig req r M' w"
  by (simp add: tx_state_def)

lemma tx_set_phase:
  "p \<noteq> PhRolledBack \<Longrightarrow> triple (tx_state B view v0 orig req r M) (set_phase p) (\<lambda>_. tx_state B view v0 orig req r M) E"
  by (rule tripleI) (auto simp: set_phase_def tx_state_def)

context swap_backend
begin

lemma ensure_swap_keeps: "triple P (ensure_swap B) (\<lambda>_. P) P"
  by (rule tripleI) (auto simp: ensure_swap_def bindA_def b_read_def throw_def ret_def split: sum.splits if_splits)

lemma read_keeps: "triple P (b_read f) (\<lambda>_. P) P"
  by (rule tripleI) (auto simp: b_read_def)

text \<open>An operation on one device that changes its entry by \<open>upd\<close>, or nothing.\<close>

lemma device_op:
  assumes "\<And>b res b'. op b = (res, b') \<Longrightarrow> zb_is_owned B b' = zb_is_owned B b \<and>
      (case res of Inl _ \<Rightarrow> view b' = view b
       | Inr _ \<Rightarrow> \<exists>a s. view b n = Some (a, s) \<and> view b' = (view b)(n \<mapsto> upd a s))"
    and "\<And>v a s. others_kept v0 (di_name orig) r v \<Longrightarrow> M v \<Longrightarrow> v n = Some (a, s) \<Longrightarrow>
      others_kept v0 (di_name orig) r (v(n \<mapsto> upd a s)) \<and> M' (v(n \<mapsto> upd a s))"
  shows "triple (tx_state B view v0 orig req r M) (b_op op) (\<lambda>_. tx_state B view v0 orig req r M')
      (tx_state B view v0 orig req r M)"
proof (rule tripleI)
  fix w x w'
  assume t: "tx_state B view v0 orig req r M w" and "b_op op w = (Ok x, w')"
  then have o: "op (fst w) = (Ok x, fst w')" "snd w' = snd w" by (simp_all add: b_op_eq)
  from assms(1) [OF o(1)] obtain a s where "view (fst w) n = Some (a, s)"
    "view (fst w') = (view (fst w))(n \<mapsto> upd a s)" "zb_is_owned B (fst w') = zb_is_owned B (fst w)" by auto
  with assms(2) [of "view (fst w)" a s] t o(2) show "tx_state B view v0 orig req r M' w'"
    by (simp add: tx_state_def)
next
  fix w e w'
  assume t: "tx_state B view v0 orig req r M w" and "b_op op w = (Err e, w')"
  then have o: "op (fst w) = (Err e, fst w')" "snd w' = snd w" by (simp_all add: b_op_eq)
  with assms(1) [OF o(1)] t show "tx_state B view v0 orig req r M w'" by (simp add: tx_state_def)
qed

lemma configure_keeps:
  "triple (tx_state B view v0 orig req r M) (b_op (zb_configure_uninitialized B n a)) (\<lambda>_. tx_state B view v0 orig req r M)
     (tx_state B view v0 orig req r M)"
  by (rule tripleI) (auto simp: b_op_eq tx_state_def dest!: configure)

lemma prepare_triple:
  "triple (tx_state B view v0 orig req r (untouched v0 (di_name orig))) (prepare_replacement B q r)
     (\<lambda>_. tx_state B view v0 orig req r (\<lambda>v. untouched v0 (di_name orig) v \<and> serves r v))
     (tx_state B view v0 orig req r (untouched v0 (di_name orig)))"
proof (cases "zp_selected_algorithm q")
  case None
  then show ?thesis by (simp add: prepare_replacement_def triple_throw)
next
  case (Some algorithm)
  let ?S = "tx_state B view v0 orig req r" and ?U = "untouched v0 (di_name orig)"
  show ?thesis
  proof (cases "opt_filter (\<lambda>v. v > 0) (zp_proposed_disksize q)")
    case None
    show ?thesis unfolding prepare_replacement_def Some None option.case
      by (rule triple_bind [OF configure_keeps], rule triple_bind [OF tx_set_phase], simp, rule triple_throw)
  next
    case (Some sz)
    then have sz: "sz \<noteq> 0" by (cases "zp_proposed_disksize q") (auto split: if_splits)
    let ?I = "\<lambda>v. ?U v \<and> (\<exists>a. v r = Some (a, Some sz))"
    have init: "triple (?S ?U) (b_op (zb_initialize B r sz)) (\<lambda>_. ?S ?I) (?S ?U)"
      by (rule device_op [where upd = "\<lambda>a s. (a, Some sz)"])
        (use initialize [of r sz] in \<open>auto simp: others_kept_upd_r untouched_def dest: others_kept_neq\<close>)
    have act: "triple (?S ?I) (b_op (zb_activate B r p)) (\<lambda>_. ?S (\<lambda>v. ?U v \<and> serves r v)) (?S ?U)" for p
      by (rule triple_conseq [OF device_op [where upd = "\<lambda>a s. (True, s)" and M = ?I and M' = "\<lambda>v. ?U v \<and> serves r v"]])
        (use activate [of r p] sz in \<open>auto simp: others_kept_upd_r untouched_def serves_def dest: others_kept_neq elim: tx_state_mono\<close>)
    have check: "triple (?S ?I) (b_read (\<lambda>b. zb_verify B b r)) (\<lambda>_. ?S ?I) (?S ?U)"
      by (rule triple_conseq [OF read_keeps [of "?S ?I"]]) (auto elim: tx_state_mono)
    have swap: "triple (?S (\<lambda>v. ?U v \<and> serves r v)) (ensure_swap B) (\<lambda>_. ?S (\<lambda>v. ?U v \<and> serves r v)) (?S ?U)"
      by (rule triple_conseq [OF ensure_swap_keeps [of "?S (\<lambda>v. ?U v \<and> serves r v)"]]) (auto elim: tx_state_mono)
    show ?thesis unfolding prepare_replacement_def \<open>zp_selected_algorithm q = Some algorithm\<close> Some option.case
      by (rule triple_bind [OF configure_keeps], rule triple_bind [OF tx_set_phase], simp,
          rule triple_bind [OF init], rule triple_bind [OF tx_set_phase], simp, rule triple_bind [OF check],
          rule triple_if, rule triple_throw, erule tx_state_mono, simp, rule triple_bind [OF act],
          rule triple_bind [OF tx_set_phase], simp, rule swap)
  qed
qed

lemma migrate_triple:
  "triple (tx_state B view v0 orig req r (\<lambda>v. untouched v0 (di_name orig) v \<and> serves r v))
     (migrate B q (di_name orig) c)
     (\<lambda>_. tx_state B view v0 orig req r (\<lambda>v. serves r v \<and>
        (zp_requires_swap_migration q \<longrightarrow> map_option fst (v (di_name orig)) = Some False) \<and>
        (\<not> zp_requires_swap_migration q \<longrightarrow> untouched v0 (di_name orig) v)))
     (tx_state B view v0 orig req r (covered v0 (di_name orig) r))"
proof -
  let ?S = "tx_state B view v0 orig req r" and ?U = "untouched v0 (di_name orig)"
  let ?D = "\<lambda>v. serves r v \<and> map_option fst (v (di_name orig)) = Some False"
  have off: "triple (?S (\<lambda>v. ?U v \<and> serves r v)) (b_op (zb_deactivate B (di_name orig))) (\<lambda>_. ?S ?D)
      (?S (covered v0 (di_name orig) r))"
    by (rule triple_conseq [OF device_op [where upd = "\<lambda>a s. (False, s)" and M = "\<lambda>v. ?U v \<and> serves r v" and M' = ?D]])
      (use deactivate [of "di_name orig"] in
        \<open>auto simp: others_kept_def untouched_def serves_def covered_def elim: tx_state_mono\<close>)
  have swap: "triple (?S ?D) (ensure_swap B) (\<lambda>_. ?S ?D) (?S (covered v0 (di_name orig) r))"
    by (rule triple_conseq [OF ensure_swap_keeps [of "?S ?D"]]) (auto simp: covered_def elim: tx_state_mono)
  show ?thesis
  proof (cases "zp_requires_swap_migration q")
    case False
    then show ?thesis by (auto simp: migrate_def whenA_def intro!: triple_ret elim: tx_state_mono)
  next
    case True
    have "triple (?S (\<lambda>v. ?U v \<and> serves r v)) (migrate B q (di_name orig) c) (\<lambda>_. ?S ?D)
        (?S (covered v0 (di_name orig) r))"
      unfolding migrate_def whenA_def if_P [OF True]
      by (rule triple_if, rule triple_throw, erule tx_state_mono, simp add: covered_def,
          rule triple_bind [OF off], rule triple_bind [OF tx_set_phase], simp, rule swap)
    then show ?thesis by (rule triple_conseq) (use True in \<open>auto elim: tx_state_mono\<close>)
  qed
qed

lemma verify_replacement_triple:
  "triple (tx_state B view v0 orig req r M) (verify_replacement B r)
     (\<lambda>out w. tx_state B view v0 orig req r M w \<and> to_applied out \<and> to_verified out \<and> zs_phase (snd w) = PhVerified)
     (tx_state B view v0 orig req r M)"
proof -
  have fin: "triple (tx_state B view v0 orig req r M)
      (bindA (s_modify (\<lambda>s. s\<lparr> zs_phase := PhVerified, zs_rollback_pending := False \<rparr>)) (\<lambda>_.
        ret \<lparr> to_applied = True, to_verified = True, to_rolled_back = False, to_phase = PhVerified \<rparr>))
      (\<lambda>out w. tx_state B view v0 orig req r M w \<and> to_applied out \<and> to_verified out \<and> zs_phase (snd w) = PhVerified)
      (tx_state B view v0 orig req r M)"
    by (rule tripleI) (auto simp: bindA_def s_modify_def ret_def tx_state_def)
  show ?thesis unfolding verify_replacement_def
    by (rule triple_bind [OF read_keeps], rule triple_if, rule triple_throw, assumption, rule fin)
qed

text \<open>The transaction after the replacement exists.\<close>

lemma apply_after_create_triple:
  "triple (tx_state B view v0 orig req r (untouched v0 (di_name orig))) (apply_after_create B c)
     (\<lambda>out w. tx_state B view v0 orig req r (\<lambda>v. serves r v \<and>
        (zp_requires_swap_migration req \<longrightarrow> map_option fst (v (di_name orig)) = Some False) \<and>
        (\<not> zp_requires_swap_migration req \<longrightarrow> untouched v0 (di_name orig) v)) w \<and>
        to_applied out \<and> to_verified out \<and> zs_phase (snd w) = PhVerified)
     (tx_state B view v0 orig req r (covered v0 (di_name orig) r))" (is "triple ?P _ ?Q ?E")
proof -
  have prep: "triple ?P (prepare_replacement B req r)
      (\<lambda>_. tx_state B view v0 orig req r (\<lambda>v. untouched v0 (di_name orig) v \<and> serves r v)) ?E"
    by (rule triple_conseq [OF prepare_triple]) (auto simp: covered_def elim: tx_state_mono)
  have ver: "triple (tx_state B view v0 orig req r (\<lambda>v. serves r v \<and>
        (zp_requires_swap_migration req \<longrightarrow> map_option fst (v (di_name orig)) = Some False) \<and>
        (\<not> zp_requires_swap_migration req \<longrightarrow> untouched v0 (di_name orig) v))) (verify_replacement B r) ?Q ?E"
    by (rule triple_conseq [OF verify_replacement_triple, rotated 1], assumption) (auto simp: covered_def elim: tx_state_mono)
  have body: "triple ?P (bindA (prepare_replacement B req r) (\<lambda>_.
      bindA (migrate B req (di_name orig) c) (\<lambda>_. verify_replacement B r))) ?Q ?E"
    by (rule triple_bind [OF prep], rule triple_bind [OF migrate_triple], rule ver)
  show ?thesis
  proof (rule tripleI)
    fix w out w'
    assume p: "?P w" and "apply_after_create B c w = (Ok out, w')"
    then show "?Q out w'" using triple_Ok [OF body p] by (simp add: apply_after_create_def bindA_def s_get_def tx_state_def)
  next
    fix w e w'
    assume p: "?P w" and "apply_after_create B c w = (Err e, w')"
    then show "?E w'" using triple_Err [OF body p] by (simp add: apply_after_create_def bindA_def s_get_def tx_state_def)
  qed
qed

lemma restore_triple:
  assumes "v0 (di_name orig) = Some (di_active_swap orig, sz)"
  shows "triple (tx_state B view v0 orig req r (covered v0 (di_name orig) r)) (restore_original B orig)
     (\<lambda>_. tx_state B view v0 orig req r (untouched v0 (di_name orig)))
     (tx_state B view v0 orig req r (covered v0 (di_name orig) r))"
proof (cases "di_active_swap orig")
  case False
  then have "others_kept v0 (di_name orig) r v \<Longrightarrow> untouched v0 (di_name orig) v" for v
    using assms by (auto simp: others_kept_def untouched_def)
  then show ?thesis using False
    by (auto simp: restore_original_def whenA_def tx_state_def intro!: triple_ret)
next
  case True
  let ?S = "tx_state B view v0 orig req r" and ?U = "untouched v0 (di_name orig)"
  let ?C = "covered v0 (di_name orig) r"
  let ?V = "\<lambda>current w. ?S ?C w \<and> (di_active_swap current \<longrightarrow> ?S ?U w)"
  have ver: "triple (?S ?C) (b_read (\<lambda>b. zb_verify B b (di_name orig))) ?V (?S ?C)"
    using verify_Ok True assms
    by (intro tripleI) (fastforce simp: tx_state_def others_kept_def untouched_def)+
  have on: "triple (?S ?C) (b_op (zb_activate B (di_name orig) p)) (\<lambda>_. ?S ?U) (?S ?C)" for p
    by (rule device_op [where upd = "\<lambda>a s. (True, s)"])
      (use activate [of "di_name orig" p] True assms in \<open>auto simp: others_kept_def untouched_def\<close>)
  have swap: "triple (?S ?U) (ensure_swap B) (\<lambda>_. ?S ?U) (?S ?C)"
    by (rule triple_conseq [OF ensure_swap_keeps [of "?S ?U"]]) (auto simp: covered_def elim: tx_state_mono)
  have "triple (?S ?C) (bindA (b_op (zb_activate B (di_name orig) p)) (\<lambda>_. ensure_swap B)) (\<lambda>_. ?S ?U) (?S ?C)" for p
    by (rule triple_bind [OF on swap])
  then have "triple (?V current) (whenA (\<not> di_active_swap current)
      (bindA (b_op (zb_activate B (di_name orig) p)) (\<lambda>_. ensure_swap B))) (\<lambda>_. ?S ?U) (?S ?C)" for current p
    by (rule triple_when [OF triple_conseq]) auto
  from triple_bind [OF ver this] show ?thesis
    unfolding restore_original_def whenA_def if_P [OF True] .
qed

text \<open>After the replacement is dropped the devices are the initial ones.\<close>

lemma drop_triple:
  "triple (tx_state B view v0 orig req r (untouched v0 (di_name orig))) (drop_replacement B r)
     (\<lambda>_ w. view (fst w) = v0) (tx_state B view v0 orig req r (untouched v0 (di_name orig)))" (is "triple ?P _ ?Q _")
proof -
  have off: "triple ?P (b_op (zb_deactivate B r)) (\<lambda>_. ?P) ?P"
    by (rule device_op [where upd = "\<lambda>a s. (False, s)"])
      (use deactivate [of r] in \<open>auto simp: others_kept_upd_r untouched_def dest: others_kept_neq\<close>)
  have rem: "triple ?P (b_op (zb_remove_managed_device B r)) ?Q ?P"
  proof (rule tripleI)
    fix w x w'
    assume p: "?P w" and "b_op (zb_remove_managed_device B r) w = (Ok x, w')"
    then have "view (fst w') = (view (fst w))(r := None)" by (auto simp: b_op_eq dest: remove_Ok)
    then show "view (fst w') = v0" using p by (intro ext) (auto simp: tx_state_def others_kept_def untouched_def)
  next
    fix w e w'
    assume p: "?P w" and "b_op (zb_remove_managed_device B r) w = (Err e, w')"
    then have o: "zb_remove_managed_device B r (fst w) = (Err e, fst w')" "snd w' = snd w" by (simp_all add: b_op_eq)
    then have "view (fst w') = (view (fst w))(r := view (fst w') r)" by (intro ext) (auto dest: remove_Err)
    moreover have "others_kept v0 (di_name orig) r (view (fst w))" "untouched v0 (di_name orig) (view (fst w))"
      using p by (simp_all add: tx_state_def)
    ultimately have "others_kept v0 (di_name orig) r (view (fst w'))" "untouched v0 (di_name orig) (view (fst w'))"
      using others_kept_upd_r by (metis untouched_def)+
    then show "?P w'" using p o remove_Err [OF o(1)] by (simp add: tx_state_def)
  qed
  have body: "triple ?P (bindA (b_read (\<lambda>b. zb_verify B b r)) (\<lambda>current.
        bindA (whenA (di_active_swap current) (bindA (b_op (zb_deactivate B r)) (\<lambda>_. ensure_swap B))) (\<lambda>_.
        b_op (zb_remove_managed_device B r)))) ?Q ?P"
    by (rule triple_bind [OF read_keeps], rule triple_bind [OF triple_when rem],
        rule triple_bind [OF off ensure_swap_keeps])
  have "drop_replacement B r w = bindA (b_read (\<lambda>b. zb_verify B b r)) (\<lambda>current.
        bindA (whenA (di_active_swap current) (bindA (b_op (zb_deactivate B r)) (\<lambda>_. ensure_swap B))) (\<lambda>_.
        b_op (zb_remove_managed_device B r))) w" if "?P w" for w
    using that by (simp add: drop_replacement_def tx_state_def)
  then show ?thesis using triple_Ok [OF body] triple_Err [OF body] by (intro tripleI) auto
qed

lemma covered_live:
  assumes "live v0" and "tx_state B view v0 orig req r (covered v0 (di_name orig) r) w"
  shows "live (view (fst w))"
  using assms(2) others_kept_live [OF _ assms(1)] by (auto simp: tx_state_def covered_def untouched_def)

text \<open>A rollback leaves swap in place, and restores the devices when it completes.\<close>

lemma rollback_result:
  assumes "v0 (di_name orig) = Some (di_active_swap orig, sz)"
    and "tx_state B view v0 orig req r (covered v0 (di_name orig) r) w" and "rollback B w = (res, w')"
  shows "case res of Inl _ \<Rightarrow> tx_state B view v0 orig req r (covered v0 (di_name orig) r) w'
     | Inr _ \<Rightarrow> view (fst w') = v0 \<and> zs_phase (snd w') = PhRolledBack"
proof -
  let ?C = "tx_state B view v0 orig req r (covered v0 (di_name orig) r)"
  let ?mark = "bindA (s_modify (\<lambda>s. s\<lparr> zs_phase := PhRolledBack, zs_rollback_pending := False \<rparr>))
      (\<lambda>_. ret rolled_back_outcome)"
  let ?Q = "\<lambda>_ w. view (fst w) = v0 \<and> zs_phase (snd w) = PhRolledBack"
  have drop: "triple (tx_state B view v0 orig req r (untouched v0 (di_name orig))) (drop_replacement B r)
      (\<lambda>_ w. view (fst w) = v0) ?C"
    by (rule triple_conseq [OF drop_triple]) (auto simp: covered_def elim: tx_state_mono)
  have fin: "triple (\<lambda>w. view (fst w) = v0) ?mark ?Q ?C"
    by (rule tripleI) (auto simp: bindA_def s_modify_def ret_def)
  have body: "triple ?C (bindA (restore_original B orig) (\<lambda>_. bindA (drop_replacement B r) (\<lambda>_. ?mark))) ?Q ?C"
    by (rule triple_bind [OF restore_triple [where ?v0.0 = v0 and orig = orig and sz = sz, OF assms(1)]],
        rule triple_bind [OF drop fin])
  have run: "rollback B w = bindA (restore_original B orig) (\<lambda>_. bindA (drop_replacement B r) (\<lambda>_. ?mark)) w"
    using assms(2) by (simp add: rollback_def bindA_run [of "s_get id"] s_get_def tx_state_def)
  show ?thesis using triple_Err [OF body assms(2)] triple_Ok [OF body assms(2)] assms(3) unfolding run
    by (cases res) auto
qed

end

text \<open>How far an application gets before the part that is rolled back on failure.\<close>

lemma apply_plan_cases:
  assumes "apply_plan B w = (res, w')"
  obtains (inert) "w' = w" "\<And>out. res = Ok out \<Longrightarrow> \<not> to_applied out"
  | (not_created) e where "zb_create_isolated_managed_device B (fst w) = (Err e, fst w')" "snd w' = snd w" "res = Err e"
  | (created) d b1 c where "zb_create_isolated_managed_device B (fst w) = (Ok d, b1)"
      "catchA (apply_after_create B c) (fail_and_roll_back B) (b1, (snd w)\<lparr> zs_replacement_name := Some (di_name d),
         zs_phase := PhReplacementCreated \<rparr>) = (res, w')"
proof (cases "zp_dry_run (zs_requested_plan (snd w)) \<or> \<not> zp_allowed (zs_requested_plan (snd w)) \<or>
    di_ownership (zs_original (snd w)) \<notin> {NemorOwned, Adopted}")
  case True
  then have "w' = w \<and> (\<forall>out. res = Ok out \<longrightarrow> \<not> to_applied out)" using assms
    by (auto simp: apply_plan_def bindA_def s_get_def ret_def throw_def split: if_splits)
  then show ?thesis by (intro inert) auto
next
  case False
  then have run: "bindA (b_read (zb_effective_valid_swap_capacity B)) (\<lambda>initial_capacity.
      bindA (b_op (zb_create_isolated_managed_device B)) (\<lambda>replacement.
      bindA (s_modify (\<lambda>s. s\<lparr> zs_replacement_name := Some (di_name replacement),
                               zs_phase := PhReplacementCreated \<rparr>)) (\<lambda>_.
      catchA (apply_after_create B initial_capacity) (fail_and_roll_back B)))) w = (res, w')"
    using assms by (simp add: apply_plan_def bindA_run [of "s_get id"] s_get_def)
  obtain rc where rc: "zb_effective_valid_swap_capacity B (fst w) = rc" by blast
  obtain rd b1 where rd: "zb_create_isolated_managed_device B (fst w) = (rd, b1)" by (metis surj_pair)
  show thesis
  proof (cases rc)
    case (Inl e)
    then show thesis using run rc by (intro inert) (auto simp: bindA_def b_read_def)
  next
    case (Inr c)
    note c = rc [unfolded Inr]
    show thesis
    proof (cases rd)
      case (Inl e)
      then show thesis using run c rd by (intro not_created [of e]) (auto simp: bindA_def b_read_def b_op_def)
    next
      case (Inr d)
      then show thesis using run c rd
        by (intro created [of d b1 c]) (auto simp: bindA_def b_read_def b_op_def s_modify_def)
    qed
  qed
qed

text \<open>A rollback changes the snapshot only when it completes.\<close>

lemma same_snapshot:
  "triple (\<lambda>w. snd w = s) (b_read f) (\<lambda>_ w. snd w = s) (\<lambda>w. snd w = s)"
  "triple (\<lambda>w. snd w = s) (b_op g) (\<lambda>_ w. snd w = s) (\<lambda>w. snd w = s)"
  by (auto intro!: tripleI simp: b_op_eq)

lemma ensure_swap_same_snapshot: "triple (\<lambda>w. snd w = s) (ensure_swap B) (\<lambda>_ w. snd w = s) (\<lambda>w. snd w = s)"
  unfolding ensure_swap_def
  by (rule triple_bind [OF same_snapshot(1)], rule triple_if, rule triple_throw, assumption, rule triple_ret, assumption)

lemma restore_same_snapshot: "triple (\<lambda>w. snd w = s) (restore_original B d) (\<lambda>_ w. snd w = s) (\<lambda>w. snd w = s)"
  unfolding restore_original_def
  by (rule triple_when, rule triple_bind [OF same_snapshot(1)], rule triple_when,
      rule triple_bind [OF same_snapshot(2) ensure_swap_same_snapshot])

lemma drop_same_snapshot: "triple (\<lambda>w. snd w = s) (drop_replacement B r) (\<lambda>_ w. snd w = s) (\<lambda>w. snd w = s)"
proof -
  have "triple (\<lambda>w. snd w = s) (bindA (b_read (\<lambda>b. zb_verify B b r)) (\<lambda>current.
        bindA (whenA (di_active_swap current) (bindA (b_op (zb_deactivate B r)) (\<lambda>_. ensure_swap B))) (\<lambda>_.
        b_op (zb_remove_managed_device B r)))) (\<lambda>_ w. snd w = s) (\<lambda>w. snd w = s)"
    by (rule triple_bind [OF same_snapshot(1)], rule triple_bind [OF triple_when same_snapshot(2)],
        rule triple_bind [OF same_snapshot(2) ensure_swap_same_snapshot])
  then show ?thesis by (auto simp: triple_def drop_replacement_def ret_def)
qed

lemma rollback_Err_snapshot:
  assumes "rollback B w = (Err e, w')"
  shows "snd w' = snd w"
proof -
  let ?mark = "bindA (s_modify (\<lambda>s. s\<lparr> zs_phase := PhRolledBack, zs_rollback_pending := False \<rparr>))
      (\<lambda>_. ret rolled_back_outcome) :: ('a, transaction_outcome) tx"
  let ?drop = "case zs_replacement_name (snd w) of None \<Rightarrow> ret () | Some replacement \<Rightarrow> drop_replacement B replacement"
  have mark: "triple (\<lambda>v. snd v = snd w) ?mark (\<lambda>_ _. True) (\<lambda>v. snd v = snd w)"
    by (rule tripleI) (auto simp: bindA_def s_modify_def ret_def)
  have drop: "triple (\<lambda>v. snd v = snd w) ?drop (\<lambda>_ v. snd v = snd w) (\<lambda>v. snd v = snd w)"
    by (auto split: option.split intro: triple_ret drop_same_snapshot)
  have body: "triple (\<lambda>v. snd v = snd w) (bindA (restore_original B (zs_original (snd w))) (\<lambda>_. bindA ?drop (\<lambda>_. ?mark)))
      (\<lambda>_ _. True) (\<lambda>v. snd v = snd w)"
    by (rule triple_bind [OF restore_same_snapshot], rule triple_bind [OF drop mark])
  have "bindA (restore_original B (zs_original (snd w))) (\<lambda>_. bindA ?drop (\<lambda>_. ?mark)) w = (Err e, w')"
    using assms by (simp add: rollback_def bindA_run [of "s_get id"] s_get_def ret_def split: if_splits)
  from triple_Err [OF body _ this] show ?thesis by simp
qed

context swap_backend
begin

lemma created_state:
  assumes "fresh b" and "view b (di_name (zs_original snap)) \<noteq> None"
    and "zb_create_isolated_managed_device B b = (Ok d, b1)"
  shows "tx_state B view (view b) (zs_original snap) (zs_requested_plan snap) (di_name d)
    (untouched (view b) (di_name (zs_original snap)))
    (b1, snap\<lparr> zs_replacement_name := Some (di_name d), zs_phase := PhReplacementCreated \<rparr>)"
  using create_Ok [OF assms(1,3)] assms(2) by (auto simp: tx_state_def others_kept_def untouched_def)

text \<open>The outcome of the part after the creation, with its error path.\<close>

lemma after_create_result:
  assumes "v0 (di_name orig) = Some (di_active_swap orig, sz)"
    and "tx_state B view v0 orig req r (untouched v0 (di_name orig)) w1"
    and "catchA (apply_after_create B c) (fail_and_roll_back B) w1 = (res, w')"
  shows "case res of
      Inr out \<Rightarrow> tx_state B view v0 orig req r (\<lambda>v. serves r v \<and>
        (zp_requires_swap_migration req \<longrightarrow> map_option fst (v (di_name orig)) = Some False) \<and>
        (\<not> zp_requires_swap_migration req \<longrightarrow> untouched v0 (di_name orig) v)) w' \<and>
        to_applied out \<and> to_verified out \<and> zs_phase (snd w') = PhVerified
    | Inl _ \<Rightarrow> (tx_state B view v0 orig req r (covered v0 (di_name orig) r) w' \<and> zs_rollback_pending (snd w')) \<or>
        (view (fst w') = v0 \<and> zs_phase (snd w') = PhRolledBack)"
proof -
  note t = apply_after_create_triple [of v0 orig req r c]
  obtain ra wa where ra: "apply_after_create B c w1 = (ra, wa)" by (metis surj_pair)
  show ?thesis
  proof (cases ra)
    case (Inr out)
    then have w': "res = Ok out" "w' = wa" using assms(3) ra by (auto simp: catchA_def)
    from triple_Ok [OF t assms(2) ra [unfolded Inr]] show ?thesis by (simp add: w')
  next
    case (Inl e)
    let ?w = "(fst wa, (snd wa)\<lparr> zs_last_error := Some (show_zram_error e), zs_rollback_pending := True \<rparr>)"
    obtain rb wb where rb: "rollback B ?w = (rb, wb)" by (metis surj_pair)
    then have w': "res = Err e" "w' = wb"
      using assms(3) ra Inl by (auto simp: catchA_def fail_and_roll_back_def Let_def)
    have "tx_state B view v0 orig req r (covered v0 (di_name orig) r) ?w"
      using triple_Err [OF t assms(2) ra [unfolded Inl]] by (simp add: tx_state_def)
    from rollback_result [OF assms(1) this rb] show ?thesis
      using rollback_Err_snapshot [of B ?w _ wb] rb by (cases rb) (auto simp: w')
  qed
qed

text \<open>Swap is never lost.\<close>

lemma no_swap_loss:
  assumes "fresh (fst w)" and "live (view (fst w))"
    and "view (fst w) (di_name (zs_original (snd w))) = Some (di_active_swap (zs_original (snd w)), sz)"
    and "apply_plan B w = (res, w')"
  shows "live (view (fst w'))"
  using assms(4)
proof (cases rule: apply_plan_cases)
  case inert
  then show ?thesis using assms(2) by simp
next
  case (not_created e)
  obtain n s where "view (fst w) n = Some (True, Some s)" "s \<noteq> 0" using assms(2) by (auto simp: live_def)
  then show ?thesis using create_Err [OF not_created(1), of n] by (auto simp: live_def)
next
  case (created d b1 c)
  have "view (fst w) (di_name (zs_original (snd w))) \<noteq> None" using assms(3) by simp
  from after_create_result [OF assms(3) created_state [OF assms(1) this created(1)] created(2)]
  have "tx_state B view (view (fst w)) (zs_original (snd w)) (zs_requested_plan (snd w)) (di_name d)
      (covered (view (fst w)) (di_name (zs_original (snd w))) (di_name d)) w' \<or> view (fst w') = view (fst w)"
    by (cases res) (auto simp: covered_def elim: tx_state_mono)
  then show ?thesis using covered_live [OF assms(2)] assms(2) by metis
qed

text \<open>What a reported success means.\<close>

lemma apply_effect:
  assumes "fresh (fst w)"
    and "view (fst w) (di_name (zs_original (snd w))) = Some (di_active_swap (zs_original (snd w)), sz)"
    and "apply_plan B w = (Ok out, w')" and "to_applied out"
  shows "\<exists>r s. zs_replacement_name (snd w') = Some r \<and> view (fst w) r = None \<and>
    view (fst w') r = Some (True, Some s) \<and> s \<noteq> 0 \<and> zs_phase (snd w') = PhVerified \<and>
    (\<forall>m. m \<noteq> r \<longrightarrow> view (fst w') m =
       (if m = di_name (zs_original (snd w)) \<and> zp_requires_swap_migration (zs_requested_plan (snd w))
        then Some (False, sz) else view (fst w) m))"
  using assms(3)
proof (cases rule: apply_plan_cases)
  case inert
  then show ?thesis using assms(4) by simp
next
  case (not_created e)
  then show ?thesis by simp
next
  case (created d b1 c)
  have "view (fst w) (di_name (zs_original (snd w))) \<noteq> None" using assms(2) by simp
  from after_create_result [OF assms(2) created_state [OF assms(1) this created(1)] created(2)] assms(2)
  show ?thesis
    by (auto simp: tx_state_def serves_def others_kept_def untouched_def split: if_splits) metis+
qed

text \<open>What a failed application leaves: either no replacement and all devices as they were, or a state
  that is rolled back or can still be rolled back.\<close>

lemma failed_state:
  assumes "fresh (fst w)"
    and "view (fst w) (di_name (zs_original (snd w))) = Some (di_active_swap (zs_original (snd w)), sz)"
    and "apply_plan B w = (Err e, w')"
  shows "(snd w' = snd w \<and> (\<forall>n. view (fst w) n \<noteq> None \<longrightarrow> view (fst w') n = view (fst w) n)) \<or>
    (\<exists>r. (tx_state B view (view (fst w)) (zs_original (snd w)) (zs_requested_plan (snd w)) r
        (covered (view (fst w)) (di_name (zs_original (snd w))) r) w' \<and> zs_rollback_pending (snd w')) \<or>
      (view (fst w') = view (fst w) \<and> zs_phase (snd w') = PhRolledBack))"
  using assms(3)
proof (cases rule: apply_plan_cases)
  case (not_created e)
  then show ?thesis using create_Err [OF not_created(1)] by auto
next
  case (created d b1 c)
  have "view (fst w) (di_name (zs_original (snd w))) \<noteq> None" using assms(2) by simp
  from after_create_result [OF assms(2) created_state [OF assms(1) this created(1)] created(2)] show ?thesis by auto
qed simp

text \<open>A completed recovery restores the devices.\<close>

lemma recovery_restores:
  assumes "v0 (di_name orig) = Some (di_active_swap orig, sz)"
    and "(tx_state B view v0 orig req r (covered v0 (di_name orig) r) w \<and> zs_rollback_pending (snd w)) \<or>
      (view (fst w) = v0 \<and> zs_phase (snd w) = PhRolledBack)"
    and "recover_pending B w = (Ok out, w')"
  shows "view (fst w') = v0"
proof (cases "zs_phase (snd w) = PhRolledBack")
  case True
  then show ?thesis using assms(2,3) by (auto simp: recover_pending_def bindA_def s_get_def ret_def tx_state_def)
next
  case False
  then have t: "tx_state B view v0 orig req r (covered v0 (di_name orig) r) w" "zs_rollback_pending (snd w)"
    using assms(2) by auto
  then have "rollback B w = (Ok out, w')"
    using assms(3) False by (auto simp: recover_pending_def bindA_def s_get_def throw_def split: if_splits)
  from rollback_result [OF assms(1) t(1) this] show ?thesis by simp
qed

end

subsection \<open>Operations that fail from some point on\<close>

text \<open>A backend that carries out only the first \<open>k\<close> operations and fails every later one without any
  effect, as a device that stops answering does. The devices it leaves are also those that a process killed after
  \<open>k\<close> operations leaves. The snapshot is not: here the error handler still runs and marks it, a killed
  process does not.\<close>

definition limited_op :: "(zram_error, 'b, 'a) eff \<Rightarrow> (zram_error, 'b \<times> nat, 'a) eff" where
  "limited_op op w = (case snd w of
      0 \<Rightarrow> (Err (ZBackend ''refused'' []), w)
    | Suc k \<Rightarrow> (case op (fst w) of (r, b) \<Rightarrow> (r, (b, k))))"

definition failing_after :: "'b zram_backend \<Rightarrow> ('b \<times> nat) zram_backend" where
  "failing_after B = \<lparr> zb_inspect = (\<lambda>w. zb_inspect B (fst w)),
     zb_create_isolated_managed_device = limited_op (zb_create_isolated_managed_device B),
     zb_configure_uninitialized = (\<lambda>n a. limited_op (zb_configure_uninitialized B n a)),
     zb_initialize = (\<lambda>n s. limited_op (zb_initialize B n s)),
     zb_activate = (\<lambda>n p. limited_op (zb_activate B n p)),
     zb_deactivate = (\<lambda>n. limited_op (zb_deactivate B n)),
     zb_verify = (\<lambda>w n. zb_verify B (fst w) n),
     zb_reset_managed_device = (\<lambda>n. limited_op (zb_reset_managed_device B n)),
     zb_remove_managed_device = (\<lambda>n. limited_op (zb_remove_managed_device B n)),
     zb_effective_valid_swap_capacity = (\<lambda>w. zb_effective_valid_swap_capacity B (fst w)),
     zb_is_owned = (\<lambda>w n. zb_is_owned B (fst w) n) \<rparr>"

lemma limited_op_eq:
  "limited_op op w = (r, w') \<longleftrightarrow>
     (snd w = 0 \<and> r = Err (ZBackend ''refused'' []) \<and> w' = w) \<or>
     (snd w = Suc (snd w') \<and> op (fst w) = (r, fst w'))"
  by (cases w'; cases "snd w") (auto simp: limited_op_def split: prod.splits)

context swap_backend
begin

lemma failing_after_contract: "swap_backend (failing_after B) (\<lambda>w. view (fst w)) (\<lambda>w. fresh (fst w))"
proof (unfold_locales, goal_cases)
  case (1 b n d) then show ?case by (auto simp: failing_after_def dest: verify_Ok)
next
  case (2 b c) then show ?case by (auto simp: failing_after_def dest: capacity_Ok)
next
  case (3 b d b') then show ?case by (auto simp: failing_after_def limited_op_eq dest: create_Ok)
next
  case (4 b e b' n) then show ?case by (auto simp: failing_after_def limited_op_eq dest: create_Err)
next
  case (5 n a b r b') then show ?case by (auto simp: failing_after_def limited_op_eq dest!: configure)
next
  case (6 n sz b r b') then show ?case by (auto simp: failing_after_def limited_op_eq dest!: initialize)
next
  case (7 n p b r b') then show ?case by (auto simp: failing_after_def limited_op_eq dest!: activate)
next
  case (8 n b r b') then show ?case by (auto simp: failing_after_def limited_op_eq dest!: deactivate)
next
  case (9 n b u b') then show ?case by (auto simp: failing_after_def limited_op_eq dest: remove_Ok)
next
  case (10 n b e b') then show ?case by (auto simp: failing_after_def limited_op_eq dest: remove_Err)
qed

end

subsection \<open>The backend of the crate's tests\<close>

text \<open>A backend in memory that can be told to fail at one operation. The devices are a
  finite map, listed in the order of their names; a device that is expected to exist and does not, and a sum of sizes beyond 64
  bits, panic in the source and are errors here. The capacities recorded after each change are
  exact sums.\<close>

record fake_zram =
  fz_devices :: "(string, device_inventory) fmap"
  fz_owned :: "string set"
  fz_operations :: "string list"
  fz_capacities :: "nat list"
  fz_fail_at :: "nat option"
  fz_failed :: bool

definition fake_device :: "string \<Rightarrow> bool \<Rightarrow> ownership \<Rightarrow> device_inventory" where
  "fake_device name active own = \<lparr> di_name = name, di_sysfs_path = ''/sys/block/'' @ name,
     di_device_path = ''/dev/'' @ name, di_active_swap = active, di_priority = Some 100, di_disksize = Some 1000,
     di_initstate = Some True, di_current_algorithm = Some ''zstd'',
     di_available_algorithms = [''lz4'', ''zstd''],
     di_mm_stat = \<lparr> mm_orig_data_size = Some 600, mm_compr_data_size = Some 200, mm_mem_used_total = Some 250,
       mm_mem_limit = Some 0, mm_mem_used_max = Some 300, mm_same_pages = Some 2, mm_pages_compacted = Some 3,
       mm_huge_pages = Some 4, mm_huge_pages_since = Some 5 \<rparr>,
     di_io_stat = Some [0, 0, 0, 0], di_block_stat = Some (replicate 17 0), di_bd_stat = Some [0, 0, 0],
     di_recompression_available = True, di_provider = Manual, di_ownership = own,
     di_writable = \<lparr> wc_hot_add = True, wc_hot_remove = True, wc_algorithm = True, wc_disksize = True,
       wc_reset = True \<rparr> \<rparr>"

definition fake_zram_new :: fake_zram where
  "fake_zram_new = \<lparr> fz_devices = fmupd ''zram0'' (fake_device ''zram0'' True NemorOwned) fmempty, fz_owned = {''zram0''},
     fz_operations = [], fz_capacities = [1000], fz_fail_at = None, fz_failed = False \<rparr>"

definition fz_sum :: "(string, device_inventory) fmap \<Rightarrow> nat" where
  "fz_sum ds = (\<Sum>n \<in> fset (fmdom ds). case fmlookup ds n of
      Some d \<Rightarrow> if di_active_swap d then unat (unwrap_or 0 (di_disksize d)) else 0 | None \<Rightarrow> 0)"

definition fz_operation :: "string \<Rightarrow> (zram_error, fake_zram, unit) eff" where
  "fz_operation name f =
     (let f1 = f\<lparr> fz_operations := fz_operations f @ [name] \<rparr> in
      if \<not> fz_failed f \<and> fz_fail_at f = Some (length (fz_operations f1))
      then (Err (ZBackend ''fake'' name), f1\<lparr> fz_failed := True \<rparr>) else (Ok (), f1))"

definition fz_record_capacity :: "fake_zram \<Rightarrow> fake_zram" where
  "fz_record_capacity f = f\<lparr> fz_capacities := fz_capacities f @ [fz_sum (fz_devices f)] \<rparr>"

text \<open>\<open>get_mut(name).expect(..)\<close> and an update of the device.\<close>

definition fz_update :: "string \<Rightarrow> (device_inventory \<Rightarrow> device_inventory) \<Rightarrow> (zram_error, fake_zram, unit) eff" where
  "fz_update name g f = (case fmlookup (fz_devices f) name of
      None \<Rightarrow> (Err (ZBackend ''panic'' ''fake device''), f)
    | Some d \<Rightarrow> (Ok (), f\<lparr> fz_devices := fmupd name (g d) (fz_devices f) \<rparr>))"

definition fz_create :: "(zram_error, fake_zram, device_inventory) eff" where
  "fz_create = bindA (fz_operation ''create'') (\<lambda>_ f.
     let replacement = (fake_device ''zram1'' False NemorOwned)\<lparr> di_initstate := Some False,
           di_disksize := Some 0, di_current_algorithm := None \<rparr>
     in (Ok replacement, fz_record_capacity (f\<lparr> fz_owned := insert ''zram1'' (fz_owned f),
           fz_devices := fmupd ''zram1'' replacement (fz_devices f) \<rparr>)))"

definition fz_configure :: "string \<Rightarrow> string \<Rightarrow> (zram_error, fake_zram, unit) eff" where
  "fz_configure name algorithm = bindA (fz_operation ''algorithm'') (\<lambda>_ f.
     case fmlookup (fz_devices f) name of
       None \<Rightarrow> (Err (ZVerification ''missing fake device''), f)
     | Some d \<Rightarrow> if di_initstate d = Some True then (Err (ZBlocked ''initialized''), f)
         else (Ok (), f\<lparr> fz_devices := fmupd name (d\<lparr> di_current_algorithm := Some algorithm \<rparr>) (fz_devices f) \<rparr>))"

definition fz_initialize :: "string \<Rightarrow> u64 \<Rightarrow> (zram_error, fake_zram, unit) eff" where
  "fz_initialize name disksize = bindA (fz_operation ''initialize'') (\<lambda>_.
     fz_update name (\<lambda>d. d\<lparr> di_disksize := Some disksize, di_initstate := Some True \<rparr>))"

definition fz_set_active :: "string \<Rightarrow> bool \<Rightarrow> (zram_error, fake_zram, unit) eff" where
  "fz_set_active name active = bindA (fz_update name (\<lambda>d. d\<lparr> di_active_swap := active \<rparr>)) (\<lambda>_ f.
     (Ok (), fz_record_capacity f))"

definition fz_reset :: "string \<Rightarrow> (zram_error, fake_zram, unit) eff" where
  "fz_reset name = bindA (fz_operation ''reset'') (\<lambda>_ f.
     if is_some_and di_active_swap (fmlookup (fz_devices f) name) then (Err (ZBlocked ''active reset''), f)
     else (Ok (), f))"

definition fz_remove :: "string \<Rightarrow> (zram_error, fake_zram, unit) eff" where
  "fz_remove name = bindA (fz_operation ''remove'') (\<lambda>_ f.
     if name \<notin> fz_owned f then (Err (ZBlocked ''external''), f)
     else (Ok (), fz_record_capacity (f\<lparr> fz_devices := fmdrop name (fz_devices f),
            fz_owned := fz_owned f - {name} \<rparr>)))"

definition fake_zram_backend :: "fake_zram zram_backend" where
  "fake_zram_backend = \<lparr>
     zb_inspect = (\<lambda>f. Ok \<lparr> inv_available = True, inv_devices =
        map (\<lambda>n. the (fmlookup (fz_devices f) n)) (sorted_list_of_set (fset (fmdom (fz_devices f)))), inv_unavailable = [] \<rparr>),
     zb_create_isolated_managed_device = fz_create,
     zb_configure_uninitialized = fz_configure,
     zb_initialize = fz_initialize,
     zb_activate = (\<lambda>n p. bindA (fz_operation ''activate'') (\<lambda>_. fz_set_active n True)),
     zb_deactivate = (\<lambda>n. bindA (fz_operation ''deactivate'') (\<lambda>_. fz_set_active n False)),
     zb_verify = (\<lambda>f n. ok_or (ZVerification ''missing fake device'') (fmlookup (fz_devices f) n)),
     zb_reset_managed_device = fz_reset,
     zb_remove_managed_device = fz_remove,
     zb_effective_valid_swap_capacity = (\<lambda>f. if fz_sum (fz_devices f) < 2 ^ 64 then Ok (of_nat (fz_sum (fz_devices f)))
        else Err (ZBackend ''panic'' ''attempt to add with overflow'')),
     zb_is_owned = (\<lambda>f n. n \<in> fz_owned f) \<rparr>"

definition fz_view :: "fake_zram \<Rightarrow> swap_view" where
  "fz_view f = (\<lambda>n. map_option (\<lambda>d. (di_active_swap d, di_disksize d)) (fmlookup (fz_devices f) n))"

lemma fz_sum_live: "fz_sum (fz_devices f) \<noteq> 0 \<longleftrightarrow> live (fz_view f)"
proof -
  have "fz_sum (fz_devices f) = 0 \<longleftrightarrow> (\<forall>n d. fmlookup (fz_devices f) n = Some d \<longrightarrow> di_active_swap d \<longrightarrow>
      unwrap_or 0 (di_disksize d) = 0)"
    by (auto simp: fz_sum_def fmdomI unat_eq_0 split: option.splits)
  also have "\<dots> \<longleftrightarrow> \<not> live (fz_view f)"
  proof -
    have "unwrap_or 0 x = 0 \<longleftrightarrow> (\<forall>s. x = Some s \<longrightarrow> s = 0)" for x :: "u64 option" by (cases x) auto
    then show ?thesis by (auto simp: live_def fz_view_def)
  qed
  finally show ?thesis by metis
qed

lemma fz_sum_upd:
  "fz_sum (fmupd k d m) = (if di_active_swap d then unat (unwrap_or 0 (di_disksize d)) else 0) + fz_sum (fmdrop k m)"
  "fz_sum fmempty = 0"
proof -
  have "(\<Sum>n \<in> fset (fmdom m) - {k}. case fmlookup (fmupd k d m) n of
        Some d \<Rightarrow> if di_active_swap d then unat (unwrap_or 0 (di_disksize d)) else 0 | None \<Rightarrow> 0) = fz_sum (fmdrop k m)"
    unfolding fz_sum_def by (rule sum.cong) auto
  then show "fz_sum (fmupd k d m) = (if di_active_swap d then unat (unwrap_or 0 (di_disksize d)) else 0) + fz_sum (fmdrop k m)"
    by (simp add: fz_sum_def sum.insert_remove)
  show "fz_sum fmempty = 0" by (simp add: fz_sum_def)
qed

lemma fz_operation_eq:
  "fz_operation name f = (r, f') \<Longrightarrow> fz_devices f' = fz_devices f \<and> fz_owned f' = fz_owned f"
  by (auto simp: fz_operation_def Let_def split: if_splits)

lemma fz_record_capacity_fields [simp]:
  "fz_devices (fz_record_capacity f) = fz_devices f" "fz_owned (fz_record_capacity f) = fz_owned f"
  by (simp_all add: fz_record_capacity_def)

lemma fz_view_same: "fz_devices f' = fz_devices f \<Longrightarrow> fz_view f' = fz_view f"
  by (simp add: fz_view_def)

lemma fz_view_upd:
  "fz_devices f' = fmupd n d (fz_devices f) \<Longrightarrow> fz_view f' = (fz_view f)(n \<mapsto> (di_active_swap d, di_disksize d))"
  by (auto simp: fz_view_def)

lemma fz_view_drop: "fz_devices f' = fmdrop n (fz_devices f) \<Longrightarrow> fz_view f' = (fz_view f)(n := None)"
  by (auto simp: fz_view_def)

lemma fz_view_Some: "fmlookup (fz_devices f) n = Some d \<Longrightarrow> fz_view f n = Some (di_active_swap d, di_disksize d)"
  by (simp add: fz_view_def)

lemma fz_update_eq:
  assumes "fz_update n g f = (r, f')"
  shows "fz_owned f' = fz_owned f \<and> (case r of Inl _ \<Rightarrow> fz_devices f' = fz_devices f
    | Inr _ \<Rightarrow> \<exists>d. fmlookup (fz_devices f) n = Some d \<and> fz_devices f' = fmupd n (g d) (fz_devices f))"
  using assms by (auto simp: fz_update_def split: option.splits)

lemma fz_configure_eq:
  assumes "fz_configure n a b = (r, b')"
  shows "fz_owned b' = fz_owned b \<and> (case r of Inl _ \<Rightarrow> fz_devices b' = fz_devices b
    | Inr _ \<Rightarrow> \<exists>d. fmlookup (fz_devices b) n = Some d \<and>
       fz_devices b' = fmupd n (d\<lparr> di_current_algorithm := Some a \<rparr>) (fz_devices b))"
proof -
  obtain r1 b1 where o: "fz_operation ''algorithm'' b = (r1, b1)" by (metis surj_pair)
  note e = fz_operation_eq [OF o]
  show ?thesis
  proof (cases r1)
    case (Inl err)
    then show ?thesis using assms e by (auto simp: fz_configure_def bindA_def o)
  next
    case (Inr u)
    show ?thesis
    proof (cases "fmlookup (fz_devices b) n")
      case None
      then show ?thesis using assms e Inr by (auto simp: fz_configure_def bindA_def o)
    next
      case (Some d)
      show ?thesis
      proof (cases "di_initstate d = Some True")
        case True
        then have "b' = b1" "r = Err (ZBlocked ''initialized'')"
          using assms e Inr Some by (simp_all add: fz_configure_def bindA_def o)
        then show ?thesis using e by auto
      next
        case False
        then have "b' = b1\<lparr> fz_devices := fmupd n (d\<lparr> di_current_algorithm := Some a \<rparr>) (fz_devices b) \<rparr>" "r = Ok ()"
          using assms e Inr Some by (simp_all add: fz_configure_def bindA_def o)
        then show ?thesis using e Some by simp
      qed
    qed
  qed
qed

lemma fz_switch:
  assumes "bindA (fz_operation name) (\<lambda>_. fz_set_active n active) b = (r, b')"
  shows "fz_owned b' = fz_owned b \<and> (case r of Inl _ \<Rightarrow> fz_devices b' = fz_devices b
    | Inr _ \<Rightarrow> \<exists>d. fmlookup (fz_devices b) n = Some d \<and>
       fz_devices b' = fmupd n (d\<lparr> di_active_swap := active \<rparr>) (fz_devices b))"
proof -
  obtain r1 b1 where o: "fz_operation name b = (r1, b1)" by (metis surj_pair)
  obtain r2 b2 where u: "fz_update n (\<lambda>d. d\<lparr> di_active_swap := active \<rparr>) b1 = (r2, b2)" by (metis surj_pair)
  show ?thesis using assms fz_operation_eq [OF o] fz_update_eq [OF u]
    by (auto simp: bindA_def o u fz_set_active_def split: sum.splits)
qed

interpretation fake: swap_backend fake_zram_backend fz_view "\<lambda>f. fmlookup (fz_devices f) ''zram1'' = None"
proof (unfold_locales, goal_cases)
  case (1 b n d)
  then show ?case by (simp add: fake_zram_backend_def fz_view_def)
next
  case (2 b c)
  then have "c = of_nat (fz_sum (fz_devices b))" "fz_sum (fz_devices b) < 2 ^ 64"
    by (auto simp: fake_zram_backend_def split: if_splits)
  then have "c \<noteq> 0 \<longleftrightarrow> fz_sum (fz_devices b) \<noteq> 0" by (simp add: unat_eq_0 [symmetric] unat_of_nat)
  with fz_sum_live [of b] show ?case by blast
next
  case (3 b d b')
  then obtain b1 where o: "fz_operation ''create'' b = (Ok (), b1)"
    and d: "d = (fake_device ''zram1'' False NemorOwned)\<lparr> di_initstate := Some False, di_disksize := Some 0,
      di_current_algorithm := None \<rparr>" and b': "fz_devices b' = fmupd ''zram1'' d (fz_devices b1)"
      "fz_owned b' = insert ''zram1'' (fz_owned b1)"
    by (auto simp: fake_zram_backend_def fz_create_def bindA_Ok Let_def)
  have v: "fz_view b' = (fz_view b)(''zram1'' \<mapsto> (di_active_swap d, di_disksize d))"
    using fz_view_upd b'(1) fz_operation_eq [OF o] by simp
  have n: "di_name d = ''zram1''" "di_active_swap d = False" by (simp_all add: d fake_device_def)
  show ?case using 3(1) v b'(2) unfolding n by (auto simp: fz_view_def fake_zram_backend_def)
next
  case (4 b e b' n)
  then have "fz_operation ''create'' b = (Err e, b')"
    by (auto simp: fake_zram_backend_def fz_create_def bindA_def Let_def split: sum.splits prod.splits)
  from fz_operation_eq [OF this] show ?case by (simp add: fz_view_def)
next
  case (5 n a b r b')
  then have c: "fz_configure n a b = (r, b')" by (simp add: fake_zram_backend_def)
  note k = fz_configure_eq [OF c]
  have "fz_view b' = fz_view b" if "fmlookup (fz_devices b) n = Some d"
    "fz_devices b' = fmupd n (d\<lparr> di_current_algorithm := Some a \<rparr>) (fz_devices b)" for d
    using fz_view_upd [OF that(2)] fz_view_Some [OF that(1)] by (simp add: fun_upd_idem)
  with k have "fz_view b' = fz_view b" using fz_view_same [of b' b] by (cases r) auto
  with k show ?case by (simp add: fake_zram_backend_def)
next
  case (6 n sz b r b')
  then have c: "fz_initialize n sz b = (r, b')" by (simp add: fake_zram_backend_def)
  obtain r1 b1 where o: "fz_operation ''initialize'' b = (r1, b1)" by (metis surj_pair)
  have "fz_owned b' = fz_owned b \<and> (case r of Inl _ \<Rightarrow> fz_devices b' = fz_devices b
      | Inr _ \<Rightarrow> \<exists>d. fmlookup (fz_devices b) n = Some d \<and>
         fz_devices b' = fmupd n (d\<lparr> di_disksize := Some sz, di_initstate := Some True \<rparr>) (fz_devices b))"
    using c fz_operation_eq [OF o] by (auto simp: fz_initialize_def bindA_def o dest!: fz_update_eq split: sum.splits)
  then show ?case using fz_view_same [of b' b] fz_view_upd [of b' n _ b] fz_view_Some [of b n]
    by (auto simp: fake_zram_backend_def split: sum.splits)
next
  case (7 n p b r b')
  then have c: "bindA (fz_operation ''activate'') (\<lambda>_. fz_set_active n True) b = (r, b')"
    by (simp add: fake_zram_backend_def)
  from fz_switch [OF c] show ?case using fz_view_same [of b' b] fz_view_upd [of b' n _ b] fz_view_Some [of b n]
    by (auto simp: fake_zram_backend_def split: sum.splits)
next
  case (8 n b r b')
  then have c: "bindA (fz_operation ''deactivate'') (\<lambda>_. fz_set_active n False) b = (r, b')"
    by (simp add: fake_zram_backend_def)
  from fz_switch [OF c] show ?case using fz_view_same [of b' b] fz_view_upd [of b' n _ b] fz_view_Some [of b n]
    by (auto simp: fake_zram_backend_def split: sum.splits)
next
  case (9 n b u b')
  then obtain v b1 where o: "fz_operation ''remove'' b = (Ok v, b1)"
    and "(if n \<notin> fz_owned b1 then (Err (ZBlocked ''external''), b1)
      else (Ok (), fz_record_capacity (b1\<lparr> fz_devices := fmdrop n (fz_devices b1), fz_owned := fz_owned b1 - {n} \<rparr>))) = (Ok u, b')"
    unfolding fake_zram_backend_def fz_remove_def zram_backend.simps bindA_Ok by blast
  then have "b' = fz_record_capacity (b1\<lparr> fz_devices := fmdrop n (fz_devices b1), fz_owned := fz_owned b1 - {n} \<rparr>)"
    by (simp split: if_splits)
  then have "fz_devices b' = fmdrop n (fz_devices b)" using fz_operation_eq [OF o] by simp
  then show ?case by (rule fz_view_drop)
next
  case (10 n b e b')
  obtain r1 b1 where o: "fz_operation ''remove'' b = (r1, b1)" by (metis surj_pair)
  have "b' = b1"
  proof (cases r1)
    case (Inl err)
    then show ?thesis using 10 by (simp add: fake_zram_backend_def fz_remove_def bindA_def o)
  next
    case (Inr v)
    then show ?thesis using 10
      by (cases "n \<in> fz_owned b1") (simp_all add: fake_zram_backend_def fz_remove_def bindA_def o)
  qed
  then have "fz_devices b' = fz_devices b" "fz_owned b' = fz_owned b" using fz_operation_eq [OF o] by simp_all
  then show ?case using fz_view_same [of b' b] by (simp add: fake_zram_backend_def)
qed

subsection \<open>The properties of the transaction\<close>

text \<open>C6. Swap is never lost: on every backend that keeps the contract of swap devices, if some swap
  of nonzero size is active when a transaction starts and the snapshot describes the original
  device, then some is active when the transaction ends, however it ends, and also when the
  process is interrupted after any number of operations, rollback operations included.\<close>

theorem zram_swap_never_lost:
  assumes "swap_backend B view fresh" and "fresh b" and "live (view b)"
    and "view b (di_name (zs_original snap)) = Some (di_active_swap (zs_original snap), sz)"
  shows "live (view (fst (snd (apply_plan B (b, snap))))) \<and>
    live (view (fst (fst (snd (apply_plan (failing_after B) ((b, k), snap))))))"
proof -
  obtain res w' where r: "apply_plan B (b, snap) = (res, w')" by (metis surj_pair)
  obtain res2 w2 where r2: "apply_plan (failing_after B) ((b, k), snap) = (res2, w2)" by (metis surj_pair)
  have "live (view (fst w'))" using swap_backend.no_swap_loss [OF assms(1) _ _ _ r] assms(2-4) by simp
  moreover have "live (view (fst (fst w2)))"
    using swap_backend.no_swap_loss [OF swap_backend.failing_after_contract [OF assms(1)] _ _ _ r2] assms(2-4) by simp
  ultimately show ?thesis by (simp add: r r2)
qed

text \<open>A reported success is complete: the replacement is a new device, it is active swap of nonzero
  size, the original device is inactive exactly as the plan asks, its size unchanged, and no
  other device differs from before.\<close>

theorem zram_apply_effect:
  assumes "swap_backend B view fresh" and "fresh b"
    and "view b (di_name (zs_original snap)) = Some (di_active_swap (zs_original snap), sz)"
    and "apply_plan B (b, snap) = (Ok out, (b', snap'))" and "to_applied out"
  shows "\<exists>r s. zs_replacement_name snap' = Some r \<and> view b r = None \<and> view b' r = Some (True, Some s) \<and> s \<noteq> 0 \<and>
    zs_phase snap' = PhVerified \<and>
    (\<forall>m. m \<noteq> r \<longrightarrow> view b' m =
       (if m = di_name (zs_original snap) \<and> zp_requires_swap_migration (zs_requested_plan snap)
        then Some (False, sz) else view b m))"
  by (rule swap_backend.apply_effect [OF assms(1), of "(b, snap)" sz out "(b', snap')", unfolded fst_conv snd_conv,
        OF assms(2-5)])

text \<open>C7. Recovery completes a failed rollback: when an application ends with an error, whichever of its operations failed and
  also when every operation after the first \<open>k\<close> fails, those of its own rollback included, a later recovery
  that reports success leaves every device of the beginning as it was; and once a replacement had been recorded, no trace of it:
  the devices are exactly the initial ones. The snapshot is the one the error handler leaves, so this does not speak of
  a process that was killed before its handler ran.\<close>

theorem zram_recovery_restores:
  assumes "swap_backend B view fresh" and "fresh b" and "\<not> zs_rollback_pending snap"
    and "view b (di_name (zs_original snap)) = Some (di_active_swap (zs_original snap), sz)"
    and "apply_plan (failing_after B) ((b, k), snap) = (Err e, ((b', k'), snap'))"
    and "recover_pending B (b', snap') = (Ok out, (b'', snap''))"
  shows "(\<forall>n. view b n \<noteq> None \<longrightarrow> view b'' n = view b n) \<and> (snap' \<noteq> snap \<longrightarrow> view b'' = view b)"
proof -
  note c = swap_backend.failing_after_contract [OF assms(1)]
  have tx: "tx_state (failing_after B) (\<lambda>w. view (fst w)) v0 orig req r M ((b', k'), snap') =
      tx_state B view v0 orig req r M (b', snap')" for v0 orig req r M
    by (simp add: tx_state_def failing_after_def)
  from swap_backend.failed_state [OF c _ _ assms(5)] assms(2,4)
  consider "snap' = snap" "\<And>n. view b n \<noteq> None \<Longrightarrow> view b' n = view b n"
    | r where "(tx_state B view (view b) (zs_original snap) (zs_requested_plan snap) r
        (covered (view b) (di_name (zs_original snap)) r) (b', snap') \<and> zs_rollback_pending snap') \<or>
      (view b' = view b \<and> zs_phase snap' = PhRolledBack)"
    by (auto simp: tx)
  then show ?thesis
  proof cases
    case 1
    then have "b'' = b'" using assms(3,6) by (auto simp: recover_pending_def bindA_def s_get_def ret_def)
    with 1 show ?thesis by simp
  next
    case 2
    with swap_backend.recovery_restores [where ?v0.0 = "view b" and orig = "zs_original snap" and sz = sz, OF assms(1,4) _ assms(6)]
    have "view b'' = view b" by (metis fst_conv snd_conv)
    then show ?thesis by simp
  qed
qed

text \<open>The snapshot of a transaction that replaces \<open>zram0\<close> of the test backend.\<close>

definition example_request :: zram_profile_plan where
  "example_request = \<lparr> zp_profile = Gaming, zp_target_device = ''zram0'', zp_current_algorithm = Some ''zstd'',
     zp_selected_algorithm = Some ''lz4'', zp_current_disksize = Some 1000, zp_proposed_disksize = Some 1000,
     zp_current_priority = Some 100, zp_proposed_priority = Some 101, zp_benchmark_evidence = [],
     zp_reason = ''fixture'', zp_confidence = Fin 1, zp_requires_reinitialization = True,
     zp_requires_swap_migration = True, zp_allowed = True, zp_blocked_reasons = [], zp_dry_run = False,
     zp_rule_version = PROFILE_RULE_VERSION \<rparr>"

definition example_snapshot :: zram_snapshot where
  "example_snapshot = \<lparr> zs_session_id = 1, zs_timestamp_ns = 1, zs_provider = Manual,
     zs_original = fake_device ''zram0'' True NemorOwned, zs_replacement_name = None,
     zs_requested_plan = example_request, zs_phase = PhSnapshot, zs_rollback_pending = False, zs_last_error = None \<rparr>"

lemma example_switch_start:
  "fmlookup (fz_devices fake_zram_new) ''zram1'' = None"
  "fz_view fake_zram_new (di_name (zs_original example_snapshot)) =
     Some (di_active_swap (zs_original example_snapshot), Some 1000)"
  "live (fz_view fake_zram_new)"
  by (auto simp: fake_zram_new_def fz_view_def example_snapshot_def fake_device_def live_def
      intro: exI [of _ "''zram0''"])

theorem zram_swap_never_lost_witness:
  "live (fz_view fake_zram_new) \<and> live (fz_view (fst (snd (apply_plan fake_zram_backend (fake_zram_new, example_snapshot))))) \<and>
   live (fz_view (fst (fst (snd (apply_plan (failing_after fake_zram_backend) ((fake_zram_new, 5), example_snapshot))))))"
  by (rule conjI [OF example_switch_start(3)
      zram_swap_never_lost [OF fake.swap_backend_axioms example_switch_start(1,3,2), where k = 5]])

lemmas tx_eval = apply_plan_def apply_after_create_def prepare_replacement_def migrate_def verify_replacement_def
  ensure_swap_def set_phase_def fail_and_roll_back_def rollback_def restore_original_def drop_replacement_def
  recover_pending_def bindA_def catchA_def whenA_def ret_def throw_def b_read_def b_op_def s_modify_def s_get_def

lemmas fake_eval = fake_zram_backend_def fz_create_def fz_configure_def fz_initialize_def fz_set_active_def
  fz_remove_def fz_update_def fz_operation_def fz_record_capacity_def fz_sum_upd fake_device_def fake_zram_new_def
  example_snapshot_def example_request_def fmdrop_fmupd

lemma example_switch_apply:
  "\<exists>out b' s'. apply_plan fake_zram_backend (fake_zram_new, example_snapshot) = (Ok out, (b', s')) \<and> to_applied out"
  by (simp add: tx_eval fake_eval Let_def)

theorem zram_apply_effect_witness:
  "\<exists>out b' s' r s. apply_plan fake_zram_backend (fake_zram_new, example_snapshot) = (Ok out, (b', s')) \<and>
     to_applied out \<and> fz_view fake_zram_new r = None \<and> fz_view b' r = Some (True, Some s) \<and> s \<noteq> 0"
proof -
  obtain out b' s' where a: "apply_plan fake_zram_backend (fake_zram_new, example_snapshot) = (Ok out, (b', s'))"
    and o: "to_applied out" using example_switch_apply by blast
  from zram_apply_effect [OF fake.swap_backend_axioms example_switch_start(1,2) a o] a o show ?thesis by blast
qed

lemma example_switch_recover:
  "\<exists>e b' k' s' out b'' s''. apply_plan (failing_after fake_zram_backend) ((fake_zram_new, 3), example_snapshot) = (Err e, ((b', k'), s')) \<and>
    s' \<noteq> example_snapshot \<and> recover_pending fake_zram_backend (b', s') = (Ok out, (b'', s''))"
  by (simp add: tx_eval fake_eval Let_def failing_after_def limited_op_def)

theorem zram_recovery_restores_witness:
  "\<exists>e b' k' s' out b'' s''. apply_plan (failing_after fake_zram_backend) ((fake_zram_new, 3), example_snapshot) = (Err e, ((b', k'), s')) \<and>
    recover_pending fake_zram_backend (b', s') = (Ok out, (b'', s'')) \<and> fz_view b'' = fz_view fake_zram_new"
proof -
  obtain e b' k' s' out b'' s'' where
    a: "apply_plan (failing_after fake_zram_backend) ((fake_zram_new, 3), example_snapshot) = (Err e, ((b', k'), s'))"
    and n: "s' \<noteq> example_snapshot" and c: "recover_pending fake_zram_backend (b', s') = (Ok out, (b'', s''))"
    using example_switch_recover by blast
  have p: "\<not> zs_rollback_pending example_snapshot" by (simp add: example_snapshot_def)
  from zram_recovery_restores [OF fake.swap_backend_axioms example_switch_start(1) p example_switch_start(2) a c] a n c
  show ?thesis by blast
qed

end
