(* ===== verification/Zram_Linux.thy ===== *)
theory Zram_Linux
  imports Zram_Transaction
begin

text \<open>
  The backend of zram transactions on Linux (\<open>zram/src/backend.rs\<close>): sysfs writes and the three
  swap helpers, guarded by the set of devices this process created. The kernel, the helper
  processes and the clock are a parameter (\<open>zram_kernel\<close>); the state of the backend is the pair of
  the kernel state and the backend's own fields.

  Deadlines. The code polls until ten seconds have passed, sleeping at least ten milliseconds
  per poll (fifty for a reset), so a poll loop runs at most \<open>timeout / 10\<close> times: that is its fuel.
  The deadline may pass earlier, which the kernel parameter \<open>zk_late\<close> tells.
\<close>

datatype exit_status = ExitStatus (es_success: bool) (es_text: string)

record 'k zram_kernel =
  zk_files :: "'k \<Rightarrow> host_files"
  zk_read :: "string \<Rightarrow> (io_error, 'k, string) eff"
  zk_write :: "string \<Rightarrow> string \<Rightarrow> (io_error, 'k, unit) eff"
  zk_canonicalize :: "'k \<Rightarrow> string \<Rightarrow> (io_error, string) result"
  zk_spawn :: "string \<Rightarrow> string list \<Rightarrow> (io_error, 'k, nat) eff"
  zk_try_wait :: "nat \<Rightarrow> (io_error, 'k, exit_status option) eff"
  zk_kill :: "nat \<Rightarrow> 'k \<Rightarrow> 'k"
  zk_sleep :: "nat \<Rightarrow> 'k \<Rightarrow> 'k"
  zk_late :: "'k \<Rightarrow> bool"

record linux_zram =
  lz_root :: string
  lz_owned :: "string set"
  lz_command_timeout_ms :: nat

type_synonym ('k, 'a) lz = "(zram_error, 'k \<times> linux_zram, 'a) eff"

definition lz_default :: linux_zram where
  "lz_default = \<lparr> lz_root = ''/'', lz_owned = {}, lz_command_timeout_ms = 10000 \<rparr>"

definition lz_rooted_at :: "string \<Rightarrow> linux_zram" where
  "lz_rooted_at base = \<lparr> lz_root = base, lz_owned = {}, lz_command_timeout_ms = 10000 \<rparr>"

definition lz_path :: "linux_zram \<Rightarrow> string \<Rightarrow> string" where
  "lz_path s absolute = path_join (lz_root s) (dropWhile (\<lambda>c. c = CHR ''/'') absolute)"

text \<open>Paths compare by components: repeated slashes and dots do not count.\<close>

definition zram_path_parts :: "string \<Rightarrow> string list" where
  "zram_path_parts p = filter (\<lambda>c. c \<noteq> [] \<and> c \<noteq> ''.'') (split_on CHR ''/'' p)"

definition zram_path_eq :: "string \<Rightarrow> string \<Rightarrow> bool" where
  "zram_path_eq p q \<longleftrightarrow> starts_with p ''/'' = starts_with q ''/'' \<and> zram_path_parts p = zram_path_parts q"

definition path_ends_with :: "string \<Rightarrow> string \<Rightarrow> bool" where
  "path_ends_with p q \<longleftrightarrow> (let ps = zram_path_parts p; qs = zram_path_parts q in
     length qs \<le> length ps \<and> drop (length ps - length qs) ps = qs)"

text \<open>A kernel operation with its I/O error turned into an error of the backend.\<close>

definition k_op :: "string \<Rightarrow> (io_error, 'k, 'a) eff \<Rightarrow> ('k, 'a) lz" where
  "k_op operation f w = (case f (fst w) of
      (Inl e, k) \<Rightarrow> (Err (ZBackend operation (io_text e)), (k, snd w))
    | (Inr x, k) \<Rightarrow> (Ok x, (k, snd w)))"

definition k_step :: "('k \<Rightarrow> 'k) \<Rightarrow> ('k, unit) lz" where
  "k_step f w = (Ok (), (f (fst w), snd w))"

subsection \<open>Reading\<close>

definition lz_inspect :: "'k zram_kernel \<Rightarrow> 'k \<times> linux_zram \<Rightarrow> (zram_error, inventory) result" where
  "lz_inspect K w = map_sum id
     (\<lambda>i. i\<lparr> inv_devices := map (\<lambda>d. if di_name d \<in> lz_owned (snd w) then d\<lparr> di_ownership := NemorOwned \<rparr> else d)
              (inv_devices i) \<rparr>)
     (inspect_linux (zk_files K (fst w)) (lz_root (snd w)))"

definition lz_verify :: "'k zram_kernel \<Rightarrow> 'k \<times> linux_zram \<Rightarrow> string \<Rightarrow> (zram_error, device_inventory) result" where
  "lz_verify K w name =
     (if \<not> valid_name name then Err (ZBlocked ''invalid zram device name'')
      else rbind (lz_inspect K w) (\<lambda>i.
        ok_or (ZVerification (name @ '' is absent'')) (List.find (\<lambda>d. di_name d = name) (inv_devices i))))"




subsection \<open>Guarded writes and helpers\<close>

definition require_owned :: "string \<Rightarrow> ('k, unit) lz" where
  "require_owned name w = (if valid_name name \<and> name \<in> lz_owned (snd w) then ret () w
     else throw (ZBlocked ''device is not registered as Nemor-owned'') w)"

definition write_owned :: "'k zram_kernel \<Rightarrow> string \<Rightarrow> string \<Rightarrow> string \<Rightarrow> ('k, unit) lz" where
  "write_owned K name field v =
     bindA (require_owned name) (\<lambda>_.
     if field \<notin> {''comp_algorithm'', ''disksize'', ''reset''}
     then throw (ZBlocked ''sysfs property is not allow-listed'')
     else bindA (s_get (\<lambda>s. lz_path s (''/sys/block/'' @ name @ ''/'' @ field))) (\<lambda>path.
          k_op ''sysfs_write'' (zk_write K path v)))"

text \<open>Wait for the device node, at most until the deadline.\<close>

fun wait_for_node :: "'k zram_kernel \<Rightarrow> string \<Rightarrow> nat \<Rightarrow> 'k \<Rightarrow> 'k" where
  "wait_for_node K device 0 k = k"
| "wait_for_node K device (Suc n) k =
     (if \<not> hf_exists (zk_files K k) device \<and> \<not> zk_late K k
      then wait_for_node K device n (zk_sleep K 10 k) else k)"

text \<open>Poll a child process; after the deadline it is killed.\<close>

definition kill_child :: "'k zram_kernel \<Rightarrow> string \<Rightarrow> nat \<Rightarrow> ('k, unit) lz" where
  "kill_child K executable pid = bindA (k_step (zk_kill K pid)) (\<lambda>_.
     throw (ZBackend ''allowlisted_helper_timeout'' (executable @ '' exceeded timeout'')))"

fun wait_child :: "'k zram_kernel \<Rightarrow> string \<Rightarrow> nat \<Rightarrow> nat \<Rightarrow> ('k, unit) lz" where
  "wait_child K executable pid n = bindA (k_op ''wait_allowlisted_helper'' (zk_try_wait K pid)) (\<lambda>polled w.
     case polled of
       Some status \<Rightarrow> if es_success status then ret () w
         else throw (ZBackend ''allowlisted_helper'' (executable @ '' exited with '' @ es_text status)) w
     | None \<Rightarrow> (case n of
         0 \<Rightarrow> kill_child K executable pid w
       | Suc m \<Rightarrow> if zk_late K (fst w) then kill_child K executable pid w
           else bindA (k_step (zk_sleep K 10)) (\<lambda>_. wait_child K executable pid m) w))"

declare wait_child.simps [simp del]

definition lz_command :: "'k zram_kernel \<Rightarrow> string \<Rightarrow> string \<Rightarrow> string list \<Rightarrow> ('k, unit) lz" where
  "lz_command K executable device extra =
     (if executable \<notin> {''/usr/bin/mkswap'', ''/usr/bin/swapon'', ''/usr/bin/swapoff''}
      then throw (ZBlocked ''helper executable is not allow-listed'')
      else case file_name device of
        None \<Rightarrow> throw (ZBlocked ''invalid device path'')
      | Some name \<Rightarrow>
         bindA (require_owned name) (\<lambda>_.
         if \<not> zram_path_eq device (''/dev/'' @ name) then throw (ZBlocked ''device path is not canonical zram'')
         else
           bindA (s_get (\<lambda>s. lz_command_timeout_ms s div 10)) (\<lambda>polls.
           bindA (k_step (wait_for_node K device polls)) (\<lambda>_.
           bindA (\<lambda>w. ret (hf_exists (zk_files K (fst w)) device) w) (\<lambda>appeared.
           if \<not> appeared then throw (ZBackend ''wait_for_device_node'' (device @ '' did not appear''))
           else
             bindA (k_op ''spawn_allowlisted_helper'' (zk_spawn K executable (extra @ [device]))) (\<lambda>pid.
             wait_child K executable pid polls))))))"

subsection \<open>The operations of the backend\<close>


definition lz_resume :: "'k zram_kernel \<Rightarrow> string \<Rightarrow> string set \<Rightarrow> ('k, device_inventory) lz" where
  "lz_resume K name baseline_names w =
     (if \<not> valid_name name \<or> name = ''zram0'' \<or> name \<in> baseline_names
      then throw (ZBlocked ''recovery device was present at baseline or is protected'') w
      else case zk_canonicalize K (fst w) (lz_path (snd w) (''/sys/block/'' @ name)) of
        Inr path \<Rightarrow> if path_ends_with path (''block/'' @ name)
          then bindA (s_modify (\<lambda>s. s\<lparr> lz_owned := insert name (lz_owned s) \<rparr>)) (\<lambda>_ w. (lz_verify K w name, w)) w
          else throw (ZBlocked ''recovery device is not a live canonical zram device'') w
      | Inl _ \<Rightarrow> throw (ZBlocked ''recovery device is not a live canonical zram device'') w)"

definition lz_configure :: "'k zram_kernel \<Rightarrow> string \<Rightarrow> string \<Rightarrow> ('k, unit) lz" where
  "lz_configure K name algorithm =
     bindA (\<lambda>w. (lz_verify K w name, w)) (\<lambda>device.
     if di_initstate device = Some True
     then throw (ZBlocked ''algorithm must be configured before initialization'')
     else if algorithm \<notin> set (di_available_algorithms device) then throw (ZBlocked ''algorithm is unavailable'')
     else write_owned K name ''comp_algorithm'' algorithm)"

definition lz_initialize :: "'k zram_kernel \<Rightarrow> string \<Rightarrow> u64 \<Rightarrow> ('k, unit) lz" where
  "lz_initialize K name disksize =
     (if disksize = 0 then throw (ZBlocked ''disksize must be greater than zero'')
      else write_owned K name ''disksize'' (show_nat (unat disksize)))"

definition lz_activate :: "'k zram_kernel \<Rightarrow> string \<Rightarrow> i32 \<Rightarrow> ('k, unit) lz" where
  "lz_activate K name priority =
     bindA (require_owned name) (\<lambda>_.
     bindA (lz_command K ''/usr/bin/mkswap'' (''/dev/'' @ name) []) (\<lambda>_.
     lz_command K ''/usr/bin/swapon'' (''/dev/'' @ name) [''--priority'', show_int priority]))"

definition lz_deactivate :: "'k zram_kernel \<Rightarrow> string \<Rightarrow> ('k, unit) lz" where
  "lz_deactivate K name = bindA (require_owned name) (\<lambda>_. lz_command K ''/usr/bin/swapoff'' (''/dev/'' @ name) [])"

text \<open>Writing \<open>1\<close> to \<open>reset\<close>, again while the device is busy and the deadline has not passed.\<close>

fun reset_retry :: "'k zram_kernel \<Rightarrow> string \<Rightarrow> nat \<Rightarrow> (zram_error, 'k, unit) eff" where
  "reset_retry K path n k = (case zk_write K path ''1'' k of
      (Inr _, k') \<Rightarrow> (Ok (), k')
    | (Inl e, k') \<Rightarrow> (case n of
         Suc m \<Rightarrow> if io_kind e = ResourceBusy \<and> \<not> zk_late K k' then reset_retry K path m (zk_sleep K 50 k')
           else (Err (ZBackend ''reset'' (io_text e)), k')
       | 0 \<Rightarrow> (Err (ZBackend ''reset'' (io_text e)), k')))"

declare reset_retry.simps [simp del]

definition lz_reset :: "'k zram_kernel \<Rightarrow> string \<Rightarrow> ('k, unit) lz" where
  "lz_reset K name =
     bindA (\<lambda>w. (lz_verify K w name, w)) (\<lambda>device.
     if di_active_swap device then throw (ZBlocked ''never reset active swap'')
     else bindA (require_owned name) (\<lambda>_.
          bindA (s_get (\<lambda>s. (lz_path s (''/sys/block/'' @ name @ ''/reset''), lz_command_timeout_ms s div 50))) (\<lambda>(path, polls).
          b_op (reset_retry K path polls))))"

definition lz_remove :: "'k zram_kernel \<Rightarrow> string \<Rightarrow> ('k, unit) lz" where
  "lz_remove K name =
     bindA (\<lambda>w. (lz_verify K w name, w)) (\<lambda>device.
     if di_active_swap device then throw (ZBlocked ''never remove active swap'')
     else bindA (lz_reset K name) (\<lambda>_.
       case strip_prefix ''zram'' name of
         None \<Rightarrow> throw (ZBlocked ''invalid zram name'')
       | Some suffix \<Rightarrow>
          bindA (s_get (\<lambda>s. lz_path s ''/sys/class/zram-control/hot_remove'')) (\<lambda>path.
          bindA (k_op ''hot_remove'' (zk_write K path suffix)) (\<lambda>_.
          s_modify (\<lambda>s. s\<lparr> lz_owned := lz_owned s - {name} \<rparr>)))))"


subsection \<open>Refusals\<close>

lemma require_owned_refuses: "n \<notin> lz_owned (snd w) \<Longrightarrow> \<exists>e. require_owned n w = (Err e, w)"
  by (auto simp: require_owned_def throw_def)

lemma verify_first: "(\<And>d. lz_verify K w n = Ok d \<Longrightarrow> \<exists>e. f d w = (Err e, w)) \<Longrightarrow>
    \<exists>e. bindA (\<lambda>w. (lz_verify K w n, w)) f w = (Err e, w)"
  by (auto simp: bindA_def split: sum.splits)

lemma refused_first: "\<exists>e. m w = (Err e, w) \<Longrightarrow> \<exists>e. bindA m f w = (Err e, w)"
  by (auto simp: bindA_def)

lemma refused_throw: "\<exists>e. throw e' w = (Err e, w)"
  by simp

lemma write_owned_refuses: "n \<notin> lz_owned (snd w) \<Longrightarrow> \<exists>e. write_owned K n field v w = (Err e, w)"
  unfolding write_owned_def by (intro refused_first require_owned_refuses)

lemma reset_refuses:
  "n \<notin> lz_owned (snd w) \<or> (\<exists>d. lz_verify K w n = Ok d \<and> di_active_swap d) \<Longrightarrow> \<exists>e. lz_reset K n w = (Err e, w)"
  unfolding lz_reset_def
  by (rule verify_first) (auto intro: refused_first require_owned_refuses)

lemma remove_refuses:
  "n \<notin> lz_owned (snd w) \<or> (\<exists>d. lz_verify K w n = Ok d \<and> di_active_swap d) \<Longrightarrow> \<exists>e. lz_remove K n w = (Err e, w)"
  unfolding lz_remove_def
  by (rule verify_first) (auto intro: refused_first reset_refuses)

lemma foreign_refused:
  assumes "n \<notin> lz_owned (snd w)"
    and "op \<in> {lz_configure K n a, lz_initialize K n sz, lz_activate K n p, lz_deactivate K n, lz_reset K n, lz_remove K n}"
  shows "\<exists>e. op w = (Err e, w)"
proof -
  have "\<exists>e. lz_configure K n a w = (Err e, w)"
    unfolding lz_configure_def by (rule verify_first) (use assms(1) write_owned_refuses [of n w K] in auto)
  moreover have "\<exists>e. lz_initialize K n sz w = (Err e, w)"
    unfolding lz_initialize_def using assms(1) write_owned_refuses [of n w K] by auto
  moreover have "\<exists>e. lz_activate K n p w = (Err e, w)" "\<exists>e. lz_deactivate K n w = (Err e, w)"
    unfolding lz_activate_def lz_deactivate_def using assms(1) by (auto intro: refused_first require_owned_refuses)
  ultimately show ?thesis using assms reset_refuses [of n w K] remove_refuses [of n w K] by auto
qed

subsection \<open>The calls an operation makes\<close>

datatype kernel_call = CallRead string | CallWrite string string | CallSpawn string "string list"

text \<open>A kernel that also keeps a log of the files read and written and of the helpers run.\<close>

definition logged_op :: "kernel_call \<Rightarrow> ('e, 'k, 'a) eff \<Rightarrow> ('e, 'k \<times> kernel_call list, 'a) eff" where
  "logged_op c f w = (case f (fst w) of (r, k) \<Rightarrow> (r, (k, snd w @ [c])))"

definition logged :: "'k zram_kernel \<Rightarrow> ('k \<times> kernel_call list) zram_kernel" where
  "logged K = \<lparr> zk_files = \<lambda>w. zk_files K (fst w),
     zk_read = \<lambda>p. logged_op (CallRead p) (zk_read K p),
     zk_write = \<lambda>p v. logged_op (CallWrite p v) (zk_write K p v),
     zk_canonicalize = \<lambda>w. zk_canonicalize K (fst w),
     zk_spawn = \<lambda>x as. logged_op (CallSpawn x as) (zk_spawn K x as),
     zk_try_wait = \<lambda>pid. b_op (zk_try_wait K pid),
     zk_kill = \<lambda>pid w. (zk_kill K pid (fst w), snd w),
     zk_sleep = \<lambda>ms w. (zk_sleep K ms (fst w), snd w),
     zk_late = \<lambda>w. zk_late K (fst w) \<rparr>"

text \<open>The calls that concern one device: three attributes in sysfs, its removal, and the swap
  helpers on its node.\<close>

definition device_calls :: "string \<Rightarrow> string \<Rightarrow> kernel_call set" where
  "device_calls base n =
     {CallWrite (path_join base (''sys/block/'' @ n @ ''/'' @ f)) v | f v. f \<in> {''comp_algorithm'', ''disksize'', ''reset''}} \<union>
     {CallWrite (path_join base ''sys/class/zram-control/hot_remove'') (drop 4 n)} \<union>
     {CallSpawn x (as @ [''/dev/'' @ n]) | x as. x \<in> {''/usr/bin/mkswap'', ''/usr/bin/swapon'', ''/usr/bin/swapoff''}}"

definition confined :: "kernel_call set \<Rightarrow> string \<Rightarrow> ('k \<times> kernel_call list) \<times> linux_zram \<Rightarrow> bool" where
  "confined L base w \<longleftrightarrow> set (snd (fst w)) \<subseteq> L \<and> lz_root (snd w) = base"

abbreviation keeps_confined :: "kernel_call set \<Rightarrow> string \<Rightarrow> ('k \<times> kernel_call list, 'a) lz \<Rightarrow> bool" where
  "keeps_confined L base m \<equiv> triple (confined L base) m (\<lambda>_. confined L base) (confined L base)"

lemma confined_k_op:
  "c \<in> L \<Longrightarrow> keeps_confined L base (k_op x (logged_op c f))"
  by (rule tripleI) (auto simp: k_op_def logged_op_def confined_def split: prod.splits sum.splits)

lemma confined_steps:
  "keeps_confined L base (k_op x (zk_try_wait (logged K) pid))"
  "keeps_confined L base (k_step (zk_kill (logged K) pid))"
  "keeps_confined L base (k_step (zk_sleep (logged K) ms))"
  "keeps_confined L base (s_get g)"
  "keeps_confined L base (require_owned n)"
  "keeps_confined L base (\<lambda>w. (lz_verify K' w n, w))"
  "keeps_confined L base (\<lambda>w. ret (h w) w)"
  by (rule tripleI; auto simp: k_op_def k_step_def logged_def b_op_def confined_def s_get_def require_owned_def
      split: prod.splits sum.splits if_splits)+

lemma confined_wait_for_node: "keeps_confined L base (k_step (wait_for_node (logged K) d n))"
proof -
  have "snd (wait_for_node (logged K) d n k) = snd k" for k
    by (induction n arbitrary: k) (auto simp: logged_def)
  then show ?thesis by (simp add: triple_def k_step_def confined_def)
qed

lemma confined_get:
  assumes "\<And>s. lz_root s = base \<Longrightarrow> keeps_confined L base (f (g s))"
  shows "keeps_confined L base (bindA (s_get g) f)"
  using assms by (auto simp: triple_def bindA_def s_get_def confined_def)

lemmas confined_bind = triple_bind [where P = "confined L base" and E = "confined L base" for L base,
    where R = "\<lambda>_. confined L base" and Q = "\<lambda>_. confined L base" for L base]

lemma confined_throw: "keeps_confined L base (throw e)" and confined_ret: "keeps_confined L base (ret x)"
  by (auto intro: triple_throw triple_ret)

lemma confined_kill_child: "keeps_confined L base (kill_child (logged K) x pid)"
  unfolding kill_child_def by (intro confined_bind confined_steps confined_throw)

lemma confined_wait_child: "keeps_confined L base (wait_child (logged K) x pid n)"
proof (induction n)
  case 0
  show ?case using confined_kill_child [of L base K x pid]
    by (subst wait_child.simps, intro triple_bind [OF confined_steps(1)])
      (auto simp: triple_def split: option.splits)
next
  case (Suc n)
  have "keeps_confined L base (bindA (k_step (zk_sleep (logged K) 10)) (\<lambda>_. wait_child (logged K) x pid n))"
    by (intro confined_bind confined_steps Suc)
  then show ?case using confined_kill_child [of L base K x pid]
    by (subst wait_child.simps, intro triple_bind [OF confined_steps(1)])
      (auto simp: triple_def split: option.splits)
qed

lemma confined_command:
  assumes "device_calls base n \<subseteq> L"
  shows "keeps_confined L base (lz_command (logged K) x (''/dev/'' @ n) as)"
proof (cases "x \<in> {''/usr/bin/mkswap'', ''/usr/bin/swapon'', ''/usr/bin/swapoff''} \<and> file_name (''/dev/'' @ n) \<noteq> None")
  case True
  then have "CallSpawn x (as @ [''/dev/'' @ n]) \<in> L" using assms by (auto simp: device_calls_def)
  then have "keeps_confined L base (k_op op (zk_spawn (logged K) x (as @ [''/dev/'' @ n])))" for op
    by (simp add: logged_def confined_k_op)
  then show ?thesis using True unfolding lz_command_def
    by (auto intro!: confined_bind confined_steps confined_throw confined_wait_child confined_wait_for_node triple_if)
next
  case False
  then show ?thesis by (auto simp: lz_command_def confined_throw)
qed

lemma confined_write_owned:
  assumes "device_calls base n \<subseteq> L"
  shows "keeps_confined L base (write_owned (logged K) n f v)"
proof -
  have "keeps_confined L base (k_op ''sysfs_write'' (zk_write (logged K) (lz_path s (''/sys/block/'' @ n @ ''/'' @ f)) v))"
    if "lz_root s = base" "f \<in> {''comp_algorithm'', ''disksize'', ''reset''}" for s
    unfolding logged_def
    by (simp, rule confined_k_op, rule subsetD [OF assms]) (use that in \<open>auto simp: device_calls_def lz_path_def\<close>)
  then show ?thesis unfolding write_owned_def
    by (intro confined_bind confined_steps confined_throw triple_if confined_get) auto
qed

lemma reset_retry_log:
  assumes "CallWrite p ''1'' \<in> L" and "set (snd k) \<subseteq> L"
  shows "set (snd (snd (reset_retry (logged K) p m k))) \<subseteq> L"
  using assms
proof (induction m arbitrary: k)
  case 0
  then show ?case by (subst reset_retry.simps) (auto simp: logged_def logged_op_def split: prod.splits sum.splits)
next
  case (Suc m)
  have "set (snd (snd (reset_retry (logged K) p m (zk_sleep (logged K) 50 k')))) \<subseteq> L" if "set (snd k') \<subseteq> L" for k'
    using Suc.IH [of "zk_sleep (logged K) 50 k'"] that Suc.prems(1) by (simp add: logged_def)
  moreover have "set (snd (snd (zk_write (logged K) p ''1'' k))) \<subseteq> L"
    using Suc.prems by (auto simp: logged_def logged_op_def split: prod.splits)
  moreover obtain r k' where "zk_write (logged K) p ''1'' k = (r, k')" by (metis surj_pair)
  ultimately show ?case by (subst reset_retry.simps) (cases r; simp)
qed

lemma confined_reset:
  assumes "device_calls base n \<subseteq> L"
  shows "keeps_confined L base (lz_reset (logged K) n)"
proof -
  have "keeps_confined L base (b_op (reset_retry (logged K) (lz_path s (''/sys/block/'' @ n @ ''/reset'')) m))"
    if "lz_root s = base" for s m
  proof -
    have "CallWrite (lz_path s (''/sys/block/'' @ n @ ''/reset'')) ''1'' \<in> device_calls base n"
      using that by (auto simp: device_calls_def lz_path_def)
    with assms have c: "CallWrite (lz_path s (''/sys/block/'' @ n @ ''/reset'')) ''1'' \<in> L" by blast
    have "confined L base w'"
      if "confined L base w" "b_op (reset_retry (logged K) (lz_path s (''/sys/block/'' @ n @ ''/reset'')) m) w = (r, w')" for w w' r
      using that reset_retry_log [OF c, of "fst w" K m] by (simp add: b_op_eq confined_def)
    then show ?thesis by (intro tripleI) blast+
  qed
  then show ?thesis unfolding lz_reset_def
    by (intro confined_bind confined_steps confined_throw triple_if confined_get) auto
qed

lemma confined_remove:
  assumes "device_calls base n \<subseteq> L"
  shows "keeps_confined L base (lz_remove (logged K) n)"
proof -
  have "keeps_confined L base (k_op ''hot_remove'' (zk_write (logged K) (lz_path s ''/sys/class/zram-control/hot_remove'') suffix))"
    if "lz_root s = base" "strip_prefix ''zram'' n = Some suffix" for s suffix
  proof -
    have "n = ''zram'' @ suffix" using that(2) by (simp only: strip_prefix_Some_iff)
    then have "drop 4 n = suffix" by simp
    then have "CallWrite (lz_path s ''/sys/class/zram-control/hot_remove'') suffix \<in> L"
      using that(1) by (intro subsetD [OF assms]) (auto simp: device_calls_def lz_path_def)
    then show ?thesis by (simp add: logged_def confined_k_op)
  qed
  moreover have "keeps_confined L base (s_modify (\<lambda>s. s\<lparr> lz_owned := lz_owned s - {n} \<rparr>))"
    by (rule tripleI) (auto simp: confined_def)
  ultimately show ?thesis unfolding lz_remove_def
    by (intro confined_bind confined_steps confined_throw triple_if confined_reset [OF assms])
      (auto intro!: confined_bind confined_throw confined_get split: option.splits)
qed

text \<open>C9. The Linux backend touches only devices it created: whatever the kernel answers, an operation on
  a device that is not registered as owned is refused and makes no call at all; on an owned
  device, everything it writes or runs concerns this device: its three allow-listed attributes,
  its removal, and one of the three swap helpers on its node.\<close>

theorem zram_linux_effects_confined:
  assumes "op \<in> {lz_configure (logged K) n a, lz_initialize (logged K) n sz, lz_activate (logged K) n p,
      lz_deactivate (logged K) n, lz_reset (logged K) n, lz_remove (logged K) n}"
    and "op ((k, calls), s) = (r, ((k', calls'), s'))"
  shows "set calls' \<subseteq> set calls \<union> device_calls (lz_root s) n \<and>
    (n \<notin> lz_owned s \<longrightarrow> k' = k \<and> calls' = calls \<and> s' = s \<and> (\<exists>e. r = Err e))"
proof (cases "n \<in> lz_owned s")
  case False
  then show ?thesis using foreign_refused [of n "((k, calls), s)" op "logged K" a sz p] assms by auto
next
  case True
  let ?L = "set calls \<union> device_calls (lz_root s) n"
  have d: "device_calls (lz_root s) n \<subseteq> ?L" by blast
  note w = confined_write_owned [OF d] and c = confined_command [OF d]
  have "keeps_confined ?L (lz_root s) (lz_configure (logged K) n a)" "keeps_confined ?L (lz_root s) (lz_initialize (logged K) n sz)"
    "keeps_confined ?L (lz_root s) (lz_activate (logged K) n p)" "keeps_confined ?L (lz_root s) (lz_deactivate (logged K) n)"
    unfolding lz_configure_def lz_initialize_def lz_activate_def lz_deactivate_def
    by (intro confined_bind confined_steps confined_throw triple_if w c)+
  with assms(1) have t: "keeps_confined ?L (lz_root s) op" using confined_reset [OF d, of K] confined_remove [OF d, of K] by blast
  have start: "confined ?L (lz_root s) ((k, calls), s)" by (simp add: confined_def)
  have "confined ?L (lz_root s) ((k', calls'), s')"
    by (cases r) (use triple_Err [OF t start] triple_Ok [OF t start] assms(2) in blast)+
  with True show ?thesis by (simp add: confined_def)
qed

text \<open>A kernel on which every write succeeds and no file can be read.\<close>

definition quiet_kernel :: "unit zram_kernel" where
  "quiet_kernel = \<lparr> zk_files = \<lambda>_. \<lparr> hf_read_to_string = \<lambda>p. Err (IoError NotFound ''absent''),
       hf_read_dir = \<lambda>p. Err (IoError NotFound ''absent''), hf_exists = \<lambda>p. False, hf_metadata = \<lambda>p. None \<rparr>,
     zk_read = \<lambda>p k. (Err (IoError NotFound ''absent''), k), zk_write = \<lambda>p v k. (Ok (), k),
     zk_canonicalize = \<lambda>k p. Err (IoError NotFound ''absent''),
     zk_spawn = \<lambda>x as k. (Err (IoError NotFound ''absent''), k), zk_try_wait = \<lambda>pid k. (Ok None, k),
     zk_kill = \<lambda>pid k. k, zk_sleep = \<lambda>ms k. k, zk_late = \<lambda>k. True \<rparr>"

theorem zram_linux_effects_confined_witness:
  "\<exists>calls'. lz_initialize (logged quiet_kernel) ''zram1'' 9 (((), []), lz_default\<lparr> lz_owned := {''zram1''} \<rparr>) =
      (Ok (), (((), calls'), lz_default\<lparr> lz_owned := {''zram1''} \<rparr>)) \<and>
    calls' = [CallWrite ''/sys/block/zram1/disksize'' ''9''] \<and> set calls' \<subseteq> device_calls ''/'' ''zram1''"
proof -
  have nine: "show_nat 9 = ''9''" by code_simp
  have run: "lz_initialize (logged quiet_kernel) ''zram1'' 9 (((), []), lz_default\<lparr> lz_owned := {''zram1''} \<rparr>) =
      (Ok (), (((), [CallWrite ''/sys/block/zram1/disksize'' ''9'']), lz_default\<lparr> lz_owned := {''zram1''} \<rparr>))"
    by (simp add: lz_initialize_def write_owned_def bindA_def require_owned_def ret_def s_get_def k_op_def logged_def
        logged_op_def quiet_kernel_def lz_default_def valid_name_def is_ascii_digit_def lz_path_def path_join_def
        starts_with_def ends_with_def strip_suffix_def nine)
  from zram_linux_effects_confined [where op = "lz_initialize (logged quiet_kernel) ''zram1'' 9" and K = quiet_kernel and
      n = "''zram1''" and sz = 9, OF _ run]
  have "set [CallWrite ''/sys/block/zram1/disksize'' ''9''] \<subseteq> device_calls ''/'' ''zram1''"
    by (simp add: lz_default_def)
  with run show ?thesis by blast
qed

subsection \<open>Recovery by a new process\<close>




end
