(* ===== verification/Damon_Signal.thy ===== *)
theory Damon_Signal
  imports Damon_Trace Gates "HOL-Library.Product_Lexorder"
begin

text \<open>
  The analysis of a DAMON capture over three zones of a synthetic workload (\<open>analyze_zones\<close> in
  \<open>damon/src/lib.rs\<close>): per window and zone the overlap-weighted access ratio and the bytes
  covered, over all windows the statistics of each zone, and the verdict whether the capture
  tells hot from cold memory. The three zones go through the same accumulators, so one
  \<open>zone_state\<close> per zone holds its range, its accumulators and the bytes of the current window.
\<close>

record zone_statistics =
  zst_windows_observed :: nat
  zst_region_samples :: u64
  zst_overlap_sample_bytes :: u64
  zst_snapshot_overlap_bytes_median :: u64
  zst_normalized_ratio_mean :: f64
  zst_normalized_ratio_p25 :: f64
  zst_normalized_ratio_p50 :: f64
  zst_normalized_ratio_p75 :: f64
  zst_normalized_ratio_p95 :: f64
  zst_age_mean :: f64
  zst_confidence :: string

record window_zone_diagnostic =
  wzd_window_index :: nat
  wzd_region_count :: nat
  wzd_observed_bytes :: u64
  wzd_target_overlap_bytes :: u64
  wzd_outside_requested_bytes :: u64
  wzd_hot_overlap_bytes :: u64
  wzd_warm_overlap_bytes :: u64
  wzd_cold_overlap_bytes :: u64
  wzd_hot_normalized_ratio :: f64
  wzd_warm_normalized_ratio :: f64
  wzd_cold_normalized_ratio :: f64
  wzd_hot_raw_accesses :: u64
  wzd_warm_raw_accesses :: u64
  wzd_cold_raw_accesses :: u64
  wzd_hot_overlapping_regions :: u64
  wzd_warm_overlapping_regions :: u64
  wzd_cold_overlapping_regions :: u64
  wzd_expected_samples_per_region :: u64

record signal_evidence =
  sig_hot :: zone_statistics
  sig_warm :: zone_statistics
  sig_cold :: zone_statistics
  sig_other_region_samples :: u64
  sig_region_sample_bytes :: u64
  sig_snapshot_observed_bytes_median :: u64
  sig_requested_target_bytes :: u64
  sig_observed_target_bytes_per_snapshot :: u64
  sig_outside_requested_bytes :: u64
  sig_outside_requested_ratio :: f64
  sig_target_isolated :: bool
  sig_window_diagnostics :: "window_zone_diagnostic list"
  sig_hot_cold_margin :: f64
  sig_warm_cold_margin :: f64
  sig_hot_cold_distinguished :: bool
  sig_warm_coherent :: bool
  sig_accepted :: bool
  sig_reasons :: "string list"

subsection \<open>Accumulators\<close>

record zone_accumulator =
  za_weighted_ratio :: f64
  za_weighted_age :: f64
  za_quality_weight :: f64
  za_overlap_bytes :: u64
  za_samples :: u64
  za_window_ratios :: "f64 list"
  za_snapshots :: "u64 list"

definition zone_accumulator_default :: zone_accumulator where
  "zone_accumulator_default = \<lparr> za_weighted_ratio = Fin 0, za_weighted_age = Fin 0, za_quality_weight = Fin 0,
     za_overlap_bytes = 0, za_samples = 0, za_window_ratios = [], za_snapshots = [] \<rparr>"

record window_accumulator =
  wa_weighted_ratio :: f64
  wa_quality_weight :: f64
  wa_raw_accesses :: u64
  wa_regions :: u64

definition window_accumulator_default :: window_accumulator where
  "window_accumulator_default = \<lparr> wa_weighted_ratio = Fin 0, wa_quality_weight = Fin 0, wa_raw_accesses = 0, wa_regions = 0 \<rparr>"

definition quality_weight :: "u64 \<Rightarrow> u64 \<Rightarrow> f64" where
  "quality_weight over region_size = f64_div (f64_mul (f64_of_u64 over) (f64_of_u64 over)) (f64_of_u64 region_size)"

definition zone_push :: "zone_accumulator \<Rightarrow> u64 \<Rightarrow> u64 \<Rightarrow> f64 \<Rightarrow> u64 \<Rightarrow> zone_accumulator" where
  "zone_push acc over region_size r age =
     (if over = 0 \<or> region_size = 0 then acc
      else (let q = quality_weight over region_size in
        acc\<lparr> za_weighted_ratio := f64_add (za_weighted_ratio acc) (f64_mul r q),
             za_weighted_age := f64_add (za_weighted_age acc) (f64_mul (f64_of_u64 age) q),
             za_overlap_bytes := sat_add (za_overlap_bytes acc) over,
             za_quality_weight := f64_add (za_quality_weight acc) q,
             za_samples := sat_add (za_samples acc) 1 \<rparr>))"

definition window_push :: "window_accumulator \<Rightarrow> u64 \<Rightarrow> u64 \<Rightarrow> f64 \<Rightarrow> u64 \<Rightarrow> window_accumulator" where
  "window_push acc over region_size r raw_accesses =
     (if over = 0 \<or> region_size = 0 then acc
      else (let q = quality_weight over region_size in
        acc\<lparr> wa_weighted_ratio := f64_add (wa_weighted_ratio acc) (f64_mul r q),
             wa_quality_weight := f64_add (wa_quality_weight acc) q,
             wa_raw_accesses := sat_add (wa_raw_accesses acc) raw_accesses,
             wa_regions := sat_add (wa_regions acc) 1 \<rparr>))"

definition window_ratio :: "window_accumulator \<Rightarrow> f64" where
  "window_ratio acc = (if wa_quality_weight acc = Fin 0 then Fin 0 else f64_div (wa_weighted_ratio acc) (wa_quality_weight acc))"

definition percentile :: "f64 list \<Rightarrow> nat \<Rightarrow> f64" where
  "percentile vs p = (if vs = [] then Fin 0 else vs ! ((length vs - 1) * p div 100))"

definition damon_median_u64 :: "u64 list \<Rightarrow> u64" where
  "damon_median_u64 vs = (if vs = [] then 0 else sort vs ! ((length vs - 1) div 2))"

definition zone_finish :: "zone_accumulator \<Rightarrow> nat \<Rightarrow> zone_statistics" where
  "zone_finish acc windows = (let rs = sort_key f64_total_key (za_window_ratios acc) in
     \<lparr> zst_windows_observed = windows, zst_region_samples = za_samples acc, zst_overlap_sample_bytes = za_overlap_bytes acc,
       zst_snapshot_overlap_bytes_median = damon_median_u64 (za_snapshots acc),
       zst_normalized_ratio_mean = (if za_quality_weight acc = Fin 0 then Fin 0
          else f64_div (za_weighted_ratio acc) (za_quality_weight acc)),
       zst_normalized_ratio_p25 = percentile rs 25, zst_normalized_ratio_p50 = percentile rs 50,
       zst_normalized_ratio_p75 = percentile rs 75, zst_normalized_ratio_p95 = percentile rs 95,
       zst_age_mean = (if za_quality_weight acc = Fin 0 then Fin 0
          else f64_div (za_weighted_age acc) (za_quality_weight acc)),
       zst_confidence = (if windows \<ge> 5 \<and> za_samples acc \<ge> 5 then ''bounded'' else ''low'') \<rparr>)"

subsection \<open>The loop over windows and regions\<close>

definition region_size :: "trace_region \<Rightarrow> u64" where
  "region_size region = sat_sub (tr_end region) (tr_start region)"

definition region_range :: "trace_region \<Rightarrow> address_range" where
  "region_range region = \<lparr> ar_start = tr_start region, ar_end = tr_end region \<rparr>"

record zone_state =
  zs_range :: address_range
  zs_acc :: zone_accumulator
  zs_window :: window_accumulator
  zs_bytes :: u64

definition zone_region :: "f64 \<Rightarrow> trace_region \<Rightarrow> zone_state \<Rightarrow> zone_state" where
  "zone_region r region z =
     (let over = overlap (region_range region) (zs_range z)
      in z\<lparr> zs_acc := zone_push (zs_acc z) over (region_size region) r (tr_age region),
            zs_window := window_push (zs_window z) over (region_size region) r (tr_nr_accesses region),
            zs_bytes := sat_add (zs_bytes z) over \<rparr>)"

definition zone_open :: "zone_state \<Rightarrow> zone_state" where
  "zone_open z = z\<lparr> zs_window := window_accumulator_default, zs_bytes := 0 \<rparr>"

definition zone_close :: "zone_state \<Rightarrow> zone_state" where
  "zone_close z = z\<lparr> zs_acc := (zs_acc z)\<lparr> za_window_ratios := za_window_ratios (zs_acc z) @ [window_ratio (zs_window z)],
     za_snapshots := za_snapshots (zs_acc z) @ [zs_bytes z] \<rparr> \<rparr>"

record analysis =
  an_hot :: zone_state
  an_warm :: zone_state
  an_cold :: zone_state
  an_other :: u64
  an_region_sample_bytes :: u64
  an_footprint :: u64
  an_footprints :: "u64 list"
  an_target_footprints :: "u64 list"
  an_outside_footprints :: "u64 list"
  an_diagnostics :: "window_zone_diagnostic list"

definition analyze_region :: "u64 \<Rightarrow> analysis \<Rightarrow> trace_region \<Rightarrow> analysis" where
  "analyze_region expected a region =
     (let r = normalized_ratio (tr_nr_accesses region) expected;
          covered = overlap (region_range region) (zs_range (an_hot a)) + overlap (region_range region) (zs_range (an_warm a)) +
             overlap (region_range region) (zs_range (an_cold a))
      in a\<lparr> an_hot := zone_region r region (an_hot a), an_warm := zone_region r region (an_warm a),
            an_cold := zone_region r region (an_cold a),
            an_other := (if covered = 0 then sat_add (an_other a) 1 else an_other a),
            an_region_sample_bytes := sat_add (an_region_sample_bytes a) (region_size region),
            an_footprint := sat_add (an_footprint a) (region_size region) \<rparr>)"

definition analyze_window :: "u64 \<Rightarrow> analysis \<Rightarrow> trace_region list \<Rightarrow> analysis" where
  "analyze_window expected a0 window =
     (let a1 = a0\<lparr> an_hot := zone_open (an_hot a0), an_warm := zone_open (an_warm a0), an_cold := zone_open (an_cold a0),
                   an_footprint := 0 \<rparr>;
          a = foldl (analyze_region expected) a1 window;
          hot = zs_bytes (an_hot a); warm = zs_bytes (an_warm a); cold = zs_bytes (an_cold a);
          covered = sat_add (sat_add hot warm) cold;
          outside = sat_sub (an_footprint a) covered
      in a\<lparr> an_footprints := an_footprints a @ [an_footprint a],
            an_target_footprints := an_target_footprints a @ [covered],
            an_outside_footprints := an_outside_footprints a @ [outside],
            an_diagnostics := an_diagnostics a @ [
              \<lparr> wzd_window_index = length (an_diagnostics a), wzd_region_count = length window,
                wzd_observed_bytes = an_footprint a, wzd_target_overlap_bytes = covered,
                wzd_outside_requested_bytes = outside, wzd_hot_overlap_bytes = hot, wzd_warm_overlap_bytes = warm,
                wzd_cold_overlap_bytes = cold, wzd_hot_normalized_ratio = window_ratio (zs_window (an_hot a)),
                wzd_warm_normalized_ratio = window_ratio (zs_window (an_warm a)),
                wzd_cold_normalized_ratio = window_ratio (zs_window (an_cold a)),
                wzd_hot_raw_accesses = wa_raw_accesses (zs_window (an_hot a)),
                wzd_warm_raw_accesses = wa_raw_accesses (zs_window (an_warm a)),
                wzd_cold_raw_accesses = wa_raw_accesses (zs_window (an_cold a)),
                wzd_hot_overlapping_regions = wa_regions (zs_window (an_hot a)),
                wzd_warm_overlapping_regions = wa_regions (zs_window (an_warm a)),
                wzd_cold_overlapping_regions = wa_regions (zs_window (an_cold a)),
                wzd_expected_samples_per_region = expected \<rparr>],
            an_hot := zone_close (an_hot a), an_warm := zone_close (an_warm a), an_cold := zone_close (an_cold a) \<rparr>)"

definition zone_start :: "address_range \<Rightarrow> zone_state" where
  "zone_start zone = \<lparr> zs_range = zone, zs_acc = zone_accumulator_default, zs_window = window_accumulator_default, zs_bytes = 0 \<rparr>"

definition analysis_start :: "address_range \<Rightarrow> address_range \<Rightarrow> address_range \<Rightarrow> analysis" where
  "analysis_start hot warm cold = \<lparr> an_hot = zone_start hot, an_warm = zone_start warm, an_cold = zone_start cold,
     an_other = 0, an_region_sample_bytes = 0, an_footprint = 0, an_footprints = [], an_target_footprints = [],
     an_outside_footprints = [], an_diagnostics = [] \<rparr>"

subsection \<open>The verdict\<close>

definition outside_ratio :: "u64 \<Rightarrow> u64 \<Rightarrow> f64" where
  "outside_ratio outside observed = (if observed = 0 then Fin 0 else f64_div (f64_of_u64 outside) (f64_of_u64 observed))"

definition hot_cold_ok :: "zone_statistics \<Rightarrow> zone_statistics \<Rightarrow> bool" where
  "hot_cold_ok hot cold \<longleftrightarrow>
     f64_ge (f64_sub (zst_normalized_ratio_p50 hot) (zst_normalized_ratio_p50 cold)) (lit (1 / 10)) \<and>
     f64_gt (zst_normalized_ratio_mean hot) (f64_add (zst_normalized_ratio_mean cold) (lit (1 / 10)))"

definition warm_ok :: "zone_statistics \<Rightarrow> zone_statistics \<Rightarrow> zone_statistics \<Rightarrow> bool" where
  "warm_ok hot warm cold \<longleftrightarrow>
     f64_ge (f64_sub (zst_normalized_ratio_mean warm) (zst_normalized_ratio_mean cold)) (lit (1 / 50)) \<and>
     f64_gt (zst_normalized_ratio_mean hot) (zst_normalized_ratio_mean warm)"

definition isolated_ok :: "u64 \<Rightarrow> f64 \<Rightarrow> bool" where
  "isolated_ok covered outside \<longleftrightarrow> covered > 0 \<and> f64_le outside (Fin (1 / 2))"

definition signal_checks ::
  "nat \<times> zone_statistics \<times> zone_statistics \<times> zone_statistics \<times> u64 \<times> f64 \<Rightarrow> (bool \<times> string) list" where
  "signal_checks i = (case i of (windows, hot, warm, cold, covered, outside) \<Rightarrow>
     [(\<not> windows \<ge> 3, ''missing_aggregation_windows''),
      (\<not> (zst_region_samples hot > 0 \<and> zst_region_samples warm > 0 \<and> zst_region_samples cold > 0), ''missing_zone_overlap''),
      (\<not> isolated_ok covered outside, ''target_regions_not_isolated''),
      (\<not> hot_cold_ok hot cold, ''hot_not_distinguished_from_cold''),
      (\<not> warm_ok hot warm cold, ''warm_not_coherent'')])"

definition analysis_finish :: "nat \<Rightarrow> u64 \<Rightarrow> analysis \<Rightarrow> signal_evidence" where
  "analysis_finish windows requested a =
     (let hot = zone_finish (zs_acc (an_hot a)) windows; warm = zone_finish (zs_acc (an_warm a)) windows;
          cold = zone_finish (zs_acc (an_cold a)) windows;
          observed = damon_median_u64 (an_footprints a); covered = damon_median_u64 (an_target_footprints a);
          outside = damon_median_u64 (an_outside_footprints a);
          reasons = fired (signal_checks (windows, hot, warm, cold, covered, outside_ratio outside observed))
      in \<lparr> sig_hot = hot, sig_warm = warm, sig_cold = cold, sig_other_region_samples = an_other a,
           sig_region_sample_bytes = an_region_sample_bytes a, sig_snapshot_observed_bytes_median = observed,
           sig_requested_target_bytes = requested, sig_observed_target_bytes_per_snapshot = covered,
           sig_outside_requested_bytes = outside, sig_outside_requested_ratio = outside_ratio outside observed,
           sig_target_isolated = isolated_ok covered (outside_ratio outside observed),
           sig_window_diagnostics = an_diagnostics a,
           sig_hot_cold_margin = f64_sub (zst_normalized_ratio_p50 hot) (zst_normalized_ratio_p50 cold),
           sig_warm_cold_margin = f64_sub (zst_normalized_ratio_mean warm) (zst_normalized_ratio_mean cold),
           sig_hot_cold_distinguished = hot_cold_ok hot cold, sig_warm_coherent = warm_ok hot warm cold,
           sig_accepted = (reasons = []), sig_reasons = reasons \<rparr>)"

definition zones_bytes :: "address_range list \<Rightarrow> u64" where
  "zones_bytes zones = foldl (\<lambda>acc r. sat_add acc (sat_sub (ar_end r) (ar_start r))) 0 zones"

text \<open>The division by a zero sampling interval panics as soon as there is a window.\<close>

definition analyze_zones ::
  "trace_region list list \<Rightarrow> monitoring_attrs \<Rightarrow> address_range \<Rightarrow> address_range \<Rightarrow> address_range \<Rightarrow> signal_evidence option" where
  "analyze_zones windows attrs hot warm cold =
     map_option (\<lambda>expected. analysis_finish (length windows) (zones_bytes [hot, warm, cold])
         (foldl (analyze_window expected) (analysis_start hot warm cold) windows))
       (if windows = [] then Some 0 else expected_samples attrs)"

subsection \<open>Accounting of bytes\<close>

definition finish_checks :: "nat \<times> u64 \<times> analysis \<Rightarrow> (bool \<times> string) list" where
  "finish_checks i = (case i of (n, requested, a) \<Rightarrow>
     signal_checks (n, zone_finish (zs_acc (an_hot a)) n, zone_finish (zs_acc (an_warm a)) n, zone_finish (zs_acc (an_cold a)) n,
       damon_median_u64 (an_target_footprints a),
       outside_ratio (damon_median_u64 (an_outside_footprints a)) (damon_median_u64 (an_footprints a))))"

interpretation signal_gate: reason_gate finish_checks sig_reasons sig_accepted "\<lambda>(n, requested, a). analysis_finish n requested a"
  by unfold_locales (auto simp: finish_checks_def analysis_finish_def Let_def)

definition sat_sum :: "(trace_region \<Rightarrow> u64) \<Rightarrow> trace_region list \<Rightarrow> u64" where
  "sat_sum f w = foldl (\<lambda>acc r. sat_add acc (f r)) 0 w"

lemma analyze_region_fields [simp]:
  "an_footprint (analyze_region ex a r) = sat_add (an_footprint a) (region_size r)"
  "zs_range (an_hot (analyze_region ex a r)) = zs_range (an_hot a)"
  "zs_range (an_warm (analyze_region ex a r)) = zs_range (an_warm a)"
  "zs_range (an_cold (analyze_region ex a r)) = zs_range (an_cold a)"
  "zs_bytes (an_hot (analyze_region ex a r)) = sat_add (zs_bytes (an_hot a)) (overlap (region_range r) (zs_range (an_hot a)))"
  "zs_bytes (an_warm (analyze_region ex a r)) = sat_add (zs_bytes (an_warm a)) (overlap (region_range r) (zs_range (an_warm a)))"
  "zs_bytes (an_cold (analyze_region ex a r)) = sat_add (zs_bytes (an_cold a)) (overlap (region_range r) (zs_range (an_cold a)))"
  "an_diagnostics (analyze_region ex a r) = an_diagnostics a"
  by (simp_all add: analyze_region_def zone_region_def Let_def)

lemma analyze_regions:
  "an_footprint (foldl (analyze_region ex) a w) = foldl (\<lambda>acc r. sat_add acc (region_size r)) (an_footprint a) w"
  "zs_bytes (an_hot (foldl (analyze_region ex) a w)) =
     foldl (\<lambda>acc r. sat_add acc (overlap (region_range r) (zs_range (an_hot a)))) (zs_bytes (an_hot a)) w"
  "zs_bytes (an_warm (foldl (analyze_region ex) a w)) =
     foldl (\<lambda>acc r. sat_add acc (overlap (region_range r) (zs_range (an_warm a)))) (zs_bytes (an_warm a)) w"
  "zs_bytes (an_cold (foldl (analyze_region ex) a w)) =
     foldl (\<lambda>acc r. sat_add acc (overlap (region_range r) (zs_range (an_cold a)))) (zs_bytes (an_cold a)) w"
  "zs_range (an_hot (foldl (analyze_region ex) a w)) = zs_range (an_hot a)"
  "zs_range (an_warm (foldl (analyze_region ex) a w)) = zs_range (an_warm a)"
  "zs_range (an_cold (foldl (analyze_region ex) a w)) = zs_range (an_cold a)"
  "an_diagnostics (foldl (analyze_region ex) a w) = an_diagnostics a"
  by (induction w arbitrary: a) simp_all

text \<open>What a diagnostic records of its window.\<close>

definition diagnoses :: "address_range \<Rightarrow> address_range \<Rightarrow> address_range \<Rightarrow> trace_region list \<Rightarrow> window_zone_diagnostic \<Rightarrow> bool" where
  "diagnoses hot warm cold w d \<longleftrightarrow> wzd_observed_bytes d = sat_sum region_size w \<and>
     wzd_hot_overlap_bytes d = sat_sum (\<lambda>r. overlap (region_range r) hot) w \<and>
     wzd_warm_overlap_bytes d = sat_sum (\<lambda>r. overlap (region_range r) warm) w \<and>
     wzd_cold_overlap_bytes d = sat_sum (\<lambda>r. overlap (region_range r) cold) w \<and>
     wzd_target_overlap_bytes d = sat_add (sat_add (wzd_hot_overlap_bytes d) (wzd_warm_overlap_bytes d)) (wzd_cold_overlap_bytes d) \<and>
     wzd_outside_requested_bytes d = sat_sub (wzd_observed_bytes d) (wzd_target_overlap_bytes d) \<and>
     wzd_region_count d = length w"

lemma analyze_window_diagnostic:
  assumes "zs_range (an_hot a) = hot" and "zs_range (an_warm a) = warm" and "zs_range (an_cold a) = cold"
  shows "\<exists>d. an_diagnostics (analyze_window ex a w) = an_diagnostics a @ [d] \<and> diagnoses hot warm cold w d"
    and "zs_range (an_hot (analyze_window ex a w)) = hot" and "zs_range (an_warm (analyze_window ex a w)) = warm"
    and "zs_range (an_cold (analyze_window ex a w)) = cold"
  using assms
  by (auto simp: analyze_window_def Let_def zone_open_def zone_close_def analyze_regions diagnoses_def sat_sum_def)

lemma analyze_windows_diagnostics:
  "length (an_diagnostics (foldl (analyze_window ex) (analysis_start hot warm cold) ws)) = length ws \<and>
   (\<forall>i < length ws. diagnoses hot warm cold (ws ! i) (an_diagnostics (foldl (analyze_window ex) (analysis_start hot warm cold) ws) ! i)) \<and>
   zs_range (an_hot (foldl (analyze_window ex) (analysis_start hot warm cold) ws)) = hot \<and>
   zs_range (an_warm (foldl (analyze_window ex) (analysis_start hot warm cold) ws)) = warm \<and>
   zs_range (an_cold (foldl (analyze_window ex) (analysis_start hot warm cold) ws)) = cold"
proof (induction ws rule: rev_induct)
  case Nil
  then show ?case by (simp add: analysis_start_def zone_start_def)
next
  case (snoc w ws)
  let ?a = "foldl (analyze_window ex) (analysis_start hot warm cold) ws"
  have r: "zs_range (an_hot ?a) = hot" "zs_range (an_warm ?a) = warm" "zs_range (an_cold ?a) = cold" using snoc by auto
  note d = analyze_window_diagnostic [OF r]
  obtain d' where d': "an_diagnostics (analyze_window ex ?a w) = an_diagnostics ?a @ [d']" "diagnoses hot warm cold w d'"
    using d(1) by blast
  show ?case using snoc d(2-4) [of ex w] d' by (auto simp: nth_append less_Suc_eq)
qed

lemma region_parts:
  assumes "overlap hot warm = 0" and "overlap hot cold = 0" and "overlap warm cold = 0"
  shows "unat (overlap (region_range r) hot) + unat (overlap (region_range r) warm) + unat (overlap (region_range r) cold)
    \<le> unat (region_size r)"
proof -
  let ?R = "addresses (region_range r)" and ?H = "addresses hot" and ?W = "addresses warm" and ?C = "addresses cold"
  have d: "(?R \<inter> ?H) \<inter> (?R \<inter> ?W) = {}" "((?R \<inter> ?H) \<union> (?R \<inter> ?W)) \<inter> (?R \<inter> ?C) = {}"
    using assms by (auto simp: overlap_zero_iff)
  have "card ((?R \<inter> ?H) \<union> (?R \<inter> ?W) \<union> (?R \<inter> ?C)) = card (?R \<inter> ?H) + card (?R \<inter> ?W) + card (?R \<inter> ?C)"
    using d by (simp add: card_Un_disjoint)
  moreover have "card ((?R \<inter> ?H) \<union> (?R \<inter> ?W) \<union> (?R \<inter> ?C)) \<le> card ?R" by (intro card_mono) auto
  moreover have "card ?R = unat (region_size r)" by (simp add: card_addresses region_range_def region_size_def unat_sat_sub)
  ultimately show ?thesis by (simp add: overlap_card)
qed

lemma sat_sum_exact:
  "sum_list (map (\<lambda>r. unat (f r)) w) < 2 ^ 64 \<Longrightarrow> unat (sat_sum f w) = sum_list (map (\<lambda>r. unat (f r)) w)"
  using foldl_sat_add_exact [of 0 f w] by (simp add: sat_sum_def)

lemma diagnoses_exact:
  assumes "diagnoses hot warm cold w d" and "overlap hot warm = 0" and "overlap hot cold = 0" and "overlap warm cold = 0"
    and "sum_list (map (\<lambda>r. unat (region_size r)) w) < 2 ^ 64"
  shows "unat (wzd_observed_bytes d) = sum_list (map (\<lambda>r. unat (region_size r)) w) \<and>
    unat (wzd_target_overlap_bytes d) = sum_list (map (\<lambda>r. unat (overlap (region_range r) hot) +
      unat (overlap (region_range r) warm) + unat (overlap (region_range r) cold)) w) \<and>
    unat (wzd_target_overlap_bytes d) + unat (wzd_outside_requested_bytes d) = unat (wzd_observed_bytes d)"
proof -
  let ?s = "\<lambda>z. sum_list (map (\<lambda>r. unat (overlap (region_range r) z)) w)"
  have total: "sum_list (map (\<lambda>r. unat (overlap (region_range r) hot) + unat (overlap (region_range r) warm) +
      unat (overlap (region_range r) cold)) w) = ?s hot + ?s warm + ?s cold" by (simp add: sum_list_addf)
  have le: "?s hot + ?s warm + ?s cold \<le> sum_list (map (\<lambda>r. unat (region_size r)) w)"
    unfolding total [symmetric] by (intro sum_list_mono region_parts [OF assms(2-4)])
  have z: "unat (sat_sum (\<lambda>r. overlap (region_range r) z) w) = ?s z" if "?s z < 2 ^ 64" for z by (rule sat_sum_exact [OF that])
  have "unat (wzd_target_overlap_bytes d) = ?s hot + ?s warm + ?s cold"
    using assms(1,5) le z [of hot] z [of warm] z [of cold] by (simp add: diagnoses_def unat_sat_add)
  moreover have "unat (wzd_observed_bytes d) = sum_list (map (\<lambda>r. unat (region_size r)) w)"
    using assms(1) sat_sum_exact [OF assms(5)] by (simp add: diagnoses_def)
  moreover have "unat (wzd_outside_requested_bytes d) = unat (wzd_observed_bytes d) - unat (wzd_target_overlap_bytes d)"
    using assms(1) by (simp add: diagnoses_def unat_sat_sub)
  ultimately show ?thesis using le total by simp
qed

text \<open>Bytes are accounted exactly: for pairwise disjoint zones, and as long as the regions of a window
  together have fewer than 2^64 bytes, the diagnostic of the window reports the exact sum of
  the region sizes, the exact number of their bytes inside the zones with no byte counted
  twice, and these and the bytes outside add up to the bytes observed.\<close>

theorem window_bytes_exact:
  assumes "analyze_zones windows attrs hot warm cold = Some e" and "i < length windows"
    and "overlap hot warm = 0" and "overlap hot cold = 0" and "overlap warm cold = 0"
    and "sum_list (map (\<lambda>r. unat (region_size r)) (windows ! i)) < 2 ^ 64"
  shows "\<exists>d. sig_window_diagnostics e ! i = d \<and> length (sig_window_diagnostics e) = length windows \<and>
    unat (wzd_observed_bytes d) = sum_list (map (\<lambda>r. unat (region_size r)) (windows ! i)) \<and>
    unat (wzd_target_overlap_bytes d) = sum_list (map (\<lambda>r. card (addresses (region_range r) \<inter>
      (addresses hot \<union> addresses warm \<union> addresses cold))) (windows ! i)) \<and>
    unat (wzd_target_overlap_bytes d) + unat (wzd_outside_requested_bytes d) = unat (wzd_observed_bytes d)"
proof -
  have disj: "addresses hot \<inter> addresses warm = {}" "addresses hot \<inter> addresses cold = {}" "addresses warm \<inter> addresses cold = {}"
    using assms(3-5) by (simp_all add: overlap_zero_iff)
  have parts: "unat (overlap r hot) + unat (overlap r warm) + unat (overlap r cold) =
      card (addresses r \<inter> (addresses hot \<union> addresses warm \<union> addresses cold))" for r
  proof -
    have "addresses r \<inter> (addresses hot \<union> addresses warm \<union> addresses cold) =
        ((addresses r \<inter> addresses hot) \<union> (addresses r \<inter> addresses warm)) \<union> (addresses r \<inter> addresses cold)" by blast
    moreover have "((addresses r \<inter> addresses hot) \<union> (addresses r \<inter> addresses warm)) \<inter> (addresses r \<inter> addresses cold) = {}"
      "(addresses r \<inter> addresses hot) \<inter> (addresses r \<inter> addresses warm) = {}" using disj by auto
    ultimately show ?thesis by (simp add: overlap_card card_Un_disjoint)
  qed
  obtain ex where e: "e = analysis_finish (length windows) (zones_bytes [hot, warm, cold])
      (foldl (analyze_window ex) (analysis_start hot warm cold) windows)"
    using assms(1) by (auto simp: analyze_zones_def split: if_splits)
  note all = analyze_windows_diagnostics [of ex hot warm cold windows]
  have len: "length (sig_window_diagnostics e) = length windows"
    and "diagnoses hot warm cold (windows ! i) (sig_window_diagnostics e ! i)"
    using all assms(2) by (simp_all add: e analysis_finish_def Let_def)
  from diagnoses_exact [OF this(2) assms(3-6)] show ?thesis using len by (simp add: parts)
qed

definition example_attrs :: monitoring_attrs where
  "example_attrs = \<lparr> ma_operation = ''vaddr'', ma_sample_us = 1000, ma_aggr_us = 10000, ma_update_us = 100000,
     ma_min_regions = 3, ma_max_regions = 10, ma_addr_unit = None \<rparr>"

theorem window_bytes_exact_witness:
  "\<exists>e. analyze_zones [[example_trace]] example_attrs (example_range 5000) (example_range 6000) (example_range 9000) = Some e \<and>
    unat (wzd_observed_bytes (sig_window_diagnostics e ! 0)) = 4096 \<and>
    unat (wzd_target_overlap_bytes (sig_window_diagnostics e ! 0)) + unat (wzd_outside_requested_bytes (sig_window_diagnostics e ! 0)) =
      unat (wzd_observed_bytes (sig_window_diagnostics e ! 0))"
proof -
  obtain e where e: "analyze_zones [[example_trace]] example_attrs (example_range 5000) (example_range 6000) (example_range 9000) = Some e"
    by (simp add: analyze_zones_def expected_samples_def example_attrs_def)
  have o: "overlap (example_range 5000) (example_range 6000) = 0" "overlap (example_range 5000) (example_range 9000) = 0"
    "overlap (example_range 6000) (example_range 9000) = 0"
    by (simp_all add: overlap_def example_range_def sat_sub_def)
  have s: "sum_list (map (\<lambda>r. unat (region_size r)) ([[example_trace]] ! 0)) = 4096"
    by (simp add: region_size_def example_trace_def unat_sat_sub)
  have "0 < length [[example_trace]]" by simp
  from window_bytes_exact [OF e this o] s e show ?thesis by auto
qed

end
