(* ===== verification/Ksm_Control.thy ===== *)
theory Ksm_Control
  imports Ksm
begin

text \<open>
  Properties of the KSM component: the order of the validation protocol, ownership-checked
  recovery of the scanner against any backend that keeps the scanner contract, eligibility, and
  the exclusion of owned processes from the inspection.
\<close>

subsection \<open>Eligibility\<close>

interpretation ksm_gate: reason_gate ksm_eligibility_checks kd_reasons "\<lambda>d. kd_disposition d = KsmEligible"
  "\<lambda>(i, bounds). ksm_evaluate_eligibility i bounds"
  by unfold_locales (auto simp: ksm_evaluate_eligibility_def Let_def)

text \<open>Merging is opt-in: an eligible process is fresh and of known profile, in the same security domain,
  already mergeable or cooperating, neither foreground, gaming, critical nor protected, nobody
  else uses KSM, and the system is neither under critical pressure nor recovering from it;
  measured profit is positive and measured costs are within the bounds of the profile.\<close>

theorem ksm_eligible_iff:
  "kd_disposition (ksm_evaluate_eligibility i bounds) = KsmEligible \<longleftrightarrow>
    ki_profile i \<noteq> KUnknown \<and> ki_identity i \<noteq> None \<and> ki_identity_fresh i \<and> \<not> ki_foreground i \<and> \<not> ki_gaming i \<and>
    \<not> ki_critical i \<and> \<not> ki_protected i \<and> ki_same_security_domain i \<and> (ki_already_mergeable i \<or> ki_owned_cooperative i) \<and>
    \<not> ki_external_ksm_activity i \<and> kp_minimum_stable_observations bounds \<le> ki_stable_observations i \<and>
    kp_minimum_mergeable_bytes bounds \<le> ki_mergeable_bytes i \<and> ki_pressure i \<in> {Normal, Watch, Pressure} \<and>
    \<not> ki_cooldown_active i \<and> (case ki_profit_bytes i of None \<Rightarrow> True | Some p \<Rightarrow> 0 < p) \<and>
    (case ki_cow_events_per_second i of None \<Rightarrow> True | Some r \<Rightarrow> r \<le> kp_maximum_cow_events_per_second bounds) \<and>
    (case ki_cpu_percent i of None \<Rightarrow> True | Some c \<Rightarrow> \<not> f64_gt c (kp_maximum_scanner_cpu_percent bounds))"
proof -
  have p: "ki_pressure i \<notin> {Critical, Emergency, Stabilizing} \<longleftrightarrow> ki_pressure i \<in> {Normal, Watch, Pressure}"
    by (cases "ki_pressure i") auto
  have o: "\<not> is_some_and P v \<longleftrightarrow> (case v of None \<Rightarrow> True | Some x \<Rightarrow> \<not> P x)" for P :: "'a \<Rightarrow> bool" and v
    by (cases v) auto
  have "kd_disposition (ksm_evaluate_eligibility i bounds) = KsmEligible \<longleftrightarrow>
      (\<forall>(b, r) \<in> set (ksm_eligibility_checks (i, bounds)). \<not> b)"
    using ksm_gate.allowed_iff_no_check [of "(i, bounds)"] by simp
  also have "\<dots> \<longleftrightarrow> ki_profile i \<noteq> KUnknown \<and> ki_identity i \<noteq> None \<and> (ki_identity i \<noteq> None \<longrightarrow> ki_identity_fresh i) \<and>
      \<not> ki_foreground i \<and> \<not> ki_gaming i \<and> \<not> (ki_critical i \<or> ki_protected i) \<and> ki_same_security_domain i \<and>
      (ki_already_mergeable i \<or> ki_owned_cooperative i) \<and> \<not> ki_external_ksm_activity i \<and>
      \<not> ki_stable_observations i < kp_minimum_stable_observations bounds \<and>
      \<not> ki_mergeable_bytes i < kp_minimum_mergeable_bytes bounds \<and> ki_pressure i \<notin> {Critical, Emergency, Stabilizing} \<and>
      \<not> ki_cooldown_active i \<and> \<not> is_some_and (\<lambda>profit. profit \<le> 0) (ki_profit_bytes i) \<and>
      \<not> is_some_and (\<lambda>r. r > kp_maximum_cow_events_per_second bounds) (ki_cow_events_per_second i) \<and>
      \<not> is_some_and (\<lambda>cpu. f64_gt cpu (kp_maximum_scanner_cpu_percent bounds)) (ki_cpu_percent i)"
    unfolding ksm_eligibility_checks_def by (cases "ki_identity i") simp_all
  finally show ?thesis unfolding p o not_less not_le by blast
qed

subsection \<open>The validation protocol\<close>

inductive protocol_step :: "validation_protocol \<Rightarrow> validation_protocol \<Rightarrow> bool" where
  audit: "record_audit d p t v = (r, v') \<Longrightarrow> protocol_step v v'"
| opt_in: "opt_in_duplicate v = (r, v') \<Longrightarrow> protocol_step v v'"
| start: "scanner_started v = (r, v') \<Longrightarrow> protocol_step v v'"
| stop: "scanner_stopped v = (r, v') \<Longrightarrow> protocol_step v v'"
| unmerge: "protocol_unmerged v = (r, v') \<Longrightarrow> protocol_step v v'"

inductive protocol_run :: "validation_protocol_state list \<Rightarrow> validation_protocol \<Rightarrow> bool" where
  begin_run: "protocol_run [ReadyUnmergeable] validation_protocol_default"
| same: "protocol_run hist v \<Longrightarrow> protocol_step v v' \<Longrightarrow> vp_state v' = vp_state v \<Longrightarrow> protocol_run hist v'"
| advance: "protocol_run hist v \<Longrightarrow> protocol_step v v' \<Longrightarrow> vp_state v' \<noteq> vp_state v \<Longrightarrow> protocol_run (hist @ [vp_state v']) v'"

definition protocol_order :: "validation_protocol_state list" where
  "protocol_order = [ReadyUnmergeable, Audited, DuplicateMergeable, ScannerRunning, ScannerStopped, Unmerged]"

definition audited :: "validation_protocol \<Rightarrow> bool" where
  "audited v \<longleftrightarrow> (\<exists>d p t. vp_decision_id v = Some d \<and> d \<noteq> [] \<and> vp_plan_id v = Some p \<and> p \<noteq> [] \<and>
     vp_transaction_id v = Some t \<and> t \<noteq> [])"

lemmas protocol_defs = record_audit_def opt_in_duplicate_def scanner_started_def scanner_stopped_def protocol_unmerged_def

lemma protocol_step_cases:
  assumes "protocol_step v v'"
  shows "v' = v \<or> (\<exists>i. Suc i < length protocol_order \<and> vp_state v = protocol_order ! i \<and>
    vp_state v' = protocol_order ! Suc i \<and> (audited v' \<or> i > 0 \<and> (audited v \<longrightarrow> audited v')))"
  using assms
proof cases
  case audit
  then show ?thesis by (auto simp: protocol_defs protocol_order_def audited_def split: if_splits intro!: exI [of _ 0])
next
  case opt_in
  then show ?thesis by (auto simp: protocol_defs protocol_order_def audited_def split: if_splits intro!: exI [of _ 1])
next
  case start
  then show ?thesis by (auto simp: protocol_defs protocol_order_def audited_def split: if_splits intro!: exI [of _ 2])
next
  case stop
  then show ?thesis by (auto simp: protocol_defs protocol_order_def audited_def split: if_splits intro!: exI [of _ 3])
next
  case unmerge
  then show ?thesis by (auto simp: protocol_defs protocol_order_def audited_def split: if_splits intro!: exI [of _ 4])
qed

lemma protocol_order_distinct: "i < length protocol_order \<Longrightarrow> j < length protocol_order \<Longrightarrow>
    protocol_order ! i = protocol_order ! j \<longleftrightarrow> i = j"
  by (intro nth_eq_iff_index_eq) (auto simp: protocol_order_def)

text \<open>C23. The scanner runs only after an audit: whatever operations are called in whatever order, the states
  a validation goes through are an initial piece of the fixed sequence ready, audited,
  mergeable, scanning, stopped, unmerged, and in every state after the first the decision, the
  plan and the transaction are on record.\<close>

theorem ksm_protocol_ordered:
  assumes "protocol_run hist v"
  shows "hist \<noteq> [] \<and> hist = take (length hist) protocol_order \<and> last hist = vp_state v \<and>
    (vp_state v \<noteq> ReadyUnmergeable \<longrightarrow> audited v)"
  using assms
proof induction
  case begin_run
  then show ?case by (simp add: protocol_order_def validation_protocol_default_def)
next
  case (same hist v v')
  from protocol_step_cases [OF same.hyps(2)] same.hyps(3) have "v' = v"
    using protocol_order_distinct by (metis Suc_lessD n_not_Suc_n)
  with same.IH show ?case by simp
next
  case (advance hist v v')
  then obtain i where i: "Suc i < length protocol_order" "vp_state v = protocol_order ! i"
      "vp_state v' = protocol_order ! Suc i" "audited v' \<or> i > 0 \<and> (audited v \<longrightarrow> audited v')"
    using protocol_step_cases [OF advance.hyps(2)] by auto
  let ?n = "length hist"
  have n: "0 < ?n" "?n \<le> length protocol_order" using advance.IH by (metis length_greater_0_conv, metis length_take min.cobounded1)
  have "last hist = protocol_order ! (?n - 1)"
    using advance.IH n by (metis last_conv_nth nth_take length_greater_0_conv diff_less zero_less_one)
  then have "i = ?n - 1" using advance.IH i n protocol_order_distinct [of i "?n - 1"] by simp
  then have si: "Suc i = ?n" using n by simp
  have h: "take (length (hist @ [vp_state v'])) protocol_order = hist @ [vp_state v']"
    using advance.IH i(1,3) si by (metis take_Suc_conv_app_nth length_append_singleton)
  have "audited v'"
  proof (cases "i > 0")
    case True
    then have "vp_state v \<noteq> ReadyUnmergeable"
      using i protocol_order_distinct [of i 0] by (auto simp: protocol_order_def)
    with advance.IH i(4) show ?thesis by blast
  next
    case False
    with i(4) show ?thesis by simp
  qed
  then show ?case unfolding h by simp
qed

subsection \<open>Recovery of the scanner\<close>

text \<open>The states a backend goes through under any sequence of writes and recoveries.\<close>

inductive scan_reachable :: "'b ksm_backend \<Rightarrow> 'b \<Rightarrow> 'b \<Rightarrow> bool" for B :: "'b ksm_backend" where
  unchanged: "scan_reachable B b b"
| set_run_value: "scan_reachable B b b' \<Longrightarrow> write_run_value B v b' = (r, b'') \<Longrightarrow> scan_reachable B b b''"
| set_scanner_values: "scan_reachable B b b' \<Longrightarrow> kb_set_scanner B p s b' = (r, b'') \<Longrightarrow> scan_reachable B b b''"
| recovered: "scan_reachable B b b' \<Longrightarrow> ksm_recover_owned B (b', t) = (r, (b'', t'')) \<Longrightarrow> scan_reachable B b b''"

text \<open>The contract of a scanner backend over the settings \<open>cur\<close> it controls: a write of \<open>run\<close> or of the
  scanner settings takes effect or changes nothing, never sets \<open>run\<close> to 2, and a successful
  restore sets the three settings of the snapshot. Nothing else changes.\<close>

locale scanner_backend =
  fixes B :: "'b ksm_backend"
    and cur :: "'b \<Rightarrow> ksm_snapshot"
  assumes set_run: "kb_set_run B v b = (r, b') \<Longrightarrow> cur b' = cur b \<or> v \<noteq> 2 \<and> cur b' = (cur b)\<lparr> ks_run := v \<rparr>"
    and set_scanner: "kb_set_scanner B p s b = (r, b') \<Longrightarrow>
      cur b' = cur b \<or> cur b' = (cur b)\<lparr> ks_pages_to_scan := p, ks_sleep_millisecs := s \<rparr>"
    and restore_Ok: "kb_restore B snap b = (Ok u, b') \<Longrightarrow> ks_run snap \<noteq> 2 \<and> cur b' = (cur b)\<lparr> ks_run := ks_run snap,
      ks_pages_to_scan := ks_pages_to_scan snap, ks_sleep_millisecs := ks_sleep_millisecs snap \<rparr>"
    and restore_Err: "kb_restore B snap b = (Err e, b') \<Longrightarrow>
      ks_preserve_only (cur b') = ks_preserve_only (cur b) \<and> ks_run (cur b') \<in> {ks_run (cur b), 0}"
begin

lemma recover_cases:
  assumes "ksm_recover_owned B (b, t) = (r, (b', t'))"
  shows "(b' = b \<and> t' = t \<and> r \<noteq> Ok True) \<or>
    (\<exists>u. kb_restore B (kt_baseline t) b = (Ok u, b') \<and> r = Ok True \<and> t' = t\<lparr> kt_scanner_started := False, kt_recovered := True \<rparr> \<and>
       kt_ownership t = NemorOwnedValidation \<and> starts_with (kt_transaction_id t) ''nemor-validation-'' \<and> \<not> kt_recovered t) \<or>
    (\<exists>e. kb_restore B (kt_baseline t) b = (Err e, b') \<and> r = Err e \<and> t' = t)"
  using assms
  by (auto simp: ksm_recover_owned_def bindA_def s_get_def b_op_def s_modify_def ret_def throw_def
      split: if_splits prod.splits sum.splits)

lemma reachable_keeps:
  assumes "scan_reachable B b b'" and "ks_run (cur b) \<noteq> 2"
  shows "ks_preserve_only (cur b') = ks_preserve_only (cur b) \<and> ks_run (cur b') \<noteq> 2"
  using assms
proof (induction rule: scan_reachable.induct)
  case (set_run_value b b' v r b'')
  have "cur b'' = cur b' \<or> v \<noteq> 2 \<and> cur b'' = (cur b')\<lparr> ks_run := v \<rparr>"
    using set_run_value.hyps(2) set_run [of v b' r b''] by (auto simp: write_run_value_def throw_def split: if_splits)
  with set_run_value show ?case by auto
next
  case (set_scanner_values b b' p s r b'')
  with set_scanner [of p s b' r b''] show ?case by auto
next
  case (recovered b b' t r b'' t'')
  from recover_cases [OF recovered.hyps(2)] recovered.IH [OF recovered.prems] restore_Ok restore_Err show ?case by fastforce
qed simp

lemma recovery_restores:
  assumes "scan_reachable B b b'" and "ks_run (cur b) \<noteq> 2" and "kt_baseline t = cur b"
    and "ksm_recover_owned B (b', t) = (Ok True, (b'', t''))"
  shows "cur b'' = cur b \<and> kt_recovered t'' \<and> ksm_recover_owned B (b'', t'') = (Ok False, (b'', t''))"
proof -
  from recover_cases [OF assms(4)] obtain u where u: "kb_restore B (kt_baseline t) b' = (Ok u, b'')"
    and t: "t'' = t\<lparr> kt_scanner_started := False, kt_recovered := True \<rparr>" by auto
  have "cur b'' = cur b" using restore_Ok [OF u] reachable_keeps [OF assms(1,2)] assms(3) by simp
  moreover have "ksm_recover_owned B (b'', t'') = (Ok False, (b'', t''))"
    by (simp add: ksm_recover_owned_def bindA_def s_get_def ret_def t)
  ultimately show ?thesis by (simp add: t)
qed

end

lemmas sb_defs = sb_mutate_def sb_set_run_def sb_set_scanner_def sb_restore_def bindA_def throw_def

interpretation simulated: scanner_backend simulated_ksm_backend sb_current
  by unfold_locales
    (auto simp: simulated_ksm_backend_def sb_defs split: if_splits prod.splits sum.splits)

text \<open>C24. Recovery gives the scanner back as it was found: after any sequence of writes and recoveries on a
  backend that keeps the scanner contract, a recovery that reports a change leaves exactly the
  settings of the baseline, and a second one changes nothing; \<open>run\<close> is never 2 on the way; and a
  transaction that is not an owned validation is refused without touching anything.\<close>

theorem ksm_recovery_restores:
  assumes "scanner_backend B cur" and "scan_reachable B b b'" and "ks_run (cur b) \<noteq> 2"
    and "kt_baseline t = cur b" and "ksm_recover_owned B (b', t) = (r, (b'', t''))"
  shows "ks_run (cur b') \<noteq> 2 \<and>
    (r = Ok True \<longrightarrow> cur b'' = cur b \<and> ksm_recover_owned B (b'', t'') = (Ok False, (b'', t''))) \<and>
    (kt_ownership t \<noteq> NemorOwnedValidation \<and> \<not> kt_recovered t \<longrightarrow> b'' = b' \<and> t'' = t \<and> (\<exists>e. r = Err e))"
proof -
  have "kt_ownership t \<noteq> NemorOwnedValidation \<and> \<not> kt_recovered t \<longrightarrow> b'' = b' \<and> t'' = t \<and> (\<exists>e. r = Err e)"
    using assms(5) by (auto simp: ksm_recover_owned_def bindA_def s_get_def throw_def)
  then show ?thesis
    using scanner_backend.recovery_restores [OF assms(1-4)] scanner_backend.reachable_keeps [OF assms(1-3)] assms(5) by blast
qed

definition example_scanner :: simulated_backend where
  "example_scanner = \<lparr> sb_current = \<lparr> ks_run = 0, ks_pages_to_scan = 100, ks_sleep_millisecs = 20, ks_preserve_only = [] \<rparr>,
     sb_mutation_count = 0, sb_fail_after = None \<rparr>"

definition example_transaction :: ksm_transaction where
  "example_transaction = \<lparr> kt_transaction_id = ''nemor-validation-1'', kt_decision_id = ''d'', kt_plan_id = ''p'',
     kt_ownership = NemorOwnedValidation, kt_baseline = sb_current example_scanner, kt_child_identities = [],
     kt_scanner_started = True, kt_recovered = False \<rparr>"

theorem ksm_recovery_restores_witness:
  "\<exists>b' b'' t''. write_run_value simulated_ksm_backend 1 example_scanner = (Ok (), b') \<and> ks_run (sb_current b') = 1 \<and>
    ksm_recover_owned simulated_ksm_backend (b', example_transaction) = (Ok True, (b'', t'')) \<and>
    sb_current b'' = sb_current example_scanner"
proof -
  obtain b' where b': "write_run_value simulated_ksm_backend 1 example_scanner = (Ok (), b')" "ks_run (sb_current b') = 1"
    by (simp add: write_run_value_def simulated_ksm_backend_def sb_defs example_scanner_def)
  have r: "scan_reachable simulated_ksm_backend example_scanner b'"
    by (rule set_run_value [OF unchanged b'(1)])
  have "sb_fail_after b' = None"
    using b'(1) by (auto simp: write_run_value_def simulated_ksm_backend_def sb_defs example_scanner_def)
  then obtain b'' t'' where rec: "ksm_recover_owned simulated_ksm_backend (b', example_transaction) = (Ok True, (b'', t''))"
    by (simp add: ksm_recover_owned_def example_transaction_def bindA_def s_get_def starts_with_def b_op_def s_modify_def ret_def
        simulated_ksm_backend_def sb_restore_def sb_set_run_def sb_set_scanner_def sb_mutate_def example_scanner_def)
  have n: "ks_run (sb_current example_scanner) \<noteq> 2" by (simp add: example_scanner_def)
  have base: "kt_baseline example_transaction = sb_current example_scanner" by (simp add: example_transaction_def)
  from ksm_recovery_restores [OF simulated.scanner_backend_axioms r n base rec] b' rec show ?thesis by blast
qed

theorem ksm_protocol_ordered_witness:
  "\<exists>v. protocol_run [ReadyUnmergeable, Audited] v \<and> audited v"
proof -
  obtain v where v: "record_audit ''d'' ''p'' ''t'' validation_protocol_default = (Ok (), v)" "vp_state v = Audited"
    by (simp add: record_audit_def validation_protocol_default_def)
  have "protocol_run ([ReadyUnmergeable] @ [vp_state v]) v"
    by (rule advance [OF begin_run audit [OF v(1)]]) (simp add: v validation_protocol_default_def)
  then have r: "protocol_run [ReadyUnmergeable, Audited] v" by (simp add: v)
  from ksm_protocol_ordered [OF r] r v(2) show ?thesis by auto
qed

subsection \<open>Exclusion of owned processes\<close>

text \<open>The exclusion set has no effect: \<open>external_mergeable_processes\<close> turns the process ids to exclude into
  entries without a start time, which never match a process, so an owned process that uses KSM
  is reported as an external one.\<close>

theorem ksm_exclusion_ineffective:
  "external_mergeable_processes H proc_root excluded = external_mergeable_processes H proc_root {}"
proof -
  define f g :: "u32 \<rightharpoonup> u64 option" where
    "f = (\<lambda>pid. if pid \<in> excluded then Some None else None)" and "g = (\<lambda>pid. if pid \<in> {} then Some None else None)"
  have "exact_owned_tuple f pid start = False" "exact_owned_tuple g pid start = False" for pid start
    by (simp_all add: exact_owned_tuple_def f_def g_def)
  then have step: "inspect_process H proc_root f ins n = inspect_process H proc_root g ins n" for ins n
    unfolding inspect_process_def by (simp only: Let_def)
  have all: "inspect_processes H proc_root f ins ns = inspect_processes H proc_root g ins ns" for ins ns
    by (induction ns arbitrary: ins) (simp_all only: inspect_processes.simps step)
  show ?thesis
    unfolding external_mergeable_processes_def external_mergeable_processes_owned_def inspect_external_ksm_processes_owned_def
      f_def [symmetric] g_def [symmetric] by (simp only: all)
qed

end
