(* ===== verification/Ksm_Scope.thy ===== *)
theory Ksm_Scope
  imports Ksm
begin

text \<open>
  Verification of the memory a KSM validation may merge (\<open>ksm/src/lib.rs\<close>): the areas listed in
  \<open>smaps\<close>, the coverage of a requested range by areas with given flags, and the three verdicts
  built on it. Address ranges are those of the DAMON component, whose record has the same fields.
\<close>

definition range_len :: "address_range \<Rightarrow> u64" where
  "range_len r = sat_sub (ar_end r) (ar_start r)"

definition range_valid :: "address_range \<Rightarrow> bool" where
  "range_valid r \<longleftrightarrow> ar_start r < ar_end r"

record smaps_area =
  sa_range :: address_range
  sa_mergeable :: bool
  sa_no_hugepage :: bool
  sa_kernel_page_size_bytes :: "u64 option"
  sa_mmu_page_size_bytes :: "u64 option"
  sa_anon_huge_pages_bytes :: "u64 option"
  sa_thp_eligible :: "bool option"
  sa_vm_flags :: "string list"

definition parse_hex_range :: "string \<Rightarrow> address_range option" where
  "parse_hex_range line =
     Option.bind (first_word line) (\<lambda>token.
     Option.bind (split_once CHR ''-'' token) (\<lambda>(start, stop).
     Option.bind (parse_hex start) (\<lambda>s.
     Option.bind (parse_hex stop) (\<lambda>e. Some \<lparr> ar_start = s, ar_end = e \<rparr>))))"

definition parse_smaps_kib :: "string \<Rightarrow> u64 option" where
  "parse_smaps_kib v = (let parts = split_whitespace v in
     Option.bind (token_after parts 0) (\<lambda>a. Option.bind (parse_u64 a) (\<lambda>amount.
     Option.bind (token_after parts 1) (\<lambda>u. if u = ''kB'' then Some (sat_mul amount 1024) else None))))"

definition area_line :: "smaps_area \<Rightarrow> string \<Rightarrow> smaps_area" where
  "area_line a line =
     (case strip_prefix ''KernelPageSize:'' line of Some v \<Rightarrow> a\<lparr> sa_kernel_page_size_bytes := parse_smaps_kib v \<rparr>
      | None \<Rightarrow>
     (case strip_prefix ''MMUPageSize:'' line of Some v \<Rightarrow> a\<lparr> sa_mmu_page_size_bytes := parse_smaps_kib v \<rparr>
      | None \<Rightarrow>
     (case strip_prefix ''AnonHugePages:'' line of Some v \<Rightarrow> a\<lparr> sa_anon_huge_pages_bytes := parse_smaps_kib v \<rparr>
      | None \<Rightarrow>
     (case strip_prefix ''THPeligible:'' line of
        Some v \<Rightarrow> a\<lparr> sa_thp_eligible := map_option (\<lambda>n. n \<noteq> 0) (Option.bind (first_word v) parse_u8) \<rparr>
      | None \<Rightarrow>
     (case strip_prefix ''VmFlags:'' line of
        Some v \<Rightarrow> (let fl = split_whitespace v in
          a\<lparr> sa_vm_flags := fl, sa_mergeable := (''mg'' \<in> set fl), sa_no_hugepage := (''nh'' \<in> set fl) \<rparr>)
      | None \<Rightarrow> a)))))"

definition new_area :: "address_range \<Rightarrow> smaps_area" where
  "new_area r = \<lparr> sa_range = r, sa_mergeable = False, sa_no_hugepage = False, sa_kernel_page_size_bytes = None,
     sa_mmu_page_size_bytes = None, sa_anon_huge_pages_bytes = None, sa_thp_eligible = None, sa_vm_flags = [] \<rparr>"

definition push_area :: "smaps_area list \<times> smaps_area option \<Rightarrow> smaps_area list" where
  "push_area st = (case st of (areas, None) \<Rightarrow> areas | (areas, Some a) \<Rightarrow> areas @ [a])"

definition smaps_areas_step :: "smaps_area list \<times> smaps_area option \<Rightarrow> string \<Rightarrow> smaps_area list \<times> smaps_area option" where
  "smaps_areas_step st line = (case parse_hex_range line of
      Some r \<Rightarrow> (push_area st, Some (new_area r))
    | None \<Rightarrow> (fst st, map_option (\<lambda>a. area_line a line) (snd st)))"

definition parse_smaps_areas :: "string \<Rightarrow> smaps_area list" where
  "parse_smaps_areas text = push_area (foldl smaps_areas_step ([], None) (lines text))"

subsection \<open>Coverage\<close>

fun cover_loop :: "address_range \<Rightarrow> (smaps_area \<Rightarrow> bool) \<Rightarrow> u64 \<Rightarrow> smaps_area list \<Rightarrow> bool" where
  "cover_loop requested P cursor [] = False"
| "cover_loop requested P cursor (a # as) =
     (if ar_start (sa_range a) > cursor \<or> \<not> P a then False
      else (let cursor' = max cursor (min (ar_end (sa_range a)) (ar_end requested)) in
        if cursor' = ar_end requested then True else cover_loop requested P cursor' as))"

definition fully_covered_with :: "address_range \<Rightarrow> smaps_area list \<Rightarrow> (smaps_area \<Rightarrow> bool) \<Rightarrow> bool" where
  "fully_covered_with requested areas P =
     (range_valid requested \<and>
      cover_loop requested P (ar_start requested) (sort_key (\<lambda>a. ar_start (sa_range a))
        (filter (\<lambda>a. ar_end (sa_range a) > ar_start requested \<and> ar_start (sa_range a) < ar_end requested) areas)))"

record mergeable_scope_evidence =
  mse_duplicate_fully_mergeable :: bool
  mse_duplicate_fully_nohugepage :: bool
  mse_control_fully_non_mergeable :: bool
  mse_control_fully_nohugepage :: bool
  mse_unexpected_mergeable_bytes :: u64
  mse_passed :: bool

definition unexpected_bytes :: "address_range \<Rightarrow> smaps_area \<Rightarrow> u64" where
  "unexpected_bytes duplicate a = sat_sub (range_len (sa_range a))
     (sat_sub (min (ar_end (sa_range a)) (ar_end duplicate)) (max (ar_start (sa_range a)) (ar_start duplicate)))"

text \<open>\<open>sum()\<close> wraps around in a release build.\<close>

definition verify_exact_mergeable_scope :: "string \<Rightarrow> address_range \<Rightarrow> address_range \<Rightarrow> mergeable_scope_evidence" where
  "verify_exact_mergeable_scope smaps duplicate control =
     (let areas = parse_smaps_areas smaps;
          dm = fully_covered_with duplicate areas sa_mergeable;
          dn = fully_covered_with duplicate areas sa_no_hugepage;
          cm = fully_covered_with control areas (\<lambda>a. \<not> sa_mergeable a);
          cn = fully_covered_with control areas sa_no_hugepage;
          unexpected = sum_list (map (unexpected_bytes duplicate) (filter sa_mergeable areas))
      in \<lparr> mse_duplicate_fully_mergeable = dm, mse_duplicate_fully_nohugepage = dn, mse_control_fully_non_mergeable = cm,
           mse_control_fully_nohugepage = cn, mse_unexpected_mergeable_bytes = unexpected,
           mse_passed = (dm \<and> dn \<and> cm \<and> cn \<and> unexpected = 0) \<rparr>)"

definition verify_exact_unmergeable_scope :: "string \<Rightarrow> address_range \<Rightarrow> address_range \<Rightarrow> bool" where
  "verify_exact_unmergeable_scope smaps duplicate control =
     (let areas = parse_smaps_areas smaps; P = (\<lambda>a. \<not> sa_mergeable a \<and> sa_no_hugepage a)
      in fully_covered_with duplicate areas P \<and> fully_covered_with control areas P)"

subsection \<open>Base pages\<close>

record smaps_range_overlap =
  sro_vma_start :: u64
  sro_vma_end :: u64
  sro_overlap_start :: u64
  sro_overlap_end :: u64
  sro_overlap_bytes :: u64
  sro_kernel_page_size_bytes :: "u64 option"
  sro_mmu_page_size_bytes :: "u64 option"
  sro_anon_huge_pages_bytes :: "u64 option"
  sro_thp_eligible :: "bool option"
  sro_vm_flags :: "string list"

record base_page_scope_evidence =
  bps_range :: address_range
  bps_host_page_size :: u64
  bps_start_aligned :: bool
  bps_end_aligned :: bool
  bps_length_aligned :: bool
  bps_covered_bytes :: u64
  bps_full_coverage :: bool
  bps_no_hugepage :: bool
  bps_non_mergeable :: bool
  bps_base_page_sizes :: bool
  bps_anon_huge_pages_zero :: bool
  bps_overlaps :: "smaps_range_overlap list"
  bps_passed :: bool
  bps_failure_reasons :: "string list"

definition area_overlap :: "address_range \<Rightarrow> smaps_area \<Rightarrow> smaps_range_overlap option" where
  "area_overlap r a =
     (let s = max (ar_start (sa_range a)) (ar_start r); e = min (ar_end (sa_range a)) (ar_end r) in
      if s < e then Some \<lparr> sro_vma_start = ar_start (sa_range a), sro_vma_end = ar_end (sa_range a), sro_overlap_start = s,
        sro_overlap_end = e, sro_overlap_bytes = e - s, sro_kernel_page_size_bytes = sa_kernel_page_size_bytes a,
        sro_mmu_page_size_bytes = sa_mmu_page_size_bytes a, sro_anon_huge_pages_bytes = sa_anon_huge_pages_bytes a,
        sro_thp_eligible = sa_thp_eligible a, sro_vm_flags = sa_vm_flags a \<rparr> else None)"

fun coverage_loop :: "u64 \<Rightarrow> u64 \<Rightarrow> smaps_range_overlap list \<Rightarrow> u64 \<times> u64" where
  "coverage_loop cursor covered [] = (cursor, covered)"
| "coverage_loop cursor covered (o1 # os) =
     (if sro_overlap_start o1 > cursor then (cursor, covered)
      else (let s = max cursor (sro_overlap_start o1) in
        if sro_overlap_end o1 > s
        then coverage_loop (sro_overlap_end o1) (sat_add covered (sro_overlap_end o1 - s)) os
        else coverage_loop cursor covered os))"

definition aligned :: "u64 \<Rightarrow> u64 \<Rightarrow> bool" where
  "aligned page v \<longleftrightarrow> page > 0 \<and> v mod page = 0"

definition verify_base_page_scope :: "string \<Rightarrow> address_range \<Rightarrow> u64 \<Rightarrow> bool \<Rightarrow> base_page_scope_evidence" where
  "verify_base_page_scope smaps r host_page_size require_non_mergeable =
     (let overlaps = sort_key sro_overlap_start (List.map_filter (area_overlap r) (parse_smaps_areas smaps));
          start_aligned = aligned host_page_size (ar_start r); end_aligned = aligned host_page_size (ar_end r);
          length_aligned = aligned host_page_size (range_len r);
          (cursor, covered) = coverage_loop (ar_start r) 0 overlaps;
          full = (range_valid r \<and> cursor \<ge> ar_end r \<and> covered = range_len r);
          nohuge = (overlaps \<noteq> [] \<and> list_all (\<lambda>i. ''nh'' \<in> set (sro_vm_flags i)) overlaps);
          nonmerge = (overlaps \<noteq> [] \<and> list_all (\<lambda>i. ''mg'' \<notin> set (sro_vm_flags i)) overlaps);
          pages = (overlaps \<noteq> [] \<and> list_all (\<lambda>i. sro_kernel_page_size_bytes i = Some host_page_size \<and>
             sro_mmu_page_size_bytes i = Some host_page_size) overlaps);
          anon = (overlaps \<noteq> [] \<and> list_all (\<lambda>i. sro_anon_huge_pages_bytes i = Some 0) overlaps);
          reasons = fired
            [(\<not> (start_aligned \<and> end_aligned \<and> length_aligned), ''owned_range_not_page_aligned''),
             (\<not> full, ''smaps_range_coverage_gap''),
             (\<not> pages, ''base_page_size_mismatch''),
             (\<not> anon, ''anon_huge_pages_nonzero_or_missing''),
             (\<not> nohuge, ''nohugepage_flag_missing''),
             (require_non_mergeable \<and> \<not> nonmerge, ''mergeable_before_audit'')]
      in \<lparr> bps_range = r, bps_host_page_size = host_page_size, bps_start_aligned = start_aligned, bps_end_aligned = end_aligned,
           bps_length_aligned = length_aligned, bps_covered_bytes = covered, bps_full_coverage = full, bps_no_hugepage = nohuge,
           bps_non_mergeable = nonmerge, bps_base_page_sizes = pages, bps_anon_huge_pages_zero = anon, bps_overlaps = overlaps,
           bps_passed = (reasons = []), bps_failure_reasons = reasons \<rparr>)"

subsection \<open>Coverage is exact\<close>

lemma cover_loop_sound:
  assumes "cover_loop requested P cursor as" and "ar_start requested \<le> cursor"
  shows "\<forall>x. cursor \<le> x \<and> x < ar_end requested \<longrightarrow> (\<exists>a \<in> set as. P a \<and> x \<in> addresses (sa_range a))"
  using assms
proof (induction as arbitrary: cursor)
  case (Cons a as)
  let ?c = "max cursor (min (ar_end (sa_range a)) (ar_end requested))"
  have P: "P a" and s: "ar_start (sa_range a) \<le> cursor" using Cons.prems(1) by (auto split: if_splits)
  show ?case
  proof (intro allI impI)
    fix x assume x: "cursor \<le> x \<and> x < ar_end requested"
    show "\<exists>b \<in> set (a # as). P b \<and> x \<in> addresses (sa_range b)"
    proof (cases "x < ar_end (sa_range a)")
      case True
      then show ?thesis using P s x by (auto simp: addresses_def)
    next
      case False
      then have "?c \<le> x" using x by (auto simp: min_def max_def)
      moreover have "?c \<noteq> ar_end requested" using False x by (auto simp: min_def max_def)
      moreover have "ar_start requested \<le> ?c" using Cons.prems(2) by (auto simp: max_def)
      ultimately have "\<exists>b \<in> set as. P b \<and> x \<in> addresses (sa_range b)"
        using Cons.IH [of ?c] Cons.prems(1) x by (auto simp: Let_def split: if_splits)
      then show ?thesis by auto
    qed
  qed
qed simp

text \<open>Completeness needs that no relevant area violates \<open>P\<close>: the loop rejects those it meets.\<close>

lemma cover_loop_complete:
  assumes "sorted (map (\<lambda>a. ar_start (sa_range a)) as)" and "\<forall>a \<in> set as. P a" and "cursor < ar_end requested"
    and "\<forall>x. cursor \<le> x \<and> x < ar_end requested \<longrightarrow> (\<exists>a \<in> set as. x \<in> addresses (sa_range a))"
  shows "cover_loop requested P cursor as"
  using assms
proof (induction as arbitrary: cursor)
  case Nil
  then show ?case by auto
next
  case (Cons a as)
  let ?c = "max cursor (min (ar_end (sa_range a)) (ar_end requested))"
  obtain b where b: "b \<in> set (a # as)" "cursor \<in> addresses (sa_range b)" using Cons.prems(3,4) by auto
  have "ar_start (sa_range a) \<le> ar_start (sa_range b)" using Cons.prems(1) b(1) by auto
  then have s: "ar_start (sa_range a) \<le> cursor" using b(2) by (auto simp: addresses_def)
  show ?case
  proof (cases "?c = ar_end requested")
    case True
    then show ?thesis using s Cons.prems(2) by (simp add: Let_def)
  next
    case False
    have "\<exists>b \<in> set as. x \<in> addresses (sa_range b)" if "?c \<le> x \<and> x < ar_end requested" for x
    proof -
      have "x \<notin> addresses (sa_range a)" using that by (auto simp: addresses_def min_def max_def split: if_splits)
      then show ?thesis using Cons.prems(4) that by auto
    qed
    moreover have "?c < ar_end requested" using False Cons.prems(3) by (auto simp: min_def max_def)
    ultimately show ?thesis using Cons.IH [of ?c] Cons.prems(1,2) s False by (simp add: Let_def)
  qed
qed

lemma fully_covered_sound:
  "fully_covered_with r areas P \<Longrightarrow> x \<in> addresses r \<Longrightarrow> \<exists>a \<in> set areas. P a \<and> x \<in> addresses (sa_range a)"
  using cover_loop_sound [of r P "ar_start r"] by (force simp: fully_covered_with_def addresses_def)

text \<open>Coverage is decided exactly: when all areas that touch the requested range have the required
  flags, the loop over the sorted areas accepts the range exactly if it is nonempty and every
  address of it lies in one of the areas, whatever their order and overlaps.\<close>

theorem ksm_coverage_exact:
  assumes "\<forall>a \<in> set areas. overlap (sa_range a) r \<noteq> 0 \<longrightarrow> P a"
    and "\<forall>a \<in> set areas. ar_start (sa_range a) < ar_end (sa_range a)"
  shows "fully_covered_with r areas P \<longleftrightarrow>
    ar_start r < ar_end r \<and> addresses r \<subseteq> (\<Union>a \<in> set areas. addresses (sa_range a))"
proof
  assume c: "fully_covered_with r areas P"
  then show "ar_start r < ar_end r \<and> addresses r \<subseteq> (\<Union>a \<in> set areas. addresses (sa_range a))"
    using fully_covered_sound [OF c] by (auto simp: fully_covered_with_def range_valid_def)
next
  assume a: "ar_start r < ar_end r \<and> addresses r \<subseteq> (\<Union>a \<in> set areas. addresses (sa_range a))"
  let ?Q = "\<lambda>a. ar_end (sa_range a) > ar_start r \<and> ar_start (sa_range a) < ar_end r"
  let ?as = "sort_key (\<lambda>a. ar_start (sa_range a)) (filter ?Q areas)"
  have "\<forall>b \<in> set ?as. P b"
  proof
    fix b assume b: "b \<in> set ?as"
    let ?x = "max (ar_start (sa_range b)) (ar_start r)"
    have "?x \<in> addresses (sa_range b) \<inter> addresses r" using b assms(2) a by (auto simp: addresses_def max_def)
    then have "overlap (sa_range b) r \<noteq> 0" by (auto simp: overlap_zero_iff)
    with assms(1) b show "P b" by auto
  qed
  moreover have "\<exists>b \<in> set ?as. x \<in> addresses (sa_range b)" if x: "ar_start r \<le> x \<and> x < ar_end r" for x
  proof -
    obtain b where "b \<in> set areas" "x \<in> addresses (sa_range b)" using a x by (force simp: addresses_def)
    then show ?thesis using x by (auto simp: addresses_def intro!: bexI [of _ b])
  qed
  ultimately show "fully_covered_with r areas P"
    using cover_loop_complete [of ?as P "ar_start r" r] a by (simp add: fully_covered_with_def range_valid_def)
qed

lemma unat_sum_list_exact:
  fixes ws :: "u64 list"
  shows "sum_list (map unat ws) < 2 ^ 64 \<Longrightarrow> unat (sum_list ws) = sum_list (map unat ws)"
  by (induction ws) (auto simp: unat_word_ariths)

lemma unexpected_zero: "unexpected_bytes duplicate a = 0 \<Longrightarrow> addresses (sa_range a) \<subseteq> addresses duplicate"
proof -
  assume "unexpected_bytes duplicate a = 0"
  then have "unat (range_len (sa_range a)) - unat (overlap (sa_range a) duplicate) = 0"
    by (simp add: unexpected_bytes_def overlap_def flip: unat_sat_sub)
  then have "card (addresses (sa_range a)) \<le> card (addresses (sa_range a) \<inter> addresses duplicate)"
    by (simp add: overlap_card range_len_def unat_sat_sub card_addresses)
  then have "addresses (sa_range a) \<inter> addresses duplicate = addresses (sa_range a)"
    by (intro card_seteq) auto
  then show ?thesis by blast
qed

text \<open>C25. A passed scope check means what it says: every address of the duplicate range lies in a mergeable
  area and every address of the control range in one that is not; and, the mapped memory being
  smaller than the 64-bit address space, no mergeable area reaches outside the duplicate range.\<close>

theorem ksm_scope_sound:
  assumes "mse_passed (verify_exact_mergeable_scope smaps duplicate control)"
    and "sum_list (map (\<lambda>a. unat (range_len (sa_range a))) (parse_smaps_areas smaps)) < 2 ^ 64"
  shows "(\<forall>x \<in> addresses duplicate. \<exists>a \<in> set (parse_smaps_areas smaps). sa_mergeable a \<and> x \<in> addresses (sa_range a)) \<and>
    (\<forall>x \<in> addresses control. \<exists>a \<in> set (parse_smaps_areas smaps). \<not> sa_mergeable a \<and> x \<in> addresses (sa_range a)) \<and>
    (\<forall>a \<in> set (parse_smaps_areas smaps). sa_mergeable a \<longrightarrow> addresses (sa_range a) \<subseteq> addresses duplicate)"
proof -
  let ?areas = "parse_smaps_areas smaps" and ?m = "filter sa_mergeable (parse_smaps_areas smaps)"
  have d: "fully_covered_with duplicate ?areas sa_mergeable" and c: "fully_covered_with control ?areas (\<lambda>a. \<not> sa_mergeable a)"
    and u: "sum_list (map (unexpected_bytes duplicate) ?m) = 0"
    using assms(1) by (simp_all add: verify_exact_mergeable_scope_def Let_def)
  have le: "unat (unexpected_bytes duplicate a) \<le> unat (range_len (sa_range a))" for a
    by (simp add: unexpected_bytes_def unat_sat_sub)
  have "sum_list (map (\<lambda>a. unat (unexpected_bytes duplicate a)) ?m) \<le> sum_list (map (\<lambda>a. unat (range_len (sa_range a))) ?m)"
    by (intro sum_list_mono le)
  also have "\<dots> \<le> sum_list (map (\<lambda>a. unat (range_len (sa_range a))) ?areas)"
    by (rule sum_list_filter_le_nat)
  finally have "sum_list (map unat (map (unexpected_bytes duplicate) ?m)) < 2 ^ 64" using assms(2) by (simp add: comp_def)
  from unat_sum_list_exact [OF this] u have "\<forall>a \<in> set ?m. unat (unexpected_bytes duplicate a) = 0"
    by (simp add: sum_list_eq_0_iff)
  then have "\<forall>a \<in> set ?areas. sa_mergeable a \<longrightarrow> addresses (sa_range a) \<subseteq> addresses duplicate"
    using unexpected_zero by (auto simp: unat_eq_0)
  with fully_covered_sound [OF d] fully_covered_sound [OF c] show ?thesis by blast
qed

text \<open>Two mapped pages, the first one opted in.\<close>

definition example_smaps :: string where
  "example_smaps = unlines [''1000-2000 rw-p'', ''VmFlags: rd wr mg nh'', ''3000-4000 rw-p'', ''VmFlags: rd wr nh'']"

lemma example_lines:
  "lines example_smaps = [''1000-2000 rw-p'', ''VmFlags: rd wr mg nh'', ''3000-4000 rw-p'', ''VmFlags: rd wr nh'']"
proof -
  have "list_all is_line [''1000-2000 rw-p'', ''VmFlags: rd wr mg nh'', ''3000-4000 rw-p'', ''VmFlags: rd wr nh'']" by code_simp
  then show ?thesis unfolding example_smaps_def by (intro lines_unlines) (simp add: list_all_iff)
qed

lemma example_headers:
  "parse_hex_range ''1000-2000 rw-p'' = Some \<lparr> ar_start = 4096, ar_end = 8192 \<rparr>"
  "parse_hex_range ''3000-4000 rw-p'' = Some \<lparr> ar_start = 12288, ar_end = 16384 \<rparr>"
  "parse_hex_range ''VmFlags: rd wr mg nh'' = None" "parse_hex_range ''VmFlags: rd wr nh'' = None"
  by (simp_all add: parse_hex_range_def first_word_def split_whitespace_def is_ws_def parse_hex_def strip_plus_def
      is_ascii_hexdigit_def is_ascii_digit_def hex_val_def digit_val_def)

lemma example_areas:
  "parse_smaps_areas example_smaps =
    [(new_area \<lparr> ar_start = 4096, ar_end = 8192 \<rparr>)\<lparr> sa_vm_flags := [''rd'', ''wr'', ''mg'', ''nh''], sa_mergeable := True, sa_no_hugepage := True \<rparr>,
     (new_area \<lparr> ar_start = 12288, ar_end = 16384 \<rparr>)\<lparr> sa_vm_flags := [''rd'', ''wr'', ''nh''], sa_no_hugepage := True \<rparr>]"
  by (simp add: parse_smaps_areas_def example_lines smaps_areas_step_def example_headers push_area_def area_line_def
      split_whitespace_def is_ws_def new_area_def Let_def)

theorem ksm_scope_sound_witness:
  "mse_passed (verify_exact_mergeable_scope example_smaps \<lparr> ar_start = 4096, ar_end = 8192 \<rparr> \<lparr> ar_start = 12288, ar_end = 16384 \<rparr>) \<and>
   (\<exists>a \<in> set (parse_smaps_areas example_smaps). sa_mergeable a \<and> 5000 \<in> addresses (sa_range a))"
proof -
  let ?d = "\<lparr> ar_start = 4096, ar_end = 8192 \<rparr>" and ?c = "\<lparr> ar_start = 12288, ar_end = 16384 \<rparr>"
  have p: "mse_passed (verify_exact_mergeable_scope example_smaps ?d ?c)"
    by (simp add: verify_exact_mergeable_scope_def Let_def example_areas new_area_def fully_covered_with_def range_valid_def
        unexpected_bytes_def range_len_def sat_sub_def)
  have l: "sum_list (map (\<lambda>a. unat (range_len (sa_range a))) (parse_smaps_areas example_smaps)) < 2 ^ 64"
    by (simp add: example_areas new_area_def range_len_def unat_sat_sub)
  have "5000 \<in> addresses ?d" by (simp add: addresses_def)
  with ksm_scope_sound [OF p l] p show ?thesis by blast
qed

theorem ksm_coverage_exact_witness:
  "fully_covered_with \<lparr> ar_start = 4096, ar_end = 8192 \<rparr> (parse_smaps_areas example_smaps) sa_mergeable \<longleftrightarrow>
    addresses \<lparr> ar_start = 4096, ar_end = 8192 \<rparr> \<subseteq> (\<Union>a \<in> set (parse_smaps_areas example_smaps). addresses (sa_range a))"
proof -
  have "\<forall>a \<in> set (parse_smaps_areas example_smaps). overlap (sa_range a) \<lparr> ar_start = 4096, ar_end = 8192 \<rparr> \<noteq> 0 \<longrightarrow> sa_mergeable a"
    by (simp add: example_areas new_area_def overlap_def sat_sub_def)
  moreover have "\<forall>a \<in> set (parse_smaps_areas example_smaps). ar_start (sa_range a) < ar_end (sa_range a)"
    by (simp add: example_areas new_area_def)
  ultimately show ?thesis
    using ksm_coverage_exact [of "parse_smaps_areas example_smaps" "\<lparr> ar_start = 4096, ar_end = 8192 \<rparr>" sa_mergeable] by simp
qed

end
