(* ===== verification/Boot_Lifecycle.thy ===== *)
theory Boot_Lifecycle
  imports Boot_Observation Effects
begin

text \<open>
  The lifecycle of a boot validation (\<open>tiering/src/boot_validation_v6.rs\<close>, second half): a durable transaction
  is carried from stage to stage by operations on a backend, the trait
  \<open>BootLifecycleBackendV6\<close> as the record \<open>boot_backend\<close>. The world of an operation is the backend's
  state and the transaction, which the source mutates in place. Every operation on the
  transaction recomputes its digest, and a transition first checks it.
\<close>

record tx_codec = boot_codec +
  bc_tx_payload :: "transaction_payload \<Rightarrow> string"
  bc_preflight :: "preflight_observation \<Rightarrow> string"
  bc_measurement :: "baseline_measurement \<Rightarrow> string"
  bc_apply_evidence :: "transaction_payload \<Rightarrow> string"
  bc_one_shot_evidence :: "string \<Rightarrow> string option \<Rightarrow> string option \<Rightarrow> string list option \<Rightarrow> string"
  bc_post_boot :: "post_boot_observation \<Rightarrow> string"
  bc_restore :: "baseline_restore_observation \<Rightarrow> string"
  bc_zram_evidence :: "zram_baseline_evidence \<Rightarrow> string"
  bc_profile_evidence :: "profile_evidence \<Rightarrow> string"

record 'b boot_backend =
  bb_persist_transaction :: "durable_transaction \<Rightarrow> (string, 'b, unit) eff"
  bb_create_transaction_root :: "prepared_manifest \<Rightarrow> (string, 'b, unit) eff"
  bb_copy_prepared_manifest :: "prepared_manifest \<Rightarrow> (string, 'b, unit) eff"
  bb_persist_evidence :: "string \<Rightarrow> string \<Rightarrow> (string, 'b, unit) eff"
  bb_create_swapfile :: "prepared_manifest \<Rightarrow> (string, 'b, swap_identity) eff"
  bb_create_artifact :: "owned_artifact \<Rightarrow> (string, 'b, unit) eff"
  bb_stage_helper :: "staged_binary_plan \<Rightarrow> (string, 'b, unit) eff"
  bb_staged_helper_matches :: "staged_binary_plan \<Rightarrow> 'b \<Rightarrow> bool"
  bb_artifact_matches :: "owned_artifact \<Rightarrow> 'b \<Rightarrow> bool"
  bb_artifact_absent :: "owned_artifact \<Rightarrow> 'b \<Rightarrow> bool"
  bb_sync_parents :: "prepared_manifest \<Rightarrow> (string, 'b, unit) eff"
  bb_remove_artifact :: "owned_artifact \<Rightarrow> (string, 'b, unit) eff"
  bb_remove_swapfile :: "prepared_manifest \<Rightarrow> (string, 'b, unit) eff"
  bb_swapfile_absent :: "prepared_manifest \<Rightarrow> 'b \<Rightarrow> bool"
  bb_finalize_runtime_cleanup :: "prepared_manifest \<Rightarrow> (string, 'b, unit) eff"
  bb_set_one_shot :: "string \<Rightarrow> (string, 'b, unit) eff"
  bb_read_one_shot :: "'b \<Rightarrow> (string, string option) result"
  bb_permanent_default :: "'b \<Rightarrow> (string, string) result"
  bb_boot_order :: "'b \<Rightarrow> (string, string list) result"
  bb_current_boot_is_experimental :: "prepared_manifest \<Rightarrow> 'b \<Rightarrow> bool"
  bb_collect_zram_baseline :: "prepared_manifest \<Rightarrow> (string, 'b, baseline_measurement) eff"
  bb_collect_post_boot :: "prepared_manifest \<Rightarrow> (string, 'b, post_boot_observation) eff"
  bb_collect_baseline :: "prepared_manifest \<Rightarrow> 'b \<Rightarrow> (string, baseline_restore_observation) result"
  bb_seal_archive :: "durable_transaction \<Rightarrow> (string, 'b, unit) eff"

type_synonym ('b, 'a) boot_op = "(boot_error, 'b \<times> durable_transaction, 'a) eff"

fun ok_of :: "('e, 'a) result \<Rightarrow> 'a option" where
  "ok_of (Inl _) = None"
| "ok_of (Inr x) = Some x"

subsection \<open>The transaction\<close>

definition tx_digest :: "tx_codec \<Rightarrow> transaction_payload \<Rightarrow> string" where
  "tx_digest C p = bc_sha256 C (bc_tx_payload C p)"

definition tx_seal :: "tx_codec \<Rightarrow> transaction_payload \<Rightarrow> durable_transaction" where
  "tx_seal C p = \<lparr> dt_schema = DURABLE_TRANSACTION_SCHEMA_V6, dt_payload = p, dt_payload_sha256 = tx_digest C p \<rparr>"

text \<open>An update of the payload followed by recomputing the digest.\<close>

definition tx_set :: "tx_codec \<Rightarrow> (transaction_payload \<Rightarrow> transaction_payload) \<Rightarrow> durable_transaction \<Rightarrow> durable_transaction" where
  "tx_set C f t = t\<lparr> dt_payload := f (dt_payload t), dt_payload_sha256 := tx_digest C (f (dt_payload t)) \<rparr>"

definition tx_new :: "tx_codec \<Rightarrow> prepared_manifest \<Rightarrow> string \<Rightarrow> (boot_error, durable_transaction) result" where
  "tx_new C m boot_id = rbind (manifest_validate (boot_codec.truncate C) m) (\<lambda>_. let p = pm_payload m in
     Ok (tx_seal C \<lparr> tp_validation_id = mp_validation_id p, tp_manifest_sha256 = bc_sha256 C (bc_manifest C m),
       tp_stage = StPrepared, tp_baseline_boot_id = boot_id, tp_current_boot_id = boot_id,
       tp_artifact_registry = map oa_path (mp_owned_artifacts p), tp_swapfile_registry = [si_path (mp_swapfile p)],
       tp_unit_registry = map oa_path (filter (\<lambda>a. oa_kind a = ValidationUnit) (mp_owned_artifacts p)),
       tp_transient_unit_registry = [''nemor-phase6-workload-'' @ mp_validation_id p @ ''.scope''],
       tp_applied_swap_identity = None, tp_evidence_hashes = [], tp_mutation_records = [], tp_primary_error = None,
       tp_failed_from_stage = None, tp_secondary_errors = [], tp_recovery_state = ''not_required'',
       tp_idempotence_verified = False, tp_activation_parameter_index = 0, tp_original_primary_error = None,
       tp_terminal_archive_sha256 = None, tp_post_boot_summary = None \<rparr>))"

definition tx_transition :: "tx_codec \<Rightarrow> boot_stage \<Rightarrow> durable_transaction \<Rightarrow> (boot_error, unit) result \<times> durable_transaction" where
  "tx_transition C s t = (case tx_validate (tx_digest C) t of
     Inl e \<Rightarrow> (Err e, t)
   | Inr _ \<Rightarrow> if \<not> legal_transition_v6 (tp_stage (dt_payload t)) s then (Err BTransition, t)
       else (Ok (), tx_set C (\<lambda>p. p\<lparr> tp_stage := s \<rparr>) t))"

definition tx_record_intent :: "tx_codec \<Rightarrow> string \<Rightarrow> string \<Rightarrow> durable_transaction \<Rightarrow> durable_transaction" where
  "tx_record_intent C operation path t = tx_set C (\<lambda>p. p\<lparr> tp_mutation_records := tp_mutation_records p @
     [\<lparr> mr_operation = operation, mr_target = path, mr_completed = False, mr_evidence_sha256 = None,
        mr_boot_id = tp_current_boot_id p \<rparr>] \<rparr>) t"

definition tx_complete_last :: "tx_codec \<Rightarrow> string \<Rightarrow> durable_transaction \<Rightarrow> (boot_error, unit) result \<times> durable_transaction" where
  "tx_complete_last C evidence t = (let rs = tp_mutation_records (dt_payload t) in
     if rs = [] then (Err BTransition, t)
     else (Ok (), tx_set C (\<lambda>p. p\<lparr> tp_mutation_records := butlast rs @
       [(last rs)\<lparr> mr_completed := True, mr_evidence_sha256 := Some evidence \<rparr>] \<rparr>) t))"

text \<open>Insertion of an evidence digest, without and with recomputing the transaction's digest.\<close>

definition tx_insert_hash :: "tx_codec \<Rightarrow> string \<Rightarrow> string \<Rightarrow> durable_transaction \<Rightarrow> durable_transaction" where
  "tx_insert_hash C name bytes t = t\<lparr> dt_payload := (dt_payload t)\<lparr> tp_evidence_hashes :=
     bt_insert name (bc_sha256 C bytes) (tp_evidence_hashes (dt_payload t)) \<rparr> \<rparr>"

definition tx_evidence :: "tx_codec \<Rightarrow> string \<Rightarrow> string \<Rightarrow> durable_transaction \<Rightarrow> durable_transaction" where
  "tx_evidence C name bytes t = tx_set C (\<lambda>p. p) (tx_insert_hash C name bytes t)"

subsection \<open>Steps of an operation\<close>

definition transition_v6 :: "tx_codec \<Rightarrow> boot_stage \<Rightarrow> ('b, unit) boot_op" where
  "transition_v6 C s = s_op (tx_transition C s)"

definition record_intent :: "tx_codec \<Rightarrow> string \<Rightarrow> string \<Rightarrow> ('b, unit) boot_op" where
  "record_intent C operation path = s_modify (tx_record_intent C operation path)"

definition complete_last :: "tx_codec \<Rightarrow> string \<Rightarrow> ('b, unit) boot_op" where
  "complete_last C evidence = s_op (tx_complete_last C evidence)"

text \<open>A backend call whose error is replaced by a fixed one.\<close>

definition backend_call :: "boot_error \<Rightarrow> (string, 'b, 'a) eff \<Rightarrow> ('b, 'a) boot_op" where
  "backend_call e f w = (case f (fst w) of (Inl _, b) \<Rightarrow> (Err e, (b, snd w)) | (Inr x, b) \<Rightarrow> (Ok x, (b, snd w)))"

definition persist_or_fail :: "'b boot_backend \<Rightarrow> ('b, unit) boot_op" where
  "persist_or_fail B w = backend_call (BReadback ''durable transaction persistence'') (bb_persist_transaction B (snd w)) w"

definition fail_transaction :: "tx_codec \<Rightarrow> 'b boot_backend \<Rightarrow> string \<Rightarrow> string list \<Rightarrow> ('b, 'a) boot_op" where
  "fail_transaction C B primary secondary w =
     (let t = tx_set C (\<lambda>p. p\<lparr> tp_failed_from_stage := Some (tp_stage p), tp_primary_error := Some primary,
            tp_secondary_errors := tp_secondary_errors p @ secondary, tp_stage := StFailed \<rparr>) (snd w)
      in (Err (BReadback ''bounded mutation failed; transaction retained''), (snd (bb_persist_transaction B t (fst w)), t)))"

text \<open>A backend call whose error fails the transaction.\<close>

definition call_or_fail :: "tx_codec \<Rightarrow> 'b boot_backend \<Rightarrow> (string, 'b, 'a) eff \<Rightarrow> ('b, 'a) boot_op" where
  "call_or_fail C B f w = (case f (fst w) of
     (Inl primary, b) \<Rightarrow> fail_transaction C B primary [] (b, snd w) | (Inr x, b) \<Rightarrow> (Ok x, (b, snd w)))"

definition backend_reads :: "('b \<Rightarrow> 'a) \<Rightarrow> ('b, 'a) boot_op" where
  "backend_reads f w = (Ok (f (fst w)), w)"

definition lift_result :: "(boot_error, 'a) result \<Rightarrow> ('b, 'a) boot_op" where
  "lift_result r w = (r, w)"

definition persist_evidence :: "tx_codec \<Rightarrow> 'b boot_backend \<Rightarrow> string \<Rightarrow> string \<Rightarrow> string \<Rightarrow> ('b, unit) boot_op" where
  "persist_evidence C B label name bytes =
     bindA (backend_call (BReadback label) (bb_persist_evidence B name bytes)) (\<lambda>_.
     s_modify (tx_evidence C name bytes))"

subsection \<open>Baseline measurement\<close>

definition baseline_rejected :: "prepared_manifest \<Rightarrow> string \<Rightarrow> baseline_measurement \<Rightarrow> bool" where
  "baseline_rejected m baseline_boot_id o1 \<longleftrightarrow> bm_schema o1 \<noteq> ZRAM_BASELINE_EVIDENCE_V6 \<or>
     bm_validation_id o1 \<noteq> mp_validation_id (pm_payload m) \<or> bm_boot_id o1 \<noteq> baseline_boot_id \<or>
     \<not> same_zram (bm_zram o1) (mp_protected_zram (pm_payload m)) \<or> bm_zswap o1 \<noteq> mp_baseline_zswap (pm_payload m) \<or>
     \<not> list_all2 same_swap (bm_swaps o1) (mp_baseline_swaps (pm_payload m)) \<or>
     bm_workload_protocol o1 \<noteq> WORKLOAD_PROTOCOL_V6 \<or> \<not> is_sha256 (bm_workload_sha256 o1) \<or> bm_bytes_touched o1 = 0 \<or>
     bm_latency_ns o1 = None \<or> bm_cgroup_oom_delta o1 \<noteq> Some 0 \<or> bm_cgroup_oom_kill_delta o1 \<noteq> Some 0 \<or>
     \<not> bm_content_verified o1 \<or> \<not> bm_cleanup_passed o1 \<or> \<not> bm_scope_absent o1 \<or> bm_production_activation o1"

definition measure_baseline :: "tx_codec \<Rightarrow> 'b boot_backend \<Rightarrow> prepared_manifest \<Rightarrow> preflight_observation \<Rightarrow> ('b, unit) boot_op" where
  "measure_baseline C B m preflight = (let helper = mp_staged_helper (pm_payload m) in
     bindA (backend_call (BReadback ''create transaction root'') (bb_create_transaction_root B m)) (\<lambda>_.
     bindA (backend_call (BReadback ''copy prepared manifest'') (bb_copy_prepared_manifest B m)) (\<lambda>_.
     bindA (persist_or_fail B) (\<lambda>_.
     bindA (persist_evidence C B ''persist root preflight'' ''root-preflight-v6.json'' (bc_preflight C preflight)) (\<lambda>_.
     bindA (transition_v6 C StRootPreflighted) (\<lambda>_.
     bindA (persist_or_fail B) (\<lambda>_.
     bindA (record_intent C ''stage_trusted_baseline_helper'' (sbp_destination helper)) (\<lambda>_.
     bindA (persist_or_fail B) (\<lambda>_.
     bindA (call_or_fail C B (bb_stage_helper B helper)) (\<lambda>_.
     bindA (backend_reads (bb_staged_helper_matches B helper)) (\<lambda>ok.
     bindA (whenA (\<not> ok) (fail_transaction C B ''staged baseline helper readback mismatch'' [])) (\<lambda>_.
     bindA (complete_last C (bi_sha256 (sbp_source helper))) (\<lambda>_.
     bindA (persist_or_fail B) (\<lambda>_.
     bindA (transition_v6 C StBaselineMeasuring) (\<lambda>_.
     bindA (persist_or_fail B) (\<lambda>_.
     bindA (call_or_fail C B (bb_collect_zram_baseline B m)) (\<lambda>observation.
     bindA (s_get (\<lambda>t. tp_baseline_boot_id (dt_payload t))) (\<lambda>boot_id.
     bindA (whenA (baseline_rejected m boot_id observation) (fail_transaction C B ''same-host zram baseline rejected'' [])) (\<lambda>_.
     bindA (persist_evidence C B ''persist zram baseline'' ''zram-baseline-evidence-v4.json'' (bc_measurement C observation)) (\<lambda>_.
     bindA (transition_v6 C StBaselineMeasured) (\<lambda>_.
     persist_or_fail B)))))))))))))))))))))"

definition initialize_and_measure_baseline_v6 :: "tx_codec \<Rightarrow> 'b boot_backend \<Rightarrow> prepared_manifest \<Rightarrow> preflight_observation \<Rightarrow>
    string \<Rightarrow> (boot_error, 'b, durable_transaction) eff" where
  "initialize_and_measure_baseline_v6 C B m preflight boot_id b =
     (case rbind (validate_preflight_v6 (boot_codec.truncate C) m preflight True) (\<lambda>_. tx_new C m boot_id) of
        Inl e \<Rightarrow> (Err e, b)
      | Inr t \<Rightarrow> (case measure_baseline C B m preflight (b, t) of
            (Inl e, (b', _)) \<Rightarrow> (Err e, b')
          | (Inr _, (b', t')) \<Rightarrow> (Ok t', b')))"

subsection \<open>Apply\<close>

fun remove_artifacts :: "'b boot_backend \<Rightarrow> owned_artifact list \<Rightarrow> 'b \<Rightarrow> string list \<times> 'b" where
  "remove_artifacts B [] b = ([], b)"
| "remove_artifacts B (a # as) b = (case bb_remove_artifact B a b of
     (Inl e, b') \<Rightarrow> (case remove_artifacts B as b' of (es, b'') \<Rightarrow> (e # es, b''))
   | (Inr _, b') \<Rightarrow> remove_artifacts B as b')"

definition rollback_partial_apply :: "'b boot_backend \<Rightarrow> prepared_manifest \<Rightarrow> owned_artifact list \<Rightarrow> 'b \<Rightarrow> string list \<times> 'b" where
  "rollback_partial_apply B m created b = (case remove_artifacts B (rev created) b of (es, b') \<Rightarrow>
     (case bb_remove_swapfile B m b' of (Inl e, b'') \<Rightarrow> (es @ [e], b'') | (Inr _, b'') \<Rightarrow> (es, b'')))"

text \<open>Undo what was created, then fail the transaction with the errors of the undoing.\<close>

definition fail_after_rollback :: "tx_codec \<Rightarrow> 'b boot_backend \<Rightarrow> prepared_manifest \<Rightarrow> owned_artifact list \<Rightarrow> string list \<Rightarrow> string \<Rightarrow>
    ('b, 'a) boot_op" where
  "fail_after_rollback C B m created secondary primary w = (case rollback_partial_apply B m created (fst w) of
     (es, b) \<Rightarrow> fail_transaction C B primary (secondary @ es) (b, snd w))"

definition remove_error :: "(string, 'b, unit) eff \<Rightarrow> 'b \<Rightarrow> string list \<times> 'b" where
  "remove_error f b = (case f b of (Inl e, b') \<Rightarrow> ([e], b') | (Inr _, b') \<Rightarrow> ([], b'))"

definition apply_artifact :: "tx_codec \<Rightarrow> 'b boot_backend \<Rightarrow> prepared_manifest \<Rightarrow> owned_artifact list \<Rightarrow> owned_artifact \<Rightarrow>
    ('b, unit) boot_op" where
  "apply_artifact C B m completed a =
     bindA (record_intent C ''create_new_artifact'' (oa_path a)) (\<lambda>_.
     bindA (persist_or_fail B) (\<lambda>_.
     bindA (\<lambda>w. case bb_create_artifact B a (fst w) of
        (Inl primary, b) \<Rightarrow> fail_after_rollback C B m completed [] primary (b, snd w)
      | (Inr _, b) \<Rightarrow> (Ok (), (b, snd w))) (\<lambda>_.
     bindA (\<lambda>w. if bb_artifact_matches B a (fst w) then (Ok (), w)
        else (case remove_error (bb_remove_artifact B a) (fst w) of (es, b) \<Rightarrow>
          fail_after_rollback C B m completed es (''artifact readback failed: '' @ oa_path a) (b, snd w))) (\<lambda>_.
     bindA (complete_last C (oa_sha256 a)) (\<lambda>_.
     persist_or_fail B)))))"

fun apply_artifacts :: "tx_codec \<Rightarrow> 'b boot_backend \<Rightarrow> prepared_manifest \<Rightarrow> owned_artifact list \<Rightarrow> owned_artifact list \<Rightarrow>
    ('b, owned_artifact list) boot_op" where
  "apply_artifacts C B m completed [] = ret completed"
| "apply_artifacts C B m completed (a # as) =
     (if oa_kind a = HelperBinary
      then bindA (backend_reads (bb_staged_helper_matches B (mp_staged_helper (pm_payload m)))) (\<lambda>ok.
           bindA (whenA (\<not> ok) (fail_transaction C B ''pre-staged helper changed before apply'' [])) (\<lambda>_.
           apply_artifacts C B m completed as))
      else bindA (apply_artifact C B m completed a) (\<lambda>_. apply_artifacts C B m (completed @ [a]) as))"

definition boot_choice_kept :: "'b boot_backend \<Rightarrow> prepared_manifest \<Rightarrow> 'b \<Rightarrow> bool" where
  "boot_choice_kept B m b \<longleftrightarrow> ok_of (bb_permanent_default B b) = Some (en_id (bo_default_entry (mp_boot (pm_payload m)))) \<and>
     ok_of (bb_boot_order B b) = Some (bo_boot_order (mp_boot (pm_payload m)))"

definition swap_identity_mismatch :: "prepared_manifest \<Rightarrow> swap_identity \<Rightarrow> bool" where
  "swap_identity_mismatch m s \<longleftrightarrow> \<not> path_eq (si_path s) (si_path (mp_swapfile (pm_payload m))) \<or>
     si_size_bytes s \<noteq> si_size_bytes (mp_swapfile (pm_payload m)) \<or> si_active s \<or> si_uuid s = None"

definition apply_swapfile_v6 :: "tx_codec \<Rightarrow> 'b boot_backend \<Rightarrow> prepared_manifest \<Rightarrow> ('b, unit) boot_op" where
  "apply_swapfile_v6 C B m =
     bindA (record_intent C ''create_btrfs_swapfile'' (si_path (mp_swapfile (pm_payload m)))) (\<lambda>_.
     bindA (persist_or_fail B) (\<lambda>_.
     bindA (call_or_fail C B (bb_create_swapfile B m)) (\<lambda>applied.
     bindA (s_modify (tx_set C (\<lambda>p. p\<lparr> tp_applied_swap_identity := Some applied \<rparr>))) (\<lambda>_.
     bindA (persist_or_fail B) (\<lambda>_.
     bindA (\<lambda>w. if swap_identity_mismatch m applied
        then (case remove_error (bb_remove_swapfile B m) (fst w) of (es, b) \<Rightarrow>
          fail_transaction C B ''created swap identity mismatch'' es (b, snd w))
        else (Ok (), w)) (\<lambda>_.
     bindA (complete_last C (bc_sha256 C (bc_swap C applied))) (\<lambda>_.
     persist_or_fail B)))))))"

definition apply_exact_transaction_v6 :: "tx_codec \<Rightarrow> 'b boot_backend \<Rightarrow> prepared_manifest \<Rightarrow> ('b, unit) boot_op" where
  "apply_exact_transaction_v6 C B m =
     bindA (lift_result (manifest_validate (boot_codec.truncate C) m)) (\<lambda>_.
     bindA (\<lambda>w. (tx_validate (tx_digest C) (snd w), w)) (\<lambda>_.
     bindA (s_get dt_payload) (\<lambda>p.
     bindA (whenA (tp_stage p \<noteq> StBaselineMeasured \<or> tp_manifest_sha256 p \<noteq> bc_sha256 C (bc_manifest C m) \<or>
         map_of (tp_evidence_hashes p) ''zram-baseline-evidence-v4.json'' = None) (throw BTransition)) (\<lambda>_.
     bindA (transition_v6 C StApplying) (\<lambda>_.
     bindA (persist_or_fail B) (\<lambda>_.
     bindA (apply_swapfile_v6 C B m) (\<lambda>_.
     bindA (apply_artifacts C B m (filter (\<lambda>a. oa_kind a = HelperBinary) (mp_owned_artifacts (pm_payload m)))
         (mp_owned_artifacts (pm_payload m))) (\<lambda>completed.
     bindA (\<lambda>w. case bb_sync_parents B m (fst w) of
        (Inl primary, b) \<Rightarrow> fail_after_rollback C B m completed [] primary (b, snd w)
      | (Inr _, b) \<Rightarrow> (Ok (), (b, snd w))) (\<lambda>_.
     bindA (\<lambda>w. if boot_choice_kept B m (fst w) then (Ok (), w)
        else fail_after_rollback C B m completed [] ''default or BootOrder changed'' w) (\<lambda>_.
     bindA (s_get dt_payload) (\<lambda>p.
     bindA (persist_evidence C B ''persist apply evidence'' ''apply-evidence-v6.json'' (bc_apply_evidence C p)) (\<lambda>_.
     bindA (transition_v6 C StApplied) (\<lambda>_.
     persist_or_fail B)))))))))))))"

subsection \<open>One-shot boot selection\<close>

definition one_shot_effective :: "'b boot_backend \<Rightarrow> prepared_manifest \<Rightarrow> string \<Rightarrow> 'b \<Rightarrow> bool" where
  "one_shot_effective B m entry b \<longleftrightarrow> ok_of (bb_read_one_shot B b) = Some (Some entry) \<and> boot_choice_kept B m b"

definition select_exact_one_shot_v6 :: "tx_codec \<Rightarrow> 'b boot_backend \<Rightarrow> prepared_manifest \<Rightarrow> ('b, unit) boot_op" where
  "select_exact_one_shot_v6 C B m = (let e = mp_experimental_entry (pm_payload m) in
     bindA (lift_result (manifest_validate (boot_codec.truncate C) m)) (\<lambda>_.
     bindA (\<lambda>w. (tx_validate (tx_digest C) (snd w), w)) (\<lambda>_.
     bindA (backend_reads (bb_staged_helper_matches B (mp_staged_helper (pm_payload m)))) (\<lambda>ok.
     bindA (whenA (\<not> ok) (throw (BReadback ''staged helper''))) (\<lambda>_.
     bindA (transition_v6 C StOneShotSelecting) (\<lambda>_.
     bindA (persist_or_fail B) (\<lambda>_.
     bindA (record_intent C ''set_oneshot'' (en_path e)) (\<lambda>_.
     bindA (persist_or_fail B) (\<lambda>_.
     bindA (call_or_fail C B (bb_set_one_shot B (en_id e))) (\<lambda>_.
     bindA (backend_reads (one_shot_effective B m (en_id e))) (\<lambda>effective.
     bindA (whenA (\<not> effective) (fail_transaction C B ''one-shot readback mismatch'' [])) (\<lambda>_.
     bindA (backend_reads (\<lambda>b. bc_one_shot_evidence C (en_id e) (Option.bind (ok_of (bb_read_one_shot B b)) (\<lambda>x. x))
         (ok_of (bb_permanent_default B b)) (ok_of (bb_boot_order B b)))) (\<lambda>bytes.
     bindA (persist_evidence C B ''persist one-shot evidence'' ''one-shot-evidence-v6.json'' bytes) (\<lambda>_.
     bindA (complete_last C (bc_sha256 C (bc_entry C e))) (\<lambda>_.
     bindA (transition_v6 C StOneShotSelected) (\<lambda>_.
     persist_or_fail B))))))))))))))))"

subsection \<open>After the experimental boot\<close>

definition summary_of :: "prepared_manifest \<Rightarrow> post_boot_observation \<Rightarrow> post_boot_summary" where
  "summary_of m o1 = \<lparr> su_backing_write_bytes = unwrap_or 0 (ob_block_write_bytes o1),
     su_latency_ns = unwrap_or 0 (ob_latency_ns o1),
     su_write_budget_passed = is_some_and (\<lambda>v. v \<le> wc_maximum_write_bytes (mp_workload (pm_payload m))) (ob_block_write_bytes o1),
     su_oom = (ob_oom o1 \<or> ob_oom_kill o1),
     su_safety_failure = (ob_production_activation o1 \<or> \<not> ob_daemon_observe_only o1 \<or> \<not> ob_workload_completed o1),
     su_backing_write_confidence = ob_block_write_attribution o1 \<rparr>"

definition collect_and_validate_post_boot_v6 :: "tx_codec \<Rightarrow> 'b boot_backend \<Rightarrow> prepared_manifest \<Rightarrow>
    ('b, post_boot_observation) boot_op" where
  "collect_and_validate_post_boot_v6 C B m =
     bindA (s_get (\<lambda>t. tp_stage (dt_payload t))) (\<lambda>stage.
     bindA (whenA (stage \<noteq> StActivationVerified) (throw BTransition)) (\<lambda>_.
     bindA (backend_reads (bb_staged_helper_matches B (mp_staged_helper (pm_payload m)))) (\<lambda>ok.
     bindA (whenA (\<not> ok) (throw (BReadback ''staged helper after reboot''))) (\<lambda>_.
     bindA (transition_v6 C StPostBootMeasuring) (\<lambda>_.
     bindA (persist_or_fail B) (\<lambda>_.
     bindA (call_or_fail C B (bb_collect_post_boot B m)) (\<lambda>observation.
     bindA (\<lambda>w. (validate_actual_post_boot_v6 (boot_codec.truncate C) (tx_digest C) m (snd w) observation, w)) (\<lambda>_.
     bindA (persist_evidence C B ''persist post-boot evidence'' ''post-boot-evidence-v6.json'' (bc_post_boot C observation)) (\<lambda>_.
     bindA (s_modify (tx_set C (\<lambda>p. p\<lparr> tp_post_boot_summary := Some (summary_of m observation) \<rparr>))) (\<lambda>_.
     bindA (transition_v6 C StPostBootValidated) (\<lambda>_.
     bindA (persist_or_fail B) (\<lambda>_.
     ret observation))))))))))))"

subsection \<open>Return to the baseline\<close>

definition select_baseline_rollback_v6 :: "tx_codec \<Rightarrow> 'b boot_backend \<Rightarrow> prepared_manifest \<Rightarrow> ('b, unit) boot_op" where
  "select_baseline_rollback_v6 C B m = (let entry = mp_recovery_entry (pm_payload m) in
     bindA (transition_v6 C StBaselineSelecting) (\<lambda>_.
     bindA (persist_or_fail B) (\<lambda>_.
     bindA (record_intent C ''set_baseline_oneshot'' (en_path (bo_current_entry (mp_boot (pm_payload m))))) (\<lambda>_.
     bindA (persist_or_fail B) (\<lambda>_.
     bindA (call_or_fail C B (bb_set_one_shot B entry)) (\<lambda>_.
     bindA (backend_reads (one_shot_effective B m entry)) (\<lambda>effective.
     bindA (whenA (\<not> effective) (fail_transaction C B ''baseline one-shot readback mismatch'' [])) (\<lambda>_.
     bindA (complete_last C (bc_sha256 C (bc_string C entry))) (\<lambda>_.
     bindA (transition_v6 C StBaselineSelected) (\<lambda>_.
     persist_or_fail B))))))))))"

fun cleanup_artifacts :: "tx_codec \<Rightarrow> 'b boot_backend \<Rightarrow> owned_artifact list \<Rightarrow> ('b, unit) boot_op" where
  "cleanup_artifacts C B [] = ret ()"
| "cleanup_artifacts C B (a # as) =
     bindA (record_intent C ''remove_exact_artifact'' (oa_path a)) (\<lambda>_.
     bindA (persist_or_fail B) (\<lambda>_.
     bindA (call_or_fail C B (bb_remove_artifact B a)) (\<lambda>_.
     bindA (complete_last C ''absent'') (\<lambda>_.
     bindA (persist_or_fail B) (\<lambda>_.
     cleanup_artifacts C B as)))))"

definition prove_baseline :: "tx_codec \<Rightarrow> 'b boot_backend \<Rightarrow> prepared_manifest \<Rightarrow> ('b, unit) boot_op" where
  "prove_baseline C B m =
     bindA (s_get (\<lambda>t. tp_stage (dt_payload t))) (\<lambda>stage.
     bindA (whenA (stage = StBaselineSelected) (bindA (transition_v6 C StBaselineBoot) (\<lambda>_. persist_or_fail B))) (\<lambda>_.
     bindA (\<lambda>w. case bb_collect_baseline B m (fst w) of
        Inl _ \<Rightarrow> (Err (BReadback ''collect baseline''), w) | Inr o1 \<Rightarrow> (Ok o1, w)) (\<lambda>baseline.
     bindA (\<lambda>w. (verify_baseline_before_cleanup_v6 m (snd w) baseline, w)) (\<lambda>_.
     bindA (persist_evidence C B ''persist baseline evidence'' ''baseline-restore-evidence-v6.json'' (bc_restore C baseline)) (\<lambda>_.
     bindA (transition_v6 C StBaselineVerified) (\<lambda>_.
     bindA (persist_or_fail B) (\<lambda>_.
     bindA (transition_v6 C StCleaning) (\<lambda>_.
     persist_or_fail B))))))))"

definition remove_owned_state :: "tx_codec \<Rightarrow> 'b boot_backend \<Rightarrow> prepared_manifest \<Rightarrow> ('b, unit) boot_op" where
  "remove_owned_state C B m = (let as = mp_owned_artifacts (pm_payload m) in
     bindA (cleanup_artifacts C B (rev as)) (\<lambda>_.
     bindA (record_intent C ''remove_exact_swapfile'' (si_path (mp_swapfile (pm_payload m)))) (\<lambda>_.
     bindA (persist_or_fail B) (\<lambda>_.
     bindA (call_or_fail C B (bb_remove_swapfile B m)) (\<lambda>_.
     bindA (complete_last C ''absent'') (\<lambda>_.
     bindA (backend_reads (\<lambda>b. list_ex (\<lambda>a. \<not> bb_artifact_absent B a b) as \<or> \<not> bb_swapfile_absent B m b)) (\<lambda>present.
     bindA (whenA present (fail_transaction C B ''final exact-owned absence verification failed'' [])) (\<lambda>_.
     call_or_fail C B (bb_finalize_runtime_cleanup B m)))))))))"

definition baseline_authority :: "tx_codec \<Rightarrow> prepared_manifest \<Rightarrow> string \<Rightarrow> string \<Rightarrow> zram_baseline_evidence" where
  "baseline_authority C m archive raw = (let p = pm_payload m in
     \<lparr> zb_schema = ZRAM_BASELINE_EVIDENCE_V6, zb_validation_id = mp_validation_id p, zb_source_commit = mp_source_commit p,
       zb_source_state_sha256 = mp_source_state_sha256 p, zb_environment_sha256 = mp_material_environment_sha256 p,
       zb_topology_sha256 = bc_sha256 C (bc_topology C (mp_topology p)),
       zb_workload_sha256 = bc_sha256 C (bc_workload C (mp_workload p)), zb_real = True, zb_oom = False,
       zb_safety_failure = False, zb_cleanup_passed = True, zb_final_restore_passed = True,
       zb_archive_sha256 = archive, zb_raw_evidence_sha256 = raw, zb_workload_protocol = WORKLOAD_PROTOCOL_V6 \<rparr>)"

definition profile_authority :: "tx_codec \<Rightarrow> prepared_manifest \<Rightarrow> string \<Rightarrow> string \<Rightarrow> post_boot_summary \<Rightarrow> profile_evidence" where
  "profile_authority C m archive raw s = (let p = pm_payload m in
     \<lparr> pe_schema = PROFILE_BENCHMARK_EVIDENCE_V6, pe_validation_id = mp_validation_id p, pe_profile = ti_profile (mp_topology p),
       pe_source_commit = mp_source_commit p, pe_source_state_sha256 = mp_source_state_sha256 p,
       pe_environment_sha256 = mp_material_environment_sha256 p,
       pe_topology_sha256 = bc_sha256 C (bc_topology C (mp_topology p)),
       pe_workload_sha256 = bc_sha256 C (bc_workload C (mp_workload p)), pe_real = True, pe_oom = su_oom s,
       pe_safety_failure = su_safety_failure s, pe_cleanup_passed = True, pe_final_restore_passed = True,
       pe_write_budget_passed = su_write_budget_passed s, pe_backing_write_bytes = Some (su_backing_write_bytes s),
       pe_latency_ns = Some (su_latency_ns s), pe_archive_sha256 = archive, pe_raw_evidence_sha256 = raw,
       pe_workload_protocol = WORKLOAD_PROTOCOL_V6, pe_backing_write_confidence = su_backing_write_confidence s \<rparr>)"

definition require_some :: "string \<Rightarrow> 'a option \<Rightarrow> ('b, 'a) boot_op" where
  "require_some label v = lift_result (ok_or (BReadback label) v)"

definition persist_authority :: "tx_codec \<Rightarrow> 'b boot_backend \<Rightarrow> string \<Rightarrow> string \<Rightarrow> ('b, unit) boot_op" where
  "persist_authority C B name bytes =
     bindA (backend_call (BReadback ''persist same-host authority'') (bb_persist_evidence B name bytes)) (\<lambda>_.
     s_modify (tx_insert_hash C name bytes))"

definition publish_authority :: "tx_codec \<Rightarrow> 'b boot_backend \<Rightarrow> prepared_manifest \<Rightarrow> ('b, unit) boot_op" where
  "publish_authority C B m =
     bindA (s_get dt_payload) (\<lambda>p.
     bindA (require_some ''baseline raw evidence'' (map_of (tp_evidence_hashes p) ''zram-baseline-evidence-v2.json'')) (\<lambda>baseline_raw.
     bindA (require_some ''profile raw evidence'' (map_of (tp_evidence_hashes p) ''post-boot-evidence-v6.json'')) (\<lambda>profile_raw.
     bindA (require_some ''profile summary'' (tp_post_boot_summary p)) (\<lambda>summary.
     bindA (persist_authority C B ''same-host-zram-baseline-v2.json''
         (bc_zram_evidence C (baseline_authority C m (tp_manifest_sha256 p) baseline_raw))) (\<lambda>_.
     bindA (persist_authority C B ''same-host-profile-v6.json''
         (bc_profile_evidence C (profile_authority C m (tp_manifest_sha256 p) profile_raw summary))) (\<lambda>_.
     bindA (s_modify (tx_set C (\<lambda>p. p))) (\<lambda>_.
     bindA (transition_v6 C StRestored) (\<lambda>_.
     bindA (persist_or_fail B) (\<lambda>_ w.
     backend_call (BReadback ''seal evidence archive'') (bb_seal_archive B (snd w)) w)))))))))"

definition verify_then_cleanup_v6 :: "tx_codec \<Rightarrow> 'b boot_backend \<Rightarrow> prepared_manifest \<Rightarrow> ('b, unit) boot_op" where
  "verify_then_cleanup_v6 C B m =
     bindA (prove_baseline C B m) (\<lambda>_. bindA (remove_owned_state C B m) (\<lambda>_. publish_authority C B m))"

end
