(* ===== verification/Boot_Fake.thy ===== *)
theory Boot_Fake
  imports Boot_Lifecycle
begin

text \<open>
  The simulated lifecycle backend and the fixtures of the crate's own tests (module \<open>tests\<close> of
  \<open>tiering/src/boot_validation_v6.rs\<close>): the manifest, the preflight observation and \<open>FakeLifecycle\<close>. They
  instantiate the parameters of the model in the witnesses, with a codec that keeps what the
  contract looks at: digests are sixty-four hexadecimal digits.
\<close>

record fake_lifecycle =
  fl_persisted :: "boot_stage list"
  fl_artifacts :: "path_component list set"
  fl_swap :: bool
  fl_one_shot :: "string option"
  fl_wrong_one_shot_readback :: bool
  fl_fail_artifact_at :: "nat option"
  fl_artifact_calls :: nat
  fl_post :: "post_boot_observation option"
  fl_baseline :: "baseline_restore_observation option"
  fl_mutations :: nat

definition fake_lifecycle_default :: fake_lifecycle where
  "fake_lifecycle_default = \<lparr> fl_persisted = [], fl_artifacts = {}, fl_swap = False, fl_one_shot = None,
     fl_wrong_one_shot_readback = False, fl_fail_artifact_at = None, fl_artifact_calls = 0, fl_post = None,
     fl_baseline = None, fl_mutations = 0 \<rparr>"

definition fl_mutate :: "(fake_lifecycle \<Rightarrow> fake_lifecycle) \<Rightarrow> (string, fake_lifecycle, unit) eff" where
  "fl_mutate f b = (Ok (), f (b\<lparr> fl_mutations := fl_mutations b + 1 \<rparr>))"

definition fake_boot_backend :: "tx_codec \<Rightarrow> fake_lifecycle boot_backend" where
  "fake_boot_backend C = \<lparr>
     bb_persist_transaction = (\<lambda>t b. case tx_validate (tx_digest C) t of
        Inl _ \<Rightarrow> (Err ''payload integrity mismatch'', b)
      | Inr _ \<Rightarrow> (Ok (), b\<lparr> fl_persisted := fl_persisted b @ [tp_stage (dt_payload t)] \<rparr>)),
     bb_create_transaction_root = (\<lambda>_. fl_mutate (\<lambda>b. b)),
     bb_copy_prepared_manifest = (\<lambda>_. fl_mutate (\<lambda>b. b)),
     bb_persist_evidence = (\<lambda>_ _. ret ()),
     bb_create_swapfile = (\<lambda>m b. (Ok ((mp_swapfile (pm_payload m))\<lparr> si_uuid := Some ''owned-swap-uuid'' \<rparr>),
        b\<lparr> fl_mutations := fl_mutations b + 1, fl_swap := True \<rparr>)),
     bb_create_artifact = (\<lambda>a b. let b1 = b\<lparr> fl_artifact_calls := fl_artifact_calls b + 1, fl_mutations := fl_mutations b + 1 \<rparr> in
        if fl_fail_artifact_at b = Some (fl_artifact_calls b1) then (Err ''primary create failure'', b1)
        else (Ok (), b1\<lparr> fl_artifacts := insert (path_components (oa_path a)) (fl_artifacts b1) \<rparr>)),
     bb_stage_helper = (\<lambda>h b. (Ok (), b\<lparr> fl_artifacts := insert (path_components (sbp_destination h)) (fl_artifacts b) \<rparr>)),
     bb_staged_helper_matches = (\<lambda>h b. path_components (sbp_destination h) \<in> fl_artifacts b),
     bb_artifact_matches = (\<lambda>a b. path_components (oa_path a) \<in> fl_artifacts b),
     bb_artifact_absent = (\<lambda>a b. path_components (oa_path a) \<notin> fl_artifacts b),
     bb_sync_parents = (\<lambda>_. fl_mutate (\<lambda>b. b)),
     bb_remove_artifact = (\<lambda>a. fl_mutate (\<lambda>b. b\<lparr> fl_artifacts := fl_artifacts b - {path_components (oa_path a)} \<rparr>)),
     bb_remove_swapfile = (\<lambda>_. fl_mutate (\<lambda>b. b\<lparr> fl_swap := False \<rparr>)),
     bb_swapfile_absent = (\<lambda>_ b. \<not> fl_swap b),
     bb_finalize_runtime_cleanup = (\<lambda>_. ret ()),
     bb_set_one_shot = (\<lambda>e. fl_mutate (\<lambda>b. b\<lparr> fl_one_shot := Some e \<rparr>)),
     bb_read_one_shot = (\<lambda>b. if fl_wrong_one_shot_readback b then Ok (Some ''foreign.conf'') else Ok (fl_one_shot b)),
     bb_permanent_default = (\<lambda>_. Ok ''linux.conf''),
     bb_boot_order = (\<lambda>_. Ok [''0001'']),
     bb_current_boot_is_experimental = (\<lambda>_ _. False),
     bb_collect_zram_baseline = (\<lambda>m b. (Ok \<lparr> bm_schema = ZRAM_BASELINE_EVIDENCE_V6,
        bm_validation_id = mp_validation_id (pm_payload m), bm_boot_id = ''boot-a'', bm_zram = mp_protected_zram (pm_payload m),
        bm_zswap = mp_baseline_zswap (pm_payload m), bm_swaps = mp_baseline_swaps (pm_payload m),
        bm_workload_protocol = WORKLOAD_PROTOCOL_V6,
        bm_workload_sha256 = bc_sha256 C (bc_workload C (mp_workload (pm_payload m))),
        bm_bytes_touched = wc_bytes (mp_workload (pm_payload m)), bm_latency_ns = Some 1, bm_cgroup_oom_delta = Some 0,
        bm_cgroup_oom_kill_delta = Some 0, bm_content_verified = True, bm_cleanup_passed = True, bm_scope_absent = True,
        bm_production_activation = False \<rparr>, b)),
     bb_collect_post_boot = (\<lambda>_ b. (ok_or ''missing actual measurement'' (fl_post b), b)),
     bb_collect_baseline = (\<lambda>_ b. ok_or ''missing baseline'' (fl_baseline b)),
     bb_seal_archive = (\<lambda>_. ret ()) \<rparr>"

subsection \<open>Fixtures\<close>

definition hex64 :: "char \<Rightarrow> string" where
  "hex64 c = replicate 64 c"

definition fixture_observation :: "bool \<Rightarrow> preflight_observation" where
  "fixture_observation as_root = \<lparr>
     pf_schema = PREFLIGHT_SCHEMA_V6, pf_uid = (if as_root then 0 else 1000), pf_gid = (if as_root then 0 else 1000), pf_sudo_uid = (if as_root then Some 1000 else None),
     pf_sudo_gid = (if as_root then Some 1000 else None), pf_host_identity_sha256 = hex64 CHR ''4'', pf_source_matches = True, pf_binaries_match = True,
     pf_config_matches = True, pf_topology_matches = True, pf_boot_matches = True, pf_bootloader_type_matches = True,
     pf_bootloader_version_matches = True, pf_current_entry_semantics_match = True, pf_current_entry_hash_matches = True, pf_current_entry_path_matches = True,
     pf_default_entry_semantics_match = True, pf_default_entry_hash_matches = True, pf_default_entry_path_matches = True, pf_referenced_boot_files_match = True,
     pf_kernel_release_matches = True, pf_command_line_matches = True, pf_esp_device_matches = True, pf_esp_filesystem_matches = True,
     pf_esp_uuid_matches = True, pf_esp_mount_matches = True, pf_boot_order_matches = True, pf_one_shot_matches = True,
     pf_zram_matches = True, pf_zswap_matches = True, pf_parents_safe = True, pf_transaction_hierarchy_safe = True,
     pf_staged_source_binary_matches = True, pf_validation_destinations_absent = True, pf_esp_free_bytes = 2097152, pf_swap_free_bytes = 268435456,
     pf_package_update_absent = True, pf_secure_boot_compatible = True, pf_ac_power = None, pf_stale_state_absent = True,
     pf_validation_process_absent = True, pf_unrelated_mutation_absent = True, pf_mutation_count = 0, pf_ready = True \<rparr>"

definition fixture_id :: string where
  "fixture_id = ''phase6-sata-static-1''"

definition fixture_root :: string where
  "fixture_root = path_join TRANSACTION_ROOT_V6 fixture_id"

definition fixture_current :: boot_entry_identity where
  "fixture_current = \<lparr> en_id = ''linux.conf'', en_path = ''/boot/loader/entries/linux.conf'', en_sha256 = hex64 CHR ''a'',
     en_title = ''Linux'', en_linux_or_efi = ''/vmlinuz-linux'', en_initrds = [''/initramfs-linux.img''],
     en_options = ''root=UUID=x quiet'' \<rparr>"

definition fixture_marker :: string where
  "fixture_marker = ''nemor.phase6_validation='' @ fixture_id"

definition fixture_experimental :: boot_entry_identity where
  "fixture_experimental = \<lparr> en_id = ''nemor-phase6-'' @ fixture_id @ ''.conf'',
     en_path = path_join ENTRY_ROOT (''nemor-phase6-'' @ fixture_id @ ''.conf''), en_sha256 = hex64 CHR ''b'',
     en_title = ''Nemor validation'', en_linux_or_efi = en_linux_or_efi fixture_current, en_initrds = en_initrds fixture_current,
     en_options = ''root=UUID=x quiet '' @ fixture_marker @ '' zswap.enabled=1 systemd.wants=nemor-phase6-'' @ fixture_id @ ''.service'' \<rparr>"

definition fixture_topology :: topology_identity where
  "fixture_topology = \<lparr> ti_storage_profile_version = STORAGE_PROFILE_VERSION, ti_profile = SataSsd,
     ti_chain = [\<lparr> bl_path = ''/dev/sda2'', bl_kind = ''part'', bl_major = 8, bl_minor = 2, bl_parent = Some ''/dev/sda'' \<rparr>,
        \<lparr> bl_path = ''/dev/sda'', bl_kind = ''disk'', bl_major = 8, bl_minor = 0, bl_parent = None \<rparr>],
     ti_physical = \<lparr> pd_path = ''/dev/sda'', pd_major = 8, pd_minor = 0, pd_transport = ''ata'', pd_rotational = False,
        pd_model = ''Samsung'', pd_serial = Some ''serial'', pd_wwn = None, pd_capacity_bytes = 1000000000,
        pd_logical_block_size = 512, pd_physical_block_size = 4096 \<rparr>,
     ti_filesystem = \<lparr> fi_filesystem = ''btrfs'', fi_uuid_or_fsid = ''fsid'', fi_mount_source = ''/dev/sda2'',
        fi_mount_point = ''/'', fi_mount_id = 42, fi_device_major = 8, fi_device_minor = 2 \<rparr>,
     ti_composite = False, ti_ambiguous = False, ti_confidence = ''high'' \<rparr>"

definition fixture_zswap :: "string \<Rightarrow> (string \<times> string) list" where
  "fixture_zswap enabled = [(''accept_threshold_percent'', ''90''), (''compressor'', ''zstd''), (''enabled'', enabled),
     (''max_pool_percent'', ''20''), (''shrinker_enabled'', ''N''), (''zpool'', ''zsmalloc'')]"

definition fixture_validator :: binary_identity where
  "fixture_validator = \<lparr> bi_path = ''/opt/nemor-validator'', bi_sha256 = hex64 CHR ''2'',
     bi_embedded_commit = replicate 40 CHR ''a'' \<rparr>"

definition fixture_payload :: manifest_payload where
  "fixture_payload = \<lparr> mp_contract_version = BOOT_VALIDATION_CONTRACT_VERSION_V6, mp_rule_version = TIERING_RULE_VERSION,
     mp_validation_id = fixture_id, mp_prepared_uid = 1000, mp_prepared_gid = 1000,
     mp_source_commit = replicate 40 CHR ''a'', mp_source_state_sha256 = hex64 CHR ''1'',
     mp_binaries = [(''nemor-tiering-boot-validation'', fixture_validator)], mp_config_path = ''/etc/nemor.toml'',
     mp_config_sha256 = hex64 CHR ''3'', mp_material_environment_sha256 = hex64 CHR ''4'', mp_topology = fixture_topology,
     mp_baseline_swaps = [\<lparr> si_path = ''/dev/zram0'', si_kind = ''partition'', si_size_bytes = 8589934592, si_priority = 100,
        si_uuid = None, si_active = True \<rparr>],
     mp_protected_zram = \<lparr> zi_device = ''/dev/zram0'', zi_provider = ''systemd-zram-generator'', zi_active = True,
        zi_priority = 100, zi_disksize_bytes = 8589934592, zi_compressor = ''zstd'', zi_memory_limit_bytes = 0,
        zi_unit = ''dev-zram0.swap'' \<rparr>,
     mp_baseline_zswap = fixture_zswap ''N'', mp_experimental_zswap = fixture_zswap ''Y'',
     mp_boot = \<lparr> bo_bootloader = ''systemd-boot-type1'', bo_bootloader_version = ''systemd 261'',
        bo_current_entry = fixture_current, bo_default_entry = fixture_current, bo_boot_order = [''0001''],
        bo_prior_one_shot = None, bo_esp_mount = ''/boot'', bo_esp_device = ''/dev/sda1'', bo_esp_filesystem = ''vfat'',
        bo_esp_uuid = ''ESP'', bo_esp_mount_id = 7, bo_esp_device_major = 8, bo_esp_device_minor = 1,
        bo_secure_boot = ''disabled'', bo_kernel_release = ''linux'',
        bo_referenced_files = [\<lparr> rb_path = ''/vmlinuz-linux'', rb_sha256 = hex64 CHR ''5'' \<rparr>,
           \<lparr> rb_path = ''/initramfs-linux.img'', rb_sha256 = hex64 CHR ''6'' \<rparr>],
        bo_current_command_line = en_options fixture_current \<rparr>,
     mp_experimental_entry = fixture_experimental, mp_validation_marker = fixture_marker,
     mp_swapfile = \<lparr> si_path = path_join fixture_root ''backing.swap'', si_kind = ''file'', si_size_bytes = 67108864,
        si_priority = 110, si_uuid = None, si_active = False \<rparr>,
     mp_owned_artifacts = [], mp_transaction_root = fixture_root,
     mp_workload = \<lparr> wc_protocol = WORKLOAD_PROTOCOL_V6, wc_seed = 42, wc_bytes = 16777216, wc_iterations = 2,
        wc_timeout_seconds = 60, wc_maximum_write_bytes = 67108864 \<rparr>,
     mp_staged_helper = \<lparr> sbp_source = fixture_validator,
        sbp_destination = path_join fixture_root ''bin/nemor-tiering-boot-validation'', sbp_destination_mode = 493,
        sbp_destination_uid = 0, sbp_destination_gid = 0, sbp_require_single_link = True, sbp_source_uid = 1000,
        sbp_source_gid = 1000, sbp_source_mode = 493, sbp_source_link_count = 1, sbp_source_device = 8, sbp_source_inode = 42 \<rparr>,
     mp_recovery_entry = ''linux.conf'', mp_production_activation = False \<rparr>"

definition fixture_manifest :: "boot_codec \<Rightarrow> prepared_manifest" where
  "fixture_manifest C = (let entry_content = render_type1_entry_v6 fixture_experimental;
       p = fixture_payload\<lparr> mp_experimental_entry := fixture_experimental\<lparr> en_sha256 := bc_sha256 C entry_content \<rparr> \<rparr>;
       unit_content = render_validation_unit_v6 p (sbp_destination (mp_staged_helper p)) in
     manifest_seal C (p\<lparr> mp_owned_artifacts :=
       [\<lparr> oa_kind = Type1Entry, oa_path = en_path fixture_experimental, oa_sha256 = bc_sha256 C entry_content, oa_mode = 384,
          oa_owner_uid = 0, oa_owner_gid = 0, oa_content = entry_content \<rparr>,
        \<lparr> oa_kind = ValidationUnit, oa_path = path_join UNIT_ROOT (''nemor-phase6-'' @ fixture_id @ ''.service''),
          oa_sha256 = bc_sha256 C unit_content, oa_mode = 420, oa_owner_uid = 0, oa_owner_gid = 0, oa_content = unit_content \<rparr>,
        \<lparr> oa_kind = HelperBinary, oa_path = sbp_destination (mp_staged_helper p), oa_sha256 = bi_sha256 fixture_validator,
          oa_mode = 493, oa_owner_uid = 0, oa_owner_gid = 0, oa_content = [] \<rparr>] \<rparr>))"

text \<open>A codec for the witnesses: the digest is the serialisation cut or padded to sixty-four digits, and a
  transaction is serialised as its current boot identifier.\<close>

definition fixture_codec :: tx_codec where
  "fixture_codec = \<lparr> bc_sha256 = (\<lambda>s. take 64 (map (\<lambda>c. if is_ascii_hexdigit c then c else CHR ''0'') s @ hex64 CHR ''0'')),
     bc_payload = (\<lambda>_. ''1''), bc_manifest = (\<lambda>_. ''2''), bc_topology = (\<lambda>_. ''3''), bc_workload = (\<lambda>_. ''4''),
     bc_swap = (\<lambda>_. ''5''), bc_entry = (\<lambda>_. ''6''), bc_string = (\<lambda>_. ''7''), bc_tx_payload = tp_current_boot_id,
     bc_preflight = (\<lambda>_. ''8''), bc_measurement = (\<lambda>_. ''9''), bc_apply_evidence = (\<lambda>_. ''a''),
     bc_one_shot_evidence = (\<lambda>_ _ _ _. ''b''), bc_post_boot = (\<lambda>_. ''c''), bc_restore = (\<lambda>_. ''d''),
     bc_zram_evidence = (\<lambda>_. ''e''), bc_profile_evidence = (\<lambda>_. ''f'') \<rparr>"

abbreviation fixture :: prepared_manifest where
  "fixture \<equiv> fixture_manifest (boot_codec.truncate fixture_codec)"

lemma fixture_fields [simp]:
  "mp_topology (pm_payload fixture) = fixture_topology" "mp_staged_helper (pm_payload fixture) = mp_staged_helper fixture_payload"
  "mp_transaction_root (pm_payload fixture) = fixture_root" "mp_validation_id (pm_payload fixture) = fixture_id"
  "mp_baseline_swaps (pm_payload fixture) = mp_baseline_swaps fixture_payload" "mp_swapfile (pm_payload fixture) = mp_swapfile fixture_payload"
  "mp_protected_zram (pm_payload fixture) = mp_protected_zram fixture_payload" "mp_baseline_zswap (pm_payload fixture) = fixture_zswap ''N''"
  "mp_experimental_zswap (pm_payload fixture) = fixture_zswap ''Y''" "mp_boot (pm_payload fixture) = mp_boot fixture_payload"
  "mp_workload (pm_payload fixture) = mp_workload fixture_payload" "mp_recovery_entry (pm_payload fixture) = ''linux.conf''"
  "\<not> mp_production_activation (pm_payload fixture)" "mp_validation_marker (pm_payload fixture) = fixture_marker"
  "mp_binaries (pm_payload fixture) = [(''nemor-tiering-boot-validation'', fixture_validator)]"
  by (simp_all add: fixture_manifest_def manifest_seal_def Let_def fixture_payload_def)

lemma fixture_id_valid: "valid_id fixture_id" "length fixture_id = 20"
  by code_simp+

lemma hexdigits: "is_ascii_hexdigit CHR ''1''" "is_ascii_hexdigit CHR ''2''" "is_ascii_hexdigit CHR ''3''"
  "is_ascii_hexdigit CHR ''4''" "is_ascii_hexdigit CHR ''5''" "is_ascii_hexdigit CHR ''6''" "is_ascii_hexdigit CHR ''a''"
  by code_simp+

lemma hex64_sha256: "is_ascii_hexdigit c \<Longrightarrow> is_sha256 (hex64 c)"
  by (simp add: is_sha256_def hex64_def list_all_iff)

lemma fixture_identity: "first_error (identity_checks (boot_codec.truncate fixture_codec) fixture) = Ok ()"
proof -
  have "starts_with ''/etc/nemor.toml'' ''/''" "starts_with ''/opt/nemor-validator'' ''/''" by code_simp+
  then show ?thesis
    by (simp add: identity_checks_def Let_def fixture_manifest_def manifest_seal_def fixture_payload_def
        fixture_id_valid hex64_sha256 hexdigits is_commit_def list_all_iff fixture_marker_def fixture_validator_def)
qed

lemma fixture_helper: "\<not> staged_helper_bad (pm_payload fixture) fixture_validator"
proof -
  have "and (493 :: u32) 18 = 0" by code_simp
  then show ?thesis
    by (simp add: staged_helper_bad_def Let_def fixture_payload_def same_binary_def path_eq_def)
qed

lemma fixture_topology_ok: "topology_validate fixture_topology = Ok ()"
proof -
  have "trim ''fsid'' \<noteq> []" by code_simp
  then show ?thesis
    by (simp add: topology_validate_def fixture_topology_def boot_supported_def nonempty_def transport_ok_def path_eq_def)
qed

lemma fixture_swaps: "\<not> baseline_swaps_bad (pm_payload fixture)" "validate_swap (pm_payload fixture) = Ok ()"
  "zswap_validate (fixture_zswap ''N'') = Ok ()" "validate_experimental_zswap (fixture_zswap ''Y'') = Ok ()"
proof -
  have "path_components ''/dev/zram0'' \<noteq> path_components (path_join fixture_root ''backing.swap'')" by code_simp
  then show "\<not> baseline_swaps_bad (pm_payload fixture)" "validate_swap (pm_payload fixture) = Ok ()"
    by (simp_all add: baseline_swaps_bad_def validate_swap_def Let_def fixture_payload_def path_eq_def)
  show "zswap_validate (fixture_zswap ''N'') = Ok ()" "validate_experimental_zswap (fixture_zswap ''Y'') = Ok ()"
    by (simp_all add: zswap_validate_def validate_experimental_zswap_def fixture_zswap_def ZSWAP_PARAMETERS_def)
qed

lemma str_contains_middle: "str_contains (a @ n @ b) n"
  by (auto simp: str_contains_iff)

lemma fixture_options:
  "str_contains (en_options fixture_experimental) fixture_marker"
  "str_contains (en_options fixture_experimental) ''zswap.enabled=1''"
  "str_contains (en_options fixture_experimental) (''systemd.wants=nemor-phase6-'' @ fixture_id @ ''.service'')"
proof -
  let ?o = "en_options fixture_experimental" and ?w = "''systemd.wants=nemor-phase6-'' @ fixture_id @ ''.service''"
  have "?o = ''root=UUID=x quiet '' @ fixture_marker @ ('' zswap.enabled=1 '' @ ?w)"
    by (simp add: fixture_experimental_def)
  then show "str_contains ?o fixture_marker" by (simp only: str_contains_middle)
  have "?o = (''root=UUID=x quiet '' @ fixture_marker @ '' '') @ ''zswap.enabled=1'' @ ('' '' @ ?w)"
    by (simp add: fixture_experimental_def)
  then show "str_contains ?o ''zswap.enabled=1''" by (simp only: str_contains_middle)
  have "?o = (''root=UUID=x quiet '' @ fixture_marker @ '' zswap.enabled=1 '') @ ?w @ []"
    by (simp add: fixture_experimental_def)
  then show "str_contains ?o ?w" by (simp only: str_contains_middle)
qed

abbreviation fixture_sha :: "string \<Rightarrow> string" where
  "fixture_sha \<equiv> bc_sha256 fixture_codec"

lemma fixture_entry [simp]:
  "mp_experimental_entry (pm_payload fixture) =
     fixture_experimental\<lparr> en_sha256 := fixture_sha (render_type1_entry_v6 fixture_experimental) \<rparr>"
  by (simp add: fixture_manifest_def manifest_seal_def Let_def fixture_payload_def boot_codec.defs)

definition fixture_unit :: string where
  "fixture_unit = render_validation_unit_v6 (pm_payload fixture) (sbp_destination (mp_staged_helper fixture_payload))"

definition fixture_unit_path :: string where
  "fixture_unit_path = path_join UNIT_ROOT (''nemor-phase6-'' @ fixture_id @ ''.service'')"

lemma fixture_artifacts:
  "mp_owned_artifacts (pm_payload fixture) =
     [\<lparr> oa_kind = Type1Entry, oa_path = en_path fixture_experimental,
        oa_sha256 = fixture_sha (render_type1_entry_v6 fixture_experimental), oa_mode = 384,
        oa_owner_uid = 0, oa_owner_gid = 0, oa_content = render_type1_entry_v6 fixture_experimental \<rparr>,
      \<lparr> oa_kind = ValidationUnit, oa_path = fixture_unit_path,
        oa_sha256 = fixture_sha fixture_unit, oa_mode = 420, oa_owner_uid = 0, oa_owner_gid = 0, oa_content = fixture_unit \<rparr>,
      \<lparr> oa_kind = HelperBinary, oa_path = sbp_destination (mp_staged_helper fixture_payload), oa_sha256 = bi_sha256 fixture_validator,
        oa_mode = 493, oa_owner_uid = 0, oa_owner_gid = 0, oa_content = [] \<rparr>]"
  by (simp add: fixture_manifest_def manifest_seal_def Let_def fixture_unit_def fixture_unit_path_def render_validation_unit_v6_def
      fixture_payload_def boot_codec.defs)

lemma fixture_boot: "validate_boot (pm_payload fixture) = Ok ()"
proof -
  have "render_type1_entry_v6 (fixture_experimental\<lparr> en_sha256 := d \<rparr>) = render_type1_entry_v6 fixture_experimental" for d
    by (simp add: render_type1_entry_v6_def)
  then show ?thesis
    using fixture_options
    by (simp add: validate_boot_def Let_def fixture_artifacts find_artifact_def fixture_unit_def [symmetric] path_eq_def)
      (simp add: fixture_experimental_def fixture_current_def fixture_payload_def hex64_sha256 hexdigits ENTRY_ROOT_def)
qed

lemma fixture_paths:
  "path_components (en_path fixture_experimental) = phase6_path fixture_id Type1Entry"
  "path_components fixture_unit_path = phase6_path fixture_id ValidationUnit"
  "path_components (sbp_destination (mp_staged_helper fixture_payload)) = phase6_path fixture_id HelperBinary"
proof -
  have "path_components (path_join ENTRY_ROOT (''nemor-phase6-'' @ fixture_id @ ''.conf'')) = phase6_path fixture_id Type1Entry"
    by code_simp
  then show "path_components (en_path fixture_experimental) = phase6_path fixture_id Type1Entry"
    by (simp add: fixture_experimental_def)
  show "path_components fixture_unit_path = phase6_path fixture_id ValidationUnit"
    by code_simp
  have "path_components (path_join fixture_root ''bin/nemor-tiering-boot-validation'') = phase6_path fixture_id HelperBinary"
    by code_simp
  then show "path_components (sbp_destination (mp_staged_helper fixture_payload)) = phase6_path fixture_id HelperBinary"
    by (simp add: fixture_payload_def)
qed

lemma fixture_owned: "validate_artifacts (boot_codec.truncate fixture_codec) (pm_payload fixture) {}
    (mp_owned_artifacts (pm_payload fixture)) = Ok ()"
proof -
  have "path_components ''/usr/lib'' = [RootDir, NormalPart ''usr'', NormalPart ''lib'']" by code_simp
  moreover have "starts_with (en_path fixture_experimental) ''/''"
    "starts_with fixture_unit_path ''/''"
    "starts_with (sbp_destination (mp_staged_helper fixture_payload)) ''/''"
    by (auto intro!: absolute_components simp: fixture_paths phase6_path_def)
  moreover have "owned_path_of (pm_payload fixture) ValidationUnit = fixture_unit_path"
    "owned_path_of (pm_payload fixture) Type1Entry = en_path fixture_experimental"
    "owned_path_of (pm_payload fixture) HelperBinary = sbp_destination (mp_staged_helper fixture_payload)"
    by (simp_all add: owned_path_of_def fixture_unit_path_def fixture_payload_def)
  moreover have "bc_sha256 (boot_codec.truncate fixture_codec) = fixture_sha" by (simp add: boot_codec.defs)
  ultimately show ?thesis
    by (simp add: fixture_artifacts validate_owned_path_def path_starts_with_def fixture_paths path_eq_def
        phase6_path_def)
qed

lemma fixture_valid: "manifest_validate (boot_codec.truncate fixture_codec) fixture = Ok ()"
proof -
  have "path_eq fixture_root (path_join TRANSACTION_ROOT_V6 fixture_id)" by (simp add: fixture_root_def path_eq_def)
  moreover have "mp_recovery_entry (pm_payload fixture) = en_id (bo_current_entry (mp_boot fixture_payload))"
    by (simp add: fixture_payload_def fixture_current_def)
  moreover have "wc_protocol (mp_workload fixture_payload) = WORKLOAD_PROTOCOL_V6" "wc_bytes (mp_workload fixture_payload) = 16777216"
    "wc_iterations (mp_workload fixture_payload) = 2" "wc_timeout_seconds (mp_workload fixture_payload) = 60"
    "wc_maximum_write_bytes (mp_workload fixture_payload) = 67108864" by (simp_all add: fixture_payload_def)
  moreover have "map_of (fixture_zswap ''Y'') n = map_of (fixture_zswap ''N'') n" if "n \<noteq> ''enabled''" for n
    using that by (simp add: fixture_zswap_def)
  ultimately show ?thesis
    by (simp add: manifest_validate_def Let_def fixture_identity fixture_helper fixture_topology_ok fixture_swaps fixture_boot
        fixture_owned)
qed

text \<open>C14. A valid manifest is confined. Whatever path strings it carries, with doubled slashes or dots, every file
  it owns lies, component by component, at the one place its kind and the validation identifier
  determine, no two files share a place and all belong to the superuser; the swapfile is the one in
  the transaction's directory and is none of the host's active swaps; and the entry to return to is the
  entry booted when the manifest was prepared.\<close>

theorem boot_manifest_confined:
  assumes "manifest_validate C m = Ok ()"
  shows "let p = pm_payload m in (\<forall>a \<in> set (mp_owned_artifacts p). path_components (oa_path a) = phase6_path (mp_validation_id p) (oa_kind a) \<and>
       oa_owner_uid a = 0 \<and> oa_owner_gid a = 0) \<and>
     distinct (map (\<lambda>a. path_components (oa_path a)) (mp_owned_artifacts p)) \<and>
     path_components (si_path (mp_swapfile p)) = phase6_swapfile (mp_validation_id p) \<and>
     (\<forall>s \<in> set (mp_baseline_swaps p). si_active s \<and> path_components (si_path s) \<noteq> phase6_swapfile (mp_validation_id p)) \<and>
     mp_recovery_entry p = en_id (bo_current_entry (mp_boot p)) \<and> \<not> mp_production_activation p"
proof -
  let ?p = "pm_payload m"
  note parts = manifest_validate_parts [OF assms]
  note paths = manifest_paths [OF assms]
  have "\<forall>s \<in> set (mp_baseline_swaps ?p). si_active s \<and> \<not> path_eq (si_path s) (si_path (mp_swapfile ?p))"
    using parts(4) by (intro baseline_swap_accepted) (auto simp: baseline_swaps_bad_def Let_def)
  then show ?thesis
    using paths validate_artifacts_Ok [OF parts(6)] parts(7) parts(8) by (auto simp: path_eq_def Let_def)
qed

theorem boot_manifest_confined_witness:
  "path_components (si_path (mp_swapfile (pm_payload fixture))) = phase6_swapfile fixture_id \<and>
   mp_recovery_entry (pm_payload fixture) = ''linux.conf''"
  using boot_manifest_confined [OF fixture_valid] by (simp add: Let_def fixture_payload_def fixture_current_def)

subsection \<open>A run of the fixtures\<close>

lemma tx_validate_set [simp]:
  "dt_schema t = DURABLE_TRANSACTION_SCHEMA_V6 \<Longrightarrow> tx_validate (tx_digest C) (tx_set C f t) = Ok ()"
  by (simp add: tx_validate_def tx_set_def)

lemma dt_schema_tx [simp]: "dt_schema (tx_set C f t) = dt_schema t" "dt_schema (tx_insert_hash C n x t) = dt_schema t"
  "dt_schema (tx_seal C p) = DURABLE_TRANSACTION_SCHEMA_V6" "dt_payload (tx_seal C p) = p"
  "dt_payload (tx_set C f t) = f (dt_payload t)"
  by (simp_all add: tx_set_def tx_insert_hash_def tx_seal_def)

lemma tx_validate_seal [simp]: "tx_validate (tx_digest C) (tx_seal C p) = Ok ()"
  by (simp add: tx_validate_def tx_seal_def)

lemma fixture_preflight: "validate_preflight_v6 (boot_codec.truncate fixture_codec) fixture (fixture_observation True) True = Ok ()"
proof -
  have "derived_preflight_ready_v6 fixture (fixture_observation True)"
    by (simp add: derived_preflight_ready_v6_def fixture_observation_def fixture_payload_def sat_add_def)
  moreover have "mp_material_environment_sha256 (pm_payload fixture) = hex64 CHR ''4''" "mp_prepared_uid (pm_payload fixture) = 1000"
    "mp_prepared_gid (pm_payload fixture) = 1000"
    by (simp_all add: fixture_manifest_def manifest_seal_def Let_def fixture_payload_def)
  ultimately show ?thesis
    by (simp add: validate_preflight_v6_def fixture_valid fixture_observation_def)
qed

lemmas boot_eval = bindA_def ret_def throw_def whenA_def s_op_def s_modify_def s_get_def transition_v6_def tx_transition_def
  record_intent_def tx_record_intent_def complete_last_def tx_complete_last_def backend_call_def persist_or_fail_def
  call_or_fail_def backend_reads_def lift_result_def persist_evidence_def tx_evidence_def

lemma fixture_measured:
  "\<exists>t b. initialize_and_measure_baseline_v6 fixture_codec (fake_boot_backend fixture_codec) fixture (fixture_observation True)
     ''boot-a'' fake_lifecycle_default = (Ok t, b)"
proof -
  have w: "is_sha256 (fixture_sha (bc_workload fixture_codec x))" for x
    by (simp add: fixture_codec_def hex64_def is_sha256_def list_all_iff) code_simp
  have z: "same_zram x x" "list_all2 same_swap xs xs" for x xs
    by (auto simp: same_zram_def path_eq_def same_swap_def list_all2_refl)
  have n: "wc_bytes (mp_workload fixture_payload) \<noteq> 0" by (simp add: fixture_payload_def)
  show ?thesis
    by (simp add: initialize_and_measure_baseline_v6_def fixture_preflight tx_new_def fixture_valid measure_baseline_def Let_def
      boot_eval fake_boot_backend_def fl_mutate_def fake_lifecycle_default_def legal_transition_v6_def baseline_rejected_def
      tx_insert_hash_def w z n)
qed

text \<open>A sealed transaction of the fixture in a given stage.\<close>

definition fixture_tx :: "boot_stage \<Rightarrow> durable_transaction" where
  "fixture_tx s = tx_seal fixture_codec \<lparr> tp_validation_id = fixture_id, tp_manifest_sha256 = hex64 CHR ''2'', tp_stage = s,
     tp_baseline_boot_id = ''a'', tp_current_boot_id = ''a'', tp_artifact_registry = [], tp_swapfile_registry = [],
     tp_unit_registry = [], tp_transient_unit_registry = [], tp_applied_swap_identity = None, tp_evidence_hashes = [],
     tp_mutation_records = [], tp_primary_error = None, tp_failed_from_stage = None, tp_secondary_errors = [],
     tp_recovery_state = ''not_required'', tp_idempotence_verified = False, tp_activation_parameter_index = 0,
     tp_original_primary_error = None, tp_terminal_archive_sha256 = None, tp_post_boot_summary = None \<rparr>"

end
