(* ===== verification/Boot_Stages.thy ===== *)
theory Boot_Stages
  imports Boot_Fake
begin

text \<open>
  The lifecycle operations as a refinement of the stage graph. An invariant of the transaction
  that its elementary updates keep is kept by every operation, on success and on every error path
  (locale \<open>tx_invariant\<close>). Instantiated with the stages reachable by legal transitions it says that the
  operations only walk along the graph; with the names under which evidence is filed it says
  which evidence a transaction can have.
\<close>

abbreviation tx_stage :: "durable_transaction \<Rightarrow> boot_stage" where
  "tx_stage t \<equiv> tp_stage (dt_payload t)"

definition EVIDENCE_NAMES :: "string list" where
  "EVIDENCE_NAMES = [''root-preflight-v6.json'', ''zram-baseline-evidence-v4.json'', ''apply-evidence-v6.json'',
     ''one-shot-evidence-v6.json'', ''activation-evidence-v6.json'', ''post-boot-evidence-v6.json'',
     ''baseline-restore-evidence-v6.json'', ''same-host-zram-baseline-v2.json'', ''same-host-profile-v6.json'',
     ''recovery-evidence-v6.json'']"

lemma s_op_triple: "(\<And>t. P t \<Longrightarrow> case f t of (Inl _, t') \<Rightarrow> E t' | (Inr x, t') \<Rightarrow> Q x t') \<Longrightarrow>
    triple (\<lambda>w. P (snd w)) (s_op f) (\<lambda>x w. Q x (snd w)) (\<lambda>w. E (snd w))"
  by (fastforce simp: triple_def s_op_def split: prod.splits sum.splits)

locale tx_invariant =
  fixes C :: tx_codec
    and I :: "durable_transaction \<Rightarrow> bool"
  assumes stage_step: "I t \<Longrightarrow> legal_transition_v6 (tx_stage t) s \<Longrightarrow> I (tx_set C (\<lambda>p. p\<lparr> tp_stage := s \<rparr>) t)"
    and failing: "I t \<Longrightarrow> I (tx_set C (\<lambda>p. p\<lparr> tp_failed_from_stage := Some (tp_stage p), tp_primary_error := Some primary,
            tp_secondary_errors := tp_secondary_errors p @ secondary, tp_stage := StFailed \<rparr>) t)"
    and records: "I t \<Longrightarrow> I (tx_set C (\<lambda>p. p\<lparr> tp_mutation_records := f p \<rparr>) t)"
    and applied_swap: "I t \<Longrightarrow> I (tx_set C (\<lambda>p. p\<lparr> tp_applied_swap_identity := x \<rparr>) t)"
    and summary: "I t \<Longrightarrow> I (tx_set C (\<lambda>p. p\<lparr> tp_post_boot_summary := s0 \<rparr>) t)"
    and resealed: "I t \<Longrightarrow> I (tx_set C (\<lambda>p. p) t)"
    and evidence: "I t \<Longrightarrow> name \<in> set EVIDENCE_NAMES \<Longrightarrow> I (tx_insert_hash C name bytes t)"
begin

definition keeps_tx :: "('e, 'b \<times> durable_transaction, 'a) eff \<Rightarrow> bool" where
  "keeps_tx m \<longleftrightarrow> triple (\<lambda>w. I (snd w)) m (\<lambda>_ w. I (snd w)) (\<lambda>w. I (snd w))"

lemma keeps_tx_run: "keeps_tx m \<Longrightarrow> I (snd w) \<Longrightarrow> m w = (r, w') \<Longrightarrow> I (snd w')"
  by (cases r) (auto simp: keeps_tx_def dest: triple_Ok triple_Err)

lemma keeps_runD: "keeps_tx m \<Longrightarrow> m (b, t) = (r, (b', t')) \<Longrightarrow> I t \<Longrightarrow> I t'"
  using keeps_tx_run [of m "(b, t)" r "(b', t')"] by simp

lemma keeps_tx_bind: "keeps_tx m \<Longrightarrow> (\<And>x. keeps_tx (f x)) \<Longrightarrow> keeps_tx (bindA m f)"
  unfolding keeps_tx_def by (rule triple_bind)

lemma keeps_when: "keeps_tx m \<Longrightarrow> keeps_tx (whenA c m)"
  unfolding keeps_tx_def by (rule triple_when) auto

lemma keepsI: "(\<And>w r w'. I (snd w) \<Longrightarrow> m w = (r, w') \<Longrightarrow> I (snd w')) \<Longrightarrow> keeps_tx m"
  unfolding keeps_tx_def by (rule tripleI) blast+

lemma keeps_steps:
  "keeps_tx (transition_v6 C s)" "keeps_tx (record_intent C operation path)" "keeps_tx (complete_last C digest)"
  "keeps_tx (backend_call e f)" "keeps_tx (persist_or_fail B)" "keeps_tx (fail_transaction C B primary secondary)"
  "keeps_tx (backend_reads g)" "keeps_tx (lift_result r)" "keeps_tx (throw e9)" "keeps_tx (ret x)"
  "keeps_tx (s_get h)" "keeps_tx (\<lambda>w. (r2 w, w))"
  "keeps_tx (s_modify (tx_set C (\<lambda>p. p)))" "keeps_tx (s_modify (tx_set C (\<lambda>p. p\<lparr> tp_applied_swap_identity := x2 \<rparr>)))"
  "keeps_tx (s_modify (tx_set C (\<lambda>p. p\<lparr> tp_post_boot_summary := s0 \<rparr>)))"
  by (rule keepsI; force simp: transition_v6_def tx_transition_def record_intent_def tx_record_intent_def complete_last_def
      tx_complete_last_def backend_call_def persist_or_fail_def fail_transaction_def backend_reads_def lift_result_def
      s_op_def s_modify_def s_get_def throw_def ret_def Let_def stage_step failing records resealed applied_swap summary
      split: prod.splits sum.splits if_splits)+

lemma keeps_call_or_fail: "keeps_tx (call_or_fail C B f)"
  by (rule keepsI) (auto simp: call_or_fail_def split: prod.splits sum.splits dest: keeps_runD [OF keeps_steps(6)])

lemma keeps_after_rollback: "keeps_tx (fail_after_rollback C B m created secondary primary)"
  by (rule keepsI) (auto simp: fail_after_rollback_def split: prod.splits dest: keeps_runD [OF keeps_steps(6)])

lemma keeps_evidence: "name \<in> set EVIDENCE_NAMES \<Longrightarrow> keeps_tx (persist_evidence C B label name bytes)"
  unfolding persist_evidence_def
  by (rule keeps_tx_bind [OF keeps_steps(4)], rule keepsI) (auto simp: tx_evidence_def evidence resealed)

lemma keeps_authority: "name \<in> set EVIDENCE_NAMES \<Longrightarrow> keeps_tx (persist_authority C B name bytes)"
  unfolding persist_authority_def
  by (rule keeps_tx_bind [OF keeps_steps(4)], rule keepsI) (auto simp: evidence)

lemma keeps_cases:
  "(\<And>e. keeps_tx (h e)) \<Longrightarrow> keeps_tx (\<lambda>w. case r of Inl e \<Rightarrow> h e w | Inr x \<Rightarrow> (Ok (g x), w))"
  "(\<And>es. keeps_tx (k es)) \<Longrightarrow> keeps_tx (\<lambda>w. case q (fst w) of (es, b) \<Rightarrow> k es (b, snd w))"
  "keeps_tx k2 \<Longrightarrow> keeps_tx (\<lambda>w. if c w then (Ok y, w) else k2 w)"
  "keeps_tx k2 \<Longrightarrow> keeps_tx (\<lambda>w. if c2 then k2 w else (Ok y, w))"
  "keeps_tx (\<lambda>w. case r3 w of Inl e \<Rightarrow> (Err e2, w) | Inr y \<Rightarrow> (Ok y, w))"
  "keeps_tx (\<lambda>w. backend_call e3 (k3 w) w)"
proof goal_cases
  case 1
  then show ?case by (intro keepsI) (auto split: prod.splits sum.splits dest: keeps_runD [OF 1])
next
  case 2
  then show ?case by (intro keepsI) (auto split: prod.splits if_splits dest: keeps_runD [OF 2])
next
  case 3
  then show ?case by (intro keepsI) (auto split: if_splits dest: keeps_runD [OF 3])
next
  case 4
  then show ?case by (intro keepsI) (auto split: if_splits dest: keeps_runD [OF 4])
next
  case 5
  show ?case by (intro keepsI) (auto split: sum.splits)
next
  case 6
  show ?case by (intro keepsI) (auto simp: backend_call_def split: prod.splits sum.splits)
qed

lemmas keeps_intros = keeps_tx_bind keeps_when keeps_steps keeps_call_or_fail keeps_after_rollback keeps_evidence
  keeps_authority keeps_cases

lemma keeps_apply_artifacts: "keeps_tx (apply_artifacts C B m completed as)"
  by (induction as arbitrary: completed)
    (auto simp: apply_artifact_def intro!: keeps_intros)

lemma keeps_cleanup: "keeps_tx (cleanup_artifacts C B as)"
  by (induction as) (auto intro!: keeps_intros)

lemma keeps_operations:
  "keeps_tx (measure_baseline C B m preflight)" "keeps_tx (apply_exact_transaction_v6 C B m)"
  "keeps_tx (select_exact_one_shot_v6 C B m)" "keeps_tx (collect_and_validate_post_boot_v6 C B m)"
  "keeps_tx (select_baseline_rollback_v6 C B m)" "keeps_tx (verify_then_cleanup_v6 C B m)"
  unfolding measure_baseline_def apply_exact_transaction_v6_def apply_swapfile_v6_def select_exact_one_shot_v6_def
    collect_and_validate_post_boot_v6_def select_baseline_rollback_v6_def verify_then_cleanup_v6_def prove_baseline_def
    remove_owned_state_def publish_authority_def require_some_def Let_def
  by (auto intro!: keeps_intros keeps_apply_artifacts keeps_cleanup simp: EVIDENCE_NAMES_def)

end

subsection \<open>The stage graph\<close>

lemma tx_insert_hash_stage [simp]: "tx_stage (tx_insert_hash C name bytes t) = tx_stage t"
  by (simp add: tx_insert_hash_def)

interpretation graph: tx_invariant C "\<lambda>t. legal_transition_v6\<^sup>*\<^sup>* s (tx_stage t)" for C s
  by unfold_locales (auto simp: legal_transition_v6_def intro: rtranclp.rtrancl_into_rtrancl)

datatype lifecycle_step = StepApply | StepOneShot | StepPostBoot | StepRollback | StepCleanup

definition run_lifecycle_step :: "tx_codec \<Rightarrow> 'b boot_backend \<Rightarrow> prepared_manifest \<Rightarrow> lifecycle_step \<Rightarrow> ('b, unit) boot_op" where
  "run_lifecycle_step C B m st = (case st of
     StepApply \<Rightarrow> apply_exact_transaction_v6 C B m
   | StepOneShot \<Rightarrow> select_exact_one_shot_v6 C B m
   | StepPostBoot \<Rightarrow> bindA (collect_and_validate_post_boot_v6 C B m) (\<lambda>_. ret ())
   | StepRollback \<Rightarrow> select_baseline_rollback_v6 C B m
   | StepCleanup \<Rightarrow> verify_then_cleanup_v6 C B m)"

text \<open>The abstract specification of a command: the stages it may start from and the stage it ends in.\<close>

definition step_from :: "lifecycle_step \<Rightarrow> boot_stage \<Rightarrow> bool" where
  "step_from st s \<longleftrightarrow> (case st of
     StepApply \<Rightarrow> s = StBaselineMeasured
   | StepOneShot \<Rightarrow> s = StApplied
   | StepPostBoot \<Rightarrow> s = StActivationVerified
   | StepRollback \<Rightarrow> legal_transition_v6 s StBaselineSelecting
   | StepCleanup \<Rightarrow> s = StBaselineSelected \<or> s = StBaselineBoot)"

definition step_to :: "lifecycle_step \<Rightarrow> boot_stage" where
  "step_to st = (case st of StepApply \<Rightarrow> StApplied | StepOneShot \<Rightarrow> StOneShotSelected
     | StepPostBoot \<Rightarrow> StPostBootValidated | StepRollback \<Rightarrow> StBaselineSelected | StepCleanup \<Rightarrow> StRestored)"

definition ends_in :: "boot_stage \<Rightarrow> ('e, 'b \<times> durable_transaction, 'a) eff \<Rightarrow> bool" where
  "ends_in s m \<longleftrightarrow> (\<forall>w x w'. m w = (Ok x, w') \<longrightarrow> tx_stage (snd w') = s)"

definition stage_frame :: "('e, 'b \<times> durable_transaction, 'a) eff \<Rightarrow> bool" where
  "stage_frame m \<longleftrightarrow> (\<forall>w x w'. m w = (Ok x, w') \<longrightarrow> tx_stage (snd w') = tx_stage (snd w))"

lemma ends_bind: "(\<And>x. ends_in s (f x)) \<Longrightarrow> ends_in s (bindA m f)"
  unfolding ends_in_def bindA_Ok by blast

lemma frame_bind: "stage_frame m \<Longrightarrow> (\<And>x. stage_frame (f x)) \<Longrightarrow> stage_frame (bindA m f)"
  unfolding stage_frame_def bindA_Ok by metis

lemma transition_ends: "transition_v6 C s w = (Ok x, w') \<Longrightarrow> tx_stage (snd w') = s \<and> legal_transition_v6 (tx_stage (snd w)) s"
  by (auto simp: transition_v6_def s_op_def tx_transition_def split: sum.splits if_splits)

lemma ends_transition: "(\<And>x. stage_frame (f x)) \<Longrightarrow> ends_in s (bindA (transition_v6 C s) f)"
  unfolding ends_in_def stage_frame_def bindA_Ok by (metis transition_ends)

lemma frame_steps: "stage_frame (persist_or_fail B)" "stage_frame (ret x)" "stage_frame (\<lambda>w. backend_call e (f w) w)"
  by (auto simp: stage_frame_def persist_or_fail_def backend_call_def split: prod.splits sum.splits)

lemma operations_end:
  "ends_in StApplied (apply_exact_transaction_v6 C B m)" "ends_in StOneShotSelected (select_exact_one_shot_v6 C B m)"
  "ends_in StPostBootValidated (collect_and_validate_post_boot_v6 C B m)"
  "ends_in StBaselineSelected (select_baseline_rollback_v6 C B m)" "ends_in StRestored (verify_then_cleanup_v6 C B m)"
  unfolding apply_exact_transaction_v6_def select_exact_one_shot_v6_def collect_and_validate_post_boot_v6_def
    select_baseline_rollback_v6_def verify_then_cleanup_v6_def publish_authority_def Let_def
  by ((rule ends_transition ends_bind)+, intro frame_bind frame_steps)+

lemma step_ends: "ends_in (step_to st) (run_lifecycle_step C B m st)"
  using operations_end [of C B m]
  by (cases st) (auto simp: run_lifecycle_step_def step_to_def ends_in_def bindA_Ok)

text \<open>A command that is started from any other stage fails.\<close>

lemma bindA_ErrI: "isl (fst (m w)) \<Longrightarrow> isl (fst (bindA m f w))"
  by (auto simp: bindA_def isl_def split: prod.splits sum.splits)

lemmas first_steps = bindA_def lift_result_def s_get_def whenA_def throw_def backend_reads_def transition_v6_def s_op_def
  tx_transition_def ret_def

lemma operations_start:
  "tx_stage (snd w) \<noteq> StBaselineMeasured \<Longrightarrow> isl (fst (apply_exact_transaction_v6 C B m w))"
  "tx_stage (snd w) \<noteq> StApplied \<Longrightarrow> isl (fst (select_exact_one_shot_v6 C B m w))"
  "tx_stage (snd w) \<noteq> StActivationVerified \<Longrightarrow> isl (fst (collect_and_validate_post_boot_v6 C B m w))"
  "\<not> legal_transition_v6 (tx_stage (snd w)) StBaselineSelecting \<Longrightarrow> isl (fst (select_baseline_rollback_v6 C B m w))"
  "tx_stage (snd w) \<noteq> StBaselineSelected \<Longrightarrow> tx_stage (snd w) \<noteq> StBaselineBoot \<Longrightarrow> isl (fst (verify_then_cleanup_v6 C B m w))"
proof goal_cases
  case 1
  then show ?case
    by (cases "manifest_validate (boot_codec.truncate C) m"; cases "tx_validate (tx_digest C) (snd w)")
      (simp_all add: apply_exact_transaction_v6_def first_steps)
next
  case 2
  then have "\<not> legal_transition_v6 (tx_stage (snd w)) StOneShotSelecting" by (simp add: legal_transition_v6_def)
  then show ?case
    by (cases "manifest_validate (boot_codec.truncate C) m"; cases "tx_validate (tx_digest C) (snd w)")
      (simp_all add: select_exact_one_shot_v6_def Let_def first_steps)
next
  case 3
  then show ?case by (simp add: collect_and_validate_post_boot_v6_def first_steps)
next
  case 4
  then show ?case
    by (cases "tx_validate (tx_digest C) (snd w)") (simp_all add: select_baseline_rollback_v6_def Let_def first_steps)
next
  case 5
  have "isl (fst (prove_baseline C B m w))"
    using 5 by (cases "bb_collect_baseline B m (fst w)")
      (simp_all add: prove_baseline_def first_steps ret_def verify_baseline_before_cleanup_v6_def Let_def)
  then show ?case unfolding verify_then_cleanup_v6_def by (rule bindA_ErrI)
qed

lemma step_starts:
  "run_lifecycle_step C B m st w = (Ok x, w') \<Longrightarrow> step_from st (tx_stage (snd w))"
proof (rule ccontr)
  assume r: "run_lifecycle_step C B m st w = (Ok x, w')" and n: "\<not> step_from st (tx_stage (snd w))"
  have "isl (fst (run_lifecycle_step C B m st w))"
    using n operations_start [where w = w and C = C and B = B and m = m]
    by (cases st) (auto simp: run_lifecycle_step_def step_from_def intro: bindA_ErrI)
  with r show False by simp
qed

lemma step_keeps_graph: "graph.keeps_tx s0 (run_lifecycle_step C B m st)"
  using graph.keeps_operations [where s = s0 and C = C and B = B and m = m]
  by (cases st) (auto simp: run_lifecycle_step_def intro!: graph.keeps_tx_bind graph.keeps_steps)

lemma fixture_rollback:
  "\<exists>b' t'. run_lifecycle_step fixture_codec (fake_boot_backend fixture_codec) fixture StepRollback
     (fake_lifecycle_default, fixture_tx StActivationVerified) = (Ok (), (b', t'))"
  by (simp add: run_lifecycle_step_def select_baseline_rollback_v6_def boot_eval fake_boot_backend_def fl_mutate_def
      fixture_tx_def legal_transition_v6_def one_shot_effective_def boot_choice_kept_def fixture_payload_def fixture_current_def
      fake_lifecycle_default_def Let_def)

subsection \<open>Bounded progress\<close>

text \<open>A rank of the stages: every legal transition that neither fails nor repeats the parameter stage
  raises it.\<close>

fun stage_rank :: "boot_stage \<Rightarrow> nat" where
  "stage_rank StPrepared = 0"
| "stage_rank StRootPreflighted = 1"
| "stage_rank StBaselineMeasuring = 2"
| "stage_rank StBaselineMeasured = 3"
| "stage_rank StApplying = 4"
| "stage_rank StApplied = 5"
| "stage_rank StOneShotSelecting = 6"
| "stage_rank StOneShotSelected = 7"
| "stage_rank StExperimentalBootDetected = 8"
| "stage_rank StActivationPreparing = 9"
| "stage_rank StZswapDisabling = 10"
| "stage_rank StZswapParametersApplying = 11"
| "stage_rank StZswapEnabling = 12"
| "stage_rank StSwapActivating = 13"
| "stage_rank StActivationVerified = 14"
| "stage_rank StActivationFailed = 14"
| "stage_rank StPostBootMeasuring = 15"
| "stage_rank StPostBootValidated = 16"
| "stage_rank StFailed = 16"
| "stage_rank StBaselineSelecting = 17"
| "stage_rank StBaselineSelected = 18"
| "stage_rank StBaselineBoot = 19"
| "stage_rank StBaselineVerified = 20"
| "stage_rank StCleaning = 21"
| "stage_rank StRestored = 22"
| "stage_rank StRecovered = 22"

lemma legal_rank:
  "legal_transition_v6 s s' \<Longrightarrow> s' \<noteq> StFailed \<Longrightarrow> \<not> (s = s' \<and> s = StZswapParametersApplying) \<Longrightarrow> stage_rank s < stage_rank s'"
  by (auto simp: legal_transition_v6_def)

lemma stage_rank_le: "stage_rank s \<le> 22"
  by (cases s) simp_all

text \<open>A path of the graph, and how often it fails and how often it writes another parameter.\<close>

fun legal_path :: "boot_stage \<Rightarrow> boot_stage list \<Rightarrow> bool" where
  "legal_path s [] = True"
| "legal_path s (s' # ss) = (legal_transition_v6 s s' \<and> legal_path s' ss)"

fun repeats :: "boot_stage \<Rightarrow> boot_stage list \<Rightarrow> nat" where
  "repeats s [] = 0"
| "repeats s (s' # ss) = (if s = s' \<and> s = StZswapParametersApplying then 1 else 0) + repeats s' ss"

text \<open>C21. A validation comes to an end: a path of legal transitions takes at most twenty-two steps plus one for
  every repeated parameter write and seven for every failure. So a transaction that is
  driven on for ever fails for ever, and without failures a run is over after its last stage.\<close>

theorem boot_stages_bounded:
  "legal_path s ss \<Longrightarrow> length ss \<le> 22 - stage_rank s + repeats s ss + 7 * count_list ss StFailed"
proof (induction ss arbitrary: s)
  case (Cons s' ss)
  then have step: "legal_transition_v6 s s'"
    and IH: "length ss \<le> 22 - stage_rank s' + repeats s' ss + 7 * count_list ss StFailed" by auto
  consider "s' = StFailed" | "s = s'" "s = StZswapParametersApplying" | "stage_rank s < stage_rank s'"
    using legal_rank [OF step] by blast
  then show ?case
  proof cases
    case 3
    then have "1 + (22 - stage_rank s') \<le> 22 - stage_rank s" using stage_rank_le [of s'] by simp
    moreover have "repeats s' ss \<le> repeats s (s' # ss)" "count_list ss StFailed \<le> count_list (s' # ss) StFailed" by simp_all
    ultimately show ?thesis using IH unfolding length_Cons by linarith
  qed (use IH in \<open>simp_all\<close>)
qed simp

text \<open>A validation from its preparation to the restored host takes all twenty-two steps.\<close>

definition complete_run :: "boot_stage list" where
  "complete_run = [StRootPreflighted, StBaselineMeasuring, StBaselineMeasured, StApplying, StApplied, StOneShotSelecting, StOneShotSelected,
     StExperimentalBootDetected, StActivationPreparing, StZswapDisabling, StZswapParametersApplying, StZswapEnabling, StSwapActivating,
     StActivationVerified, StPostBootMeasuring, StPostBootValidated, StBaselineSelecting, StBaselineSelected, StBaselineBoot,
     StBaselineVerified, StCleaning, StRestored]"

theorem boot_stages_bounded_witness:
  "legal_path StPrepared complete_run \<and> length complete_run = 22 \<and>
   length complete_run \<le> 22 - stage_rank StPrepared + repeats StPrepared complete_run + 7 * count_list complete_run StFailed"
proof -
  have p: "legal_path StPrepared complete_run" by (simp add: complete_run_def legal_transition_v6_def)
  have "length complete_run = 22" by (simp add: complete_run_def)
  with p boot_stages_bounded [OF p] show ?thesis by blast
qed

end
