(* ===== verification/Boot_Activation.thy ===== *)
theory Boot_Activation
  imports Boot_Stages
begin

text \<open>
  The two commands of the validator binary that drive a transaction by themselves
  (\<open>test-support/src/bin/nemor-tiering-boot-validation.rs\<close>): the activation that runs in the experimental boot,
  with its rollback, and the stage-aware recovery. The host they read and write is the record
  \<open>activation_host\<close>; the rest of the backend is the lifecycle backend.
\<close>

datatype cli_error = CliBoot boot_error | CliMsg string

record 'b activation_host =
  ah_uid :: "'b \<Rightarrow> (string, u32) result"
  ah_read_trimmed :: "string \<Rightarrow> 'b \<Rightarrow> (string, string) result"
  ah_write :: "string \<Rightarrow> string \<Rightarrow> (string, 'b, unit) eff"
  ah_collect_swaps :: "'b \<Rightarrow> (string, swap_identity list) result"
  ah_collect_zram :: "swap_identity list \<Rightarrow> 'b \<Rightarrow> (string, zram_identity) result"
  ah_bootctl_status :: "'b \<Rightarrow> (string, string) result"
  ah_current_exe :: "'b \<Rightarrow> (string, string) result"
  ah_swap_uuid :: "string \<Rightarrow> 'b \<Rightarrow> (string, string) result"
  ah_run_exact :: "string \<Rightarrow> string list \<Rightarrow> (string, 'b, unit) eff"
  ah_activation_evidence :: "transaction_payload \<Rightarrow> zswap_identity \<Rightarrow> string \<Rightarrow> string list \<Rightarrow> string"
  ah_recovery_evidence :: "transaction_payload \<Rightarrow> string"
  ah_verify_sha256sums :: "string \<Rightarrow> 'b \<Rightarrow> (string, unit) result"

type_synonym ('b, 'a) cli_op = "(cli_error, 'b \<times> durable_transaction, 'a) eff"

definition cli :: "('b, 'a) boot_op \<Rightarrow> ('b, 'a) cli_op" where
  "cli f w = (case f w of (Inl e, w') \<Rightarrow> (Err (CliBoot e), w') | (Inr x, w') \<Rightarrow> (Ok x, w'))"

definition host_read :: "('b \<Rightarrow> (string, 'a) result) \<Rightarrow> ('b, 'a) cli_op" where
  "host_read f w = (case f (fst w) of Inl e \<Rightarrow> (Err (CliMsg e), w) | Inr x \<Rightarrow> (Ok x, w))"

definition host_op :: "(string, 'b, 'a) eff \<Rightarrow> ('b, 'a) cli_op" where
  "host_op f w = (case f (fst w) of (Inl e, b) \<Rightarrow> (Err (CliMsg e), (b, snd w)) | (Inr x, b) \<Rightarrow> (Ok x, (b, snd w)))"

text \<open>A host operation whose error is looked at and not propagated.\<close>

definition host_try :: "(string, 'b, 'a) eff \<Rightarrow> ('b, (string, 'a) result) cli_op" where
  "host_try f w = (case f (fst w) of (r, b) \<Rightarrow> (Ok r, (b, snd w)))"

definition bail_if :: "bool \<Rightarrow> string \<Rightarrow> ('b, unit) cli_op" where
  "bail_if c message = whenA c (throw (CliMsg message))"

definition persist :: "'b boot_backend \<Rightarrow> ('b, unit) cli_op" where
  "persist B w = host_op (bb_persist_transaction B (snd w)) w"

text \<open>An update of the payload that leaves the digest as it was.\<close>

definition tx_poke :: "(transaction_payload \<Rightarrow> transaction_payload) \<Rightarrow> durable_transaction \<Rightarrow> durable_transaction" where
  "tx_poke f t = t\<lparr> dt_payload := f (dt_payload t) \<rparr>"

definition parse_field :: "string \<Rightarrow> string \<Rightarrow> string option" where
  "parse_field t n = opt_filter (\<lambda>v. v \<noteq> [])
     (case map (\<lambda>l. trim (the (strip_prefix n (trim l)))) (filter (\<lambda>l. starts_with (trim l) n) (lines t)) of
        [] \<Rightarrow> None | v # _ \<Rightarrow> Some v)"

definition ZSWAP_ROOT :: string where
  "ZSWAP_ROOT = ''/sys/module/zswap/parameters''"

text \<open>The text between the first \<open>[\<close> and the next \<open>]\<close>.\<close>

definition selected_value :: "string \<Rightarrow> string option" where
  "selected_value v = Option.bind (split_once CHR ''['' v) (\<lambda>(_, r). map_option fst (split_once CHR '']'' r))"

definition read_zswap_parameter :: "'b activation_host \<Rightarrow> string \<Rightarrow> 'b \<Rightarrow> (string, string) result" where
  "read_zswap_parameter H name b = rbind (ah_read_trimmed H (path_join ZSWAP_ROOT name) b) (\<lambda>v.
     if name \<in> {''compressor'', ''zpool''} then ok_or ''selected zswap value'' (selected_value v) else Ok v)"

fun read_zswap_parameters :: "'b activation_host \<Rightarrow> string list \<Rightarrow> zswap_identity \<Rightarrow> 'b \<Rightarrow> (string, zswap_identity) result" where
  "read_zswap_parameters H [] ps b = Ok ps"
| "read_zswap_parameters H (n # ns) ps b = rbind (read_zswap_parameter H n b) (\<lambda>v.
     read_zswap_parameters H ns (bt_insert n v ps) b)"

definition collect_zswap :: "'b activation_host \<Rightarrow> 'b \<Rightarrow> (string, zswap_identity) result" where
  "collect_zswap H = read_zswap_parameters H ZSWAP_PARAMETERS []"

subsection \<open>Activation\<close>

definition protected_state_changed :: "prepared_manifest \<Rightarrow> swap_identity list \<Rightarrow> zram_identity \<Rightarrow> bool" where
  "protected_state_changed m swaps zram \<longleftrightarrow> (let p = pm_payload m in
     \<not> same_zram zram (mp_protected_zram p) \<or> \<not> zi_active zram \<or> zi_priority zram \<le> 0 \<or> mp_baseline_swaps p = [] \<or>
     list_ex (\<lambda>s. is_some_and (\<lambda>baseline. \<not> same_swap baseline s)
         (find (\<lambda>baseline. path_eq (si_path baseline) (si_path s)) (mp_baseline_swaps p)) \<and>
       \<not> path_eq (si_path s) (si_path (mp_swapfile p))) swaps)"

definition activation_preconditions :: "'b activation_host \<Rightarrow> 'b boot_backend \<Rightarrow> prepared_manifest \<Rightarrow> ('b, swap_identity) cli_op" where
  "activation_preconditions H B m = (let p = pm_payload m in
     bindA (host_read (ah_collect_swaps H)) (\<lambda>swaps.
     bindA (host_read (ah_collect_zram H swaps)) (\<lambda>zram.
     bindA (bail_if (protected_state_changed m swaps zram) ''protected zram or baseline swap precondition changed'') (\<lambda>_.
     bindA (host_read (ah_bootctl_status H)) (\<lambda>status.
     bindA (host_read (\<lambda>_. ok_or ''booted entry'' (opt_or (parse_field status ''Current Boot Loader Entry:'')
         (parse_field status ''Current Entry:'')))) (\<lambda>entry.
     bindA (bail_if (entry \<noteq> en_id (mp_experimental_entry p)) ''experimental boot/helper/unit identity mismatch'') (\<lambda>_.
     bindA (host_read (\<lambda>b. Ok (bb_staged_helper_matches B (mp_staged_helper p) b))) (\<lambda>helper.
     bindA (bail_if (\<not> helper) ''experimental boot/helper/unit identity mismatch'') (\<lambda>_.
     bindA (host_read (ah_current_exe H)) (\<lambda>exe.
     bindA (bail_if (\<not> path_eq exe (sbp_destination (mp_staged_helper p))) ''experimental boot/helper/unit identity mismatch'') (\<lambda>_.
     bindA (host_read (bb_permanent_default B)) (\<lambda>default_entry.
     bindA (bail_if (default_entry \<noteq> en_id (bo_default_entry (mp_boot p))) ''experimental boot/helper/unit identity mismatch'') (\<lambda>_.
     bindA (host_read (bb_boot_order B)) (\<lambda>order.
     bindA (bail_if (order \<noteq> bo_boot_order (mp_boot p)) ''experimental boot/helper/unit identity mismatch'') (\<lambda>_.
     bindA (host_read (ah_read_trimmed H ''/proc/self/cgroup'')) (\<lambda>cgroup.
     bindA (bail_if (\<not> str_contains cgroup (''nemor-phase6-'' @ mp_validation_id p @ ''.service''))
         ''experimental boot/helper/unit identity mismatch'') (\<lambda>_.
     bindA (s_get (\<lambda>t. tp_applied_swap_identity (dt_payload t))) (\<lambda>applied.
     bindA (host_read (\<lambda>_. ok_or ''applied swap identity'' applied)) (\<lambda>swap.
     bindA (bail_if (si_uuid swap = None) ''validation swap identity or inactive baseline mismatch'') (\<lambda>_.
     bindA (host_read (ah_swap_uuid H (si_path (mp_swapfile p)))) (\<lambda>uuid.
     bindA (bail_if (uuid \<noteq> unwrap_or [] (si_uuid swap)) ''validation swap identity or inactive baseline mismatch'') (\<lambda>_.
     bindA (host_read (ah_collect_swaps H)) (\<lambda>swaps2.
     bindA (bail_if (list_ex (\<lambda>s. path_eq (si_path s) (si_path (mp_swapfile p)) \<and> si_active s) swaps2)
         ''validation swap identity or inactive baseline mismatch'') (\<lambda>_.
     ret swap))))))))))))))))))))))))"

text \<open>The rollback of a failed activation: it goes on after errors and collects them.\<close>

definition try_write :: "tx_codec \<Rightarrow> 'b activation_host \<Rightarrow> 'b boot_backend \<Rightarrow> string \<Rightarrow> string \<Rightarrow> string \<Rightarrow> ('b, string list) cli_op" where
  "try_write C H B operation path value =
     bindA (cli (record_intent C operation path)) (\<lambda>_.
     bindA (persist B) (\<lambda>_.
     bindA (host_try (ah_write H path value)) (\<lambda>r. case r of
        Inl e \<Rightarrow> ret [e]
      | Inr _ \<Rightarrow> bindA (cli (complete_last C (bc_sha256 C value))) (\<lambda>_. bindA (persist B) (\<lambda>_. ret [])))))"

fun rollback_parameters :: "tx_codec \<Rightarrow> 'b activation_host \<Rightarrow> 'b boot_backend \<Rightarrow> (string \<times> string) list \<Rightarrow> ('b, string list) cli_op" where
  "rollback_parameters C H B [] = ret []"
| "rollback_parameters C H B ((name, value) # ps) =
     (if name = ''enabled'' then rollback_parameters C H B ps
      else bindA (cli (record_intent C ''rollback_zswap_parameter'' (path_join ZSWAP_ROOT name))) (\<lambda>_.
       bindA (persist B) (\<lambda>_.
       bindA (host_try (ah_write H (path_join ZSWAP_ROOT name) value)) (\<lambda>r.
       bindA (case r of
          Inl e \<Rightarrow> ret [e]
        | Inr _ \<Rightarrow> bindA (\<lambda>w. (Ok (ok_of (read_zswap_parameter H name (fst w)) = Some value), w)) (\<lambda>same.
            if same then bindA (cli (complete_last C (bc_sha256 C value))) (\<lambda>_. bindA (persist B) (\<lambda>_. ret []))
            else ret [''baseline zswap readback mismatch: '' @ name])) (\<lambda>es.
       bindA (rollback_parameters C H B ps) (\<lambda>es2. ret (es @ es2)))))))"

definition rollback_swapoff :: "tx_codec \<Rightarrow> 'b activation_host \<Rightarrow> 'b boot_backend \<Rightarrow> prepared_manifest \<Rightarrow> ('b, string list) cli_op" where
  "rollback_swapoff C H B m = (let path = si_path (mp_swapfile (pm_payload m)) in
     bindA (\<lambda>w. (Ok (is_some_and (list_ex (\<lambda>s. path_eq (si_path s) path \<and> si_active s)) (ok_of (ah_collect_swaps H (fst w)))), w)) (\<lambda>active.
     if \<not> active then ret []
     else bindA (cli (record_intent C ''rollback_swapoff'' path)) (\<lambda>_.
       bindA (persist B) (\<lambda>_.
       bindA (host_try (ah_run_exact H ''/usr/bin/swapoff'' [path])) (\<lambda>r. case r of
          Inl e \<Rightarrow> ret [e]
        | Inr _ \<Rightarrow> bindA (cli (complete_last C (bc_sha256 C ''inactive''))) (\<lambda>_. bindA (persist B) (\<lambda>_. ret [])))))))"

definition rollback_zswap :: "tx_codec \<Rightarrow> 'b activation_host \<Rightarrow> 'b boot_backend \<Rightarrow> prepared_manifest \<Rightarrow> ('b, string list) cli_op" where
  "rollback_zswap C H B m = (let enabled = path_join ZSWAP_ROOT ''enabled''; baseline = mp_baseline_zswap (pm_payload m) in
     bindA (cli (record_intent C ''rollback_zswap_disable'' enabled)) (\<lambda>_.
     bindA (persist B) (\<lambda>_.
     bindA (host_try (ah_write H enabled ''N'')) (\<lambda>r. case r of
        Inl e \<Rightarrow> ret [e]
      | Inr _ \<Rightarrow>
         bindA (cli (complete_last C (bc_sha256 C ''N''))) (\<lambda>_.
         bindA (persist B) (\<lambda>_.
         bindA (rollback_parameters C H B baseline) (\<lambda>es.
         bindA (try_write C H B ''rollback_zswap_enabled'' enabled (unwrap_or ''N'' (map_of baseline ''enabled''))) (\<lambda>es2.
         ret (es @ es2)))))))))"

definition activation_failure :: "tx_codec \<Rightarrow> 'b activation_host \<Rightarrow> 'b boot_backend \<Rightarrow> prepared_manifest \<Rightarrow> string \<Rightarrow> ('b, 'a) cli_op" where
  "activation_failure C H B m primary = (let entry = mp_recovery_entry (pm_payload m) in
     bindA (s_modify (tx_poke (\<lambda>p. p\<lparr> tp_original_primary_error := opt_or (tp_original_primary_error p) (Some primary),
         tp_primary_error := Some primary \<rparr>))) (\<lambda>_.
     bindA (rollback_swapoff C H B m) (\<lambda>es1.
     bindA (rollback_zswap C H B m) (\<lambda>es2.
     bindA (cli (record_intent C ''select_baseline_after_activation_failure'' (en_path (bo_current_entry (mp_boot (pm_payload m)))))) (\<lambda>_.
     bindA (persist B) (\<lambda>_.
     bindA (host_try (bb_set_one_shot B entry)) (\<lambda>r.
     bindA (case r of
        Inl e \<Rightarrow> ret [e]
      | Inr _ \<Rightarrow> bindA (\<lambda>w. (Ok (ok_of (bb_read_one_shot B (fst w)) = Some (Some entry)), w)) (\<lambda>same.
          if same then bindA (cli (complete_last C (bc_sha256 C (bc_string C entry)))) (\<lambda>_. ret [])
          else ret [''baseline one-shot readback mismatch''])) (\<lambda>es3.
     bindA (s_modify (tx_poke (\<lambda>p. p\<lparr> tp_secondary_errors := tp_secondary_errors p @ es1 @ es2 @ es3 \<rparr>))) (\<lambda>_.
     bindA (cli (transition_v6 C StActivationFailed)) (\<lambda>_.
     bindA (persist B) (\<lambda>_.
     throw (CliMsg (''activation failed and bounded rollback was attempted: '' @ primary)))))))))))))"

definition write_or_roll_back :: "tx_codec \<Rightarrow> 'b activation_host \<Rightarrow> 'b boot_backend \<Rightarrow> prepared_manifest \<Rightarrow> (string, 'b, unit) eff \<Rightarrow>
    ('b, unit) cli_op" where
  "write_or_roll_back C H B m f = bindA (host_try f) (\<lambda>r. case r of
     Inl primary \<Rightarrow> activation_failure C H B m primary | Inr _ \<Rightarrow> ret ())"

fun activate_parameters :: "tx_codec \<Rightarrow> 'b activation_host \<Rightarrow> 'b boot_backend \<Rightarrow> prepared_manifest \<Rightarrow> (string \<times> string) list \<Rightarrow>
    ('b, unit) cli_op" where
  "activate_parameters C H B m [] = ret ()"
| "activate_parameters C H B m ((name, value) # ps) =
     (if name = ''enabled'' then activate_parameters C H B m ps
      else bindA (cli (record_intent C ''write_zswap_parameter'' (path_join ZSWAP_ROOT name))) (\<lambda>_.
       bindA (persist B) (\<lambda>_.
       bindA (write_or_roll_back C H B m (ah_write H (path_join ZSWAP_ROOT name) value)) (\<lambda>_.
       bindA (host_read (read_zswap_parameter H name)) (\<lambda>readback.
       bindA (if readback \<noteq> value then activation_failure C H B m (''zswap readback mismatch for '' @ name) else ret ()) (\<lambda>_.
       bindA (cli (complete_last C (bc_sha256 C readback))) (\<lambda>_.
       bindA (s_modify (tx_poke (\<lambda>p. p\<lparr> tp_activation_parameter_index := tp_activation_parameter_index p + 1 \<rparr>))) (\<lambda>_.
       bindA (persist B) (\<lambda>_.
       activate_parameters C H B m ps)))))))))"

definition activate_zswap :: "tx_codec \<Rightarrow> 'b activation_host \<Rightarrow> 'b boot_backend \<Rightarrow> prepared_manifest \<Rightarrow> ('b, unit) cli_op" where
  "activate_zswap C H B m = (let enabled = path_join ZSWAP_ROOT ''enabled'' in
     bindA (cli (transition_v6 C StZswapDisabling)) (\<lambda>_.
     bindA (cli (record_intent C ''disable_zswap'' enabled)) (\<lambda>_.
     bindA (persist B) (\<lambda>_.
     bindA (write_or_roll_back C H B m (ah_write H enabled ''N'')) (\<lambda>_.
     bindA (host_read (ah_read_trimmed H enabled)) (\<lambda>readback.
     bindA (cli (complete_last C (bc_sha256 C readback))) (\<lambda>_.
     bindA (persist B) (\<lambda>_.
     bindA (cli (transition_v6 C StZswapParametersApplying)) (\<lambda>_.
     bindA (persist B) (\<lambda>_.
     bindA (activate_parameters C H B m (mp_experimental_zswap (pm_payload m))) (\<lambda>_.
     bindA (cli (transition_v6 C StZswapEnabling)) (\<lambda>_.
     bindA (cli (record_intent C ''enable_zswap'' enabled)) (\<lambda>_.
     bindA (persist B) (\<lambda>_.
     bindA (write_or_roll_back C H B m (ah_write H enabled ''Y'')) (\<lambda>_.
     bindA (host_read (ah_read_trimmed H enabled)) (\<lambda>readback.
     bindA (if readback \<noteq> ''Y'' then activation_failure C H B m ''zswap enable readback mismatch'' else ret ()) (\<lambda>_.
     bindA (cli (complete_last C (bc_sha256 C ''Y''))) (\<lambda>_.
     persist B))))))))))))))))))"

definition activate_swap :: "tx_codec \<Rightarrow> 'b activation_host \<Rightarrow> 'b boot_backend \<Rightarrow> prepared_manifest \<Rightarrow> swap_identity \<Rightarrow>
    ('b, unit) cli_op" where
  "activate_swap C H B m applied = (let s = mp_swapfile (pm_payload m) in
     bindA (cli (transition_v6 C StSwapActivating)) (\<lambda>_.
     bindA (cli (record_intent C ''activate_validation_swap'' (si_path s))) (\<lambda>_.
     bindA (persist B) (\<lambda>_.
     bindA (write_or_roll_back C H B m (ah_run_exact H ''/usr/bin/swapon''
         [''--priority'', (if si_priority s < 0 then ''-'' else []) @ show_nat (nat (abs (si_priority s))), si_path s])) (\<lambda>_.
     bindA (host_read (ah_collect_swaps H)) (\<lambda>swaps.
     bindA (if \<not> list_ex (\<lambda>x. path_eq (si_path x) (si_path s) \<and> si_priority x = si_priority s) swaps
        then activation_failure C H B m ''validation swap readback mismatch'' else ret ()) (\<lambda>_.
     cli (complete_last C (bc_sha256 C (bc_swap C applied))))))))))"

definition experimental_activate :: "tx_codec \<Rightarrow> 'b activation_host \<Rightarrow> 'b boot_backend \<Rightarrow> prepared_manifest \<Rightarrow> ('b, unit) cli_op" where
  "experimental_activate C H B m =
     bindA (host_read (ah_uid H)) (\<lambda>uid.
     bindA (bail_if (uid \<noteq> 0) ''root required'') (\<lambda>_.
     bindA (s_get dt_payload) (\<lambda>p.
     bindA (bail_if (tp_stage p \<noteq> StOneShotSelected) ''illegal stage'') (\<lambda>_.
     bindA (host_read (ah_read_trimmed H ''/proc/sys/kernel/random/boot_id'')) (\<lambda>boot_id.
     bindA (bail_if (boot_id = tp_baseline_boot_id p) ''experimental activation requires a new boot id'') (\<lambda>_.
     bindA (host_read (ah_read_trimmed H ''/proc/cmdline'')) (\<lambda>cmd.
     bindA (bail_if (mp_validation_marker (pm_payload m) \<notin> set (split_whitespace cmd)) ''validation marker absent'') (\<lambda>_.
     bindA (activation_preconditions H B m) (\<lambda>applied.
     bindA (s_modify (tx_poke (\<lambda>p. p\<lparr> tp_current_boot_id := boot_id \<rparr>))) (\<lambda>_.
     bindA (cli (transition_v6 C StExperimentalBootDetected)) (\<lambda>_.
     bindA (persist B) (\<lambda>_.
     bindA (cli (transition_v6 C StActivationPreparing)) (\<lambda>_.
     bindA (persist B) (\<lambda>_.
     bindA (activate_zswap C H B m) (\<lambda>_.
     bindA (activate_swap C H B m applied) (\<lambda>_.
     bindA (host_read (collect_zswap H)) (\<lambda>zswap.
     bindA (host_read (bb_permanent_default B)) (\<lambda>default_entry.
     bindA (host_read (bb_boot_order B)) (\<lambda>order.
     bindA (s_get dt_payload) (\<lambda>p2. let bytes = ah_activation_evidence H p2 zswap default_entry order in
     bindA (host_op (bb_persist_evidence B ''activation-evidence-v6.json'' bytes)) (\<lambda>_.
     bindA (s_modify (tx_evidence C ''activation-evidence-v6.json'' bytes)) (\<lambda>_.
     bindA (cli (transition_v6 C StActivationVerified)) (\<lambda>_.
     persist B)))))))))))))))))))))))"

subsection \<open>Recovery\<close>

fun recovery_remove :: "tx_codec \<Rightarrow> 'b boot_backend \<Rightarrow> owned_artifact list \<Rightarrow> ('b, unit) cli_op" where
  "recovery_remove C B [] = ret ()"
| "recovery_remove C B (a # as) = bindA (host_read (\<lambda>b. Ok (bb_artifact_matches B a b))) (\<lambda>present.
     bindA (whenA present (
       bindA (cli (record_intent C ''recovery_remove_exact_artifact'' (oa_path a))) (\<lambda>_.
       bindA (persist B) (\<lambda>_.
       bindA (host_op (bb_remove_artifact B a)) (\<lambda>_.
       bindA (cli (complete_last C (bc_sha256 C ''absent''))) (\<lambda>_.
       persist B))))))
     (\<lambda>_. recovery_remove C B as))"

definition recovery_clear_one_shot :: "tx_codec \<Rightarrow> 'b activation_host \<Rightarrow> 'b boot_backend \<Rightarrow> prepared_manifest \<Rightarrow> ('b, unit) cli_op" where
  "recovery_clear_one_shot C H B m = (let e = mp_experimental_entry (pm_payload m) in
     bindA (host_read (bb_read_one_shot B)) (\<lambda>one_shot.
     bindA (bail_if (one_shot \<noteq> Some (en_id e)) ''one-shot state is not exact-owned; preserving all artifacts'') (\<lambda>_.
     bindA (cli (record_intent C ''recovery_clear_exact_oneshot'' (en_path e))) (\<lambda>_.
     bindA (persist B) (\<lambda>_.
     bindA (host_op (ah_run_exact H ''/usr/bin/bootctl'' [''set-oneshot'', []])) (\<lambda>_.
     bindA (host_read (bb_read_one_shot B)) (\<lambda>after.
     bindA (bail_if (after \<noteq> None) ''owned one-shot state did not clear'') (\<lambda>_.
     bindA (cli (complete_last C (bc_sha256 C ''cleared''))) (\<lambda>_.
     persist B)))))))))"

definition recovery_before_reboot :: "tx_codec \<Rightarrow> 'b activation_host \<Rightarrow> 'b boot_backend \<Rightarrow> prepared_manifest \<Rightarrow> ('b, unit) cli_op" where
  "recovery_before_reboot C H B m = (let p = pm_payload m in
     bindA (recovery_remove C B (rev (mp_owned_artifacts p))) (\<lambda>_.
     bindA (cli (record_intent C ''recovery_remove_exact_swapfile'' (si_path (mp_swapfile p)))) (\<lambda>_.
     bindA (persist B) (\<lambda>_.
     bindA (host_op (bb_remove_swapfile B m)) (\<lambda>_.
     bindA (cli (complete_last C (bc_sha256 C ''absent''))) (\<lambda>_.
     bindA (host_op (bb_finalize_runtime_cleanup B m)) (\<lambda>_.
     bindA (cli (transition_v6 C StRecovered)) (\<lambda>_.
     bindA (s_modify (tx_set C (\<lambda>p. p\<lparr> tp_recovery_state := ''recovered_before_reboot'' \<rparr>))) (\<lambda>_.
     bindA (persist B) (\<lambda>_.
     bindA (s_get (\<lambda>t. ah_recovery_evidence H (dt_payload t))) (\<lambda>bytes.
     bindA (host_op (bb_persist_evidence B ''recovery-evidence-v6.json'' bytes)) (\<lambda>_.
     bindA (s_modify (tx_evidence C ''recovery-evidence-v6.json'' bytes)) (\<lambda>_.
     bindA (persist B) (\<lambda>_ w.
     host_op (bb_seal_archive B (snd w)) w))))))))))))))"

definition boot_recover :: "tx_codec \<Rightarrow> 'b activation_host \<Rightarrow> 'b boot_backend \<Rightarrow> prepared_manifest \<Rightarrow> bool \<Rightarrow> ('b, unit) cli_op" where
  "boot_recover C H B m idempotence =
     bindA (host_read (\<lambda>b. Ok (bb_current_boot_is_experimental B m b))) (\<lambda>experimental.
     bindA (s_get (\<lambda>t. unwrap_or (tp_stage (dt_payload t)) (tp_failed_from_stage (dt_payload t)))) (\<lambda>stage.
     let act = recovery_action_v6 stage experimental in
     if act = ''no_op''
     then (if idempotence then host_read (ah_verify_sha256sums H (mp_transaction_root (pm_payload m))) else ret ())
     else if act = ''select_exact_baseline_oneshot_preserve_artifacts'' then cli (select_baseline_rollback_v6 C B m)
     else if act \<in> {''verify_baseline_preserve_artifacts'', ''resume_exact_cleanup''} then cli (verify_then_cleanup_v6 C B m)
     else if act \<in> {''remove_exact_owned_before_reboot'', ''clear_exact_owned_oneshot_then_remove''}
     then bindA (bail_if idempotence ''idempotence verification cannot mutate'') (\<lambda>_.
          bindA (whenA (act = ''clear_exact_owned_oneshot_then_remove'') (recovery_clear_one_shot C H B m)) (\<lambda>_.
          recovery_before_reboot C H B m))
     else throw (CliMsg (''recovery requires diagnosis: '' @ act))))"

subsection \<open>Evidence of a transaction\<close>

text \<open>The further updates of these commands, and that an invariant which allows them is kept.\<close>

locale cli_invariant = tx_invariant +
  assumes poke_errors: "I t \<Longrightarrow> I (tx_poke (\<lambda>p. p\<lparr> tp_original_primary_error := f p, tp_primary_error := e \<rparr>) t)"
    and poke_secondary: "I t \<Longrightarrow> I (tx_poke (\<lambda>p. p\<lparr> tp_secondary_errors := g p \<rparr>) t)"
    and poke_index: "I t \<Longrightarrow> I (tx_poke (\<lambda>p. p\<lparr> tp_activation_parameter_index := h p \<rparr>) t)"
    and poke_boot: "I t \<Longrightarrow> I (tx_poke (\<lambda>p. p\<lparr> tp_current_boot_id := i \<rparr>) t)"
    and recovery_state: "I t \<Longrightarrow> I (tx_set C (\<lambda>p. p\<lparr> tp_recovery_state := r \<rparr>) t)"
begin

lemma keeps_cli: "keeps_tx m \<Longrightarrow> keeps_tx (cli m)"
  by (rule keepsI) (auto simp: cli_def split: prod.splits sum.splits dest: keeps_runD)

lemma keeps_host:
  "keeps_tx (host_read f)" "keeps_tx (host_op g)" "keeps_tx (host_try h)" "keeps_tx (bail_if c e)" "keeps_tx (persist B)"
  "keeps_tx (\<lambda>w. host_op (k w) w)"
  by (rule keepsI; auto simp: host_read_def host_op_def host_try_def bail_if_def whenA_def throw_def ret_def persist_def
      split: prod.splits sum.splits if_splits)+

lemma keeps_updates:
  "keeps_tx (s_modify (tx_poke (\<lambda>p. p\<lparr> tp_original_primary_error := f2 p, tp_primary_error := e2 \<rparr>)))"
  "keeps_tx (s_modify (tx_poke (\<lambda>p. p\<lparr> tp_secondary_errors := g2 p \<rparr>)))"
  "keeps_tx (s_modify (tx_poke (\<lambda>p. p\<lparr> tp_activation_parameter_index := h2 p \<rparr>)))"
  "keeps_tx (s_modify (tx_poke (\<lambda>p. p\<lparr> tp_current_boot_id := i2 \<rparr>)))"
  "keeps_tx (s_modify (tx_set C (\<lambda>p. p\<lparr> tp_recovery_state := r2 \<rparr>)))"
  by (rule keepsI; auto simp: poke_errors poke_secondary poke_index poke_boot recovery_state)+

lemma keeps_filed: "name \<in> set EVIDENCE_NAMES \<Longrightarrow> keeps_tx (s_modify (tx_evidence C name bytes))"
  by (rule keepsI) (auto simp: tx_evidence_def evidence resealed)

lemma keeps_if: "(c \<Longrightarrow> keeps_tx m) \<Longrightarrow> (\<not> c \<Longrightarrow> keeps_tx n) \<Longrightarrow> keeps_tx (if c then m else n)"
  by simp

lemma keeps_sum: "(\<And>e. keeps_tx (f e)) \<Longrightarrow> (\<And>x. keeps_tx (g x)) \<Longrightarrow> keeps_tx (case r of Inl e \<Rightarrow> f e | Inr x \<Rightarrow> g x)"
  by (simp split: sum.split)

lemmas keeps_cli_intros = keeps_tx_bind keeps_when keeps_cli keeps_host keeps_updates keeps_filed keeps_if keeps_sum keeps_steps

lemma keeps_rollback_parameters: "keeps_tx (rollback_parameters C H B ps)"
  by (induction ps) (auto intro!: keeps_cli_intros)

lemma keeps_activation_failure: "keeps_tx (activation_failure C H B m primary)"
  unfolding activation_failure_def rollback_swapoff_def rollback_zswap_def try_write_def Let_def
  by (auto intro!: keeps_cli_intros keeps_rollback_parameters)

lemma keeps_write_or_roll_back: "keeps_tx (write_or_roll_back C H B m f)"
  unfolding write_or_roll_back_def by (auto intro!: keeps_cli_intros keeps_activation_failure)

lemma keeps_activate_parameters: "keeps_tx (activate_parameters C H B m ps)"
  by (induction ps) (auto intro!: keeps_cli_intros keeps_activation_failure keeps_write_or_roll_back)

lemma keeps_experimental_activate: "keeps_tx (experimental_activate C H B m)"
  unfolding experimental_activate_def activation_preconditions_def activate_zswap_def activate_swap_def Let_def
  by (auto intro!: keeps_cli_intros keeps_activation_failure keeps_write_or_roll_back keeps_activate_parameters
      simp: EVIDENCE_NAMES_def)

lemma keeps_recovery_remove: "keeps_tx (recovery_remove C B as)"
  by (induction as) (auto intro!: keeps_cli_intros)

lemma keeps_boot_recover: "keeps_tx (boot_recover C H B m idempotence)"
  unfolding boot_recover_def recovery_clear_one_shot_def recovery_before_reboot_def Let_def
  by (auto intro!: keeps_cli_intros keeps_operations keeps_recovery_remove simp: EVIDENCE_NAMES_def)

end

interpretation unfiled: cli_invariant C
  "\<lambda>t. map_of (tp_evidence_hashes (dt_payload t)) ''zram-baseline-evidence-v2.json'' = None" for C
  by unfold_locales
    (auto simp: map_of_eq_None_iff tx_set_def tx_insert_hash_def tx_poke_def bt_insert_keys EVIDENCE_NAMES_def)

subsection \<open>Steps that only read\<close>

definition reads_only :: "('e, 'w, 'a) eff \<Rightarrow> bool" where
  "reads_only m \<longleftrightarrow> (\<forall>w. snd (m w) = w)"

lemma reads_bind: "reads_only m \<Longrightarrow> (\<And>x. reads_only (f x)) \<Longrightarrow> reads_only (bindA m f)"
  unfolding reads_only_def bindA_def by (auto split: prod.splits sum.splits) (metis snd_conv)+

lemma reads_steps: "reads_only (host_read f)" "reads_only (bail_if c e)" "reads_only (s_get g)" "reads_only (ret x)"
  by (auto simp: reads_only_def host_read_def bail_if_def whenA_def throw_def ret_def s_get_def split: sum.splits)

lemma host_read_Ok: "host_read f w = (Ok x, w') \<longleftrightarrow> f (fst w) = Ok x \<and> w' = w"
  by (auto simp: host_read_def split: sum.splits)

lemma bail_if_Ok: "bail_if c e w = (Ok x, w') \<longleftrightarrow> \<not> c \<and> w' = w"
  by (auto simp: bail_if_def whenA_def throw_def ret_def split: if_splits)

lemma bail_ifD: "bail_if c e w = (Ok x, w') \<Longrightarrow> \<not> c"
  by (simp add: bail_if_def whenA_def throw_def split: if_splits)

lemma host_readD: "host_read f w = (Ok x, w') \<Longrightarrow> f (fst w) = Ok x"
  by (auto simp: host_read_def split: sum.splits)

subsection \<open>The stages of every command\<close>

interpretation command_graph: cli_invariant C "\<lambda>t. legal_transition_v6\<^sup>*\<^sup>* s (tx_stage t)" for C s
  by unfold_locales (simp_all add: tx_poke_def)

datatype boot_command = Lifecycle lifecycle_step | Activate | Recover bool

definition run_boot_command :: "tx_codec \<Rightarrow> 'b activation_host \<Rightarrow> 'b boot_backend \<Rightarrow> prepared_manifest \<Rightarrow> boot_command \<Rightarrow> ('b, unit) cli_op" where
  "run_boot_command C H B m cmd = (case cmd of
     Lifecycle st \<Rightarrow> cli (run_lifecycle_step C B m st)
   | Activate \<Rightarrow> experimental_activate C H B m
   | Recover idempotence \<Rightarrow> boot_recover C H B m idempotence)"

text \<open>What the commands promise: the stages from which they can succeed and the stage they end in. The recovery
  chooses its action by the stage, or by the one in which the transaction failed.\<close>

definition recovery_end :: "string \<Rightarrow> boot_stage \<Rightarrow> boot_stage option" where
  "recovery_end act s =
     (if act = ''no_op'' then Some s
      else if act = ''select_exact_baseline_oneshot_preserve_artifacts'' then Some StBaselineSelected
      else if act \<in> {''verify_baseline_preserve_artifacts'', ''resume_exact_cleanup''} then Some StRestored
      else if act \<in> {''remove_exact_owned_before_reboot'', ''clear_exact_owned_oneshot_then_remove''} then Some StRecovered
      else None)"

definition command_promise :: "boot_command \<Rightarrow> bool \<Rightarrow> durable_transaction \<Rightarrow> boot_stage \<Rightarrow> bool" where
  "command_promise cmd experimental t s' = (case cmd of
     Lifecycle st \<Rightarrow> step_from st (tx_stage t) \<and> s' = step_to st
   | Activate \<Rightarrow> tx_stage t = StOneShotSelected \<and> s' = StActivationVerified
   | Recover _ \<Rightarrow> recovery_end (recovery_action_v6 (unwrap_or (tx_stage t) (tp_failed_from_stage (dt_payload t))) experimental) (tx_stage t) = Some s')"

lemma cli_Ok: "cli f w = (Ok x, w') \<longleftrightarrow> f w = (Ok x, w')"
  by (auto simp: cli_def split: prod.splits sum.splits)

lemma ends_cli: "ends_in s f \<Longrightarrow> ends_in s (cli f)"
  by (simp add: ends_in_def cli_Ok)

lemma ends_cli_transition: "(\<And>x. stage_frame (f x)) \<Longrightarrow> ends_in s (bindA (cli (transition_v6 C s)) f)"
  unfolding ends_in_def stage_frame_def bindA_Ok cli_Ok by (metis transition_ends)

lemma frame_host: "stage_frame (host_op f)" "stage_frame (persist B)" "stage_frame (\<lambda>w. host_op (g w) w)" "stage_frame (s_get h)"
  "stage_frame (s_modify (tx_evidence C name bytes))" "stage_frame (s_modify (tx_set C (\<lambda>p. p\<lparr> tp_recovery_state := r \<rparr>)))"
  by (auto simp: stage_frame_def host_op_def persist_def tx_evidence_def tx_set_def tx_insert_hash_def split: prod.splits sum.splits)

lemma activate_ends: "ends_in StActivationVerified (experimental_activate C H B m)"
  unfolding experimental_activate_def Let_def by (rule ends_cli_transition ends_bind)+ (rule frame_host)

lemma recovery_ends: "ends_in StRecovered (recovery_before_reboot C H B m)"
  unfolding recovery_before_reboot_def Let_def
  by (rule ends_cli_transition ends_bind)+ (intro frame_bind frame_host)

lemma activate_starts:
  assumes "experimental_activate C H B m w = (Ok x, w')"
  shows "tx_stage (snd w) = StOneShotSelected"
  using assms unfolding experimental_activate_def bindA_Ok [of "host_read _"] bindA_Ok [of "bail_if _ _"] bindA_Ok [of "s_get _"]
  by (auto simp: host_read_Ok bail_if_Ok)

lemma recover_promise:
  assumes "boot_recover C H B m idempotence w = (Ok x, w')"
  shows "recovery_end (recovery_action_v6 (unwrap_or (tx_stage (snd w)) (tp_failed_from_stage (dt_payload (snd w))))
     (bb_current_boot_is_experimental B m (fst w))) (tx_stage (snd w)) = Some (tx_stage (snd w'))"
proof -
  define act where "act = recovery_action_v6 (unwrap_or (tx_stage (snd w)) (tp_failed_from_stage (dt_payload (snd w))))
    (bb_current_boot_is_experimental B m (fst w))"
  have e: "ends_in StBaselineSelected (cli (select_baseline_rollback_v6 C B m))" "ends_in StRestored (cli (verify_then_cleanup_v6 C B m))"
    "ends_in StRecovered (bindA (bail_if idempotence e1) (\<lambda>_. bindA (whenA c f) (\<lambda>_. recovery_before_reboot C H B m)))" for e1 c f
    by (intro ends_cli operations_end ends_bind recovery_ends)+
  have h: "bindA (host_read (\<lambda>b. Ok (bb_current_boot_is_experimental B m b))) f w = f (bb_current_boot_is_experimental B m (fst w)) w"
    "bindA (s_get g) k w = k (g (snd w)) w" for f g k by (simp_all add: bindA_def host_read_def s_get_def)
  have r: "(if act = ''no_op''
     then (if idempotence then host_read (ah_verify_sha256sums H (mp_transaction_root (pm_payload m))) else ret ())
     else if act = ''select_exact_baseline_oneshot_preserve_artifacts'' then cli (select_baseline_rollback_v6 C B m)
     else if act \<in> {''verify_baseline_preserve_artifacts'', ''resume_exact_cleanup''} then cli (verify_then_cleanup_v6 C B m)
     else if act \<in> {''remove_exact_owned_before_reboot'', ''clear_exact_owned_oneshot_then_remove''}
     then bindA (bail_if idempotence ''idempotence verification cannot mutate'') (\<lambda>_.
          bindA (whenA (act = ''clear_exact_owned_oneshot_then_remove'') (recovery_clear_one_shot C H B m)) (\<lambda>_.
          recovery_before_reboot C H B m))
     else throw (CliMsg (''recovery requires diagnosis: '' @ act))) w = (Ok x, w')"
    using assms unfolding boot_recover_def h Let_def act_def .
  have n: "act = ''no_op'' \<Longrightarrow> w' = w" using r by (auto simp: host_read_def ret_def split: if_splits sum.splits)
  show ?thesis unfolding act_def [symmetric] recovery_end_def
    using r n e [unfolded ends_in_def] by (simp only: split: if_splits) (blast | simp)+
qed

text \<open>C12. The commands refine the stage graph. Whatever the backend and the host answer, and also when a command
  fails half way, the stage it leaves is reached from the stage it found by legal transitions
  only; and a command that reports success was started in a stage its specification allows and
  has reached the stage it promises. This covers the measurement of the baseline, which starts a transaction as prepared, the five
  steps of the lifecycle (apply, one-shot selection, post-boot collection, rollback, cleanup), the activation in the
  experimental boot and the recovery, whose promise depends on the action it chooses.\<close>

theorem boot_refines_stages:
  "(run_boot_command C H B m cmd (b, t) = (r, (b', t')) \<longrightarrow>
     legal_transition_v6\<^sup>*\<^sup>* (tx_stage t) (tx_stage t') \<and>
     (r = Ok () \<longrightarrow> command_promise cmd (bb_current_boot_is_experimental B m b) t (tx_stage t'))) \<and>
   (initialize_and_measure_baseline_v6 C B m preflight boot_id b = (Ok t', b') \<longrightarrow>
     legal_transition_v6\<^sup>*\<^sup>* StPrepared (tx_stage t') \<and> tx_stage t' = StBaselineMeasured)"
proof (intro conjI impI)
  assume r: "run_boot_command C H B m cmd (b, t) = (r, (b', t'))"
  have "graph.keeps_tx (tx_stage t) (run_boot_command C H B m cmd)"
    using step_keeps_graph [of "tx_stage t" C B m]
    by (cases cmd) (simp_all add: run_boot_command_def command_graph.keeps_cli command_graph.keeps_experimental_activate
        command_graph.keeps_boot_recover)
  then show "legal_transition_v6\<^sup>*\<^sup>* (tx_stage t) (tx_stage t')"
    using graph.keeps_runD [where m = "run_boot_command C H B m cmd" and s = "tx_stage t"] r by blast
  assume "r = Ok ()"
  with r show "command_promise cmd (bb_current_boot_is_experimental B m b) t (tx_stage t')"
    using step_starts [of C B m _ "(b, t)"] step_ends [of _ C B m] activate_starts [of C H B m "(b, t)"] activate_ends [of C H B m]
      recover_promise [of C H B m _ "(b, t)"]
    by (cases cmd) (auto simp: run_boot_command_def command_promise_def cli_Ok ends_in_def)
next
  assume i: "initialize_and_measure_baseline_v6 C B m preflight boot_id b = (Ok t', b')"
  then obtain t0 where n: "tx_new C m boot_id = Ok t0" and r: "measure_baseline C B m preflight (b, t0) = (Ok (), (b', t'))"
    by (auto simp: initialize_and_measure_baseline_v6_def split: sum.splits prod.splits)
  have "tx_stage t0 = StPrepared" using n by (auto simp: tx_new_def tx_seal_def Let_def)
  then show "legal_transition_v6\<^sup>*\<^sup>* StPrepared (tx_stage t')"
    using graph.keeps_runD [OF graph.keeps_operations(1) r, of StPrepared] by simp
  have "ends_in StBaselineMeasured (measure_baseline C B m preflight)"
    unfolding measure_baseline_def Let_def by ((rule ends_transition ends_bind)+, intro frame_steps)
  then show "tx_stage t' = StBaselineMeasured" using r unfolding ends_in_def by fastforce
qed

text \<open>The states a validation of a manifest can reach: after its initialisation, any commands in any order
  with any answers of the backend and the host, and reboots, which change everything but the
  transaction.\<close>

inductive boot_history :: "tx_codec \<Rightarrow> prepared_manifest \<Rightarrow> 'b \<times> durable_transaction \<Rightarrow> bool" for C m where
  initialized: "initialize_and_measure_baseline_v6 C B m preflight boot_id b = (Ok t, b') \<Longrightarrow> boot_history C m (b', t)"
| command: "boot_history C m w \<Longrightarrow> run_lifecycle_step C B m st w = (r, w') \<Longrightarrow> boot_history C m w'"
| activation: "boot_history C m w \<Longrightarrow> experimental_activate C H B m w = (r, w') \<Longrightarrow> boot_history C m w'"
| recovery: "boot_history C m w \<Longrightarrow> boot_recover C H B m idempotence w = (r, w') \<Longrightarrow> boot_history C m w'"
| reboot: "boot_history C m (b, t) \<Longrightarrow> boot_history C m (b', t)"

lemma history_unfiled:
  "boot_history C m w \<Longrightarrow> map_of (tp_evidence_hashes (dt_payload (snd w))) ''zram-baseline-evidence-v2.json'' = None"
proof (induction rule: boot_history.induct)
  case (initialized B preflight boot_id b t b')
  then obtain t0 where n: "tx_new C m boot_id = Ok t0" and r: "measure_baseline C B m preflight (b, t0) = (Ok (), (b', t))"
    by (auto simp: initialize_and_measure_baseline_v6_def split: sum.splits prod.splits)
  have "tp_evidence_hashes (dt_payload t0) = []" using n by (auto simp: tx_new_def tx_seal_def Let_def)
  then show ?case using unfiled.keeps_runD [OF unfiled.keeps_operations(1) r] by simp
next
  case (command w B st r w')
  have "unfiled.keeps_tx (run_lifecycle_step C B m st)"
    using unfiled.keeps_operations [where C = C and B = B and m = m]
    by (cases st) (auto simp: run_lifecycle_step_def intro!: unfiled.keeps_tx_bind unfiled.keeps_steps)
  from unfiled.keeps_tx_run [OF this command.IH command.hyps(2)] show ?case .
next
  case (activation w H B r w')
  from unfiled.keeps_tx_run [OF unfiled.keeps_experimental_activate activation.IH activation.hyps(2)] show ?case .
next
  case (recovery w H B idempotence r w')
  from unfiled.keeps_tx_run [OF unfiled.keeps_boot_recover recovery.IH recovery.hyps(2)] show ?case .
qed simp

lemma isl_bindA: "(\<And>x w'. m w = (Ok x, w') \<Longrightarrow> isl (fst (f x w'))) \<Longrightarrow> isl (fst (bindA m f w))"
  by (auto simp: bindA_def isl_def split: prod.splits sum.splits)

lemma publish_unfiled:
  "map_of (tp_evidence_hashes (dt_payload (snd w))) ''zram-baseline-evidence-v2.json'' = None \<Longrightarrow> isl (fst (publish_authority C B m w))"
  by (simp add: publish_authority_def bindA_def s_get_def require_some_def lift_result_def)

lemma cleanup_unfiled:
  assumes "map_of (tp_evidence_hashes (dt_payload (snd w))) ''zram-baseline-evidence-v2.json'' = None"
  shows "isl (fst (verify_then_cleanup_v6 C B m w))"
proof -
  have "unfiled.keeps_tx (prove_baseline C B m)" "unfiled.keeps_tx (remove_owned_state C B m)"
    unfolding prove_baseline_def remove_owned_state_def Let_def
    by (auto intro!: unfiled.keeps_intros unfiled.keeps_cleanup simp: EVIDENCE_NAMES_def)
  then show ?thesis unfolding verify_then_cleanup_v6_def
    by (intro isl_bindA publish_unfiled) (metis unfiled.keeps_tx_run assms)
qed

lemma recovery_of_cleaning:
  assumes "tx_stage (snd w) \<in> {StBaselineVerified, StCleaning}" and "tp_failed_from_stage (dt_payload (snd w)) = None"
  shows "isl (fst (boot_recover C H B m idempotence w))"
proof -
  have "isl (fst (verify_then_cleanup_v6 C B m w))" using assms(1) by (intro operations_start(5)) auto
  then have "isl (fst (cli (verify_then_cleanup_v6 C B m) w))"
    by (auto simp: cli_def isl_def split: prod.splits)
  then show ?thesis using assms
    by (auto simp: boot_recover_def bindA_def host_read_def s_get_def recovery_action_v6_def Let_def)
qed

text \<open>C38. No validation is ever completed. The cleanup asks for the digest of
  \<open>zram-baseline-evidence-v2.json\<close>, but the baseline is filed as
  \<open>zram-baseline-evidence-v4.json\<close> and no command files the former, so in every reachable state the cleanup
  ends with an error, whatever backend and host answer. It has removed the artifacts by then; and the recovery that should
  resume it insists on the stage before, so it fails too.\<close>

theorem boot_never_completes:
  assumes "boot_history C m w"
  shows "isl (fst (verify_then_cleanup_v6 C B m w)) \<and>
    (tx_stage (snd w) \<in> {StBaselineVerified, StCleaning} \<and> tp_failed_from_stage (dt_payload (snd w)) = None \<longrightarrow>
      isl (fst (boot_recover C H B m idempotence w)))"
  using cleanup_unfiled [OF history_unfiled [OF assms]] recovery_of_cleaning by blast

theorem boot_never_completes_witness:
  "\<exists>w :: fake_lifecycle \<times> durable_transaction. boot_history fixture_codec fixture w \<and>
     isl (fst (verify_then_cleanup_v6 fixture_codec (fake_boot_backend fixture_codec) fixture w))"
proof -
  obtain t b where "initialize_and_measure_baseline_v6 fixture_codec (fake_boot_backend fixture_codec) fixture
      (fixture_observation True) ''boot-a'' fake_lifecycle_default = (Ok t, b)" using fixture_measured by blast
  then have "boot_history fixture_codec fixture (b, t)" by (rule boot_history.initialized)
  with boot_never_completes [OF this] show ?thesis by blast
qed

subsection \<open>The experimental boot\<close>

text \<open>A computation that fails and leaves the host as it found it.\<close>

definition refuses :: "'b \<times> durable_transaction \<Rightarrow> ('b, 'a) cli_op \<Rightarrow> bool" where
  "refuses w m \<longleftrightarrow> (\<exists>e t'. m w = (Err e, (fst w, t')))"

lemma refuses_bind:
  assumes "reads_only m" and "\<And>x. m w = (Ok x, w) \<Longrightarrow> refuses w (f x)"
  shows "refuses w (bindA m f)"
proof -
  obtain r w' where mw: "m w = (r, w')" by (cases "m w")
  moreover have "snd (m w) = w" using assms(1) unfolding reads_only_def by (rule spec)
  ultimately have "w' = w" by simp
  then show ?thesis using mw assms(2) by (cases r; cases w) (auto simp: refuses_def bindA_def)
qed

text \<open>C39. The activation in the experimental boot never succeeds. It stores the new boot identifier in the
  transaction without recomputing the digest, and the transition that follows checks the digest;
  so on every valid transaction the command ends with an error before it has changed anything on the
  host, provided only that the digest of the changed payload differs.\<close>

theorem boot_activation_refused:
  assumes "tx_validate (tx_digest C) t = Ok ()"
    and "\<And>boot_id. ah_read_trimmed H ''/proc/sys/kernel/random/boot_id'' b = Ok boot_id \<Longrightarrow> boot_id \<noteq> tp_baseline_boot_id (dt_payload t) \<Longrightarrow>
      tx_digest C ((dt_payload t)\<lparr> tp_current_boot_id := boot_id \<rparr>) \<noteq> tx_digest C (dt_payload t)"
  shows "\<exists>e t'. experimental_activate C H B m (b, t) = (Err e, (b, t'))"
proof -
  have pre: "reads_only (activation_preconditions H B m)"
    unfolding activation_preconditions_def Let_def by (intro reads_bind reads_steps)
  have d: "tx_digest C (dt_payload t) = dt_payload_sha256 t"
    using assms(1) by (simp add: tx_validate_def split: if_splits)
  have stop: "refuses (b, t) (bindA (s_modify (tx_poke (\<lambda>p. p\<lparr> tp_current_boot_id := boot_id \<rparr>))) (\<lambda>_.
      bindA (cli (transition_v6 C s)) k))"
    if "tx_digest C ((dt_payload t)\<lparr> tp_current_boot_id := boot_id \<rparr>) \<noteq> tx_digest C (dt_payload t)" for boot_id s k
    using that d by (simp add: refuses_def bindA_def s_modify_def cli_def transition_v6_def s_op_def tx_transition_def
        tx_validate_def tx_poke_def)
  have "refuses (b, t) (experimental_activate C H B m)"
    unfolding experimental_activate_def
    by (intro refuses_bind [OF reads_steps(1)] refuses_bind [OF reads_steps(2)] refuses_bind [OF reads_steps(3)]
        refuses_bind [OF pre] stop assms(2))
      (auto dest!: bail_ifD host_readD)
  then show ?thesis by (simp add: refuses_def)
qed

text \<open>A host on which every file holds the text \<open>b\<close>, which is also its new boot identifier.\<close>

definition fixture_host :: "fake_lifecycle activation_host" where
  "fixture_host = \<lparr> ah_uid = (\<lambda>_. Ok 0), ah_read_trimmed = (\<lambda>_ _. Ok ''b''), ah_write = (\<lambda>_ _. ret ()),
     ah_collect_swaps = (\<lambda>_. Ok []), ah_collect_zram = (\<lambda>_ _. Ok (mp_protected_zram fixture_payload)),
     ah_bootctl_status = (\<lambda>_. Ok []), ah_current_exe = (\<lambda>_. Ok []), ah_swap_uuid = (\<lambda>_ _. Ok []),
     ah_run_exact = (\<lambda>_ _. ret ()), ah_activation_evidence = (\<lambda>_ _ _ _. []), ah_recovery_evidence = (\<lambda>_. []),
     ah_verify_sha256sums = (\<lambda>_ _. Ok ()) \<rparr>"

theorem boot_refines_stages_witness:
  "\<exists>b' t'. run_boot_command fixture_codec fixture_host (fake_boot_backend fixture_codec) fixture (Lifecycle StepRollback)
     (fake_lifecycle_default, fixture_tx StActivationVerified) = (Ok (), (b', t')) \<and> tx_stage t' = StBaselineSelected"
proof -
  obtain b' t' where r: "run_boot_command fixture_codec fixture_host (fake_boot_backend fixture_codec) fixture (Lifecycle StepRollback)
      (fake_lifecycle_default, fixture_tx StActivationVerified) = (Ok (), (b', t'))"
    using fixture_rollback by (auto simp: run_boot_command_def cli_Ok)
  with boot_refines_stages [of fixture_codec fixture_host "fake_boot_backend fixture_codec" fixture "Lifecycle StepRollback" fake_lifecycle_default
      "fixture_tx StActivationVerified" "Ok ()" b' t'] show ?thesis by (auto simp: command_promise_def step_to_def)
qed

theorem boot_activation_refused_witness:
  "tx_stage (fixture_tx StOneShotSelected) = StOneShotSelected \<and>
   (\<exists>e t'. experimental_activate fixture_codec fixture_host (fake_boot_backend fixture_codec) fixture
      (fake_lifecycle_default, fixture_tx StOneShotSelected) = (Err e, (fake_lifecycle_default, t')))"
proof -
  have hex: "is_ascii_hexdigit CHR ''a''" "is_ascii_hexdigit CHR ''b''" by code_simp+
  show ?thesis
    using boot_activation_refused [of fixture_codec "fixture_tx StOneShotSelected" fixture_host fake_lifecycle_default
        "fake_boot_backend fixture_codec" fixture]
    by (simp add: fixture_tx_def fixture_host_def tx_digest_def fixture_codec_def hex)
qed

end
