(* ===== verification/Boot_Journal.thy ===== *)
theory Boot_Journal
  imports Boot_Activation
begin

text \<open>
  The order of durable records and mutations. Any backend and any host are wrapped so that they keep a journal of the
  transactions persisted, the evidence filed and every other call that may change something (\<open>journaled\<close>,
  \<open>journaled_host\<close>). The journal of every command, also of a failing one, is write-ahead: a call is made only
  while the transaction last persisted announces it; only the directory of the transaction and the copy of the manifest in
  it come before the first record. A second reading of the journal shows that cleanup removes nothing before it has
  observed and filed the restored baseline.
\<close>

datatype journal_event = JPersist durable_transaction | JEvidence string string | JRoot prepared_manifest | JManifest prepared_manifest
  | JStageHelper staged_binary_plan | JMeasure prepared_manifest | JCreateSwap prepared_manifest
  | JCreate owned_artifact | JSync prepared_manifest | JRemove owned_artifact | JRemoveSwap prepared_manifest | JFinalize prepared_manifest
  | JOneShot string | JCollect prepared_manifest | JSeal durable_transaction | JWrite string string | JRun string "string list"

definition noted :: "journal_event \<Rightarrow> (string, 'b, 'a) eff \<Rightarrow> (string, 'b \<times> journal_event list, 'a) eff" where
  "noted e f w = (case f (fst w) of (r, b) \<Rightarrow> (r, (b, e # snd w)))"

definition journaled :: "'b boot_backend \<Rightarrow> ('b \<times> journal_event list) boot_backend" where
  "journaled B = \<lparr>
     bb_persist_transaction = (\<lambda>t w. case bb_persist_transaction B t (fst w) of
        (Inl e, b) \<Rightarrow> (Err e, (b, snd w)) | (Inr x, b) \<Rightarrow> (Ok x, (b, JPersist t # snd w))),
     bb_create_transaction_root = (\<lambda>m. noted (JRoot m) (bb_create_transaction_root B m)),
     bb_copy_prepared_manifest = (\<lambda>m. noted (JManifest m) (bb_copy_prepared_manifest B m)),
     bb_persist_evidence = (\<lambda>n x. noted (JEvidence n x) (bb_persist_evidence B n x)),
     bb_create_swapfile = (\<lambda>m. noted (JCreateSwap m) (bb_create_swapfile B m)),
     bb_create_artifact = (\<lambda>a. noted (JCreate a) (bb_create_artifact B a)),
     bb_stage_helper = (\<lambda>h. noted (JStageHelper h) (bb_stage_helper B h)),
     bb_staged_helper_matches = (\<lambda>h w. bb_staged_helper_matches B h (fst w)),
     bb_artifact_matches = (\<lambda>a w. bb_artifact_matches B a (fst w)),
     bb_artifact_absent = (\<lambda>a w. bb_artifact_absent B a (fst w)),
     bb_sync_parents = (\<lambda>m. noted (JSync m) (bb_sync_parents B m)),
     bb_remove_artifact = (\<lambda>a. noted (JRemove a) (bb_remove_artifact B a)),
     bb_remove_swapfile = (\<lambda>m. noted (JRemoveSwap m) (bb_remove_swapfile B m)),
     bb_swapfile_absent = (\<lambda>m w. bb_swapfile_absent B m (fst w)),
     bb_finalize_runtime_cleanup = (\<lambda>m. noted (JFinalize m) (bb_finalize_runtime_cleanup B m)),
     bb_set_one_shot = (\<lambda>e. noted (JOneShot e) (bb_set_one_shot B e)),
     bb_read_one_shot = (\<lambda>w. bb_read_one_shot B (fst w)),
     bb_permanent_default = (\<lambda>w. bb_permanent_default B (fst w)),
     bb_boot_order = (\<lambda>w. bb_boot_order B (fst w)),
     bb_current_boot_is_experimental = (\<lambda>m w. bb_current_boot_is_experimental B m (fst w)),
     bb_collect_zram_baseline = (\<lambda>m. noted (JMeasure m) (bb_collect_zram_baseline B m)),
     bb_collect_post_boot = (\<lambda>m. noted (JCollect m) (bb_collect_post_boot B m)),
     bb_collect_baseline = (\<lambda>m w. bb_collect_baseline B m (fst w)),
     bb_seal_archive = (\<lambda>t. noted (JSeal t) (bb_seal_archive B t)) \<rparr>"

definition journaled_host :: "'b activation_host \<Rightarrow> ('b \<times> journal_event list) activation_host" where
  "journaled_host H = \<lparr>
     ah_uid = (\<lambda>w. ah_uid H (fst w)), ah_read_trimmed = (\<lambda>p w. ah_read_trimmed H p (fst w)),
     ah_write = (\<lambda>p v. noted (JWrite p v) (ah_write H p v)),
     ah_collect_swaps = (\<lambda>w. ah_collect_swaps H (fst w)), ah_collect_zram = (\<lambda>ss w. ah_collect_zram H ss (fst w)),
     ah_bootctl_status = (\<lambda>w. ah_bootctl_status H (fst w)), ah_current_exe = (\<lambda>w. ah_current_exe H (fst w)),
     ah_swap_uuid = (\<lambda>p w. ah_swap_uuid H p (fst w)),
     ah_run_exact = (\<lambda>x as. noted (JRun x as) (ah_run_exact H x as)),
     ah_activation_evidence = ah_activation_evidence H, ah_recovery_evidence = ah_recovery_evidence H,
     ah_verify_sha256sums = (\<lambda>p w. ah_verify_sha256sums H p (fst w)) \<rparr>"

text \<open>The journal is kept newest first.\<close>

fun last_persisted :: "journal_event list \<Rightarrow> durable_transaction option" where
  "last_persisted [] = None"
| "last_persisted (JPersist t # l) = Some t"
| "last_persisted (e # l) = last_persisted l"

definition open_intent :: "durable_transaction \<Rightarrow> string \<Rightarrow> string \<Rightarrow> bool" where
  "open_intent t operation path \<longleftrightarrow> (let rs = tp_mutation_records (dt_payload t) in
     rs \<noteq> [] \<and> \<not> mr_completed (last rs) \<and> mr_operation (last rs) = operation \<and> mr_target (last rs) = path)"

definition ZSWAP_INTENTS :: "string list" where
  "ZSWAP_INTENTS = [''disable_zswap'', ''write_zswap_parameter'', ''enable_zswap'', ''rollback_zswap_disable'',
     ''rollback_zswap_parameter'', ''rollback_zswap_enabled'']"

text \<open>When a transaction on disk announces a call: by an open intent that names the operation and its path; the
  measurements, the synchronisation of directories and the undoing of an apply by the stage; the sealing of the archive by
  being the transaction that is sealed; and the last tidying up (reloading the units, the directory of the helper) by the
  intent, still open, to remove the swapfile.\<close>

fun announced :: "prepared_manifest \<Rightarrow> journal_event \<Rightarrow> durable_transaction \<Rightarrow> bool" where
  "announced m (JStageHelper h) t = open_intent t ''stage_trusted_baseline_helper'' (sbp_destination h)"
| "announced m (JMeasure _) t = (tx_stage t = StBaselineMeasuring)"
| "announced m (JCreateSwap m') t = open_intent t ''create_btrfs_swapfile'' (si_path (mp_swapfile (pm_payload m')))"
| "announced m (JCreate a) t = open_intent t ''create_new_artifact'' (oa_path a)"
| "announced m (JSync _) t = (tx_stage t = StApplying)"
| "announced m (JRemove a) t = (open_intent t ''remove_exact_artifact'' (oa_path a) \<or>
     open_intent t ''recovery_remove_exact_artifact'' (oa_path a) \<or> tx_stage t = StApplying)"
| "announced m (JRemoveSwap m') t = (let path = si_path (mp_swapfile (pm_payload m')) in
     open_intent t ''remove_exact_swapfile'' path \<or> open_intent t ''recovery_remove_exact_swapfile'' path \<or> tx_stage t = StApplying)"
| "announced m (JFinalize m') t = (let path = si_path (mp_swapfile (pm_payload m')) in
     open_intent t ''remove_exact_swapfile'' path \<or> open_intent t ''recovery_remove_exact_swapfile'' path)"
| "announced m (JOneShot e) t = (let p = pm_payload m in
     open_intent t ''set_oneshot'' (en_path (mp_experimental_entry p)) \<and> e = en_id (mp_experimental_entry p) \<or>
     (open_intent t ''set_baseline_oneshot'' (en_path (bo_current_entry (mp_boot p))) \<or>
      open_intent t ''select_baseline_after_activation_failure'' (en_path (bo_current_entry (mp_boot p)))) \<and> e = mp_recovery_entry p)"
| "announced m (JCollect _) t = (tx_stage t = StPostBootMeasuring)"
| "announced m (JSeal t') t = (t' = t)"
| "announced m (JWrite path _) t = list_ex (\<lambda>operation. open_intent t operation path) ZSWAP_INTENTS"
| "announced m (JRun program args) t = (
     program = ''/usr/bin/swapon'' \<and> open_intent t ''activate_validation_swap'' (last args) \<or>
     program = ''/usr/bin/swapoff'' \<and> open_intent t ''rollback_swapoff'' (last args) \<or>
     program = ''/usr/bin/bootctl'' \<and> args = [''set-oneshot'', []] \<and>
       open_intent t ''recovery_clear_exact_oneshot'' (en_path (mp_experimental_entry (pm_payload m))))"
| "announced m _ t = False"

definition is_persist :: "journal_event \<Rightarrow> bool" where
  "is_persist e \<longleftrightarrow> (case e of JPersist _ \<Rightarrow> True | _ \<Rightarrow> False)"

text \<open>Records of the transaction's own log may be written at any time; its directory and the manifest in it are the
  first two calls of all; everything else is announced.\<close>

fun allowed :: "prepared_manifest \<Rightarrow> journal_event \<Rightarrow> journal_event list \<Rightarrow> bool" where
  "allowed m (JPersist _) l = True"
| "allowed m (JEvidence _ _) l = True"
| "allowed m (JRoot m') l = (l = [])"
| "allowed m (JManifest m') l = (l = [JRoot m'])"
| "allowed m e l = is_some_and (announced m e) (last_persisted l)"

fun write_ahead :: "prepared_manifest \<Rightarrow> journal_event list \<Rightarrow> bool" where
  "write_ahead m [] = True"
| "write_ahead m (e # l) = (allowed m e l \<and> write_ahead m l)"

definition is_mutation :: "journal_event \<Rightarrow> bool" where
  "is_mutation e \<longleftrightarrow> (case e of JPersist _ \<Rightarrow> False | JEvidence _ _ \<Rightarrow> False | JRoot _ \<Rightarrow> False | JManifest _ \<Rightarrow> False | _ \<Rightarrow> True)"

lemma last_persisted_mutation [simp]: "\<not> is_persist e \<Longrightarrow> last_persisted (e # l) = last_persisted l"
  by (cases e) (auto simp: is_persist_def)

lemma mutation_not_persist [simp]: "is_mutation e \<Longrightarrow> \<not> is_persist e"
  by (cases e) (auto simp: is_persist_def is_mutation_def)

lemma allowed_mutation [simp]: "is_mutation e \<Longrightarrow> allowed m e l = is_some_and (announced m e) (last_persisted l)"
  by (cases e) (auto simp: is_mutation_def)

subsection \<open>Rules\<close>

abbreviation journal :: "('b \<times> journal_event list) \<times> durable_transaction \<Rightarrow> journal_event list" where
  "journal w \<equiv> snd (fst w)"

definition ahead :: "prepared_manifest \<Rightarrow> ('b \<times> journal_event list) \<times> durable_transaction \<Rightarrow> bool" where
  "ahead m w \<longleftrightarrow> write_ahead m (journal w)"

definition keeps_ahead :: "prepared_manifest \<Rightarrow> ('e, ('b \<times> journal_event list) \<times> durable_transaction, 'a) eff \<Rightarrow> bool" where
  "keeps_ahead m f \<longleftrightarrow> triple (ahead m) f (\<lambda>_. ahead m) (ahead m)"

lemma keeps_aheadI: "(\<And>w r w'. ahead m w \<Longrightarrow> f w = (r, w') \<Longrightarrow> ahead m w') \<Longrightarrow> keeps_ahead m f"
  unfolding keeps_ahead_def by (rule tripleI) blast+

lemma keeps_ahead_run: "keeps_ahead m f \<Longrightarrow> ahead m w \<Longrightarrow> f w = (r, w') \<Longrightarrow> ahead m w'"
  by (cases r) (auto simp: keeps_ahead_def dest: triple_Ok triple_Err)

lemma ahead_runD: "keeps_ahead m f \<Longrightarrow> f ((b, l), t) = (r, ((b', l'), t')) \<Longrightarrow> write_ahead m l \<Longrightarrow> write_ahead m l'"
  using keeps_ahead_run [of m f "((b, l), t)" r "((b', l'), t')"] by (simp add: ahead_def)

lemma ahead_bind: "keeps_ahead m f \<Longrightarrow> (\<And>x. keeps_ahead m (g x)) \<Longrightarrow> keeps_ahead m (bindA f g)"
  unfolding keeps_ahead_def by (rule triple_bind)

lemma ahead_when: "keeps_ahead m f \<Longrightarrow> keeps_ahead m (whenA c f)"
  unfolding keeps_ahead_def by (rule triple_when) auto

lemma persist_ahead:
  "bb_persist_transaction (journaled B) t w = (r, w') \<Longrightarrow> write_ahead m (snd w) \<Longrightarrow> write_ahead m (snd w')"
  "bb_persist_transaction (journaled B) t w = (Ok x, w') \<Longrightarrow> last_persisted (snd w') = Some t"
  by (auto simp: journaled_def split: prod.splits sum.splits)

lemma ahead_steps:
  "keeps_ahead m (transition_v6 C s)" "keeps_ahead m (record_intent C operation path)" "keeps_ahead m (complete_last C digest)"
  "keeps_ahead m (backend_reads g)" "keeps_ahead m (lift_result r)" "keeps_ahead m (throw e)" "keeps_ahead m (ret x)"
  "keeps_ahead m (s_get h)" "keeps_ahead m (s_modify k)" "keeps_ahead m (\<lambda>w. (r2 w, w))"
  by (rule keeps_aheadI; auto simp: ahead_def transition_v6_def record_intent_def complete_last_def backend_reads_def lift_result_def
      s_op_def s_modify_def s_get_def throw_def ret_def split: prod.splits)+

lemma ahead_persist: "keeps_ahead m (persist_or_fail (journaled B))"
  by (rule keeps_aheadI) (auto simp: ahead_def persist_or_fail_def backend_call_def split: prod.splits sum.splits
      dest: persist_ahead(1))

lemma ahead_fail: "keeps_ahead m (fail_transaction C (journaled B) primary secondary)"
proof (rule keeps_aheadI)
  fix w r w' assume a: "ahead m w" "fail_transaction C (journaled B) primary secondary w = (r, w')"
  obtain t where "fst w' = snd (bb_persist_transaction (journaled B) t (fst w))"
    using a(2) by (auto simp: fail_transaction_def Let_def)
  then show "ahead m w'"
    using a(1) persist_ahead(1) [of B t "fst w" _ _ m] by (cases "bb_persist_transaction (journaled B) t (fst w)") (simp add: ahead_def)
qed

lemma ahead_evidence: "keeps_ahead m (persist_evidence C (journaled B) label name bytes)"
  "keeps_ahead m (persist_authority C (journaled B) name bytes)"
proof -
  have "keeps_ahead m (backend_call e (bb_persist_evidence (journaled B) name bytes))" for e
    by (rule keeps_aheadI) (auto simp: ahead_def backend_call_def journaled_def noted_def split: prod.splits sum.splits)
  then show "keeps_ahead m (persist_evidence C (journaled B) label name bytes)" "keeps_ahead m (persist_authority C (journaled B) name bytes)"
    unfolding persist_evidence_def persist_authority_def by (auto intro!: ahead_bind ahead_steps)
qed

text \<open>Announce, persist, mutate.\<close>

lemma open_intent_recorded: "open_intent (tx_record_intent C operation path t) operation path"
  by (simp add: open_intent_def tx_record_intent_def Let_def)

lemma persist_or_failD:
  "persist_or_fail (journaled B) w = (Ok x, w') \<Longrightarrow>
     snd w' = snd w \<and> last_persisted (journal w') = Some (snd w) \<and> (write_ahead m (journal w) \<longrightarrow> write_ahead m (journal w'))"
  by (auto simp: persist_or_fail_def backend_call_def split: prod.splits sum.splits dest: persist_ahead(1) persist_ahead(2))

text \<open>The transaction last persisted satisfies \<open>P\<close>.\<close>

definition on_disk :: "prepared_manifest \<Rightarrow> (durable_transaction \<Rightarrow> bool) \<Rightarrow> ('b \<times> journal_event list) \<times> durable_transaction \<Rightarrow> bool" where
  "on_disk m P w \<longleftrightarrow> ahead m w \<and> is_some_and P (last_persisted (journal w))"

lemma disk_persist: "triple (\<lambda>w. ahead m w \<and> P (snd w)) (persist_or_fail (journaled B)) (\<lambda>_. on_disk m P) (ahead m)"
  by (rule tripleI) (auto dest: persist_or_failD [of B _ _ _ m] ahead_runD [OF ahead_persist] simp: ahead_def on_disk_def)

lemma disk_intent:
  assumes "triple (on_disk m (\<lambda>t. open_intent t operation path)) k Q (ahead m)"
  shows "triple (ahead m) (bindA (record_intent C operation path) (\<lambda>_. bindA (persist_or_fail (journaled B)) (\<lambda>_. k))) Q (ahead m)"
proof -
  have "triple (ahead m) (record_intent C operation path) (\<lambda>_ w. ahead m w \<and> open_intent (snd w) operation path) (ahead m)"
    by (rule tripleI) (auto simp: record_intent_def s_modify_def ahead_def open_intent_recorded)
  then show ?thesis by (rule triple_bind) (rule triple_bind [OF disk_persist assms])
qed

lemma disk_stage:
  assumes "triple (on_disk m (\<lambda>t. tx_stage t = s)) k Q (ahead m)"
  shows "triple (ahead m) (bindA (transition_v6 C s) (\<lambda>_. bindA (persist_or_fail (journaled B)) (\<lambda>_. k))) Q (ahead m)"
proof -
  have "triple (ahead m) (transition_v6 C s) (\<lambda>_ w. ahead m w \<and> tx_stage (snd w) = s) (ahead m)"
    by (rule tripleI) (auto simp: transition_v6_def s_op_def ahead_def tx_transition_def tx_set_def split: prod.splits sum.splits if_splits)
  then show ?thesis by (rule triple_bind) (rule triple_bind [OF disk_persist assms])
qed

lemma on_disk_ahead: "on_disk m P w \<Longrightarrow> ahead m w"
  by (simp add: on_disk_def)

lemma disk_noted: "on_disk m P w \<Longrightarrow> is_mutation e \<Longrightarrow> (\<And>t. P t \<Longrightarrow> announced m e t) \<Longrightarrow> on_disk m P ((b, e # journal w), t)"
  by (auto simp: on_disk_def ahead_def is_some_and_iff)

lemma disk_call:
  assumes "is_mutation e" and "\<And>t. P t \<Longrightarrow> announced m e t"
  shows "triple (on_disk m P) (call_or_fail C (journaled B) (noted e f)) (\<lambda>_. on_disk m P) (ahead m)"
proof (rule tripleI)
  fix w x w' assume "on_disk m P w" "call_or_fail C (journaled B) (noted e f) w = (Ok x, w')"
  then show "on_disk m P w'"
    by (auto simp: call_or_fail_def noted_def fail_transaction_def Let_def split: prod.splits sum.splits intro: disk_noted [OF _ assms])
next
  fix w x w' assume d: "on_disk m P w" and r: "call_or_fail C (journaled B) (noted e f) w = (Err x, w')"
  obtain primary b where "fail_transaction C (journaled B) primary [] ((b, e # journal w), snd w) = (Err x :: (boot_error, 'b) result, w')"
    using r by (auto simp: call_or_fail_def noted_def split: prod.splits sum.splits)
  then show "ahead m w'" by (rule keeps_ahead_run [OF ahead_fail, rotated]) (rule on_disk_ahead [OF disk_noted [OF d assms]])
qed

lemma disk_keep:
  "triple (on_disk m P) (complete_last C digest) (\<lambda>_. on_disk m P) (ahead m)"
  "triple (on_disk m P) (backend_reads g) (\<lambda>_. on_disk m P) (ahead m)"
  "triple (on_disk m P) (whenA c (fail_transaction C (journaled B) primary secondary)) (\<lambda>_. on_disk m P) (ahead m)"
proof -
  show "triple (on_disk m P) (complete_last C digest) (\<lambda>_. on_disk m P) (ahead m)"
    "triple (on_disk m P) (backend_reads g) (\<lambda>_. on_disk m P) (ahead m)"
    by (rule tripleI; auto simp: on_disk_def ahead_def complete_last_def backend_reads_def s_op_def split: prod.splits)+
  have "triple (on_disk m P) (fail_transaction C (journaled B) primary secondary) (\<lambda>_. on_disk m P) (ahead m)"
    by (rule tripleI) (auto simp: fail_transaction_def Let_def intro: keeps_ahead_run [OF ahead_fail on_disk_ahead, of m P _ C B primary secondary])
  then show "triple (on_disk m P) (whenA c (fail_transaction C (journaled B) primary secondary)) (\<lambda>_. on_disk m P) (ahead m)"
    by (rule triple_when) auto
qed

lemma disk_end: "keeps_ahead m k \<Longrightarrow> triple (on_disk m P) k (\<lambda>_. ahead m) (ahead m)"
  unfolding keeps_ahead_def by (erule triple_conseq) (auto dest: on_disk_ahead)

lemma announced_call:
  assumes "is_mutation e" and "\<And>t. open_intent t operation path \<Longrightarrow> announced m e t" and "\<And>x. keeps_ahead m (k x)"
  shows "keeps_ahead m (bindA (record_intent C operation path) (\<lambda>_. bindA (persist_or_fail (journaled B)) (\<lambda>_.
     bindA (call_or_fail C (journaled B) (noted e f)) k)))"
  unfolding keeps_ahead_def by (intro disk_intent triple_bind [OF disk_call [OF assms(1,2)]] disk_end assms(3))

lemma staged_call:
  assumes "is_mutation e" and "\<And>t. tx_stage t = s \<Longrightarrow> announced m e t" and "\<And>x. keeps_ahead m (k x)"
  shows "keeps_ahead m (bindA (transition_v6 C s) (\<lambda>_. bindA (persist_or_fail (journaled B)) (\<lambda>_.
     bindA (call_or_fail C (journaled B) (noted e f)) k)))"
  unfolding keeps_ahead_def by (intro disk_stage triple_bind [OF disk_call [OF assms(1,2)]] disk_end assms(3))

lemma ahead_seal: "keeps_ahead m (bindA (persist_or_fail (journaled B)) (\<lambda>_ w. backend_call e (noted (JSeal (snd w)) (f w)) w))"
proof (rule keeps_aheadI)
  fix w r w' assume a: "ahead m w" and r: "bindA (persist_or_fail (journaled B)) (\<lambda>_ w. backend_call e (noted (JSeal (snd w)) (f w)) w) w = (r, w')"
  obtain q w1 where p: "persist_or_fail (journaled B) w = (q, w1)" by (cases "persist_or_fail (journaled B) w")
  show "ahead m w'"
  proof (cases q)
    case (Inl x)
    then show ?thesis using r p keeps_ahead_run [OF ahead_persist a] by (auto simp: bindA_def)
  next
    case (Inr x)
    have "write_ahead m (JSeal (snd w1) # journal w1)"
      using persist_or_failD [OF p [unfolded Inr], of m] a by (simp add: ahead_def)
    then show ?thesis using r p Inr by (auto simp: bindA_def backend_call_def noted_def ahead_def split: prod.splits sum.splits)
  qed
qed

lemmas ahead_intros = announced_call staged_call ahead_seal ahead_bind ahead_when ahead_steps ahead_persist ahead_fail ahead_evidence

lemma journaled_calls [simp]:
  "bb_create_transaction_root (journaled B) m = noted (JRoot m) (bb_create_transaction_root B m)"
  "bb_copy_prepared_manifest (journaled B) m = noted (JManifest m) (bb_copy_prepared_manifest B m)"
  "bb_persist_evidence (journaled B) n x = noted (JEvidence n x) (bb_persist_evidence B n x)"
  "bb_create_swapfile (journaled B) m = noted (JCreateSwap m) (bb_create_swapfile B m)"
  "bb_create_artifact (journaled B) a = noted (JCreate a) (bb_create_artifact B a)"
  "bb_stage_helper (journaled B) h = noted (JStageHelper h) (bb_stage_helper B h)"
  "bb_sync_parents (journaled B) m = noted (JSync m) (bb_sync_parents B m)"
  "bb_remove_artifact (journaled B) a = noted (JRemove a) (bb_remove_artifact B a)"
  "bb_remove_swapfile (journaled B) m = noted (JRemoveSwap m) (bb_remove_swapfile B m)"
  "bb_finalize_runtime_cleanup (journaled B) m = noted (JFinalize m) (bb_finalize_runtime_cleanup B m)"
  "bb_set_one_shot (journaled B) e = noted (JOneShot e) (bb_set_one_shot B e)"
  "bb_collect_zram_baseline (journaled B) m = noted (JMeasure m) (bb_collect_zram_baseline B m)"
  "bb_collect_post_boot (journaled B) m = noted (JCollect m) (bb_collect_post_boot B m)"
  "bb_seal_archive (journaled B) t = noted (JSeal t) (bb_seal_archive B t)"
  "ah_write (journaled_host H) p v = noted (JWrite p v) (ah_write H p v)"
  "ah_run_exact (journaled_host H) x as = noted (JRun x as) (ah_run_exact H x as)"
  by (simp_all add: journaled_def journaled_host_def)

lemma ahead_cleanup: "keeps_ahead m (cleanup_artifacts C (journaled B) as)"
proof (induction as)
  case (Cons a as)
  show ?case unfolding cleanup_artifacts.simps journaled_calls
    by (intro announced_call ahead_intros Cons.IH; simp add: is_mutation_def)
qed (simp add: ahead_steps)

lemma ahead_collect: "keeps_ahead m (\<lambda>w. case bb_collect_baseline B m (fst w) of Inl _ \<Rightarrow> (Err e, w) | Inr o1 \<Rightarrow> (Ok o1, w))"
  by (rule keeps_aheadI) (auto split: sum.splits)

text \<open>The removal of the owned state: the intent to remove the swapfile is open on disk until the end.\<close>

lemma ahead_removal: "keeps_ahead m (remove_owned_state C (journaled B) m)"
  unfolding remove_owned_state_def Let_def journaled_calls
proof (rule ahead_bind [OF ahead_cleanup], unfold keeps_ahead_def, rule disk_intent)
  let ?P = "\<lambda>t. open_intent t ''remove_exact_swapfile'' (si_path (mp_swapfile (pm_payload m)))"
  have mu: "is_mutation (JRemoveSwap m)" "is_mutation (JFinalize m)" by (simp_all add: is_mutation_def)
  have an: "?P t \<Longrightarrow> announced m (JRemoveSwap m) t" "?P t \<Longrightarrow> announced m (JFinalize m) t" for t by (simp_all add: Let_def)
  show "triple (on_disk m ?P) (bindA (call_or_fail C (journaled B) (noted (JRemoveSwap m) (bb_remove_swapfile B m))) (\<lambda>_.
     bindA (complete_last C ''absent'') (\<lambda>_.
     bindA (backend_reads (\<lambda>b. list_ex (\<lambda>a. \<not> bb_artifact_absent (journaled B) a b) (mp_owned_artifacts (pm_payload m)) \<or>
         \<not> bb_swapfile_absent (journaled B) m b)) (\<lambda>present.
     bindA (whenA present (fail_transaction C (journaled B) ''final exact-owned absence verification failed'' [])) (\<lambda>_.
     call_or_fail C (journaled B) (noted (JFinalize m) (bb_finalize_runtime_cleanup B m))))))) (\<lambda>_. ahead m) (ahead m)"
    by (intro triple_bind [OF disk_call [OF mu(1) an(1)]] triple_bind [OF disk_keep(1)] triple_bind [OF disk_keep(2)] triple_bind [OF disk_keep(3)]
        triple_conseq [OF disk_call [OF mu(2) an(2)]]) (auto dest: on_disk_ahead)
qed

text \<open>The first two calls of a validation.\<close>

lemma measure_baseline_ahead:
  "triple (\<lambda>w. journal w = []) (measure_baseline C (journaled B) m preflight) (\<lambda>_. ahead m) (ahead m)"
proof -
  have first: "triple (\<lambda>w. journal w = []) (backend_call e (noted (JRoot m) f)) (\<lambda>_ w. journal w = [JRoot m]) (ahead m)" for e f
    by (rule tripleI) (auto simp: backend_call_def noted_def ahead_def split: prod.splits sum.splits)
  have second: "triple (\<lambda>w. journal w = [JRoot m]) (backend_call e (noted (JManifest m) f)) (\<lambda>_. ahead m) (ahead m)" for e f
    by (rule tripleI) (auto simp: backend_call_def noted_def ahead_def split: prod.splits sum.splits)
  show ?thesis unfolding measure_baseline_def Let_def journaled_calls
    by (intro triple_bind [OF first] triple_bind [OF second], fold keeps_ahead_def, intro ahead_intros; simp add: is_mutation_def)
qed

lemma ahead_operations:
  "keeps_ahead m (select_exact_one_shot_v6 C (journaled B) m)"
  "keeps_ahead m (collect_and_validate_post_boot_v6 C (journaled B) m)"
  "keeps_ahead m (select_baseline_rollback_v6 C (journaled B) m)"
  "keeps_ahead m (verify_then_cleanup_v6 C (journaled B) m)"
  unfolding select_exact_one_shot_v6_def collect_and_validate_post_boot_v6_def
    select_baseline_rollback_v6_def verify_then_cleanup_v6_def prove_baseline_def publish_authority_def
    require_some_def Let_def journaled_calls
  by (intro ahead_removal ahead_intros ahead_collect; simp add: is_mutation_def Let_def)+

subsection \<open>Apply\<close>

text \<open>While a transaction is being applied, and it and the transaction last persisted say so, its undoing is
  announced as well.\<close>

definition applying :: "prepared_manifest \<Rightarrow> ('b \<times> journal_event list) \<times> durable_transaction \<Rightarrow> bool" where
  "applying m w \<longleftrightarrow> ahead m w \<and> tx_stage (snd w) = StApplying \<and>
     is_some_and (\<lambda>t. tx_stage t = StApplying) (last_persisted (journal w))"

definition keeps_applying :: "prepared_manifest \<Rightarrow> ('b \<times> journal_event list, 'a) boot_op \<Rightarrow> bool" where
  "keeps_applying m f \<longleftrightarrow> triple (applying m) f (\<lambda>_. applying m) (ahead m)"

lemma applying_bind: "keeps_applying m f \<Longrightarrow> (\<And>x. keeps_applying m (g x)) \<Longrightarrow> keeps_applying m (bindA f g)"
  unfolding keeps_applying_def by (rule triple_bind)

lemma applying_when: "keeps_applying m f \<Longrightarrow> keeps_applying m (whenA c f)"
  unfolding keeps_applying_def by (rule triple_when) auto

lemma applying_end: "keeps_applying m f \<Longrightarrow> (\<And>x. keeps_ahead m (g x)) \<Longrightarrow> triple (applying m) (bindA f g) (\<lambda>_. ahead m) (ahead m)"
  unfolding keeps_applying_def keeps_ahead_def
  by (rule triple_bind, assumption, rule triple_conseq, assumption) (auto simp: applying_def)

lemma applying_steps:
  "keeps_applying m (record_intent C operation path)" "keeps_applying m (complete_last C digest)"
  "keeps_applying m (backend_reads g)" "keeps_applying m (ret x)" "keeps_applying m (s_get h)"
  "keeps_applying m (s_modify (tx_set C (\<lambda>p. p\<lparr> tp_applied_swap_identity := y \<rparr>)))"
  unfolding keeps_applying_def
  by (rule tripleI; auto simp: applying_def ahead_def record_intent_def tx_record_intent_def complete_last_def tx_complete_last_def
      backend_reads_def s_op_def s_modify_def s_get_def ret_def Let_def tx_set_def split: if_splits)+

lemma record_intent_stage [simp]: "tx_stage (tx_record_intent C operation path t) = tx_stage t"
  by (simp add: tx_record_intent_def tx_set_def)

lemma applying_persist: "keeps_applying m (persist_or_fail (journaled B))"
  unfolding keeps_applying_def
  by (rule tripleI) (auto simp: applying_def ahead_def dest: persist_or_failD [of B _ _ _ m] ahead_runD [OF ahead_persist])

lemma applying_ahead: "applying m w \<Longrightarrow> ahead m w"
  by (simp add: applying_def)

lemma applying_fail: "keeps_applying m (fail_transaction C (journaled B) primary secondary)"
  unfolding keeps_applying_def
proof (rule tripleI)
  fix w e w' assume a: "applying m w" and f: "fail_transaction C (journaled B) primary secondary w = (Err e, w')"
  show "ahead m w'" by (rule keeps_ahead_run [OF ahead_fail applying_ahead [OF a] f])
qed (simp add: fail_transaction_def Let_def)

lemma removal_while_applying:
  "write_ahead m l \<Longrightarrow> last_persisted l = Some t \<Longrightarrow> tx_stage t = StApplying \<Longrightarrow>
     write_ahead m (JRemove a # l) \<and> last_persisted (JRemove a # l) = Some t"
  "write_ahead m l \<Longrightarrow> last_persisted l = Some t \<Longrightarrow> tx_stage t = StApplying \<Longrightarrow>
     write_ahead m (JRemoveSwap m' # l) \<and> last_persisted (JRemoveSwap m' # l) = Some t"
  by simp_all

lemma remove_artifacts_applying:
  "remove_artifacts (journaled B) as (b, l) = (es, (b', l')) \<Longrightarrow> write_ahead m l \<Longrightarrow> last_persisted l = Some t \<Longrightarrow>
     tx_stage t = StApplying \<Longrightarrow> write_ahead m l' \<and> last_persisted l' = Some t"
proof (induction as arbitrary: b l es)
  case (Cons a as)
  obtain r b1 where "bb_remove_artifact B a b = (r, b1)" by (cases "bb_remove_artifact B a b")
  then obtain es2 where "remove_artifacts (journaled B) as (b1, JRemove a # l) = (es2, (b', l'))"
    using Cons.prems(1) by (auto simp: noted_def split: sum.splits prod.splits)
  from Cons.IH [OF this] Cons.prems(2-) show ?case by simp
qed simp

lemma rollback_fails [simp]: "fail_after_rollback C B m created secondary primary w \<noteq> (Ok x, w')"
  by (auto simp: fail_after_rollback_def fail_transaction_def Let_def split: prod.splits)

lemma rollback_ahead:
  fixes r :: "(boot_error, 'a) result"
  assumes "fail_after_rollback C (journaled B) m created secondary primary w = (r, w')" and "applying m w"
  shows "ahead m w'"
proof -
  obtain b l t where w: "w = ((b, l), t)" by (metis surj_pair)
  obtain es b1 l1 where rm: "remove_artifacts (journaled B) (rev created) (b, l) = (es, (b1, l1))" by (metis surj_pair)
  obtain q b2 where rs: "bb_remove_swapfile B m b1 = (q, b2)" by (cases "bb_remove_swapfile B m b1")
  obtain tp where "last_persisted l = Some tp" "tx_stage tp = StApplying" "write_ahead m l"
    using assms(2) by (auto simp: applying_def ahead_def w is_some_and_iff)
  then have "write_ahead m (JRemoveSwap m # l1)" using remove_artifacts_applying [OF rm] by simp
  then have "ahead m ((b2, JRemoveSwap m # l1), t)" by (simp only: ahead_def fst_conv snd_conv)
  moreover have "\<exists>sec. fail_transaction C (journaled B) primary sec ((b2, JRemoveSwap m # l1), t) = (r, w')"
    using assms(1) by (cases q) (auto simp: fail_after_rollback_def rollback_partial_apply_def w rm rs noted_def)
  ultimately show ?thesis by (blast intro: keeps_ahead_run [OF ahead_fail])
qed

lemma applying_rollback: "keeps_applying m (fail_after_rollback C (journaled B) m created secondary primary)"
  unfolding keeps_applying_def by (rule tripleI) (simp_all add: rollback_ahead)

text \<open>An announced mutation, and the undoing of one.\<close>

lemma applying_noted:
  "applying m w \<Longrightarrow> is_mutation e \<Longrightarrow> is_some_and (announced m e) (last_persisted (journal w)) \<Longrightarrow>
     applying m ((b, e # journal w), snd w)"
  by (simp add: applying_def ahead_def)

lemma removal_announced:
  assumes "applying m w"
  shows "is_some_and (announced m (JRemove a)) (last_persisted (journal w))"
    "is_some_and (announced m (JRemoveSwap m')) (last_persisted (journal w))"
  using assms by (auto simp: applying_def is_some_and_iff)

lemma applying_removed:
  assumes "applying m w" shows "applying m ((b, JRemove a # journal w), snd w)" "applying m ((b, JRemoveSwap m' # journal w), snd w)"
  by (rule applying_noted [OF assms]; simp add: is_mutation_def removal_announced [OF assms])+

text \<open>The state in which the mutation \<open>e\<close> may be attempted.\<close>

definition ready :: "prepared_manifest \<Rightarrow> journal_event \<Rightarrow> ('b \<times> journal_event list) \<times> durable_transaction \<Rightarrow> bool" where
  "ready m e w \<longleftrightarrow> applying m w \<and> is_some_and (announced m e) (last_persisted (journal w))"

lemma applying_announce:
  assumes "\<And>t. open_intent t operation path \<Longrightarrow> announced m e t" and "triple (ready m e) k Q (ahead m)"
  shows "triple (applying m) (bindA (record_intent C operation path) (\<lambda>_. bindA (persist_or_fail (journaled B)) (\<lambda>_. k))) Q (ahead m)"
proof -
  let ?R = "\<lambda>w. applying m w \<and> open_intent (snd w) operation path"
  have "triple (applying m) (record_intent C operation path) (\<lambda>_. ?R) (ahead m)"
    by (rule tripleI) (auto simp: record_intent_def s_modify_def open_intent_recorded applying_def ahead_def)
  moreover have "triple ?R (persist_or_fail (journaled B)) (\<lambda>_. ready m e) (ahead m)"
  proof (rule tripleI)
    fix w x w' assume r: "?R w" and p: "persist_or_fail (journaled B) w = (Ok x, w')"
    from r have "applying m w'" using triple_Ok [OF applying_persist [unfolded keeps_applying_def] _ p] by blast
    then show "ready m e w'" using r persist_or_failD [OF p, of m] assms(1) by (simp add: ready_def)
  next
    fix w x w' assume r: "?R w" and p: "persist_or_fail (journaled B) w = (Err x, w')"
    then show "ahead m w'" using triple_Err [OF applying_persist [unfolded keeps_applying_def] _ p] by blast
  qed
  ultimately show ?thesis using assms(2) by (blast intro: triple_bind)
qed

lemma noted_or_rollback:
  assumes "is_mutation e"
  shows "triple (ready m e) (\<lambda>w. case noted e f (fst w) of
        (Inl primary, b) \<Rightarrow> fail_after_rollback C (journaled B) m completed [] primary (b, snd w)
      | (Inr _, b) \<Rightarrow> (Ok (), (b, snd w))) (\<lambda>_. applying m) (ahead m)" (is "triple _ ?f _ _")
proof -
  have n: "?f w = (case f (fst (fst w)) of
      (Inl primary, b) \<Rightarrow> fail_after_rollback C (journaled B) m completed [] primary ((b, e # journal w), snd w)
    | (Inr _, b) \<Rightarrow> (Ok (), ((b, e # journal w), snd w)))" for w
    by (simp add: noted_def split: prod.split sum.split)
  have a: "applying m ((b, e # journal w), snd w)" if "ready m e w" for b w
    using that assms by (intro applying_noted) (auto simp: ready_def)
  show ?thesis
  proof (rule tripleI)
    fix w x w' assume r: "ready m e w" and f: "?f w = (Ok x, w')"
    show "applying m w'" using f a [OF r] unfolding n by (auto split: prod.splits sum.splits)
  next
    fix w x w' assume r: "ready m e w" and f: "?f w = (Err x, w')"
    show "ahead m w'" using f unfolding n by (auto split: prod.splits sum.splits dest: rollback_ahead [OF _ a [OF r]])
  qed
qed

lemma noted_or_fail:
  assumes "is_mutation e"
  shows "triple (ready m e) (call_or_fail C (journaled B) (noted e f)) (\<lambda>_. applying m) (ahead m)" (is "triple _ ?f _ _")
proof -
  have n: "?f w = (case f (fst (fst w)) of (Inl primary, b) \<Rightarrow> fail_transaction C (journaled B) primary [] ((b, e # journal w), snd w)
    | (Inr x, b) \<Rightarrow> (Ok x, ((b, e # journal w), snd w)))" for w
    by (simp add: call_or_fail_def noted_def split: prod.split sum.split)
  have a: "applying m ((b, e # journal w), snd w)" if "ready m e w" for b w
    using that assms by (intro applying_noted) (auto simp: ready_def)
  show ?thesis
  proof (rule tripleI)
    fix w x w' assume r: "ready m e w" and f: "?f w = (Ok x, w')"
    show "applying m w'" using f a [OF r] unfolding n by (auto simp: fail_transaction_def Let_def split: prod.splits sum.splits)
  next
    fix w x w' assume r: "ready m e w" and f: "?f w = (Err x, w')"
    show "ahead m w'" using f unfolding n
      by (auto split: prod.splits sum.splits dest: triple_Err [OF applying_fail [unfolded keeps_applying_def] a [OF r]])
  qed
qed

lemma applying_readback:
  "keeps_applying m (\<lambda>w. if c w then (Ok (), w)
     else (case remove_error (noted (JRemove a) f) (fst w) of (es, b) \<Rightarrow> fail_after_rollback C (journaled B) m completed es primary (b, snd w)))"
  (is "keeps_applying m ?f")
  unfolding keeps_applying_def
proof (rule tripleI)
  fix w x w' assume r: "applying m w" and f: "?f w = (Err x, w')"
  obtain y b where y: "f (fst (fst w)) = (y, b)" by (cases "f (fst (fst w))")
  have "\<exists>es. fail_after_rollback C (journaled B) m completed es primary ((b, JRemove a # journal w), snd w) = (Err x :: (boot_error, unit) result, w')"
    using f y by (auto simp: noted_def remove_error_def split: sum.splits if_splits)
  then show "ahead m w'" by (elim exE) (rule rollback_ahead [OF _ applying_removed(1) [OF r]])
qed (auto split: if_splits prod.splits)

lemma applying_mismatch:
  "keeps_applying m (\<lambda>w. if c then (case remove_error (noted (JRemoveSwap m) f) (fst w) of (es, b) \<Rightarrow>
       fail_transaction C (journaled B) primary es (b, snd w)) else (Ok (), w))" (is "keeps_applying m ?f")
  unfolding keeps_applying_def
proof (rule tripleI)
  fix w x w' assume r: "applying m w" and f: "?f w = (Err x, w')"
  obtain y b where y: "f (fst (fst w)) = (y, b)" by (cases "f (fst (fst w))")
  have "\<exists>es. fail_transaction C (journaled B) primary es ((b, JRemoveSwap m # journal w), snd w) = (Err x :: (boot_error, unit) result, w')"
    using f y by (auto simp: noted_def remove_error_def split: sum.splits if_splits)
  then show "ahead m w'" by (elim exE) (rule triple_Err [OF applying_fail [unfolded keeps_applying_def] applying_removed(2) [OF r]])
qed (auto simp: fail_transaction_def Let_def split: if_splits prod.splits)

lemmas applying_intros = applying_bind applying_when applying_steps applying_persist applying_fail applying_readback applying_mismatch

lemma applying_create: "keeps_applying m (apply_artifact C (journaled B) m completed a)"
  unfolding apply_artifact_def journaled_calls keeps_applying_def
  by (intro applying_announce [where e = "JCreate a"] triple_bind [OF noted_or_rollback] applying_intros [unfolded keeps_applying_def]
      ; simp add: is_mutation_def)

lemma applying_artifacts: "keeps_applying m (apply_artifacts C (journaled B) m completed as)"
  by (induction as arbitrary: completed) (auto intro!: applying_intros applying_create)

lemma applying_swapfile: "keeps_applying m (apply_swapfile_v6 C (journaled B) m)"
  unfolding apply_swapfile_v6_def journaled_calls keeps_applying_def
  by (intro applying_announce [where e = "JCreateSwap m"] triple_bind [OF noted_or_fail] applying_intros [unfolded keeps_applying_def]
      ; simp add: is_mutation_def)

lemma applying_sync: "keeps_applying m (\<lambda>w. case noted (JSync m) f (fst w) of
     (Inl primary, b) \<Rightarrow> fail_after_rollback C (journaled B) m completed [] primary (b, snd w) | (Inr _, b) \<Rightarrow> (Ok (), (b, snd w)))"
  unfolding keeps_applying_def
  by (rule triple_conseq [OF noted_or_rollback [of "JSync m" m]]) (auto simp: is_mutation_def ready_def applying_def is_some_and_iff)

lemma applying_kept: "keeps_applying m (\<lambda>w. if c w then (Ok (), w) else fail_after_rollback C (journaled B) m completed [] primary w)"
  unfolding keeps_applying_def by (rule tripleI) (auto split: if_splits dest: rollback_ahead)

lemma enter_applying:
  assumes "triple (applying m) k (\<lambda>_. ahead m) (ahead m)"
  shows "keeps_ahead m (bindA (transition_v6 C StApplying) (\<lambda>_. bindA (persist_or_fail (journaled B)) (\<lambda>_. k)))"
proof -
  have "triple (ahead m) (transition_v6 C StApplying) (\<lambda>_ w. ahead m w \<and> tx_stage (snd w) = StApplying) (ahead m)"
    by (rule tripleI) (auto simp: transition_v6_def tx_transition_def s_op_def ahead_def tx_set_def split: prod.splits sum.splits if_splits)
  moreover have "triple (\<lambda>w. ahead m w \<and> tx_stage (snd w) = StApplying) (persist_or_fail (journaled B)) (\<lambda>_. applying m) (ahead m)"
    by (rule tripleI) (auto simp: applying_def ahead_def dest: persist_or_failD [of B _ _ _ m] ahead_runD [OF ahead_persist])
  ultimately show ?thesis unfolding keeps_ahead_def using assms by (blast intro: triple_bind)
qed

lemma applying_then:
  "keeps_applying m f \<Longrightarrow> (\<And>x. triple (applying m) (g x) Q (ahead m)) \<Longrightarrow> triple (applying m) (bindA f g) Q (ahead m)"
  unfolding keeps_applying_def by (rule triple_bind)

lemma ahead_apply: "keeps_ahead m (apply_exact_transaction_v6 C (journaled B) m)"
  unfolding apply_exact_transaction_v6_def journaled_calls
  by (intro ahead_bind ahead_when ahead_steps enter_applying applying_then [OF applying_swapfile] applying_then [OF applying_artifacts]
      applying_then [OF applying_sync] applying_end [OF applying_kept] ahead_evidence ahead_persist)

subsection \<open>Activation and recovery\<close>

lemma ahead_cli: "keeps_ahead m f \<Longrightarrow> keeps_ahead m (cli f)"
  by (rule keeps_aheadI) (auto simp: cli_def split: prod.splits sum.splits dest: keeps_ahead_run)

lemma ahead_host:
  "keeps_ahead m (host_read g)" "keeps_ahead m (bail_if c msg)" "keeps_ahead m (persist (journaled B))"
  "keeps_ahead m (host_op (bb_persist_evidence (journaled B) name bytes))"
  by (rule keeps_aheadI; auto simp: ahead_def host_read_def bail_if_def whenA_def throw_def ret_def persist_def host_op_def journaled_def noted_def
      split: prod.splits sum.splits if_splits)+

lemma ahead_if: "(c \<Longrightarrow> keeps_ahead m f) \<Longrightarrow> (\<not> c \<Longrightarrow> keeps_ahead m g) \<Longrightarrow> keeps_ahead m (if c then f else g)"
  by simp

lemma ahead_sum: "(\<And>e. keeps_ahead m (f e)) \<Longrightarrow> (\<And>x. keeps_ahead m (g x)) \<Longrightarrow> keeps_ahead m (case r of Inl e \<Rightarrow> f e | Inr x \<Rightarrow> g x)"
  by (simp split: sum.split)

lemma cli_disk_persist: "triple (\<lambda>w. ahead m w \<and> P (snd w)) (persist (journaled B)) (\<lambda>_. on_disk m P) (ahead m)"
  by (rule tripleI) (auto simp: persist_def host_op_def ahead_def on_disk_def split: prod.splits sum.splits
      dest: persist_ahead(1) persist_ahead(2))

lemma cli_disk_intent:
  assumes "triple (on_disk m (\<lambda>t. open_intent t operation path)) k Q (ahead m)"
  shows "triple (ahead m) (bindA (cli (record_intent C operation path)) (\<lambda>_. bindA (persist (journaled B)) (\<lambda>_. k))) Q (ahead m)"
proof -
  have "triple (ahead m) (cli (record_intent C operation path)) (\<lambda>_ w. ahead m w \<and> open_intent (snd w) operation path) (ahead m)"
    by (rule tripleI) (auto simp: cli_def record_intent_def s_modify_def ahead_def open_intent_recorded)
  then show ?thesis by (rule triple_bind) (rule triple_bind [OF cli_disk_persist assms])
qed

lemma cli_disk_call:
  assumes "is_mutation e" and "\<And>t. P t \<Longrightarrow> announced m e t"
  shows "triple (on_disk m P) (host_op (noted e f)) (\<lambda>_. on_disk m P) (ahead m)"
    and "triple (on_disk m P) (host_try (noted e f)) (\<lambda>_. on_disk m P) (ahead m)"
  by (rule tripleI; auto simp: host_op_def host_try_def noted_def split: prod.splits sum.splits
      intro: disk_noted [OF _ assms] on_disk_ahead [OF disk_noted [OF _ assms]])+

lemma cli_disk_complete: "triple (on_disk m P) (cli (complete_last C digest)) (\<lambda>_. on_disk m P) (ahead m)"
  by (rule tripleI; auto simp: on_disk_def ahead_def cli_def complete_last_def s_op_def split: prod.splits sum.splits)

lemma cli_announced_call:
  assumes "is_mutation e" and "\<And>t. open_intent t operation path \<Longrightarrow> announced m e t" and "\<And>x. keeps_ahead m (k x)"
  shows "keeps_ahead m (bindA (cli (record_intent C operation path)) (\<lambda>_. bindA (persist (journaled B)) (\<lambda>_.
     bindA (host_op (noted e f)) k)))"
  unfolding keeps_ahead_def by (intro cli_disk_intent triple_bind [OF cli_disk_call(1) [OF assms(1,2)]] disk_end assms(3))

lemma cli_announced_try:
  assumes "is_mutation e" and "\<And>t. open_intent t operation path \<Longrightarrow> announced m e t" and "\<And>x. keeps_ahead m (k x)"
  shows "keeps_ahead m (bindA (cli (record_intent C operation path)) (\<lambda>_. bindA (persist (journaled B)) (\<lambda>_.
     bindA (host_try (noted e f)) k)))"
  unfolding keeps_ahead_def by (intro cli_disk_intent triple_bind [OF cli_disk_call(2) [OF assms(1,2)]] disk_end assms(3))

lemmas cli_intros = cli_announced_call cli_announced_try ahead_bind ahead_when ahead_if ahead_sum ahead_cli ahead_host ahead_steps

lemmas announced_simps = is_mutation_def ZSWAP_INTENTS_def Let_def

lemma rollback_parameters_ahead: "keeps_ahead m (rollback_parameters C (journaled_host H) (journaled B) ps)"
proof (induction ps)
  case (Cons p ps)
  obtain name v where "p = (name, v)" by fastforce
  then show ?case unfolding rollback_parameters.simps journaled_calls \<open>p = _\<close>
    by (intro cli_intros Cons.IH; simp add: announced_simps)
qed (simp add: ahead_steps)

lemma activation_failure_ahead: "keeps_ahead m (activation_failure C (journaled_host H) (journaled B) m primary)"
  unfolding activation_failure_def rollback_swapoff_def rollback_zswap_def try_write_def Let_def journaled_calls
  by (intro cli_intros rollback_parameters_ahead; simp add: announced_simps)

lemma bindA_assoc: "bindA (bindA f g) h = bindA f (\<lambda>x. bindA (g x) h)"
  by (rule ext) (simp add: bindA_def split: prod.split sum.split)

lemma announced_write_or_roll_back:
  assumes "is_mutation e" and "\<And>t. open_intent t operation path \<Longrightarrow> announced m e t" and "\<And>x. keeps_ahead m (k x)"
  shows "keeps_ahead m (bindA (cli (record_intent C operation path)) (\<lambda>_. bindA (persist (journaled B)) (\<lambda>_.
     bindA (write_or_roll_back C (journaled_host H) (journaled B) m (noted e f)) k)))"
  unfolding write_or_roll_back_def bindA_assoc
  by (intro cli_announced_try assms cli_intros activation_failure_ahead)

lemmas activation_intros = announced_write_or_roll_back cli_intros activation_failure_ahead

lemma activate_parameters_ahead: "keeps_ahead m (activate_parameters C (journaled_host H) (journaled B) m ps)"
proof (induction ps)
  case (Cons p ps)
  obtain name v where "p = (name, v)" by fastforce
  then show ?case unfolding activate_parameters.simps journaled_calls \<open>p = _\<close>
    by (intro activation_intros Cons.IH; simp add: announced_simps)
qed (simp add: ahead_steps)

lemma ahead_activate: "keeps_ahead m (experimental_activate C (journaled_host H) (journaled B) m)"
  unfolding experimental_activate_def activation_preconditions_def activate_zswap_def activate_swap_def Let_def journaled_calls(15,16)
  by (intro activation_intros activate_parameters_ahead; simp add: announced_simps)

lemma recovery_remove_ahead: "keeps_ahead m (recovery_remove C (journaled B) as)"
proof (induction as)
  case (Cons a as)
  show ?case unfolding recovery_remove.simps journaled_calls
    by (intro cli_intros Cons.IH; simp add: announced_simps)
qed (simp add: ahead_steps)

lemma cli_ahead_seal: "keeps_ahead m (bindA (persist (journaled B)) (\<lambda>_ w. host_op (noted (JSeal (snd w)) (f w)) w))"
proof -
  have "triple (\<lambda>w. ahead m w \<and> last_persisted (journal w) = Some (snd w)) (\<lambda>w. host_op (noted (JSeal (snd w)) (f w)) w)
      (\<lambda>_. ahead m) (ahead m)"
    by (rule tripleI) (auto simp: host_op_def noted_def ahead_def split: prod.splits sum.splits)
  moreover have "triple (ahead m) (persist (journaled B)) (\<lambda>_ w. ahead m w \<and> last_persisted (journal w) = Some (snd w)) (ahead m)"
    by (rule tripleI) (auto simp: persist_def host_op_def ahead_def split: prod.splits sum.splits
      dest: persist_ahead(1) persist_ahead(2))
  ultimately show ?thesis unfolding keeps_ahead_def by (rule triple_bind [rotated])
qed

lemma recovery_before_reboot_ahead: "keeps_ahead m (recovery_before_reboot C (journaled_host H) (journaled B) m)"
  unfolding recovery_before_reboot_def Let_def journaled_calls(9,10,14)
proof (rule ahead_bind [OF recovery_remove_ahead], unfold keeps_ahead_def, rule cli_disk_intent)
  let ?P = "\<lambda>t. open_intent t ''recovery_remove_exact_swapfile'' (si_path (mp_swapfile (pm_payload m)))"
  have mu: "is_mutation (JRemoveSwap m)" "is_mutation (JFinalize m)" by (simp_all add: is_mutation_def)
  have an: "?P t \<Longrightarrow> announced m (JRemoveSwap m) t" "?P t \<Longrightarrow> announced m (JFinalize m) t" for t by (simp_all add: Let_def)
  show "triple (on_disk m ?P) (bindA (host_op (noted (JRemoveSwap m) (bb_remove_swapfile B m))) (\<lambda>_.
     bindA (cli (complete_last C (bc_sha256 C ''absent''))) (\<lambda>_.
     bindA (host_op (noted (JFinalize m) (bb_finalize_runtime_cleanup B m))) (\<lambda>_.
     bindA (cli (transition_v6 C StRecovered)) (\<lambda>_.
     bindA (s_modify (tx_set C (\<lambda>p. p\<lparr> tp_recovery_state := ''recovered_before_reboot'' \<rparr>))) (\<lambda>_.
     bindA (persist (journaled B)) (\<lambda>_.
     bindA (s_get (\<lambda>t. ah_recovery_evidence (journaled_host H) (dt_payload t))) (\<lambda>bytes.
     bindA (host_op (bb_persist_evidence (journaled B) ''recovery-evidence-v6.json'' bytes)) (\<lambda>_.
     bindA (s_modify (tx_evidence C ''recovery-evidence-v6.json'' bytes)) (\<lambda>_.
     bindA (persist (journaled B)) (\<lambda>_ w. host_op (noted (JSeal (snd w)) (bb_seal_archive B (snd w))) w)))))))))))
     (\<lambda>_. ahead m) (ahead m)"
    by (intro triple_bind [OF cli_disk_call(1) [OF mu(1) an(1)]] triple_bind [OF cli_disk_complete]
        triple_bind [OF cli_disk_call(1) [OF mu(2) an(2)]] disk_end cli_ahead_seal cli_intros)
qed

lemma ahead_recover: "keeps_ahead m (boot_recover C (journaled_host H) (journaled B) m idempotence)"
  unfolding boot_recover_def recovery_clear_one_shot_def Let_def journaled_calls(16)
  by (intro cli_intros recovery_before_reboot_ahead ahead_operations; simp add: announced_simps)

text \<open>C10. The transaction is a write-ahead log. Whatever the backend and the host answer, and also when a command
  fails half way, every call that may change something is announced by the transaction persisted last before it: an open
  intent names the operation and the path of each file that is created or removed, each kernel parameter that is written,
  each swapfile that is switched on or off and each one-shot boot selection; a stage announces the measurements, the
  synchronisation of directories and the undoing of an apply; the tidying up after the removal of the swapfile is done
  under the intent to remove it; and the archive is sealed with the record on disk. This covers the measurement of the baseline, the five steps
  of the lifecycle, the activation in the experimental boot and the recovery. The two exceptions are the creation of the
  directory in which the transaction itself is kept and the copy of the manifest in it, which are the first two calls of
  all; files of evidence are part of the log. So a crash between any two steps leaves a record of what may have been
  changed.\<close>

theorem boot_write_ahead:
  "write_ahead m (journal (snd (run_boot_command C (journaled_host H) (journaled B) m cmd ((b, []), t)))) \<and>
   write_ahead m (snd (snd (initialize_and_measure_baseline_v6 C (journaled B) m preflight boot_id (b, []))))"
proof
  have "keeps_ahead m (run_lifecycle_step C (journaled B) m st)" for st
    using ahead_operations [of m C B] ahead_apply [of m C B]
    by (cases st) (auto simp: run_lifecycle_step_def intro: ahead_bind ahead_steps)
  then have "keeps_ahead m (run_boot_command C (journaled_host H) (journaled B) m cmd)"
    using ahead_activate [of m C H B] ahead_recover [of m C H B] by (auto simp: run_boot_command_def ahead_cli split: boot_command.split)
  then have "ahead m (snd (run_boot_command C (journaled_host H) (journaled B) m cmd ((b, []), t)))"
    by (rule keeps_ahead_run [OF _ _ prod.collapse [symmetric]]) (simp add: ahead_def)
  then show "write_ahead m (journal (snd (run_boot_command C (journaled_host H) (journaled B) m cmd ((b, []), t))))" by (simp add: ahead_def)
next
  show "write_ahead m (snd (snd (initialize_and_measure_baseline_v6 C (journaled B) m preflight boot_id (b, []))))"
  proof (cases "rbind (validate_preflight_v6 (boot_codec.truncate C) m preflight True) (\<lambda>_. tx_new C m boot_id)")
    case (Inr t0)
    obtain r w' where r: "measure_baseline C (journaled B) m preflight ((b, []), t0) = (r, w')" by (metis surj_pair)
    have "ahead m w'"
      using triple_Ok [OF measure_baseline_ahead, of "((b, []), t0)"]
        triple_Err [OF measure_baseline_ahead, of "((b, []), t0)"] r by (cases r) auto
    then have "ahead m (snd (measure_baseline C (journaled B) m preflight ((b, []), t0)))" by (simp add: r)
    then show ?thesis using Inr
      by (auto simp: initialize_and_measure_baseline_v6_def ahead_def split: prod.splits sum.splits)
  qed (simp add: initialize_and_measure_baseline_v6_def)
qed

subsection \<open>Removal after proof\<close>

definition is_removal :: "journal_event \<Rightarrow> bool" where
  "is_removal e \<longleftrightarrow> (case e of JRemove _ \<Rightarrow> True | JRemoveSwap _ \<Rightarrow> True | _ \<Rightarrow> False)"

text \<open>The state of the host in which a cleanup observes it: its own, or the one after the boot into the baseline was
  recorded.\<close>

definition observed_state :: "tx_codec \<Rightarrow> 'b boot_backend \<Rightarrow> 'b \<Rightarrow> durable_transaction \<Rightarrow> 'b" where
  "observed_state C B b t = (if tx_stage t = StBaselineSelected
     then snd (bb_persist_transaction B (tx_set C (\<lambda>p. p\<lparr> tp_stage := StBaselineBoot \<rparr>) t) b) else b)"

text \<open>The observation shows the host as it was before the validation, in a boot other than \<open>boot_id\<close>.\<close>

definition baseline_seen :: "prepared_manifest \<Rightarrow> string \<Rightarrow> baseline_restore_observation \<Rightarrow> bool" where
  "baseline_seen m boot_id o1 \<longleftrightarrow> (let p = pm_payload m in
     br_boot_id o1 \<noteq> boot_id \<and> br_booted_entry o1 = en_id (bo_current_entry (mp_boot p)) \<and>
     \<not> str_contains (br_command_line o1) (mp_validation_marker p) \<and> br_zswap o1 = mp_baseline_zswap p \<and>
     same_zram (br_protected_zram o1) (mp_protected_zram p) \<and> list_all2 same_swap (br_swaps o1) (mp_baseline_swaps p) \<and>
     br_default_entry o1 = en_id (bo_default_entry (mp_boot p)) \<and> br_boot_order o1 = bo_boot_order (mp_boot p))"

lemma verified_seen:
  "verify_baseline_before_cleanup_v6 m t o1 = Ok () \<Longrightarrow> baseline_seen m (tp_baseline_boot_id (dt_payload t)) o1"
  by (simp add: verify_baseline_before_cleanup_v6_def baseline_seen_def Let_def split: if_splits)

text \<open>The observation of the state \<open>b0\<close> was filed before anything was removed.\<close>

definition proof_filed :: "tx_codec \<Rightarrow> 'b boot_backend \<Rightarrow> prepared_manifest \<Rightarrow> 'b \<Rightarrow> string \<Rightarrow> journal_event list \<Rightarrow> bool" where
  "proof_filed C B m b0 boot_id l \<longleftrightarrow> (\<exists>o1 l1 l0. bb_collect_baseline B m b0 = Ok o1 \<and> baseline_seen m boot_id o1 \<and>
     l = l1 @ JEvidence ''baseline-restore-evidence-v6.json'' (bc_restore C o1) # l0 \<and> \<not> list_ex is_removal l0)"

lemma proof_filed_append: "proof_filed C B m b0 i l \<Longrightarrow> proof_filed C B m b0 i (l' @ l)"
  unfolding proof_filed_def by (metis append.assoc)

text \<open>Every command only appends to its journal.\<close>

definition grows :: "('e, ('b \<times> journal_event list) \<times> durable_transaction, 'a) eff \<Rightarrow> bool" where
  "grows f \<longleftrightarrow> (\<forall>w. \<exists>l. journal (snd (f w)) = l @ journal w)"

lemma growsI: "(\<And>w. \<exists>l. journal (snd (f w)) = l @ journal w) \<Longrightarrow> grows f"
  by (simp add: grows_def)

lemma grows_run: "grows f \<Longrightarrow> f w = (r, w') \<Longrightarrow> \<exists>l. journal w' = l @ journal w"
  unfolding grows_def by (metis snd_conv)

lemma grows_bind: "grows f \<Longrightarrow> (\<And>x. grows (g x)) \<Longrightarrow> grows (bindA f g)"
proof (rule growsI)
  fix w assume f: "grows f" and g: "\<And>x. grows (g x)"
  obtain r w1 where r: "f w = (r, w1)" by (metis surj_pair)
  obtain l where l: "journal w1 = l @ journal w" using grows_run [OF f r] by blast
  show "\<exists>l. journal (snd (bindA f g w)) = l @ journal w"
  proof (cases r)
    case (Inr x)
    obtain l2 where "journal (snd (g x w1)) = l2 @ journal w1" using grows_run [OF g prod.collapse [symmetric]] by blast
    then show ?thesis using r l Inr by (simp add: bindA_def)
  qed (simp add: bindA_def r l)
qed

lemma persist_grows: "\<exists>l. snd (snd (bb_persist_transaction (journaled B) t w)) = l @ snd w"
  by (auto simp: journaled_def split: prod.split sum.split)

lemma grows_steps:
  "grows (transition_v6 C s)" "grows (record_intent C operation path)" "grows (complete_last C digest)"
  "grows (backend_reads g)" "grows (lift_result r)" "grows (throw e)" "grows (ret x)" "grows (s_get h)" "grows (s_modify k)"
  "grows (backend_call e (noted j f))" "grows (\<lambda>w. backend_call e (noted (j2 w) (f2 w)) w)"
  by (rule growsI; auto simp: transition_v6_def record_intent_def complete_last_def backend_reads_def lift_result_def backend_call_def noted_def
      s_op_def s_modify_def s_get_def throw_def ret_def split: prod.split sum.split)+

lemma grows_fail: "grows (fail_transaction C (journaled B) primary secondary)"
  by (rule growsI) (simp add: fail_transaction_def Let_def persist_grows)

lemma grows_persist: "grows (persist_or_fail (journaled B))"
  using persist_grows [of B] by (intro growsI) (auto simp: persist_or_fail_def backend_call_def split: prod.split sum.split, (metis snd_conv)+)

lemma grows_call: "grows (call_or_fail C (journaled B) (noted e f))"
proof (rule growsI)
  fix w :: "('a \<times> journal_event list) \<times> durable_transaction"
  obtain r b where f: "f (fst (fst w)) = (r, b)" by (metis surj_pair)
  show "\<exists>l. journal (snd (call_or_fail C (journaled B) (noted e f) w)) = l @ journal w"
  proof (cases r)
    case (Inl primary)
    obtain l where "journal (snd (fail_transaction C (journaled B) primary [] ((b, e # journal w), snd w) :: (boot_error, 'b) result \<times> _)) = l @ e # journal w"
      using grows_fail unfolding grows_def by fastforce
    then show ?thesis using f Inl by (simp add: call_or_fail_def noted_def)
  qed (simp add: call_or_fail_def noted_def f)
qed

lemmas grows_intros = grows_bind grows_steps grows_fail grows_persist grows_call

lemma grows_when: "grows f \<Longrightarrow> grows (whenA c f)"
  by (simp add: whenA_def grows_steps)

lemma grows_cleanup: "grows (cleanup_artifacts C (journaled B) as)"
  by (induction as) (auto intro!: grows_intros)

lemma grows_after_proof:
  "grows (bindA (remove_owned_state C (journaled B) m) (\<lambda>_. publish_authority C (journaled B) m))"
  unfolding remove_owned_state_def publish_authority_def persist_authority_def require_some_def Let_def journaled_calls
  by (intro grows_intros grows_when grows_cleanup)

text \<open>The proof itself removes nothing.\<close>

abbreviation unremoved :: "('b \<times> journal_event list) \<times> durable_transaction \<Rightarrow> bool" where
  "unremoved w \<equiv> \<not> list_ex is_removal (journal w)"

definition before_proof :: "'b \<Rightarrow> string \<Rightarrow> ('b \<times> journal_event list) \<times> durable_transaction \<Rightarrow> bool" where
  "before_proof b0 i w \<longleftrightarrow> fst (fst w) = b0 \<and> unremoved w \<and> tp_baseline_boot_id (dt_payload (snd w)) = i"

definition after_proof :: "tx_codec \<Rightarrow> 'b boot_backend \<Rightarrow> prepared_manifest \<Rightarrow> 'b \<Rightarrow> string \<Rightarrow> ('b \<times> journal_event list) \<times> durable_transaction \<Rightarrow> bool" where
  "after_proof C B m b0 i w \<longleftrightarrow> unremoved w \<and> proof_filed C B m b0 i (journal w)"

lemma reach_baseline_boot:
  "triple (\<lambda>w. w = ((b, []), t)) (whenA (tx_stage t = StBaselineSelected) (bindA (transition_v6 C StBaselineBoot) (\<lambda>_. persist_or_fail (journaled B))))
     (\<lambda>_. before_proof (observed_state C B b t) (tp_baseline_boot_id (dt_payload t))) unremoved"
  by (rule triple_when) (auto simp: triple_def before_proof_def observed_state_def bindA_def transition_v6_def s_op_def tx_transition_def persist_or_fail_def
      backend_call_def journaled_def is_removal_def tx_set_def split: prod.splits sum.splits if_splits)

lemma collect_baseline_seen:
  "triple (before_proof b0 i)
     (\<lambda>w. case bb_collect_baseline (journaled B) m (fst w) of Inl _ \<Rightarrow> (Err e, w) | Inr o1 \<Rightarrow> (Ok o1, w))
     (\<lambda>o1 w. before_proof b0 i w \<and> bb_collect_baseline B m b0 = Ok o1) unremoved"
  by (rule tripleI) (auto simp: journaled_def before_proof_def split: sum.splits)

lemma verify_baseline_seen:
  "triple (\<lambda>w. before_proof b0 i w \<and> P) (\<lambda>w. (verify_baseline_before_cleanup_v6 m (snd w) o1, w))
     (\<lambda>_ w. (before_proof b0 i w \<and> P) \<and> baseline_seen m i o1) unremoved"
  by (rule tripleI) (auto simp: before_proof_def dest: verified_seen)

lemma file_proof:
  "triple (\<lambda>w. (before_proof b0 i w \<and> bb_collect_baseline B m b0 = Ok o1) \<and> baseline_seen m i o1)
     (persist_evidence C (journaled B) label ''baseline-restore-evidence-v6.json'' (bc_restore C o1)) (\<lambda>_. after_proof C B m b0 i) unremoved"
proof (rule tripleI)
  fix w x w' assume a: "(before_proof b0 i w \<and> bb_collect_baseline B m b0 = Ok o1) \<and> baseline_seen m i o1"
    and "persist_evidence C (journaled B) label ''baseline-restore-evidence-v6.json'' (bc_restore C o1) w = (Ok x, w')"
  then have "journal w' = [] @ JEvidence ''baseline-restore-evidence-v6.json'' (bc_restore C o1) # journal w"
    by (auto simp: persist_evidence_def bindA_def backend_call_def noted_def s_modify_def split: prod.splits sum.splits)
  then show "after_proof C B m b0 i w'" using a unfolding after_proof_def proof_filed_def before_proof_def
    by (intro conjI exI [of _ o1] exI [of _ "[]"] exI [of _ "journal w"]) (simp_all add: is_removal_def)
qed (auto simp: persist_evidence_def bindA_def backend_call_def noted_def s_modify_def before_proof_def is_removal_def split: prod.splits sum.splits)

lemma after_proof_steps:
  "triple (after_proof C B m b0 i) (transition_v6 C s) (\<lambda>_. after_proof C B m b0 i) unremoved"
  "triple (after_proof C B m b0 i) (persist_or_fail (journaled B)) (\<lambda>_. after_proof C B m b0 i) unremoved"
  by (rule tripleI; auto simp: after_proof_def transition_v6_def s_op_def persist_or_fail_def backend_call_def journaled_def is_removal_def
      split: prod.splits sum.splits dest: proof_filed_append [of _ _ _ _ _ _ "[_]", simplified])+

lemma prove_baseline_filed:
  "triple (\<lambda>w. w = ((b, []), t)) (prove_baseline C (journaled B) m)
     (\<lambda>_. after_proof C B m (observed_state C B b t) (tp_baseline_boot_id (dt_payload t))) unremoved"
proof -
  have g: "triple (\<lambda>w. w = ((b, []), t)) (s_get (\<lambda>t. tp_stage (dt_payload t))) (\<lambda>s w. s = tx_stage t \<and> w = ((b, []), t)) unremoved"
    by (rule tripleI) (auto simp: s_get_def)
  have h: "triple (\<lambda>w. s = tx_stage t \<and> w = ((b, []), t)) f Q unremoved" if "triple (\<lambda>w. w = ((b, []), t)) (f' (tx_stage t)) Q unremoved" and "f = f' s"
    for s f f' Q using that by (auto simp: triple_def)
  show ?thesis unfolding prove_baseline_def
    by (rule triple_bind [OF g], rule h, rule triple_bind [OF reach_baseline_boot], rule triple_bind [OF collect_baseline_seen],
        rule triple_bind [OF verify_baseline_seen], rule triple_bind [OF file_proof], rule triple_bind [OF after_proof_steps(1)],
        rule triple_bind [OF after_proof_steps(2)], rule triple_bind [OF after_proof_steps(1)], rule after_proof_steps(2), rule refl)
qed

text \<open>C11. Nothing is removed before the baseline is proven. If a cleanup attempts to remove an artifact or the
  swapfile at all, then it has collected an observation of the host as it found it (only the record of the boot into the
  baseline may have been persisted before), in a boot other than the one measured, booted from the original entry without
  the validation marker, with the original zswap parameters, protected zram device, active swaps, default entry and boot
  order; and it has filed this very observation as evidence before the first removal.\<close>

theorem boot_removes_only_after_proof:
  assumes "verify_then_cleanup_v6 C (journaled B) m ((b, []), t) = (r, ((b', l), t'))" and "list_ex is_removal l"
  shows "\<exists>o1 l1 l0. bb_collect_baseline B m (observed_state C B b t) = Ok o1 \<and>
    baseline_seen m (tp_baseline_boot_id (dt_payload t)) o1 \<and>
    l = l1 @ JEvidence ''baseline-restore-evidence-v6.json'' (bc_restore C o1) # l0 \<and> \<not> list_ex is_removal l0"
proof -
  obtain q w1 where q: "prove_baseline C (journaled B) m ((b, []), t) = (q, w1)" by (metis surj_pair)
  show ?thesis
  proof (cases q)
    case (Inl e)
    have "unremoved w1" by (rule triple_Err [OF prove_baseline_filed refl q [unfolded Inl]])
    then show ?thesis using assms q Inl by (simp add: verify_then_cleanup_v6_def bindA_def [of "prove_baseline _ _ _"])
  next
    case (Inr x)
    have "proof_filed C B m (observed_state C B b t) (tp_baseline_boot_id (dt_payload t)) (journal w1)"
      using triple_Ok [OF prove_baseline_filed refl q [unfolded Inr]] by (simp add: after_proof_def)
    moreover obtain l2 where "l = l2 @ journal w1"
      using assms(1) q Inr grows_run [OF grows_after_proof, of C B m w1 r "((b', l), t')"]
      by (auto simp: verify_then_cleanup_v6_def bindA_def [of "prove_baseline _ _ _"])
    ultimately have "proof_filed C B m (observed_state C B b t) (tp_baseline_boot_id (dt_payload t)) l" by (simp add: proof_filed_append)
    then show ?thesis by (simp only: proof_filed_def)
  qed
qed

definition fixture_restored :: baseline_restore_observation where
  "fixture_restored = \<lparr> br_schema = FINAL_RESTORE_SCHEMA_V6, br_boot_id = ''boot-c'', br_booted_entry = ''linux.conf'',
     br_command_line = bo_current_command_line (mp_boot fixture_payload), br_zswap = fixture_zswap ''N'',
     br_protected_zram = mp_protected_zram fixture_payload, br_swaps = mp_baseline_swaps fixture_payload,
     br_default_entry = ''linux.conf'', br_boot_order = [''0001''], br_one_shot = bo_prior_one_shot (mp_boot fixture_payload),
     br_production_activation = False \<rparr>"

lemma fixture_verified:
  "tx_stage t = StBaselineBoot \<Longrightarrow> tp_baseline_boot_id (dt_payload t) = ''a'' \<Longrightarrow>
     verify_baseline_before_cleanup_v6 fixture t fixture_restored = Ok ()"
proof -
  have "\<not> str_contains (en_options fixture_current) fixture_marker" by code_simp
  moreover have "same_zram x x" "list_all2 same_swap xs xs" for x xs
    by (auto simp: same_zram_def path_eq_def same_swap_def list_all2_refl)
  moreover assume "tx_stage t = StBaselineBoot" "tp_baseline_boot_id (dt_payload t) = ''a''"
  ultimately show ?thesis
    by (simp add: verify_baseline_before_cleanup_v6_def Let_def fixture_restored_def)
      (simp add: fixture_payload_def fixture_current_def)
qed

text \<open>The simulated backend on a host that refuses the removal.\<close>

definition fixture_busy :: "fake_lifecycle boot_backend" where
  "fixture_busy = (fake_boot_backend fixture_codec)\<lparr> bb_remove_artifact := \<lambda>_ b. (Err ''busy'', b) \<rparr>"

definition fixture_host_restored :: fake_lifecycle where
  "fixture_host_restored = fake_lifecycle_default\<lparr> fl_baseline := Some fixture_restored \<rparr>"

lemma fixture_cleanup:
  "\<exists>r b l t. verify_then_cleanup_v6 fixture_codec (journaled fixture_busy) fixture
     ((fixture_host_restored, []), fixture_tx StBaselineBoot) = (r, ((b, l), t)) \<and> list_ex is_removal l"
proof -
  have v: "verify_baseline_before_cleanup_v6 fixture (fixture_tx StBaselineBoot) fixture_restored = Ok ()"
    by (rule fixture_verified) (simp_all add: fixture_tx_def)
  then show ?thesis
    by (simp add: verify_then_cleanup_v6_def prove_baseline_def remove_owned_state_def fixture_artifacts boot_eval fixture_busy_def
        fake_boot_backend_def fail_transaction_def legal_transition_v6_def fixture_tx_def fake_lifecycle_default_def journaled_def noted_def
        fixture_host_restored_def is_removal_def tx_insert_hash_def Let_def)
qed

theorem boot_removes_only_after_proof_witness:
  "\<exists>r b l t l1 l0. verify_then_cleanup_v6 fixture_codec (journaled fixture_busy) fixture
       ((fixture_host_restored, []), fixture_tx StBaselineBoot) = (r, ((b, l), t)) \<and> list_ex is_removal l \<and>
     l = l1 @ JEvidence ''baseline-restore-evidence-v6.json'' (bc_restore fixture_codec fixture_restored) # l0 \<and> \<not> list_ex is_removal l0"
proof -
  obtain r b l t where c: "verify_then_cleanup_v6 fixture_codec (journaled fixture_busy) fixture
     ((fixture_host_restored, []), fixture_tx StBaselineBoot) = (r, ((b, l), t))" "list_ex is_removal l" using fixture_cleanup by blast
  have "bb_collect_baseline fixture_busy fixture (observed_state fixture_codec fixture_busy fixture_host_restored (fixture_tx StBaselineBoot)) = Ok fixture_restored"
    by (simp add: observed_state_def fixture_tx_def fixture_busy_def fake_boot_backend_def fixture_host_restored_def fake_lifecycle_default_def)
  with boot_removes_only_after_proof [OF c] c show ?thesis by auto
qed

end
