(* ===== verification/Boot_Store.thy ===== *)
theory Boot_Store
  imports Boot_Fake
begin

text \<open>
  How the validator binary keeps its transaction (\<open>test-support/src/bin/nemor-tiering-boot-validation.rs\<close>): the replacement of
  \<open>transaction-v6.json\<close> through a \<open>.new\<close> file and a rename, and \<open>load_transaction\<close>, with which every later command starts and which
  first decides what to do with a \<open>.new\<close> file left behind. A disk maps paths to contents; the intermediate states of a replacement are
  listed, so that a crash at any of them can be followed by a load. What is shown: which crash leads to which
  transaction, and that a crash while a completed mutation is recorded leaves a transaction no command can load.
\<close>

type_synonym disk = "string \<rightharpoonup> string"

datatype store_error = StoreMissing string | StoreParse | StoreBoot boot_error | StoreMsg string

text \<open>Serialisation of transactions and manifests to and from JSON, beside the digests.\<close>

record store_codec =
  st_codec :: tx_codec
  st_tx_json :: "durable_transaction \<Rightarrow> string"
  st_parse_tx :: "string \<Rightarrow> durable_transaction option"
  st_parse_manifest :: "string \<Rightarrow> prepared_manifest option"

definition boot_checked :: "(boot_error, unit) result \<Rightarrow> (store_error, unit) result" where
  "boot_checked r = map_sum StoreBoot id r"

lemma boot_checked_Ok [simp]: "boot_checked r = Ok u \<longleftrightarrow> r = Ok ()"
  by (cases r) (auto simp: boot_checked_def)

lemma boot_checked_unit [simp]: "boot_checked (Ok ()) = Ok ()"
  by simp

definition require_validation_id :: "string \<Rightarrow> (store_error, unit) result" where
  "require_validation_id i = (if \<not> (8 \<le> length i \<and> length i \<le> 64) \<or> \<not> list_all (\<lambda>b. is_ascii_lower b \<or> is_ascii_digit b \<or> b = CHR ''-'') i
     then Err (StoreMsg ''invalid validation id'') else Ok ())"

subsection \<open>Files\<close>

text \<open>\<open>Path::with_extension\<close> of a path that ends in a file name.\<close>

definition file_stem :: "string \<Rightarrow> string" where
  "file_stem n = (let k = length (takeWhile (\<lambda>c. c \<noteq> CHR ''.'') (rev n)) in
     if length n \<le> k + 1 then n else take (length n - (k + 1)) n)"

definition with_extension :: "string \<Rightarrow> string \<Rightarrow> string" where
  "with_extension p ext = (let k = length (takeWhile (\<lambda>c. c \<noteq> CHR ''/'') (rev p)) in
     take (length p - k) p @ file_stem (drop (length p - k) p) @ ''.'' @ ext)"

definition read_json :: "(string \<Rightarrow> 'a option) \<Rightarrow> string \<Rightarrow> disk \<Rightarrow> (store_error, 'a) result" where
  "read_json parse p d = (case d p of
      None \<Rightarrow> Err (StoreMissing p)
    | Some b \<Rightarrow> ok_or StoreParse (parse b))"

text \<open>\<open>write_new_json\<close> adds a line break. The states of a replacement: nothing done, the \<open>.new\<close> file with the bytes written so far,
  the complete \<open>.new\<close> file, and the renamed one.\<close>

definition tx_bytes :: "store_codec \<Rightarrow> durable_transaction \<Rightarrow> string" where
  "tx_bytes C t = st_tx_json C t @ [LF]"

definition rename_new :: "string \<Rightarrow> disk \<Rightarrow> disk" where
  "rename_new p d = (d(p := d (with_extension p ''new'')))(with_extension p ''new'' := None)"

definition replace_states :: "store_codec \<Rightarrow> string \<Rightarrow> durable_transaction \<Rightarrow> disk \<Rightarrow> disk list" where
  "replace_states C p t d = (let tmp = with_extension p ''new''; b = tx_bytes C t in
     if d tmp \<noteq> None then [d]
     else d # map (\<lambda>n. d(tmp \<mapsto> take n b)) [0..<Suc (length b)] @ [rename_new p (d(tmp \<mapsto> b))])"

definition atomic_replace_json :: "store_codec \<Rightarrow> string \<Rightarrow> durable_transaction \<Rightarrow> (store_error, disk, unit) eff" where
  "atomic_replace_json C p t d =
     (if d (with_extension p ''new'') \<noteq> None then (Err (StoreMsg ''stale transaction temp file''), d)
      else (Ok (), last (replace_states C p t d)))"

subsection \<open>Loading\<close>

definition same_record :: "mutation_record \<Rightarrow> mutation_record \<Rightarrow> bool" where
  "same_record a b \<longleftrightarrow> path_eq (mr_target a) (mr_target b) \<and> a\<lparr> mr_target := [] \<rparr> = b\<lparr> mr_target := [] \<rparr>"

definition records_extend :: "mutation_record list \<Rightarrow> mutation_record list \<Rightarrow> bool" where
  "records_extend old new \<longleftrightarrow> length old \<le> length new \<and> list_all2 same_record old (take (length old) new)"

definition same_identity :: "durable_transaction \<Rightarrow> durable_transaction \<Rightarrow> bool" where
  "same_identity old new \<longleftrightarrow> tp_validation_id (dt_payload old) = tp_validation_id (dt_payload new) \<and>
     tp_manifest_sha256 (dt_payload old) = tp_manifest_sha256 (dt_payload new) \<and>
     tp_baseline_boot_id (dt_payload old) = tp_baseline_boot_id (dt_payload new)"

definition monotonic_successor :: "durable_transaction \<Rightarrow> durable_transaction \<Rightarrow> bool" where
  "monotonic_successor old new \<longleftrightarrow> same_identity old new \<and>
     records_extend (tp_mutation_records (dt_payload old)) (tp_mutation_records (dt_payload new)) \<and>
     (tp_stage (dt_payload new) = tp_stage (dt_payload old) \<or> legal_transition_v6 (tp_stage (dt_payload old)) (tp_stage (dt_payload new)))"

definition manifest_digest :: "store_codec \<Rightarrow> prepared_manifest \<Rightarrow> string" where
  "manifest_digest C m = bc_sha256 (st_codec C) (bc_manifest (st_codec C) m)"

definition initial_candidate :: "store_codec \<Rightarrow> prepared_manifest \<Rightarrow> durable_transaction \<Rightarrow> bool" where
  "initial_candidate C m t \<longleftrightarrow> tp_validation_id (dt_payload t) = mp_validation_id (pm_payload m) \<and>
     tp_manifest_sha256 (dt_payload t) = manifest_digest C m \<and> tp_stage (dt_payload t) = StPrepared \<and>
     tp_mutation_records (dt_payload t) = []"

text \<open>What a \<open>.new\<close> file means: whether it may replace the transaction.\<close>

definition reconcile_check :: "store_codec \<Rightarrow> string \<Rightarrow> string \<Rightarrow> disk \<Rightarrow> (store_error, unit) result" where
  "reconcile_check C base path d =
     rbind (read_json (st_parse_tx C) (with_extension path ''new'') d) (\<lambda>candidate.
     rbind (boot_checked (tx_validate (tx_digest (st_codec C)) candidate)) (\<lambda>_.
     if d path = None
     then rbind (read_json (st_parse_manifest C) (path_join base ''prepared-manifest-v6.json'') d) (\<lambda>m.
          rbind (boot_checked (manifest_validate (boot_codec.truncate (st_codec C)) m)) (\<lambda>_.
          if initial_candidate C m candidate then Ok ()
          else Err (StoreMsg ''orphan transaction .new is not the initial exact candidate'')))
     else rbind (read_json (st_parse_tx C) path d) (\<lambda>old.
          rbind (boot_checked (tx_validate (tx_digest (st_codec C)) old)) (\<lambda>_.
          if monotonic_successor old candidate then Ok ()
          else Err (StoreMsg ''stale transaction .new is not a valid monotonic successor'')))))"

definition reconcile_transaction_new :: "store_codec \<Rightarrow> string \<Rightarrow> string \<Rightarrow> (store_error, disk, unit) eff" where
  "reconcile_transaction_new C base path d =
     (if d (with_extension path ''new'') = None then (Ok (), d)
      else case reconcile_check C base path d of
        Inl e \<Rightarrow> (Err e, d)
      | Inr _ \<Rightarrow> (Ok (), rename_new path d))"

definition load_transaction :: "store_codec \<Rightarrow> string \<Rightarrow> (store_error, disk, prepared_manifest \<times> durable_transaction) eff" where
  "load_transaction C i = (let base = path_join TRANSACTION_ROOT_V6 i; path = path_join base ''transaction-v6.json'' in
     bindA (\<lambda>d. (require_validation_id i, d)) (\<lambda>_.
     bindA (\<lambda>d. (read_json (st_parse_manifest C) (path_join base ''prepared-manifest-v6.json'') d, d)) (\<lambda>m.
     bindA (reconcile_transaction_new C base path) (\<lambda>_.
     bindA (\<lambda>d. (read_json (st_parse_tx C) path d, d)) (\<lambda>t.
     bindA (\<lambda>d. (boot_checked (manifest_validate (boot_codec.truncate (st_codec C)) m), d)) (\<lambda>_.
     bindA (\<lambda>d. (boot_checked (tx_validate (tx_digest (st_codec C)) t), d)) (\<lambda>_.
     if mp_validation_id (pm_payload m) \<noteq> i \<or> tp_validation_id (dt_payload t) \<noteq> i \<or>
        tp_manifest_sha256 (dt_payload t) \<noteq> manifest_digest C m
     then throw (StoreMsg ''transaction identity mismatch'') else ret (m, t))))))))"

subsection \<open>Paths of a transaction\<close>

abbreviation tx_base :: "string \<Rightarrow> string" where
  "tx_base i \<equiv> path_join TRANSACTION_ROOT_V6 i"

abbreviation tx_file :: "string \<Rightarrow> string" where
  "tx_file i \<equiv> path_join (tx_base i) ''transaction-v6.json''"

abbreviation tx_new_file :: "string \<Rightarrow> string" where
  "tx_new_file i \<equiv> with_extension (tx_file i) ''new''"

abbreviation manifest_file :: "string \<Rightarrow> string" where
  "manifest_file i \<equiv> path_join (tx_base i) ''prepared-manifest-v6.json''"

lemma with_extension_name:
  assumes "CHR ''/'' \<notin> set name" and "q = [] \<or> last q = CHR ''/''"
  shows "with_extension (q @ name) ext = q @ file_stem name @ ''.'' @ ext"
proof -
  have "takeWhile (\<lambda>c. c \<noteq> CHR ''/'') (rev (q @ name)) = rev name"
    using assms by (cases q rule: rev_cases) (auto simp: takeWhile_append)
  then show ?thesis by (simp add: with_extension_def)
qed

lemma path_join_prefix: "\<exists>q. (q = [] \<or> last q = CHR ''/'') \<and> (\<forall>n. \<not> starts_with n ''/'' \<longrightarrow> path_join base n = q @ n)"
proof (cases "base = [] \<or> ends_with base ''/''")
  case True
  then show ?thesis by (intro exI [of _ base]) (auto simp: path_join_def ends_with_iff)
next
  case False
  then show ?thesis by (intro exI [of _ "base @ ''/''"]) (simp add: path_join_def)
qed

lemma tx_paths_distinct: "tx_new_file i \<noteq> tx_file i" "tx_new_file i \<noteq> manifest_file i" "tx_file i \<noteq> manifest_file i"
proof -
  obtain q where q: "q = [] \<or> last q = CHR ''/''" "\<And>n. \<not> starts_with n ''/'' \<Longrightarrow> path_join (tx_base i) n = q @ n"
    using path_join_prefix by blast
  have n: "\<not> starts_with ''transaction-v6.json'' ''/''" "\<not> starts_with ''prepared-manifest-v6.json'' ''/''"
    "file_stem ''transaction-v6.json'' = ''transaction-v6''" by code_simp+
  have "tx_new_file i = q @ ''transaction-v6.new''"
    unfolding q(2) [OF n(1)] using with_extension_name [OF _ q(1), of "''transaction-v6.json''" "''new''"] by (simp add: n(3))
  then show "tx_new_file i \<noteq> tx_file i" "tx_new_file i \<noteq> manifest_file i" "tx_file i \<noteq> manifest_file i"
    by (simp_all add: q(2) [OF n(1)] q(2) [OF n(2)])
qed

subsection \<open>A crash during a replacement\<close>

text \<open>A transaction as the commands leave it between two replacements, and the laws of JSON the argument needs: parsing inverts printing, trailing
  white space does not count, and no shorter prefix of an object is a document.\<close>

definition stored :: "store_codec \<Rightarrow> string \<Rightarrow> prepared_manifest \<Rightarrow> durable_transaction \<Rightarrow> disk \<Rightarrow> bool" where
  "stored C i m t d \<longleftrightarrow> require_validation_id i = Ok () \<and> Option.bind (d (manifest_file i)) (st_parse_manifest C) = Some m \<and>
     Option.bind (d (tx_file i)) (st_parse_tx C) = Some t \<and> manifest_validate (boot_codec.truncate (st_codec C)) m = Ok () \<and>
     tx_validate (tx_digest (st_codec C)) t = Ok () \<and> mp_validation_id (pm_payload m) = i \<and> tp_validation_id (dt_payload t) = i \<and>
     tp_manifest_sha256 (dt_payload t) = manifest_digest C m"

definition json_object :: "store_codec \<Rightarrow> durable_transaction \<Rightarrow> bool" where
  "json_object C t \<longleftrightarrow> st_parse_tx C (st_tx_json C t) = Some t \<and> st_parse_tx C (tx_bytes C t) = Some t \<and>
     (\<forall>n < length (st_tx_json C t). st_parse_tx C (take n (st_tx_json C t)) = None)"

lemma read_json_Some: "Option.bind (d p) parse = Some x \<Longrightarrow> read_json parse p d = Ok x"
  by (cases "d p") (auto simp: read_json_def)

lemma load_clean:
  assumes "stored C i m t d" and "d (tx_new_file i) = None"
  shows "load_transaction C i d = (Ok (m, t), d)"
  using assms
  by (simp add: load_transaction_def Let_def stored_def bindA_def reconcile_transaction_new_def read_json_Some ret_def)

lemma stored_keep: "stored C i m t d \<Longrightarrow> stored C i m t (d(tx_new_file i := x))"
  using tx_paths_distinct [of i] by (simp add: stored_def)

lemma load_refused:
  assumes "stored C i m t d" and "d (tx_new_file i) \<noteq> None" and "reconcile_check C (tx_base i) (tx_file i) d = Err e"
  shows "load_transaction C i d = (Err e, d)"
  using assms by (auto simp: load_transaction_def Let_def stored_def bindA_def reconcile_transaction_new_def read_json_Some)

lemma reconcile_check_stored:
  assumes "stored C i m t d" and "d (tx_new_file i) = Some b"
  shows "reconcile_check C (tx_base i) (tx_file i) d = (case st_parse_tx C b of
      None \<Rightarrow> Err StoreParse
    | Some new \<Rightarrow> rbind (boot_checked (tx_validate (tx_digest (st_codec C)) new)) (\<lambda>_.
        if monotonic_successor t new then Ok () else Err (StoreMsg ''stale transaction .new is not a valid monotonic successor'')))"
proof -
  obtain b0 where "d (tx_file i) = Some b0" using assms(1) by (cases "d (tx_file i)") (simp_all add: stored_def)
  moreover have "read_json (st_parse_tx C) (tx_file i) d = Ok t" "tx_validate (tx_digest (st_codec C)) t = Ok ()"
    using assms(1) by (simp_all add: stored_def read_json_Some)
  moreover have "read_json (st_parse_tx C) (tx_new_file i) d = ok_or StoreParse (st_parse_tx C b)" by (simp add: read_json_def assms(2))
  ultimately show ?thesis by (cases "st_parse_tx C b") (simp_all add: reconcile_check_def)
qed

lemma stored_renamed:
  assumes "stored C i m t d" and "d (tx_new_file i) = Some b" and "st_parse_tx C b = Some new"
    and "tx_validate (tx_digest (st_codec C)) new = Ok ()" and "same_identity t new"
  shows "stored C i m new (rename_new (tx_file i) d)" and "rename_new (tx_file i) d (tx_new_file i) = None"
  using assms tx_paths_distinct [of i] by (simp_all add: stored_def rename_new_def same_identity_def)

lemma load_successor:
  assumes "stored C i m t d" and "d (tx_new_file i) = Some b" and "st_parse_tx C b = Some new"
    and "tx_validate (tx_digest (st_codec C)) new = Ok ()" and "monotonic_successor t new"
  shows "load_transaction C i d = (Ok (m, new), rename_new (tx_file i) d)"
proof -
  have "reconcile_check C (tx_base i) (tx_file i) d = Ok ()"
    using reconcile_check_stored [OF assms(1,2)] assms(3-5) by (simp add: boot_checked_def)
  then have r: "reconcile_transaction_new C (tx_base i) (tx_file i) d = (Ok (), rename_new (tx_file i) d)"
    by (simp add: reconcile_transaction_new_def assms(2))
  have "same_identity t new" using assms(5) by (simp add: monotonic_successor_def)
  note s = stored_renamed [OF assms(1-4) this]
  show ?thesis
    using s(1) assms(1) by (simp add: load_transaction_def Let_def stored_def bindA_def r read_json_Some ret_def)
qed

lemma replace_states_set:
  assumes "d (with_extension p ''new'') = None"
  shows "set (replace_states C p t d) = {d} \<union> {d(with_extension p ''new'' \<mapsto> take n (tx_bytes C t)) | n. n \<le> length (tx_bytes C t)} \<union>
    {rename_new p (d(with_extension p ''new'' \<mapsto> tx_bytes C t))}"
proof -
  have "set [0..<Suc (length (tx_bytes C t))] = {n. n \<le> length (tx_bytes C t)}" by auto
  then show ?thesis using assms unfolding replace_states_def Let_def by (simp only: if_False simp_thms list.set set_append set_map) blast
qed

text \<open>C13. What a crash does to the transaction. Let a new transaction of the same validation replace a stored one, and let the machine stop at any point of the
  replacement. Then the next command finds the old transaction if nothing was written yet, and the new one if the rename was done; if only the
  complete \<open>.new\<close> file is there, it finds the new one, after the rename is made up for, exactly if it is a monotonic successor of the old; and if
  the \<open>.new\<close> file is incomplete, or no such successor, every command fails from then on without changing the disk.\<close>

theorem crash_outcomes:
  assumes "stored C i m t d" and "d (tx_new_file i) = None" and "tx_validate (tx_digest (st_codec C)) new = Ok ()" and "same_identity t new"
    and "json_object C new" and "d' \<in> set (replace_states C (tx_file i) new d)"
  shows "(d' = d \<and> load_transaction C i d' = (Ok (m, t), d')) \<or>
    (d' = rename_new (tx_file i) (d(tx_new_file i \<mapsto> tx_bytes C new)) \<and> load_transaction C i d' = (Ok (m, new), d')) \<or>
    (\<exists>n. d' = d(tx_new_file i \<mapsto> take n (tx_bytes C new)) \<and>
      (if length (st_tx_json C new) \<le> n \<and> monotonic_successor t new
       then load_transaction C i d' = (Ok (m, new), rename_new (tx_file i) d')
       else \<exists>e. load_transaction C i d' = (Err e, d')))"
proof -
  let ?tmp = "tx_new_file i" and ?b = "tx_bytes C new"
  consider "d' = d" | n where "n \<le> length ?b" "d' = d(?tmp \<mapsto> take n ?b)" | "d' = rename_new (tx_file i) (d(?tmp \<mapsto> ?b))"
    using assms(6) unfolding replace_states_set [of d "tx_file i", OF assms(2)] by blast
  then show ?thesis
  proof cases
    case 1
    then show ?thesis using load_clean [OF assms(1,2)] by simp
  next
    case 3
    let ?d = "d(?tmp \<mapsto> ?b)"
    have p: "stored C i m t ?d" "?d ?tmp = Some ?b" "st_parse_tx C ?b = Some new"
      using stored_keep [OF assms(1)] assms(5) by (simp_all add: json_object_def)
    have "load_transaction C i (rename_new (tx_file i) ?d) = (Ok (m, new), rename_new (tx_file i) ?d)"
      by (rule load_clean) (rule stored_renamed [OF p assms(3,4)])+
    then show ?thesis unfolding 3 by blast
  next
    case 2
    have s: "stored C i m t d'" "d' ?tmp = Some (take n ?b)" using stored_keep [OF assms(1)] by (simp_all add: 2)
    have parse: "st_parse_tx C (take n ?b) = (if length (st_tx_json C new) \<le> n then Some new else None)"
    proof (cases "length (st_tx_json C new) \<le> n")
      case True
      then have "take n ?b = ?b \<or> take n ?b = st_tx_json C new" using 2(1) by (auto simp: tx_bytes_def le_Suc_eq)
      then show ?thesis using True assms(5) by (auto simp: json_object_def)
    next
      case False
      then show ?thesis using assms(5) by (simp add: tx_bytes_def json_object_def)
    qed
    show ?thesis
    proof (cases "length (st_tx_json C new) \<le> n \<and> monotonic_successor t new")
      case True
      have "load_transaction C i d' = (Ok (m, new), rename_new (tx_file i) d')"
        by (rule load_successor [OF s _ assms(3)]) (use True parse in simp_all)
      then show ?thesis using True by (intro disjI2 exI [of _ n] conjI) (rule 2(2), simp only: if_True simp_thms)
    next
      case False
      then have "\<exists>e. reconcile_check C (tx_base i) (tx_file i) d' = Err e"
        using reconcile_check_stored [OF s] assms(3) by (auto simp: parse boot_checked_def split: if_splits)
      then show ?thesis using load_refused [OF s(1)] s(2) False 2(2) by (metis option.distinct(1))
    qed
  qed
qed

text \<open>C37. A crash while a completed mutation is recorded is fatal. Every mutation is announced, made, and then marked as completed in its record, which is
  changed in place; so the transaction that says so does not extend the records of the stored one. If the machine stops after its \<open>.new\<close> file is
  written and before the rename, no command can load the transaction any more, the recovery included, and none can replace it.\<close>

theorem completion_crash_unloadable:
  assumes "stored C i m t d" and "d (tx_new_file i) = None" and "tx_complete_last (st_codec C) evidence t = (Ok (), new)"
    and "\<not> mr_completed (last (tp_mutation_records (dt_payload t)))" and "json_object C new"
  defines "crashed \<equiv> d(tx_new_file i \<mapsto> tx_bytes C new)"
  shows "crashed \<in> set (replace_states C (tx_file i) new d) \<and>
    load_transaction C i crashed = (Err (StoreMsg ''stale transaction .new is not a valid monotonic successor''), crashed) \<and>
    atomic_replace_json C (tx_file i) t2 crashed = (Err (StoreMsg ''stale transaction temp file''), crashed)"
proof (intro conjI)
  let ?rs = "tp_mutation_records (dt_payload t)"
  have ne: "?rs \<noteq> []" and new: "tp_mutation_records (dt_payload new) = butlast ?rs @ [(last ?rs)\<lparr> mr_completed := True, mr_evidence_sha256 := Some evidence \<rparr>]"
    and v: "tx_validate (tx_digest (st_codec C)) new = Ok ()"
    using assms(1,3) by (auto simp: tx_complete_last_def Let_def tx_set_def stored_def tx_validate_def split: if_splits)
  have "\<not> list_all2 same_record ?rs (butlast ?rs @ [(last ?rs)\<lparr> mr_completed := True, mr_evidence_sha256 := Some evidence \<rparr>])"
  proof
    assume "list_all2 same_record ?rs (butlast ?rs @ [(last ?rs)\<lparr> mr_completed := True, mr_evidence_sha256 := Some evidence \<rparr>])"
    then have "list_all2 same_record (butlast ?rs @ [last ?rs]) (butlast ?rs @ [(last ?rs)\<lparr> mr_completed := True, mr_evidence_sha256 := Some evidence \<rparr>])"
      using ne by simp
    then have "same_record (last ?rs) ((last ?rs)\<lparr> mr_completed := True, mr_evidence_sha256 := Some evidence \<rparr>)"
      by (simp add: list_all2_append)
    then have "mr_completed ((last ?rs)\<lparr> mr_target := [] \<rparr>) = mr_completed ((last ?rs)\<lparr> mr_completed := True, mr_evidence_sha256 := Some evidence, mr_target := [] \<rparr>)"
      unfolding same_record_def by metis
    then show False using assms(4) by simp
  qed
  moreover have "length (tp_mutation_records (dt_payload new)) = length ?rs" using ne by (simp add: new)
  ultimately have "\<not> monotonic_successor t new" by (simp only: monotonic_successor_def records_extend_def take_all order_refl new) simp
  moreover have s: "stored C i m t crashed" "crashed (tx_new_file i) = Some (tx_bytes C new)"
    unfolding crashed_def using stored_keep [OF assms(1)] by simp_all
  ultimately have "reconcile_check C (tx_base i) (tx_file i) crashed = Err (StoreMsg ''stale transaction .new is not a valid monotonic successor'')"
    using reconcile_check_stored [OF s] assms(5) v by (simp add: json_object_def boot_checked_def)
  then show "load_transaction C i crashed = (Err (StoreMsg ''stale transaction .new is not a valid monotonic successor''), crashed)"
    using load_refused [OF s(1)] s(2) by simp
  show "atomic_replace_json C (tx_file i) t2 crashed = (Err (StoreMsg ''stale transaction temp file''), crashed)"
    by (simp add: atomic_replace_json_def s(2))
  show "crashed \<in> set (replace_states C (tx_file i) new d)"
    unfolding replace_states_set [of d "tx_file i", OF assms(2)] crashed_def by (intro UnI1 UnI2 CollectI exI [of _ "length (tx_bytes C new)"]) simp
qed

text \<open>The fixture of the crate's tests, stored with one announced mutation, and a JSON stand-in that knows two documents.\<close>

definition store_payload :: transaction_payload where
  "store_payload = \<lparr> tp_validation_id = fixture_id, tp_manifest_sha256 = bc_sha256 fixture_codec (bc_manifest fixture_codec fixture),
     tp_stage = StPrepared, tp_baseline_boot_id = ''boot'', tp_current_boot_id = ''boot'', tp_artifact_registry = [],
     tp_swapfile_registry = [], tp_unit_registry = [], tp_transient_unit_registry = [], tp_applied_swap_identity = None,
     tp_evidence_hashes = [], tp_mutation_records = [], tp_primary_error = None, tp_failed_from_stage = None,
     tp_secondary_errors = [], tp_recovery_state = ''not_required'', tp_idempotence_verified = False, tp_activation_parameter_index = 0,
     tp_original_primary_error = None, tp_terminal_archive_sha256 = None, tp_post_boot_summary = None \<rparr>"

definition store_tx :: durable_transaction where
  "store_tx = tx_record_intent fixture_codec ''write_entry'' ''/boot/entry'' (tx_seal fixture_codec store_payload)"

definition store_tx_done :: durable_transaction where
  "store_tx_done = snd (tx_complete_last fixture_codec ''evidence'' store_tx)"

definition store_fixture :: "durable_transaction \<Rightarrow> store_codec" where
  "store_fixture new = \<lparr> st_codec = fixture_codec, st_tx_json = (\<lambda>t. ''{}''),
     st_parse_tx = (\<lambda>s. if s = ''{'' then None else if s = ''old'' then Some store_tx else if s = ''{}'' \<or> s = ''{}'' @ [LF] then Some new else None),
     st_parse_manifest = (\<lambda>s. if s = ''m'' then Some fixture else None) \<rparr>"

definition store_disk :: disk where
  "store_disk = [manifest_file fixture_id \<mapsto> ''m'', tx_file fixture_id \<mapsto> ''old'']"

lemma store_fixture_codec [simp]: "st_codec (store_fixture new) = fixture_codec"
  by (simp add: store_fixture_def)

lemma store_fixture_object: "json_object (store_fixture new) new"
  by (auto simp: json_object_def store_fixture_def tx_bytes_def less_Suc_eq)

lemma store_fixture_stored: "stored (store_fixture new) fixture_id fixture store_tx store_disk"
proof -
  have "require_validation_id fixture_id = Ok ()" by code_simp
  moreover have "store_disk (manifest_file fixture_id) = Some ''m''" "store_disk (tx_file fixture_id) = Some ''old''"
    using tx_paths_distinct [of fixture_id] by (simp_all add: store_disk_def)
  moreover have "tp_validation_id (dt_payload store_tx) = fixture_id" "tp_manifest_sha256 (dt_payload store_tx) = manifest_digest (store_fixture new) fixture"
    by (simp_all add: store_tx_def tx_record_intent_def tx_set_def tx_seal_def store_payload_def manifest_digest_def)
  moreover have "tx_validate (tx_digest fixture_codec) store_tx = Ok ()"
    unfolding store_tx_def tx_record_intent_def by (rule tx_validate_set) (simp add: tx_seal_def)
  ultimately show ?thesis
    by (simp add: stored_def store_fixture_def fixture_valid)
qed

lemma store_fixture_clean: "store_disk (tx_new_file fixture_id) = None"
  using tx_paths_distinct [of fixture_id] by (simp add: store_disk_def)

lemma store_complete: "tx_complete_last fixture_codec ''evidence'' store_tx = (Ok (), store_tx_done)"
  "\<not> mr_completed (last (tp_mutation_records (dt_payload store_tx)))"
  by (simp_all add: store_tx_done_def tx_complete_last_def Let_def store_tx_def tx_record_intent_def tx_set_def tx_seal_def)

lemma crash_outcomes_witness:
  "\<exists>e. load_transaction (store_fixture store_tx_done) fixture_id (store_disk(tx_new_file fixture_id \<mapsto> ''{'')) =
     (Err e, store_disk(tx_new_file fixture_id \<mapsto> ''{''))"
proof -
  let ?C = "store_fixture store_tx_done" and ?tmp = "tx_new_file fixture_id"
  let ?d = "store_disk(?tmp \<mapsto> ''{'')"
  have v: "tx_validate (tx_digest (st_codec ?C)) store_tx_done = Ok ()" "same_identity store_tx store_tx_done"
    by (simp_all add: store_tx_done_def tx_complete_last_def Let_def store_tx_def tx_record_intent_def same_identity_def tx_set_def tx_seal_def tx_validate_def)
  have b: "tx_bytes ?C store_tx_done = ''{}'' @ [LF]" "st_tx_json ?C store_tx_done = ''{}''" by (simp_all add: tx_bytes_def store_fixture_def)
  have "?d \<in> set (replace_states ?C (tx_file fixture_id) store_tx_done store_disk)"
    unfolding replace_states_set [of store_disk "tx_file fixture_id", OF store_fixture_clean] b
    by (intro UnI1 UnI2 CollectI exI [of _ 1]) simp
  note out = crash_outcomes [OF store_fixture_stored store_fixture_clean v store_fixture_object this, unfolded b]
  have "?d ?tmp = Some ''{''" by simp
  moreover have "rename_new (tx_file fixture_id) x ?tmp = None" for x by (simp add: rename_new_def)
  ultimately have "?d \<noteq> store_disk" "?d \<noteq> rename_new (tx_file fixture_id) x" for x
    using store_fixture_clean by (metis option.distinct(1))+
  moreover have "\<not> length ''{}'' \<le> n" if "?d = store_disk(?tmp \<mapsto> take n (''{}'' @ [LF]))" for n
    using fun_cong [OF that, of ?tmp] by (cases n; cases "n - 1") auto
  ultimately show ?thesis using out by meson
qed

lemma completion_crash_unloadable_witness:
  "load_transaction (store_fixture store_tx_done) fixture_id (store_disk(tx_new_file fixture_id \<mapsto> tx_bytes (store_fixture store_tx_done) store_tx_done)) =
     (Err (StoreMsg ''stale transaction .new is not a valid monotonic successor''),
      store_disk(tx_new_file fixture_id \<mapsto> tx_bytes (store_fixture store_tx_done) store_tx_done))"
  using completion_crash_unloadable [OF store_fixture_stored store_fixture_clean, of store_tx_done "''evidence''" store_tx_done store_tx_done]
    store_complete store_fixture_object by simp

end
