(* ===== verification/Tiering_Walk.thy ===== *)
theory Tiering_Walk
  imports Tiering_Storage
begin

text \<open>
  The walk to the physical device against its specification: the chain of devices, each the whole disk of the
  partition before it or its only slave, down to a device that is neither a partition nor stacked
  on another.
\<close>

abbreviation class_path :: "string \<Rightarrow> string \<Rightarrow> string" where
  "class_path r d \<equiv> resolve r (''/sys/class/block/'' @ d)"

text \<open>\<open>d'\<close> is the one device below \<open>d\<close>; \<open>d\<close> is at the bottom.\<close>

definition below :: "tiering_host \<Rightarrow> string \<Rightarrow> string \<Rightarrow> string \<Rightarrow> bool" where
  "below H r d d' \<longleftrightarrow> (case partition_parent H (class_path r d) of
     Some parent \<Rightarrow> d' = parent | None \<Rightarrow> tier_read_names H (path_join (class_path r d) ''slaves'') = [d'])"

definition at_bottom :: "tiering_host \<Rightarrow> string \<Rightarrow> string \<Rightarrow> bool" where
  "at_bottom H r d \<longleftrightarrow> partition_parent H (class_path r d) = None \<and> tier_read_names H (path_join (class_path r d) ''slaves'') = []"

definition storage_path :: "tiering_host \<Rightarrow> string \<Rightarrow> string \<Rightarrow> string list \<Rightarrow> bool" where
  "storage_path H r d c \<longleftrightarrow> c \<noteq> [] \<and> hd c = d \<and> distinct c \<and> list_all (\<lambda>x. valid_block_name x \<and> hf_exists H (class_path r x)) c \<and>
     successively (below H r) c"

lemma storage_path_Cons:
  "storage_path H r d (x # c) \<longleftrightarrow> x = d \<and> d \<notin> set c \<and> valid_block_name d \<and> hf_exists H (class_path r d) \<and>
     (c = [] \<or> (below H r d (hd c) \<and> storage_path H r (hd c) c))"
  by (cases c) (auto simp: storage_path_def)

text \<open>One round of the loop on an admissible device.\<close>

lemma walk_round:
  assumes "valid_block_name d" and "d \<notin> set pre" and "hf_exists H (class_path r d)"
  shows "at_bottom H r d \<Longrightarrow> storage_walk H r (Suc n) d pre = (pre @ [d], False, False)"
    and "below H r d d' \<Longrightarrow> storage_walk H r (Suc n) d pre = storage_walk H r n d' (pre @ [d])"
  using assms by (auto simp: at_bottom_def below_def Let_def split: option.splits)

lemma walk_reaches:
  assumes "storage_path H r d c" and "set c \<inter> set pre = {}"
  shows "length c \<le> n \<Longrightarrow> at_bottom H r (last c) \<Longrightarrow> storage_walk H r n d pre = (pre @ c, False, False)"
    and "length c = n \<Longrightarrow> below H r (last c) d' \<Longrightarrow> storage_walk H r n d pre = (pre @ c, False, False)"
  using assms
proof (induction c arbitrary: d pre n)
  case (Cons x c)
  { case 1
    then obtain k where n: "n = Suc k" "length c \<le> k" by (cases n) auto
    note x = 1(3) [unfolded storage_path_Cons]
    show ?case
    proof (cases "c = []")
      case True
      then show ?thesis using 1 x n walk_round(1) [of d pre H r k] by auto
    next
      case False
      then have "storage_walk H r k (hd c) (pre @ [d]) = ((pre @ [d]) @ c, False, False)"
        using 1 x n by (intro Cons.IH(1)) auto
      then show ?thesis using False x n 1(4) walk_round(2) [of d pre H r "hd c" k] by auto
    qed }
  { case 2
    then obtain k where n: "n = Suc k" "length c = k" by (cases n) auto
    note x = 2(3) [unfolded storage_path_Cons]
    show ?case
    proof (cases "c = []")
      case True
      then show ?thesis using 2 x n walk_round(2) [of d pre H r d' k] by auto
    next
      case False
      then have "storage_walk H r k (hd c) (pre @ [d]) = ((pre @ [d]) @ c, False, False)"
        using 2 x n by (intro Cons.IH(2)) auto
      then show ?thesis using False x n 2(4) walk_round(2) [of d pre H r "hd c" k] by auto
    qed }
qed (simp_all add: storage_path_def)

lemma walk_admits:
  "storage_walk H r (Suc n) d pre = (ch, False, q) \<Longrightarrow>
     valid_block_name d \<and> d \<notin> set pre \<and> hf_exists H (class_path r d) \<and> (at_bottom H r d \<or> (\<exists>d'. below H r d d'))"
  by (auto simp: at_bottom_def below_def Let_def split: if_splits option.splits list.splits)

declare storage_walk.simps [simp del]

definition walk_result :: "tiering_host \<Rightarrow> string \<Rightarrow> nat \<Rightarrow> string \<Rightarrow> string list \<Rightarrow> bool" where
  "walk_result H r n d c \<longleftrightarrow> storage_path H r d c \<and>
     (length c \<le> n \<and> at_bottom H r (last c) \<or> length c = n \<and> (\<exists>d'. below H r (last c) d'))"

lemma walk_stops:
  assumes "storage_walk H r (Suc n) d pre = (ch, False, q)"
  shows "\<exists>c. ch = pre @ c \<and> set c \<inter> set pre = {} \<and> walk_result H r (Suc n) d c"
  using assms
proof (induction n arbitrary: d pre)
  case 0
  note adm = walk_admits [OF "0.prems"]
  then show ?case
    using "0.prems" walk_round [where n = 0 and d = d and pre = pre and H = H and r = r]
    by (intro exI [of _ "[d]"]) (auto simp: walk_result_def storage_path_def storage_walk.simps(1))
next
  case (Suc n)
  note adm = walk_admits [OF Suc.prems]
  show ?case
  proof (cases "at_bottom H r d")
    case True
    then show ?thesis using Suc.prems adm walk_round(1) [of d pre H r "Suc n"]
      by (intro exI [of _ "[d]"]) (auto simp: walk_result_def storage_path_def)
  next
    case False
    then obtain d' where d': "below H r d d'" using adm by blast
    then have "storage_walk H r (Suc n) d' (pre @ [d]) = (ch, False, q)"
      using Suc.prems adm walk_round(2) [of d pre H r d' "Suc n"] by simp
    from Suc.IH [OF this] obtain c where c: "ch = (pre @ [d]) @ c" "set c \<inter> set (pre @ [d]) = {}" "walk_result H r (Suc n) d' c"
      by blast
    then have "c \<noteq> []" "hd c = d'" by (auto simp: walk_result_def storage_path_def)
    then have "walk_result H r (Suc (Suc n)) d (d # c)"
      using c(2,3) adm d' by (auto simp: walk_result_def storage_path_Cons)
    then show ?thesis using c(1,2) adm by (intro exI [of _ "d # c"]) auto
  qed
qed

lemma walk_exact:
  "(\<exists>q. storage_walk H r (Suc n) d [] = (c, False, q)) \<longleftrightarrow> walk_result H r (Suc n) d c"
proof
  assume "walk_result H r (Suc n) d c"
  then show "\<exists>q. storage_walk H r (Suc n) d [] = (c, False, q)"
    using walk_reaches [of H r d c "[]" "Suc n"] by (auto simp: walk_result_def)
qed (use walk_stops [of H r n d "[]" c] in auto)

abbreviation device_of :: "string \<Rightarrow> string" where
  "device_of source \<equiv> unwrap_or source (strip_prefix ''/dev/'' source)"

lemma inspect_storage_walk:
  "sg_chain (inspect_storage H r source fs) = fst (storage_walk H r 8 (device_of source) [])"
  "sg_ambiguous (inspect_storage H r source fs) = fst (snd (storage_walk H r 8 (device_of source) []))"
  by (simp_all add: inspect_storage_def Let_def split: prod.splits)

lemma inspect_block_name: "map_option bd_name (inspect_block H r name) = Some name"
  by (simp add: inspect_block_def Let_def)

lemma inspect_storage_physical:
  assumes "\<not> sg_ambiguous (inspect_storage H r source fs)" and "sg_chain (inspect_storage H r source fs) \<noteq> []"
  shows "map_option bd_name (sg_physical (inspect_storage H r source fs)) = Some (last (sg_chain (inspect_storage H r source fs)))"
  using assms inspect_block_name [of H r "last (sg_chain (inspect_storage H r source fs))"]
  by (simp add: inspect_storage_def Let_def split: prod.splits)

lemma storage_chain_iff:
  "\<not> sg_ambiguous (inspect_storage H r source fs) \<and> sg_chain (inspect_storage H r source fs) = c \<longleftrightarrow>
     walk_result H r 8 (device_of source) c"
  using walk_exact [of H r 7 "device_of source" c]
  by (cases "storage_walk H r 8 (device_of source) []") (auto simp: inspect_storage_walk numeral_eq_Suc)

text \<open>C20. The walk to the physical device is exact. The topology of a mount source is unambiguous with a
  given chain exactly when the chain leads down from the source, without repetition and over existing devices
  with admissible names, and ends at the bottom within eight devices or is cut after the eighth; its
  physical device is then the last of the chain. An ambiguous topology has no physical device and never
  a profile that may be validated by booting.\<close>

theorem storage_walk_exact:
  "(\<not> sg_ambiguous (inspect_storage H r source fs) \<and> sg_chain (inspect_storage H r source fs) = c \<longleftrightarrow>
     storage_path H r (device_of source) c \<and>
     (length c \<le> 8 \<and> at_bottom H r (last c) \<or> length c = 8 \<and> (\<exists>d'. below H r (last c) d'))) \<and>
   (let t = inspect_storage H r source fs in
    if sg_ambiguous t then sg_physical t = None \<and> \<not> is_some_and boot_supported (sg_profile t)
    else map_option bd_name (sg_physical t) = Some (last (sg_chain t)))"
proof
  let ?t = "inspect_storage H r source fs"
  show "\<not> sg_ambiguous ?t \<and> sg_chain ?t = c \<longleftrightarrow> storage_path H r (device_of source) c \<and>
     (length c \<le> 8 \<and> at_bottom H r (last c) \<or> length c = 8 \<and> (\<exists>d'. below H r (last c) d'))"
    unfolding storage_chain_iff walk_result_def ..
  show "let t = ?t in if sg_ambiguous t then sg_physical t = None \<and> \<not> is_some_and boot_supported (sg_profile t)
    else map_option bd_name (sg_physical t) = Some (last (sg_chain t))"
  proof (cases "sg_ambiguous ?t")
    case True
    then show ?thesis by (auto simp: inspect_storage_def Let_def boot_supported_def split: prod.splits)
  next
    case False
    then have "sg_chain ?t \<noteq> []" using storage_chain_iff [of H r source fs "sg_chain ?t"]
      by (auto simp: walk_result_def storage_path_def)
    then show ?thesis using False inspect_storage_physical by (simp add: Let_def)
  qed
qed

text \<open>A deep stack is cut short and not reported. Under a chain of more than eight devices the topology is
  unambiguous all the same, its chain ends after eight devices, and the eighth, which lies on
  another device, is inspected as the physical one; the device at the bottom does not occur.\<close>

theorem storage_depth_truncated:
  assumes "storage_path H r (device_of source) c" and "8 < length c"
  shows "let t = inspect_storage H r source fs in \<not> sg_ambiguous t \<and> sg_chain t = take 8 c \<and>
    map_option bd_name (sg_physical t) = Some (c ! 7) \<and> below H r (c ! 7) (c ! 8) \<and> last c \<notin> set (sg_chain t)"
proof -
  let ?t = "inspect_storage H r source fs"
  have succ: "successively (below H r) c" and ne: "c \<noteq> []" "distinct c" using assms(1) by (auto simp: storage_path_def)
  have b: "below H r (c ! 7) (c ! 8)" using successively_nth [OF succ, of 7] assms(2) by simp
  have "successively (below H r) (take 8 c @ drop 8 c)" using succ by simp
  then have "successively (below H r) (take 8 c)" by (simp only: successively_append_iff)
  then have "storage_path H r (device_of source) (take 8 c)"
    using assms by (auto simp: storage_path_def list_all_iff dest: in_set_takeD)
  moreover have l: "length (take 8 c) = 8" "last (take 8 c) = c ! 7"
    using assms(2) ne(1) last_conv_nth [of "take 8 c"] by (auto simp: min_def)
  ultimately have w: "\<not> sg_ambiguous ?t" "sg_chain ?t = take 8 c"
    using storage_chain_iff [of H r source fs "take 8 c"] b by (auto simp: walk_result_def)
  have "last c = c ! (length c - 1)" using ne by (simp add: last_conv_nth)
  then have "last c \<notin> set (take 8 c)"
    using ne(2) assms(2) by (auto simp: in_set_conv_nth nth_eq_iff_index_eq)
  moreover have "map_option bd_name (sg_physical ?t) = Some (last (sg_chain ?t))"
    using w assms(2) by (intro inspect_storage_physical) auto
  ultimately show ?thesis using w b l by (simp add: Let_def)
qed

text \<open>A host with a stack of nine devices, from \<open>a\<close> to \<open>i\<close>.\<close>

definition stacked_host :: tiering_host where
  "stacked_host = \<lparr> hf_read_to_string = (\<lambda>_. Err (IoError NotFound [])),
     hf_read_dir = (\<lambda>p. case strip_prefix ''/sys/class/block/'' p of
        Some (c # rest) \<Rightarrow> if c \<in> set ''abcdefgh'' \<and> rest = ''/slaves'' then Ok [Ok [char_of ((of_char c :: nat) + 1)]]
          else Err (IoError NotFound [])
      | _ \<Rightarrow> Err (IoError NotFound [])),
     hf_exists = (\<lambda>p. length p = 18), hf_metadata = (\<lambda>_. None), ht_is_dir = (\<lambda>_. Ok False), ht_is_file = (\<lambda>_. False),
     ht_open_write = (\<lambda>_. Err (IoError NotFound [])), ht_entry_is_dir = (\<lambda>_. False),
     ht_canonicalize = (\<lambda>_. Err (IoError NotFound [])), th_entry_is_file = (\<lambda>_. Ok False), th_udevadm = (\<lambda>_. None) \<rparr>"

lemma stacked_path: "storage_path stacked_host ''/'' (device_of ''/dev/a'') (map (\<lambda>c. [c]) ''abcdefghi'')"
  by code_simp

theorem storage_depth_truncated_witness:
  "map_option bd_name (sg_physical (inspect_storage stacked_host ''/'' ''/dev/a'' ''ext4'')) = Some ''h''"
  using storage_depth_truncated [OF stacked_path, where fs = "''ext4''"] by (simp add: Let_def)

end
