(* ===== verification/Tiering_Swapfile.thy ===== *)
theory Tiering_Swapfile
  imports Tiering_Plan Zram_Linux
begin

text \<open>
  The swapfile transaction (\<open>tiering/src/backend.rs\<close>) and the zswap parameter backend (\<open>zswap_backend.rs\<close>). The
  transaction runs over the trait \<open>SwapfileBackend\<close>, the record \<open>swapfile_backend\<close>; sets of paths are sets of
  component lists, as path equality is equality of components. The contract of a swapfile backend is
  the locale \<open>swapfile_device\<close>, which the simulated backend of the crate's tests satisfies. The Linux backend runs over
  an abstract kernel; a helper is polled every twenty milliseconds for fifteen seconds, so its
  fuel is the timeout divided by the period.
\<close>

datatype tier_error = TBlocked string | TOperation string string | TVerification string

fun show_tier_error :: "tier_error \<Rightarrow> string" where
  "show_tier_error (TBlocked m) = ''tiering mutation blocked: '' @ m"
| "show_tier_error (TOperation op1 m) = ''tiering operation `'' @ op1 @ ''` failed: '' @ m"
| "show_tier_error (TVerification m) = ''tiering verification failed: '' @ m"

type_synonym path_set = "path_component list set"

record 'b swapfile_backend =
  sf_active_swaps :: "'b \<Rightarrow> (tier_error, path_set) result"
  sf_create_owned :: "string \<Rightarrow> filesystem_kind \<Rightarrow> u64 \<Rightarrow> (tier_error, 'b, unit) eff"
  sf_activate_owned :: "string \<Rightarrow> i32 \<Rightarrow> (tier_error, 'b, unit) eff"
  sf_deactivate_owned :: "string \<Rightarrow> (tier_error, 'b, unit) eff"
  sf_remove_owned :: "string \<Rightarrow> (tier_error, 'b, unit) eff"
  sf_is_owned :: "string \<Rightarrow> 'b \<Rightarrow> bool"

record swapfile_snapshot =
  mn_path :: string
  mn_baseline_swaps :: path_set
  mn_created :: bool
  mn_activated :: bool
  mn_rollback_pending :: bool
  mn_rolled_back :: bool
  mn_last_error :: "string option"

record swap_outcome =
  so_created :: bool
  so_activated :: bool
  so_verified :: bool
  so_rolled_back :: bool

definition swap_rolled_back :: swap_outcome where
  "swap_rolled_back = \<lparr> so_created = False, so_activated = False, so_verified = True, so_rolled_back = True \<rparr>"

type_synonym ('b, 'a) swap_tx = "(tier_error, 'b \<times> swapfile_snapshot, 'a) eff"

text \<open>Some swap of the baseline has to be active.\<close>

definition require_baseline :: "string \<Rightarrow> path_set \<Rightarrow> ('b, unit) swap_tx" where
  "require_baseline message active = bindA (s_get mn_baseline_swaps) (\<lambda>baseline.
     whenA (baseline \<noteq> {} \<and> baseline \<inter> active = {}) (throw (TVerification message)))"

definition rollback_deactivate :: "'b swapfile_backend \<Rightarrow> string \<Rightarrow> ('b, unit) swap_tx" where
  "rollback_deactivate B path =
     bindA (b_read (sf_active_swaps B)) (\<lambda>active.
     whenA (path_components path \<in> active) (
       bindA (b_op (sf_deactivate_owned B path)) (\<lambda>_.
       bindA (b_read (sf_active_swaps B)) (\<lambda>active.
       require_baseline ''rollback would lose all baseline swap'' active))))"

definition rollback_swapfile :: "'b swapfile_backend \<Rightarrow> ('b, swap_outcome) swap_tx" where
  "rollback_swapfile B = bindA (s_get (\<lambda>s. s)) (\<lambda>s.
     if mn_rolled_back s then ret swap_rolled_back
     else bindA (\<lambda>w. (Ok (sf_is_owned B (mn_path s) (fst w)), w)) (\<lambda>owned.
       if \<not> owned \<and> (mn_created s \<or> mn_activated s) then throw (TBlocked ''rollback ownership is ambiguous'')
       else bindA (whenA (mn_activated s) (rollback_deactivate B (mn_path s))) (\<lambda>_.
            bindA (whenA (mn_created s) (b_op (sf_remove_owned B (mn_path s)))) (\<lambda>_.
            bindA (s_modify (\<lambda>s. s\<lparr> mn_rollback_pending := False, mn_rolled_back := True \<rparr>)) (\<lambda>_.
            ret swap_rolled_back)))))"

definition apply_body :: "'b swapfile_backend \<Rightarrow> swapfile_plan \<Rightarrow> ('b, swap_outcome) swap_tx" where
  "apply_body B p =
     bindA (b_op (sf_create_owned B (sw_path p) (sw_filesystem p) (sw_proposed_size p))) (\<lambda>_.
     bindA (s_modify (\<lambda>s. s\<lparr> mn_created := True, mn_rollback_pending := True \<rparr>)) (\<lambda>_.
     bindA (b_op (sf_activate_owned B (sw_path p) (sw_priority p))) (\<lambda>_.
     bindA (s_modify (\<lambda>s. s\<lparr> mn_activated := True \<rparr>)) (\<lambda>_.
     bindA (b_read (sf_active_swaps B)) (\<lambda>active.
     bindA (whenA (path_components (sw_path p) \<notin> active) (throw (TVerification ''owned swapfile is not active''))) (\<lambda>_.
     bindA (require_baseline ''no-swap-loss invariant violated'' active) (\<lambda>_.
     ret \<lparr> so_created = True, so_activated = True, so_verified = True, so_rolled_back = False \<rparr>)))))))"

definition apply_swapfile :: "'b swapfile_backend \<Rightarrow> swapfile_plan \<Rightarrow> ('b, swap_outcome) swap_tx" where
  "apply_swapfile B p =
     (if sw_dry_run p then ret \<lparr> so_created = False, so_activated = False, so_verified = False, so_rolled_back = False \<rparr>
      else if \<not> sw_allowed p then throw (TBlocked (join '','' (sw_blocked_reasons p)))
      else catchA (apply_body B p) (\<lambda>e.
        bindA (s_modify (\<lambda>s. s\<lparr> mn_last_error := Some (show_tier_error e) \<rparr>)) (\<lambda>_ w.
        (Err e, snd (rollback_swapfile B w)))))"

subsection \<open>The contract of a backend\<close>

text \<open>\<open>act\<close> are the active swaps and \<open>own\<close> the files the backend owns. A failed operation may have taken effect on
  its own file; no operation concerns another.\<close>

locale swapfile_device =
  fixes B :: "'b swapfile_backend"
    and act :: "'b \<Rightarrow> path_set"
    and own :: "'b \<Rightarrow> path_set"
  assumes active_reads: "sf_active_swaps B b = Ok s \<Longrightarrow> s = act b"
    and owned_reads: "sf_is_owned B p b \<longleftrightarrow> path_components p \<in> own b"
    and create_law: "sf_create_owned B p fs n b = (r, b') \<Longrightarrow> act b' = act b \<and>
      own b' = (if r = Ok () then insert (path_components p) (own b) else own b)"
    and activate_law: "sf_activate_owned B p i b = (r, b') \<Longrightarrow> own b' = own b \<and> act b' - {path_components p} = act b - {path_components p} \<and>
      (r = Ok () \<longrightarrow> path_components p \<in> act b')"
    and deactivate_law: "sf_deactivate_owned B p b = (r, b') \<Longrightarrow> own b' = own b \<and> act b' - {path_components p} = act b - {path_components p} \<and>
      (r = Ok () \<longrightarrow> path_components p \<notin> act b')"
    and remove_law: "sf_remove_owned B p b = (r, b') \<Longrightarrow> act b' = act b \<and> own b' - {path_components p} = own b - {path_components p} \<and>
      (r = Ok () \<longrightarrow> path_components p \<notin> own b')"
begin

text \<open>Everything but the file at \<open>c\<close> is as in \<open>A\<close> and \<open>O\<close>.\<close>

definition others_as :: "path_component list \<Rightarrow> path_set \<Rightarrow> path_set \<Rightarrow> 'b \<times> swapfile_snapshot \<Rightarrow> bool" where
  "others_as c A O1 w \<longleftrightarrow> act (fst w) - {c} = A - {c} \<and> own (fst w) - {c} = O1 - {c} \<and> path_components (mn_path (snd w)) = c"

definition keeps_others :: "path_component list \<Rightarrow> path_set \<Rightarrow> path_set \<Rightarrow> ('b, 'a) swap_tx \<Rightarrow> bool" where
  "keeps_others c A O1 f \<longleftrightarrow> triple (others_as c A O1) f (\<lambda>_. others_as c A O1) (others_as c A O1)"

lemma others_bind: "keeps_others c A O1 f \<Longrightarrow> (\<And>x. keeps_others c A O1 (g x)) \<Longrightarrow> keeps_others c A O1 (bindA f g)"
  unfolding keeps_others_def by (rule triple_bind)

lemma others_when: "(b \<Longrightarrow> keeps_others c A O1 f) \<Longrightarrow> keeps_others c A O1 (whenA b f)"
  unfolding keeps_others_def by (rule triple_when) auto

lemma others_if: "(b \<Longrightarrow> keeps_others c A O1 f) \<Longrightarrow> (\<not> b \<Longrightarrow> keeps_others c A O1 g) \<Longrightarrow> keeps_others c A O1 (if b then f else g)"
  by simp

lemma othersI: "(\<And>w r w'. others_as c A O1 w \<Longrightarrow> f w = (r, w') \<Longrightarrow> others_as c A O1 w') \<Longrightarrow> keeps_others c A O1 f"
  unfolding keeps_others_def by (rule tripleI) blast+

lemma others_run: "keeps_others c A O1 f \<Longrightarrow> others_as c A O1 w \<Longrightarrow> f w = (r, w') \<Longrightarrow> others_as c A O1 w'"
  by (cases r) (auto simp: keeps_others_def dest: triple_Ok triple_Err)

lemma others_steps:
  "keeps_others c A O1 (b_read g)" "keeps_others c A O1 (throw e)" "keeps_others c A O1 (ret x)"
  "keeps_others c A O1 (\<lambda>w. (r2 w, w))" "keeps_others c A O1 (s_get h)"
  "(\<And>s. mn_path (k s) = mn_path s) \<Longrightarrow> keeps_others c A O1 (s_modify k)"
  by (rule othersI; auto simp: others_as_def)+

lemma others_op:
  assumes "\<And>b r b'. f b = (r, b') \<Longrightarrow> act b' - {c} = act b - {c} \<and> own b' - {c} = own b - {c}"
  shows "keeps_others c A O1 (b_op f)"
proof (rule othersI)
  fix w r w' assume o: "others_as c A O1 w" and f: "b_op f w = (r, w')"
  have "f (fst w) = (r, fst w')" "snd w' = snd w" using f by (simp_all add: b_op_eq)
  then show "others_as c A O1 w'" using assms [of "fst w" r "fst w'"] o by (simp add: others_as_def)
qed

lemma others_calls:
  assumes c: "path_components p = c"
  shows "keeps_others c A O1 (b_op (sf_create_owned B p fs n))" "keeps_others c A O1 (b_op (sf_activate_owned B p i))"
    "keeps_others c A O1 (b_op (sf_deactivate_owned B p))" "keeps_others c A O1 (b_op (sf_remove_owned B p))"
proof -
  show "keeps_others c A O1 (b_op (sf_create_owned B p fs n))" by (rule others_op, drule create_law) (auto simp: c)
  show "keeps_others c A O1 (b_op (sf_activate_owned B p i))" by (rule others_op, drule activate_law) (simp add: c)
  show "keeps_others c A O1 (b_op (sf_deactivate_owned B p))" by (rule others_op, drule deactivate_law) (simp add: c)
  show "keeps_others c A O1 (b_op (sf_remove_owned B p))" by (rule others_op, drule remove_law) (simp add: c)
qed

lemmas others_intros = others_bind others_when others_steps others_calls

lemma others_rollback: "keeps_others c A O1 (rollback_swapfile B)"
proof (rule othersI)
  fix w r w' assume o: "others_as c A O1 w" and f: "rollback_swapfile B w = (r, w')"
  let ?k = "\<lambda>s. if mn_rolled_back s then ret swap_rolled_back
     else bindA (\<lambda>w. (Ok (sf_is_owned B (mn_path s) (fst w)), w)) (\<lambda>owned.
       if \<not> owned \<and> (mn_created s \<or> mn_activated s) then throw (TBlocked ''rollback ownership is ambiguous'')
       else bindA (whenA (mn_activated s) (rollback_deactivate B (mn_path s))) (\<lambda>_.
            bindA (whenA (mn_created s) (b_op (sf_remove_owned B (mn_path s)))) (\<lambda>_.
            bindA (s_modify (\<lambda>s. s\<lparr> mn_rollback_pending := False, mn_rolled_back := True \<rparr>)) (\<lambda>_.
            ret swap_rolled_back))))"
  have "?k (snd w) w = (r, w')" using f by (simp only: rollback_swapfile_def bindA_def s_get_def prod.case sum.case)
  moreover have p: "path_components (mn_path (snd w)) = c" using o by (simp add: others_as_def)
  have "keeps_others c A O1 (?k (snd w))" unfolding rollback_deactivate_def require_baseline_def
    by (intro others_if others_intros p) simp_all
  ultimately show "others_as c A O1 w'" using others_run o by blast
qed

lemma others_apply:
  assumes "path_components (sw_path p) = c"
  shows "keeps_others c A O1 (apply_swapfile B p)"
proof -
  have body: "keeps_others c A O1 (apply_body B p)" unfolding apply_body_def require_baseline_def
    by (intro others_intros assms) simp_all
  have "keeps_others c A O1 (catchA (apply_body B p) (\<lambda>e.
      bindA (s_modify (\<lambda>s. s\<lparr> mn_last_error := Some (show_tier_error e) \<rparr>)) (\<lambda>_ w. (Err e, snd (rollback_swapfile B w)))))"
  proof (rule othersI)
    fix w r w'
    assume o: "others_as c A O1 w" and f: "catchA (apply_body B p) (\<lambda>e.
      bindA (s_modify (\<lambda>s. s\<lparr> mn_last_error := Some (show_tier_error e) \<rparr>)) (\<lambda>_ w. (Err e, snd (rollback_swapfile B w)))) w = (r, w')"
    obtain q w1 where q: "apply_body B p w = (q, w1)" by (cases "apply_body B p w")
    have o1: "others_as c A O1 w1" by (rule others_run [OF body o q])
    show "others_as c A O1 w'"
    proof (cases q)
      case (Inl e)
      let ?w2 = "(fst w1, (snd w1)\<lparr> mn_last_error := Some (show_tier_error e) \<rparr>)"
      have "w' = snd (rollback_swapfile B ?w2)" using f q Inl by (simp add: catchA_def bindA_def s_modify_def)
      moreover have "others_as c A O1 ?w2" using o1 by (simp add: others_as_def)
      ultimately show ?thesis using others_run [OF others_rollback, of c A O1 ?w2 "fst (rollback_swapfile B ?w2)"] by simp
    next
      case (Inr x)
      then show ?thesis using f q o1 by (simp add: catchA_def)
    qed
  qed
  then show ?thesis unfolding apply_swapfile_def by (auto intro: others_steps)
qed

text \<open>What a verified application has established, and what a rollback undoes.\<close>

lemma apply_verified:
  assumes "apply_swapfile B p (b, s) = (Ok out, (b', s'))" and "so_verified out"
  shows "path_components (sw_path p) \<in> act b' \<and> path_components (sw_path p) \<in> own b' \<and> mn_created s' \<and> mn_activated s' \<and>
    mn_rolled_back s' = mn_rolled_back s \<and> (mn_baseline_swaps s = {} \<or> mn_baseline_swaps s \<inter> act b' \<noteq> {}) \<and>
    mn_path s' = mn_path s \<and> mn_baseline_swaps s' = mn_baseline_swaps s"
proof -
  have "apply_body B p (b, s) = (Ok out, (b', s'))"
    using assms by (auto simp: apply_swapfile_def catchA_Ok bindA_Ok split: if_splits)
  then obtain b1 b2 a where "sf_create_owned B (sw_path p) (sw_filesystem p) (sw_proposed_size p) b = (Ok (), b1)"
    "sf_activate_owned B (sw_path p) (sw_priority p) b1 = (Ok (), b2)" "sf_active_swaps B b2 = Ok a" "b' = b2"
    "path_components (sw_path p) \<in> a" "mn_baseline_swaps s = {} \<or> mn_baseline_swaps s \<inter> a \<noteq> {}"
    "s' = s\<lparr> mn_created := True, mn_rollback_pending := True, mn_activated := True \<rparr>"
    by (auto simp: apply_body_def require_baseline_def bindA_Ok b_op_eq whenA_def split: if_splits)
  then show ?thesis using create_law activate_law active_reads by fastforce
qed

lemma rollback_effect:
  assumes "rollback_swapfile B (b, s) = (Ok out, (b', s'))" and "\<not> mn_rolled_back s" and "mn_created s" and "mn_activated s"
  shows "path_components (mn_path s) \<notin> act b' \<and> path_components (mn_path s) \<notin> own b' \<and> mn_rolled_back s' \<and> \<not> mn_rollback_pending s'"
proof -
  from assms obtain b1 s1 where d: "rollback_deactivate B (mn_path s) (b, s) = (Ok (), (b1, s1))"
    and r: "sf_remove_owned B (mn_path s) b1 = (Ok (), b')" and s': "mn_rolled_back s' \<and> \<not> mn_rollback_pending s'"
    by (auto simp: rollback_swapfile_def bindA_Ok b_op_eq whenA_def split: if_splits)
  have "path_components (mn_path s) \<notin> act b1"
    using d by (auto simp: rollback_deactivate_def require_baseline_def bindA_Ok b_op_eq whenA_def
        split: if_splits dest: active_reads deactivate_law)
  then show ?thesis using remove_law [OF r] s' by auto
qed

end

subsection \<open>The simulated backend\<close>

record fake_swapfile =
  fw_active :: path_set
  fw_owned :: path_set
  fw_calls :: "string list"
  fw_fail :: "string option"

definition fw_call :: "string \<Rightarrow> (fake_swapfile \<Rightarrow> fake_swapfile) \<Rightarrow> (tier_error, fake_swapfile, unit) eff" where
  "fw_call name f b = (let b1 = b\<lparr> fw_calls := fw_calls b @ [name] \<rparr> in
     if fw_fail b = Some name then (Err (TVerification name), b1) else (Ok (), f b1))"

definition fake_swapfile_backend :: "fake_swapfile swapfile_backend" where
  "fake_swapfile_backend = \<lparr>
     sf_active_swaps = (\<lambda>b. Ok (fw_active b)),
     sf_create_owned = (\<lambda>p _ _. fw_call ''create'' (\<lambda>b. b\<lparr> fw_owned := insert (path_components p) (fw_owned b) \<rparr>)),
     sf_activate_owned = (\<lambda>p _. fw_call ''activate'' (\<lambda>b. b\<lparr> fw_active := insert (path_components p) (fw_active b) \<rparr>)),
     sf_deactivate_owned = (\<lambda>p. fw_call ''deactivate'' (\<lambda>b. b\<lparr> fw_active := fw_active b - {path_components p} \<rparr>)),
     sf_remove_owned = (\<lambda>p. fw_call ''remove'' (\<lambda>b. b\<lparr> fw_owned := fw_owned b - {path_components p} \<rparr>)),
     sf_is_owned = (\<lambda>p b. path_components p \<in> fw_owned b) \<rparr>"

interpretation fake_swap: swapfile_device fake_swapfile_backend fw_active fw_owned
  by unfold_locales (auto simp: fake_swapfile_backend_def fw_call_def Let_def split: if_splits)

definition transaction_plan :: swapfile_plan where
  "transaction_plan = \<lparr> sw_path = ''/var/tmp/nemor-validation-tiering-test.swap'', sw_mountpoint = ''/var/tmp'', sw_filesystem = Btrfs,
     sw_backing_device = ''/dev/nvme0n1p2'', sw_physical_device_class = NvmeClass, sw_proposed_size = 67108864, sw_priority = 10,
     sw_free_bytes = 1000000000, sw_required_headroom_bytes = 100000000, sw_ownership = SwapNemorOwned, sw_create_required = True,
     sw_format_required = True, sw_activate_required = True, sw_persistence_requested = False, sw_allowed = True,
     sw_blocked_reasons = [], sw_dry_run = False \<rparr>"

definition fresh_snapshot :: "string \<Rightarrow> path_set \<Rightarrow> swapfile_snapshot" where
  "fresh_snapshot path baseline = \<lparr> mn_path = path, mn_baseline_swaps = baseline, mn_created = False, mn_activated = False,
     mn_rollback_pending = False, mn_rolled_back = False, mn_last_error = None \<rparr>"

definition zram_host :: "string option \<Rightarrow> fake_swapfile" where
  "zram_host fail = \<lparr> fw_active = {path_components ''/dev/zram0''}, fw_owned = {}, fw_calls = [], fw_fail = fail \<rparr>"

subsection \<open>Properties of the transaction\<close>

lemma test_path_differs: "path_components (sw_path transaction_plan) \<noteq> path_components ''/dev/zram0''"
  by code_simp

text \<open>C16. A swapfile transaction concerns its own file only. On every backend that keeps the contract, where a failed
  operation may or may not have taken effect, applying a plan and rolling it back, however they end,
  leave every other active swap active, activate no other, and neither acquire nor give up another file;
  so as long as some other swap was active the machine is never without swap.\<close>

theorem swapfile_foreign_untouched:
  assumes "swapfile_device B act own" and "path_components (mn_path s) = path_components (sw_path p)"
    and "apply_swapfile B p (b, s) = (r, (b', s'))" and "rollback_swapfile B (b', s') = (q, (b'', s''))"
  shows "let c = path_components (sw_path p) in
    act b' - {c} = act b - {c} \<and> own b' - {c} = own b - {c} \<and> act b'' - {c} = act b - {c} \<and> own b'' - {c} = own b - {c}"
proof -
  let ?c = "path_components (sw_path p)"
  have s: "swapfile_device.others_as act own ?c (act b) (own b) (b, s)"
    using assms(2) by (simp add: swapfile_device.others_as_def [OF assms(1)])
  note a = swapfile_device.others_run [OF assms(1) swapfile_device.others_apply [OF assms(1) refl] s assms(3)]
  note r = swapfile_device.others_run [OF assms(1) swapfile_device.others_rollback [OF assms(1)] a assms(4)]
  show ?thesis using a r by (simp add: swapfile_device.others_as_def [OF assms(1)] Let_def)
qed

lemma test_plan [simp]: "\<not> sw_dry_run transaction_plan" "sw_allowed transaction_plan"
  by (simp_all add: transaction_plan_def)

abbreviation test_world :: "fake_swapfile \<times> swapfile_snapshot" where
  "test_world \<equiv> (zram_host None, fresh_snapshot (sw_path transaction_plan) {path_components ''/dev/zram0''})"

lemmas swap_eval = apply_swapfile_def apply_body_def rollback_swapfile_def rollback_deactivate_def require_baseline_def
  bindA_def catchA_def whenA_def ret_def throw_def b_read_def b_op_def s_modify_def s_get_def

lemmas fake_swap_eval = fake_swapfile_backend_def fw_call_def zram_host_def fresh_snapshot_def

lemma test_apply:
  "\<exists>out b' s'. apply_swapfile fake_swapfile_backend transaction_plan test_world = (Ok out, (b', s')) \<and> so_verified out \<and>
   (\<exists>out2 b'' s''. rollback_swapfile fake_swapfile_backend (b', s') = (Ok out2, (b'', s'')))"
  using test_path_differs by (simp add: swap_eval fake_swap_eval Let_def)

theorem swapfile_foreign_untouched_witness:
  "\<exists>r b' s'. apply_swapfile fake_swapfile_backend transaction_plan test_world = (r, (b', s')) \<and>
     path_components ''/dev/zram0'' \<in> fw_active b'"
proof -
  obtain out b' s' out2 b'' s'' where a: "apply_swapfile fake_swapfile_backend transaction_plan test_world = (Ok out, (b', s'))"
    and r: "rollback_swapfile fake_swapfile_backend (b', s') = (Ok out2, (b'', s''))" using test_apply by blast
  have "fw_active b' - {path_components (sw_path transaction_plan)} =
      fw_active (zram_host None) - {path_components (sw_path transaction_plan)}"
    using swapfile_foreign_untouched [OF fake_swap.swapfile_device_axioms _ a r] by (simp add: fresh_snapshot_def Let_def)
  then show ?thesis using a test_path_differs by (auto simp: zram_host_def)
qed

text \<open>C17. Rolling back a verified application restores the machine. If a transaction on a file that was neither active nor
  owned reports a verified application and its rollback reports success, then the file was active and owned in
  between, with some swap of the baseline active if there was any, the active swaps and owned files
  are those from before, and a second rollback changes nothing.\<close>

theorem swapfile_apply_rollback:
  assumes "swapfile_device B act own" and "mn_path s = sw_path p" and "\<not> mn_rolled_back s"
    and "path_components (sw_path p) \<notin> act b \<union> own b"
    and "apply_swapfile B p (b, s) = (Ok out, (b', s'))" and "so_verified out"
    and "rollback_swapfile B (b', s') = (Ok out2, (b'', s''))"
  shows "path_components (sw_path p) \<in> act b' \<inter> own b' \<and> (mn_baseline_swaps s = {} \<or> mn_baseline_swaps s \<inter> act b' \<noteq> {}) \<and>
    act b'' = act b \<and> own b'' = own b \<and> rollback_swapfile B (b'', s'') = (Ok swap_rolled_back, (b'', s''))"
proof -
  let ?c = "path_components (sw_path p)"
  note v = swapfile_device.apply_verified [OF assms(1,5,6)]
  have m: "mn_path s' = sw_path p" "\<not> mn_rolled_back s'" "mn_created s'" "mn_activated s'" using v assms(2,3) by auto
  note r = swapfile_device.rollback_effect [OF assms(1,7) m(2-4)]
  have s: "swapfile_device.others_as act own ?c (act b) (own b) (b, s)"
    using assms(2) by (simp add: swapfile_device.others_as_def [OF assms(1)])
  note a = swapfile_device.others_run [OF assms(1) swapfile_device.others_apply [OF assms(1) refl] s assms(5)]
  note o = swapfile_device.others_run [OF assms(1) swapfile_device.others_rollback [OF assms(1)] a assms(7)]
  have "act b'' - {?c} = act b - {?c}" "own b'' - {?c} = own b - {?c}"
    using o by (simp_all add: swapfile_device.others_as_def [OF assms(1)])
  then have "act b'' = act b" "own b'' = own b" using r assms(4) by (auto simp: m(1))
  moreover have "rollback_swapfile B (b'', s'') = (Ok swap_rolled_back, (b'', s''))"
    using r by (simp add: rollback_swapfile_def bindA_def s_get_def ret_def)
  ultimately show ?thesis using v by blast
qed

theorem swapfile_apply_rollback_witness:
  "\<exists>out b' s' out2 b'' s''. apply_swapfile fake_swapfile_backend transaction_plan test_world = (Ok out, (b', s')) \<and>
     rollback_swapfile fake_swapfile_backend (b', s') = (Ok out2, (b'', s'')) \<and>
     fw_active b'' = {path_components ''/dev/zram0''} \<and> fw_owned b'' = {}"
proof -
  obtain out b' s' out2 b'' s'' where a: "apply_swapfile fake_swapfile_backend transaction_plan test_world = (Ok out, (b', s'))"
    and v: "so_verified out" and r: "rollback_swapfile fake_swapfile_backend (b', s') = (Ok out2, (b'', s''))"
    using test_apply by blast
  have "fw_active b'' = fw_active (zram_host None) \<and> fw_owned b'' = fw_owned (zram_host None)"
    using swapfile_apply_rollback [OF fake_swap.swapfile_device_axioms _ _ _ a v r] test_path_differs
    by (simp add: fresh_snapshot_def zram_host_def)
  then show ?thesis using a r by (auto simp: zram_host_def)
qed

text \<open>C40. A swapfile may be deleted while it is in use. When the activation reports an error although the swap became active,
  as a helper does that is killed at its deadline, the transaction does not record the activation, so its
  rollback skips the deactivation and removes the file: the rollback counts as complete, yet the
  swap is active on a file that is gone.\<close>

theorem swapfile_removed_while_active:
  assumes "swapfile_device B act own" and "sw_allowed p" and "\<not> sw_dry_run p" and "s = fresh_snapshot (sw_path p) baseline"
    and "sf_create_owned B (sw_path p) (sw_filesystem p) (sw_proposed_size p) b = (Ok (), b1)"
    and "sf_activate_owned B (sw_path p) (sw_priority p) b1 = (Err e, b2)" and "path_components (sw_path p) \<in> act b2"
    and "sf_remove_owned B (sw_path p) b2 = (Ok (), b3)"
  shows "\<exists>s'. apply_swapfile B p (b, s) = (Err e, (b3, s')) \<and> mn_rolled_back s' \<and>
    path_components (sw_path p) \<in> act b3 \<and> path_components (sw_path p) \<notin> own b3"
proof -
  have "path_components (sw_path p) \<in> own b2"
    using swapfile_device.create_law [OF assms(1,5)] swapfile_device.activate_law [OF assms(1,6)] by simp
  then have "sf_is_owned B (sw_path p) b2" by (simp add: swapfile_device.owned_reads [OF assms(1)])
  moreover have "act b3 = act b2" "path_components (sw_path p) \<notin> own b3"
    using swapfile_device.remove_law [OF assms(1,8)] by simp_all
  ultimately show ?thesis using assms(2-8) by (simp add: swap_eval fresh_snapshot_def)
qed

text \<open>The simulated backend on a host where activation takes effect and then reports a timeout.\<close>

definition slow_swapon :: "fake_swapfile swapfile_backend" where
  "slow_swapon = fake_swapfile_backend\<lparr> sf_activate_owned := \<lambda>p _ b.
     (Err (TOperation ''helper_timeout'' ''/usr/bin/swapon''), b\<lparr> fw_active := insert (path_components p) (fw_active b) \<rparr>) \<rparr>"

interpretation slow_swap: swapfile_device slow_swapon fw_active fw_owned
  by unfold_locales (auto simp: slow_swapon_def fake_swapfile_backend_def fw_call_def Let_def split: if_splits)

theorem swapfile_removed_while_active_witness:
  "\<exists>e b3 s'. apply_swapfile slow_swapon transaction_plan test_world = (Err e, (b3, s')) \<and> mn_rolled_back s' \<and>
     path_components (sw_path transaction_plan) \<in> fw_active b3 \<and> path_components (sw_path transaction_plan) \<notin> fw_owned b3"
proof -
  let ?b1 = "snd (sf_create_owned slow_swapon (sw_path transaction_plan) (sw_filesystem transaction_plan)
      (sw_proposed_size transaction_plan) (zram_host None))"
  let ?b2 = "snd (sf_activate_owned slow_swapon (sw_path transaction_plan) (sw_priority transaction_plan) ?b1)"
  have "\<exists>s'. apply_swapfile slow_swapon transaction_plan test_world = (Err (TOperation ''helper_timeout'' ''/usr/bin/swapon''),
      (snd (sf_remove_owned slow_swapon (sw_path transaction_plan) ?b2), s')) \<and> mn_rolled_back s' \<and>
      path_components (sw_path transaction_plan) \<in> fw_active (snd (sf_remove_owned slow_swapon (sw_path transaction_plan) ?b2)) \<and>
      path_components (sw_path transaction_plan) \<notin> fw_owned (snd (sf_remove_owned slow_swapon (sw_path transaction_plan) ?b2))"
    by (rule swapfile_removed_while_active [OF slow_swap.swapfile_device_axioms _ _ refl, where ?b1.0 = ?b1 and ?b2.0 = ?b2])
      (simp_all add: slow_swapon_def fake_swapfile_backend_def fw_call_def zram_host_def Let_def)
  then show ?thesis by blast
qed

end
