(* ===== verification/Tiering_Linux.thy ===== *)
theory Tiering_Linux
  imports Tiering_Swapfile
begin

text \<open>
  The Linux backends of the tiering crate: swapfiles through an allow-list of helper programs (\<open>LinuxSwapfileBackend\<close> of
  \<open>tiering/src/backend.rs\<close>) and zswap parameters through sysfs (\<open>zswap_backend.rs\<close>). The kernel is a parameter. The state of the
  swapfile backend is the pair of the kernel's state and the backend's fields.
\<close>

record file_metadata =
  fm_is_symlink :: bool
  fm_is_file :: bool
  fm_uid :: u32
  fm_mode :: u32

record 'k swap_kernel =
  sk_read_to_string :: "string \<Rightarrow> 'k \<Rightarrow> (io_error, string) result"
  sk_exists :: "string \<Rightarrow> 'k \<Rightarrow> bool"
  sk_symlink_metadata :: "string \<Rightarrow> 'k \<Rightarrow> (io_error, file_metadata) result"
  sk_remove_file :: "string \<Rightarrow> (io_error, 'k, unit) eff"
  sk_spawn :: "string \<Rightarrow> string list \<Rightarrow> (io_error, 'k, nat) eff"
  sk_try_wait :: "nat \<Rightarrow> (io_error, 'k, exit_status option) eff"
  sk_kill :: "nat \<Rightarrow> 'k \<Rightarrow> 'k"
  sk_sleep :: "nat \<Rightarrow> 'k \<Rightarrow> 'k"
  sk_late :: "'k \<Rightarrow> bool"

record linux_swapfile =
  ls_owned :: path_set
  ls_timeout_ms :: nat

definition linux_swapfile_default :: linux_swapfile where
  "linux_swapfile_default = \<lparr> ls_owned = {}, ls_timeout_ms = 15000 \<rparr>"

type_synonym ('k, 'a) ls = "(tier_error, 'k \<times> linux_swapfile, 'a) eff"

definition validation_swap :: "string \<Rightarrow> bool" where
  "validation_swap v \<longleftrightarrow> starts_with v ''/var/tmp/nemor-validation-tiering-'' \<and> ends_with v ''.swap'' \<and>
     CHR ''/'' \<notin> set (drop (length ''/var/tmp/'') v)"

definition phase6_swap :: "string \<Rightarrow> bool" where
  "phase6_swap v \<longleftrightarrow> is_some_and valid_id (Option.bind (strip_prefix ''/var/lib/nemor/validation/phase6/'' v) (strip_suffix ''/backing.swap''))"

definition require_path :: "string \<Rightarrow> (tier_error, unit) result" where
  "require_path path = (if (validation_swap path \<or> phase6_swap path \<or> path = ''/var/lib/nemor/swap/nemor-tiering.swap'') \<and>
      is_absolute path \<and> ParentDir \<notin> set (path_components path)
    then Ok () else Err (TBlocked ''path is outside the closed Nemor swapfile namespace''))"

definition ls_guard :: "(tier_error, unit) result \<Rightarrow> ('k, unit) ls" where
  "ls_guard r w = (r, w)"

definition ls_call :: "string \<Rightarrow> (io_error, 'k, 'a) eff \<Rightarrow> ('k, 'a) ls" where
  "ls_call operation f w = (case f (fst w) of
     (Inl e, k) \<Rightarrow> (Err (TOperation operation (io_text e)), (k, snd w)) | (Inr x, k) \<Rightarrow> (Ok x, (k, snd w)))"

definition resume_owned :: "'k swap_kernel \<Rightarrow> string \<Rightarrow> ('k, unit) ls" where
  "resume_owned K path = bindA (ls_guard (require_path path)) (\<lambda>_ w.
     case sk_symlink_metadata K path (fst w) of
       Inl e \<Rightarrow> throw (TOperation ''inspect_owned_swapfile'' (io_text e)) w
     | Inr md \<Rightarrow> if fm_is_symlink md \<or> \<not> fm_is_file md \<or> fm_uid md \<noteq> 0 \<or> and (fm_mode md) 511 \<noteq> 384
         then throw (TBlocked ''persisted swapfile ownership or permissions are invalid'') w
         else s_modify (\<lambda>s. s\<lparr> ls_owned := insert (path_components path) (ls_owned s) \<rparr>) w)"

definition SWAP_HELPERS :: "string list" where
  "SWAP_HELPERS = [''/usr/bin/btrfs'', ''/usr/bin/fallocate'', ''/usr/bin/chmod'', ''/usr/bin/mkswap'', ''/usr/bin/swapon'',
     ''/usr/bin/swapoff'']"

definition kill_helper :: "'k swap_kernel \<Rightarrow> string \<Rightarrow> nat \<Rightarrow> ('k, unit) ls" where
  "kill_helper K executable pid w = (Err (TOperation ''helper_timeout'' executable), (sk_kill K pid (fst w), snd w))"

fun helper_wait :: "'k swap_kernel \<Rightarrow> string \<Rightarrow> nat \<Rightarrow> nat \<Rightarrow> ('k, unit) ls" where
  "helper_wait K executable pid n = bindA (ls_call ''wait_helper'' (sk_try_wait K pid)) (\<lambda>polled w.
     case polled of
       Some status \<Rightarrow> if es_success status then ret () w
         else throw (TOperation ''helper'' (executable @ '' exited with '' @ es_text status)) w
     | None \<Rightarrow> (case n of
         0 \<Rightarrow> kill_helper K executable pid w
       | Suc m \<Rightarrow> if sk_late K (fst w) then kill_helper K executable pid w
           else helper_wait K executable pid m (sk_sleep K 20 (fst w), snd w)))"

declare helper_wait.simps [simp del]

definition swap_helper :: "'k swap_kernel \<Rightarrow> string \<Rightarrow> string list \<Rightarrow> ('k, unit) ls" where
  "swap_helper K executable args =
     (if executable \<notin> set SWAP_HELPERS then throw (TBlocked ''helper is outside the executable allow-list'')
      else bindA (ls_call ''spawn_helper'' (sk_spawn K executable args)) (\<lambda>pid.
           bindA (s_get (\<lambda>s. ls_timeout_ms s div 20)) (\<lambda>polls. helper_wait K executable pid polls)))"

definition ls_active_swaps :: "'k swap_kernel \<Rightarrow> 'k \<times> linux_swapfile \<Rightarrow> (tier_error, path_set) result" where
  "ls_active_swaps K w = (case sk_read_to_string K ''/proc/swaps'' (fst w) of
     Inl e \<Rightarrow> Err (TOperation ''read_proc_swaps'' (io_text e))
   | Inr text \<Rightarrow> Ok (set (map path_components (List.map_filter (\<lambda>l. case split_whitespace l of [] \<Rightarrow> None | t # _ \<Rightarrow> Some t)
       (drop 1 (lines text))))))"

text \<open>The cleanup of a failed creation: the file is removed when it exists, an error of that is ignored.\<close>

definition discard_file :: "'k swap_kernel \<Rightarrow> string \<Rightarrow> tier_error \<Rightarrow> ('k, unit) ls" where
  "discard_file K path e w = (Err e, if sk_exists K path (fst w) then (snd (sk_remove_file K path (fst w)), snd w) else w)"

text \<open>On ext4 the first two helpers are called with \<open>?\<close>, which returns from the function and so
  skips the cleanup; the result of the last one is cleaned up after.\<close>

definition ls_create_owned :: "'k swap_kernel \<Rightarrow> string \<Rightarrow> filesystem_kind \<Rightarrow> u64 \<Rightarrow> ('k, unit) ls" where
  "ls_create_owned K path fs n =
     bindA (ls_guard (require_path path)) (\<lambda>_.
     bindA (\<lambda>w. (Ok (sk_exists K path (fst w)), w)) (\<lambda>present.
     bindA (whenA present (throw (TBlocked ''refusing to adopt an existing swapfile''))) (\<lambda>_.
     bindA (case fs of
        Btrfs \<Rightarrow> catchA (swap_helper K ''/usr/bin/btrfs'' [''filesystem'', ''mkswapfile'', ''--size'', show_nat (unat n), path])
          (discard_file K path)
      | Ext4 \<Rightarrow>
          bindA (swap_helper K ''/usr/bin/fallocate'' [''--length'', show_nat (unat n), path]) (\<lambda>_.
          bindA (swap_helper K ''/usr/bin/chmod'' [''0600'', path]) (\<lambda>_.
          catchA (swap_helper K ''/usr/bin/mkswap'' [path]) (discard_file K path)))
      | UnsupportedFs \<Rightarrow> throw (TBlocked ''unsupported filesystem'')) (\<lambda>_.
     s_modify (\<lambda>s. s\<lparr> ls_owned := insert (path_components path) (ls_owned s) \<rparr>)))))"

definition ls_require_owned :: "string \<Rightarrow> ('k, unit) ls" where
  "ls_require_owned path = bindA (ls_guard (require_path path)) (\<lambda>_.
     bindA (s_get (\<lambda>s. path_components path \<in> ls_owned s)) (\<lambda>owned.
     whenA (\<not> owned) (throw (TBlocked ''swapfile is not owned''))))"

definition ls_activate_owned :: "'k swap_kernel \<Rightarrow> string \<Rightarrow> i32 \<Rightarrow> ('k, unit) ls" where
  "ls_activate_owned K path priority = bindA (ls_require_owned path) (\<lambda>_.
     swap_helper K ''/usr/bin/swapon'' [''--priority'', show_int priority, path])"

definition ls_deactivate_owned :: "'k swap_kernel \<Rightarrow> string \<Rightarrow> ('k, unit) ls" where
  "ls_deactivate_owned K path = bindA (ls_require_owned path) (\<lambda>_. swap_helper K ''/usr/bin/swapoff'' [path])"

text \<open>The file is struck from the owned files before it is removed.\<close>

definition ls_remove_owned :: "'k swap_kernel \<Rightarrow> string \<Rightarrow> ('k, unit) ls" where
  "ls_remove_owned K path = bindA (ls_require_owned path) (\<lambda>_.
     bindA (s_modify (\<lambda>s. s\<lparr> ls_owned := ls_owned s - {path_components path} \<rparr>)) (\<lambda>_.
     ls_call ''remove_owned_swapfile'' (sk_remove_file K path)))"

definition linux_swapfile_backend :: "'k swap_kernel \<Rightarrow> ('k \<times> linux_swapfile) swapfile_backend" where
  "linux_swapfile_backend K = \<lparr> sf_active_swaps = ls_active_swaps K, sf_create_owned = ls_create_owned K,
     sf_activate_owned = ls_activate_owned K, sf_deactivate_owned = ls_deactivate_owned K, sf_remove_owned = ls_remove_owned K,
     sf_is_owned = (\<lambda>path w. path_components path \<in> ls_owned (snd w)) \<rparr>"

subsection \<open>The closed namespace\<close>

text \<open>The three places a swapfile may have, by components.\<close>

definition in_swap_namespace :: "path_component list \<Rightarrow> bool" where
  "in_swap_namespace c \<longleftrightarrow>
     (\<exists>n. plain_name n \<and> starts_with n ''nemor-validation-tiering-'' \<and> ends_with n ''.swap'' \<and>
        c = [RootDir, NormalPart ''var'', NormalPart ''tmp'', NormalPart n]) \<or>
     (\<exists>v. valid_id v \<and> c = phase6_swapfile v) \<or>
     c = [RootDir, NormalPart ''var'', NormalPart ''lib'', NormalPart ''nemor'', NormalPart ''swap'', NormalPart ''nemor-tiering.swap'']"

lemma absolute_append:
  assumes "starts_with base ''/''" and "plain_name n"
  shows "path_components (base @ ''/'' @ n) = path_components base @ [NormalPart n]"
  using path_components_append [OF assms(1), of "[n]"] assms(2) by simp

lemma validation_swap_namespace:
  assumes "validation_swap v"
  shows "in_swap_namespace (path_components v)"
proof -
  obtain t where t: "v = ''/var/tmp/nemor-validation-tiering-'' @ t" using assms by (auto simp: validation_swap_def starts_with_iff)
  let ?n = "''nemor-validation-tiering-'' @ t"
  have v: "v = ''/var/tmp'' @ ''/'' @ ?n" using t by simp
  have "CHR ''/'' \<notin> set ?n" using assms by (simp add: validation_swap_def t)
  then have plain: "plain_name ?n" by (simp add: plain_name_def)
  obtain u where u: "v = u @ ''.swap''" using assms by (auto simp: validation_swap_def ends_with_iff)
  then have "length u + 5 = 34 + length t" using arg_cong [OF t, of length] by simp
  then have "drop 9 v = drop 9 u @ ''.swap''" by (simp add: u)
  moreover have "?n = drop 9 v" by (simp add: t)
  ultimately have "ends_with ?n ''.swap''" unfolding ends_with_iff by metis
  moreover have "path_components ''/var/tmp'' = [RootDir, NormalPart ''var'', NormalPart ''tmp'']" by code_simp
  moreover have "starts_with ''/var/tmp'' ''/''" by code_simp
  ultimately have "path_components v = [RootDir, NormalPart ''var'', NormalPart ''tmp'', NormalPart ?n]"
    unfolding v using absolute_append [of "''/var/tmp''" ?n] plain by simp
  then show ?thesis using plain \<open>ends_with ?n ''.swap''\<close> unfolding in_swap_namespace_def
    by (intro disjI1 exI [of _ ?n]) (simp add: starts_with_iff)
qed

lemma phase6_swap_namespace:
  assumes "phase6_swap v"
  shows "in_swap_namespace (path_components v)"
proof -
  obtain t i where "v = ''/var/lib/nemor/validation/phase6/'' @ t" "t = i @ ''/backing.swap''" and i: "valid_id i"
    using assms by (auto simp: phase6_swap_def is_some_and_iff bind_eq_Some_conv strip_prefix_Some_iff strip_suffix_Some_iff)
  then have v: "v = ''/var/lib/nemor/validation/phase6'' @ CHR ''/'' # join ''/'' [i, ''backing.swap'']" by simp
  have "path_components ''/var/lib/nemor/validation/phase6'' = [RootDir, NormalPart ''var'', NormalPart ''lib'', NormalPart ''nemor'',
      NormalPart ''validation'', NormalPart ''phase6'']" by code_simp
  moreover have "starts_with ''/var/lib/nemor/validation/phase6'' ''/''" by code_simp
  moreover have "plain_name i" "plain_name ''backing.swap''" using valid_id_plain [OF i] by (simp_all add: plain_name_def)
  ultimately have "path_components v = phase6_swapfile i"
    unfolding v using path_components_append [of "''/var/lib/nemor/validation/phase6''" "[i, ''backing.swap'']"]
    by (simp add: phase6_swapfile_def)
  then show ?thesis using i by (auto simp: in_swap_namespace_def)
qed

lemma require_path_namespace: "require_path p = Ok () \<Longrightarrow> in_swap_namespace (path_components p)"
proof -
  have "path_components ''/var/lib/nemor/swap/nemor-tiering.swap'' = [RootDir, NormalPart ''var'', NormalPart ''lib'', NormalPart ''nemor'',
      NormalPart ''swap'', NormalPart ''nemor-tiering.swap'']" by code_simp
  then have "in_swap_namespace (path_components ''/var/lib/nemor/swap/nemor-tiering.swap'')" by (simp add: in_swap_namespace_def)
  then show "require_path p = Ok () \<Longrightarrow> in_swap_namespace (path_components p)"
    using validation_swap_namespace phase6_swap_namespace by (auto simp: require_path_def split: if_splits)
qed

subsection \<open>Confinement\<close>

text \<open>The effects of the backend on the machine, recorded: programs run and files removed.\<close>

datatype swap_event = RanHelper string "string list" | RemovedFile string

definition recorded :: "'k swap_kernel \<Rightarrow> ('k \<times> swap_event list) swap_kernel" where
  "recorded K = \<lparr>
     sk_read_to_string = (\<lambda>p k. sk_read_to_string K p (fst k)), sk_exists = (\<lambda>p k. sk_exists K p (fst k)),
     sk_symlink_metadata = (\<lambda>p k. sk_symlink_metadata K p (fst k)),
     sk_remove_file = (\<lambda>p k. case sk_remove_file K p (fst k) of (r, k') \<Rightarrow> (r, (k', RemovedFile p # snd k))),
     sk_spawn = (\<lambda>x args k. case sk_spawn K x args (fst k) of (r, k') \<Rightarrow> (r, (k', RanHelper x args # snd k))),
     sk_try_wait = (\<lambda>pid k. case sk_try_wait K pid (fst k) of (r, k') \<Rightarrow> (r, (k', snd k))),
     sk_kill = (\<lambda>pid k. (sk_kill K pid (fst k), snd k)), sk_sleep = (\<lambda>ms k. (sk_sleep K ms (fst k), snd k)),
     sk_late = (\<lambda>k. sk_late K (fst k)) \<rparr>"

datatype swapfile_op = CallCreate filesystem_kind u64 | CallActivate i32 | CallDeactivate | CallRemove

definition swapfile_call :: "'b swapfile_backend \<Rightarrow> swapfile_op \<Rightarrow> string \<Rightarrow> (tier_error, 'b, unit) eff" where
  "swapfile_call B c path = (case c of CallCreate fs n \<Rightarrow> sf_create_owned B path fs n | CallActivate i \<Rightarrow> sf_activate_owned B path i
     | CallDeactivate \<Rightarrow> sf_deactivate_owned B path | CallRemove \<Rightarrow> sf_remove_owned B path)"

text \<open>An effect is proper for a file when it runs a helper of the list on this file, its last argument, or removes it.\<close>

fun concerns :: "string \<Rightarrow> swap_event \<Rightarrow> bool" where
  "concerns path (RanHelper x args) = (x \<in> set SWAP_HELPERS \<and> args \<noteq> [] \<and> last args = path)"
| "concerns path (RemovedFile p) = (p = path)"

abbreviation events :: "('k \<times> swap_event list) \<times> linux_swapfile \<Rightarrow> swap_event list" where
  "events w \<equiv> snd (fst w)"

definition confined_to :: "string \<Rightarrow> ('k \<times> swap_event list, 'a) ls \<Rightarrow> bool" where
  "confined_to path f \<longleftrightarrow> (\<forall>w r w'. f w = (r, w') \<longrightarrow> (\<exists>es. events w' = es @ events w \<and> list_all (concerns path) es))"

lemma confined_toI: "(\<And>w r w'. f w = (r, w') \<Longrightarrow> \<exists>es. events w' = es @ events w \<and> list_all (concerns path) es) \<Longrightarrow> confined_to path f"
  by (auto simp: confined_to_def)

lemma confined_toD: "confined_to path f \<Longrightarrow> f w = (r, w') \<Longrightarrow> \<exists>es. events w' = es @ events w \<and> list_all (concerns path) es"
  unfolding confined_to_def by blast

lemma confined_toD2:
  "confined_to path f \<Longrightarrow> f ((k, l), s) = (r, ((k', l'), s')) \<Longrightarrow> \<exists>es. l' = es @ l \<and> list_all (concerns path) es"
  by (drule (1) confined_toD) simp

lemma confined_bind:
  assumes "confined_to path f" and "\<And>x. confined_to path (g x)"
  shows "confined_to path (bindA f g)"
proof (rule confined_toI)
  fix w r w' assume b: "bindA f g w = (r, w')"
  obtain q w1 where f: "f w = (q, w1)" by (cases "f w")
  obtain es where es: "events w1 = es @ events w" "list_all (concerns path) es" using confined_toD [OF assms(1) f] by blast
  show "\<exists>es. events w' = es @ events w \<and> list_all (concerns path) es"
  proof (cases q)
    case (Inl e)
    then show ?thesis using b f es by (auto simp: bindA_def)
  next
    case (Inr x)
    then have "g x w1 = (r, w')" using b f by (simp add: bindA_def)
    from confined_toD [OF assms(2) this] es obtain fs where "events w' = (fs @ es) @ events w" "list_all (concerns path) (fs @ es)" by auto
    then show ?thesis by blast
  qed
qed

lemma confined_catch:
  assumes "confined_to path f" and "\<And>e. confined_to path (h e)"
  shows "confined_to path (catchA f h)"
proof -
  have "confined_to path (\<lambda>w. case f w of (Inl e, w') \<Rightarrow> (Ok (Inl e), w') | (Inr x, w') \<Rightarrow> (Ok (Inr x), w'))" (is "confined_to path ?f")
    by (rule confined_toI) (auto split: prod.splits sum.splits dest: confined_toD [OF assms(1)])
  then have "confined_to path (bindA ?f (\<lambda>q. case q of Inl e \<Rightarrow> h e | Inr x \<Rightarrow> ret x))"
    using assms(2) by (intro confined_bind) (auto simp: confined_to_def split: sum.splits)
  moreover have "bindA ?f (\<lambda>q. case q of Inl e \<Rightarrow> h e | Inr x \<Rightarrow> ret x) = catchA f h"
    by (auto simp: fun_eq_iff bindA_def catchA_def ret_def split: prod.splits sum.splits)
  ultimately show ?thesis by simp
qed

lemma confined_when: "confined_to path f \<Longrightarrow> confined_to path (whenA c f)"
  by (auto simp: whenA_def confined_to_def)

lemma confined_pure:
  "confined_to path (ret x)" "confined_to path (throw e)" "confined_to path (s_get g)" "confined_to path (s_modify k)"
  "confined_to path (ls_guard r)" "confined_to path (\<lambda>w. (r2 w, w))"
  by (auto simp: confined_to_def ls_guard_def)

lemma confined_removal: "confined_to path (ls_call operation (sk_remove_file (recorded K) path))"
  by (rule confined_toI) (auto simp: ls_call_def recorded_def split: prod.splits sum.splits)

lemma confined_discard: "confined_to path (discard_file (recorded K) path e)"
  by (rule confined_toI) (auto simp: discard_file_def recorded_def split: prod.splits)

lemma confined_wait: "confined_to path (helper_wait (recorded K) executable pid n)"
proof (induction n)
  have poll: "confined_to path (ls_call operation (sk_try_wait (recorded K) pid))" for operation
    by (rule confined_toI) (auto simp: ls_call_def recorded_def split: prod.splits sum.splits)
  have kill: "confined_to path (kill_helper (recorded K) executable pid)"
    by (rule confined_toI) (auto simp: kill_helper_def recorded_def)
  { case 0
    show ?case
      by (subst helper_wait.simps, rule confined_bind [OF poll])
        (auto intro!: confined_toI split: option.splits if_splits dest: confined_toD2 [OF kill]) }
  { case (Suc n)
    have "confined_to path (\<lambda>w. helper_wait (recorded K) executable pid n (sk_sleep (recorded K) 20 (fst w), snd w))"
      using Suc.IH by (auto simp: confined_to_def recorded_def)
    note step = confined_toD2 [OF this] confined_toD2 [OF kill]
    show ?case
      by (subst helper_wait.simps, rule confined_bind [OF poll], rule confined_toI)
        (auto split: option.splits if_splits dest: step) }
qed

lemma confined_helper: "args \<noteq> [] \<Longrightarrow> last args = path \<Longrightarrow> confined_to path (swap_helper (recorded K) x args)"
proof -
  assume a: "args \<noteq> []" "last args = path"
  have "confined_to path (ls_call operation (sk_spawn (recorded K) x args))" if "x \<in> set SWAP_HELPERS" for operation
    using a that by (intro confined_toI) (auto simp: ls_call_def recorded_def split: prod.splits sum.splits)
  then show ?thesis unfolding swap_helper_def by (auto intro!: confined_bind confined_pure confined_wait)
qed

lemmas confined_intros = confined_bind confined_catch confined_when confined_pure confined_removal confined_discard confined_helper

lemma confined_calls: "confined_to path (swapfile_call (linux_swapfile_backend (recorded K)) c path)"
  by (cases c)
    (auto simp: swapfile_call_def linux_swapfile_backend_def ls_create_owned_def ls_activate_owned_def ls_deactivate_owned_def
      ls_remove_owned_def ls_require_owned_def intro!: confined_intros split: filesystem_kind.split)

lemma refused_calls:
  assumes "require_path path \<noteq> Ok ()"
  shows "snd (swapfile_call (linux_swapfile_backend K) c path w) = w"
  using assms
  by (cases "require_path path"; cases c)
    (simp_all add: swapfile_call_def linux_swapfile_backend_def ls_create_owned_def ls_activate_owned_def ls_deactivate_owned_def
      ls_remove_owned_def ls_require_owned_def bindA_def ls_guard_def)

text \<open>C18. The Linux backend stays inside its namespace. Whatever the kernel answers, an operation on a path runs only programs of the
  fixed list with this path as last argument and removes no other file, and it does so only when the
  path, component by component, is one of Nemor's three kinds of swapfile; on a path outside nothing at
  all is changed; and activating, deactivating and removing have no effect on a file the backend
  does not own.\<close>

theorem swapfile_linux_confined:
  "(let es = snd (fst (snd (swapfile_call (linux_swapfile_backend (recorded K)) c path ((k, []), s))))
    in es = [] \<or> (in_swap_namespace (path_components path) \<and> list_all (concerns path) es)) \<and>
   (in_swap_namespace (path_components path) \<or> snd (swapfile_call (linux_swapfile_backend K) c path (k, s)) = (k, s)) \<and>
   ((\<exists>fs n. c = CallCreate fs n) \<or> path_components path \<in> ls_owned s \<or>
     snd (swapfile_call (linux_swapfile_backend K) c path (k, s)) = (k, s))"
proof (intro conjI)
  let ?w = "swapfile_call (linux_swapfile_backend (recorded K)) c path ((k, []), s)"
  have "\<exists>es. events (snd ?w) = es @ [] \<and> list_all (concerns path) es"
    using confined_toD [OF confined_calls, of K c path "((k, []), s)" "fst ?w" "snd ?w"] by simp
  moreover have "events (snd ?w) = []" if "require_path path \<noteq> Ok ()" using refused_calls [OF that, of "recorded K" c "((k, []), s)"] by simp
  ultimately show "let es = snd (fst (snd ?w)) in es = [] \<or> (in_swap_namespace (path_components path) \<and> list_all (concerns path) es)"
    using require_path_namespace by (auto simp: Let_def)
  show "in_swap_namespace (path_components path) \<or> snd (swapfile_call (linux_swapfile_backend K) c path (k, s)) = (k, s)"
    using refused_calls require_path_namespace by blast
  show "(\<exists>fs n. c = CallCreate fs n) \<or> path_components path \<in> ls_owned s \<or>
     snd (swapfile_call (linux_swapfile_backend K) c path (k, s)) = (k, s)"
    by (cases "require_path path"; cases c)
      (simp_all add: swapfile_call_def linux_swapfile_backend_def ls_activate_owned_def ls_deactivate_owned_def ls_remove_owned_def
        ls_require_owned_def bindA_def ls_guard_def s_get_def whenA_def throw_def ret_def)
qed

text \<open>A failed creation on ext4 leaves its file behind. When the file is allocated and setting its mode fails, the creation
  returns the error without removing the file, which the transaction does not record as created either;
  and since a creation refuses an existing file, every later attempt at this path fails.\<close>

theorem swapfile_ext4_leftover:
  assumes "require_path path = Ok ()" and "\<not> sk_exists K path k"
    and "swap_helper K ''/usr/bin/fallocate'' [''--length'', show_nat (unat n), path] (k, s) = (Ok (), w1)"
    and "swap_helper K ''/usr/bin/chmod'' [''0600'', path] w1 = (Err e, w2)" and "sk_exists K path (fst w2)"
  shows "ls_create_owned K path Ext4 n (k, s) = (Err e, w2) \<and>
    ls_create_owned K path fs n2 w2 = (Err (TBlocked ''refusing to adopt an existing swapfile''), w2)"
  using assms by (simp add: ls_create_owned_def bindA_def ls_guard_def whenA_def ret_def throw_def)

text \<open>A kernel that allocates files and refuses to change their modes; its state is whether the file exists and the program run last.\<close>

definition stubborn_kernel :: "(bool \<times> string) swap_kernel" where
  "stubborn_kernel = \<lparr> sk_read_to_string = (\<lambda>_ _. Err (IoError NotFound [])), sk_exists = (\<lambda>_ k. fst k),
     sk_symlink_metadata = (\<lambda>_ _. Err (IoError NotFound [])), sk_remove_file = (\<lambda>_ k. (Ok (), (False, snd k))),
     sk_spawn = (\<lambda>x _ k. (Ok 0, (True, x))),
     sk_try_wait = (\<lambda>_ k. (Ok (Some (ExitStatus (snd k \<noteq> ''/usr/bin/chmod'') ''exit status: 1'')), k)),
     sk_kill = (\<lambda>_ k. k), sk_sleep = (\<lambda>_ k. k), sk_late = (\<lambda>_. False) \<rparr>"

lemma stubborn_runs:
  "x \<in> set SWAP_HELPERS \<Longrightarrow> swap_helper stubborn_kernel x args (k, s) = (if x = ''/usr/bin/chmod''
     then Err (TOperation ''helper'' (x @ '' exited with '' @ ''exit status: 1'')) else Ok (), ((True, x), s))"
  by (simp add: swap_helper_def stubborn_kernel_def bindA_def ls_call_def s_get_def helper_wait.simps ret_def throw_def)

theorem swapfile_ext4_leftover_witness:
  "\<exists>e w2. ls_create_owned stubborn_kernel ''/var/lib/nemor/swap/nemor-tiering.swap'' Ext4 4096 ((False, []), linux_swapfile_default) = (Err e, w2) \<and>
     sk_exists stubborn_kernel ''/var/lib/nemor/swap/nemor-tiering.swap'' (fst w2)"
proof -
  have r: "require_path ''/var/lib/nemor/swap/nemor-tiering.swap'' = Ok ()" by code_simp
  have h: "''/usr/bin/fallocate'' \<in> set SWAP_HELPERS" "''/usr/bin/chmod'' \<in> set SWAP_HELPERS" by (simp_all add: SWAP_HELPERS_def)
  show ?thesis
    using swapfile_ext4_leftover [OF r, of stubborn_kernel "(False, [])" 4096 linux_swapfile_default
        "((True, ''/usr/bin/fallocate''), linux_swapfile_default)"] stubborn_runs [OF h(1)] stubborn_runs [OF h(2)]
    by (simp add: stubborn_kernel_def)
qed

subsection \<open>Zswap parameters\<close>

record 'k parameter_kernel =
  pk_read :: "string \<Rightarrow> 'k \<Rightarrow> (io_error, string) result"
  pk_write :: "string \<Rightarrow> string \<Rightarrow> (io_error, 'k, unit) eff"

record linux_zswap =
  lw_root :: string
  lw_allow_mutation :: bool

definition lw_observe :: linux_zswap where
  "lw_observe = \<lparr> lw_root = ''/'', lw_allow_mutation = False \<rparr>"

definition lw_for_explicit_transaction :: "bool \<Rightarrow> linux_zswap" where
  "lw_for_explicit_transaction allow = \<lparr> lw_root = ''/'', lw_allow_mutation = allow \<rparr>"

definition ZSWAP_WRITABLE :: "string list" where
  "ZSWAP_WRITABLE = [''enabled'', ''compressor'', ''zpool'', ''max_pool_percent'', ''accept_threshold_percent'', ''shrinker_enabled'']"

definition parameter_path :: "linux_zswap \<Rightarrow> string \<Rightarrow> (tier_error, string) result" where
  "parameter_path z name = (if name \<notin> set ZSWAP_WRITABLE then Err (TBlocked ''zswap parameter is outside the closed allow-list'')
     else Ok (path_join (resolve (lw_root z) ''/sys/module/zswap/parameters'') name))"

definition lw_read_parameter :: "'k parameter_kernel \<Rightarrow> linux_zswap \<Rightarrow> string \<Rightarrow> 'k \<Rightarrow> (tier_error, string option) result" where
  "lw_read_parameter K z name k = rbind (parameter_path z name) (\<lambda>path. case pk_read K path k of
     Inr v \<Rightarrow> Ok (Some (trim v))
   | Inl e \<Rightarrow> if io_kind e = NotFound then Ok None else Err (TOperation ''read_zswap_parameter'' (io_text e)))"

definition validate_value :: "string \<Rightarrow> string \<Rightarrow> (tier_error, unit) result" where
  "validate_value name v = (
     if v = [] \<or> length v > 32 \<or> \<not> list_all (\<lambda>c. is_ascii_alnum c \<or> c \<in> {CHR ''_'', CHR ''-''}) v
     then Err (TBlocked ''zswap parameter value is malformed'')
     else if name \<in> {''enabled'', ''shrinker_enabled''} \<and> v \<notin> {''Y'', ''N'', ''1'', ''0''}
     then Err (TBlocked ''zswap boolean value is invalid'')
     else if name \<in> {''max_pool_percent'', ''accept_threshold_percent''}
     then (case parse_u8 v of None \<Rightarrow> Err (TBlocked ''zswap percentage is invalid'')
       | Some number \<Rightarrow> if number = 0 \<or> number > 100 then Err (TBlocked ''zswap percentage is outside 1..=100'') else Ok ())
     else Ok ())"

definition set_parameter :: "'k parameter_kernel \<Rightarrow> linux_zswap \<Rightarrow> string \<Rightarrow> string \<Rightarrow> (tier_error, 'k, unit) eff" where
  "set_parameter K z name v k =
     (if \<not> lw_allow_mutation z then (Err (TBlocked ''zswap runtime mutation was not explicitly enabled''), k)
      else case rbind (validate_value name v) (\<lambda>_. parameter_path z name) of
        Inl e \<Rightarrow> (Err e, k)
      | Inr path \<Rightarrow> (case pk_write K path v k of
          (Inl e, k') \<Rightarrow> (Err (TOperation ''write_zswap_parameter'' (io_text e)), k')
        | (Inr _, k') \<Rightarrow> (rbind (lw_read_parameter K z name k') (\<lambda>readback.
            if readback \<noteq> Some v then Err (TVerification (''zswap '' @ name @ '' readback mismatch'')) else Ok ()), k')))"

definition read_block_stat :: "'k parameter_kernel \<Rightarrow> linux_zswap \<Rightarrow> string \<Rightarrow> 'k \<Rightarrow> (tier_error, block_stat) result" where
  "read_block_stat K z device k =
     (if device = [] \<or> CHR ''/'' \<in> set device \<or> \<not> list_all (\<lambda>c. is_ascii_alnum c \<or> c = CHR ''-'') device
      then Err (TBlocked ''block device name is outside the closed allow-list'')
      else case pk_read K (path_join (path_join (resolve (lw_root z) ''/sys/class/block'') device) ''stat'') k of
        Inl e \<Rightarrow> Err (TOperation ''read_block_stat'' (io_text e))
      | Inr v \<Rightarrow> (case parse_block_stat v of Inl e \<Rightarrow> Err (TVerification e) | Inr b \<Rightarrow> Ok b))"

text \<open>A zswap parameter is only written under explicit permission and a success is verified. The kernel is unchanged or written to
  exactly once, the value to the file of one of six parameters; the latter only if mutation is enabled and the value is
  admissible, for a percentage a number from 1 to 100; and success means that reading the parameter
  back gives the value.\<close>

theorem zswap_parameter_guarded:
  "(snd (set_parameter K z name v k) = k \<or>
     (lw_allow_mutation z \<and> name \<in> set ZSWAP_WRITABLE \<and> validate_value name v = Ok () \<and>
      snd (set_parameter K z name v k) =
        snd (pk_write K (path_join (resolve (lw_root z) ''/sys/module/zswap/parameters'') name) v k))) \<and>
   (isl (fst (set_parameter K z name v k)) \<or>
     (lw_allow_mutation z \<and> name \<in> set ZSWAP_WRITABLE \<and>
      lw_read_parameter K z name (snd (set_parameter K z name v k)) = Ok (Some v) \<and>
      (name \<notin> {''max_pool_percent'', ''accept_threshold_percent''} \<or>
        (\<exists>p. parse_u8 v = Some p \<and> 1 \<le> unat p \<and> unat p \<le> 100))))"
proof -
  have percent: "name \<notin> {''max_pool_percent'', ''accept_threshold_percent''} \<or>
      (\<exists>p. parse_u8 v = Some p \<and> 1 \<le> unat p \<and> unat p \<le> 100)" if "validate_value name v = Ok ()"
  proof -
    have "1 \<le> unat p \<and> unat p \<le> 100" if "p \<noteq> 0" "\<not> 100 < p" for p :: u8
      using that by (auto simp: word_less_nat_alt not_less unat_gt_0 Suc_le_eq)
    then show ?thesis using that by (auto simp: validate_value_def split: if_splits option.splits)
  qed
  have mismatch: "\<exists>x. rbind r (\<lambda>readback. if readback \<noteq> Some v then Err e else Ok ()) = Err x"
    if "r \<noteq> Ok (Some v)" for r and e :: tier_error
    using that by (cases r) auto
  show ?thesis
  proof (cases "lw_allow_mutation z \<and> validate_value name v = Ok () \<and> name \<in> set ZSWAP_WRITABLE")
    case True
    then show ?thesis using percent
      by (cases "pk_write K (path_join (resolve (lw_root z) ''/sys/module/zswap/parameters'') name) v k")
        (auto simp: set_parameter_def parameter_path_def isl_def intro: mismatch split: sum.splits if_splits)
  next
    case False
    then show ?thesis by (cases "validate_value name v") (auto simp: set_parameter_def parameter_path_def)
  qed
qed

text \<open>A kernel with one parameter, which takes every value.\<close>

definition echo_kernel :: "string parameter_kernel" where
  "echo_kernel = \<lparr> pk_read = (\<lambda>_ k. Ok k), pk_write = (\<lambda>_ v _. (Ok (), v)) \<rparr>"

theorem zswap_parameter_guarded_witness:
  "set_parameter echo_kernel (lw_for_explicit_transaction True) ''max_pool_percent'' ''20'' ''10'' = (Ok (), ''20'') \<and>
     (\<exists>p. parse_u8 ''20'' = Some p \<and> 1 \<le> unat p \<and> unat p \<le> 100)"
proof -
  have v: "validate_value ''max_pool_percent'' ''20'' = Ok ()" "trim ''20'' = ''20''" by code_simp+
  have s: "set_parameter echo_kernel (lw_for_explicit_transaction True) ''max_pool_percent'' ''20'' ''10'' = (Ok (), ''20'')"
    by (simp add: set_parameter_def v lw_for_explicit_transaction_def echo_kernel_def parameter_path_def ZSWAP_WRITABLE_def
        lw_read_parameter_def)
  then show ?thesis
    using zswap_parameter_guarded [of echo_kernel "lw_for_explicit_transaction True" "''max_pool_percent''" "''20''" "''10''"] by simp
qed

end
