(* ===== verification/Spec2Isabelle.thy ===== *)
theory Spec2Isabelle
  imports Observe_Audit Zram_Linux Damon_Signal Damos Ksm_Control Ksm_Scope Boot_Journal Boot_Store Tiering_Walk Tiering_Linux
begin

text \<open>
  \<^bold>\<open>Nemor\<close> is a Linux runtime that coordinates the kernel's memory mechanisms (cgroups, zram, zswap, swapfiles,
  DAMON, DAMOS, KSM) conservatively. A daemon samples the host, classifies its processes and its workload, and lets a
  policy engine decide in a dry run; the mechanisms that change the machine are separate crates, each with a planner that
  explains why a change is blocked, a transaction that records what it is about to do, and a rollback. This development models
  these crates and proves what they promise: that the running daemon changes nothing, that each transaction
  keeps to what it owns, announces a change durably before it is made and undoes it, and that plans are only
  allowed under the guards that the configuration and the observed host impose.

  \<^bold>\<open>How the code is modelled.\<close> Every operation of the source is a HOL function with the source's branches in the source's order.
  A struct is a record (fields carry a prefix), an enum a datatype, \<open>u64\<close> and the other fixed-width integers are words
  with Rust's checked, saturating and wrapping operations, \<open>usize\<close> is \<open>nat\<close>, an \<open>i64\<close> time stamp is \<open>int\<close>, strings are lists of bytes,
  and a \<open>Result\<close> is a sum. A panic is the value \<open>None\<close>. \<open>f64\<close> is binary64 with its rounding to
  nearest even written out on rationals (the sign of zero is not kept). Code outside the repository (SHA-256, TOML and JSON, the kernel's files,
  helper programs, clocks) is an argument of the definitions that use it; the traits of the crates (cgroup, snapshot store, zram, KSM, swapfile and
  boot backends) are records of operations, their contracts are locales, and the crates' own implementations (the
  simulated ones of the tests, the in-memory store) interpret them.

  \<^bold>\<open>Shared theories.\<close>
  \<^item> \<open>Prelude\<close>: integers, results, lists, collections of simplification rules; \<open>Rust_Str\<close>: the part of \<open>str\<close> the parsers use, with
    printing and parsing of numbers; \<open>Float64\<close>: \<open>f64\<close>; \<open>Gates\<close>: checks in sequence, ordered maps, invariants of
    reachable states; \<open>Effects\<close>: fallible computations over a state; \<open>Host\<close> and \<open>Paths\<close>: files as the crates see them, \<open>Path\<close> by components.

  \<^bold>\<open>Components\<close> (paths below \<open>src/crates\<close>).
  \<^item> \<open>Config\<close> (\<open>common/src/config.rs\<close>): all sections, validation and loading. A configuration that loads is in observe mode with every actuator off,
    and has the threshold orderings the other components rely on.
  \<^item> \<open>Telemetry\<close>, \<open>Collector\<close>, \<open>Process_Scan\<close> (\<open>collector/src\<close>): samples, all parsers, the telemetry source, the system sample, CPU
    tracking, the rotation of the smaps budget and the scan over the processes. The shape of a sample; a scan accounts for every process; no
    process name can forge a \<open>stat\<close> line.
  \<^item> \<open>Classifier\<close>, \<open>Workload\<close> (\<open>classifier/src\<close>): categories, ancestry (at most sixteen steps), foreground state; the
    workload rules and the stabilizer that confirms a class. What a cold candidate never is; what a reported transition needs.
  \<^item> \<open>Actuator\<close> (\<open>actuator/src/lib.rs\<close>): planning, application, verification, rollback and recovery of cgroup changes.
    Snapshots precede mutations on any backend and store; application and rollback are inverse; limits are within their percentages.
  \<^item> \<open>Policy\<close> (\<open>policy-engine/src\<close>): the hysteresis engine with rates, target states and planner. Holds, recovery through Stabilizing,
    persistent demand is met.
  \<^item> \<open>Daemon\<close> (\<open>nemord/src/lib.rs\<close>): the sampling loop as a state machine over classifier, rate tracker and engine. All decisions are inert dry
    runs, and a due tick always comes to one, which is recorded unless it repeats the latest (\<open>insert_policy_decision\<close> of \<open>storage/src/lib.rs\<close>). \<open>Observe_Audit\<close>: the audits of the host recorded beside a decision, of which none permits a change.
  \<^item> \<open>Zram_Inventory\<close>, \<open>Zram_Evidence\<close>, \<open>Zram_Profile\<close>, \<open>Zram_Transaction\<close>, \<open>Zram_Linux\<close> (\<open>zram/src\<close>): inventory, benchmarks, profile plans,
    migration between devices, and the backend that writes sysfs and runs helpers within its deadlines. The machine never loses its swap, also when a
    transaction is cut off after any operation; after a failed application recovery restores (but not after a killed one); effects are confined to owned devices.
  \<^item> \<open>Damon\<close>, \<open>Damon_Trace\<close>, \<open>Damon_Signal\<close> (\<open>damon/src/lib.rs\<close>) and \<open>Damos\<close> (\<open>damos/src/lib.rs\<close>): regions, trace windows, zone diagnostics; quotas, fences,
    candidates, recovery. Windows are recovered from their events, accepted candidates lie inside the cold fence.
  \<^item> \<open>Ksm\<close>, \<open>Ksm_Control\<close>, \<open>Ksm_Scope\<close> (\<open>ksm/src/lib.rs\<close>): protocol, scanner ownership and recovery, scope of mergeable memory.
  \<^item> \<open>Boot_Contract\<close>, \<open>Boot_Observation\<close>, \<open>Boot_Lifecycle\<close>, \<open>Boot_Fake\<close>, \<open>Boot_Stages\<close>, \<open>Boot_Journal\<close> (\<open>tiering/src/boot_validation_v6.rs\<close>) and \<open>Boot_Activation\<close>, \<open>Boot_Store\<close>
    (\<open>test-support/src/bin/nemor-tiering-boot-validation.rs\<close>): the boot validation of zswap. All commands refine the graph of stages, every call that may change something
    is announced by the record persisted last (but for the directory of the record and the manifest in it), cleanup removes nothing before it has observed and filed the baseline, and two defects
    keep a validation from completing.
    What a crash during the replacement of the durable transaction leaves to the next command, with one crash from which no command recovers.
  \<^item> \<open>Tiering_Storage\<close>, \<open>Tiering_Walk\<close>, \<open>Tiering_Plan\<close>, \<open>Tiering_Swapfile\<close>, \<open>Tiering_Linux\<close> (the other files of \<open>tiering/src\<close>): storage topology (at most eight devices),
    inventories and budgets, swapfile, pool and boot plans, the recommendation, the swapfile transaction and its Linux backend (helpers are polled at most 750 times, 20 ms apart), zswap parameters.

  \<^bold>\<open>Loops and bounds.\<close> The bounds in the definitions are those of the source: sixteen ancestors, eight stacked devices, the poll counts that
  its deadlines and sleeps amount to, with the clock a parameter of the kernel. No definition runs on fuel of its own; all are total, and loops that the
  source does not bound recurse on their input.

  \<^bold>\<open>Not modelled.\<close> The storage crate but for the insertion of a policy decision (its logic is SQL run by a library), argument parsing and printing in \<open>nemorctl\<close>, the benchmark crate (a measurement framework
  beside the runtime),
  the validation binaries of \<open>test-support\<close> other than the commands named above, which drive live kernels,
  logging, signals, timers and database calls of the daemon, and the superseded versions 2, 3 and 5 of the boot
  validation contract.
\<close>

section \<open>Properties across components\<close>

text \<open>C3. The daemon keeps deciding on what it collects. In every reachable state, after any system sample that the
  collector returns (RAM below 64 TiB, no more available than there is, swap areas not overfull), a process tick with a
  classification and a policy evaluation due, the policy enabled, comes to a decision, as long as the clock is not before
  the epoch or the last state change. The decision is in the state that the engine is then in, and it is recorded, unless
  the latest recorded one is in the same state, with the same planned and rejected actions, and younger than the
  heartbeat. No content of the pressure files and no rate, confidence or percentage computed along the way can make the
  policy engine refuse its input.\<close>

theorem daemon_decides_on_samples:
  assumes "daemon_reachable digest_hex c caps d" and "sample_system S t = Ok system"
    and "0 < ss_mem_total_bytes system" and "ss_mem_total_bytes system < 2 ^ 46" and "ss_mem_available_bytes system \<le> ss_mem_total_bytes system"
    and "list_all (\<lambda>e. se_used_bytes e \<le> se_size_bytes e) (sw_entries (ss_swap system))"
    and "pol_enabled (policy c)" and "pev_classification_due pev" and "pev_policy_due pev" and "0 \<le> pev_timestamp_ns pev"
    and "pst_entered_at_ns (eng_state (dm_engine d)) \<le> pev_timestamp_ns pev"
    and "d' = process_tick digest_hex c caps (system_tick d system) pev"
  shows "\<exists>dec. pd_timestamp_ns dec = pev_timestamp_ns pev \<and> pd_current_state dec = pst_current (eng_state (dm_engine d')) \<and>
    (dm_decisions d' = dec # dm_decisions d \<or>
     dm_decisions d' = dm_decisions d \<and> (\<exists>old. latest_decision (dm_decisions d) = Some old \<and>
       repeats_decision (pol_decision_heartbeat_seconds (policy c)) dec old))"
proof -
  have r: "daemon_reachable digest_hex c caps (system_tick d system)"
    using assms(1) by (blast intro: daemon_reachable.Step daemon_step.SystemTick)
  have f: "dm_system (system_tick d system) = Some system" "dm_decisions (system_tick d system) = dm_decisions d"
    "dm_engine (system_tick d system) = dm_engine d" by (simp_all add: system_tick_def split: prod.split)
  have "plausible_sample system" using sampled_plausible [OF assms(2)] assms(3-6) by blast
  then show ?thesis using daemon_keeps_deciding [OF r f(1) _ assms(7-10) _ assms(12)] assms(11) by (simp add: f)
qed

theorem daemon_decides_on_samples_witness:
  "\<exists>s dec. sample_system example_source 5 = Ok s \<and> pd_timestamp_ns dec = 5 \<and>
     dm_decisions (process_tick (\<lambda>x. x) default_config None (system_tick (daemon_init default_config) s) example_event) = [dec]"
proof -
  obtain s where s: "sample_system example_source 5 = Ok s" "ss_mem_total_bytes s = 8192" "ss_mem_available_bytes s = 4096"
    "sw_entries (ss_swap s) = []" using example_sample by blast
  have i: "dm_decisions (daemon_init default_config) = []" "pst_entered_at_ns (eng_state (dm_engine (daemon_init default_config))) = 0"
    by (simp_all add: daemon_init_def engine_new_def conservative_def)
  have p: "pol_enabled (policy default_config)" by (simp add: default_config_def)
  show ?thesis
    using daemon_decides_on_samples [OF daemon_reachable.Start s(1), where pev = example_event and c = default_config and caps = None and digest_hex = "\<lambda>x. x"] s p
    by (auto simp: i example_event_def)
qed

text \<open>C2. No audit permits a change. Whatever the host's files contain, the configuration says and the policy
  decided, the audit of zram has one plan for each device found, none of them allowed, each blocked because the device is
  not Nemor's own and each keeping the current algorithm; the tiering audit recommends zram and activates nothing; and
  DAMON, DAMOS and KSM are reported without a session, a plan or a scanner plan.\<close>

theorem audits_inert:
  shows "let a = audit_decision T dec c in
    (case oa_zram a of Inl _ \<Rightarrow> True | Inr r \<Rightarrow>
       map zp_target_device (za_plans r) = map di_name (inv_devices (za_inventory r)) \<and>
       list_all (\<lambda>p. \<not> zp_allowed p \<and> ''ownership_not_explicit'' \<in> set (zp_blocked_reasons p) \<and> zp_selected_algorithm p = zp_current_algorithm p) (za_plans r)) \<and>
    (case oa_tiering a of Inl _ \<Rightarrow> True | Inr r \<Rightarrow> rb_selected (ta_recommendation r) = ZramBackend \<and>
       \<not> rb_production_activation (ta_recommendation r)) \<and>
    dr_attrs_requested (oa_damon a) = None \<and> dr_zero_damos (oa_damon a) \<and> drp_plan (oa_damos a) = None \<and> kr_plan (oa_ksm a) = None"
proof -
  have z: "map zp_target_device (za_plans r) = map di_name (inv_devices (za_inventory r)) \<and>
       list_all (\<lambda>p. \<not> zp_allowed p \<and> ''ownership_not_explicit'' \<in> set (zp_blocked_reasons p) \<and> zp_selected_algorithm p = zp_current_algorithm p) (za_plans r)"
    if a: "zram_audit H dec c = Ok r" for H r
  proof -
    obtain iv where iv: "inspect_linux H ''/'' = Ok iv" and ri: "za_inventory r = iv"
      and r: "za_plans r = map (\<lambda>d. plan_profile (audit_context dec d) (compression c) (gen_mode (general c))) (inv_devices iv)"
      using a by (auto simp: zram_audit_def)
    have f: "zp_target_device (plan_profile (audit_context dec d) k m) = di_name d" "zp_current_algorithm (plan_profile (audit_context dec d) k m) = di_current_algorithm d"
      for d k m by (simp_all add: plan_profile_def audit_context_def Let_def)
    show ?thesis using audit_plan_blocked [OF inspect_linux_foreign [OF iv]] by (simp add: r ri f list_all_iff comp_def)
  qed
  have t: "rb_selected (ta_recommendation r) = ZramBackend \<and> \<not> rb_production_activation (ta_recommendation r)"
    if "tier_inspect_host T (tiering c) t = Ok r" for r t
    using that by (auto simp: tier_inspect_host_def no_baseline_keeps_zram Let_def split: sum.splits prod.splits)
  show ?thesis
    unfolding Let_def audit_decision_def using z t
    by (auto simp: observe_report_def damos_audit_def ksm_inspect_linux_def Let_def split: sum.splits)
qed

end
